(* ===== verification/Go_Prelude.thy ===== *)
theory Go_Prelude
  imports Main "HOL-Library.List_Lexorder" "HOL-Library.Char_ord" "HOL-Library.Product_Lexorder"
begin

text \<open>
  The vocabulary the components share: Go's instants and durations, 64-bit
  wrap-around, Go slices with their run-time bounds check, the error values of
  the program, and the generic facts on lists, maps and sorting the component
  proofs rest on.

  An instant (\<open>time.Time\<close>) is the number of nanoseconds since Go's zero time, so
  that \<open>time.Time{}\<close> is 0 and \<open>IsZero\<close> is a comparison with 0; the \<open>UTC\<close>
  conversions of the source do not change the instant and are left out.
  A \<open>time.Duration\<close> is a number of nanoseconds.
\<close>

section \<open>Collections of facts\<close>

named_theorems go_defs \<open>defining equations of the small operations of the Go run time\<close>

section \<open>Instants and durations\<close>

type_synonym gotime = int
type_synonym duration = int

abbreviation (input) zeroTime :: gotime where "zeroTime \<equiv> 0"

definition IsZero :: "gotime \<Rightarrow> bool" where
  "IsZero t \<longleftrightarrow> t = zeroTime"

definition After :: "gotime \<Rightarrow> gotime \<Rightarrow> bool" where
  "After t u \<longleftrightarrow> u < t"

definition Before :: "gotime \<Rightarrow> gotime \<Rightarrow> bool" where
  "Before t u \<longleftrightarrow> t < u"

lemmas [go_defs, simp] = IsZero_def After_def Before_def

abbreviation (input) Nanosecond :: duration where "Nanosecond \<equiv> 1"
abbreviation (input) Millisecond :: duration where "Millisecond \<equiv> 1000000"
abbreviation (input) Second :: duration where "Second \<equiv> 1000000000"
abbreviation (input) Minute :: duration where "Minute \<equiv> 60000000000"
abbreviation (input) Hour :: duration where "Hour \<equiv> 3600000000000"

text \<open>Nanoseconds between Go's zero time and the Unix epoch, and \<open>Time.UnixNano\<close>.\<close>

definition unix_epoch :: gotime where
  "unix_epoch = 62135596800 * Second"

definition UnixNano :: "gotime \<Rightarrow> int" where
  "UnixNano t = t - unix_epoch"

lemma UnixNano_inj [simp]: "UnixNano t = UnixNano u \<longleftrightarrow> t = u"
  by (simp add: UnixNano_def)

section \<open>64-bit signed arithmetic\<close>

text \<open>\<open>wrap64\<close> is the value a 64-bit two's complement register holds.\<close>

definition wrap64 :: "int \<Rightarrow> int" where
  "wrap64 x = (x + 2 ^ 63) mod 2 ^ 64 - 2 ^ 63"

definition int64_range :: "int \<Rightarrow> bool" where
  "int64_range x \<longleftrightarrow> - (2 ^ 63) \<le> x \<and> x < 2 ^ 63"

lemma wrap64_id: "int64_range x \<Longrightarrow> wrap64 x = x"
  by (simp add: wrap64_def int64_range_def)

lemma wrap64_range: "int64_range (wrap64 x)"
  unfolding wrap64_def int64_range_def
  using pos_mod_bound [of "2 ^ 64" "x + 2 ^ 63"] pos_mod_sign [of "2 ^ 64" "x + 2 ^ 63"] by simp

section \<open>Go slices\<close>

text \<open>
  \<open>xs[i:j]\<close> panics unless \<open>0 \<le> i \<le> j \<le> len xs\<close>; the panic is \<open>None\<close>. (The
  capacity of the sliced value is its length wherever the program slices.)
\<close>

definition go_slice :: "'a list \<Rightarrow> int \<Rightarrow> int \<Rightarrow> 'a list option" where
  "go_slice xs i j =
     (if 0 \<le> i \<and> i \<le> j \<and> j \<le> int (length xs)
      then Some (take (nat (j - i)) (drop (nat i) xs)) else None)"

text \<open>The page the listing operations return: \<open>xs[offset : min(offset+limit, total)]\<close>.\<close>

definition go_page :: "'a list \<Rightarrow> int \<Rightarrow> int \<Rightarrow> 'a list option" where
  "go_page xs offset limit =
     (let total = int (length xs) in
      if offset > total then Some []
      else go_slice xs offset (min (wrap64 (offset + limit)) total))"

lemma go_page_defined:
  assumes "0 \<le> offset" "0 \<le> limit" "limit < 2 ^ 62" "int (length xs) < 2 ^ 62"
  shows "go_page xs offset limit = Some (take (nat limit) (drop (nat offset) xs))"
proof (cases "offset > int (length xs)")
  case True
  then show ?thesis by (simp add: go_page_def)
next
  case False
  with assms have w: "wrap64 (offset + limit) = offset + limit"
    by (intro wrap64_id) (simp add: int64_range_def)
  let ?e = "min (offset + limit) (int (length xs))"
  have "take (nat (?e - offset)) (drop (nat offset) xs) = take (nat limit) (drop (nat offset) xs)"
  proof (cases "offset + limit \<le> int (length xs)")
    case True
    then show ?thesis by (simp add: min_def)
  next
    case F: False
    with False assms show ?thesis by (simp add: min_def nat_diff_distrib)
  qed
  with False assms w show ?thesis
    by (simp add: go_page_def go_slice_def)
qed

section \<open>Error values\<close>

text \<open>
  The sentinel errors the program compares with \<open>errors.Is\<close>; a wrapped
  \<open>ErrInvalidMonitor\<close> keeps its message, every other error is \<open>ErrOther\<close> with its
  text.
\<close>

datatype go_error =
    ErrMonitorNotFound
  | ErrMonitorExists
  | ErrInvalidMonitor string
  | ErrJobIDRequired
  | ErrDuplicateJob
  | ErrStaleJob
  | ErrJobAlreadyProcessing
  | ErrQueueFull
  | ErrQueueConsumerClosed
  | ErrStaleAlertLease
  | ContextCanceled
  | ContextDeadlineExceeded
  | ErrOther string

section \<open>Maps and sorted keys\<close>

lemma map_upd_Some_cases:
  "(m(k \<mapsto> v)) x = Some y \<longleftrightarrow> (x = k \<and> y = v) \<or> (x \<noteq> k \<and> m x = Some y)"
  by auto

text \<open>
  \<open>map_values m ks\<close> is what a \<open>range\<close> loop over a Go map appends when it visits the
  keys in the order \<open>ks\<close>. A \<open>range\<close> loop visits every key once, in an order the
  language leaves open: \<open>iter_order m ks\<close>.
\<close>

definition iter_order :: "('k \<rightharpoonup> 'v) \<Rightarrow> 'k list \<Rightarrow> bool" where
  "iter_order m ks \<longleftrightarrow> distinct ks \<and> set ks = dom m"

fun map_values :: "('k \<rightharpoonup> 'v) \<Rightarrow> 'k list \<Rightarrow> 'v list" where
  "map_values m [] = []"
| "map_values m (k # ks) =
     (case m k of None \<Rightarrow> map_values m ks | Some v \<Rightarrow> v # map_values m ks)"

lemma set_map_values: "set (map_values m ks) = {v. \<exists>k \<in> set ks. m k = Some v}"
  by (induction ks) (auto split: option.splits)

lemma map_values_ran: "iter_order m ks \<Longrightarrow> set (map_values m ks) = ran m"
  unfolding set_map_values by (auto simp: iter_order_def ran_def dom_def)

lemma map_values_keys:
  assumes "\<And>k v. m k = Some v \<Longrightarrow> key v = k" and "set ks \<subseteq> dom m"
  shows "map key (map_values m ks) = ks"
  using assms(2)
proof (induction ks)
  case (Cons k ks)
  then show ?case using assms(1) by (auto split: option.splits)
qed simp

lemma length_map_values: "iter_order m ks \<Longrightarrow> length (map_values m ks) = card (dom m)"
proof -
  assume io: "iter_order m ks"
  have "set ks \<subseteq> dom m \<Longrightarrow> length (map_values m ks) = length ks" for ks
    by (induction ks) (auto split: option.splits)
  with io show ?thesis by (metis iter_order_def distinct_card order_refl)
qed

text \<open>Two visiting orders give the same sorted list when the sort key identifies the value.\<close>

lemma sort_key_map_values_unique:
  fixes f :: "'v \<Rightarrow> 'o :: linorder"
  assumes "iter_order m ks" "iter_order m ks'"
    and id: "\<And>k v. m k = Some v \<Longrightarrow> key v = k"
    and inj: "inj_on f (ran m)"
  shows "sort_key f (map_values m ks) = sort_key f (map_values m ks')"
proof -
  have d: "distinct (map_values m l)" if "iter_order m l" for l
  proof -
    have "map key (map_values m l) = l"
      using that id by (intro map_values_keys) (auto simp: iter_order_def)
    with that show ?thesis by (metis distinct_map iter_order_def)
  qed
  have s: "set (map_values m l) = ran m" if "iter_order m l" for l
    using that by (rule map_values_ran)
  show ?thesis
  proof (rule map_sorted_distinct_set_unique [where f = f])
    show "inj_on f (set (sort_key f (map_values m ks)) \<union> set (sort_key f (map_values m ks')))"
      using assms s by simp
  qed (use assms d s inj in \<open>auto simp: distinct_map\<close>)
qed

end
