(* ===== verification/Go_Strings.thy ===== *)
theory Go_Strings
  imports Go_Prelude
begin

text \<open>
  The functions of Go's \<open>strings\<close>, \<open>strconv\<close>, \<open>fmt\<close> and \<open>utf8\<close> packages the
  program calls, on byte strings (a HOL \<open>string\<close> is a list of bytes, as a Go string
  is): trimming, splitting, case folding, decimal conversion and rune counting.
\<close>

section \<open>Prefixes, suffixes, substrings\<close>

fun HasPrefix :: "string \<Rightarrow> string \<Rightarrow> bool" where
  "HasPrefix s [] = True"
| "HasPrefix [] (p # ps) = False"
| "HasPrefix (c # cs) (p # ps) = (c = p \<and> HasPrefix cs ps)"

lemma HasPrefix_iff: "HasPrefix s p \<longleftrightarrow> (\<exists>r. s = p @ r)"
  by (induction s p rule: HasPrefix.induct) auto

definition HasSuffix :: "string \<Rightarrow> string \<Rightarrow> bool" where
  "HasSuffix s p = HasPrefix (rev s) (rev p)"

lemma HasSuffix_iff: "HasSuffix s p \<longleftrightarrow> (\<exists>r. s = r @ p)"
  unfolding HasSuffix_def HasPrefix_iff
  by (metis rev_append rev_rev_ident)

definition TrimSuffix :: "string \<Rightarrow> string \<Rightarrow> string" where
  "TrimSuffix s p = (if HasSuffix s p then take (length s - length p) s else s)"

definition ContainsChar :: "string \<Rightarrow> char \<Rightarrow> bool" where
  "ContainsChar s c \<longleftrightarrow> c \<in> set s"

text \<open>\<open>strings.Split\<close> with a one-byte separator, and \<open>strings.Cut\<close>.\<close>

fun Split :: "string \<Rightarrow> char \<Rightarrow> string list" where
  "Split [] c = [[]]"
| "Split (x # xs) c =
     (if x = c then [] # Split xs c
      else (case Split xs c of [] \<Rightarrow> [[x]] | p # ps \<Rightarrow> (x # p) # ps))"

fun Cut :: "string \<Rightarrow> char \<Rightarrow> (string \<times> string) option" where
  "Cut [] c = None"
| "Cut (x # xs) c =
     (if x = c then Some ([], xs)
      else (case Cut xs c of None \<Rightarrow> None | Some (a, b) \<Rightarrow> Some (x # a, b)))"

fun Join :: "string list \<Rightarrow> string \<Rightarrow> string" where
  "Join [] sep = []"
| "Join [x] sep = x"
| "Join (x # y # ys) sep = x @ sep @ Join (y # ys) sep"

lemma Split_nonempty [simp]: "Split s c \<noteq> []"
  by (induction s) (auto split: list.splits)

lemma Join_Split: "Join (Split s c) [c] = s"
proof (induction s)
  case (Cons x xs)
  obtain p ps where sp: "Split xs c = p # ps"
    using Split_nonempty [of xs c] by (cases "Split xs c") auto
  with Cons.IH show ?case by (cases ps) auto
qed simp

lemma Split_free: "p \<in> set (Split s c) \<Longrightarrow> c \<notin> set p"
proof (induction s arbitrary: p)
  case (Cons x xs)
  obtain q qs where sp: "Split xs c = q # qs"
    using Split_nonempty [of xs c] by (cases "Split xs c") auto
  from Cons.prems Cons.IH sp show ?case by (auto split: if_splits)
qed simp

lemma Split_single: "c \<notin> set s \<Longrightarrow> Split s c = [s]"
  by (induction s) auto

lemma Split_append: "c \<notin> set s \<Longrightarrow> Split (s @ c # r) c = s # Split r c"
  by (induction s) auto

lemma Cut_split:
  "(Cut s c = None \<longrightarrow> c \<notin> set s) \<and>
   (\<forall>a b. Cut s c = Some (a, b) \<longrightarrow> s = a @ c # b \<and> c \<notin> set a)"
  by (induction s) (auto split: option.splits)

lemma Cut_append: "c \<notin> set a \<Longrightarrow> Cut (a @ c # b) c = Some (a, b)"
  by (induction a) auto

section \<open>White space\<close>

text \<open>
  \<open>strings.TrimSpace\<close> removes the runes of \<open>unicode.IsSpace\<close> at both ends. Their UTF-8
  encodings are listed; an encoding is recognised at the left end as a prefix and at
  the right end as a suffix, which is what decoding a rune there gives because UTF-8
  is self-synchronising.
\<close>

definition space_encodings :: "string list" where
  "space_encodings =
     [[CHR 0x09], [CHR 0x0A], [CHR 0x0B], [CHR 0x0C], [CHR 0x0D], [CHR 0x20],
      [CHR 0xC2, CHR 0x85], [CHR 0xC2, CHR 0xA0], [CHR 0xE1, CHR 0x9A, CHR 0x80],
      [CHR 0xE2, CHR 0x80, CHR 0x80], [CHR 0xE2, CHR 0x80, CHR 0x81],
      [CHR 0xE2, CHR 0x80, CHR 0x82], [CHR 0xE2, CHR 0x80, CHR 0x83],
      [CHR 0xE2, CHR 0x80, CHR 0x84], [CHR 0xE2, CHR 0x80, CHR 0x85],
      [CHR 0xE2, CHR 0x80, CHR 0x86], [CHR 0xE2, CHR 0x80, CHR 0x87],
      [CHR 0xE2, CHR 0x80, CHR 0x88], [CHR 0xE2, CHR 0x80, CHR 0x89],
      [CHR 0xE2, CHR 0x80, CHR 0x8A], [CHR 0xE2, CHR 0x80, CHR 0xA8],
      [CHR 0xE2, CHR 0x80, CHR 0xA9], [CHR 0xE2, CHR 0x80, CHR 0xAF],
      [CHR 0xE2, CHR 0x81, CHR 0x9F], [CHR 0xE3, CHR 0x80, CHR 0x80]]"

function trim_prefixes :: "string list \<Rightarrow> string \<Rightarrow> string" where
  "trim_prefixes ps s =
     (case find (\<lambda>p. p \<noteq> [] \<and> HasPrefix s p) ps of
        None \<Rightarrow> s | Some p \<Rightarrow> trim_prefixes ps (drop (length p) s))"
  by pat_completeness auto
termination
  by (relation "measure (\<lambda>(ps, s). length s)")
    (auto simp: find_Some_iff HasPrefix_iff)

declare trim_prefixes.simps [simp del]

definition TrimSpace :: "string \<Rightarrow> string" where
  "TrimSpace s =
     rev (trim_prefixes (map rev space_encodings) (rev (trim_prefixes space_encodings s)))"

lemma trim_prefixes_none:
  "(\<And>p. p \<in> set ps \<Longrightarrow> p = [] \<or> \<not> HasPrefix s p) \<Longrightarrow> trim_prefixes ps s = s"
  by (subst trim_prefixes.simps) (auto split: option.splits simp: find_Some_iff, metis nth_mem)

text \<open>A byte that starts or ends no white-space encoding stops the trimming.\<close>

definition plain_byte :: "char \<Rightarrow> bool" where
  "plain_byte c \<longleftrightarrow> (\<forall>p \<in> set space_encodings. hd p \<noteq> c \<and> last p \<noteq> c)"

lemma space_encodings_nonempty: "p \<in> set space_encodings \<Longrightarrow> p \<noteq> []"
  by (auto simp: space_encodings_def)

lemma trim_prefixes_plain:
  assumes "s = [] \<or> (\<forall>p \<in> set ps. p \<noteq> [] \<and> hd p \<noteq> hd s)"
  shows "trim_prefixes ps s = s"
  using assms by (intro trim_prefixes_none) (auto simp: HasPrefix_iff hd_append)

lemma TrimSpace_plain:
  assumes "s = [] \<or> (plain_byte (hd s) \<and> plain_byte (last s))"
  shows "TrimSpace s = s"
proof -
  have l: "trim_prefixes space_encodings s = s"
    using assms space_encodings_nonempty by (intro trim_prefixes_plain) (auto simp: plain_byte_def)
  have r: "trim_prefixes (map rev space_encodings) (rev s) = rev s"
    using assms space_encodings_nonempty
    by (intro trim_prefixes_plain) (auto simp: plain_byte_def hd_rev)
  show ?thesis by (simp add: TrimSpace_def l r)
qed

lemma TrimSpace_empty [simp]: "TrimSpace [] = []"
  by (rule TrimSpace_plain) simp

lemma trim_prefixes_set: "set (trim_prefixes ps s) \<subseteq> set s"
proof (induction ps s rule: trim_prefixes.induct)
  case (1 ps s)
  show ?case
  proof (cases "find (\<lambda>p. p \<noteq> [] \<and> HasPrefix s p) ps")
    case None
    then show ?thesis by (simp add: trim_prefixes.simps [of ps s])
  next
    case (Some p)
    with 1 have "set (trim_prefixes ps (drop (length p) s)) \<subseteq> set (drop (length p) s)" by simp
    also have "\<dots> \<subseteq> set s" by (rule set_drop_subset)
    finally show ?thesis using Some by (simp add: trim_prefixes.simps [of ps s])
  qed
qed

lemma TrimSpace_set: "set (TrimSpace s) \<subseteq> set s"
  unfolding TrimSpace_def using trim_prefixes_set by (metis order_trans set_rev)

section \<open>Case folding\<close>

text \<open>
  \<open>strings.ToLower\<close>. Besides the ASCII letters only the Kelvin sign (U+212A) and the
  dotted capital I (U+0130) have an ASCII lower case; every other non-ASCII rune maps
  to non-ASCII runes and is kept here, which is enough because the program compares
  the result with ASCII literals only.
\<close>

definition lower_byte :: "char \<Rightarrow> char" where
  "lower_byte c =
     (if 65 \<le> (of_char c :: nat) \<and> (of_char c :: nat) \<le> 90
      then char_of ((of_char c :: nat) + 32) else c)"

function ToLower :: "string \<Rightarrow> string" where
  "ToLower s =
     (if s = [] then []
      else if HasPrefix s [CHR 0xE2, CHR 0x84, CHR 0xAA] then CHR ''k'' # ToLower (drop 3 s)
      else if HasPrefix s [CHR 0xC4, CHR 0xB0] then CHR ''i'' # ToLower (drop 2 s)
      else lower_byte (hd s) # ToLower (tl s))"
  by pat_completeness auto
termination
  by (relation "measure length") auto

declare ToLower.simps [simp del]

lemma ToLower_Nil [simp]: "ToLower [] = []"
  by (simp add: ToLower.simps)

lemma ToLower_Cons_ascii:
  "of_char c < (128 :: nat) \<Longrightarrow> ToLower (c # cs) = lower_byte c # ToLower cs"
  by (subst ToLower.simps) auto

section \<open>Decimal numbers\<close>

definition digit_char :: "nat \<Rightarrow> char" where
  "digit_char d = char_of (48 + d)"

fun string_of_nat :: "nat \<Rightarrow> string" where
  "string_of_nat n =
     (if n < 10 then [digit_char n] else string_of_nat (n div 10) @ [digit_char (n mod 10)])"

declare string_of_nat.simps [simp del]

text \<open>\<open>strconv.Itoa\<close> and the verb \<open>%d\<close>.\<close>

definition Itoa :: "int \<Rightarrow> string" where
  "Itoa n = (if n < 0 then CHR ''-'' # string_of_nat (nat (- n)) else string_of_nat (nat n))"

definition is_digit :: "char \<Rightarrow> bool" where
  "is_digit c \<longleftrightarrow> 48 \<le> (of_char c :: nat) \<and> (of_char c :: nat) \<le> 57"

fun digits_val :: "nat \<Rightarrow> string \<Rightarrow> nat option" where
  "digits_val acc [] = Some acc"
| "digits_val acc (c # cs) =
     (if is_digit c then digits_val (acc * 10 + (of_char c - 48)) cs else None)"

text \<open>
  \<open>strconv.Atoi\<close> (and \<open>ParseInt(s, 10, 64)\<close>): an optional sign, at least one decimal
  digit, and a value in the range of a 64-bit integer.
\<close>

definition Atoi :: "string \<Rightarrow> int option" where
  "Atoi s =
     (let (neg, ds) = (case s of [] \<Rightarrow> (False, [])
                       | c # cs \<Rightarrow> if c = CHR ''-'' then (True, cs)
                                  else if c = CHR ''+'' then (False, cs) else (False, s))
      in if ds = [] then None
         else (case digits_val 0 ds of None \<Rightarrow> None
               | Some n \<Rightarrow> let v = (if neg then - int n else int n)
                           in if int64_range v then Some v else None))"

lemma digit_char_val: "d < 10 \<Longrightarrow> (of_char (digit_char d) :: nat) = 48 + d"
  by (simp add: digit_char_def)

lemma is_digit_digit_char [simp]: "d < 10 \<Longrightarrow> is_digit (digit_char d)"
  by (simp add: is_digit_def digit_char_val)

lemma string_of_nat_nonempty [simp]: "string_of_nat n \<noteq> []"
  by (subst string_of_nat.simps) simp

lemma string_of_nat_digits: "c \<in> set (string_of_nat n) \<Longrightarrow> is_digit c"
proof (induction n rule: string_of_nat.induct)
  case (1 n)
  then show ?case
    by (cases "n < 10") (auto simp: string_of_nat.simps [of n])
qed

lemma digits_val_append:
  "digits_val acc (xs @ ys) = Option.bind (digits_val acc xs) (\<lambda>a. digits_val a ys)"
  by (induction xs arbitrary: acc) auto

lemma digits_val_string_of_nat:
  "digits_val 0 (string_of_nat n) = Some n"
proof (induction n rule: string_of_nat.induct)
  case (1 n)
  show ?case
  proof (cases "n < 10")
    case True
    then show ?thesis by (simp add: string_of_nat.simps [of n] digit_char_val)
  next
    case False
    with 1 have "digits_val 0 (string_of_nat (n div 10)) = Some (n div 10)" by simp
    with False show ?thesis
      by (simp add: string_of_nat.simps [of n] digits_val_append digit_char_val)
  qed
qed

lemma string_of_nat_inj [simp]: "string_of_nat m = string_of_nat n \<longleftrightarrow> m = n"
  by (metis digits_val_string_of_nat option.inject)

lemma string_of_nat_hd: "is_digit (hd (string_of_nat n))"
  by (rule string_of_nat_digits [of _ n]) simp

lemma not_digit_signs [simp]: "\<not> is_digit CHR ''-''" "\<not> is_digit CHR ''+''" "\<not> is_digit CHR ''_''"
  by (simp_all add: is_digit_def)

lemma string_of_nat_no_minus: "string_of_nat n \<noteq> CHR ''-'' # xs"
  using string_of_nat_hd [of n] by auto

lemma Itoa_inj [simp]: "Itoa m = Itoa n \<longleftrightarrow> m = n"
  by (auto simp: Itoa_def string_of_nat_no_minus string_of_nat_no_minus [symmetric] eq_nat_nat_iff)

lemma Itoa_chars: "c \<in> set (Itoa n) \<Longrightarrow> is_digit c \<or> c = CHR ''-''"
  by (auto simp: Itoa_def string_of_nat_digits split: if_splits)

lemma Itoa_nonempty [simp]: "Itoa n \<noteq> []"
  by (simp add: Itoa_def)

lemma Atoi_string_of_nat:
  assumes "int64_range (int n)"
  shows "Atoi (string_of_nat n) = Some (int n)"
proof -
  obtain c cs where s: "string_of_nat n = c # cs"
    by (cases "string_of_nat n") auto
  with string_of_nat_hd [of n] have "c \<noteq> CHR ''-''" "c \<noteq> CHR ''+''" by auto
  with s assms digits_val_string_of_nat [of n] show ?thesis
    by (simp add: Atoi_def)
qed

lemma Atoi_Itoa: "int64_range n \<Longrightarrow> Atoi (Itoa n) = Some n"
proof (cases "n < 0")
  case True
  assume "int64_range n"
  with True show ?thesis
    by (simp add: Itoa_def Atoi_def digits_val_string_of_nat)
next
  case False
  assume "int64_range n"
  with False Atoi_string_of_nat [of "nat n"] show ?thesis by (simp add: Itoa_def)
qed

lemma Atoi_range: "Atoi s = Some v \<Longrightarrow> int64_range v"
  by (auto simp: Atoi_def Let_def split: prod.splits option.splits if_splits)

section \<open>Runes\<close>

text \<open>
  \<open>utf8.RuneCountInString\<close>: the bytes the first rune of a non-empty string takes (1 for
  an invalid or truncated sequence, by the accept ranges of the UTF-8 tables), and the
  number of runes.
\<close>

definition byte_in :: "nat \<Rightarrow> nat \<Rightarrow> char \<Rightarrow> bool" where
  "byte_in lo hi c \<longleftrightarrow> lo \<le> (of_char c :: nat) \<and> (of_char c :: nat) \<le> hi"

definition second_range :: "nat \<Rightarrow> nat \<times> nat" where
  "second_range b =
     (if b = 0xE0 then (0xA0, 0xBF) else if b = 0xED then (0x80, 0x9F)
      else if b = 0xF0 then (0x90, 0xBF) else if b = 0xF4 then (0x80, 0x8F) else (0x80, 0xBF))"

definition rune_width :: "string \<Rightarrow> nat" where
  "rune_width s =
     (case s of [] \<Rightarrow> 0 | c # cs \<Rightarrow>
       (let b = (of_char c :: nat); (lo, hi) = second_range b in
        case cs of
          c1 # cs1 \<Rightarrow>
            if \<not> byte_in lo hi c1 then 1
            else if 0xC2 \<le> b \<and> b \<le> 0xDF then 2
            else (case cs1 of
                c2 # cs2 \<Rightarrow>
                  if \<not> byte_in 0x80 0xBF c2 then 1
                  else if 0xE0 \<le> b \<and> b \<le> 0xEF then 3
                  else (case cs2 of
                      c3 # _ \<Rightarrow> if byte_in 0x80 0xBF c3 \<and> 0xF0 \<le> b \<and> b \<le> 0xF4 then 4 else 1
                    | [] \<Rightarrow> 1)
              | [] \<Rightarrow> 1)
        | [] \<Rightarrow> 1))"

lemma rune_width_pos: "s \<noteq> [] \<Longrightarrow> 0 < rune_width s"
  by (auto simp: rune_width_def Let_def split: list.splits prod.splits if_splits)

lemma rune_width_ascii: "of_char c < (128 :: nat) \<Longrightarrow> rune_width (c # cs) = 1"
  by (auto simp: rune_width_def Let_def split: list.splits prod.splits)

function RuneCountInString :: "string \<Rightarrow> nat" where
  "RuneCountInString s =
     (if s = [] then 0 else Suc (RuneCountInString (drop (rune_width s) s)))"
  by pat_completeness auto
termination
  by (relation "measure length") (use rune_width_pos in fastforce)+

declare RuneCountInString.simps [simp del]

lemma RuneCountInString_Nil [simp]: "RuneCountInString [] = 0"
  by (simp add: RuneCountInString.simps)

lemma RuneCountInString_ascii:
  "(\<And>c. c \<in> set s \<Longrightarrow> of_char c < (128 :: nat)) \<Longrightarrow> RuneCountInString s = length s"
proof (induction s)
  case (Cons c cs)
  then have "RuneCountInString cs = length cs" by auto
  moreover have "rune_width (c # cs) = 1" using Cons.prems by (intro rune_width_ascii) simp
  ultimately show ?case by (simp add: RuneCountInString.simps [of "c # cs"])
qed simp

lemma RuneCountInString_le: "RuneCountInString s \<le> length s"
proof (induction s rule: RuneCountInString.induct)
  case (1 s)
  show ?case
  proof (cases "s = []")
    case False
    with 1 have "RuneCountInString (drop (rune_width s) s) \<le> length s - rune_width s" by simp
    moreover from False have "0 < length s" "0 < rune_width s" by (simp_all add: rune_width_pos)
    moreover from False have
      "RuneCountInString s = Suc (RuneCountInString (drop (rune_width s) s))"
      by (simp add: RuneCountInString.simps [of s])
    ultimately show ?thesis by linarith
  qed simp
qed

end
