(* ===== verification/Net_Addr.thy ===== *)
theory Net_Addr
  imports Go_Strings "HOL-Library.Word"
begin

text \<open>
  The part of Go's \<open>net/netip\<close> and \<open>net/url\<close> the network policy rests on: addresses
  as 32-bit and 128-bit words, their classification predicates, prefixes, and the
  host and port of a parsed URL. The lemmas turn the bit tests into address ranges.
\<close>

unbundle bit_operations_syntax

section \<open>Addresses\<close>

text \<open>A \<open>netip.Addr\<close>: invalid, IPv4, or IPv6 with its zone (empty when there is none).\<close>

datatype addr = AddrInvalid | Addr4 "32 word" | Addr6 "128 word" string

definition v4 :: "32 word \<Rightarrow> nat \<Rightarrow> 32 word" where
  "v4 w i = drop_bit (24 - 8 * i) w AND 0xFF"

definition v6 :: "128 word \<Rightarrow> nat \<Rightarrow> 128 word" where
  "v6 w i = drop_bit (120 - 8 * i) w AND 0xFF"

definition v6u16 :: "128 word \<Rightarrow> nat \<Rightarrow> 128 word" where
  "v6u16 w i = drop_bit (112 - 16 * i) w AND 0xFFFF"

fun Is4In6 :: "addr \<Rightarrow> bool" where
  "Is4In6 (Addr6 w z) = (drop_bit 32 w = 0xFFFF)"
| "Is4In6 _ = False"

fun Unmap :: "addr \<Rightarrow> addr" where
  "Unmap (Addr6 w z) = (if Is4In6 (Addr6 w z) then Addr4 (ucast w) else Addr6 w z)"
| "Unmap a = a"

fun IsValid :: "addr \<Rightarrow> bool" where
  "IsValid AddrInvalid = False"
| "IsValid _ = True"

definition IsUnspecified :: "addr \<Rightarrow> bool" where
  "IsUnspecified a \<longleftrightarrow> a = Addr4 0 \<or> a = Addr6 0 []"

text \<open>The classification predicates unmap an IPv4-mapped address first.\<close>

definition IsMulticast :: "addr \<Rightarrow> bool" where
  "IsMulticast a = (case Unmap a of
      Addr4 w \<Rightarrow> v4 w 0 AND 0xF0 = 0xE0
    | Addr6 w z \<Rightarrow> v6 w 0 = 0xFF
    | AddrInvalid \<Rightarrow> False)"

definition IsLoopback :: "addr \<Rightarrow> bool" where
  "IsLoopback a = (case Unmap a of
      Addr4 w \<Rightarrow> v4 w 0 = 127
    | Addr6 w z \<Rightarrow> w = 1
    | AddrInvalid \<Rightarrow> False)"

definition IsPrivate :: "addr \<Rightarrow> bool" where
  "IsPrivate a = (case Unmap a of
      Addr4 w \<Rightarrow> v4 w 0 = 10 \<or> (v4 w 0 = 172 \<and> v4 w 1 AND 0xF0 = 16)
                \<or> (v4 w 0 = 192 \<and> v4 w 1 = 168)
    | Addr6 w z \<Rightarrow> v6 w 0 AND 0xFE = 0xFC
    | AddrInvalid \<Rightarrow> False)"

definition IsLinkLocalUnicast :: "addr \<Rightarrow> bool" where
  "IsLinkLocalUnicast a = (case Unmap a of
      Addr4 w \<Rightarrow> v4 w 0 = 169 \<and> v4 w 1 = 254
    | Addr6 w z \<Rightarrow> v6u16 w 0 AND 0xFFC0 = 0xFE80
    | AddrInvalid \<Rightarrow> False)"

definition IsLinkLocalMulticast :: "addr \<Rightarrow> bool" where
  "IsLinkLocalMulticast a = (case Unmap a of
      Addr4 w \<Rightarrow> v4 w 0 = 224 \<and> v4 w 1 = 0 \<and> v4 w 2 = 0
    | Addr6 w z \<Rightarrow> v6u16 w 0 AND 0xFF0F = 0xFF02
    | AddrInvalid \<Rightarrow> False)"

section \<open>Prefixes\<close>

datatype ip_prefix = Prefix4 "32 word" nat | Prefix6 "128 word" nat

text \<open>
  \<open>Prefix.Contains\<close>: the families must agree and the address must carry no zone; IPv4
  compares the leading bits by a shift, IPv6 by a mask.
\<close>

fun Contains :: "ip_prefix \<Rightarrow> addr \<Rightarrow> bool" where
  "Contains (Prefix4 p n) (Addr4 w) = (drop_bit (32 - n) (w XOR p) = 0)"
| "Contains (Prefix6 p n) (Addr6 w z) = (z = [] \<and> (w XOR p) AND NOT (mask (128 - n)) = 0)"
| "Contains _ _ = False"

section \<open>Bit tests as address ranges\<close>

lemma word_xor_eq_0 [simp]:
  fixes w p :: "'a :: len word"
  shows "w XOR p = 0 \<longleftrightarrow> w = p"
proof
  assume "w XOR p = 0"
  then have "(w XOR p) XOR p = p" by simp
  then show "w = p" by (simp add: xor.assoc)
qed simp

lemma and_not_mask_zero:
  fixes x :: "'a :: len word"
  shows "x AND NOT (mask k) = 0 \<longleftrightarrow> drop_bit k x = 0"
proof -
  have "x AND NOT (mask k) = push_bit k (drop_bit k x)"
    by (rule bit_word_eqI) (auto simp: bit_simps)
  moreover have "push_bit k (drop_bit k x) = 0 \<longleftrightarrow> drop_bit k x = 0"
  proof
    assume "push_bit k (drop_bit k x) = 0"
    then have "drop_bit k (push_bit k (drop_bit k x)) = 0" by simp
    moreover have "drop_bit k (push_bit k (drop_bit k x)) = drop_bit k x"
      by (rule bit_word_eqI) (auto simp: bit_simps dest: bit_imp_le_length)
    ultimately show "drop_bit k x = 0" by simp
  qed simp
  ultimately show ?thesis by simp
qed

lemma drop_bit_eq_unat:
  fixes w p :: "'a :: len word"
  shows "drop_bit k w = drop_bit k p \<longleftrightarrow> unat w div 2 ^ k = unat p div 2 ^ k"
  by (metis drop_bit_eq_div unat_drop_bit_eq word_unat_eq_iff)

lemma Contains4_range:
  "Contains (Prefix4 p n) (Addr4 w) \<longleftrightarrow> unat w div 2 ^ (32 - n) = unat p div 2 ^ (32 - n)"
  by (simp add: drop_bit_xor drop_bit_eq_unat)

lemma Contains6_range:
  "Contains (Prefix6 p n) (Addr6 w z) \<longleftrightarrow>
   z = [] \<and> unat w div 2 ^ (128 - n) = unat p div 2 ^ (128 - n)"
  by (simp add: and_not_mask_zero drop_bit_xor drop_bit_eq_unat)

lemma Contains_mixed:
  "\<not> Contains (Prefix6 p6 n) (Addr4 w4)" "\<not> Contains (Prefix4 p4 n) (Addr6 w6 z)"
  by simp_all

lemma unat_drop_bit_div: "unat (drop_bit k w) = unat w div 2 ^ k" for w :: "'a :: len word"
  unfolding unat_drop_bit_eq by (rule drop_bit_eq_div)

lemma unat_take_bit_mod: "unat (take_bit k w) = unat w mod 2 ^ k" for w :: "'a :: len word"
  unfolding unsigned_take_bit_eq by (rule take_bit_eq_mod)

lemma word_and_mask_unat: "unat (x AND mask n) = unat x mod 2 ^ n" for x :: "'a :: len word"
  unfolding take_bit_eq_mask [symmetric] by (rule unat_take_bit_mod)

lemmas unat_octet = word_and_mask_unat unat_drop_bit_div

lemma unat_v4: "unat (v4 w i) = unat w div 2 ^ (24 - 8 * i) mod 256"
proof -
  have "(0xFF :: 32 word) = mask 8" by (simp add: mask_eq_exp_minus_1)
  then show ?thesis by (simp only: v4_def unat_octet) simp
qed

lemma unat_v6: "unat (v6 w i) = unat w div 2 ^ (120 - 8 * i) mod 256"
proof -
  have "(0xFF :: 128 word) = mask 8" by (simp add: mask_eq_exp_minus_1)
  then show ?thesis by (simp only: v6_def unat_octet) simp
qed

lemma unat_v6u16: "unat (v6u16 w i) = unat w div 2 ^ (112 - 16 * i) mod 65536"
proof -
  have "(0xFFFF :: 128 word) = mask 16" by (simp add: mask_eq_exp_minus_1)
  then show ?thesis by (simp only: v6u16_def unat_octet) simp
qed

text \<open>A test of a block of bits against a constant, as a division.\<close>

lemma word_and_block:
  fixes x :: "'a :: len word"
  shows "x AND push_bit k (mask n) = push_bit k (take_bit n (drop_bit k x))"
  by (rule bit_word_eqI) (auto simp: bit_simps)

lemma unat_and_block:
  fixes x :: "'a :: len word"
  assumes "unat x < 2 ^ (k + n)" "k + n < LENGTH('a)"
  shows "unat (x AND push_bit k (mask n)) = unat x div 2 ^ k * 2 ^ k"
proof -
  have lt: "unat x div 2 ^ k < 2 ^ n"
    using assms(1) by (simp add: power_add less_mult_imp_div_less mult.commute)
  have "take_bit n (drop_bit k x) = drop_bit k x"
    using lt by (simp add: word_unat_eq_iff unat_take_bit_mod unat_drop_bit_div)
  then have "x AND push_bit k (mask n) = push_bit k (drop_bit k x)"
    by (simp add: word_and_block)
  moreover have "unat (push_bit k (drop_bit k x)) = unat x div 2 ^ k * 2 ^ k"
  proof -
    have "unat x div 2 ^ k * 2 ^ k \<le> unat x" by simp
    also have "\<dots> < 2 ^ LENGTH('a)" by simp
    finally have "unat x div 2 ^ k * 2 ^ k < 2 ^ LENGTH('a)" .
    moreover have "unat (push_bit k y) = take_bit LENGTH('a) (unat y * 2 ^ k)" for y :: "'a word"
      unfolding unsigned_push_bit_eq
      by (metis push_bit_eq_mult push_bit_take_bit take_bit_push_bit unsigned_push_bit_eq)
    ultimately show ?thesis by (simp add: unat_drop_bit_div take_bit_nat_eq_self)
  qed
  ultimately show ?thesis by simp
qed

lemma unat_32_bound: "unat (w :: 32 word) < 4294967296"
  using unsigned_less [of w, where ?'a = nat] by simp

lemma unat_128_bound: "unat (w :: 128 word) < 340282366920938463463374607431768211456"
  using unsigned_less [of w, where ?'a = nat] by simp

end
