(* ===== verification/Backoff.thy ===== *)
theory Backoff
  imports Go_Strings "HOL-Library.Word"
begin

text \<open>
  The retry delays of the program: the doubling backoff of \<open>alert.go\<close>, \<open>queue.go\<close>
  and \<open>runtime.go\<close>, the jittered reconnect delay, and the shared infrastructure
  backoff with its FNV-1a jitter. Durations are 64-bit integers, and the doubling is
  written with its wrap-around: that it never wraps is a theorem.
\<close>

unbundle bit_operations_syntax

section \<open>Go's truncating division\<close>

definition go_div :: "int \<Rightarrow> int \<Rightarrow> int" where
  "go_div a b = sgn a * sgn b * (\<bar>a\<bar> div \<bar>b\<bar>)"

lemma go_div_nonneg: "0 \<le> a \<Longrightarrow> 0 < b \<Longrightarrow> go_div a b = a div b"
  by (cases "a = 0") (simp_all add: go_div_def)

section \<open>The doubling loop\<close>

text \<open>
  \<^verbatim>\<open>for i := 1; i < attempt && delay < maximum; i++ {
	if delay > maximum/2 { return maximum }
	delay *= 2
}
if delay > maximum { return maximum }
return delay\<close>
\<close>

function backoffLoop :: "int \<Rightarrow> int \<Rightarrow> duration \<Rightarrow> duration \<Rightarrow> duration" where
  "backoffLoop i attempt delay maximum =
     (if i < attempt \<and> delay < maximum
      then (if delay > go_div maximum 2 then maximum
            else backoffLoop (i + 1) attempt (wrap64 (delay * 2)) maximum)
      else (if delay > maximum then maximum else delay))"
  by pat_completeness auto
termination
  by (relation "measure (\<lambda>(i, attempt, delay, maximum). nat (attempt - i))") auto

declare backoffLoop.simps [simp del]

definition alertRetryDelay :: "int \<Rightarrow> duration \<Rightarrow> duration \<Rightarrow> duration" where
  "alertRetryDelay attempt initial maximum =
     (let attempt = (if attempt < 1 then 1 else attempt)
      in backoffLoop 1 attempt initial maximum)"

definition rabbitMQReconnectBaseDelay :: "int \<Rightarrow> duration \<Rightarrow> duration \<Rightarrow> duration" where
  "rabbitMQReconnectBaseDelay attempt initial maximum =
     (let attempt = (if attempt < 1 then 1 else attempt)
      in backoffLoop 1 attempt initial maximum)"

text \<open>
  \<open>rand.Int64N(n)\<close> is an arbitrary number in \<open>[0, n)\<close>: the draw \<open>r\<close> is an argument,
  reduced to that interval.
\<close>

definition Int64N :: "int \<Rightarrow> int \<Rightarrow> int" where
  "Int64N r n = r mod n"

definition rabbitMQReconnectDelay :: "int \<Rightarrow> int \<Rightarrow> duration \<Rightarrow> duration \<Rightarrow> duration" where
  "rabbitMQReconnectDelay r attempt initial maximum =
     (let base = rabbitMQReconnectBaseDelay attempt initial maximum in
      if base \<le> Nanosecond then base
      else (let half = go_div base 2 in half + Int64N r (base - half + 1)))"

definition durationOrDefault :: "duration \<Rightarrow> duration \<Rightarrow> duration" where
  "durationOrDefault value fallback = (if value \<le> 0 then fallback else value)"

abbreviation (input) checkJobRetryInitialDelay :: duration where
  "checkJobRetryInitialDelay \<equiv> 250 * Millisecond"
abbreviation (input) checkJobRetryMaxDelay :: duration where
  "checkJobRetryMaxDelay \<equiv> 30 * Second"

function checkJobRetryLoop :: "int \<Rightarrow> int \<Rightarrow> duration \<Rightarrow> duration" where
  "checkJobRetryLoop current attempt delay =
     (if current < attempt \<and> delay < checkJobRetryMaxDelay
      then (if delay > go_div checkJobRetryMaxDelay 2 then checkJobRetryMaxDelay
            else checkJobRetryLoop (current + 1) attempt (wrap64 (delay * 2)))
      else min delay checkJobRetryMaxDelay)"
  by pat_completeness auto
termination
  by (relation "measure (\<lambda>(i, attempt, delay). nat (attempt - i))") auto

declare checkJobRetryLoop.simps [simp del]

definition checkJobRetryDelay :: "int \<Rightarrow> duration" where
  "checkJobRetryDelay attempt =
     (let attempt = (if attempt < 1 then 1 else attempt)
      in checkJobRetryLoop 1 attempt checkJobRetryInitialDelay)"

section \<open>The loop never wraps\<close>

lemma half_double: "(0 :: int) \<le> m \<Longrightarrow> d \<le> m div 2 \<Longrightarrow> d * 2 \<le> m"
  by linarith

lemma backoffLoop_closed:
  assumes "0 \<le> delay" "0 \<le> maximum" "maximum < 2 ^ 63"
  shows "backoffLoop i attempt delay maximum = min maximum (delay * 2 ^ nat (attempt - i))"
  using assms
proof (induction i attempt delay maximum rule: backoffLoop.induct)
  case (1 i attempt delay maximum)
  let ?k = "nat (attempt - i)"
  have grow: "delay \<le> delay * 2 ^ ?k" using "1.prems"(1) by (simp add: mult_le_cancel_left1)
  show ?case
  proof (cases "i < attempt \<and> delay < maximum")
    case False
    then consider "attempt \<le> i" | "maximum \<le> delay" by linarith
    then show ?thesis
      using grow False by cases (auto simp: backoffLoop.simps [of i])
  next
    case True
    then have k: "?k = Suc (nat (attempt - (i + 1)))" by arith
    show ?thesis
    proof (cases "delay > maximum div 2")
      case big: True
      then have "maximum \<le> delay * 2" by linarith
      also have "delay * 2 \<le> delay * 2 ^ ?k"
        using "1.prems"(1) by (simp add: k mult_left_mono)
      finally show ?thesis
        using True big "1.prems" by (simp add: backoffLoop.simps [of i] go_div_nonneg)
    next
      case small: False
      then have "delay * 2 \<le> maximum" by (intro half_double) (use "1.prems" in auto)
      then have w: "wrap64 (delay * 2) = delay * 2"
        using "1.prems" by (intro wrap64_id) (simp add: int64_range_def)
      have g: "\<not> delay > go_div maximum 2" using small "1.prems" by (simp add: go_div_nonneg)
      have "backoffLoop (i + 1) attempt (wrap64 (delay * 2)) maximum =
          min maximum (delay * 2 * 2 ^ nat (attempt - (i + 1)))"
        using "1.IH" [OF True g] "1.prems" by (simp add: w)
      with True g k show ?thesis by (simp add: backoffLoop.simps [of i])
    qed
  qed
qed

lemma alertRetryDelay_closed:
  assumes "0 \<le> initial" "0 \<le> maximum" "maximum < 2 ^ 63"
  shows "alertRetryDelay attempt initial maximum =
    min maximum (initial * 2 ^ nat (attempt - 1))"
  using assms by (auto simp: alertRetryDelay_def backoffLoop_closed)

lemma rabbitMQReconnectBaseDelay_eq:
  "rabbitMQReconnectBaseDelay = alertRetryDelay"
  by (intro ext) (simp add: rabbitMQReconnectBaseDelay_def alertRetryDelay_def)

lemma checkJobRetryLoop_eq:
  "checkJobRetryLoop i attempt delay = backoffLoop i attempt delay checkJobRetryMaxDelay"
proof (induction i attempt delay rule: checkJobRetryLoop.induct)
  case (1 i attempt delay)
  then show ?case
    by (auto simp: checkJobRetryLoop.simps [of i] backoffLoop.simps [of i])
qed

lemma checkJobRetryDelay_closed:
  "checkJobRetryDelay attempt =
    min checkJobRetryMaxDelay (checkJobRetryInitialDelay * 2 ^ nat (attempt - 1))"
  by (auto simp: checkJobRetryDelay_def checkJobRetryLoop_eq backoffLoop_closed)

lemma pow2_nat_mono: "(m :: int) \<le> n \<Longrightarrow> (2 :: int) ^ nat (m - 1) \<le> 2 ^ nat (n - 1)"
  by (intro power_increasing) (auto simp: nat_mono)

text \<open>
  C22. The webhook retry delay is exactly the capped exponential: the doubling loop of
  \<open>alertRetryDelay\<close>, run on 64-bit durations, never overflows and returns
  \<open>min(maximum, initial * 2^(attempt-1))\<close>; attempts below 1 count as the first. The
  RabbitMQ reconnect base delay is the same function.
\<close>

theorem retry_delay_is_capped_exponential:
  assumes "0 \<le> initial" "0 \<le> maximum" "int64_range maximum"
  shows "alertRetryDelay attempt initial maximum = min maximum (initial * 2 ^ nat (attempt - 1))
    \<and> rabbitMQReconnectBaseDelay attempt initial maximum =
        min maximum (initial * 2 ^ nat (attempt - 1))"
  using assms alertRetryDelay_closed [of initial maximum attempt]
  by (simp add: rabbitMQReconnectBaseDelay_eq int64_range_def)

theorem retry_delay_is_capped_exponential_witness:
  "alertRetryDelay 4 Second (5 * Minute) = 8 * Second
   \<and> rabbitMQReconnectBaseDelay 100 Second (30 * Second) = 30 * Second"
  using retry_delay_is_capped_exponential [of Second "5 * Minute" 4]
    retry_delay_is_capped_exponential [of Second "30 * Second" 100]
  by (simp add: int64_range_def)

section \<open>The jittered reconnect delay\<close>

lemma rabbitMQReconnectDelay_bounds:
  fixes attempt initial maximum :: int
  assumes "0 \<le> initial" "0 \<le> maximum" "maximum < 2 ^ 63"
  defines "base \<equiv> rabbitMQReconnectBaseDelay attempt initial maximum"
  shows "base div 2 \<le> rabbitMQReconnectDelay r attempt initial maximum"
    and "rabbitMQReconnectDelay r attempt initial maximum \<le> base"
proof -
  have b: "0 \<le> base"
    using assms by (simp add: rabbitMQReconnectBaseDelay_eq alertRetryDelay_closed)
  then have "0 < base - base div 2 + 1" by linarith
  then have r: "0 \<le> r mod (base - base div 2 + 1)"
    "r mod (base - base div 2 + 1) < base - base div 2 + 1"
    by (rule pos_mod_sign, rule pos_mod_bound)
  show "base div 2 \<le> rabbitMQReconnectDelay r attempt initial maximum"
    using b r unfolding rabbitMQReconnectDelay_def base_def [symmetric]
    by (auto simp: Let_def Int64N_def go_div_nonneg)
  show "rabbitMQReconnectDelay r attempt initial maximum \<le> base"
    using b r unfolding rabbitMQReconnectDelay_def base_def [symmetric]
    by (auto simp: Let_def Int64N_def go_div_nonneg)
qed

section \<open>The infrastructure backoff\<close>

text \<open>FNV-1a, 64 bits: \<open>hash/fnv\<close>'s \<open>New64a\<close> over the bytes of a string.\<close>

definition fnv64a :: "string \<Rightarrow> 64 word" where
  "fnv64a s = foldl (\<lambda>h c. (h XOR of_nat (of_char c)) * 1099511628211) 14695981039346656037 s"

record infrastructureRequeueBackoff =
  failures :: int

abbreviation (input) infrastructureRequeueInitialDelay :: duration where
  "infrastructureRequeueInitialDelay \<equiv> 250 * Millisecond"
abbreviation (input) infrastructureRequeueMaxBaseDelay :: duration where
  "infrastructureRequeueMaxBaseDelay \<equiv> 4 * Second"

function requeueBaseLoop :: "int \<Rightarrow> int \<Rightarrow> duration \<Rightarrow> duration" where
  "requeueBaseLoop current attempt delay =
     (if current < attempt \<and> delay < infrastructureRequeueMaxBaseDelay
      then requeueBaseLoop (current + 1) attempt
             (min (wrap64 (delay * 2)) infrastructureRequeueMaxBaseDelay)
      else delay)"
  by pat_completeness auto
termination
  by (relation "measure (\<lambda>(i, attempt, delay). nat (attempt - i))") auto

declare requeueBaseLoop.simps [simp del]

definition NextDelay ::
  "string \<Rightarrow> int \<Rightarrow> infrastructureRequeueBackoff \<Rightarrow> duration \<times> infrastructureRequeueBackoff" where
  "NextDelay jobID workerID b =
     (let attempt = wrap64 (failures b + 1);
          b' = b\<lparr>failures := attempt\<rparr>;
          delay = requeueBaseLoop 1 attempt infrastructureRequeueInitialDelay;
          jitterLimit = go_div delay 4
      in if jitterLimit \<le> 0 then (delay, b')
         else (let h = fnv64a (jobID @ '':'' @ Itoa workerID @ '':'' @ Itoa attempt);
                   jitter = uint (h mod of_int (jitterLimit + 1))
               in (delay + jitter, b')))"

definition Reset :: "infrastructureRequeueBackoff \<Rightarrow> infrastructureRequeueBackoff" where
  "Reset b = b\<lparr>failures := 0\<rparr>"

lemma requeueBaseLoop_bounds:
  "infrastructureRequeueInitialDelay \<le> delay \<Longrightarrow> delay \<le> infrastructureRequeueMaxBaseDelay \<Longrightarrow>
   delay \<le> requeueBaseLoop i attempt delay
   \<and> requeueBaseLoop i attempt delay \<le> infrastructureRequeueMaxBaseDelay"
proof (induction i attempt delay rule: requeueBaseLoop.induct)
  case (1 i attempt delay)
  have w: "wrap64 (delay * 2) = delay * 2"
    using "1.prems" by (intro wrap64_id) (simp add: int64_range_def)
  show ?case
  proof (cases "i < attempt \<and> delay < infrastructureRequeueMaxBaseDelay")
    case True
    with 1 w show ?thesis by (auto simp: requeueBaseLoop.simps [of i attempt delay])
  next
    case False
    then show ?thesis using 1 by (auto simp: requeueBaseLoop.simps [of i attempt delay])
  qed
qed

lemma uint_mod_less:
  fixes h :: "64 word" and n :: int
  assumes "0 < n" "n < 2 ^ 64"
  shows "uint (h mod of_int n) < n"
proof -
  have "uint (of_int n :: 64 word) = n"
    using assms by (simp add: uint_word_of_int)
  then have "uint (h mod of_int n) = uint h mod n"
    by (simp add: uint_mod)
  with pos_mod_bound [of n "uint h"] assms show ?thesis by simp
qed

lemma NextDelay_bounds:
  assumes "NextDelay jobID workerID b = (d, b')"
  shows "infrastructureRequeueInitialDelay \<le> d" "d \<le> 5 * Second"
    "failures b' = wrap64 (failures b + 1)"
proof -
  define base where "base = requeueBaseLoop 1 (wrap64 (failures b + 1)) infrastructureRequeueInitialDelay"
  have bb: "infrastructureRequeueInitialDelay \<le> base" "base \<le> infrastructureRequeueMaxBaseDelay"
    using requeueBaseLoop_bounds [of infrastructureRequeueInitialDelay 1 "wrap64 (failures b + 1)"]
    by (simp_all add: base_def)
  have j: "go_div base 4 = base div 4" using bb by (simp add: go_div_nonneg)
  have lim: "0 < base div 4" "base div 4 \<le> Second" using bb by simp_all
  let ?h = "fnv64a (jobID @ '':'' @ Itoa workerID @ '':'' @ Itoa (wrap64 (failures b + 1)))"
  have d: "d = base + uint (?h mod of_int (base div 4 + 1))"
    and b': "b' = b\<lparr>failures := wrap64 (failures b + 1)\<rparr>"
    using assms lim
    by (simp_all only: NextDelay_def Let_def base_def [symmetric] j not_le [symmetric]
        if_False prod.inject simp_thms)
  have "uint (?h mod of_int (base div 4 + 1)) < base div 4 + 1"
    using lim by (intro uint_mod_less) simp_all
  with d bb lim show "infrastructureRequeueInitialDelay \<le> d" "d \<le> 5 * Second"
    using uint_ge_0 [of "?h mod of_int (base div 4 + 1)"] by linarith+
  show "failures b' = wrap64 (failures b + 1)" using b' by simp
qed

end
