(* ===== verification/Network_Policy.thy ===== *)
theory Network_Policy
  imports Net_Addr Backoff
begin

text \<open>
  The outbound network policy of \<open>security.go\<close>: which URLs, ports and addresses a
  check may reach, the redirect and proxy hooks of the HTTP client, name resolution
  and dialling. The URL and address parsers of the standard library, the resolver,
  the dialer and the proxy environment are arguments, so every statement holds for
  all of their answers.
\<close>

section \<open>Data\<close>

text \<open>A parsed URL: \<open>url_User\<close> says whether a userinfo part is present.\<close>

record URL =
  url_Scheme :: string
  url_User :: bool
  url_Host :: string
  url_Path :: string
  url_RawPath :: string
  url_RawQuery :: string
  url_ForceQuery :: bool
  url_Fragment :: string
  url_RawFragment :: string

record NetworkPolicy =
  allowPrivateNetworks :: bool
  allowProxyEnv :: bool
  maxRedirects :: int
  allowedPorts :: "int set"

datatype net_error =
    UrlEmpty
  | UrlParseError
  | SchemeNotAllowed string
  | UserinfoNotAllowed
  | HostRequired
  | LocalhostNotAllowed
  | ZoneNotAllowed
  | PortInvalid
  | PortNotAllowed int
  | IPNotAllowed addr
  | TooManyRedirects int
  | BlockedRedirect "URL option" net_error
  | ProxyNeedsTrust
  | ProxyEnvError
  | BlockedProxy net_error
  | NetworkNotAllowed string
  | SplitHostPortError
  | LookupError
  | ResolvedOnlyBlocked string
  | DialError
  | DialDeadline
  | NoAllowedAddresses string

section \<open>Host and port of a URL\<close>

text \<open>\<open>URL.Hostname\<close> and \<open>URL.Port\<close> of \<open>net/url\<close>.\<close>

definition cut_last :: "string \<Rightarrow> char \<Rightarrow> (string \<times> string) option" where
  "cut_last s c = map_option (\<lambda>(a, b). (rev b, rev a)) (Cut (rev s) c)"

definition splitHostPort :: "string \<Rightarrow> string \<times> string" where
  "splitHostPort hostPort =
     (let (host, port) = (case cut_last hostPort CHR '':'' of
                            None \<Rightarrow> (hostPort, [])
                          | Some (h, p) \<Rightarrow> if list_all is_digit p then (h, p) else (hostPort, []));
          host = (if HasPrefix host ''['' \<and> HasSuffix host '']''
                  then butlast (tl host) else host)
      in (host, port))"

definition Hostname :: "URL \<Rightarrow> string" where "Hostname u = fst (splitHostPort (url_Host u))"
definition Port :: "URL \<Rightarrow> string" where "Port u = snd (splitHostPort (url_Host u))"

section \<open>Address policy\<close>

definition wellKnownNAT64Prefix :: ip_prefix where
  "wellKnownNAT64Prefix = Prefix6 0x0064FF9B000000000000000000000000 96"

definition blockedNetworkPrefixes :: "ip_prefix list" where
  "blockedNetworkPrefixes =
     [Prefix4 0x00000000 8,
      Prefix4 0x64400000 10,
      Prefix4 0xC0000000 24,
      Prefix4 0xC0000200 24,
      Prefix4 0xC6120000 15,
      Prefix4 0xC6336400 24,
      Prefix4 0xCB007100 24,
      Prefix4 0xE0000000 4,
      Prefix4 0xF0000000 4,
      Prefix6 0 128,
      Prefix6 0x20010DB8000000000000000000000000 32,
      Prefix6 0x0064FF9B000100000000000000000000 48,
      Prefix6 0xFF000000000000000000000000000000 8]"

text \<open>\<open>netip.AddrFrom4\<close> of the last four bytes of \<open>As16\<close>.\<close>

fun nat64Target :: "addr \<Rightarrow> addr" where
  "nat64Target (Addr6 w z) = Addr4 (ucast w)"
| "nat64Target a = a"

definition IsAllowedIP :: "NetworkPolicy \<Rightarrow> addr \<Rightarrow> bool" where
  "IsAllowedIP p ip0 =
     (let ip = Unmap ip0;
          ip = (if Contains wellKnownNAT64Prefix ip then nat64Target ip else ip)
      in if \<not> IsValid ip \<or> IsUnspecified ip \<or> IsMulticast ip then False
         else if allowPrivateNetworks p then True
         else if IsLoopback ip \<or> IsPrivate ip \<or> IsLinkLocalUnicast ip \<or> IsLinkLocalMulticast ip
         then False
         else \<not> list_ex (\<lambda>prefix. Contains prefix ip) blockedNetworkPrefixes)"

definition IsAllowedPort :: "NetworkPolicy \<Rightarrow> int \<Rightarrow> bool" where
  "IsAllowedPort p port \<longleftrightarrow> port \<in> allowedPorts p"

section \<open>URL policy\<close>

definition portForURL :: "URL \<Rightarrow> net_error + int" where
  "portForURL parsed =
     (if Port parsed \<noteq> []
      then (case Atoi (Port parsed) of
              None \<Rightarrow> Inl PortInvalid
            | Some port \<Rightarrow> if port < 1 \<or> port > 65535 then Inl PortInvalid else Inr port)
      else if ToLower (url_Scheme parsed) = ''http'' then Inr 80
      else if ToLower (url_Scheme parsed) = ''https'' then Inr 443
      else Inl (SchemeNotAllowed (url_Scheme parsed)))"

definition ValidateParsedURL ::
  "(string \<Rightarrow> addr option) \<Rightarrow> NetworkPolicy \<Rightarrow> URL option \<Rightarrow> net_error option" where
  "ValidateParsedURL ParseAddr p url =
     (case url of None \<Rightarrow> Some UrlEmpty
      | Some parsed \<Rightarrow>
        (let scheme = ToLower (url_Scheme parsed);
             host = Hostname parsed;
             normalizedHost = TrimSuffix (ToLower host) ''.''
         in if scheme \<noteq> ''http'' \<and> scheme \<noteq> ''https''
              then Some (SchemeNotAllowed (url_Scheme parsed))
            else if url_User parsed then Some UserinfoNotAllowed
            else if host = [] then Some HostRequired
            else if normalizedHost = ''localhost'' \<or> HasSuffix normalizedHost ''.localhost''
              then Some LocalhostNotAllowed
            else if ContainsChar host CHR ''%'' then Some ZoneNotAllowed
            else (case portForURL parsed of
                    Inl e \<Rightarrow> Some e
                  | Inr port \<Rightarrow>
                      if \<not> IsAllowedPort p port then Some (PortNotAllowed port)
                      else (case ParseAddr host of
                              Some ip \<Rightarrow> if \<not> IsAllowedIP p ip then Some (IPNotAllowed ip) else None
                            | None \<Rightarrow> None))))"

definition ValidateURL ::
  "(string \<Rightarrow> URL option) \<Rightarrow> (string \<Rightarrow> addr option) \<Rightarrow> NetworkPolicy \<Rightarrow> string \<Rightarrow> net_error option" where
  "ValidateURL ParseURL ParseAddr p raw =
     (case ParseURL raw of
        None \<Rightarrow> Some UrlParseError
      | Some parsed \<Rightarrow> ValidateParsedURL ParseAddr p (Some parsed))"

text \<open>
  \<open>redactedURLOrigin\<close>: the URL that is rendered into a log or an error, \<open>None\<close> where
  the code prints \<open><invalid URL>\<close>.
\<close>

definition redactedURLOrigin :: "URL option \<Rightarrow> URL option" where
  "redactedURLOrigin url =
     (case url of None \<Rightarrow> None
      | Some parsed \<Rightarrow>
          if url_Scheme parsed = [] \<or> url_Host parsed = [] then None
          else Some (parsed\<lparr>url_User := False, url_Path := [], url_RawPath := [],
                 url_RawQuery := [], url_ForceQuery := False, url_Fragment := [],
                 url_RawFragment := []\<rparr>))"

section \<open>Redirects and proxies\<close>

text \<open>
  \<open>CheckRedirect\<close> gets the next request's URL and the number of requests already made;
  on success it also deletes the \<open>Referer\<close> header (the second component).
\<close>

record request =
  req_URL :: "URL option"
  req_Referer :: "string option"

definition CheckRedirect ::
  "(string \<Rightarrow> addr option) \<Rightarrow> NetworkPolicy \<Rightarrow> request \<Rightarrow> nat \<Rightarrow> net_error + request" where
  "CheckRedirect ParseAddr p req via =
     (if int via > maxRedirects p then Inl (TooManyRedirects (maxRedirects p))
      else (case ValidateParsedURL ParseAddr p (req_URL req) of
              Some e \<Rightarrow> Inl (BlockedRedirect (redactedURLOrigin (req_URL req)) e)
            | None \<Rightarrow> Inr (req\<lparr>req_Referer := None\<rparr>)))"

text \<open>
  The redirect loop of \<open>http.Client.Do\<close>: the client has made \<open>via\<close> requests and the
  server answers with the redirect targets in turn. The result is the requests made
  after the first one, and the error that stopped the chain, if any.
\<close>

fun followRedirects ::
  "(string \<Rightarrow> addr option) \<Rightarrow> NetworkPolicy \<Rightarrow> nat \<Rightarrow> request list \<Rightarrow> request list \<times> net_error option" where
  "followRedirects PA p via [] = ([], None)"
| "followRedirects PA p via (req # reqs) =
     (case CheckRedirect PA p req via of
        Inl e \<Rightarrow> ([], Some e)
      | Inr req' \<Rightarrow> (let (rs, e) = followRedirects PA p (Suc via) reqs in (req' # rs, e)))"

text \<open>\<open>http.ProxyFromEnvironment\<close> answers an error, no proxy, or a proxy URL.\<close>

definition Proxy ::
  "(string \<Rightarrow> addr option) \<Rightarrow> (net_error + URL option) \<Rightarrow> NetworkPolicy \<Rightarrow> net_error + URL option" where
  "Proxy ParseAddr ProxyFromEnvironment p =
     (if \<not> allowProxyEnv p then Inr None
      else if \<not> allowPrivateNetworks p then Inl ProxyNeedsTrust
      else (case ProxyFromEnvironment of
              Inl e \<Rightarrow> Inl e
            | Inr None \<Rightarrow> Inr None
            | Inr (Some proxyURL) \<Rightarrow>
                (case ValidateParsedURL ParseAddr p (Some proxyURL) of
                   Some e \<Rightarrow> Inl (BlockedProxy e)
                 | None \<Rightarrow> Inr (Some proxyURL))))"

section \<open>Resolution and dialling\<close>

fun filterAllowed :: "NetworkPolicy \<Rightarrow> addr list \<Rightarrow> addr set \<Rightarrow> addr list" where
  "filterAllowed p [] seen = []"
| "filterAllowed p (ip0 # ips) seen =
     (let ip = Unmap ip0 in
      if ip \<in> seen then filterAllowed p ips seen
      else if IsAllowedIP p ip then ip # filterAllowed p ips (insert ip seen)
      else filterAllowed p ips (insert ip seen))"

definition ResolveAllowedIPs ::
  "(string \<Rightarrow> addr option) \<Rightarrow> (string \<Rightarrow> addr list option) \<Rightarrow> NetworkPolicy \<Rightarrow> string
    \<Rightarrow> net_error + addr list" where
  "ResolveAllowedIPs ParseAddr LookupNetIP p host =
     (case ParseAddr host of
        Some ip0 \<Rightarrow>
          (let ip = Unmap ip0 in
           if \<not> IsAllowedIP p ip then Inl (IPNotAllowed ip) else Inr [ip])
      | None \<Rightarrow>
          (case LookupNetIP host of
             None \<Rightarrow> Inl LookupError
           | Some ips \<Rightarrow>
               (let allowed = filterAllowed p ips {} in
                if allowed = [] then Inl (ResolvedOnlyBlocked host) else Inr allowed)))"

text \<open>
  The dial loop. \<open>remaining i\<close> is the time left until the context's deadline when the
  \<open>i\<close>-th address is tried, \<open>None\<close> without a deadline; \<open>dial\<close> gets the time budget, the
  address and the port as the text of the request. The result carries the dial calls made, in order.
\<close>

type_synonym dial_call = "duration option \<times> addr \<times> string"

fun dialLoop ::
  "(nat \<Rightarrow> duration option) \<Rightarrow> (dial_call \<Rightarrow> 'c option) \<Rightarrow> string \<Rightarrow> nat \<Rightarrow> addr list
    \<Rightarrow> net_error option \<Rightarrow> string \<Rightarrow> (net_error + 'c) \<times> dial_call list" where
  "dialLoop remaining dial port index [] lastErr host =
     (case lastErr of Some e \<Rightarrow> (Inl e, []) | None \<Rightarrow> (Inl (NoAllowedAddresses host), []))"
| "dialLoop remaining dial port index (ip # ips) lastErr host =
     (case remaining index of
        Some r \<Rightarrow>
          if r \<le> 0 then (Inl DialDeadline, [])
          else (let budget = go_div r (int (length (ip # ips)));
                    budget = (if budget \<le> 0 then Nanosecond else budget);
                    call = (Some budget, ip, port)
                in case dial call of
                     Some conn \<Rightarrow> (Inr conn, [call])
                   | None \<Rightarrow> (let (res, calls) = dialLoop remaining dial port (Suc index) ips
                                                   (Some DialError) host
                             in (res, call # calls)))
      | None \<Rightarrow>
          (let call = (None, ip, port)
           in case dial call of
                Some conn \<Rightarrow> (Inr conn, [call])
              | None \<Rightarrow> (let (res, calls) = dialLoop remaining dial port (Suc index) ips
                                              (Some DialError) host
                        in (res, call # calls))))"

definition DialContext ::
  "(string \<Rightarrow> (string \<times> string) option) \<Rightarrow> (string \<Rightarrow> addr option) \<Rightarrow> (string \<Rightarrow> addr list option)
    \<Rightarrow> (nat \<Rightarrow> duration option) \<Rightarrow> (dial_call \<Rightarrow> 'c option) \<Rightarrow> NetworkPolicy \<Rightarrow> string \<Rightarrow> string
    \<Rightarrow> (net_error + 'c) \<times> dial_call list" where
  "DialContext SplitHostPort ParseAddr LookupNetIP remaining dial p network address =
     (if network \<noteq> ''tcp'' \<and> network \<noteq> ''tcp4'' \<and> network \<noteq> ''tcp6''
      then (Inl (NetworkNotAllowed network), [])
      else case SplitHostPort address of
        None \<Rightarrow> (Inl SplitHostPortError, [])
      | Some (host, port) \<Rightarrow>
         (case Atoi port of
            None \<Rightarrow> (Inl PortInvalid, [])
          | Some portNumber \<Rightarrow>
              if \<not> IsAllowedPort p portNumber then (Inl (PortNotAllowed portNumber), [])
              else if ContainsChar host CHR ''%'' then (Inl ZoneNotAllowed, [])
              else (case ResolveAllowedIPs ParseAddr LookupNetIP p host of
                      Inl e \<Rightarrow> (Inl e, [])
                    | Inr ips \<Rightarrow> dialLoop remaining dial port 0 ips None host)))"

section \<open>The allowed IPv4 addresses\<close>

text \<open>
  The special-use IPv4 blocks as inclusive address ranges: "this network", private
  use, carrier-grade NAT, loopback, link local, IETF assignments, documentation,
  benchmarking, multicast and reserved.
\<close>

definition special_v4 :: "(nat \<times> nat) list" where
  "special_v4 =
     [(0x00000000, 0x00FFFFFF), (0x0A000000, 0x0AFFFFFF), (0x64400000, 0x647FFFFF),
      (0x7F000000, 0x7FFFFFFF), (0xA9FE0000, 0xA9FEFFFF), (0xAC100000, 0xAC1FFFFF),
      (0xC0000000, 0xC00000FF), (0xC0000200, 0xC00002FF), (0xC0A80000, 0xC0A8FFFF),
      (0xC6120000, 0xC613FFFF), (0xC6336400, 0xC63364FF), (0xCB007100, 0xCB0071FF),
      (0xE0000000, 0xFFFFFFFF)]"

definition in_ranges :: "(nat \<times> nat) list \<Rightarrow> nat \<Rightarrow> bool" where
  "in_ranges rs n \<longleftrightarrow> list_ex (\<lambda>(lo, hi). lo \<le> n \<and> n \<le> hi) rs"

lemma div_eq_range:
  assumes "0 < d"
  shows "(n :: nat) div d = q \<longleftrightarrow> q * d \<le> n \<and> n < Suc q * d"
proof
  assume "n div d = q"
  with assms show "q * d \<le> n \<and> n < Suc q * d"
    using div_times_less_eq_dividend [of n d] dividend_less_div_times [of d n]
    by (simp add: add.commute)
next
  assume "q * d \<le> n \<and> n < Suc q * d"
  then show "n div d = q" by (intro div_nat_eqI) (simp_all add: mult.commute)
qed

lemma unat_numeral_32: "unat (numeral k :: 32 word) = numeral k" if "numeral k < (256 :: nat)"
proof -
  have "numeral k < (2 :: nat) ^ LENGTH(32)" using that by (rule less_trans) simp
  then show ?thesis unfolding unat_bintrunc by (rule take_bit_nat_eq_self)
qed

lemma v4_eq_numeral:
  "v4 w i = numeral k \<longleftrightarrow> unat w div 2 ^ (24 - 8 * i) mod 256 = numeral k"
  if "numeral k < (256 :: nat)"
  using unat_numeral_32 [OF that] by (simp only: word_unat_eq_iff unat_v4)

lemma v4_high_nibble:
  "v4 w i AND 0xF0 = numeral k \<longleftrightarrow> unat w div 2 ^ (24 - 8 * i) mod 256 div 16 * 16 = numeral k"
  if "numeral k < (256 :: nat)"
proof -
  have m: "(0xF0 :: 32 word) = push_bit 4 (mask 4)"
    by (simp add: mask_eq_exp_minus_1 push_bit_eq_mult)
  have "unat (v4 w i) < 2 ^ (4 + 4)" by (simp add: unat_v4)
  then have "unat (v4 w i AND 0xF0) = unat (v4 w i) div 2 ^ 4 * 2 ^ 4"
    unfolding m by (rule unat_and_block) simp
  with unat_numeral_32 [OF that] show ?thesis by (simp only: word_unat_eq_iff unat_v4) simp
qed

lemma two_octets:
  fixes n :: nat
  shows "n div 16777216 = k \<and> n div 65536 mod 256 = l \<longleftrightarrow> n div 65536 = k * 256 + l \<and> l < 256"
proof -
  have "n div 16777216 = n div 65536 div 256" by (simp add: div_mult2_eq [symmetric])
  then show ?thesis by (auto simp: div_mult_mod_eq)
qed

lemma octet0_small: "unat (w :: 32 word) div 16777216 mod 256 = unat w div 16777216"
  using unat_32_bound [of w] by (simp add: less_mult_imp_div_less)

lemmas v4_tests = v4_eq_numeral v4_high_nibble octet0_small

lemma IsLoopback_4: "IsLoopback (Addr4 w) \<longleftrightarrow> 0x7F000000 \<le> unat w \<and> unat w \<le> 0x7FFFFFFF"
  by (auto simp: IsLoopback_def v4_tests div_eq_range)

lemma IsMulticast_4: "IsMulticast (Addr4 w) \<longleftrightarrow> 0xE0000000 \<le> unat w \<and> unat w \<le> 0xEFFFFFFF"
proof -
  have "IsMulticast (Addr4 w) \<longleftrightarrow> unat w div 16777216 div 16 = 14"
    by (simp add: IsMulticast_def v4_tests)
  also have "unat w div 16777216 div 16 = unat w div 268435456" by (simp add: div_mult2_eq [symmetric])
  finally show ?thesis by (auto simp: div_eq_range)
qed

lemma IsLinkLocalUnicast_4:
  "IsLinkLocalUnicast (Addr4 w) \<longleftrightarrow> 0xA9FE0000 \<le> unat w \<and> unat w \<le> 0xA9FEFFFF"
proof -
  have "IsLinkLocalUnicast (Addr4 w) \<longleftrightarrow>
      unat w div 16777216 = 169 \<and> unat w div 65536 mod 256 = 254"
    by (simp add: IsLinkLocalUnicast_def v4_tests)
  then show ?thesis by (simp only: two_octets) (auto simp: div_eq_range)
qed

lemma IsLinkLocalMulticast_4: "IsLinkLocalMulticast (Addr4 w) \<Longrightarrow> IsMulticast (Addr4 w)"
  by (auto simp: IsLinkLocalMulticast_def IsMulticast_def v4_tests)

lemma nibble_split:
  fixes x :: nat
  shows "x div 256 = k \<and> x mod 256 div 16 = l \<longleftrightarrow> x div 16 = k * 16 + l \<and> l < 16"
proof -
  have "x div 256 = x div 16 div 16" "x mod 256 div 16 = x div 16 mod 16"
    by (simp_all add: div_mult2_eq [symmetric] mod_mult2_eq [of x 16 16, simplified])
  then show ?thesis by (auto simp: div_mult_mod_eq)
qed

lemma private_172:
  fixes n :: nat
  shows "n div 16777216 = 172 \<and> n div 65536 mod 256 div 16 * 16 = 16
    \<longleftrightarrow> 0xAC100000 \<le> n \<and> n \<le> 0xAC1FFFFF"
proof -
  have "n div 16777216 = n div 65536 div 256" "n div 1048576 = n div 65536 div 16"
    by (simp_all add: div_mult2_eq [symmetric])
  then have "n div 16777216 = 172 \<and> n div 65536 mod 256 div 16 * 16 = 16 \<longleftrightarrow> n div 1048576 = 2753"
    using nibble_split [of "n div 65536" 172 1] by simp
  then show ?thesis by (auto simp: div_eq_range)
qed

lemma IsPrivate_4:
  "IsPrivate (Addr4 w) \<longleftrightarrow> 0x0A000000 \<le> unat w \<and> unat w \<le> 0x0AFFFFFF
     \<or> 0xAC100000 \<le> unat w \<and> unat w \<le> 0xAC1FFFFF
     \<or> 0xC0A80000 \<le> unat w \<and> unat w \<le> 0xC0A8FFFF"
proof -
  have "IsPrivate (Addr4 w) \<longleftrightarrow> unat w div 16777216 = 10
     \<or> (unat w div 16777216 = 172 \<and> unat w div 65536 mod 256 div 16 * 16 = 16)
     \<or> (unat w div 16777216 = 192 \<and> unat w div 65536 mod 256 = 168)"
    by (simp add: IsPrivate_def v4_tests)
  then show ?thesis
    by (simp only: private_172 two_octets) (auto simp: div_eq_range)
qed

lemma in_ranges_simps:
  "in_ranges [] n \<longleftrightarrow> False"
  "in_ranges ((lo, hi) # rs) n \<longleftrightarrow> lo \<le> n \<and> n \<le> hi \<or> in_ranges rs n"
  by (simp_all add: in_ranges_def)

lemma div_eq_block:
  "(n :: nat) div numeral d = q \<longleftrightarrow> q * numeral d \<le> n \<and> n \<le> q * numeral d + (numeral d - 1)"
proof -
  have "n < Suc q * k \<longleftrightarrow> n \<le> q * k + (k - 1)" if "0 < k" for k using that by auto
  then show ?thesis by (simp only: div_eq_range zero_less_numeral)
qed

lemma prefixes_4:
  "list_ex (\<lambda>prefix. Contains prefix (Addr4 w)) blockedNetworkPrefixes \<longleftrightarrow>
   in_ranges [(0, 0x00FFFFFF), (0x64400000, 0x647FFFFF), (0xC0000000, 0xC00000FF),
     (0xC0000200, 0xC00002FF), (0xC6120000, 0xC613FFFF), (0xC6336400, 0xC63364FF),
     (0xCB007100, 0xCB0071FF), (0xE0000000, 0xFFFFFFFF)] (unat w)"
proof -
  have "list_ex (\<lambda>prefix. Contains prefix (Addr4 w)) blockedNetworkPrefixes \<longleftrightarrow>
     unat w div 16777216 = 0 \<or> unat w div 4194304 = 401 \<or> unat w div 256 = 12582912
     \<or> unat w div 256 = 12582914 \<or> unat w div 131072 = 25353 \<or> unat w div 256 = 12989284
     \<or> unat w div 256 = 13303921 \<or> unat w div 268435456 = 14 \<or> unat w div 268435456 = 15"
    by (simp add: blockedNetworkPrefixes_def Contains4_range Contains6_range Contains_mixed
        del: Contains.simps)
  moreover have "unat w div 268435456 = 14 \<or> unat w div 268435456 = 15 \<longleftrightarrow>
      0xE0000000 \<le> unat w \<and> unat w \<le> 0xFFFFFFFF"
    using unat_32_bound [of w] by (auto simp: div_eq_range)
  ultimately show ?thesis
    by (simp only: in_ranges_simps div_eq_block) simp
qed

lemma IsUnspecified_4: "IsUnspecified (Addr4 w) \<longleftrightarrow> unat w = 0"
  by (simp add: IsUnspecified_def unat_eq_0)

lemma IsAllowedIP_4:
  "IsAllowedIP p (Addr4 w) \<longleftrightarrow>
   (if allowPrivateNetworks p
    then unat w \<noteq> 0 \<and> \<not> (0xE0000000 \<le> unat w \<and> unat w \<le> 0xEFFFFFFF)
    else \<not> in_ranges special_v4 (unat w))"
proof -
  have "IsAllowedIP p (Addr4 w) \<longleftrightarrow>
     \<not> (IsUnspecified (Addr4 w) \<or> IsMulticast (Addr4 w))
     \<and> (\<not> allowPrivateNetworks p \<longrightarrow>
          \<not> (IsLoopback (Addr4 w) \<or> IsPrivate (Addr4 w) \<or> IsLinkLocalUnicast (Addr4 w))
          \<and> \<not> list_ex (\<lambda>prefix. Contains prefix (Addr4 w)) blockedNetworkPrefixes)"
    using IsLinkLocalMulticast_4 [of w]
    by (auto simp: IsAllowedIP_def wellKnownNAT64Prefix_def Let_def)
  moreover have "0 \<le> unat w" "unat w = 0 \<longrightarrow> unat w \<le> 0x00FFFFFF"
    "unat w \<le> 0xEFFFFFFF \<longrightarrow> unat w \<le> 0xFFFFFFFF"
    by simp_all
  ultimately show ?thesis
    unfolding special_v4_def in_ranges_simps if_bool_eq_conj
      IsUnspecified_4 IsMulticast_4 IsLoopback_4 IsPrivate_4 IsLinkLocalUnicast_4 prefixes_4
    by satx
qed

section \<open>The allowed IPv6 addresses\<close>

text \<open>
  The special-use IPv6 blocks: unspecified, loopback, unique local, link local,
  multicast, documentation and the local-use NAT64 prefix.
\<close>

definition special_v6 :: "(nat \<times> nat) list" where
  "special_v6 =
     [(0, 1),
      (0xFC000000000000000000000000000000, 0xFDFFFFFFFFFFFFFFFFFFFFFFFFFFFFFF),
      (0xFE800000000000000000000000000000, 0xFEBFFFFFFFFFFFFFFFFFFFFFFFFFFFFF),
      (0xFF000000000000000000000000000000, 0xFFFFFFFFFFFFFFFFFFFFFFFFFFFFFFFF),
      (0x20010DB8000000000000000000000000, 0x20010DB8FFFFFFFFFFFFFFFFFFFFFFFF),
      (0x0064FF9B000100000000000000000000, 0x0064FF9B0001FFFFFFFFFFFFFFFFFFFF)]"

definition nat64_range :: "nat \<Rightarrow> bool" where
  "nat64_range n \<longleftrightarrow> 0x0064FF9B000000000000000000000000 \<le> n \<and> n \<le> 0x0064FF9B0000000000000000FFFFFFFF"

definition mapped_range :: "nat \<Rightarrow> bool" where
  "mapped_range n \<longleftrightarrow> 0xFFFF00000000 \<le> n \<and> n \<le> 0xFFFFFFFFFFFF"

lemma Is4In6_range: "Is4In6 (Addr6 w z) \<longleftrightarrow> mapped_range (unat w)"
proof -
  have "Is4In6 (Addr6 w z) \<longleftrightarrow> unat (drop_bit 32 w) = unat (0xFFFF :: 128 word)"
    by (simp only: Is4In6.simps word_unat_eq_iff)
  also have "\<dots> \<longleftrightarrow> unat w div 4294967296 = 65535"
    by (simp add: unat_drop_bit_div)
  finally show ?thesis by (auto simp: mapped_range_def div_eq_range)
qed

lemma nat64_contains: "Contains wellKnownNAT64Prefix (Addr6 w z) \<longleftrightarrow> z = [] \<and> nat64_range (unat w)"
proof -
  have "Contains wellKnownNAT64Prefix (Addr6 w z) \<longleftrightarrow>
      z = [] \<and> unat w div 4294967296 = 0x0064FF9B0000000000000000"
    by (simp add: wellKnownNAT64Prefix_def Contains6_range del: Contains.simps)
  then show ?thesis by (auto simp: nat64_range_def div_eq_range)
qed

lemma unat_numeral_128: "unat (numeral k :: 128 word) = numeral k" if "numeral k < (65536 :: nat)"
proof -
  have "numeral k < (2 :: nat) ^ LENGTH(128)" using that by (rule less_trans) simp
  then show ?thesis unfolding unat_bintrunc by (rule take_bit_nat_eq_self)
qed

lemma v6_octet0: "unat (v6 w 0) = unat w div 2 ^ 120"
  using unat_128_bound [of w] by (simp add: unat_v6 less_mult_imp_div_less)

lemma v6u16_word0: "unat (v6u16 w 0) = unat w div 2 ^ 112"
  using unat_128_bound [of w] by (simp add: unat_v6u16 less_mult_imp_div_less)

lemma IsMulticast_6:
  assumes "\<not> Is4In6 (Addr6 w z)"
  shows "IsMulticast (Addr6 w z) \<longleftrightarrow> 0xFF000000000000000000000000000000 \<le> unat w
     \<and> unat w \<le> 0xFFFFFFFFFFFFFFFFFFFFFFFFFFFFFFFF"
proof -
  have "IsMulticast (Addr6 w z) \<longleftrightarrow> unat w div 2 ^ 120 = 255"
    using assms by (simp add: IsMulticast_def word_unat_eq_iff v6_octet0 unat_numeral_128 del: Is4In6.simps)
  then show ?thesis by (simp add: div_eq_block)
qed

lemma IsPrivate_6:
  assumes "\<not> Is4In6 (Addr6 w z)"
  shows "IsPrivate (Addr6 w z) \<longleftrightarrow> 0xFC000000000000000000000000000000 \<le> unat w
     \<and> unat w \<le> 0xFDFFFFFFFFFFFFFFFFFFFFFFFFFFFFFF"
proof -
  have m: "(0xFE :: 128 word) = push_bit 1 (mask 7)"
    by (simp add: mask_eq_exp_minus_1 push_bit_eq_mult)
  have "unat (v6 w 0) < 2 ^ (1 + 7)" by (simp add: unat_v6)
  then have "unat (v6 w 0 AND 0xFE) = unat w div 2 ^ 120 div 2 * 2"
    unfolding m by (subst unat_and_block) (simp_all add: v6_octet0)
  moreover have "IsPrivate (Addr6 w z) \<longleftrightarrow> unat (v6 w 0 AND 0xFE) = unat (0xFC :: 128 word)"
    using assms by (simp only: IsPrivate_def Unmap.simps if_False addr.case word_unat_eq_iff)
  ultimately have "IsPrivate (Addr6 w z) \<longleftrightarrow> unat w div 2 ^ 121 = 126"
    by (simp add: unat_numeral_128 div_mult2_eq [symmetric])
  then show ?thesis by (simp add: div_eq_block)
qed

lemma IsLinkLocalUnicast_6:
  assumes "\<not> Is4In6 (Addr6 w z)"
  shows "IsLinkLocalUnicast (Addr6 w z) \<longleftrightarrow> 0xFE800000000000000000000000000000 \<le> unat w
     \<and> unat w \<le> 0xFEBFFFFFFFFFFFFFFFFFFFFFFFFFFFFF"
proof -
  have m: "(0xFFC0 :: 128 word) = push_bit 6 (mask 10)"
    by (simp add: mask_eq_exp_minus_1 push_bit_eq_mult)
  have "unat (v6u16 w 0) < 2 ^ (6 + 10)" by (simp add: unat_v6u16)
  then have "unat (v6u16 w 0 AND 0xFFC0) = unat w div 2 ^ 112 div 64 * 64"
    unfolding m by (subst unat_and_block) (simp_all add: v6u16_word0)
  moreover have "IsLinkLocalUnicast (Addr6 w z) \<longleftrightarrow>
      unat (v6u16 w 0 AND 0xFFC0) = unat (0xFE80 :: 128 word)"
    using assms by (simp only: IsLinkLocalUnicast_def Unmap.simps if_False addr.case word_unat_eq_iff)
  ultimately have "IsLinkLocalUnicast (Addr6 w z) \<longleftrightarrow> unat w div 2 ^ 118 = 1018"
    by (simp add: unat_numeral_128 div_mult2_eq [symmetric])
  then show ?thesis by (simp add: div_eq_block)
qed

lemma IsLinkLocalMulticast_6:
  assumes "\<not> Is4In6 (Addr6 w z)" "IsLinkLocalMulticast (Addr6 w z)"
  shows "IsMulticast (Addr6 w z)"
proof -
  have "v6u16 w 0 AND 0xFF0F = 0xFF02"
    using assms by (simp add: IsLinkLocalMulticast_def del: Is4In6.simps)
  then have "(v6u16 w 0 AND 0xFF0F) AND 0xFF00 = 0xFF02 AND 0xFF00" by simp
  then have "v6u16 w 0 AND (0xFF0F AND 0xFF00) = 0xFF02 AND 0xFF00" by (simp only: and.assoc)
  then have and_eq: "v6u16 w 0 AND 0xFF00 = 0xFF00" by simp
  have m: "(0xFF00 :: 128 word) = push_bit 8 (mask 8)"
    by (simp add: mask_eq_exp_minus_1 push_bit_eq_mult)
  have "unat (v6u16 w 0) < 2 ^ (8 + 8)" by (simp add: unat_v6u16)
  then have "unat (v6u16 w 0 AND 0xFF00) = unat w div 2 ^ 112 div 256 * 256"
    unfolding m by (subst unat_and_block) (simp_all add: v6u16_word0)
  with and_eq have "unat w div 2 ^ 120 = 255"
    by (simp add: unat_numeral_128 div_mult2_eq [symmetric])
  with assms(1) show ?thesis by (simp add: IsMulticast_6 div_eq_block)
qed

lemma prefixes_6:
  "list_ex (\<lambda>prefix. Contains prefix (Addr6 w [])) blockedNetworkPrefixes \<longleftrightarrow>
   unat w = 0
   \<or> in_ranges [(0x20010DB8000000000000000000000000, 0x20010DB8FFFFFFFFFFFFFFFFFFFFFFFF),
      (0x0064FF9B000100000000000000000000, 0x0064FF9B0001FFFFFFFFFFFFFFFFFFFF),
      (0xFF000000000000000000000000000000, 0xFFFFFFFFFFFFFFFFFFFFFFFFFFFFFFFF)] (unat w)"
proof -
  have "list_ex (\<lambda>prefix. Contains prefix (Addr6 w [])) blockedNetworkPrefixes \<longleftrightarrow>
      unat w = 0 \<or> unat w div 2 ^ 96 = 0x20010DB8 \<or> unat w div 2 ^ 80 = 0x0064FF9B0001
      \<or> unat w div 2 ^ 120 = 0xFF"
    by (simp add: blockedNetworkPrefixes_def Contains4_range Contains6_range Contains_mixed
        del: Contains.simps)
  then show ?thesis by (simp add: in_ranges_simps div_eq_block)
qed

lemma IsLoopback_6: "\<not> Is4In6 (Addr6 w z) \<Longrightarrow> IsLoopback (Addr6 w z) \<longleftrightarrow> unat w = 1"
  by (simp add: IsLoopback_def word_unat_eq_iff del: Is4In6.simps)

lemma IsUnspecified_6: "IsUnspecified (Addr6 w []) \<longleftrightarrow> unat w = 0"
  by (simp add: IsUnspecified_def unat_eq_0)

lemma IsAllowedIP_6:
  assumes "\<not> mapped_range (unat w)" "\<not> nat64_range (unat w)" "\<not> allowPrivateNetworks p"
  shows "IsAllowedIP p (Addr6 w []) \<longleftrightarrow> \<not> in_ranges special_v6 (unat w)"
proof -
  have not4: "\<not> Is4In6 (Addr6 w [])" using assms by (simp only: Is4In6_range simp_thms)
  then have unmap: "Unmap (Addr6 w []) = Addr6 w []" by (simp del: Is4In6.simps)
  have "IsAllowedIP p (Addr6 w []) \<longleftrightarrow>
     \<not> (IsUnspecified (Addr6 w []) \<or> IsMulticast (Addr6 w []))
     \<and> \<not> (IsLoopback (Addr6 w []) \<or> IsPrivate (Addr6 w []) \<or> IsLinkLocalUnicast (Addr6 w []))
     \<and> \<not> list_ex (\<lambda>prefix. Contains prefix (Addr6 w [])) blockedNetworkPrefixes"
    using IsLinkLocalMulticast_6 [OF not4] assms
    unfolding IsAllowedIP_def Let_def unmap nat64_contains by auto
  moreover have "unat w = 0 \<or> unat w = 1 \<longleftrightarrow> 0 \<le> unat w \<and> unat w \<le> 1" by auto
  ultimately show ?thesis
    unfolding special_v6_def in_ranges_simps IsUnspecified_6 IsMulticast_6 [OF not4]
      IsLoopback_6 [OF not4] IsPrivate_6 [OF not4] IsLinkLocalUnicast_6 [OF not4] prefixes_6
    by satx
qed

lemma IsAllowedIP_embedded:
  assumes "mapped_range (unat w) \<or> nat64_range (unat w)"
  shows "IsAllowedIP p (Addr6 w []) = IsAllowedIP p (Addr4 (ucast w))"
proof (cases "Is4In6 (Addr6 w [])")
  case True
  then show ?thesis by (simp add: IsAllowedIP_def del: Is4In6.simps)
next
  case False
  with assms have "nat64_range (unat w)" by (simp only: Is4In6_range simp_thms)
  moreover from False have "Unmap (Addr6 w []) = Addr6 w []" by (simp del: Is4In6.simps)
  moreover have "\<not> Contains wellKnownNAT64Prefix (Addr4 u)" for u
    by (simp add: wellKnownNAT64Prefix_def)
  ultimately show ?thesis by (simp add: IsAllowedIP_def nat64_contains)
qed

text \<open>
  The public addresses, as ranges: an IPv4-mapped and a NAT64 address count as the IPv4
  address they lead to.
\<close>

fun public_addr :: "addr \<Rightarrow> bool" where
  "public_addr AddrInvalid = False"
| "public_addr (Addr4 w) = (\<not> in_ranges special_v4 (unat w))"
| "public_addr (Addr6 w z) =
     (if mapped_range (unat w) \<or> nat64_range (unat w)
      then \<not> in_ranges special_v4 (unat w mod 2 ^ 32)
      else \<not> in_ranges special_v6 (unat w))"

fun zone_free :: "addr \<Rightarrow> bool" where
  "zone_free (Addr6 w z) = (z = [])"
| "zone_free a = True"

lemma unat_ucast_low: "unat (ucast w :: 32 word) = unat w mod 2 ^ 32" for w :: "128 word"
  by (simp add: unsigned_ucast_eq take_bit_eq_mod)

lemma IsAllowedIP_public:
  assumes "zone_free a" "\<not> allowPrivateNetworks p"
  shows "IsAllowedIP p a = public_addr a"
proof (cases a)
  case AddrInvalid
  then show ?thesis by (simp add: IsAllowedIP_def wellKnownNAT64Prefix_def Let_def)
next
  case (Addr4 w)
  with assms show ?thesis by (simp add: IsAllowedIP_4)
next
  case (Addr6 w z)
  with assms have "a = Addr6 w []" by simp
  with assms show ?thesis
    by (simp add: IsAllowedIP_embedded IsAllowedIP_6 IsAllowedIP_4 unat_ucast_low)
qed

section \<open>Resolution, dialling and redirects\<close>

lemma filterAllowed_set:
  "set (filterAllowed p ips seen) = {a \<in> Unmap ` set ips - seen. IsAllowedIP p a}"
  by (induction ips arbitrary: seen) (auto simp: Let_def)

lemma filterAllowed_distinct: "distinct (filterAllowed p ips seen)"
  by (induction ips arbitrary: seen) (auto simp: Let_def filterAllowed_set)

lemma ResolveAllowedIPs_allowed:
  assumes "ResolveAllowedIPs PA LU p host = Inr ips"
  shows "ips \<noteq> []" "distinct ips" "\<And>ip. ip \<in> set ips \<Longrightarrow> IsAllowedIP p ip"
  using assms
  by (auto simp: ResolveAllowedIPs_def Let_def filterAllowed_set filterAllowed_distinct
      split: option.splits if_splits)

definition call_addr :: "dial_call \<Rightarrow> addr" where "call_addr c = fst (snd c)"
definition call_port :: "dial_call \<Rightarrow> string" where "call_port c = snd (snd c)"

lemma dialLoop_calls:
  "dialLoop remaining dial port index ips lastErr host = (res, calls) \<Longrightarrow>
   (\<exists>n. map call_addr calls = take n ips) \<and>
   (\<forall>c \<in> set calls. call_port c = port \<and> (\<forall>b. fst c = Some b \<longrightarrow> 0 < b)) \<and>
   (\<forall>conn. res = Inr conn \<longrightarrow> calls \<noteq> [] \<and> dial (last calls) = Some conn)"
proof (induction ips arbitrary: index lastErr calls res)
  case Nil
  then show ?case by (auto split: option.splits)
next
  case (Cons ip ips)
  define b where "b = (case remaining index of None \<Rightarrow> None | Some r \<Rightarrow>
      let q = go_div r (int (length (ip # ips))) in Some (if q \<le> 0 then Nanosecond else q))"
  have bpos: "\<forall>d. b = Some d \<longrightarrow> 0 < d" by (auto simp: b_def Let_def split: option.splits)
  consider (stop) "calls = []" "res = Inl DialDeadline"
    | (conn) conn where "dial (b, ip, port) = Some conn" "calls = [(b, ip, port)]" "res = Inr conn"
    | (next_ip) rest where "calls = (b, ip, port) # rest" "dial (b, ip, port) = None"
        "dialLoop remaining dial port (Suc index) ips (Some DialError) host = (res, rest)"
    using Cons.prems
    by (auto simp: b_def Let_def split: option.splits if_splits prod.splits)
  then show ?case
  proof cases
    case stop
    then show ?thesis by simp
  next
    case conn
    then have "map call_addr calls = take 1 (ip # ips)" by (simp add: call_addr_def)
    with conn bpos show ?thesis by (auto simp: call_port_def simp del: take_Suc_Cons)
  next
    case next_ip
    from Cons.IH [OF next_ip(3)] obtain n where n: "map call_addr rest = take n ips"
      and rest: "\<forall>c \<in> set rest. call_port c = port \<and> (\<forall>b. fst c = Some b \<longrightarrow> 0 < b)"
        "\<forall>conn. res = Inr conn \<longrightarrow> rest \<noteq> [] \<and> dial (last rest) = Some conn" by blast
    have "map call_addr calls = take (Suc n) (ip # ips)"
      using next_ip n by (simp add: call_addr_def)
    with rest next_ip bpos show ?thesis by (fastforce simp: call_port_def simp del: take_Suc_Cons)
  qed
qed

text \<open>What a dial may do under a policy.\<close>

definition safe_calls :: "NetworkPolicy \<Rightarrow> dial_call list \<Rightarrow> bool" where
  "safe_calls p calls \<longleftrightarrow>
     distinct (map call_addr calls) \<and>
     list_all (\<lambda>c. IsAllowedIP p (call_addr c)
       \<and> (case Atoi (call_port c) of None \<Rightarrow> False | Some n \<Rightarrow> IsAllowedPort p n)
       \<and> (case fst c of None \<Rightarrow> True | Some budget \<Rightarrow> 0 < budget)) calls"

lemma DialContext_safe:
  assumes "DialContext SHP PA LU remaining dial p network address = (res, calls)"
  shows "safe_calls p calls" "\<And>conn. res = Inr conn \<Longrightarrow> calls \<noteq> [] \<and> dial (last calls) = Some conn"
proof -
  have *: "safe_calls p calls \<and> (\<forall>conn. res = Inr conn \<longrightarrow> calls \<noteq> [] \<and> dial (last calls) = Some conn)"
  proof (cases "calls = [] \<and> (\<exists>e. res = Inl e)")
    case True
    then show ?thesis by (auto simp: safe_calls_def)
  next
    case False
    then obtain host port n ips where a: "Atoi port = Some n" "IsAllowedPort p n"
      "ResolveAllowedIPs PA LU p host = Inr ips"
      and loop: "dialLoop remaining dial port 0 ips None host = (res, calls)"
      using assms by (auto simp: DialContext_def split: if_splits option.splits sum.splits)
    note l = dialLoop_calls [OF loop]
    from l obtain k where k: "map call_addr calls = take k ips" by blast
    then have "call_addr c \<in> set ips" if "c \<in> set calls" for c
      using that by (metis in_set_takeD image_eqI list.set_map)
    with l a k ResolveAllowedIPs_allowed [OF a(3)] show ?thesis
      by (auto simp: safe_calls_def list_all_iff split: option.splits)
  qed
  then show "safe_calls p calls"
    "\<And>conn. res = Inr conn \<Longrightarrow> calls \<noteq> [] \<and> dial (last calls) = Some conn" by blast+
qed

lemma followRedirects_ok:
  "followRedirects PA p via reqs = (rs, e) \<Longrightarrow>
   int (via + length rs) \<le> max (int via) (maxRedirects p + 1) \<and>
   (\<forall>r \<in> set rs. req_Referer r = None \<and> ValidateParsedURL PA p (req_URL r) = None)"
proof (induction reqs arbitrary: via rs e)
  case (Cons req reqs)
  show ?case
  proof (cases "CheckRedirect PA p req via")
    case (Inl err)
    with Cons.prems show ?thesis by simp
  next
    case (Inr req')
    then have req': "req_Referer req' = None" "ValidateParsedURL PA p (req_URL req') = None"
      "int via \<le> maxRedirects p"
      by (auto simp: CheckRedirect_def split: if_splits option.splits)
    from Inr Cons.prems obtain rs' where "followRedirects PA p (Suc via) reqs = (rs', e)"
      and rs: "rs = req' # rs'" by (auto split: prod.splits)
    from Cons.IH [OF this(1)] req' rs show ?thesis by auto
  qed
qed simp

lemma ValidateParsedURL_None:
  "ValidateParsedURL PA p (Some u) = None \<longleftrightarrow>
   ToLower (url_Scheme u) \<in> {''http'', ''https''} \<and> \<not> url_User u \<and> Hostname u \<noteq> []
   \<and> \<not> (TrimSuffix (ToLower (Hostname u)) ''.'' = ''localhost''
        \<or> HasSuffix (TrimSuffix (ToLower (Hostname u)) ''.'') ''.localhost'')
   \<and> \<not> ContainsChar (Hostname u) CHR ''%''
   \<and> (\<exists>n. portForURL u = Inr n \<and> IsAllowedPort p n)
   \<and> (\<forall>ip. PA (Hostname u) = Some ip \<longrightarrow> IsAllowedIP p ip)"
  by (auto simp: ValidateParsedURL_def Let_def split: option.splits sum.splits)

lemma portForURL_range: "portForURL u = Inr n \<Longrightarrow> 1 \<le> n \<and> n \<le> 65535"
  by (auto simp: portForURL_def split: if_splits option.splits)

section \<open>Properties\<close>

text \<open>
  C20. In the default (untrusted) mode the address filter admits exactly the public
  addresses: an address is allowed if and only if it lies outside every special-use
  IPv4 or IPv6 range, where an IPv4-mapped IPv6 address and an address under the
  NAT64 prefix are judged by the IPv4 address they stand for.
\<close>

theorem allowed_iff_public:
  assumes "zone_free a" and "\<not> allowPrivateNetworks p"
  shows "IsAllowedIP p a \<longleftrightarrow> public_addr a"
  using assms by (rule IsAllowedIP_public)

theorem allowed_iff_public_witness:
  "\<not> IsAllowedIP \<lparr>allowPrivateNetworks = False, allowProxyEnv = False, maxRedirects = 5,
        allowedPorts = {80, 443}\<rparr> (Addr6 0xFFFFA9FEA9FE [])
   \<and> IsAllowedIP \<lparr>allowPrivateNetworks = False, allowProxyEnv = False, maxRedirects = 5,
        allowedPorts = {80, 443}\<rparr> (Addr4 0x08080808)"
proof -
  let ?p = "\<lparr>allowPrivateNetworks = False, allowProxyEnv = False, maxRedirects = 5,
    allowedPorts = {80, 443 :: int}\<rparr>"
  have "IsAllowedIP ?p (Addr6 0xFFFFA9FEA9FE []) \<longleftrightarrow> public_addr (Addr6 0xFFFFA9FEA9FE [])"
    by (rule allowed_iff_public) simp_all
  moreover have "IsAllowedIP ?p (Addr4 0x08080808) \<longleftrightarrow> public_addr (Addr4 0x08080808)"
    by (rule allowed_iff_public) simp_all
  moreover have "\<not> public_addr (Addr6 0xFFFFA9FEA9FE [])" "public_addr (Addr4 0x08080808)"
    by (simp_all add: mapped_range_def in_ranges_def special_v4_def)
  ultimately show ?thesis by blast
qed

text \<open>
  C21. Whatever the resolver answers, and however it changes its answer between the
  validation of a URL and the connection, \<open>DialContext\<close> opens connections only to
  addresses the policy allows, on allowed ports, each address at most once and with a
  positive time budget; a connection it returns is the one its last dial gave.
\<close>

theorem dial_only_allowed:
  assumes "DialContext SplitHostPort ParseAddr LookupNetIP remaining dial p network address
    = (res, calls)"
  shows "safe_calls p calls \<and>
    (\<forall>conn. res = Inr conn \<longrightarrow> calls \<noteq> [] \<and> dial (last calls) = Some conn)"
  using DialContext_safe [OF assms] by blast

theorem dial_only_allowed_witness:
  "safe_calls \<lparr>allowPrivateNetworks = False, allowProxyEnv = False, maxRedirects = 5,
     allowedPorts = {80, 443}\<rparr> [(Some (2 * Second), Addr4 0x08080808, ''443'')]"
proof -
  let ?p = "\<lparr>allowPrivateNetworks = False, allowProxyEnv = False, maxRedirects = 5,
    allowedPorts = {80, 443 :: int}\<rparr>"
  have a: "IsAllowedIP ?p (Addr4 0x08080808)" "\<not> IsAllowedIP ?p (Addr4 0x7F000001)"
    by (simp_all add: IsAllowedIP_4 in_ranges_def special_v4_def)
  have "DialContext (\<lambda>_. Some (''example.org'', ''443'')) (\<lambda>_. None)
      (\<lambda>_. Some [Addr4 0x7F000001, Addr4 0x08080808]) (\<lambda>_. Some (2 * Second)) (\<lambda>_. Some (7 :: nat))
      ?p ''tcp'' ''example.org:443''
    = (Inr 7, [(Some (2 * Second), Addr4 0x08080808, ''443'')])"
    using a by (simp add: DialContext_def ResolveAllowedIPs_def Let_def IsAllowedPort_def
        ContainsChar_def Atoi_def is_digit_def go_div_def int64_range_def)
  from dial_only_allowed [OF this] show ?thesis by blast
qed

text \<open>
  A check follows at most \<open>maxRedirects\<close> redirects; every URL it follows passed the
  URL policy, and no followed request carries a \<open>Referer\<close> header.
\<close>

theorem redirects_validated:
  assumes "followRedirects ParseAddr p 1 reqs = (followed, err)" and "0 \<le> maxRedirects p"
  shows "int (length followed) \<le> maxRedirects p \<and>
    (\<forall>r \<in> set followed. req_Referer r = None \<and> ValidateParsedURL ParseAddr p (req_URL r) = None)"
  using followRedirects_ok [OF assms(1)] assms(2) by auto

theorem redirects_validated_witness:
  "\<exists>r. fst (followRedirects (\<lambda>_. None)
     \<lparr>allowPrivateNetworks = False, allowProxyEnv = False, maxRedirects = 1, allowedPorts = {80}\<rparr>
     1 [r, r]) = [r\<lparr>req_Referer := None\<rparr>] \<and> req_Referer r = Some ''x''"
proof -
  let ?p = "\<lparr>allowPrivateNetworks = False, allowProxyEnv = False, maxRedirects = 1,
    allowedPorts = {80 :: int}\<rparr>"
  let ?u = "\<lparr>url_Scheme = ''http'', url_User = False, url_Host = ''example.org'', url_Path = ''/'',
    url_RawPath = [], url_RawQuery = [], url_ForceQuery = False, url_Fragment = [],
    url_RawFragment = []\<rparr>"
  let ?r = "\<lparr>req_URL = Some ?u, req_Referer = Some ''x''\<rparr>"
  have "ValidateParsedURL (\<lambda>_. None) ?p (Some ?u) = None" by code_simp
  then have f: "followRedirects (\<lambda>_. None) ?p 1 [?r, ?r] =
      ([?r\<lparr>req_Referer := None\<rparr>], Some (TooManyRedirects 1))"
    by (simp add: CheckRedirect_def)
  from redirects_validated [OF f] have "length [?r\<lparr>req_Referer := None\<rparr>] \<le> 1" by simp
  with f show ?thesis by (intro exI [of _ ?r]) simp
qed

end
