(* ===== verification/Domain.thy ===== *)
theory Domain
  imports Network_Policy
begin

text \<open>
  The data of \<open>monitor.go\<close> and the message of \<open>queue.go\<close>: monitors, check records, check
  jobs, leases, claims, incidents and their inputs, with the identifiers the program
  draws and the validation of a monitor. The string constants that name a status or a
  kind are the constructors of a datatype; the empty string of a zero value is a
  constructor of its own where a zero value can occur.
\<close>

section \<open>Constants\<close>

datatype MonitorStatus = monitorStatusActive | monitorStatusDisabled

datatype IncidentStatus = incidentStatusUnset | incidentStatusOpen | incidentStatusResolved

datatype CheckJobStatus =
    checkJobStatusScheduled
  | checkJobStatusQueued
  | checkJobStatusProcessing
  | checkJobStatusCompleted
  | checkJobStatusFailed
  | checkJobStatusDead

datatype CheckJobKind = checkJobKindScheduled | checkJobKindManual

abbreviation (input) minMonitorTimeoutSeconds :: int where "minMonitorTimeoutSeconds \<equiv> 1"
abbreviation (input) maxMonitorTimeoutSeconds :: int where "maxMonitorTimeoutSeconds \<equiv> 60"
abbreviation (input) maxMonitorURLLength :: nat where "maxMonitorURLLength \<equiv> 8192"
definition maxChecksPerMonitor :: nat where "maxChecksPerMonitor = 500"
definition maxProcessedJobIDs :: nat where "maxProcessedJobIDs = 10000"
definition maxRetainedCheckJobs :: nat where "maxRetainedCheckJobs = 10000"
definition maxRetainedResolvedIncidents :: nat where "maxRetainedResolvedIncidents = 10000"
abbreviation (input) defaultMaxJobAttempts :: int where "defaultMaxJobAttempts \<equiv> 3"

section \<open>Records\<close>

record Monitor =
  mon_ID :: string
  mon_URL :: string
  mon_IntervalSeconds :: int
  mon_TimeoutSeconds :: int
  mon_ExpectedStatus :: int
  mon_Status :: MonitorStatus
  mon_Enabled :: bool
  mon_NextCheckAt :: gotime
  mon_CreatedAt :: gotime
  mon_UpdatedAt :: gotime
  mon_LastStatusCode :: int
  mon_LastLatencyMS :: int
  mon_LastCheckedAt :: gotime
  mon_LastError :: string

record CheckRecord =
  chk_ID :: string
  chk_JobID :: string
  chk_MonitorID :: string
  chk_StatusCode :: int
  chk_LatencyMS :: int
  chk_Error :: string
  chk_Success :: bool
  chk_CheckedAt :: gotime

record CheckJobRecord =
  job_ID :: string
  job_MonitorID :: string
  job_Kind :: CheckJobKind
  job_ScheduledFor :: gotime
  job_Status :: CheckJobStatus
  job_Attempt :: int
  job_AvailableAt :: gotime
  job_PublishedAt :: gotime
  job_ProcessingStartedAt :: gotime
  job_LeaseExpiresAt :: gotime
  job_LeaseToken :: string
  job_PublicationToken :: string
  job_CompletedAt :: gotime
  job_LastError :: string
  job_CreatedAt :: gotime
  job_UpdatedAt :: gotime

record ProcessingLease =
  lease_JobID :: string
  lease_MonitorID :: string
  lease_Attempt :: int
  lease_Token :: string

record PublicationClaim =
  claim_JobID :: string
  claim_MonitorID :: string
  claim_Attempt :: int
  claim_Token :: string

definition PublicationClaim_of :: "CheckJobRecord \<Rightarrow> PublicationClaim" where
  "PublicationClaim_of job =
     \<lparr>claim_JobID = job_ID job, claim_MonitorID = job_MonitorID job,
      claim_Attempt = job_Attempt job, claim_Token = job_PublicationToken job\<rparr>"

record ManualCheckJobReceipt =
  rcpt_JobID :: string
  rcpt_MonitorID :: string
  rcpt_Kind :: CheckJobKind
  rcpt_Status :: CheckJobStatus
  rcpt_CreatedAt :: gotime
  rcpt_Deduplicated :: bool

record Incident =
  inc_ID :: string
  inc_MonitorID :: string
  inc_Status :: IncidentStatus
  inc_FailureCount :: int
  inc_FirstFailureAt :: gotime
  inc_LastFailureAt :: gotime
  inc_ResolvedAt :: gotime
  inc_LastError :: string
  inc_LastAlertedAt :: gotime
  inc_AlertCount :: int
  inc_CreatedAt :: gotime
  inc_UpdatedAt :: gotime

text \<open>The zero value a lookup of a missing incident gives.\<close>

definition zeroIncident :: Incident where
  "zeroIncident =
     \<lparr>inc_ID = [], inc_MonitorID = [], inc_Status = incidentStatusUnset, inc_FailureCount = 0,
      inc_FirstFailureAt = zeroTime, inc_LastFailureAt = zeroTime, inc_ResolvedAt = zeroTime,
      inc_LastError = [], inc_LastAlertedAt = zeroTime, inc_AlertCount = 0,
      inc_CreatedAt = zeroTime, inc_UpdatedAt = zeroTime\<rparr>"

record MonitorInput =
  in_URL :: string
  in_IntervalSeconds :: int
  in_TimeoutSeconds :: int
  in_ExpectedStatus :: int
  in_Enabled :: "bool option"

record MonitorPatch =
  patch_URL :: "string option"
  patch_IntervalSeconds :: "int option"
  patch_TimeoutSeconds :: "int option"
  patch_ExpectedStatus :: "int option"
  patch_Enabled :: "bool option"

record CheckJobMessage =
  msg_JobID :: string
  msg_MonitorID :: string
  msg_Attempt :: int
  msg_EnqueuedAt :: gotime

section \<open>Identifiers\<close>

text \<open>
  A draw of \<open>newID\<close>: the sixteen bytes \<open>rand.Read\<close> delivered, or \<open>None\<close> when it failed,
  and the clock the fallback reads.
\<close>

type_synonym id_draw = "nat list option \<times> gotime"

definition hex_digit :: "nat \<Rightarrow> char" where
  "hex_digit d = (if d < 10 then char_of (48 + d) else char_of (87 + d))"

fun EncodeToString :: "nat list \<Rightarrow> string" where
  "EncodeToString [] = []"
| "EncodeToString (b # bs) =
     hex_digit (b div 16 mod 16) # hex_digit (b mod 16) # EncodeToString bs"

definition newID :: "string \<Rightarrow> id_draw \<Rightarrow> string" where
  "newID prefix draw =
     (case fst draw of
        None \<Rightarrow> prefix @ ''_'' @ Itoa (UnixNano (snd draw))
      | Some bytes \<Rightarrow> prefix @ ''_'' @ EncodeToString bytes)"

definition newMonitorID :: "id_draw \<Rightarrow> string" where
  "newMonitorID draw = newID ''mon'' draw"

text \<open>\<open>wall\<close> is the clock reading used when the scheduled instant is the zero time.\<close>

definition NewCheckJobID :: "gotime \<Rightarrow> string \<Rightarrow> gotime \<Rightarrow> string" where
  "NewCheckJobID wall monitorID nextCheckAt =
     (let nextCheckAt = (if IsZero nextCheckAt then wall else nextCheckAt)
      in ''job_'' @ monitorID @ ''_'' @ Itoa (UnixNano nextCheckAt))"

lemma hex_digit_not_underscore [simp]: "d < 16 \<Longrightarrow> hex_digit d \<noteq> CHR ''_''"
proof
  assume d: "d < 16" and "hex_digit d = CHR ''_''"
  then have "of_char (hex_digit d) = (95 :: nat)" by simp
  with d show False by (simp add: hex_digit_def split: if_splits)
qed

lemma EncodeToString_no_underscore: "CHR ''_'' \<notin> set (EncodeToString bs)"
  by (induction bs) (auto simp: hex_digit_not_underscore [symmetric])

lemma Itoa_no_underscore: "CHR ''_'' \<notin> set (Itoa n)"
  using Itoa_chars [of "CHR ''_''" n] by auto

lemma newID_suffix: "\<exists>suffix. newID prefix draw = prefix @ ''_'' @ suffix \<and> CHR ''_'' \<notin> set suffix"
  by (auto simp: newID_def Itoa_no_underscore EncodeToString_no_underscore split: option.splits)

lemma newID_nonempty [simp]: "newID prefix draw \<noteq> []"
  by (auto simp: newID_def split: option.splits)

lemma split_last_unique:
  assumes "a @ c # x = b @ c # y" "c \<notin> set x" "c \<notin> set y"
  shows "a = b \<and> x = y"
  using assms by (auto simp: append_eq_append_conv2 append_eq_Cons_conv Cons_eq_append_conv)

lemma NewCheckJobID_inj:
  assumes "NewCheckJobID wall m t = NewCheckJobID wall' m' t'"
  shows "m = m'" "\<not> IsZero t \<Longrightarrow> \<not> IsZero t' \<Longrightarrow> t = t'"
proof -
  define u where "u = (if IsZero t then wall else t)"
  define u' where "u' = (if IsZero t' then wall' else t')"
  from assms have "m @ CHR ''_'' # Itoa (UnixNano u) = m' @ CHR ''_'' # Itoa (UnixNano u')"
    by (simp add: NewCheckJobID_def u_def u'_def)
  from split_last_unique [OF this Itoa_no_underscore Itoa_no_underscore]
  have "m = m'" "u = u'" by simp_all
  then show "m = m'" "\<not> IsZero t \<Longrightarrow> \<not> IsZero t' \<Longrightarrow> t = t'" by (simp_all add: u_def u'_def)
qed

lemma newID_not_scheduled: "newID ''job'' draw \<noteq> NewCheckJobID wall m t"
proof
  assume eq: "newID ''job'' draw = NewCheckJobID wall m t"
  obtain suffix where s: "newID ''job'' draw = ''job'' @ ''_'' @ suffix" "CHR ''_'' \<notin> set suffix"
    using newID_suffix by blast
  then have "CHR ''_'' \<in> set suffix" using eq by (auto simp: NewCheckJobID_def Let_def)
  with s(2) show False by blast
qed

section \<open>Validation\<close>

text \<open>
  The parsers of the standard library a validation calls: \<open>url.ParseRequestURI\<close> (does it
  succeed?), \<open>url.Parse\<close> and \<open>netip.ParseAddr\<close>.
\<close>

record parsers =
  ParseRequestURI :: "string \<Rightarrow> bool"
  ParseURL :: "string \<Rightarrow> URL option"
  ParseAddr :: "string \<Rightarrow> addr option"

definition validateMonitorInput ::
  "parsers \<Rightarrow> MonitorInput \<Rightarrow> NetworkPolicy \<Rightarrow> go_error option" where
  "validateMonitorInput env input policy =
     (if in_URL input = [] then Some (ErrInvalidMonitor ''url is required'')
      else if RuneCountInString (in_URL input) > maxMonitorURLLength
        then Some (ErrInvalidMonitor ''url must not exceed 8192 characters'')
      else if \<not> ParseRequestURI env (in_URL input) then Some (ErrInvalidMonitor ''url is invalid'')
      else if ValidateURL (ParseURL env) (ParseAddr env) policy (in_URL input) \<noteq> None
        then Some (ErrInvalidMonitor ''url is not allowed'')
      else if in_IntervalSeconds input < 30 \<or> in_IntervalSeconds input > 86400
        then Some (ErrInvalidMonitor ''interval_seconds must be between 30 and 86400'')
      else if in_TimeoutSeconds input < minMonitorTimeoutSeconds
           \<or> in_TimeoutSeconds input > maxMonitorTimeoutSeconds
        then Some (ErrInvalidMonitor ''timeout_seconds must be between 1 and 60'')
      else if in_ExpectedStatus input < 100 \<or> in_ExpectedStatus input > 599
        then Some (ErrInvalidMonitor ''expected_status must be between 100 and 599'')
      else None)"

lemma validateMonitorInput_None:
  "validateMonitorInput env i p = None \<longleftrightarrow>
   in_URL i \<noteq> [] \<and> RuneCountInString (in_URL i) \<le> 8192 \<and> ParseRequestURI env (in_URL i)
   \<and> ValidateURL (ParseURL env) (ParseAddr env) p (in_URL i) = None
   \<and> 30 \<le> in_IntervalSeconds i \<and> in_IntervalSeconds i \<le> 86400
   \<and> 1 \<le> in_TimeoutSeconds i \<and> in_TimeoutSeconds i \<le> 60
   \<and> 100 \<le> in_ExpectedStatus i \<and> in_ExpectedStatus i \<le> 599"
  by (auto simp: validateMonitorInput_def)

text \<open>\<open>time.Duration(n) * time.Second\<close>, a 64-bit product.\<close>

definition seconds :: "int \<Rightarrow> duration" where
  "seconds n = wrap64 (n * Second)"

lemma seconds_interval: "0 \<le> n \<Longrightarrow> n \<le> 86400 \<Longrightarrow> seconds n = n * 1000000000"
  by (simp add: seconds_def wrap64_id int64_range_def)

end
