(* ===== verification/Bounded_Log.thy ===== *)
theory Bounded_Log
  imports Go_Prelude
begin

text \<open>
  The bounded retention logs of \<open>monitor.go\<close>: an order of identifiers with a moving head,
  an eviction loop and an occasional compaction. The loops are modelled as the code has
  them; the locale \<open>retention\<close> states what a component promises about such a log,
  and derives the bound on what is retained.
\<close>

section \<open>The loops\<close>

text \<open>
  \<^verbatim>\<open>for len(order)-head > limit { oldest := order[head]; head++;
  if entry, exists := entries[oldest]; exists && evictable(entry) { delete(entries, oldest) } }\<close>
\<close>

definition evictEntry :: "('v \<Rightarrow> bool) \<Rightarrow> 'k \<Rightarrow> ('k \<rightharpoonup> 'v) \<Rightarrow> ('k \<rightharpoonup> 'v)" where
  "evictEntry evictable k m =
     (case m k of None \<Rightarrow> m | Some v \<Rightarrow> if evictable v then m(k := None) else m)"

function evictLoop ::
  "nat \<Rightarrow> ('v \<Rightarrow> bool) \<Rightarrow> 'k list \<Rightarrow> nat \<Rightarrow> ('k \<rightharpoonup> 'v) \<Rightarrow> nat \<times> ('k \<rightharpoonup> 'v)" where
  "evictLoop limit evictable order head m =
     (if length order - head > limit
      then evictLoop limit evictable order (Suc head) (evictEntry evictable (order ! head) m)
      else (head, m))"
  by pat_completeness auto
termination
  by (relation "measure (\<lambda>(_, _, order, head, _). length order - head)") auto

declare evictLoop.simps [simp del]

text \<open>
  \<^verbatim>\<open>if head > limit && head*2 >= len(order) { order = order[head:]; head = 0 }\<close>
\<close>

definition compactOrder :: "nat \<Rightarrow> 'k list \<Rightarrow> nat \<Rightarrow> 'k list \<times> nat" where
  "compactOrder limit order head =
     (if head > limit \<and> head * 2 \<ge> length order then (drop head order, 0) else (order, head))"

lemma compactOrder_live:
  "compactOrder limit order head = (order', head') \<Longrightarrow> drop head' order' = drop head order"
  by (auto simp: compactOrder_def split: if_splits)

lemma evictEntry_Some:
  "evictEntry e k m x = Some v \<longleftrightarrow> m x = Some v \<and> \<not> (x = k \<and> e v)"
  by (auto simp: evictEntry_def split: option.splits)

lemma evictLoop_step:
  assumes "length (drop head order) \<le> Suc limit"
  shows "evictLoop limit e order head m =
    (if length (drop head order) \<le> limit then (head, m)
     else (Suc head, evictEntry e (hd (drop head order)) m))"
proof (cases "length order - head > limit")
  case True
  with assms have l: "length order - head = Suc limit" "head < length order" by simp_all
  then have "\<not> limit < length order - Suc head" by simp
  then have "evictLoop limit e order (Suc head) m' = (Suc head, m')" for m'
    by (subst evictLoop.simps) simp
  with True l show ?thesis by (simp add: evictLoop.simps [of limit e order head] hd_drop_conv_nth)
next
  case False
  then show ?thesis by (simp add: evictLoop.simps [of limit e order head])
qed

lemma drop_Suc_tl: "drop (Suc n) xs = tl (drop n xs)"
  by (simp add: drop_Suc tl_drop)

text \<open>One round of append, evict and compact, in terms of the live part of the order.\<close>

lemma log_round:
  assumes live: "length (drop head order) \<le> limit" and "head \<le> length order"
    and ev: "evictLoop limit e (order @ [k]) head m = (head', m')"
    and co: "compactOrder limit (order @ [k]) head' = (order'', head'')"
  shows "drop head'' order'' =
      (if length (drop head order) < limit then drop head order @ [k] else tl (drop head order @ [k]))"
    and "m' = (if length (drop head order) < limit then m
               else evictEntry e (hd (drop head order @ [k])) m)"
    and "head'' \<le> length order''"
proof -
  have app: "drop head (order @ [k]) = drop head order @ [k]" using assms(2) by simp
  have step: "evictLoop limit e (order @ [k]) head m =
    (if length (drop head order @ [k]) \<le> limit then (head, m)
     else (Suc head, evictEntry e (hd (drop head order @ [k])) m))"
    using evictLoop_step [of head "order @ [k]" limit e m] live unfolding app by simp
  show "drop head'' order'' =
      (if length (drop head order) < limit then drop head order @ [k] else tl (drop head order @ [k]))"
  proof -
    have tl: "drop (Suc head) (order @ [k]) = tl (drop head order @ [k])"
      by (simp only: drop_Suc_tl app)
    have "head' = (if length (drop head order) < limit then head else Suc head)"
      using step ev by (auto split: if_splits)
    with compactOrder_live [OF co] show ?thesis
      by (simp only: if_distrib [of "\<lambda>h. drop h (order @ [k])"] app tl)
  qed
  show "m' = (if length (drop head order) < limit then m
               else evictEntry e (hd (drop head order @ [k])) m)"
    using step ev by (auto split: if_splits)
  have "head' \<le> length (order @ [k])"
    using step ev assms(2) by (auto split: if_splits)
  then show "head'' \<le> length order''"
    using co by (auto simp: compactOrder_def split: if_splits)
qed

section \<open>The retention contract\<close>

text \<open>
  \<open>live\<close> is the part of the order that still counts and \<open>entries\<close> the map it governs.
  \<open>remember k\<close> appends \<open>k\<close> and evicts the oldest identifier once the limit is reached;
  an evicted identifier loses its entry only if that entry is evictable.
\<close>

locale retention =
  fixes live :: "'s \<Rightarrow> 'k list"
    and ok :: "'s \<Rightarrow> bool"
    and entries :: "'s \<Rightarrow> ('k \<rightharpoonup> 'v)"
    and evictable :: "'v \<Rightarrow> bool"
    and limit :: nat
    and remember :: "'k \<Rightarrow> 's \<Rightarrow> 's"
  assumes limit_pos: "0 < limit"
    and remember_ok: "ok s \<Longrightarrow> length (live s) \<le> limit \<Longrightarrow> ok (remember k s)"
    and remember_live: "ok s \<Longrightarrow> length (live s) \<le> limit \<Longrightarrow> live (remember k s) =
          (if length (live s) < limit then live s @ [k] else tl (live s @ [k]))"
    and remember_entries: "ok s \<Longrightarrow> length (live s) \<le> limit \<Longrightarrow> entries (remember k s) =
          (if length (live s) < limit then entries s
           else evictEntry evictable (hd (live s @ [k])) (entries s))"
begin

definition retained :: "'s \<Rightarrow> bool" where
  "retained s \<longleftrightarrow> ok s \<and> length (live s) \<le> limit \<and>
     (\<forall>k v. entries s k = Some v \<and> evictable v \<longrightarrow> k \<in> set (live s))"

lemma remember_Some:
  assumes "ok s" "length (live s) \<le> limit" "entries (remember k s) x = Some v"
  shows "entries s x = Some v"
  using assms by (auto simp: remember_entries evictEntry_Some split: if_splits)

lemma remember_keeps:
  assumes "ok s" "length (live s) \<le> limit" "entries s x = Some v" "\<not> evictable v"
  shows "entries (remember k s) x = Some v"
  using assms by (auto simp: remember_entries evictEntry_Some)

lemma remember_fresh:
  assumes "ok s" "length (live s) \<le> limit" "k \<notin> set (live s)"
  shows "entries (remember k s) k = entries s k"
proof (cases "length (live s) < limit")
  case False
  then have "live s \<noteq> []" using limit_pos by auto
  then have "hd (live s @ [k]) \<noteq> k" using assms(3) by (auto simp: hd_append)
  with False assms show ?thesis
    by (cases "entries s k") (auto simp: remember_entries evictEntry_def split: option.splits)
qed (use assms in \<open>simp add: remember_entries\<close>)

lemma remember_retained:
  assumes "ok s" "length (live s) \<le> limit"
    and sub: "\<And>x v. entries s x = Some v \<Longrightarrow> evictable v \<Longrightarrow> x \<in> set (live s) \<or> x = k"
  shows "retained (remember k s)"
proof -
  have "x \<in> set (live (remember k s))"
    if x: "entries (remember k s) x = Some v" "evictable v" for x v
  proof -
    from remember_Some [OF assms(1,2) x(1)] x(2) sub have "x \<in> set (live s @ [k])" by fastforce
    moreover have "\<not> length (live s) < limit \<Longrightarrow> x \<noteq> hd (live s @ [k])"
      using x assms by (auto simp: remember_entries evictEntry_Some)
    ultimately show ?thesis
      using assms by (cases "live s @ [k]") (auto simp: remember_live)
  qed
  with assms show ?thesis
    by (auto simp: retained_def remember_ok remember_live)
qed

lemma retained_bound:
  assumes "retained s"
  shows "finite {x. \<exists>v. entries s x = Some v \<and> evictable v}"
    "card {x. \<exists>v. entries s x = Some v \<and> evictable v} \<le> limit"
proof -
  have sub: "{x. \<exists>v. entries s x = Some v \<and> evictable v} \<subseteq> set (live s)"
    using assms by (auto simp: retained_def)
  then show "finite {x. \<exists>v. entries s x = Some v \<and> evictable v}"
    using finite_set by (rule finite_subset)
  have "card {x. \<exists>v. entries s x = Some v \<and> evictable v} \<le> card (set (live s))"
    using sub by (intro card_mono) auto
  also have "\<dots> \<le> length (live s)" by (rule card_length)
  also have "\<dots> \<le> limit" using assms by (simp add: retained_def)
  finally show "card {x. \<exists>v. entries s x = Some v \<and> evictable v} \<le> limit" .
qed

end

end
