(* ===== verification/Monitor_Store.thy ===== *)
theory Monitor_Store
  imports Complex_Main Domain Bounded_Log
begin

text \<open>
  The in-memory repository of \<open>monitor.go\<close>: the state of \<open>MonitorStore\<close> and every one of
  its operations. Each operation holds the store's mutex from its first read to its
  last write, so it is one function on the state. The clock (\<open>now\<close>, and \<open>wall\<close> where the
  code reads \<open>time.Now()\<close> itself), the identifiers drawn and the order in which a
  \<open>range\<close> loop visits a map are arguments.
\<close>

section \<open>State\<close>

record MonitorStore =
  store_policy :: NetworkPolicy
  byID :: "string \<rightharpoonup> Monitor"
  byURL :: "string \<rightharpoonup> string"
  checks :: "string \<rightharpoonup> CheckRecord list"
  checkJobs :: "string \<rightharpoonup> CheckJobRecord"
  activeJobByMonitor :: "string \<rightharpoonup> string"
  terminalJobOrder :: "string list"
  terminalJobHead :: nat
  incidents :: "string \<rightharpoonup> Incident"
  openIncidentByMonitor :: "string \<rightharpoonup> string"
  resolvedIncidentOrder :: "string list"
  resolvedIncidentHead :: nat
  processedJobs :: "string set"
  processedJobOrder :: "string list"
  processedJobHead :: nat

definition NewMonitorStore :: "NetworkPolicy \<Rightarrow> MonitorStore" where
  "NewMonitorStore policy =
     \<lparr>store_policy = policy, byID = Map.empty, byURL = Map.empty, checks = Map.empty,
      checkJobs = Map.empty, activeJobByMonitor = Map.empty,
      terminalJobOrder = [], terminalJobHead = 0,
      incidents = Map.empty, openIncidentByMonitor = Map.empty,
      resolvedIncidentOrder = [], resolvedIncidentHead = 0,
      processedJobs = {}, processedJobOrder = [], processedJobHead = 0\<rparr>"

definition Count :: "MonitorStore \<Rightarrow> nat" where
  "Count s = card (dom (byID s))"

section \<open>Retention logs\<close>

definition terminal_status :: "CheckJobRecord \<Rightarrow> bool" where
  "terminal_status job \<longleftrightarrow>
     job_Status job = checkJobStatusCompleted \<or> job_Status job = checkJobStatusDead"

definition rememberTerminalJobLocked :: "string \<Rightarrow> MonitorStore \<Rightarrow> MonitorStore" where
  "rememberTerminalJobLocked jobID s =
     (let order = terminalJobOrder s @ [jobID];
          (head, jobs) = evictLoop maxRetainedCheckJobs terminal_status order
                           (terminalJobHead s) (checkJobs s);
          (order, head) = compactOrder maxRetainedCheckJobs order head
      in s\<lparr>terminalJobOrder := order, terminalJobHead := head, checkJobs := jobs\<rparr>)"

definition resolved_status :: "Incident \<Rightarrow> bool" where
  "resolved_status incident \<longleftrightarrow> inc_Status incident = incidentStatusResolved"

definition rememberResolvedIncidentLocked :: "string \<Rightarrow> MonitorStore \<Rightarrow> MonitorStore" where
  "rememberResolvedIncidentLocked incidentID s =
     (let order = resolvedIncidentOrder s @ [incidentID];
          (head, incs) = evictLoop maxRetainedResolvedIncidents resolved_status order
                           (resolvedIncidentHead s) (incidents s);
          (order, head) = compactOrder maxRetainedResolvedIncidents order head
      in s\<lparr>resolvedIncidentOrder := order, resolvedIncidentHead := head, incidents := incs\<rparr>)"

text \<open>
  The eviction loop of \<open>rememberProcessedJobLocked\<close>; indexing the order past its end
  panics (\<open>None\<close>).
\<close>

function processedEvictLoop ::
  "nat \<Rightarrow> string list \<Rightarrow> nat \<Rightarrow> string set \<Rightarrow> (nat \<times> string set) option" where
  "processedEvictLoop limit order head jobs =
     (if card jobs > limit
      then if head < length order
           then processedEvictLoop limit order (Suc head) (jobs - {order ! head})
           else None
      else Some (head, jobs))"
  by pat_completeness auto
termination
  by (relation "measure (\<lambda>(_, order, head, _). length order - head)") auto

declare processedEvictLoop.simps [simp del]

definition rememberProcessedJobLocked :: "string \<Rightarrow> MonitorStore \<Rightarrow> MonitorStore option" where
  "rememberProcessedJobLocked jobID s =
     (if jobID \<in> processedJobs s then Some s
      else (let order = processedJobOrder s @ [jobID] in
            case processedEvictLoop maxProcessedJobIDs order (processedJobHead s)
                   (insert jobID (processedJobs s)) of
              None \<Rightarrow> None
            | Some (head, jobs) \<Rightarrow>
                (let (order, head) = compactOrder maxProcessedJobIDs order head
                 in Some (s\<lparr>processedJobs := jobs, processedJobOrder := order,
                            processedJobHead := head\<rparr>))))"

section \<open>Finishing the active job\<close>

definition finishActiveJobLocked ::
  "string \<Rightarrow> CheckJobStatus \<Rightarrow> string \<Rightarrow> gotime \<Rightarrow> MonitorStore \<Rightarrow> MonitorStore" where
  "finishActiveJobLocked monitorID status lastError now s =
     (case activeJobByMonitor s monitorID of
        None \<Rightarrow> s
      | Some jobID \<Rightarrow>
         (case checkJobs s jobID of
            None \<Rightarrow> s\<lparr>activeJobByMonitor := (activeJobByMonitor s)(monitorID := None)\<rparr>
          | Some job \<Rightarrow>
             (let job = job\<lparr>job_Status := status, job_LastError := lastError,
                          job_ProcessingStartedAt := zeroTime, job_LeaseExpiresAt := zeroTime,
                          job_LeaseToken := [], job_UpdatedAt := now\<rparr>
              in if status = checkJobStatusCompleted \<or> status = checkJobStatusDead
                 then rememberTerminalJobLocked jobID
                        (s\<lparr>activeJobByMonitor := (activeJobByMonitor s)(monitorID := None),
                           checkJobs := (checkJobs s)(jobID \<mapsto> job\<lparr>job_CompletedAt := now\<rparr>)\<rparr>)
                 else s\<lparr>checkJobs := (checkJobs s)(jobID \<mapsto> job\<lparr>job_AvailableAt := now\<rparr>)\<rparr>)))"

definition resolveOpenIncidentLocked :: "string \<Rightarrow> gotime \<Rightarrow> MonitorStore \<Rightarrow> MonitorStore" where
  "resolveOpenIncidentLocked monitorID now s =
     (case openIncidentByMonitor s monitorID of
        None \<Rightarrow> s
      | Some incidentID \<Rightarrow>
         (case incidents s incidentID of
            None \<Rightarrow> s\<lparr>openIncidentByMonitor := (openIncidentByMonitor s)(monitorID := None)\<rparr>
          | Some incident \<Rightarrow>
             rememberResolvedIncidentLocked incidentID
               (s\<lparr>incidents := (incidents s)(incidentID \<mapsto>
                    incident\<lparr>inc_Status := incidentStatusResolved, inc_ResolvedAt := now,
                             inc_UpdatedAt := now\<rparr>),
                  openIncidentByMonitor := (openIncidentByMonitor s)(monitorID := None)\<rparr>)))"

section \<open>Monitors\<close>

text \<open>The \<open>Monitor\<close> value \<open>Create\<close> builds from its input.\<close>

definition newMonitor :: "id_draw \<Rightarrow> gotime \<Rightarrow> MonitorInput \<Rightarrow> Monitor" where
  "newMonitor draw now input =
     (let enabled = (case in_Enabled input of None \<Rightarrow> True | Some b \<Rightarrow> b);
          status = (if \<not> enabled then monitorStatusDisabled else monitorStatusActive)
      in \<lparr>mon_ID = newMonitorID draw, mon_URL = in_URL input,
          mon_IntervalSeconds = in_IntervalSeconds input,
          mon_TimeoutSeconds = in_TimeoutSeconds input,
          mon_ExpectedStatus = in_ExpectedStatus input,
          mon_Status = status, mon_Enabled = enabled,
          mon_NextCheckAt = now, mon_CreatedAt = now, mon_UpdatedAt = now,
          mon_LastStatusCode = 0, mon_LastLatencyMS = 0,
          mon_LastCheckedAt = zeroTime, mon_LastError = []\<rparr>)"

definition Create ::
  "parsers \<Rightarrow> id_draw \<Rightarrow> gotime \<Rightarrow> MonitorInput \<Rightarrow> MonitorStore
    \<Rightarrow> (go_error + Monitor) \<times> MonitorStore" where
  "Create env draw now input s =
     (case validateMonitorInput env input (store_policy s) of
        Some e \<Rightarrow> (Inl e, s)
      | None \<Rightarrow>
         (let monitor = newMonitor draw now input
          in if byURL s (mon_URL monitor) \<noteq> None then (Inl ErrMonitorExists, s)
             else (Inr monitor,
                   s\<lparr>byID := (byID s)(mon_ID monitor \<mapsto> monitor),
                      byURL := (byURL s)(mon_URL monitor \<mapsto> mon_ID monitor)\<rparr>)))"

text \<open>\<open>SeedMonitorStore\<close>: one draw and one clock reading per link; the two durations in seconds.\<close>

fun seedLoop ::
  "parsers \<Rightarrow> (string \<times> id_draw \<times> gotime) list \<Rightarrow> int \<Rightarrow> int \<Rightarrow> MonitorStore
    \<Rightarrow> go_error + MonitorStore" where
  "seedLoop env [] interval timeout s = Inr s"
| "seedLoop env ((link, draw, now) # links) interval timeout s =
     (case Create env draw now \<lparr>in_URL = link, in_IntervalSeconds = interval,
             in_TimeoutSeconds = timeout, in_ExpectedStatus = 200, in_Enabled = None\<rparr> s of
        (Inl e, _) \<Rightarrow> Inl e
      | (Inr _, s') \<Rightarrow> seedLoop env links interval timeout s')"

definition SeedMonitorStore ::
  "parsers \<Rightarrow> (string \<times> id_draw \<times> gotime) list \<Rightarrow> int \<Rightarrow> int \<Rightarrow> NetworkPolicy
    \<Rightarrow> go_error + MonitorStore" where
  "SeedMonitorStore env links interval timeout policy =
     seedLoop env links interval timeout (NewMonitorStore policy)"

definition monitor_created_key :: "Monitor \<Rightarrow> gotime \<times> string" where
  "monitor_created_key m = (mon_CreatedAt m, mon_ID m)"

text \<open>A page of the listing and the total; the page is \<open>None\<close> where the slice panics.\<close>

definition List_monitors :: "string list \<Rightarrow> int \<Rightarrow> int \<Rightarrow> MonitorStore \<Rightarrow> Monitor list option \<times> nat" where
  "List_monitors ks offset limit s =
     (let monitors = sort_key monitor_created_key (map_values (byID s) ks)
      in (go_page monitors offset limit, length monitors))"

definition Get :: "string \<Rightarrow> MonitorStore \<Rightarrow> go_error + Monitor" where
  "Get mid s = (case byID s mid of None \<Rightarrow> Inl ErrMonitorNotFound | Some monitor \<Rightarrow> Inr monitor)"

definition nextCheckAfterIntervalChange :: "gotime \<Rightarrow> gotime \<Rightarrow> int \<Rightarrow> gotime" where
  "nextCheckAfterIntervalChange lastCheckedAt now intervalSeconds =
     (if IsZero lastCheckedAt then now
      else (let nextCheckAt = lastCheckedAt + seconds intervalSeconds
            in if \<not> After nextCheckAt now then now else nextCheckAt))"

definition apply_patch :: "MonitorPatch \<Rightarrow> Monitor \<Rightarrow> Monitor" where
  "apply_patch patch m =
     m\<lparr>mon_URL := (case patch_URL patch of None \<Rightarrow> mon_URL m | Some v \<Rightarrow> v),
       mon_IntervalSeconds := (case patch_IntervalSeconds patch of
                                 None \<Rightarrow> mon_IntervalSeconds m | Some v \<Rightarrow> v),
       mon_TimeoutSeconds := (case patch_TimeoutSeconds patch of
                                 None \<Rightarrow> mon_TimeoutSeconds m | Some v \<Rightarrow> v),
       mon_ExpectedStatus := (case patch_ExpectedStatus patch of
                                 None \<Rightarrow> mon_ExpectedStatus m | Some v \<Rightarrow> v),
       mon_Enabled := (case patch_Enabled patch of None \<Rightarrow> mon_Enabled m | Some v \<Rightarrow> v)\<rparr>"

definition input_of :: "Monitor \<Rightarrow> MonitorInput" where
  "input_of m = \<lparr>in_URL = mon_URL m, in_IntervalSeconds = mon_IntervalSeconds m,
     in_TimeoutSeconds = mon_TimeoutSeconds m, in_ExpectedStatus = mon_ExpectedStatus m,
     in_Enabled = Some (mon_Enabled m)\<rparr>"

definition checkSemanticsChanged :: "Monitor \<Rightarrow> Monitor \<Rightarrow> bool" where
  "checkSemanticsChanged updated monitor \<longleftrightarrow>
     mon_URL updated \<noteq> mon_URL monitor
     \<or> mon_TimeoutSeconds updated \<noteq> mon_TimeoutSeconds monitor
     \<or> mon_ExpectedStatus updated \<noteq> mon_ExpectedStatus monitor"

text \<open>The new schedule of an enabled monitor: the \<open>switch\<close> of \<open>Update\<close>.\<close>

definition reschedule :: "Monitor \<Rightarrow> gotime \<Rightarrow> Monitor \<Rightarrow> gotime" where
  "reschedule monitor now updated =
     (if checkSemanticsChanged updated monitor
         \<or> (mon_Enabled updated \<noteq> mon_Enabled monitor \<and> \<not> mon_Enabled monitor) then now
      else if mon_IntervalSeconds updated \<noteq> mon_IntervalSeconds monitor
        then nextCheckAfterIntervalChange (mon_LastCheckedAt monitor) now (mon_IntervalSeconds updated)
      else if IsZero (mon_NextCheckAt updated) \<or> Before (mon_NextCheckAt updated) now then now
      else mon_NextCheckAt updated)"

definition Update ::
  "parsers \<Rightarrow> string \<Rightarrow> MonitorPatch \<Rightarrow> gotime \<Rightarrow> MonitorStore \<Rightarrow> (go_error + Monitor) \<times> MonitorStore" where
  "Update env mid patch now s =
     (case byID s mid of
        None \<Rightarrow> (Inl ErrMonitorNotFound, s)
      | Some monitor \<Rightarrow>
         (let updated = apply_patch patch monitor
          in case validateMonitorInput env (input_of updated) (store_policy s) of
               Some e \<Rightarrow> (Inl e, s)
             | None \<Rightarrow>
                (let semantics = checkSemanticsChanged updated monitor
                 in if (case byURL s (mon_URL updated) of None \<Rightarrow> False | Some existingID \<Rightarrow> existingID \<noteq> mid)
                    then (Inl ErrMonitorExists, s)
                    else
                      (let s = (if mon_URL updated \<noteq> mon_URL monitor
                                then s\<lparr>byURL := ((byURL s)(mon_URL monitor := None))
                                                  (mon_URL updated \<mapsto> mid)\<rparr>
                                else s);
                           updated = updated\<lparr>mon_UpdatedAt := now\<rparr>;
                           (updated, s) =
                             (if mon_Enabled updated
                              then (updated\<lparr>mon_Status := monitorStatusActive,
                                            mon_NextCheckAt := reschedule monitor now updated\<rparr>, s)
                              else (updated\<lparr>mon_Status := monitorStatusDisabled\<rparr>,
                                    finishActiveJobLocked mid checkJobStatusDead ''monitor disabled'' now s));
                           (updated, s) =
                             (if semantics
                              then (updated\<lparr>mon_LastStatusCode := 0, mon_LastLatencyMS := 0,
                                            mon_LastCheckedAt := zeroTime, mon_LastError := []\<rparr>,
                                    let s = resolveOpenIncidentLocked mid now s
                                    in if mon_Enabled updated
                                       then finishActiveJobLocked mid checkJobStatusDead
                                              ''monitor configuration changed'' now s
                                       else s)
                              else (updated, s))
                       in (Inr updated, s\<lparr>byID := (byID s)(mid \<mapsto> updated)\<rparr>)))))"

text \<open>Deleting every entry of a map whose value satisfies a test, as the loops of \<open>Delete\<close> do.\<close>

definition delete_where :: "('v \<Rightarrow> bool) \<Rightarrow> ('k \<rightharpoonup> 'v) \<Rightarrow> ('k \<rightharpoonup> 'v)" where
  "delete_where P m = (\<lambda>k. case m k of None \<Rightarrow> None | Some v \<Rightarrow> if P v then None else Some v)"

definition Delete :: "string \<Rightarrow> MonitorStore \<Rightarrow> go_error option \<times> MonitorStore" where
  "Delete mid s =
     (case byID s mid of
        None \<Rightarrow> (Some ErrMonitorNotFound, s)
      | Some monitor \<Rightarrow>
         (let s = s\<lparr>byID := (byID s)(mid := None), byURL := (byURL s)(mon_URL monitor := None),
                    checks := (checks s)(mid := None)\<rparr>;
              s = (case activeJobByMonitor s mid of
                     None \<Rightarrow> s
                   | Some jobID \<Rightarrow>
                       s\<lparr>checkJobs := (checkJobs s)(jobID := None),
                          activeJobByMonitor := (activeJobByMonitor s)(mid := None)\<rparr>);
              s = s\<lparr>checkJobs := delete_where (\<lambda>job. job_MonitorID job = mid) (checkJobs s),
                    openIncidentByMonitor := (openIncidentByMonitor s)(mid := None),
                    incidents := delete_where (\<lambda>i. inc_MonitorID i = mid) (incidents s)\<rparr>
          in (None, s)))"

section \<open>Claiming due jobs\<close>

definition finishExhaustedJobLocked ::
  "string \<Rightarrow> CheckJobRecord \<Rightarrow> string \<Rightarrow> gotime \<Rightarrow> MonitorStore \<Rightarrow> MonitorStore" where
  "finishExhaustedJobLocked jobID job recoveryError now s =
     (let job = job\<lparr>job_Status := checkJobStatusDead, job_CompletedAt := now,
                    job_ProcessingStartedAt := zeroTime, job_LeaseExpiresAt := zeroTime,
                    job_LeaseToken := [],
                    job_LastError := recoveryError @ ''; maximum attempts reached'',
                    job_UpdatedAt := now\<rparr>;
          s = s\<lparr>checkJobs := (checkJobs s)(jobID \<mapsto> job)\<rparr>;
          s = (if activeJobByMonitor s (job_MonitorID job) = Some jobID
               then s\<lparr>activeJobByMonitor := (activeJobByMonitor s)(job_MonitorID job := None)\<rparr> else s);
          s = rememberTerminalJobLocked jobID s
      in if job_Kind job \<noteq> checkJobKindScheduled then s
         else (case byID s (job_MonitorID job) of
                 None \<Rightarrow> s
               | Some monitor \<Rightarrow>
                   s\<lparr>byID := (byID s)(job_MonitorID job \<mapsto>
                        monitor\<lparr>mon_NextCheckAt := now + seconds (mon_IntervalSeconds monitor),
                                mon_UpdatedAt := now\<rparr>)\<rparr>))"

definition processingExpired :: "gotime \<Rightarrow> CheckJobRecord \<Rightarrow> bool" where
  "processingExpired now job \<longleftrightarrow>
     job_Status job = checkJobStatusProcessing
     \<and> \<not> IsZero (job_LeaseExpiresAt job) \<and> \<not> After (job_LeaseExpiresAt job) now"

definition failedExhausted :: "gotime \<Rightarrow> int \<Rightarrow> CheckJobRecord \<Rightarrow> bool" where
  "failedExhausted now maxAttempts job \<longleftrightarrow>
     job_Status job = checkJobStatusFailed
     \<and> \<not> After (job_AvailableAt job) now \<and> job_Attempt job \<ge> maxAttempts"

text \<open>The body of the recovery loop, and the loop over the keys in the order of the \<open>range\<close>.\<close>

definition recoverJob :: "gotime \<Rightarrow> int \<Rightarrow> string \<Rightarrow> CheckJobRecord \<Rightarrow> MonitorStore \<Rightarrow> MonitorStore" where
  "recoverJob now maxAttempts jobID job s =
     (if \<not> processingExpired now job \<and> \<not> failedExhausted now maxAttempts job then s
      else if job_Attempt job \<ge> maxAttempts
      then finishExhaustedJobLocked jobID job
             (if processingExpired now job then ''processing lease expired''
              else ''maximum processing attempts reached'') now s
      else s\<lparr>checkJobs := (checkJobs s)(jobID \<mapsto>
               job\<lparr>job_Status := checkJobStatusFailed, job_AvailableAt := now,
                   job_ProcessingStartedAt := zeroTime, job_LeaseExpiresAt := zeroTime,
                   job_LeaseToken := [], job_LastError := ''processing lease expired'',
                   job_UpdatedAt := now\<rparr>)\<rparr>)"

fun recoverLoop :: "gotime \<Rightarrow> int \<Rightarrow> string list \<Rightarrow> MonitorStore \<Rightarrow> MonitorStore" where
  "recoverLoop now maxAttempts [] s = s"
| "recoverLoop now maxAttempts (jobID # ks) s =
     recoverLoop now maxAttempts ks
       (case checkJobs s jobID of None \<Rightarrow> s | Some job \<Rightarrow> recoverJob now maxAttempts jobID job s)"

definition claimable :: "gotime \<Rightarrow> int \<Rightarrow> CheckJobRecord \<Rightarrow> bool" where
  "claimable now maxAttempts job \<longleftrightarrow>
     (job_Status job = checkJobStatusScheduled \<or> job_Status job = checkJobStatusFailed)
     \<and> \<not> job_Attempt job \<ge> maxAttempts
     \<and> \<not> After (job_AvailableAt job) now
     \<and> \<not> (\<not> IsZero (job_LeaseExpiresAt job) \<and> After (job_LeaseExpiresAt job) now)"

definition candidate_key :: "CheckJobRecord \<Rightarrow> gotime \<times> gotime \<times> string" where
  "candidate_key job = (job_AvailableAt job, job_ScheduledFor job, job_ID job)"

definition claimJob :: "gotime \<Rightarrow> duration \<Rightarrow> id_draw \<Rightarrow> CheckJobRecord \<Rightarrow> CheckJobRecord" where
  "claimJob now leaseTimeout draw job =
     job\<lparr>job_Status := checkJobStatusScheduled, job_LeaseExpiresAt := now + leaseTimeout,
         job_PublicationToken := newID ''publish'' draw, job_UpdatedAt := now\<rparr>"

text \<open>The draws of one call are numbered by the length of \<open>claimed\<close> when they are made.\<close>

fun claimLoop ::
  "int \<Rightarrow> gotime \<Rightarrow> duration \<Rightarrow> (nat \<Rightarrow> id_draw) \<Rightarrow> CheckJobRecord list \<Rightarrow> CheckJobRecord list
    \<Rightarrow> MonitorStore \<Rightarrow> CheckJobRecord list \<times> MonitorStore" where
  "claimLoop limit now leaseTimeout draws [] claimed s = (claimed, s)"
| "claimLoop limit now leaseTimeout draws (job # jobs) claimed s =
     (if int (length claimed) \<ge> limit then (claimed, s)
      else (let job = claimJob now leaseTimeout (draws (length claimed)) job
            in claimLoop limit now leaseTimeout draws jobs (claimed @ [job])
                 (s\<lparr>checkJobs := (checkJobs s)(job_ID job \<mapsto> job)\<rparr>)))"

definition monitor_due_key :: "Monitor \<Rightarrow> gotime \<times> string" where
  "monitor_due_key m = (mon_NextCheckAt m, mon_ID m)"

definition newScheduledJob ::
  "gotime \<Rightarrow> gotime \<Rightarrow> duration \<Rightarrow> id_draw \<Rightarrow> Monitor \<Rightarrow> CheckJobRecord" where
  "newScheduledJob wall now leaseTimeout draw monitor =
     \<lparr>job_ID = NewCheckJobID wall (mon_ID monitor) (mon_NextCheckAt monitor),
      job_MonitorID = mon_ID monitor, job_Kind = checkJobKindScheduled,
      job_ScheduledFor = mon_NextCheckAt monitor, job_Status = checkJobStatusScheduled,
      job_Attempt = 0, job_AvailableAt = now, job_PublishedAt = zeroTime,
      job_ProcessingStartedAt = zeroTime, job_LeaseExpiresAt = now + leaseTimeout,
      job_LeaseToken = [], job_PublicationToken = newID ''publish'' draw,
      job_CompletedAt = zeroTime, job_LastError = [], job_CreatedAt = now, job_UpdatedAt = now\<rparr>"

fun scheduleLoop ::
  "int \<Rightarrow> gotime \<Rightarrow> gotime \<Rightarrow> duration \<Rightarrow> (nat \<Rightarrow> id_draw) \<Rightarrow> Monitor list \<Rightarrow> CheckJobRecord list
    \<Rightarrow> MonitorStore \<Rightarrow> CheckJobRecord list \<times> MonitorStore" where
  "scheduleLoop limit wall now leaseTimeout draws [] claimed s = (claimed, s)"
| "scheduleLoop limit wall now leaseTimeout draws (monitor # monitors) claimed s =
     (if int (length claimed) \<ge> limit then (claimed, s)
      else if \<not> mon_Enabled monitor \<or> After (mon_NextCheckAt monitor) now
        then scheduleLoop limit wall now leaseTimeout draws monitors claimed s
      else if activeJobByMonitor s (mon_ID monitor) \<noteq> None
        then scheduleLoop limit wall now leaseTimeout draws monitors claimed s
      else (let job = newScheduledJob wall now leaseTimeout (draws (length claimed)) monitor
            in scheduleLoop limit wall now leaseTimeout draws monitors (claimed @ [job])
                 (s\<lparr>checkJobs := (checkJobs s)(job_ID job \<mapsto> job),
                    activeJobByMonitor := (activeJobByMonitor s)(mon_ID monitor \<mapsto> job_ID job)\<rparr>)))"

text \<open>
  What one call of \<open>ClaimDueJobsWithMaxAttempts\<close> takes from its surroundings: the orders in
  which its three \<open>range\<close> loops visit the maps, the draws, and the clock \<open>NewCheckJobID\<close>
  reads.
\<close>

record claim_env =
  ce_recover :: "string list"
  ce_jobs :: "string list"
  ce_monitors :: "string list"
  ce_draws :: "nat \<Rightarrow> id_draw"
  ce_wall :: gotime

definition ClaimDueJobsWithMaxAttempts ::
  "claim_env \<Rightarrow> int \<Rightarrow> gotime \<Rightarrow> duration \<Rightarrow> int \<Rightarrow> MonitorStore \<Rightarrow> CheckJobRecord list \<times> MonitorStore" where
  "ClaimDueJobsWithMaxAttempts ce limit now leaseTimeout maxAttempts s =
     (if limit \<le> 0 then ([], s)
      else
        (let leaseTimeout = (if leaseTimeout \<le> 0 then Minute else leaseTimeout);
             maxAttempts = (if maxAttempts \<le> 0 then defaultMaxJobAttempts else maxAttempts);
             s = recoverLoop now maxAttempts (ce_recover ce) s;
             candidates = sort_key candidate_key
               (filter (claimable now maxAttempts) (map_values (checkJobs s) (ce_jobs ce)));
             (claimed, s) = claimLoop limit now leaseTimeout (ce_draws ce) candidates [] s
         in if int (length claimed) \<ge> limit then (claimed, s)
            else (let monitors = sort_key monitor_due_key (map_values (byID s) (ce_monitors ce))
                  in scheduleLoop limit (ce_wall ce) now leaseTimeout (ce_draws ce) monitors claimed s)))"

definition ClaimDueJobs ::
  "claim_env \<Rightarrow> int \<Rightarrow> gotime \<Rightarrow> duration \<Rightarrow> MonitorStore \<Rightarrow> CheckJobRecord list \<times> MonitorStore" where
  "ClaimDueJobs ce limit now leaseTimeout s =
     ClaimDueJobsWithMaxAttempts ce limit now leaseTimeout defaultMaxJobAttempts s"

section \<open>Job transitions\<close>

definition CreateManualJob ::
  "string \<Rightarrow> id_draw \<Rightarrow> gotime \<Rightarrow> MonitorStore \<Rightarrow> (go_error + CheckJobRecord \<times> bool) \<times> MonitorStore" where
  "CreateManualJob mid draw now s =
     (case byID s mid of
        None \<Rightarrow> (Inl ErrMonitorNotFound, s)
      | Some _ \<Rightarrow>
         (case Option.bind (activeJobByMonitor s mid) (checkJobs s) of
            Some job \<Rightarrow> (Inr (job, False), s)
          | None \<Rightarrow>
             (let job = \<lparr>job_ID = newID ''job'' draw, job_MonitorID = mid,
                         job_Kind = checkJobKindManual, job_ScheduledFor = now,
                         job_Status = checkJobStatusScheduled, job_Attempt = 0,
                         job_AvailableAt = now, job_PublishedAt = zeroTime,
                         job_ProcessingStartedAt = zeroTime, job_LeaseExpiresAt = zeroTime,
                         job_LeaseToken = [], job_PublicationToken = [],
                         job_CompletedAt = zeroTime, job_LastError = [],
                         job_CreatedAt = now, job_UpdatedAt = now\<rparr>
              in (Inr (job, True),
                  s\<lparr>checkJobs := (checkJobs s)(job_ID job \<mapsto> job),
                     activeJobByMonitor := (activeJobByMonitor s)(mid \<mapsto> job_ID job)\<rparr>))))"

definition publicationJobLocked :: "PublicationClaim \<Rightarrow> MonitorStore \<Rightarrow> go_error + CheckJobRecord" where
  "publicationJobLocked claim s =
     (case byID s (claim_MonitorID claim) of
        None \<Rightarrow> Inl ErrMonitorNotFound
      | Some _ \<Rightarrow>
         (case checkJobs s (claim_JobID claim) of
            None \<Rightarrow> Inl ErrStaleJob
          | Some job \<Rightarrow>
              if job_MonitorID job \<noteq> claim_MonitorID claim \<or> claim_Token claim = []
                 \<or> job_PublicationToken job \<noteq> claim_Token claim
              then Inl ErrStaleJob else Inr job))"

definition MarkJobPublished ::
  "PublicationClaim \<Rightarrow> gotime \<Rightarrow> MonitorStore \<Rightarrow> go_error option \<times> MonitorStore" where
  "MarkJobPublished claim now s =
     (case publicationJobLocked claim s of
        Inl e \<Rightarrow> (Some e, s)
      | Inr job \<Rightarrow>
          if job_Status job \<noteq> checkJobStatusScheduled then (None, s)
          else if job_Attempt job \<noteq> claim_Attempt claim \<or> IsZero (job_LeaseExpiresAt job)
                  \<or> \<not> After (job_LeaseExpiresAt job) now
          then (Some ErrStaleJob, s)
          else (None, s\<lparr>checkJobs := (checkJobs s)(claim_JobID claim \<mapsto>
                  job\<lparr>job_Status := checkJobStatusQueued, job_PublishedAt := now,
                      job_LeaseExpiresAt := zeroTime, job_UpdatedAt := now\<rparr>)\<rparr>))"

definition ReleaseJobPublish ::
  "PublicationClaim \<Rightarrow> string \<Rightarrow> gotime \<Rightarrow> MonitorStore \<Rightarrow> go_error option \<times> MonitorStore" where
  "ReleaseJobPublish claim lastError now s =
     (case publicationJobLocked claim s of
        Inl e \<Rightarrow> (Some e, s)
      | Inr job \<Rightarrow>
          if job_Status job \<noteq> checkJobStatusScheduled then (None, s)
          else if job_Attempt job \<noteq> claim_Attempt claim \<or> IsZero (job_LeaseExpiresAt job)
                  \<or> \<not> After (job_LeaseExpiresAt job) now
          then (Some ErrStaleJob, s)
          else (None, s\<lparr>checkJobs := (checkJobs s)(claim_JobID claim \<mapsto>
                  job\<lparr>job_LeaseExpiresAt := zeroTime, job_PublicationToken := [],
                      job_LastError := lastError, job_UpdatedAt := now\<rparr>)\<rparr>))"

definition recoverTopologyJob :: "gotime \<Rightarrow> CheckJobRecord \<Rightarrow> CheckJobRecord" where
  "recoverTopologyJob now job =
     job\<lparr>job_Status := checkJobStatusFailed, job_AvailableAt := now, job_PublishedAt := zeroTime,
         job_ProcessingStartedAt := zeroTime, job_LeaseExpiresAt := zeroTime, job_LeaseToken := [],
         job_PublicationToken := [], job_LastError := ''rabbitmq queue topology was lost'',
         job_UpdatedAt := now\<rparr>"

definition topologyLost :: "CheckJobRecord \<Rightarrow> bool" where
  "topologyLost job \<longleftrightarrow>
     job_Status job = checkJobStatusScheduled \<or> job_Status job = checkJobStatusQueued"

fun topologyLoop ::
  "gotime \<Rightarrow> string list \<Rightarrow> nat \<Rightarrow> MonitorStore \<Rightarrow> nat \<times> MonitorStore" where
  "topologyLoop now [] recovered s = (recovered, s)"
| "topologyLoop now (jobID # ks) recovered s =
     (case checkJobs s jobID of
        None \<Rightarrow> topologyLoop now ks recovered s
      | Some job \<Rightarrow>
          if \<not> topologyLost job then topologyLoop now ks recovered s
          else topologyLoop now ks (Suc recovered)
                 (s\<lparr>checkJobs := (checkJobs s)(jobID \<mapsto> recoverTopologyJob now job)\<rparr>))"

definition RecoverQueuedJobsAfterTopologyLoss ::
  "string list \<Rightarrow> gotime \<Rightarrow> MonitorStore \<Rightarrow> nat \<times> MonitorStore" where
  "RecoverQueuedJobsAfterTopologyLoss ks now s = topologyLoop now ks 0 s"

definition activeJobLocked :: "string \<Rightarrow> string \<Rightarrow> MonitorStore \<Rightarrow> go_error + CheckJobRecord" where
  "activeJobLocked monitorID jobID s =
     (case byID s monitorID of
        None \<Rightarrow> Inl ErrMonitorNotFound
      | Some _ \<Rightarrow>
          if activeJobByMonitor s monitorID \<noteq> Some jobID then Inl ErrStaleJob
          else (case checkJobs s jobID of
                  None \<Rightarrow> Inl ErrStaleJob
                | Some job \<Rightarrow> if job_MonitorID job \<noteq> monitorID then Inl ErrStaleJob else Inr job))"

text \<open>The job record a worker's lease is written into.\<close>

definition startProcessing ::
  "int \<Rightarrow> id_draw \<Rightarrow> gotime \<Rightarrow> duration \<Rightarrow> CheckJobRecord \<Rightarrow> CheckJobRecord" where
  "startProcessing attempt draw now leaseTimeout job =
     (let leaseTimeout = (if leaseTimeout \<le> 0 then Minute else leaseTimeout)
      in job\<lparr>job_Status := checkJobStatusProcessing,
             job_Attempt := max (job_Attempt job) (max attempt 1),
             job_ProcessingStartedAt := now,
             job_LeaseExpiresAt := now + leaseTimeout,
             job_LeaseToken := newID ''lease'' draw, job_UpdatedAt := now\<rparr>)"

definition MarkJobProcessing ::
  "string \<Rightarrow> string \<Rightarrow> int \<Rightarrow> id_draw \<Rightarrow> gotime \<Rightarrow> duration \<Rightarrow> MonitorStore
    \<Rightarrow> (go_error + ProcessingLease) \<times> MonitorStore" where
  "MarkJobProcessing mid jobID attempt draw now leaseTimeout s =
     (case activeJobLocked mid jobID s of
        Inl e \<Rightarrow> (Inl e, s)
      | Inr job \<Rightarrow>
         (let guard = (case job_Status job of
                 checkJobStatusScheduled \<Rightarrow> if attempt \<le> job_Attempt job then Some ErrStaleJob else None
               | checkJobStatusQueued \<Rightarrow> if attempt \<le> job_Attempt job then Some ErrStaleJob else None
               | checkJobStatusProcessing \<Rightarrow> Some ErrJobAlreadyProcessing
               | _ \<Rightarrow> Some ErrStaleJob)
          in case guard of
               Some e \<Rightarrow> (Inl e, s)
             | None \<Rightarrow>
                (let job = startProcessing attempt draw now leaseTimeout job
                 in (Inr \<lparr>lease_JobID = jobID, lease_MonitorID = mid, lease_Attempt = job_Attempt job,
                          lease_Token = job_LeaseToken job\<rparr>,
                     s\<lparr>checkJobs := (checkJobs s)(jobID \<mapsto> job)\<rparr>))))"

definition jobOwnsLease :: "CheckJobRecord \<Rightarrow> ProcessingLease \<Rightarrow> gotime \<Rightarrow> bool" where
  "jobOwnsLease job lease now \<longleftrightarrow>
     job_Status job = checkJobStatusProcessing
     \<and> After (job_LeaseExpiresAt job) now
     \<and> job_ID job = lease_JobID lease
     \<and> job_MonitorID job = lease_MonitorID lease
     \<and> job_Attempt job = lease_Attempt lease
     \<and> job_LeaseToken job \<noteq> []
     \<and> job_LeaseToken job = lease_Token lease"

definition MarkJobFailed ::
  "ProcessingLease \<Rightarrow> string \<Rightarrow> gotime \<Rightarrow> gotime \<Rightarrow> gotime \<Rightarrow> MonitorStore
    \<Rightarrow> go_error option \<times> MonitorStore" where
  "MarkJobFailed lease lastError now retryAt wall s =
     (case activeJobLocked (lease_MonitorID lease) (lease_JobID lease) s of
        Inl e \<Rightarrow> (Some e, s)
      | Inr job \<Rightarrow>
          if \<not> jobOwnsLease job lease now \<or> \<not> After (job_LeaseExpiresAt job) wall
          then (Some ErrStaleJob, s)
          else (None, s\<lparr>checkJobs := (checkJobs s)(lease_JobID lease \<mapsto>
                  job\<lparr>job_Status := checkJobStatusFailed, job_AvailableAt := retryAt,
                      job_ProcessingStartedAt := zeroTime, job_LeaseExpiresAt := zeroTime,
                      job_LeaseToken := [], job_LastError := lastError, job_UpdatedAt := now\<rparr>)\<rparr>))"

definition MarkJobDead ::
  "ProcessingLease \<Rightarrow> string \<Rightarrow> gotime \<Rightarrow> gotime \<Rightarrow> gotime \<Rightarrow> MonitorStore
    \<Rightarrow> go_error option \<times> MonitorStore" where
  "MarkJobDead lease lastError now nextCheckAt wall s =
     (case byID s (lease_MonitorID lease) of
        None \<Rightarrow> (Some ErrMonitorNotFound, s)
      | Some monitor \<Rightarrow>
         (case activeJobLocked (lease_MonitorID lease) (lease_JobID lease) s of
            Inl e \<Rightarrow> (Some e, s)
          | Inr job \<Rightarrow>
              if \<not> jobOwnsLease job lease now \<or> \<not> After (job_LeaseExpiresAt job) wall
              then (Some ErrStaleJob, s)
              else
                (let s = s\<lparr>checkJobs := (checkJobs s)(lease_JobID lease \<mapsto>
                             job\<lparr>job_Status := checkJobStatusDead, job_CompletedAt := now,
                                 job_ProcessingStartedAt := zeroTime, job_LeaseExpiresAt := zeroTime,
                                 job_LeaseToken := [], job_LastError := lastError,
                                 job_UpdatedAt := now\<rparr>),
                           activeJobByMonitor := (activeJobByMonitor s)(lease_MonitorID lease := None)\<rparr>;
                     s = rememberTerminalJobLocked (lease_JobID lease) s
                 in (None,
                     if job_Kind job = checkJobKindScheduled
                     then s\<lparr>byID := (byID s)(lease_MonitorID lease \<mapsto>
                              monitor\<lparr>mon_NextCheckAt := nextCheckAt, mon_UpdatedAt := now\<rparr>)\<rparr>
                     else s))))"

definition CheckJob :: "string \<Rightarrow> MonitorStore \<Rightarrow> go_error + CheckJobRecord" where
  "CheckJob jobID s = (case checkJobs s jobID of None \<Rightarrow> Inl ErrStaleJob | Some job \<Rightarrow> Inr job)"

section \<open>Recording a check\<close>

definition lookupIncident :: "string \<Rightarrow> MonitorStore \<Rightarrow> Incident" where
  "lookupIncident i s = (case incidents s i of None \<Rightarrow> zeroIncident | Some incident \<Rightarrow> incident)"

definition updateIncident :: "id_draw \<Rightarrow> CheckRecord \<Rightarrow> gotime \<Rightarrow> MonitorStore \<Rightarrow> MonitorStore" where
  "updateIncident draw record now s =
     (if chk_Success record
      then (case openIncidentByMonitor s (chk_MonitorID record) of
              None \<Rightarrow> s
            | Some incidentID \<Rightarrow>
               (let incident = (lookupIncident incidentID s)
                      \<lparr>inc_Status := incidentStatusResolved, inc_ResolvedAt := chk_CheckedAt record,
                       inc_UpdatedAt := now\<rparr>
                in rememberResolvedIncidentLocked incidentID
                     (s\<lparr>incidents := (incidents s)(incidentID \<mapsto> incident),
                        openIncidentByMonitor :=
                          (openIncidentByMonitor s)(chk_MonitorID record := None)\<rparr>)))
      else
        (let lastError = (if chk_Error record = []
                          then ''unexpected status code '' @ Itoa (chk_StatusCode record)
                          else chk_Error record)
         in case openIncidentByMonitor s (chk_MonitorID record) of
              Some incidentID \<Rightarrow>
                (let incident = lookupIncident incidentID s;
                     incident = incident\<lparr>inc_FailureCount := wrap64 (inc_FailureCount incident + 1),
                       inc_LastFailureAt := chk_CheckedAt record, inc_LastError := lastError,
                       inc_UpdatedAt := now\<rparr>
                 in s\<lparr>incidents := (incidents s)(incidentID \<mapsto> incident)\<rparr>)
            | None \<Rightarrow>
                (let incident = \<lparr>inc_ID = newID ''inc'' draw, inc_MonitorID = chk_MonitorID record,
                       inc_Status = incidentStatusOpen, inc_FailureCount = 1,
                       inc_FirstFailureAt = chk_CheckedAt record,
                       inc_LastFailureAt = chk_CheckedAt record, inc_ResolvedAt = zeroTime,
                       inc_LastError = lastError, inc_LastAlertedAt = zeroTime, inc_AlertCount = 0,
                       inc_CreatedAt = now, inc_UpdatedAt = now\<rparr>
                 in s\<lparr>incidents := (incidents s)(inc_ID incident \<mapsto> incident),
                       openIncidentByMonitor :=
                         (openIncidentByMonitor s)(chk_MonitorID record \<mapsto> inc_ID incident)\<rparr>)))"

text \<open>
  \<open>AddCheck\<close> after its guards. \<open>None\<close> is the run-time panic of an index out of range in
  \<open>rememberProcessedJobLocked\<close>.
\<close>

definition completeCheck ::
  "id_draw \<Rightarrow> gotime \<Rightarrow> CheckRecord \<Rightarrow> CheckJobRecord \<Rightarrow> Monitor \<Rightarrow> MonitorStore
    \<Rightarrow> (Monitor \<times> MonitorStore) option" where
  "completeCheck draw now record job monitor s =
     (case rememberProcessedJobLocked (chk_JobID record) s of
        None \<Rightarrow> None
      | Some s \<Rightarrow>
         (let mid = chk_MonitorID record;
              s = s\<lparr>checkJobs := (checkJobs s)(chk_JobID record \<mapsto>
                      job\<lparr>job_Status := checkJobStatusCompleted, job_CompletedAt := now,
                          job_ProcessingStartedAt := zeroTime, job_LeaseExpiresAt := zeroTime,
                          job_LeaseToken := [], job_LastError := [], job_UpdatedAt := now\<rparr>),
                    activeJobByMonitor := (activeJobByMonitor s)(mid := None)\<rparr>;
              s = rememberTerminalJobLocked (chk_JobID record) s;
              monitor = monitor\<lparr>mon_LastStatusCode := chk_StatusCode record,
                                mon_LastLatencyMS := chk_LatencyMS record,
                                mon_LastCheckedAt := now, mon_LastError := chk_Error record\<rparr>;
              monitor = (if job_Kind job = checkJobKindScheduled
                         then monitor\<lparr>mon_NextCheckAt := now + seconds (mon_IntervalSeconds monitor)\<rparr>
                         else monitor);
              monitor = monitor\<lparr>mon_UpdatedAt := now\<rparr>;
              s = s\<lparr>byID := (byID s)(mid \<mapsto> monitor)\<rparr>;
              records = (case checks s mid of None \<Rightarrow> [] | Some rs \<Rightarrow> rs) @ [record];
              records = (if length records > maxChecksPerMonitor
                         then drop (length records - maxChecksPerMonitor) records else records);
              s = s\<lparr>checks := (checks s)(mid \<mapsto> records)\<rparr>
          in Some (monitor, updateIncident draw record now s)))"

definition AddCheck ::
  "id_draw \<Rightarrow> gotime \<Rightarrow> CheckRecord \<Rightarrow> ProcessingLease \<Rightarrow> MonitorStore
    \<Rightarrow> ((go_error + Monitor) \<times> MonitorStore) option" where
  "AddCheck draw now record lease s =
     (case byID s (chk_MonitorID record) of
        None \<Rightarrow> Some (Inl ErrMonitorNotFound, s)
      | Some monitor \<Rightarrow>
          if chk_JobID record = [] then Some (Inl ErrJobIDRequired, s)
          else (case checkJobs s (chk_JobID record) of
                  None \<Rightarrow> Some (Inl ErrStaleJob, s)
                | Some job \<Rightarrow>
                    if job_MonitorID job \<noteq> chk_MonitorID record then Some (Inl ErrStaleJob, s)
                    else if job_Status job = checkJobStatusCompleted then Some (Inl ErrDuplicateJob, s)
                    else if \<not> jobOwnsLease job lease now then Some (Inl ErrStaleJob, s)
                    else if chk_JobID record \<in> processedJobs s then Some (Inl ErrDuplicateJob, s)
                    else (case completeCheck draw now record job monitor s of
                            None \<Rightarrow> None
                          | Some (monitor, s) \<Rightarrow> Some (Inr monitor, s))))"

section \<open>Queries\<close>

definition check_key :: "CheckRecord \<Rightarrow> int \<times> string" where
  "check_key r = (- chk_CheckedAt r, chk_ID r)"

definition ListChecks ::
  "string \<Rightarrow> int \<Rightarrow> int \<Rightarrow> MonitorStore \<Rightarrow> go_error + (CheckRecord list option \<times> nat)" where
  "ListChecks mid offset limit s =
     (case byID s mid of
        None \<Rightarrow> Inl ErrMonitorNotFound
      | Some _ \<Rightarrow>
         (let records = sort_key check_key (case checks s mid of None \<Rightarrow> [] | Some rs \<Rightarrow> rs)
          in Inr (go_page records offset limit, length records)))"

definition incident_key :: "Incident \<Rightarrow> int \<times> string" where
  "incident_key i = (- inc_CreatedAt i, inc_ID i)"

definition ListIncidents ::
  "string list \<Rightarrow> IncidentStatus \<Rightarrow> int \<Rightarrow> int \<Rightarrow> MonitorStore \<Rightarrow> Incident list option \<times> nat" where
  "ListIncidents ks status offset limit s =
     (let incs = sort_key incident_key
            (filter (\<lambda>i. \<not> (status \<noteq> incidentStatusUnset \<and> inc_Status i \<noteq> status))
               (map_values (incidents s) ks))
      in (go_page incs offset limit, length incs))"

text \<open>The two quotients of \<open>Stats\<close> are exact rationals; the latency sum is a 64-bit sum.\<close>

record MonitorStats =
  stats_MonitorID :: string
  stats_UptimePercent :: rat
  stats_AverageLatencyMS :: rat
  stats_ChecksTotal :: nat
  stats_SuccessfulChecks :: nat
  stats_FailedChecks :: nat
  stats_LastCheckedAt :: gotime
  stats_LastStatusCode :: int
  stats_ConsecutiveFailure :: int

fun statsLoop :: "CheckRecord list \<Rightarrow> nat \<Rightarrow> nat \<Rightarrow> int \<Rightarrow> nat \<times> nat \<times> int" where
  "statsLoop [] ok failed latency = (ok, failed, latency)"
| "statsLoop (r # rs) ok failed latency =
     (if chk_Success r then statsLoop rs (Suc ok) failed (wrap64 (latency + chk_LatencyMS r))
      else statsLoop rs ok (Suc failed) (wrap64 (latency + chk_LatencyMS r)))"

definition Stats :: "string \<Rightarrow> MonitorStore \<Rightarrow> go_error + MonitorStats" where
  "Stats mid s =
     (case byID s mid of
        None \<Rightarrow> Inl ErrMonitorNotFound
      | Some monitor \<Rightarrow>
         (let records = (case checks s mid of None \<Rightarrow> [] | Some rs \<Rightarrow> rs);
              stats = \<lparr>stats_MonitorID = mid, stats_UptimePercent = 0, stats_AverageLatencyMS = 0,
                       stats_ChecksTotal = length records, stats_SuccessfulChecks = 0,
                       stats_FailedChecks = 0, stats_LastCheckedAt = mon_LastCheckedAt monitor,
                       stats_LastStatusCode = mon_LastStatusCode monitor,
                       stats_ConsecutiveFailure = 0\<rparr>
          in if records = [] then Inr stats
             else (let (ok, failed, latencyTotal) = statsLoop (rev records) 0 0 0
                   in Inr (stats\<lparr>stats_SuccessfulChecks := ok, stats_FailedChecks := failed,
                        stats_ConsecutiveFailure :=
                          (case openIncidentByMonitor s mid of
                             None \<Rightarrow> 0
                           | Some incidentID \<Rightarrow> inc_FailureCount (lookupIncident incidentID s)),
                        stats_UptimePercent := of_nat ok / of_nat (length records) * 100,
                        stats_AverageLatencyMS := of_int latencyTotal / of_nat (length records)\<rparr>))))"

end
