(* ===== verification/Store_Logs.thy ===== *)
theory Store_Logs
  imports Monitor_Store
begin

text \<open>
  The three retention logs of the in-memory store: the interpretations of the retention
  contract for finished jobs and for resolved incidents, and the log of processed job
  identifiers, whose eviction loop is shown never to index past its order.
\<close>

section \<open>Finished jobs\<close>

definition terminal_live :: "MonitorStore \<Rightarrow> string list" where
  "terminal_live s = drop (terminalJobHead s) (terminalJobOrder s)"

definition terminal_head_ok :: "MonitorStore \<Rightarrow> bool" where
  "terminal_head_ok s \<longleftrightarrow> terminalJobHead s \<le> length (terminalJobOrder s)"

lemma rememberTerminalJobLocked_frame [simp]:
  "store_policy (rememberTerminalJobLocked j s) = store_policy s"
  "byID (rememberTerminalJobLocked j s) = byID s"
  "byURL (rememberTerminalJobLocked j s) = byURL s"
  "checks (rememberTerminalJobLocked j s) = checks s"
  "activeJobByMonitor (rememberTerminalJobLocked j s) = activeJobByMonitor s"
  "incidents (rememberTerminalJobLocked j s) = incidents s"
  "openIncidentByMonitor (rememberTerminalJobLocked j s) = openIncidentByMonitor s"
  "resolvedIncidentOrder (rememberTerminalJobLocked j s) = resolvedIncidentOrder s"
  "resolvedIncidentHead (rememberTerminalJobLocked j s) = resolvedIncidentHead s"
  "processedJobs (rememberTerminalJobLocked j s) = processedJobs s"
  "processedJobOrder (rememberTerminalJobLocked j s) = processedJobOrder s"
  "processedJobHead (rememberTerminalJobLocked j s) = processedJobHead s"
  by (simp_all add: rememberTerminalJobLocked_def Let_def split: prod.splits)

lemma rememberTerminalJobLocked_round:
  assumes "terminal_head_ok s" "length (terminal_live s) \<le> maxRetainedCheckJobs"
  shows "terminal_live (rememberTerminalJobLocked j s) =
      (if length (terminal_live s) < maxRetainedCheckJobs then terminal_live s @ [j]
       else tl (terminal_live s @ [j]))"
    and "checkJobs (rememberTerminalJobLocked j s) =
      (if length (terminal_live s) < maxRetainedCheckJobs then checkJobs s
       else evictEntry terminal_status (hd (terminal_live s @ [j])) (checkJobs s))"
    and "terminal_head_ok (rememberTerminalJobLocked j s)"
proof -
  obtain head jobs where ev: "evictLoop maxRetainedCheckJobs terminal_status
      (terminalJobOrder s @ [j]) (terminalJobHead s) (checkJobs s) = (head, jobs)"
    by (rule prod.exhaust)
  obtain order head' where co: "compactOrder maxRetainedCheckJobs (terminalJobOrder s @ [j]) head
      = (order, head')" by (rule prod.exhaust)
  note r = log_round [OF _ _ ev co, folded terminal_live_def, unfolded terminal_head_ok_def]
  have f: "rememberTerminalJobLocked j s =
      s\<lparr>terminalJobOrder := order, terminalJobHead := head', checkJobs := jobs\<rparr>"
    using ev co by (simp add: rememberTerminalJobLocked_def)
  show "terminal_live (rememberTerminalJobLocked j s) =
      (if length (terminal_live s) < maxRetainedCheckJobs then terminal_live s @ [j]
       else tl (terminal_live s @ [j]))"
    using r(1) assms unfolding f terminal_head_ok_def
    by (simp add: terminal_live_def [of "s\<lparr>terminalJobOrder := order, terminalJobHead := head', checkJobs := jobs\<rparr>"])
  show "checkJobs (rememberTerminalJobLocked j s) =
      (if length (terminal_live s) < maxRetainedCheckJobs then checkJobs s
       else evictEntry terminal_status (hd (terminal_live s @ [j])) (checkJobs s))"
    using r(2) assms unfolding f terminal_head_ok_def by simp
  show "terminal_head_ok (rememberTerminalJobLocked j s)"
    using r(3) assms unfolding f terminal_head_ok_def by simp
qed

interpretation jobs_log: retention terminal_live terminal_head_ok checkJobs terminal_status
  maxRetainedCheckJobs rememberTerminalJobLocked
  by unfold_locales
    (simp_all add: rememberTerminalJobLocked_round maxRetainedCheckJobs_def [symmetric],
     simp add: maxRetainedCheckJobs_def)

section \<open>Resolved incidents\<close>

definition resolved_live :: "MonitorStore \<Rightarrow> string list" where
  "resolved_live s = drop (resolvedIncidentHead s) (resolvedIncidentOrder s)"

definition resolved_head_ok :: "MonitorStore \<Rightarrow> bool" where
  "resolved_head_ok s \<longleftrightarrow> resolvedIncidentHead s \<le> length (resolvedIncidentOrder s)"

lemma rememberResolvedIncidentLocked_frame [simp]:
  "store_policy (rememberResolvedIncidentLocked i s) = store_policy s"
  "byID (rememberResolvedIncidentLocked i s) = byID s"
  "byURL (rememberResolvedIncidentLocked i s) = byURL s"
  "checks (rememberResolvedIncidentLocked i s) = checks s"
  "checkJobs (rememberResolvedIncidentLocked i s) = checkJobs s"
  "activeJobByMonitor (rememberResolvedIncidentLocked i s) = activeJobByMonitor s"
  "terminalJobOrder (rememberResolvedIncidentLocked i s) = terminalJobOrder s"
  "terminalJobHead (rememberResolvedIncidentLocked i s) = terminalJobHead s"
  "openIncidentByMonitor (rememberResolvedIncidentLocked i s) = openIncidentByMonitor s"
  "processedJobs (rememberResolvedIncidentLocked i s) = processedJobs s"
  "processedJobOrder (rememberResolvedIncidentLocked i s) = processedJobOrder s"
  "processedJobHead (rememberResolvedIncidentLocked i s) = processedJobHead s"
  by (simp_all add: rememberResolvedIncidentLocked_def Let_def split: prod.splits)

lemma rememberResolvedIncidentLocked_round:
  assumes "resolved_head_ok s" "length (resolved_live s) \<le> maxRetainedResolvedIncidents"
  shows "resolved_live (rememberResolvedIncidentLocked i s) =
      (if length (resolved_live s) < maxRetainedResolvedIncidents then resolved_live s @ [i]
       else tl (resolved_live s @ [i]))"
    and "incidents (rememberResolvedIncidentLocked i s) =
      (if length (resolved_live s) < maxRetainedResolvedIncidents then incidents s
       else evictEntry resolved_status (hd (resolved_live s @ [i])) (incidents s))"
    and "resolved_head_ok (rememberResolvedIncidentLocked i s)"
proof -
  obtain head incs where ev: "evictLoop maxRetainedResolvedIncidents resolved_status
      (resolvedIncidentOrder s @ [i]) (resolvedIncidentHead s) (incidents s) = (head, incs)"
    by (rule prod.exhaust)
  obtain order head' where co: "compactOrder maxRetainedResolvedIncidents
      (resolvedIncidentOrder s @ [i]) head = (order, head')" by (rule prod.exhaust)
  note r = log_round [OF _ _ ev co, folded resolved_live_def, unfolded resolved_head_ok_def]
  have f: "rememberResolvedIncidentLocked i s =
      s\<lparr>resolvedIncidentOrder := order, resolvedIncidentHead := head', incidents := incs\<rparr>"
    using ev co by (simp add: rememberResolvedIncidentLocked_def)
  show "resolved_live (rememberResolvedIncidentLocked i s) =
      (if length (resolved_live s) < maxRetainedResolvedIncidents then resolved_live s @ [i]
       else tl (resolved_live s @ [i]))"
    using r(1) assms unfolding f resolved_head_ok_def
    by (simp add: resolved_live_def [of "s\<lparr>resolvedIncidentOrder := order, resolvedIncidentHead := head', incidents := incs\<rparr>"])
  show "incidents (rememberResolvedIncidentLocked i s) =
      (if length (resolved_live s) < maxRetainedResolvedIncidents then incidents s
       else evictEntry resolved_status (hd (resolved_live s @ [i])) (incidents s))"
    using r(2) assms unfolding f resolved_head_ok_def by simp
  show "resolved_head_ok (rememberResolvedIncidentLocked i s)"
    using r(3) assms unfolding f resolved_head_ok_def by simp
qed

interpretation incidents_log: retention resolved_live resolved_head_ok incidents resolved_status
  maxRetainedResolvedIncidents rememberResolvedIncidentLocked
  by unfold_locales
    (simp_all add: rememberResolvedIncidentLocked_round maxRetainedResolvedIncidents_def [symmetric],
     simp add: maxRetainedResolvedIncidents_def)

section \<open>Processed job identifiers\<close>

definition processed_live :: "MonitorStore \<Rightarrow> string list" where
  "processed_live s = drop (processedJobHead s) (processedJobOrder s)"

definition processed_ok :: "MonitorStore \<Rightarrow> bool" where
  "processed_ok s \<longleftrightarrow>
     processedJobHead s \<le> length (processedJobOrder s) \<and> distinct (processed_live s)
     \<and> processedJobs s = set (processed_live s) \<and> length (processed_live s) \<le> maxProcessedJobIDs"

lemma processedEvictLoop_round:
  assumes d: "distinct (drop head order)" "length (drop head order) \<le> Suc limit"
    "head \<le> length order"
  shows "processedEvictLoop limit order head (set (drop head order)) =
    (if length (drop head order) \<le> limit then Some (head, set (drop head order))
     else Some (Suc head, set (tl (drop head order))))"
proof -
  have c: "card (set (drop h order)) = length order - h" if "distinct (drop h order)" for h
    using distinct_card [OF that] by simp
  have stop: "processedEvictLoop limit order h js = Some (h, js)" if "card js \<le> limit" for h js
    using that by (simp add: processedEvictLoop.simps [of limit order h])
  show ?thesis
  proof (cases "length (drop head order) \<le> limit")
    case True
    with c [OF d(1)] show ?thesis by (simp add: stop)
  next
    case False
    then have lt: "head < length order" by simp
    then have split: "drop head order = order ! head # drop (Suc head) order"
      by (simp add: Cons_nth_drop_Suc)
    with d(1) have rest: "set (drop head order) - {order ! head} = set (drop (Suc head) order)"
      "distinct (drop (Suc head) order)" by auto
    have "card (set (drop (Suc head) order)) \<le> limit" using c [OF rest(2)] d(2) False by simp
    then have "processedEvictLoop limit order head (set (drop head order)) =
        Some (Suc head, set (drop (Suc head) order))"
      using c [OF d(1)] False lt rest(1)
      by (subst processedEvictLoop.simps) (simp add: stop)
    with False split show ?thesis by simp
  qed
qed

lemma rememberProcessedJobLocked_fresh:
  assumes ok: "processed_ok s" and new: "j \<notin> processedJobs s"
  obtains order head where
    "rememberProcessedJobLocked j s =
       Some (s\<lparr>processedJobs := set (drop head order), processedJobOrder := order,
               processedJobHead := head\<rparr>)"
    "drop head order = (if length (processed_live s) < maxProcessedJobIDs then processed_live s @ [j]
       else tl (processed_live s @ [j]))"
    "head \<le> length order"
proof -
  let ?o = "processedJobOrder s @ [j]" and ?h = "processedJobHead s"
  from ok have h: "?h \<le> length (processedJobOrder s)" and dis: "distinct (processed_live s)"
    and eq: "processedJobs s = set (processed_live s)"
    and len: "length (processed_live s) \<le> maxProcessedJobIDs" by (simp_all add: processed_ok_def)
  have app: "drop ?h ?o = processed_live s @ [j]" using h by (simp add: processed_live_def)
  have ins: "insert j (processedJobs s) = set (drop ?h ?o)" unfolding app using eq by simp
  define h' where "h' = (if length (processed_live s) < maxProcessedJobIDs then ?h else Suc ?h)"
  have drop_h': "drop h' ?o = (if length (processed_live s) < maxProcessedJobIDs
      then processed_live s @ [j] else tl (processed_live s @ [j]))"
    unfolding h'_def by (simp only: if_distrib [of "\<lambda>h. drop h ?o"] app drop_Suc_tl)
  have "processedEvictLoop maxProcessedJobIDs ?o ?h (set (drop ?h ?o)) = Some (h', set (drop h' ?o))"
    using processedEvictLoop_round [of ?h ?o maxProcessedJobIDs] dis len new eq h
    unfolding drop_h' unfolding app h'_def by auto
  then have loop: "processedEvictLoop maxProcessedJobIDs ?o ?h (insert j (processedJobs s)) =
      Some (h', set (drop h' ?o))" unfolding ins .
  obtain order head where co: "compactOrder maxProcessedJobIDs ?o h' = (order, head)"
    by (rule prod.exhaust)
  note live = compactOrder_live [OF co]
  have "h' \<le> length ?o" using h by (simp add: h'_def)
  then have "head \<le> length order" using co by (auto simp: compactOrder_def split: if_splits)
  moreover have "rememberProcessedJobLocked j s =
       Some (s\<lparr>processedJobs := set (drop head order), processedJobOrder := order,
               processedJobHead := head\<rparr>)"
    unfolding rememberProcessedJobLocked_def Let_def loop live using new co by simp
  ultimately show thesis using live drop_h' that by metis
qed

lemma rememberProcessedJobLocked_ok:
  assumes ok: "processed_ok s"
  obtains s' where "rememberProcessedJobLocked j s = Some s'" "processed_ok s'" "j \<in> processedJobs s'"
    "processedJobs s' \<subseteq> insert j (processedJobs s)"
    "s' = s\<lparr>processedJobs := processedJobs s', processedJobOrder := processedJobOrder s',
            processedJobHead := processedJobHead s'\<rparr>"
proof (cases "j \<in> processedJobs s")
  case True
  with ok that show thesis by (simp add: rememberProcessedJobLocked_def) blast
next
  case False
  from rememberProcessedJobLocked_fresh [OF ok False] obtain order head where
    r: "rememberProcessedJobLocked j s =
       Some (s\<lparr>processedJobs := set (drop head order), processedJobOrder := order,
               processedJobHead := head\<rparr>)"
    and live: "drop head order = (if length (processed_live s) < maxProcessedJobIDs
       then processed_live s @ [j] else tl (processed_live s @ [j]))"
    and h: "head \<le> length order" by blast
  from ok False have dis: "distinct (processed_live s @ [j])"
    and len: "length (processed_live s) \<le> maxProcessedJobIDs"
    and eq: "processedJobs s = set (processed_live s)" by (auto simp: processed_ok_def)
  have pos: "0 < maxProcessedJobIDs" by (simp add: maxProcessedJobIDs_def)
  have j: "j \<in> set (drop head order)"
    using live len pos by (cases "processed_live s") auto
  have "processed_ok (s\<lparr>processedJobs := set (drop head order), processedJobOrder := order,
      processedJobHead := head\<rparr>)"
    using live dis len h by (auto simp: processed_ok_def processed_live_def distinct_tl)
  moreover have "set (drop head order) \<subseteq> insert j (processedJobs s)"
    using live eq by (cases "processed_live s") auto
  ultimately show thesis using r j that by simp
qed

end
