(* ===== verification/Store_Invariant.thy ===== *)
theory Store_Invariant
  imports Store_Logs
begin

text \<open>
  The representation invariant of the in-memory store: the indexes by URL, by active job
  and by open incident agree with the tables they index, stored monitors are valid, a
  lease token exists exactly while a job is processing, and the retention bounds hold.
  Every operation of the store preserves it; the proofs go through a few elementary
  updates the operations are made of.
\<close>

section \<open>The invariant\<close>

definition monitor_ok :: "parsers \<Rightarrow> NetworkPolicy \<Rightarrow> string \<Rightarrow> Monitor \<Rightarrow> bool" where
  "monitor_ok env policy i m \<longleftrightarrow>
     mon_ID m = i \<and> validateMonitorInput env (input_of m) policy = None
     \<and> (mon_Status m = monitorStatusActive \<longleftrightarrow> mon_Enabled m)"

definition monitors_ok :: "parsers \<Rightarrow> MonitorStore \<Rightarrow> bool" where
  "monitors_ok env s \<longleftrightarrow> finite (dom (byID s))
     \<and> (\<forall>i m. byID s i = Some m \<longrightarrow> monitor_ok env (store_policy s) i m)"

definition urls_ok :: "MonitorStore \<Rightarrow> bool" where
  "urls_ok s \<longleftrightarrow> (\<forall>u i. byURL s u = Some i \<longleftrightarrow> (\<exists>m. byID s i = Some m \<and> mon_URL m = u))"

definition job_ok :: "string \<Rightarrow> CheckJobRecord \<Rightarrow> bool" where
  "job_ok j job \<longleftrightarrow>
     job_ID job = j \<and> (\<forall>w m t. j = NewCheckJobID w m t \<longrightarrow> job_MonitorID job = m)
     \<and> (job_LeaseToken job \<noteq> [] \<longleftrightarrow> job_Status job = checkJobStatusProcessing)
     \<and> 0 \<le> job_Attempt job"

definition jobs_ok :: "MonitorStore \<Rightarrow> bool" where
  "jobs_ok s \<longleftrightarrow> finite (dom (checkJobs s))
     \<and> (\<forall>j job. checkJobs s j = Some job \<longrightarrow> job_ok j job \<and> byID s (job_MonitorID job) \<noteq> None)"

definition active_ok :: "MonitorStore \<Rightarrow> bool" where
  "active_ok s \<longleftrightarrow> (\<forall>m j. activeJobByMonitor s m = Some j \<longleftrightarrow>
     (\<exists>job. checkJobs s j = Some job \<and> job_MonitorID job = m \<and> \<not> terminal_status job))"

definition incidents_ok :: "MonitorStore \<Rightarrow> bool" where
  "incidents_ok s \<longleftrightarrow> finite (dom (incidents s))
     \<and> (\<forall>i inc. incidents s i = Some inc \<longrightarrow>
          inc_ID inc = i \<and> byID s (inc_MonitorID inc) \<noteq> None
          \<and> inc_Status inc \<noteq> incidentStatusUnset)
     \<and> (\<forall>m i. openIncidentByMonitor s m = Some i \<longleftrightarrow>
          (\<exists>inc. incidents s i = Some inc \<and> inc_MonitorID inc = m \<and> \<not> resolved_status inc))"

definition checks_ok :: "MonitorStore \<Rightarrow> bool" where
  "checks_ok s \<longleftrightarrow> (\<forall>m rs. checks s m = Some rs \<longrightarrow>
     byID s m \<noteq> None \<and> length rs \<le> maxChecksPerMonitor
     \<and> (\<forall>r \<in> set rs. chk_MonitorID r = m \<and> chk_JobID r \<noteq> []))"

definition store_inv :: "parsers \<Rightarrow> MonitorStore \<Rightarrow> bool" where
  "store_inv env s \<longleftrightarrow> monitors_ok env s \<and> urls_ok s \<and> jobs_ok s \<and> active_ok s
     \<and> incidents_ok s \<and> checks_ok s \<and> jobs_log.retained s \<and> incidents_log.retained s
     \<and> processed_ok s"

lemmas inv_defs = monitors_ok_def urls_ok_def jobs_ok_def active_ok_def incidents_ok_def
  checks_ok_def jobs_log.retained_def incidents_log.retained_def processed_ok_def
  terminal_live_def resolved_live_def processed_live_def terminal_head_ok_def resolved_head_ok_def

lemma store_invD:
  assumes "store_inv env s"
  shows "monitors_ok env s" "urls_ok s" "jobs_ok s" "active_ok s" "incidents_ok s" "checks_ok s"
    "jobs_log.retained s" "incidents_log.retained s" "processed_ok s"
  using assms by (simp_all add: store_inv_def)

lemma store_inv_monitor: "store_inv env s \<Longrightarrow> byID s i = Some m \<Longrightarrow> monitor_ok env (store_policy s) i m"
  by (simp add: store_inv_def monitors_ok_def)

lemma store_inv_job:
  "store_inv env s \<Longrightarrow> checkJobs s j = Some job \<Longrightarrow> job_ok j job \<and> byID s (job_MonitorID job) \<noteq> None"
  by (simp add: store_inv_def jobs_ok_def)

lemma store_inv_active:
  "store_inv env s \<Longrightarrow> activeJobByMonitor s m = Some j \<longleftrightarrow>
     (\<exists>job. checkJobs s j = Some job \<and> job_MonitorID job = m \<and> \<not> terminal_status job)"
  by (simp add: store_inv_def active_ok_def)

lemma store_inv_open:
  "store_inv env s \<Longrightarrow> openIncidentByMonitor s m = Some i \<longleftrightarrow>
     (\<exists>inc. incidents s i = Some inc \<and> inc_MonitorID inc = m \<and> \<not> resolved_status inc)"
  by (simp add: store_inv_def incidents_ok_def)

lemma store_inv_jobs_retained:
  assumes "store_inv env s"
  shows "terminal_head_ok s" "length (terminal_live s) \<le> maxRetainedCheckJobs"
    "checkJobs s j = Some job \<Longrightarrow> terminal_status job \<Longrightarrow> j \<in> set (terminal_live s)"
  using assms by (auto simp: store_inv_def jobs_log.retained_def)

lemma store_inv_incidents_retained:
  assumes "store_inv env s"
  shows "resolved_head_ok s" "length (resolved_live s) \<le> maxRetainedResolvedIncidents"
    "incidents s i = Some inc \<Longrightarrow> resolved_status inc \<Longrightarrow> i \<in> set (resolved_live s)"
  using assms by (auto simp: store_inv_def incidents_log.retained_def)

lemma NewMonitorStore_inv: "store_inv env (NewMonitorStore policy)"
  by (simp add: store_inv_def inv_defs NewMonitorStore_def)

section \<open>Elementary updates\<close>

lemma finite_dom_upd:
  assumes "\<And>x v. m' x = Some v \<Longrightarrow> (m(k \<mapsto> w)) x = Some v" "finite (dom m)"
  shows "finite (dom m')"
proof (rule finite_subset)
  show "dom m' \<subseteq> dom (m(k \<mapsto> w))" using assms(1) by blast
qed (use assms(2) in simp)

text \<open>A job that stays active is rewritten in place.\<close>

lemma inv_update_job:
  assumes inv: "store_inv env s" and old: "checkJobs s j = Some job" "\<not> terminal_status job"
    and new: "job_ok j job'" "job_MonitorID job' = job_MonitorID job" "\<not> terminal_status job'"
  shows "store_inv env (s\<lparr>checkJobs := (checkJobs s)(j \<mapsto> job')\<rparr>)"
proof -
  let ?s = "s\<lparr>checkJobs := (checkJobs s)(j \<mapsto> job')\<rparr>"
  note d = store_invD [OF inv]
  have "monitors_ok env ?s" "urls_ok ?s" "incidents_ok ?s" "checks_ok ?s"
    "incidents_log.retained ?s" "processed_ok ?s"
    using d by (simp_all add: inv_defs)
  moreover have "jobs_ok ?s" using d(3) old new by (auto simp: jobs_ok_def)
  moreover have "active_ok ?s" using d(4) old new unfolding active_ok_def by auto
  moreover have "jobs_log.retained ?s" using d(7) new by (auto simp: jobs_log.retained_def terminal_live_def terminal_head_ok_def)
  ultimately show ?thesis by (simp add: store_inv_def)
qed

text \<open>A job becomes terminal, leaves the index of active jobs and enters the log.\<close>

lemma inv_finish_job:
  assumes inv: "store_inv env s" and old: "checkJobs s j = Some job" "\<not> terminal_status job"
    and new: "job_ok j job'" "job_MonitorID job' = job_MonitorID job" "terminal_status job'"
  shows "store_inv env (rememberTerminalJobLocked j
    (s\<lparr>checkJobs := (checkJobs s)(j \<mapsto> job'),
       activeJobByMonitor := (activeJobByMonitor s)(job_MonitorID job := None)\<rparr>))"
    (is "store_inv env (rememberTerminalJobLocked j ?t)")
proof -
  let ?s = "rememberTerminalJobLocked j ?t"
  note d = store_invD [OF inv] and r = store_inv_jobs_retained [OF inv]
  have live: "terminal_live ?t = terminal_live s" "terminal_head_ok ?t = terminal_head_ok s"
    by (simp_all add: terminal_live_def terminal_head_ok_def)
  have ok: "terminal_head_ok ?t" "length (terminal_live ?t) \<le> maxRetainedCheckJobs"
    using r live by simp_all
  have sub: "\<And>x v. checkJobs ?s x = Some v \<Longrightarrow> checkJobs ?t x = Some v"
    using jobs_log.remember_Some [OF ok] .
  have keep: "\<And>x v. checkJobs ?t x = Some v \<Longrightarrow> \<not> terminal_status v \<Longrightarrow> checkJobs ?s x = Some v"
    using jobs_log.remember_keeps [OF ok] .
  have "jobs_log.retained ?s"
    using r new by (intro jobs_log.remember_retained ok) (auto simp: live split: if_splits)
  moreover have "jobs_ok ?s"
  proof -
    have sub': "checkJobs ?s x = Some v \<Longrightarrow> ((checkJobs s)(j \<mapsto> job')) x = Some v" for x v
      using sub [of x v] by simp
    have "finite (dom (checkJobs s))" using d(3) by (simp add: jobs_ok_def)
    with sub' have "finite (dom (checkJobs ?s))" by (rule finite_dom_upd)
    moreover have "job_ok x v \<and> byID s (job_MonitorID v) \<noteq> None" if "checkJobs ?s x = Some v" for x v
      using sub' [OF that] store_inv_job [OF inv] old new by (cases "x = j") auto
    ultimately show ?thesis by (simp add: jobs_ok_def)
  qed
  moreover have "active_ok ?s"
  proof -
    have "activeJobByMonitor ?s m = Some x \<longleftrightarrow>
      (\<exists>v. checkJobs ?s x = Some v \<and> job_MonitorID v = m \<and> \<not> terminal_status v)" for m x
    proof -
      have "(\<exists>v. checkJobs ?s x = Some v \<and> job_MonitorID v = m \<and> \<not> terminal_status v) \<longleftrightarrow>
        (\<exists>v. checkJobs ?t x = Some v \<and> job_MonitorID v = m \<and> \<not> terminal_status v)"
        using sub keep by blast
      also have "\<dots> \<longleftrightarrow> x \<noteq> j \<and> activeJobByMonitor s m = Some x"
        using new(3) store_inv_active [OF inv] by auto
      also have "\<dots> \<longleftrightarrow> activeJobByMonitor ?s m = Some x"
        using old store_inv_active [OF inv, of "job_MonitorID job" j]
          store_inv_active [OF inv, of m j] by auto
      finally show ?thesis by blast
    qed
    then show ?thesis by (simp add: active_ok_def)
  qed
  moreover have "monitors_ok env ?s" "urls_ok ?s" "incidents_ok ?s" "checks_ok ?s"
    "incidents_log.retained ?s" "processed_ok ?s"
    using d by (simp_all add: inv_defs)
  ultimately show ?thesis by (simp add: store_inv_def)
qed

text \<open>A monitor without an active job gets one; a finished job of that monitor may be replaced.\<close>

lemma inv_new_job:
  assumes inv: "store_inv env s" and mon: "byID s m \<noteq> None" "activeJobByMonitor s m = None"
    and new: "job_ok j job" "job_MonitorID job = m" "\<not> terminal_status job"
    and old: "\<And>job0. checkJobs s j = Some job0 \<Longrightarrow> job_MonitorID job0 = m"
  shows "store_inv env (s\<lparr>checkJobs := (checkJobs s)(j \<mapsto> job),
    activeJobByMonitor := (activeJobByMonitor s)(m \<mapsto> j)\<rparr>)" (is "store_inv env ?s")
proof -
  note d = store_invD [OF inv]
  have dead: "terminal_status job0" if "checkJobs s j = Some job0" for job0
    using store_inv_active [OF inv, of m j] mon(2) old that by auto
  have "jobs_ok ?s" using d(3) mon new by (auto simp: jobs_ok_def)
  moreover have "active_ok ?s"
  proof -
    have "activeJobByMonitor ?s m' = Some x \<longleftrightarrow>
      (\<exists>v. checkJobs ?s x = Some v \<and> job_MonitorID v = m' \<and> \<not> terminal_status v)" for m' x
      using store_inv_active [OF inv, of m' x] store_inv_active [OF inv, of m x] mon(2) new dead
      by auto
    then show ?thesis by (simp add: active_ok_def)
  qed
  moreover have "jobs_log.retained ?s"
    using d(7) new by (auto simp: jobs_log.retained_def terminal_live_def terminal_head_ok_def)
  moreover have "monitors_ok env ?s" "urls_ok ?s" "incidents_ok ?s" "checks_ok ?s"
    "incidents_log.retained ?s" "processed_ok ?s"
    using d by (simp_all add: inv_defs)
  ultimately show ?thesis by (simp add: store_inv_def)
qed

text \<open>A stored monitor is rewritten without a change of its URL.\<close>

lemma inv_update_monitor:
  assumes inv: "store_inv env s" and old: "byID s i = Some m"
    and new: "monitor_ok env (store_policy s) i m'" "mon_URL m' = mon_URL m"
  shows "store_inv env (s\<lparr>byID := (byID s)(i \<mapsto> m')\<rparr>)" (is "store_inv env ?s")
proof -
  note d = store_invD [OF inv]
  have "monitors_ok env ?s" using d(1) new by (auto simp: monitors_ok_def)
  moreover have "urls_ok ?s" using d(2) old new unfolding urls_ok_def by auto
  moreover have "jobs_ok ?s" using d(3) by (auto simp: jobs_ok_def)
  moreover have "incidents_ok ?s" using d(5) unfolding incidents_ok_def by auto
  moreover have "checks_ok ?s" using d(6) by (auto simp: checks_ok_def)
  moreover have "active_ok ?s" "jobs_log.retained ?s" "incidents_log.retained ?s" "processed_ok ?s"
    using d by (simp_all add: inv_defs)
  ultimately show ?thesis by (simp add: store_inv_def)
qed

text \<open>The open incident of a monitor is rewritten in place.\<close>

lemma inv_update_incident:
  assumes inv: "store_inv env s" and old: "incidents s i = Some inc" "\<not> resolved_status inc"
    and new: "inc_ID inc' = inc_ID inc" "inc_MonitorID inc' = inc_MonitorID inc"
      "inc_Status inc' = inc_Status inc"
  shows "store_inv env (s\<lparr>incidents := (incidents s)(i \<mapsto> inc')\<rparr>)" (is "store_inv env ?s")
proof -
  note d = store_invD [OF inv]
  have nr: "\<not> resolved_status inc'" using old new by (simp add: resolved_status_def)
  have "incidents_ok ?s" using d(5) old new nr unfolding incidents_ok_def by auto
  moreover have "incidents_log.retained ?s"
    using d(8) nr by (auto simp: incidents_log.retained_def resolved_live_def resolved_head_ok_def)
  moreover have "monitors_ok env ?s" "urls_ok ?s" "jobs_ok ?s" "active_ok ?s" "checks_ok ?s"
    "jobs_log.retained ?s" "processed_ok ?s"
    using d by (simp_all add: inv_defs)
  ultimately show ?thesis by (simp add: store_inv_def)
qed

lemma inv_resolve_incident:
  assumes inv: "store_inv env s" and old: "incidents s i = Some inc" "\<not> resolved_status inc"
    and new: "inc_ID inc' = inc_ID inc" "inc_MonitorID inc' = inc_MonitorID inc" "resolved_status inc'"
  shows "store_inv env (rememberResolvedIncidentLocked i
    (s\<lparr>incidents := (incidents s)(i \<mapsto> inc'),
       openIncidentByMonitor := (openIncidentByMonitor s)(inc_MonitorID inc := None)\<rparr>))"
    (is "store_inv env (rememberResolvedIncidentLocked i ?t)")
proof -
  let ?s = "rememberResolvedIncidentLocked i ?t"
  note d = store_invD [OF inv] and r = store_inv_incidents_retained [OF inv]
  have live: "resolved_live ?t = resolved_live s" "resolved_head_ok ?t = resolved_head_ok s"
    by (simp_all add: resolved_live_def resolved_head_ok_def)
  have ok: "resolved_head_ok ?t" "length (resolved_live ?t) \<le> maxRetainedResolvedIncidents"
    using r live by simp_all
  have sub: "\<And>x v. incidents ?s x = Some v \<Longrightarrow> incidents ?t x = Some v"
    using incidents_log.remember_Some [OF ok] .
  have keep: "\<And>x v. incidents ?t x = Some v \<Longrightarrow> \<not> resolved_status v \<Longrightarrow> incidents ?s x = Some v"
    using incidents_log.remember_keeps [OF ok] .
  have "incidents_log.retained ?s"
    using r new by (intro incidents_log.remember_retained ok) (auto simp: live split: if_splits)
  moreover have "incidents_ok ?s"
  proof -
    have sub': "incidents ?s x = Some v \<Longrightarrow> ((incidents s)(i \<mapsto> inc')) x = Some v" for x v
      using sub [of x v] by simp
    have "finite (dom (incidents s))" using d(5) by (simp add: incidents_ok_def)
    with sub' have fin: "finite (dom (incidents ?s))" by (rule finite_dom_upd)
    have each: "inc_ID v = x \<and> byID ?s (inc_MonitorID v) \<noteq> None \<and> inc_Status v \<noteq> incidentStatusUnset"
      if "incidents ?s x = Some v" for x v
    proof -
      have "incidents s i = Some inc \<Longrightarrow> inc_ID inc = i \<and> byID s (inc_MonitorID inc) \<noteq> None"
        using d(5) by (simp add: incidents_ok_def)
      with sub [OF that] d(5) old new show ?thesis
        by (auto simp: incidents_ok_def resolved_status_def split: if_splits)
    qed
    have "openIncidentByMonitor ?s m = Some x \<longleftrightarrow>
      (\<exists>v. incidents ?s x = Some v \<and> inc_MonitorID v = m \<and> \<not> resolved_status v)" for m x
    proof -
      have "(\<exists>v. incidents ?s x = Some v \<and> inc_MonitorID v = m \<and> \<not> resolved_status v) \<longleftrightarrow>
        (\<exists>v. incidents ?t x = Some v \<and> inc_MonitorID v = m \<and> \<not> resolved_status v)"
        using sub keep by blast
      also have "\<dots> \<longleftrightarrow> x \<noteq> i \<and> openIncidentByMonitor s m = Some x"
        using new(3) store_inv_open [OF inv] by auto
      also have "\<dots> \<longleftrightarrow> openIncidentByMonitor ?s m = Some x"
        using old store_inv_open [OF inv, of "inc_MonitorID inc" i]
          store_inv_open [OF inv, of m i] by auto
      finally show ?thesis by blast
    qed
    with fin each show ?thesis by (simp add: incidents_ok_def)
  qed
  moreover have "monitors_ok env ?s" "urls_ok ?s" "jobs_ok ?s" "active_ok ?s" "checks_ok ?s"
    "jobs_log.retained ?s" "processed_ok ?s"
    using d by (simp_all add: inv_defs)
  ultimately show ?thesis by (simp add: store_inv_def)
qed

lemma inv_new_incident:
  assumes inv: "store_inv env s" and mon: "byID s m \<noteq> None" "openIncidentByMonitor s m = None"
    and fresh: "incidents s i = None"
    and new: "inc_ID inc = i" "inc_MonitorID inc = m" "inc_Status inc = incidentStatusOpen"
  shows "store_inv env (s\<lparr>incidents := (incidents s)(i \<mapsto> inc),
    openIncidentByMonitor := (openIncidentByMonitor s)(m \<mapsto> i)\<rparr>)" (is "store_inv env ?s")
proof -
  note d = store_invD [OF inv]
  have nr: "\<not> resolved_status inc" using new by (simp add: resolved_status_def)
  have "openIncidentByMonitor ?s m' = Some x \<longleftrightarrow>
      (\<exists>v. incidents ?s x = Some v \<and> inc_MonitorID v = m' \<and> \<not> resolved_status v)" for m' x
    using store_inv_open [OF inv, of m' x] store_inv_open [OF inv, of m x] mon fresh new nr by auto
  then have "incidents_ok ?s" using d(5) mon new by (auto simp: incidents_ok_def)
  moreover have "incidents_log.retained ?s"
    using d(8) nr by (auto simp: incidents_log.retained_def resolved_live_def resolved_head_ok_def)
  moreover have "monitors_ok env ?s" "urls_ok ?s" "jobs_ok ?s" "active_ok ?s" "checks_ok ?s"
    "jobs_log.retained ?s" "processed_ok ?s"
    using d by (simp_all add: inv_defs)
  ultimately show ?thesis by (simp add: store_inv_def)
qed

end
