(* ===== verification/Store_Preserves.thy ===== *)
theory Store_Preserves
  imports Store_Invariant
begin

text \<open>
  Every operation of the in-memory store preserves the representation invariant, and the
  operation that records a check never runs into its only possible run-time panic.
  The identifiers drawn are assumed fresh where the operation inserts under them.
\<close>

section \<open>Monitors\<close>

lemma job_ok_fields:
  "job_ok j job \<Longrightarrow> job_ID job = j"
  "job_ok j job \<Longrightarrow> j = NewCheckJobID w m t \<Longrightarrow> job_MonitorID job = m"
  "job_ok j job \<Longrightarrow> 0 \<le> job_Attempt job"
  by (auto simp: job_ok_def)

lemma jobs_active_commute:
  "s\<lparr>activeJobByMonitor := a, checkJobs := c\<rparr> = s\<lparr>checkJobs := c, activeJobByMonitor := a\<rparr>"
  for s :: MonitorStore
  by (cases s) simp

lemma finishActiveJobLocked_inv:
  assumes inv: "store_inv env s" and st: "status = checkJobStatusCompleted \<or> status = checkJobStatusDead"
  shows "store_inv env (finishActiveJobLocked m status err now s)"
proof (cases "activeJobByMonitor s m")
  case None
  with inv show ?thesis by (simp add: finishActiveJobLocked_def)
next
  case (Some j)
  then obtain job where job: "checkJobs s j = Some job" "job_MonitorID job = m" "\<not> terminal_status job"
    using store_inv_active [OF inv] by blast
  let ?job = "job\<lparr>job_Status := status, job_LastError := err, job_ProcessingStartedAt := zeroTime,
    job_LeaseExpiresAt := zeroTime, job_LeaseToken := [], job_UpdatedAt := now, job_CompletedAt := now\<rparr>"
  have "job_ok j ?job" using store_inv_job [OF inv job(1)] st by (auto simp: job_ok_def)
  moreover have "terminal_status ?job" using st by (auto simp: terminal_status_def)
  ultimately show ?thesis
    using inv_finish_job [OF inv job(1,3), of ?job] Some job st
    by (simp add: finishActiveJobLocked_def Let_def jobs_active_commute)
qed

lemma finishActiveJobLocked_frame [simp]:
  "store_policy (finishActiveJobLocked m st e now s) = store_policy s"
  "byID (finishActiveJobLocked m st e now s) = byID s"
  "byURL (finishActiveJobLocked m st e now s) = byURL s"
  "checks (finishActiveJobLocked m st e now s) = checks s"
  "incidents (finishActiveJobLocked m st e now s) = incidents s"
  "openIncidentByMonitor (finishActiveJobLocked m st e now s) = openIncidentByMonitor s"
  "processedJobs (finishActiveJobLocked m st e now s) = processedJobs s"
  by (simp_all add: finishActiveJobLocked_def Let_def split: option.splits)

lemma resolveOpenIncidentLocked_inv:
  assumes inv: "store_inv env s"
  shows "store_inv env (resolveOpenIncidentLocked m now s)"
proof (cases "openIncidentByMonitor s m")
  case None
  with inv show ?thesis by (simp add: resolveOpenIncidentLocked_def)
next
  case (Some i)
  then obtain inc where inc: "incidents s i = Some inc" "inc_MonitorID inc = m" "\<not> resolved_status inc"
    using store_inv_open [OF inv] by blast
  with Some inv_resolve_incident [OF inv inc(1,3), of "inc\<lparr>inc_Status := incidentStatusResolved,
      inc_ResolvedAt := now, inc_UpdatedAt := now\<rparr>"]
  show ?thesis by (simp add: resolveOpenIncidentLocked_def resolved_status_def)
qed

lemma resolveOpenIncidentLocked_frame [simp]:
  "store_policy (resolveOpenIncidentLocked m now s) = store_policy s"
  "byID (resolveOpenIncidentLocked m now s) = byID s"
  "byURL (resolveOpenIncidentLocked m now s) = byURL s"
  "checks (resolveOpenIncidentLocked m now s) = checks s"
  "checkJobs (resolveOpenIncidentLocked m now s) = checkJobs s"
  "activeJobByMonitor (resolveOpenIncidentLocked m now s) = activeJobByMonitor s"
  "processedJobs (resolveOpenIncidentLocked m now s) = processedJobs s"
  by (simp_all add: resolveOpenIncidentLocked_def split: option.splits)

lemma inv_new_monitor:
  assumes inv: "store_inv env s" and fresh: "byID s i = None" "byURL s (mon_URL m) = None"
    and ok: "monitor_ok env (store_policy s) i m"
  shows "store_inv env (s\<lparr>byID := (byID s)(i \<mapsto> m), byURL := (byURL s)(mon_URL m \<mapsto> i)\<rparr>)"
    (is "store_inv env ?s")
proof -
  note d = store_invD [OF inv]
  have "monitors_ok env ?s" using d(1) ok by (auto simp: monitors_ok_def)
  moreover have "urls_ok ?s"
  proof -
    have "byURL ?s u = Some x \<longleftrightarrow> (\<exists>v. byID ?s x = Some v \<and> mon_URL v = u)" for u x
      using d(2) fresh unfolding urls_ok_def by (cases "x = i") (auto, metis option.distinct(1))
    then show ?thesis by (simp add: urls_ok_def)
  qed
  moreover have "jobs_ok ?s" using d(3) by (auto simp: jobs_ok_def)
  moreover have "incidents_ok ?s" using d(5) unfolding incidents_ok_def by auto
  moreover have "checks_ok ?s" using d(6) by (auto simp: checks_ok_def)
  moreover have "active_ok ?s" "jobs_log.retained ?s" "incidents_log.retained ?s" "processed_ok ?s"
    using d by (simp_all add: inv_defs)
  ultimately show ?thesis by (simp add: store_inv_def)
qed

lemma newMonitor_ok:
  assumes "validateMonitorInput env input policy = None"
  shows "monitor_ok env policy (newMonitorID draw) (newMonitor draw now input)"
  using assms by (auto simp: monitor_ok_def newMonitor_def input_of_def Let_def validateMonitorInput_None)

lemma newMonitor_fields [simp]:
  "mon_ID (newMonitor draw now input) = newMonitorID draw"
  "mon_URL (newMonitor draw now input) = in_URL input"
  by (simp_all add: newMonitor_def Let_def)

lemma Create_inv:
  assumes inv: "store_inv env s" and fresh: "byID s (newMonitorID draw) = None"
  shows "store_inv env (snd (Create env draw now input s))"
  using inv inv_new_monitor [OF inv fresh _ newMonitor_ok, of now input]
  by (auto simp: Create_def Let_def split: option.split)

text \<open>The URL index of a monitor that is given a new URL, and the monitor itself.\<close>

lemma inv_update_monitor_url:
  assumes inv: "store_inv env s" and old: "byID s i = Some m"
    and new: "monitor_ok env (store_policy s) i m'"
    and url: "\<And>x. byURL s (mon_URL m') = Some x \<Longrightarrow> x = i"
  shows "store_inv env (s\<lparr>byURL := (if mon_URL m' \<noteq> mon_URL m
      then ((byURL s)(mon_URL m := None))(mon_URL m' \<mapsto> i) else byURL s),
    byID := (byID s)(i \<mapsto> m')\<rparr>)" (is "store_inv env ?s")
proof -
  note d = store_invD [OF inv]
  have "monitors_ok env ?s" using d(1) new by (auto simp: monitors_ok_def)
  moreover have "urls_ok ?s"
  proof -
    have "byURL ?s u = Some x \<longleftrightarrow> (\<exists>v. byID ?s x = Some v \<and> mon_URL v = u)" for u x
      using d(2) old url unfolding urls_ok_def
      by (cases "x = i"; cases "mon_URL m' = mon_URL m") (auto, (metis option.inject)+)
    then show ?thesis by (simp add: urls_ok_def)
  qed
  moreover have "jobs_ok ?s" using d(3) by (auto simp: jobs_ok_def)
  moreover have "incidents_ok ?s" using d(5) unfolding incidents_ok_def by auto
  moreover have "checks_ok ?s" using d(6) by (auto simp: checks_ok_def)
  moreover have "active_ok ?s" "jobs_log.retained ?s" "incidents_log.retained ?s" "processed_ok ?s"
    using d by (simp_all add: inv_defs)
  ultimately show ?thesis by (simp add: store_inv_def)
qed

lemma rememberTerminalJobLocked_byID:
  "rememberTerminalJobLocked j (s\<lparr>byID := b\<rparr>) = (rememberTerminalJobLocked j s)\<lparr>byID := b\<rparr>"
  by (simp add: rememberTerminalJobLocked_def Let_def split: prod.splits)

lemma rememberResolvedIncidentLocked_byID:
  "rememberResolvedIncidentLocked i (s\<lparr>byID := b\<rparr>) = (rememberResolvedIncidentLocked i s)\<lparr>byID := b\<rparr>"
  by (simp add: rememberResolvedIncidentLocked_def Let_def split: prod.splits)

lemma byID_commute:
  "s\<lparr>byID := b, checkJobs := c\<rparr> = s\<lparr>checkJobs := c, byID := b\<rparr>"
  "s\<lparr>byID := b, activeJobByMonitor := a\<rparr> = s\<lparr>activeJobByMonitor := a, byID := b\<rparr>"
  "s\<lparr>byID := b, incidents := i\<rparr> = s\<lparr>incidents := i, byID := b\<rparr>"
  "s\<lparr>byID := b, openIncidentByMonitor := oi\<rparr> = s\<lparr>openIncidentByMonitor := oi, byID := b\<rparr>"
  for s :: MonitorStore
  by (cases s; simp)+

lemma finishActiveJobLocked_byID:
  "finishActiveJobLocked m st e now (s\<lparr>byID := b\<rparr>) = (finishActiveJobLocked m st e now s)\<lparr>byID := b\<rparr>"
  by (simp add: finishActiveJobLocked_def Let_def byID_commute rememberTerminalJobLocked_byID
      split: option.splits)

lemma resolveOpenIncidentLocked_byID:
  "resolveOpenIncidentLocked m now (s\<lparr>byID := b\<rparr>) = (resolveOpenIncidentLocked m now s)\<lparr>byID := b\<rparr>"
  by (simp add: resolveOpenIncidentLocked_def byID_commute rememberResolvedIncidentLocked_byID
      split: option.splits)

text \<open>
  The side effects of \<open>Update\<close> on jobs and incidents, and the stored monitor, separated:
  they touch disjoint parts of the store, so they commute with the write of the monitor.
\<close>

definition updateEffects :: "string \<Rightarrow> gotime \<Rightarrow> bool \<Rightarrow> bool \<Rightarrow> MonitorStore \<Rightarrow> MonitorStore" where
  "updateEffects mid now enabled semantics s =
     (let s = (if enabled then s
               else finishActiveJobLocked mid checkJobStatusDead ''monitor disabled'' now s)
      in if semantics
         then (let s = resolveOpenIncidentLocked mid now s
               in if enabled
                  then finishActiveJobLocked mid checkJobStatusDead ''monitor configuration changed'' now s
                  else s)
         else s)"

definition updatedMonitor :: "MonitorPatch \<Rightarrow> gotime \<Rightarrow> Monitor \<Rightarrow> Monitor" where
  "updatedMonitor patch now monitor =
     (let u = (apply_patch patch monitor)\<lparr>mon_UpdatedAt := now\<rparr>;
          u = (if mon_Enabled u
               then u\<lparr>mon_Status := monitorStatusActive, mon_NextCheckAt := reschedule monitor now u\<rparr>
               else u\<lparr>mon_Status := monitorStatusDisabled\<rparr>)
      in if checkSemanticsChanged (apply_patch patch monitor) monitor
         then u\<lparr>mon_LastStatusCode := 0, mon_LastLatencyMS := 0, mon_LastCheckedAt := zeroTime,
                mon_LastError := []\<rparr>
         else u)"

lemma updateEffects_inv: "store_inv env s \<Longrightarrow> store_inv env (updateEffects mid now en sem s)"
  by (simp add: updateEffects_def Let_def finishActiveJobLocked_inv resolveOpenIncidentLocked_inv)

lemma updateEffects_byID:
  "updateEffects mid now en sem (s\<lparr>byID := b\<rparr>) = (updateEffects mid now en sem s)\<lparr>byID := b\<rparr>"
  by (simp add: updateEffects_def Let_def finishActiveJobLocked_byID resolveOpenIncidentLocked_byID)

lemma updateEffects_frame [simp]:
  "byID (updateEffects mid now en sem s) = byID s"
  "byURL (updateEffects mid now en sem s) = byURL s"
  "store_policy (updateEffects mid now en sem s) = store_policy s"
  "checks (updateEffects mid now en sem s) = checks s"
  by (simp_all add: updateEffects_def Let_def)

lemma Update_success:
  assumes "byID s mid = Some monitor"
    and "validateMonitorInput env (input_of (apply_patch patch monitor)) (store_policy s) = None"
    and "\<And>x. byURL s (mon_URL (apply_patch patch monitor)) = Some x \<Longrightarrow> x = mid"
  shows "Update env mid patch now s =
    (Inr (updatedMonitor patch now monitor),
     updateEffects mid now (mon_Enabled (apply_patch patch monitor))
       (checkSemanticsChanged (apply_patch patch monitor) monitor)
       (s\<lparr>byURL := (if mon_URL (apply_patch patch monitor) \<noteq> mon_URL monitor
            then ((byURL s)(mon_URL monitor := None))(mon_URL (apply_patch patch monitor) \<mapsto> mid)
            else byURL s),
          byID := (byID s)(mid \<mapsto> updatedMonitor patch now monitor)\<rparr>))"
proof -
  have free: "\<not> (case byURL s (mon_URL (apply_patch patch monitor)) of None \<Rightarrow> False | Some x \<Rightarrow> x \<noteq> mid)"
    using assms(3) by (auto split: option.splits)
  have self: "s = s\<lparr>byURL := byURL s\<rparr>" by simp
  show ?thesis
    unfolding Update_def updateEffects_byID using assms(1,2) free
    by (cases "mon_Enabled (apply_patch patch monitor)";
        cases "checkSemanticsChanged (apply_patch patch monitor) monitor";
        cases "mon_URL (apply_patch patch monitor) = mon_URL monitor")
      (simp_all add: updatedMonitor_def updateEffects_def Let_def)
qed

lemma Update_cases:
  obtains (rejected) e where "Update env mid patch now s = (Inl e, s)"
  | (accepted) monitor where "byID s mid = Some monitor"
      "validateMonitorInput env (input_of (apply_patch patch monitor)) (store_policy s) = None"
      "\<And>x. byURL s (mon_URL (apply_patch patch monitor)) = Some x \<Longrightarrow> x = mid"
proof (cases "byID s mid")
  case None
  then show thesis by (intro rejected) (simp add: Update_def)
next
  case (Some monitor)
  show thesis
  proof (cases "validateMonitorInput env (input_of (apply_patch patch monitor)) (store_policy s)")
    case v: None
    show thesis
    proof (cases "\<exists>x. byURL s (mon_URL (apply_patch patch monitor)) = Some x \<and> x \<noteq> mid")
      case True
      then show thesis using Some v by (intro rejected) (auto simp: Update_def Let_def)
    next
      case False
      then show thesis using Some v by (intro accepted) auto
    qed
  next
    case (Some e)
    then show thesis using \<open>byID s mid = Some monitor\<close> by (intro rejected) (simp add: Update_def Let_def)
  qed
qed

lemma updatedMonitor_fields [simp]:
  "input_of (updatedMonitor patch now monitor) = input_of (apply_patch patch monitor)"
  "mon_URL (updatedMonitor patch now monitor) = mon_URL (apply_patch patch monitor)"
  "mon_ID (updatedMonitor patch now monitor) = mon_ID monitor"
  "mon_Enabled (updatedMonitor patch now monitor) = mon_Enabled (apply_patch patch monitor)"
  "mon_Status (updatedMonitor patch now monitor) = monitorStatusActive \<longleftrightarrow>
     mon_Enabled (apply_patch patch monitor)"
  by (simp_all add: updatedMonitor_def input_of_def apply_patch_def Let_def)

lemma Update_inv:
  assumes inv: "store_inv env s"
  shows "store_inv env (snd (Update env mid patch now s))"
proof (cases rule: Update_cases [of env mid patch now s])
  case rejected
  with inv show ?thesis by simp
next
  case (accepted monitor)
  have "monitor_ok env (store_policy s) mid (updatedMonitor patch now monitor)"
    using store_inv_monitor [OF inv accepted(1)] accepted(2) by (simp add: monitor_ok_def)
  note upd = inv_update_monitor_url [OF inv accepted(1) this, unfolded updatedMonitor_fields(2)]
  have eff: "snd (Update env mid patch now s) = updateEffects mid now (mon_Enabled (apply_patch patch monitor))
       (checkSemanticsChanged (apply_patch patch monitor) monitor)
       (s\<lparr>byURL := (if mon_URL (apply_patch patch monitor) \<noteq> mon_URL monitor
            then ((byURL s)(mon_URL monitor := None))(mon_URL (apply_patch patch monitor) \<mapsto> mid)
            else byURL s),
          byID := (byID s)(mid \<mapsto> updatedMonitor patch now monitor)\<rparr>)"
    by (simp only: Update_success [OF accepted(1,2)] accepted(3) snd_conv)
  show ?thesis unfolding eff by (rule updateEffects_inv, rule upd, rule accepted(3))
qed

section \<open>Deletion\<close>

lemma delete_where_Some: "delete_where P m k = Some v \<longleftrightarrow> m k = Some v \<and> \<not> P v"
  by (auto simp: delete_where_def split: option.splits)

lemma dom_delete_where: "finite (dom m) \<Longrightarrow> finite (dom (delete_where P m))"
  by (rule finite_subset [of _ "dom m"]) (auto simp: delete_where_Some)

text \<open>What a successful deletion leaves: everything of the other monitors, nothing of this one.\<close>

lemma Delete_state:
  assumes inv: "store_inv env s" and mon: "byID s mid = Some m"
  shows "Delete mid s = (None, s\<lparr>byID := (byID s)(mid := None), byURL := (byURL s)(mon_URL m := None),
     checks := (checks s)(mid := None),
     checkJobs := delete_where (\<lambda>job. job_MonitorID job = mid) (checkJobs s),
     activeJobByMonitor := (activeJobByMonitor s)(mid := None),
     openIncidentByMonitor := (openIncidentByMonitor s)(mid := None),
     incidents := delete_where (\<lambda>i. inc_MonitorID i = mid) (incidents s)\<rparr>)"
proof (cases "activeJobByMonitor s mid")
  case None
  then have "(activeJobByMonitor s)(mid := None) = activeJobByMonitor s" by (simp add: fun_upd_idem_iff)
  with None mon show ?thesis by (cases s) (simp add: Delete_def Let_def)
next
  case (Some j)
  then obtain job where "checkJobs s j = Some job" "job_MonitorID job = mid"
    using store_inv_active [OF inv] by blast
  then have "delete_where (\<lambda>job. job_MonitorID job = mid) ((checkJobs s)(j := None)) =
      delete_where (\<lambda>job. job_MonitorID job = mid) (checkJobs s)"
    by (auto simp: delete_where_def fun_eq_iff)
  with Some mon show ?thesis by (cases s) (simp add: Delete_def Let_def)
qed

lemma Delete_inv:
  assumes inv: "store_inv env s"
  shows "store_inv env (snd (Delete mid s))"
proof (cases "byID s mid")
  case None
  with inv show ?thesis by (simp add: Delete_def)
next
  case (Some m)
  note d = store_invD [OF inv]
  let ?s = "snd (Delete mid s)"
  have s: "byID ?s = (byID s)(mid := None)" "byURL ?s = (byURL s)(mon_URL m := None)"
    "checks ?s = (checks s)(mid := None)" "store_policy ?s = store_policy s"
    "checkJobs ?s = delete_where (\<lambda>job. job_MonitorID job = mid) (checkJobs s)"
    "activeJobByMonitor ?s = (activeJobByMonitor s)(mid := None)"
    "openIncidentByMonitor ?s = (openIncidentByMonitor s)(mid := None)"
    "incidents ?s = delete_where (\<lambda>i. inc_MonitorID i = mid) (incidents s)"
    "terminal_live ?s = terminal_live s" "terminal_head_ok ?s = terminal_head_ok s"
    "resolved_live ?s = resolved_live s" "resolved_head_ok ?s = resolved_head_ok s"
    "processed_ok ?s = processed_ok s"
    unfolding Delete_state [OF inv Some]
    by (simp_all add: terminal_live_def terminal_head_ok_def resolved_live_def resolved_head_ok_def
        processed_ok_def processed_live_def)
  have "monitors_ok env ?s" using d(1) by (auto simp: monitors_ok_def s)
  moreover have "urls_ok ?s"
  proof -
    have "byURL ?s u = Some x \<longleftrightarrow> (\<exists>v. byID ?s x = Some v \<and> mon_URL v = u)" for u x
      using d(2) Some unfolding urls_ok_def s by (auto, metis option.inject)
    then show ?thesis by (simp add: urls_ok_def)
  qed
  moreover have "jobs_ok ?s"
    using d(3) by (auto simp: jobs_ok_def s delete_where_Some dom_delete_where)
  moreover have "active_ok ?s"
    using d(4) unfolding active_ok_def s delete_where_Some by auto
  moreover have "incidents_ok ?s"
    using d(5) unfolding incidents_ok_def s delete_where_Some by (auto simp: dom_delete_where)
  moreover have "checks_ok ?s" using d(6) by (auto simp: checks_ok_def s)
  moreover have "jobs_log.retained ?s" "incidents_log.retained ?s" "processed_ok ?s"
    using d(7,8,9) by (auto simp: jobs_log.retained_def incidents_log.retained_def s delete_where_Some)
  ultimately show ?thesis by (simp add: store_inv_def)
qed

end
