(* ===== verification/Store_Jobs.thy ===== *)
theory Store_Jobs
  imports Store_Preserves
begin

text \<open>
  The job operations of the in-memory store preserve the representation invariant:
  claiming, publishing, leasing, failing, finishing and recording a check.
\<close>

section \<open>Claiming\<close>

lemma finishExhaustedJobLocked_inv:
  assumes inv: "store_inv env s" and job: "checkJobs s j = Some job" "\<not> terminal_status job"
  shows "store_inv env (finishExhaustedJobLocked j job err now s)"
proof -
  let ?job = "job\<lparr>job_Status := checkJobStatusDead, job_CompletedAt := now,
    job_ProcessingStartedAt := zeroTime, job_LeaseExpiresAt := zeroTime, job_LeaseToken := [],
    job_LastError := err @ ''; maximum attempts reached'', job_UpdatedAt := now\<rparr>"
  let ?s = "rememberTerminalJobLocked j (s\<lparr>checkJobs := (checkJobs s)(j \<mapsto> ?job),
    activeJobByMonitor := (activeJobByMonitor s)(job_MonitorID job := None)\<rparr>)"
  have act: "activeJobByMonitor s (job_MonitorID job) = Some j"
    using store_inv_active [OF inv] job by blast
  have inv1: "store_inv env ?s"
    using store_inv_job [OF inv job(1)]
    by (intro inv_finish_job [OF inv job]) (auto simp: job_ok_def terminal_status_def)
  obtain m where m: "byID s (job_MonitorID job) = Some m"
    using store_inv_job [OF inv job(1)] by blast
  let ?m = "m\<lparr>mon_NextCheckAt := now + seconds (mon_IntervalSeconds m), mon_UpdatedAt := now\<rparr>"
  have "monitor_ok env (store_policy ?s) (job_MonitorID job) ?m"
    using store_inv_monitor [OF inv m] by (simp add: monitor_ok_def input_of_def)
  then have "store_inv env (?s\<lparr>byID := (byID ?s)(job_MonitorID job \<mapsto> ?m)\<rparr>)"
    using m by (intro inv_update_monitor [OF inv1]) simp_all
  then show ?thesis using inv1 m act by (simp add: finishExhaustedJobLocked_def Let_def)
qed

lemma recoverJob_inv:
  assumes inv: "store_inv env s" and job: "checkJobs s j = Some job"
  shows "store_inv env (recoverJob now mx j job s)"
proof (cases "processingExpired now job \<or> failedExhausted now mx job")
  case False
  with inv show ?thesis by (simp add: recoverJob_def)
next
  case True
  then have nt: "\<not> terminal_status job"
    by (auto simp: processingExpired_def failedExhausted_def terminal_status_def)
  have "store_inv env (s\<lparr>checkJobs := (checkJobs s)(j \<mapsto>
      job\<lparr>job_Status := checkJobStatusFailed, job_AvailableAt := now,
          job_ProcessingStartedAt := zeroTime, job_LeaseExpiresAt := zeroTime,
          job_LeaseToken := [], job_LastError := ''processing lease expired'',
          job_UpdatedAt := now\<rparr>)\<rparr>)"
    using store_inv_job [OF inv job]
    by (intro inv_update_job [OF inv job nt]) (auto simp: job_ok_def terminal_status_def)
  with finishExhaustedJobLocked_inv [OF inv job nt] True inv show ?thesis
    by (simp add: recoverJob_def)
qed

lemma recoverLoop_inv: "store_inv env s \<Longrightarrow> store_inv env (recoverLoop now mx ks s)"
proof (induction ks arbitrary: s)
  case (Cons k ks)
  then show ?case by (simp add: recoverJob_inv split: option.split)
qed simp

lemma claimJob_fields [simp]:
  "job_ID (claimJob now lt d job) = job_ID job"
  "job_MonitorID (claimJob now lt d job) = job_MonitorID job"
  "job_Attempt (claimJob now lt d job) = job_Attempt job"
  "job_Kind (claimJob now lt d job) = job_Kind job"
  "job_Status (claimJob now lt d job) = checkJobStatusScheduled"
  "job_LeaseExpiresAt (claimJob now lt d job) = now + lt"
  "job_PublicationToken (claimJob now lt d job) = newID ''publish'' d"
  "job_LeaseToken (claimJob now lt d job) = job_LeaseToken job"
  by (simp_all add: claimJob_def)

lemma inv_claim_job:
  assumes inv: "store_inv env s" and job: "checkJobs s (job_ID job) = Some job" "claimable now mx job"
  shows "store_inv env (s\<lparr>checkJobs := (checkJobs s)(job_ID job \<mapsto> claimJob now lt d job)\<rparr>)"
  using store_inv_job [OF inv job(1)] job(2)
  by (intro inv_update_job [OF inv job(1)]) (auto simp: claimable_def job_ok_def terminal_status_def)

lemma claimLoop_inv:
  assumes "store_inv env s"
    and "\<And>job. job \<in> set jobs \<Longrightarrow> checkJobs s (job_ID job) = Some job \<and> claimable now mx job"
    and "distinct (map job_ID jobs)"
  shows "store_inv env (snd (claimLoop limit now lt draws jobs claimed s))"
  using assms
proof (induction jobs arbitrary: claimed s)
  case (Cons job jobs)
  let ?job = "claimJob now lt (draws (length claimed)) job"
  let ?s = "s\<lparr>checkJobs := (checkJobs s)(job_ID job \<mapsto> ?job)\<rparr>"
  have "store_inv env ?s" using Cons.prems by (intro inv_claim_job) auto
  moreover have "checkJobs ?s (job_ID job') = Some job' \<and> claimable now mx job'"
    if "job' \<in> set jobs" for job'
  proof -
    have "job_ID job' \<noteq> job_ID job" using Cons.prems(3) that by (auto simp: image_iff)
    with Cons.prems(2) [of job'] that show ?thesis by simp
  qed
  ultimately have "store_inv env (snd (claimLoop limit now lt draws jobs (claimed @ [?job]) ?s))"
    using Cons.prems(3) by (intro Cons.IH) auto
  then show ?case using Cons.prems(1) by (simp add: Let_def)
qed simp

lemma claimLoop_frame [simp]:
  "byID (snd (claimLoop limit now lt draws jobs claimed s)) = byID s"
  "activeJobByMonitor (snd (claimLoop limit now lt draws jobs claimed s)) = activeJobByMonitor s"
  by (induction jobs arbitrary: claimed s) (simp_all add: Let_def)

lemma newScheduledJob_fields [simp]:
  "job_ID (newScheduledJob w now lt d m) = NewCheckJobID w (mon_ID m) (mon_NextCheckAt m)"
  "job_MonitorID (newScheduledJob w now lt d m) = mon_ID m"
  "job_Status (newScheduledJob w now lt d m) = checkJobStatusScheduled"
  "job_Attempt (newScheduledJob w now lt d m) = 0"
  "job_LeaseToken (newScheduledJob w now lt d m) = []"
  "job_Kind (newScheduledJob w now lt d m) = checkJobKindScheduled"
  "job_LeaseExpiresAt (newScheduledJob w now lt d m) = now + lt"
  "job_PublicationToken (newScheduledJob w now lt d m) = newID ''publish'' d"
  by (simp_all add: newScheduledJob_def)

lemma newScheduledJob_ok:
  "job_ok (NewCheckJobID w (mon_ID m) (mon_NextCheckAt m)) (newScheduledJob w now lt d m)"
  by (auto simp: job_ok_def dest: NewCheckJobID_inj(1))

lemma inv_schedule_job:
  assumes inv: "store_inv env s" and m: "byID s (mon_ID m) = Some m"
    and free: "activeJobByMonitor s (mon_ID m) = None"
  shows "store_inv env (s\<lparr>checkJobs := (checkJobs s)(NewCheckJobID w (mon_ID m) (mon_NextCheckAt m) \<mapsto>
       newScheduledJob w now lt d m),
     activeJobByMonitor := (activeJobByMonitor s)(mon_ID m \<mapsto> NewCheckJobID w (mon_ID m) (mon_NextCheckAt m))\<rparr>)"
proof (rule inv_new_job [OF inv _ free newScheduledJob_ok])
  show "job_MonitorID job0 = mon_ID m"
    if "checkJobs s (NewCheckJobID w (mon_ID m) (mon_NextCheckAt m)) = Some job0" for job0
    using store_inv_job [OF inv that] by (auto simp: job_ok_def)
qed (use m in \<open>simp_all add: terminal_status_def\<close>)

lemma scheduleLoop_inv:
  assumes "store_inv env s" and "\<And>m. m \<in> set ms \<Longrightarrow> byID s (mon_ID m) = Some m"
  shows "store_inv env (snd (scheduleLoop limit w now lt draws ms claimed s))"
  using assms
proof (induction ms arbitrary: claimed s)
  case (Cons m ms)
  let ?job = "newScheduledJob w now lt (draws (length claimed)) m"
  let ?s = "s\<lparr>checkJobs := (checkJobs s)(job_ID ?job \<mapsto> ?job),
    activeJobByMonitor := (activeJobByMonitor s)(mon_ID m \<mapsto> job_ID ?job)\<rparr>"
  have skip: "store_inv env (snd (scheduleLoop limit w now lt draws ms claimed s))"
    using Cons by simp
  have "store_inv env (snd (scheduleLoop limit w now lt draws ms (claimed @ [?job]) ?s))"
    if "activeJobByMonitor s (mon_ID m) = None"
    using inv_schedule_job [OF Cons.prems(1) _ that] Cons.prems(2) by (intro Cons.IH) simp_all
  with skip Cons.prems(1) show ?case by (simp add: Let_def)
qed simp

lemma map_values_jobs:
  assumes inv: "store_inv env s" and "distinct ks"
  shows "\<And>job. job \<in> set (map_values (checkJobs s) ks) \<Longrightarrow> checkJobs s (job_ID job) = Some job"
    "distinct (map job_ID (map_values (checkJobs s) ks))"
proof -
  have id: "checkJobs s j = Some job \<Longrightarrow> job_ID job = j" for j job
    using store_inv_job [OF inv] by (auto simp: job_ok_def)
  then show "checkJobs s (job_ID job) = Some job" if "job \<in> set (map_values (checkJobs s) ks)" for job
    using that by (auto simp: set_map_values)
  have "map job_ID (map_values (checkJobs s) ks) = filter (\<lambda>k. checkJobs s k \<noteq> None) ks"
    using id by (induction ks) (auto split: option.splits)
  with assms(2) show "distinct (map job_ID (map_values (checkJobs s) ks))" by simp
qed

lemma map_values_monitors:
  assumes "store_inv env s" "m \<in> set (map_values (byID s) ks)"
  shows "byID s (mon_ID m) = Some m"
  using assms store_inv_monitor [OF assms(1)] by (auto simp: set_map_values monitor_ok_def)

lemma distinct_map_filter_sort:
  "distinct (map f xs) \<Longrightarrow> distinct (map f (sort_key g (filter P xs)))"
  by (simp add: distinct_map inj_on_def)

lemma ClaimDueJobsWithMaxAttempts_inv:
  assumes inv: "store_inv env s" and ks: "distinct (ce_jobs ce)"
  shows "store_inv env (snd (ClaimDueJobsWithMaxAttempts ce limit now leaseTimeout maxAttempts s))"
proof -
  define lt where "lt = (if leaseTimeout \<le> 0 then Minute else leaseTimeout)"
  define mx where "mx = (if maxAttempts \<le> 0 then defaultMaxJobAttempts else maxAttempts)"
  define s1 where "s1 = recoverLoop now mx (ce_recover ce) s"
  define cs where "cs = sort_key candidate_key (filter (claimable now mx) (map_values (checkJobs s1) (ce_jobs ce)))"
  obtain claimed s2 where c: "claimLoop limit now lt (ce_draws ce) cs [] s1 = (claimed, s2)"
    by (rule prod.exhaust)
  have inv1: "store_inv env s1" unfolding s1_def using inv by (rule recoverLoop_inv)
  have "store_inv env (snd (claimLoop limit now lt (ce_draws ce) cs [] s1))"
    using map_values_jobs [OF inv1 ks]
    by (intro claimLoop_inv [OF inv1, of _ now mx]) (auto simp: cs_def intro!: distinct_map_filter_sort)
  then have inv2: "store_inv env s2" by (simp add: c)
  have "store_inv env (snd (scheduleLoop limit w now lt draws
      (sort_key monitor_due_key (map_values (byID s2) ms)) claimed s2))" for w draws ms
    using map_values_monitors [OF inv2] by (intro scheduleLoop_inv inv2) simp
  with inv inv2 c show ?thesis
    by (simp add: ClaimDueJobsWithMaxAttempts_def lt_def [symmetric] mx_def [symmetric]
        s1_def [symmetric] cs_def [symmetric] Let_def)
qed

section \<open>Publication and processing\<close>

lemma publicationJobLocked_Inr:
  "publicationJobLocked claim s = Inr job \<longleftrightarrow>
   byID s (claim_MonitorID claim) \<noteq> None \<and> checkJobs s (claim_JobID claim) = Some job
   \<and> job_MonitorID job = claim_MonitorID claim \<and> claim_Token claim \<noteq> []
   \<and> job_PublicationToken job = claim_Token claim"
  by (auto simp: publicationJobLocked_def split: option.splits)

lemma activeJobLocked_Inr:
  "activeJobLocked m j s = Inr job \<longleftrightarrow>
   byID s m \<noteq> None \<and> activeJobByMonitor s m = Some j \<and> checkJobs s j = Some job
   \<and> job_MonitorID job = m"
  by (auto simp: activeJobLocked_def split: option.splits)

lemma activeJobLocked_active:
  assumes "store_inv env s" "activeJobLocked m j s = Inr job"
  shows "checkJobs s j = Some job" "\<not> terminal_status job" "job_MonitorID job = m"
  using assms store_inv_active [OF assms(1), of m j] by (auto simp: activeJobLocked_Inr)

lemma CreateManualJob_inv:
  assumes inv: "store_inv env s" and fresh: "checkJobs s (newID ''job'' draw) = None"
  shows "store_inv env (snd (CreateManualJob mid draw now s))"
proof (cases "activeJobByMonitor s mid")
  case (Some j)
  then obtain job where "checkJobs s j = Some job" using store_inv_active [OF inv] by blast
  with Some inv show ?thesis by (simp add: CreateManualJob_def split: option.split)
next
  case None
  with inv show ?thesis
    by (auto simp: CreateManualJob_def Let_def job_ok_def terminal_status_def fresh newID_not_scheduled
        split: option.split intro!: inv_new_job [OF inv])
qed

lemma MarkJobPublished_inv:
  assumes inv: "store_inv env s"
  shows "store_inv env (snd (MarkJobPublished claim now s))"
proof (cases "publicationJobLocked claim s")
  case (Inr job)
  then have j: "checkJobs s (claim_JobID claim) = Some job" by (simp add: publicationJobLocked_Inr)
  show ?thesis
  proof (cases "job_Status job = checkJobStatusScheduled")
    case True
    then have "store_inv env (s\<lparr>checkJobs := (checkJobs s)(claim_JobID claim \<mapsto>
        job\<lparr>job_Status := checkJobStatusQueued, job_PublishedAt := now,
            job_LeaseExpiresAt := zeroTime, job_UpdatedAt := now\<rparr>)\<rparr>)"
      using store_inv_job [OF inv j]
      by (intro inv_update_job [OF inv j]) (auto simp: job_ok_def terminal_status_def)
    with inv Inr show ?thesis by (simp add: MarkJobPublished_def)
  qed (use inv Inr in \<open>simp add: MarkJobPublished_def\<close>)
qed (use inv in \<open>simp add: MarkJobPublished_def\<close>)

lemma ReleaseJobPublish_inv:
  assumes inv: "store_inv env s"
  shows "store_inv env (snd (ReleaseJobPublish claim err now s))"
proof (cases "publicationJobLocked claim s")
  case (Inr job)
  then have j: "checkJobs s (claim_JobID claim) = Some job" by (simp add: publicationJobLocked_Inr)
  show ?thesis
  proof (cases "job_Status job = checkJobStatusScheduled")
    case True
    then have "store_inv env (s\<lparr>checkJobs := (checkJobs s)(claim_JobID claim \<mapsto>
        job\<lparr>job_LeaseExpiresAt := zeroTime, job_PublicationToken := [],
            job_LastError := err, job_UpdatedAt := now\<rparr>)\<rparr>)"
      using store_inv_job [OF inv j]
      by (intro inv_update_job [OF inv j]) (auto simp: job_ok_def terminal_status_def)
    with inv Inr show ?thesis by (simp add: ReleaseJobPublish_def)
  qed (use inv Inr in \<open>simp add: ReleaseJobPublish_def\<close>)
qed (use inv in \<open>simp add: ReleaseJobPublish_def\<close>)

lemma topologyLoop_inv: "store_inv env s \<Longrightarrow> store_inv env (snd (topologyLoop now ks n s))"
proof (induction ks arbitrary: n s)
  case (Cons j ks)
  have "store_inv env (s\<lparr>checkJobs := (checkJobs s)(j \<mapsto> recoverTopologyJob now job)\<rparr>)"
    if "checkJobs s j = Some job" "topologyLost job" for job
    using store_inv_job [OF Cons.prems that(1)] that(2)
    by (intro inv_update_job [OF Cons.prems that(1)])
      (auto simp: job_ok_def terminal_status_def recoverTopologyJob_def topologyLost_def)
  with Cons show ?case by (simp split: option.split)
qed simp

lemma RecoverQueuedJobsAfterTopologyLoss_inv:
  "store_inv env s \<Longrightarrow> store_inv env (snd (RecoverQueuedJobsAfterTopologyLoss ks now s))"
  unfolding RecoverQueuedJobsAfterTopologyLoss_def by (rule topologyLoop_inv)

lemma startProcessing_fields [simp]:
  "job_ID (startProcessing a d now lt job) = job_ID job"
  "job_MonitorID (startProcessing a d now lt job) = job_MonitorID job"
  "job_Kind (startProcessing a d now lt job) = job_Kind job"
  "job_Status (startProcessing a d now lt job) = checkJobStatusProcessing"
  "job_Attempt (startProcessing a d now lt job) = max (job_Attempt job) (max a 1)"
  "job_LeaseToken (startProcessing a d now lt job) = newID ''lease'' d"
  "job_LeaseExpiresAt (startProcessing a d now lt job) = now + (if lt \<le> 0 then Minute else lt)"
  "job_PublicationToken (startProcessing a d now lt job) = job_PublicationToken job"
  by (simp_all add: startProcessing_def Let_def)

text \<open>When the start of an attempt is accepted, and what it returns and writes.\<close>

lemma MarkJobProcessing_Inr:
  assumes "MarkJobProcessing mid j attempt draw now lt s = (Inr lease, s')"
  obtains job where "activeJobLocked mid j s = Inr job"
    "job_Status job = checkJobStatusScheduled \<or> job_Status job = checkJobStatusQueued"
    "job_Attempt job < attempt"
    "lease = \<lparr>lease_JobID = j, lease_MonitorID = mid, lease_Attempt = max (job_Attempt job) (max attempt 1),
       lease_Token = newID ''lease'' draw\<rparr>"
    "s' = s\<lparr>checkJobs := (checkJobs s)(j \<mapsto> startProcessing attempt draw now lt job)\<rparr>"
proof (cases "activeJobLocked mid j s")
  case (Inr job)
  with assms show thesis
    by (intro that [of job])
      (auto simp: MarkJobProcessing_def Let_def split: option.splits CheckJobStatus.splits if_splits)
qed (use assms in \<open>simp add: MarkJobProcessing_def\<close>)

lemma MarkJobProcessing_Inl:
  assumes "MarkJobProcessing mid j attempt draw now lt s = (Inl e, s')"
  shows "s' = s"
  using assms by (auto simp: MarkJobProcessing_def Let_def split: option.splits sum.splits)

lemma MarkJobProcessing_inv:
  assumes inv: "store_inv env s"
  shows "store_inv env (snd (MarkJobProcessing mid j attempt draw now lt s))"
proof (cases "MarkJobProcessing mid j attempt draw now lt s")
  case (Pair r s')
  show ?thesis
  proof (cases r)
    case (Inl e)
    with Pair inv show ?thesis using MarkJobProcessing_Inl [of mid j attempt draw now lt s e s'] by simp
  next
    case (Inr lease)
    with Pair obtain job where job: "activeJobLocked mid j s = Inr job"
      and s': "s' = s\<lparr>checkJobs := (checkJobs s)(j \<mapsto> startProcessing attempt draw now lt job)\<rparr>"
      using MarkJobProcessing_Inr by metis
    note a = activeJobLocked_active [OF inv job]
    have "store_inv env s'" unfolding s'
      using store_inv_job [OF inv a(1)]
      by (intro inv_update_job [OF inv a(1,2)]) (auto simp: job_ok_def terminal_status_def)
    with Pair show ?thesis by simp
  qed
qed

lemma MarkJobFailed_inv:
  assumes inv: "store_inv env s"
  shows "store_inv env (snd (MarkJobFailed lease err now retryAt wall s))"
proof (cases "activeJobLocked (lease_MonitorID lease) (lease_JobID lease) s")
  case (Inr job)
  note a = activeJobLocked_active [OF inv Inr]
  have "store_inv env (s\<lparr>checkJobs := (checkJobs s)(lease_JobID lease \<mapsto>
      job\<lparr>job_Status := checkJobStatusFailed, job_AvailableAt := retryAt,
          job_ProcessingStartedAt := zeroTime, job_LeaseExpiresAt := zeroTime,
          job_LeaseToken := [], job_LastError := err, job_UpdatedAt := now\<rparr>)\<rparr>)"
    using store_inv_job [OF inv a(1)]
    by (intro inv_update_job [OF inv a(1,2)]) (auto simp: job_ok_def terminal_status_def)
  with inv Inr show ?thesis by (simp add: MarkJobFailed_def)
qed (use inv in \<open>simp add: MarkJobFailed_def\<close>)

text \<open>What both leased ways out of \<open>processing\<close> share: the job is the monitor's active job.\<close>

lemma owned_job_active:
  assumes inv: "store_inv env s" and job: "checkJobs s j = Some job" and own: "jobOwnsLease job lease now"
  shows "\<not> terminal_status job" "lease_JobID lease = j" "lease_MonitorID lease = job_MonitorID job"
    "activeJobByMonitor s (job_MonitorID job) = Some j"
    "activeJobLocked (job_MonitorID job) j s = Inr job"
proof -
  show nt: "\<not> terminal_status job" using own by (simp add: jobOwnsLease_def terminal_status_def)
  show "lease_JobID lease = j" "lease_MonitorID lease = job_MonitorID job"
    using own store_inv_job [OF inv job] by (auto simp: jobOwnsLease_def job_ok_def)
  show act: "activeJobByMonitor s (job_MonitorID job) = Some j"
    using nt job store_inv_active [OF inv] by blast
  show "activeJobLocked (job_MonitorID job) j s = Inr job"
    using act job store_inv_job [OF inv job] by (simp add: activeJobLocked_Inr)
qed

lemma MarkJobDead_inv:
  assumes inv: "store_inv env s"
  shows "store_inv env (snd (MarkJobDead lease err now nextCheckAt wall s))"
proof (cases "activeJobLocked (lease_MonitorID lease) (lease_JobID lease) s")
  case (Inl e)
  with inv show ?thesis by (simp add: MarkJobDead_def split: option.split)
next
  case (Inr job)
  note a = activeJobLocked_active [OF inv Inr]
  let ?job = "job\<lparr>job_Status := checkJobStatusDead, job_CompletedAt := now,
    job_ProcessingStartedAt := zeroTime, job_LeaseExpiresAt := zeroTime, job_LeaseToken := [],
    job_LastError := err, job_UpdatedAt := now\<rparr>"
  let ?s = "rememberTerminalJobLocked (lease_JobID lease)
    (s\<lparr>checkJobs := (checkJobs s)(lease_JobID lease \<mapsto> ?job),
       activeJobByMonitor := (activeJobByMonitor s)(job_MonitorID job := None)\<rparr>)"
  have inv1: "store_inv env ?s"
    using store_inv_job [OF inv a(1)]
    by (intro inv_finish_job [OF inv a(1,2)]) (auto simp: job_ok_def terminal_status_def)
  obtain m where m: "byID s (lease_MonitorID lease) = Some m"
    using Inr by (auto simp: activeJobLocked_Inr)
  let ?m = "m\<lparr>mon_NextCheckAt := nextCheckAt, mon_UpdatedAt := now\<rparr>"
  have "monitor_ok env (store_policy ?s) (lease_MonitorID lease) ?m"
    using store_inv_monitor [OF inv m] by (simp add: monitor_ok_def input_of_def)
  then have "store_inv env (?s\<lparr>byID := (byID ?s)(lease_MonitorID lease \<mapsto> ?m)\<rparr>)"
    using m by (intro inv_update_monitor [OF inv1]) simp_all
  with inv inv1 m Inr a(3) show ?thesis by (simp add: MarkJobDead_def Let_def)
qed

section \<open>Recording a check\<close>

lemma updateIncident_inv:
  assumes inv: "store_inv env s" and mon: "byID s (chk_MonitorID r) \<noteq> None"
    and fresh: "incidents s (newID ''inc'' draw) = None"
  shows "store_inv env (updateIncident draw r now s)"
proof (cases "openIncidentByMonitor s (chk_MonitorID r)")
  case None
  show ?thesis
  proof (cases "chk_Success r")
    case True
    with inv None show ?thesis by (simp add: updateIncident_def)
  next
    case False
    with None show ?thesis
      by (simp add: updateIncident_def Let_def) (intro conjI impI inv_new_incident [OF inv mon None fresh]; simp)
  qed
next
  case (Some i)
  then obtain inc where inc: "incidents s i = Some inc" "inc_MonitorID inc = chk_MonitorID r"
    "\<not> resolved_status inc" using store_inv_open [OF inv] by blast
  then have look: "lookupIncident i s = inc" by (simp add: lookupIncident_def)
  have res: "store_inv env (rememberResolvedIncidentLocked i
    (s\<lparr>incidents := (incidents s)(i \<mapsto> inc\<lparr>inc_Status := incidentStatusResolved,
         inc_ResolvedAt := chk_CheckedAt r, inc_UpdatedAt := now\<rparr>),
       openIncidentByMonitor := (openIncidentByMonitor s)(inc_MonitorID inc := None)\<rparr>))"
    by (intro inv_resolve_incident [OF inv inc(1,3)]) (simp_all add: resolved_status_def)
  have upd: "store_inv env (s\<lparr>incidents := (incidents s)(i \<mapsto> inc\<lparr>inc_FailureCount := n,
      inc_LastFailureAt := t, inc_LastError := e, inc_UpdatedAt := now\<rparr>)\<rparr>)" for n t e
    by (intro inv_update_incident [OF inv inc(1,3)]) simp_all
  show ?thesis
  proof (cases "chk_Success r")
    case True
    with Some look res inc(2) show ?thesis by (simp add: updateIncident_def Let_def)
  next
    case False
    with Some look upd show ?thesis by (simp add: updateIncident_def Let_def)
  qed
qed

lemma inv_processed:
  assumes "store_inv env s" "processed_ok (s\<lparr>processedJobs := ps, processedJobOrder := os, processedJobHead := h\<rparr>)"
  shows "store_inv env (s\<lparr>processedJobs := ps, processedJobOrder := os, processedJobHead := h\<rparr>)"
  using assms by (simp add: store_inv_def inv_defs)

lemma inv_checks:
  assumes inv: "store_inv env s" and mon: "byID s m \<noteq> None"
    and rs: "length rs \<le> maxChecksPerMonitor" "\<And>r. r \<in> set rs \<Longrightarrow> chk_MonitorID r = m \<and> chk_JobID r \<noteq> []"
  shows "store_inv env (s\<lparr>checks := (checks s)(m \<mapsto> rs)\<rparr>)" (is "store_inv env ?s")
proof -
  note d = store_invD [OF inv]
  have "checks_ok ?s" using d(6) mon rs by (auto simp: checks_ok_def)
  moreover have "monitors_ok env ?s" "urls_ok ?s" "jobs_ok ?s" "active_ok ?s" "incidents_ok ?s"
    "jobs_log.retained ?s" "incidents_log.retained ?s" "processed_ok ?s"
    using d by (simp_all add: inv_defs)
  ultimately show ?thesis by (simp add: store_inv_def)
qed

text \<open>The history a check is appended to: the last \<open>maxChecksPerMonitor\<close> records.\<close>

definition appendCheck :: "CheckRecord \<Rightarrow> CheckRecord list \<Rightarrow> CheckRecord list" where
  "appendCheck record rs =
     (if length (rs @ [record]) > maxChecksPerMonitor
      then drop (length (rs @ [record]) - maxChecksPerMonitor) (rs @ [record]) else rs @ [record])"

definition checkHistory :: "string \<Rightarrow> MonitorStore \<Rightarrow> CheckRecord list" where
  "checkHistory mid s = (case checks s mid of None \<Rightarrow> [] | Some rs \<Rightarrow> rs)"

definition checkedMonitor :: "gotime \<Rightarrow> CheckRecord \<Rightarrow> CheckJobRecord \<Rightarrow> Monitor \<Rightarrow> Monitor" where
  "checkedMonitor now record job monitor =
     monitor\<lparr>mon_LastStatusCode := chk_StatusCode record, mon_LastLatencyMS := chk_LatencyMS record,
       mon_LastCheckedAt := now, mon_LastError := chk_Error record,
       mon_NextCheckAt := (if job_Kind job = checkJobKindScheduled
                           then now + seconds (mon_IntervalSeconds monitor) else mon_NextCheckAt monitor),
       mon_UpdatedAt := now\<rparr>"

definition completedJob :: "gotime \<Rightarrow> CheckJobRecord \<Rightarrow> CheckJobRecord" where
  "completedJob now job =
     job\<lparr>job_Status := checkJobStatusCompleted, job_CompletedAt := now,
         job_ProcessingStartedAt := zeroTime, job_LeaseExpiresAt := zeroTime,
         job_LeaseToken := [], job_LastError := [], job_UpdatedAt := now\<rparr>"

lemma completeCheck_alt:
  "completeCheck draw now r job m s =
   (case rememberProcessedJobLocked (chk_JobID r) s of
      None \<Rightarrow> None
    | Some s1 \<Rightarrow>
       (let s2 = rememberTerminalJobLocked (chk_JobID r)
              (s1\<lparr>checkJobs := (checkJobs s1)(chk_JobID r \<mapsto> completedJob now job),
                 activeJobByMonitor := (activeJobByMonitor s1)(chk_MonitorID r := None)\<rparr>);
            s3 = s2\<lparr>byID := (byID s2)(chk_MonitorID r \<mapsto> checkedMonitor now r job m)\<rparr>;
            s4 = s3\<lparr>checks := (checks s3)(chk_MonitorID r \<mapsto> appendCheck r (checkHistory (chk_MonitorID r) s3))\<rparr>
        in Some (checkedMonitor now r job m, updateIncident draw r now s4)))"
  by (simp add: completeCheck_def Let_def completedJob_def checkedMonitor_def appendCheck_def
      checkHistory_def split: option.split)

lemma appendCheck_length: "length (appendCheck r rs) \<le> max maxChecksPerMonitor (length rs)"
  by (auto simp: appendCheck_def)

lemma appendCheck_set: "set (appendCheck r rs) \<subseteq> insert r (set rs)"
  by (auto simp: appendCheck_def dest: in_set_dropD)

lemma completeCheck_inv:
  assumes inv: "store_inv env s" and job: "checkJobs s (chk_JobID r) = Some job"
    and own: "jobOwnsLease job lease now" and mon: "byID s (chk_MonitorID r) = Some m"
    and ids: "job_MonitorID job = chk_MonitorID r" "chk_JobID r \<noteq> []"
    and fresh: "incidents s (newID ''inc'' draw) = None"
  obtains s' where "completeCheck draw now r job m s = Some (checkedMonitor now r job m, s')"
    "store_inv env s'" "chk_JobID r \<in> processedJobs s'"
proof -
  from rememberProcessedJobLocked_ok [OF store_invD(9) [OF inv], of "chk_JobID r"]
  obtain s1 where r1: "rememberProcessedJobLocked (chk_JobID r) s = Some s1" "processed_ok s1"
    "chk_JobID r \<in> processedJobs s1"
    and s1: "s1 = s\<lparr>processedJobs := processedJobs s1, processedJobOrder := processedJobOrder s1,
            processedJobHead := processedJobHead s1\<rparr>" by blast
  define ps os h where "ps = processedJobs s1" "os = processedJobOrder s1" "h = processedJobHead s1"
  have eq1: "s1 = s\<lparr>processedJobs := ps, processedJobOrder := os, processedJobHead := h\<rparr>"
    using s1 by (simp add: ps_os_h_def)
  have inv1: "store_inv env s1" using inv_processed [OF inv] r1(2) unfolding eq1 by blast
  have f1: "checkJobs s1 = checkJobs s" "byID s1 = byID s" "incidents s1 = incidents s"
    "store_policy s1 = store_policy s" unfolding eq1 by simp_all
  have nt: "\<not> terminal_status job" by (rule owned_job_active [OF inv job own])
  define s2 where "s2 = rememberTerminalJobLocked (chk_JobID r)
              (s1\<lparr>checkJobs := (checkJobs s1)(chk_JobID r \<mapsto> completedJob now job),
                 activeJobByMonitor := (activeJobByMonitor s1)(chk_MonitorID r := None)\<rparr>)"
  have inv2: "store_inv env s2"
    unfolding s2_def ids(1) [symmetric]
    using store_inv_job [OF inv job] job f1
    by (intro inv_finish_job [OF inv1 _ nt]) (auto simp: job_ok_def completedJob_def terminal_status_def)
  have f2: "byID s2 = byID s" "incidents s2 = incidents s" "processedJobs s2 = processedJobs s1"
    "store_policy s2 = store_policy s" using f1 by (simp_all add: s2_def)
  define s3 where "s3 = s2\<lparr>byID := (byID s2)(chk_MonitorID r \<mapsto> checkedMonitor now r job m)\<rparr>"
  have inv3: "store_inv env s3"
    unfolding s3_def using mon f2 store_inv_monitor [OF inv mon]
    by (intro inv_update_monitor [OF inv2, of _ m]) (auto simp: checkedMonitor_def monitor_ok_def input_of_def)
  define s4 where "s4 = s3\<lparr>checks := (checks s3)(chk_MonitorID r \<mapsto>
      appendCheck r (checkHistory (chk_MonitorID r) s3))\<rparr>"
  have hist: "length (checkHistory (chk_MonitorID r) s3) \<le> maxChecksPerMonitor
    \<and> (\<forall>x \<in> set (checkHistory (chk_MonitorID r) s3). chk_MonitorID x = chk_MonitorID r \<and> chk_JobID x \<noteq> [])"
    using store_invD(6) [OF inv3] by (auto simp: checks_ok_def checkHistory_def split: option.splits)
  have inv4: "store_inv env s4"
    unfolding s4_def
  proof (rule inv_checks [OF inv3])
    show "byID s3 (chk_MonitorID r) \<noteq> None" by (simp add: s3_def)
    show "length (appendCheck r (checkHistory (chk_MonitorID r) s3)) \<le> maxChecksPerMonitor"
      using appendCheck_length [of r "checkHistory (chk_MonitorID r) s3"] hist by simp
    show "chk_MonitorID x = chk_MonitorID r \<and> chk_JobID x \<noteq> []"
      if "x \<in> set (appendCheck r (checkHistory (chk_MonitorID r) s3))" for x
      using that appendCheck_set [of r "checkHistory (chk_MonitorID r) s3"] hist ids(2) by blast
  qed
  have "store_inv env (updateIncident draw r now s4)"
    using fresh f2 by (intro updateIncident_inv [OF inv4]) (simp_all add: s4_def s3_def)
  moreover have "processedJobs (updateIncident draw r now s4) = processedJobs s1"
    using f2 by (simp add: updateIncident_def Let_def s4_def s3_def split: option.split)
  moreover have "completeCheck draw now r job m s =
      Some (checkedMonitor now r job m, updateIncident draw r now s4)"
    unfolding completeCheck_alt r1 option.case Let_def s2_def [symmetric] s3_def [symmetric]
      s4_def [symmetric] by (rule refl)
  ultimately show thesis using that r1(3) by simp
qed

lemma AddCheck_inv:
  assumes inv: "store_inv env s" and fresh: "incidents s (newID ''inc'' draw) = None"
  obtains res s' where "AddCheck draw now r lease s = Some (res, s')" "store_inv env s'"
proof (cases "AddCheck draw now r lease s = Some (Inl (projl (fst (the (AddCheck draw now r lease s)))), s)")
  case True
  with inv that show thesis by blast
next
  case False
  then obtain m job where mj: "byID s (chk_MonitorID r) = Some m" "chk_JobID r \<noteq> []"
    "checkJobs s (chk_JobID r) = Some job" "job_MonitorID job = chk_MonitorID r"
    "job_Status job \<noteq> checkJobStatusCompleted" "jobOwnsLease job lease now"
    "chk_JobID r \<notin> processedJobs s"
    by (auto simp: AddCheck_def split: option.splits if_splits)
  from completeCheck_inv [OF inv mj(3,6,1,4,2) fresh] obtain s' where
    "completeCheck draw now r job m s = Some (checkedMonitor now r job m, s')" "store_inv env s'" by blast
  with mj that show thesis by (simp add: AddCheck_def)
qed

end
