(* ===== verification/Store_Claim.thy ===== *)
theory Store_Claim
  imports Store_Jobs
begin

text \<open>
  What one call of \<open>ClaimDueJobsWithMaxAttempts\<close> does: how it may change a job, what the
  jobs it returns look like, and that no due work is skipped while the limit allows it.
\<close>

section \<open>Relating the job tables before and after\<close>

text \<open>
  \<open>jobs_keep R s s'\<close>: every job of \<open>s'\<close> was a job of \<open>s\<close>, changed at most as \<open>R\<close> allows.
\<close>

definition jobs_keep :: "(CheckJobRecord \<Rightarrow> CheckJobRecord \<Rightarrow> bool) \<Rightarrow> MonitorStore \<Rightarrow> MonitorStore \<Rightarrow> bool" where
  "jobs_keep R s s' \<longleftrightarrow>
     (\<forall>j job'. checkJobs s' j = Some job' \<longrightarrow> (\<exists>job. checkJobs s j = Some job \<and> R job job'))"

lemma jobs_keep_trans:
  "jobs_keep R s s' \<Longrightarrow> jobs_keep Q s' s'' \<Longrightarrow> (\<And>a b c. R a b \<Longrightarrow> Q b c \<Longrightarrow> P a c) \<Longrightarrow> jobs_keep P s s''"
  unfolding jobs_keep_def by meson

lemma jobs_keep_refl: "(\<And>a. R a a) \<Longrightarrow> jobs_keep R s s"
  by (auto simp: jobs_keep_def)

lemma jobs_keep_mono: "jobs_keep R s s' \<Longrightarrow> (\<And>a b. R a b \<Longrightarrow> Q a b) \<Longrightarrow> jobs_keep Q s s'"
  unfolding jobs_keep_def by blast

lemma jobs_keep_eq: "checkJobs s' = checkJobs s \<Longrightarrow> (\<And>a. R a a) \<Longrightarrow> jobs_keep R s s'"
  by (auto simp: jobs_keep_def)

lemma jobs_keep_upd:
  "checkJobs s j = Some job \<Longrightarrow> R job job' \<Longrightarrow> (\<And>a. R a a) \<Longrightarrow>
   jobs_keep R s (s\<lparr>checkJobs := (checkJobs s)(j \<mapsto> job')\<rparr>)"
  by (auto simp: jobs_keep_def)

lemma evictLoop_sub: "evictLoop limit e order head m = (head', m') \<Longrightarrow> m' x = Some v \<Longrightarrow> m x = Some v"
proof (induction limit e order head m arbitrary: head' m' rule: evictLoop.induct)
  case (1 limit e order head m)
  show ?case
  proof (cases "length order - head > limit")
    case True
    with "1.prems"(1) have "evictLoop limit e order (Suc head) (evictEntry e (order ! head) m) = (head', m')"
      by (simp add: evictLoop.simps [of limit e order head])
    from "1.IH" [OF True this "1.prems"(2)] show ?thesis by (simp add: evictEntry_Some)
  next
    case False
    with "1.prems" show ?thesis by (simp add: evictLoop.simps [of limit e order head])
  qed
qed

lemma jobs_keep_remember:
  assumes "\<And>a. R a a"
  shows "jobs_keep R s (rememberTerminalJobLocked j s)"
  unfolding jobs_keep_def
proof (intro allI impI)
  fix x v
  assume "checkJobs (rememberTerminalJobLocked j s) x = Some v"
  then have "checkJobs s x = Some v"
    by (auto simp: rememberTerminalJobLocked_def Let_def split: prod.splits dest: evictLoop_sub)
  with assms show "\<exists>job. checkJobs s x = Some job \<and> R job v" by blast
qed

section \<open>Recovery of expired and exhausted jobs\<close>

text \<open>The identity of a job: what no transition changes.\<close>

definition same_job :: "CheckJobRecord \<Rightarrow> CheckJobRecord \<Rightarrow> bool" where
  "same_job job job' \<longleftrightarrow> job_ID job' = job_ID job \<and> job_MonitorID job' = job_MonitorID job
     \<and> job_Kind job' = job_Kind job \<and> job_ScheduledFor job' = job_ScheduledFor job
     \<and> job_CreatedAt job' = job_CreatedAt job"

definition recovered :: "CheckJobRecord \<Rightarrow> CheckJobRecord \<Rightarrow> bool" where
  "recovered job job' \<longleftrightarrow> job' = job \<or> same_job job job' \<and> job_Attempt job' = job_Attempt job
     \<and> job_LeaseToken job' = []
     \<and> (job_Status job = checkJobStatusProcessing
          \<and> job_Status job' \<in> {checkJobStatusFailed, checkJobStatusDead}
        \<or> job_Status job = checkJobStatusFailed \<and> job_Status job' = checkJobStatusDead)"

lemma recovered_refl [simp]: "recovered a a"
  by (simp add: recovered_def)

lemma recovered_trans: "recovered a b \<Longrightarrow> recovered b c \<Longrightarrow> recovered a c"
  by (auto simp: recovered_def same_job_def)

lemma recoverJob_keeps:
  assumes "checkJobs s j = Some job"
  shows "jobs_keep recovered s (recoverJob now mx j job s)"
proof -
  have 1: "jobs_keep recovered s (s\<lparr>checkJobs := (checkJobs s)(j \<mapsto> job')\<rparr>)" if "recovered job job'" for job'
    using assms that by (rule jobs_keep_upd) simp
  have fin: "jobs_keep recovered s (finishExhaustedJobLocked j job e now s)"
    if st: "processingExpired now job \<or> failedExhausted now mx job" for e
  proof -
    let ?job = "job\<lparr>job_Status := checkJobStatusDead, job_CompletedAt := now,
      job_ProcessingStartedAt := zeroTime, job_LeaseExpiresAt := zeroTime, job_LeaseToken := [],
      job_LastError := e @ ''; maximum attempts reached'', job_UpdatedAt := now\<rparr>"
    define t where "t = (let s = s\<lparr>checkJobs := (checkJobs s)(j \<mapsto> ?job)\<rparr> in
      if activeJobByMonitor s (job_MonitorID job) = Some j
      then s\<lparr>activeJobByMonitor := (activeJobByMonitor s)(job_MonitorID job := None)\<rparr> else s)"
    have "recovered job ?job"
      using st by (auto simp: recovered_def same_job_def processingExpired_def failedExhausted_def)
    from 1 [OF this] have "jobs_keep recovered s t" by (simp add: jobs_keep_def t_def Let_def)
    then have k: "jobs_keep recovered s (rememberTerminalJobLocked j t)"
      by (rule jobs_keep_trans [OF _ jobs_keep_remember [of recovered]]) (auto intro: recovered_trans)
    have "checkJobs (finishExhaustedJobLocked j job e now s) = checkJobs (rememberTerminalJobLocked j t)"
      by (simp add: finishExhaustedJobLocked_def t_def Let_def split: option.split)
    with k show ?thesis by (simp add: jobs_keep_def)
  qed
  show ?thesis
  proof (cases "processingExpired now job \<or> failedExhausted now mx job")
    case True
    show ?thesis
    proof (cases "job_Attempt job \<ge> mx")
      case le: True
      with True fin show ?thesis by (auto simp: recoverJob_def)
    next
      case False
      with True have "job_Status job = checkJobStatusProcessing"
        by (auto simp: processingExpired_def failedExhausted_def)
      with False True 1 show ?thesis
        by (simp add: recoverJob_def recovered_def same_job_def jobs_keep_refl)
    qed
  qed (simp add: recoverJob_def jobs_keep_refl)
qed

lemma recoverLoop_keeps: "jobs_keep recovered s (recoverLoop now mx ks s)"
proof (induction ks arbitrary: s)
  case Nil
  then show ?case by (simp add: jobs_keep_refl)
next
  case (Cons k ks)
  let ?t = "case checkJobs s k of None \<Rightarrow> s | Some job \<Rightarrow> recoverJob now mx k job s"
  have "jobs_keep recovered s ?t" by (simp add: recoverJob_keeps jobs_keep_refl split: option.split)
  from jobs_keep_trans [OF this Cons.IH [of ?t] recovered_trans] show ?case by simp
qed

section \<open>Claims\<close>

definition claimed_from :: "CheckJobRecord \<Rightarrow> CheckJobRecord \<Rightarrow> bool" where
  "claimed_from job job' \<longleftrightarrow> job' = job \<or> same_job job job' \<and> job_Attempt job' = job_Attempt job
     \<and> job_LeaseToken job' = job_LeaseToken job
     \<and> job_Status job \<in> {checkJobStatusScheduled, checkJobStatusFailed}
     \<and> job_Status job' = checkJobStatusScheduled"

lemma claimed_from_refl [simp]: "claimed_from a a"
  by (simp add: claimed_from_def)

lemma claimed_from_trans: "claimed_from a b \<Longrightarrow> claimed_from b c \<Longrightarrow> claimed_from a c"
  by (auto simp: claimed_from_def same_job_def)

lemma claimLoop_keeps:
  assumes "\<And>job. job \<in> set jobs \<Longrightarrow> checkJobs s (job_ID job) = Some job \<and> claimable now mx job"
    and "distinct (map job_ID jobs)"
  shows "jobs_keep claimed_from s (snd (claimLoop limit now lt draws jobs claimed s))"
  using assms
proof (induction jobs arbitrary: claimed s)
  case Nil
  then show ?case by (simp add: jobs_keep_refl)
next
  case (Cons job jobs)
  let ?job = "claimJob now lt (draws (length claimed)) job"
  let ?s = "s\<lparr>checkJobs := (checkJobs s)(job_ID job \<mapsto> ?job)\<rparr>"
  have "claimed_from job ?job"
    using Cons.prems(1) [of job]
    by (auto simp: claimed_from_def same_job_def claimable_def claimJob_def)
  then have k: "jobs_keep claimed_from s ?s" using Cons.prems(1) [of job] by (intro jobs_keep_upd) auto
  have "checkJobs ?s (job_ID job') = Some job' \<and> claimable now mx job'" if "job' \<in> set jobs" for job'
  proof -
    have "job_ID job' \<noteq> job_ID job" using Cons.prems(2) that by (auto simp: image_iff)
    with Cons.prems(1) [of job'] that show ?thesis by simp
  qed
  then have "jobs_keep claimed_from ?s (snd (claimLoop limit now lt draws jobs (claimed @ [?job]) ?s))"
    using Cons.prems(2) by (intro Cons.IH) auto
  from jobs_keep_trans [OF k this claimed_from_trans] show ?case by (simp add: jobs_keep_refl Let_def)
qed

text \<open>The shape of a claimed job.\<close>

definition good_claim :: "gotime \<Rightarrow> duration \<Rightarrow> int \<Rightarrow> CheckJobRecord \<Rightarrow> bool" where
  "good_claim now lt mx job \<longleftrightarrow>
     job_Status job = checkJobStatusScheduled \<and> job_LeaseExpiresAt job = now + lt
     \<and> job_PublicationToken job \<noteq> [] \<and> job_Attempt job < mx \<and> job_AvailableAt job \<le> now"

text \<open>What holds of the claimed list while the loops run.\<close>

definition claimed_ok ::
  "gotime \<Rightarrow> duration \<Rightarrow> int \<Rightarrow> int \<Rightarrow> CheckJobRecord list \<Rightarrow> MonitorStore \<Rightarrow> bool" where
  "claimed_ok now lt mx limit claimed s \<longleftrightarrow>
     int (length claimed) \<le> limit \<and> distinct (map job_ID claimed)
     \<and> (\<forall>job \<in> set claimed. good_claim now lt mx job \<and> checkJobs s (job_ID job) = Some job)"

lemma claimLoop_ok:
  assumes "claimed_ok now lt mx limit claimed s"
    and "\<And>job. job \<in> set jobs \<Longrightarrow> checkJobs s (job_ID job) = Some job \<and> claimable now mx job"
    and "distinct (map job_ID jobs)" "job_ID ` set jobs \<inter> job_ID ` set claimed = {}"
    and "claimLoop limit now lt draws jobs claimed s = (claimed', s')"
  shows "claimed_ok now lt mx limit claimed' s' \<and>
    (int (length claimed') < limit \<longrightarrow> job_ID ` set jobs \<union> job_ID ` set claimed \<subseteq> job_ID ` set claimed')"
  using assms
proof (induction jobs arbitrary: claimed s)
  case Nil
  then show ?case by auto
next
  case (Cons job jobs)
  show ?case
  proof (cases "int (length claimed) \<ge> limit")
    case True
    with Cons.prems show ?thesis by auto
  next
    case False
    let ?job = "claimJob now lt (draws (length claimed)) job"
    let ?s = "s\<lparr>checkJobs := (checkJobs s)(job_ID job \<mapsto> ?job)\<rparr>"
    have neq: "job_ID job' \<noteq> job_ID job" if "job' \<in> set jobs" for job'
      using Cons.prems(3) that by (auto simp: image_iff)
    have notin: "job_ID job \<notin> job_ID ` set claimed" using Cons.prems(4) by auto
    have g: "good_claim now lt mx ?job"
      using Cons.prems(2) [of job] by (auto simp: good_claim_def claimable_def claimJob_def)
    have "claimed_ok now lt mx limit (claimed @ [?job]) ?s"
      using Cons.prems(1) False g notin by (auto simp: claimed_ok_def image_iff)
    moreover have "claimLoop limit now lt draws jobs (claimed @ [?job]) ?s = (claimed', s')"
      using Cons.prems(5) False by (simp add: Let_def)
    ultimately have "claimed_ok now lt mx limit claimed' s' \<and> (int (length claimed') < limit \<longrightarrow>
        job_ID ` set jobs \<union> job_ID ` set (claimed @ [?job]) \<subseteq> job_ID ` set claimed')"
      using Cons.prems(2,3,4) neq by (intro Cons.IH) (auto simp: image_iff)
    then show ?thesis by auto
  qed
qed

section \<open>New scheduled jobs\<close>

definition created :: "gotime \<Rightarrow> CheckJobRecord \<Rightarrow> bool" where
  "created now job \<longleftrightarrow> job_Status job = checkJobStatusScheduled \<and> job_Attempt job = 0
     \<and> job_LeaseToken job = [] \<and> job_CreatedAt job = now"

lemma scheduleLoop_ok:
  assumes "store_inv env s" "claimed_ok now lt mx limit claimed s" "0 < mx"
    and "\<And>m. m \<in> set ms \<Longrightarrow> byID s (mon_ID m) = Some m"
    and "scheduleLoop limit w now lt draws ms claimed s = (claimed', s')"
  shows "claimed_ok now lt mx limit claimed' s'
    \<and> (\<exists>extra. claimed' = claimed @ extra \<and> (\<forall>job \<in> set extra. created now job))
    \<and> (\<forall>j job. checkJobs s' j = Some job \<longrightarrow> checkJobs s j = Some job \<or> created now job \<and> job \<in> set claimed')
    \<and> (\<forall>m j. activeJobByMonitor s m = Some j \<longrightarrow> activeJobByMonitor s' m = Some j)
    \<and> (int (length claimed') < limit \<longrightarrow> (\<forall>m \<in> set ms. mon_Enabled m \<and> mon_NextCheckAt m \<le> now \<longrightarrow>
         activeJobByMonitor s' (mon_ID m) \<noteq> None))"
  using assms
proof (induction ms arbitrary: claimed s)
  case Nil
  then show ?case by auto
next
  case (Cons m ms)
  show ?case
  proof (cases "int (length claimed) \<ge> limit")
    case True
    with Cons.prems show ?thesis by auto
  next
    case False
    show ?thesis
    proof (cases "mon_Enabled m \<and> mon_NextCheckAt m \<le> now \<and> activeJobByMonitor s (mon_ID m) = None")
      case skip: False
      then have "scheduleLoop limit w now lt draws ms claimed s = (claimed', s')"
        using Cons.prems(5) False by (auto split: if_splits)
      note IH = Cons.IH [OF Cons.prems(1-3) _ this]
      have "mon_Enabled m \<and> mon_NextCheckAt m \<le> now \<Longrightarrow> \<exists>j. activeJobByMonitor s (mon_ID m) = Some j"
        using skip by auto
      with IH Cons.prems(4) show ?thesis by auto
    next
      case take: True
      define job where "job = newScheduledJob w now lt (draws (length claimed)) m"
      define t where "t = s\<lparr>checkJobs := (checkJobs s)(job_ID job \<mapsto> job),
        activeJobByMonitor := (activeJobByMonitor s)(mon_ID m \<mapsto> job_ID job)\<rparr>"
      have m: "byID s (mon_ID m) = Some m" using Cons.prems(4) by simp
      have inv: "store_inv env t" unfolding t_def job_def newScheduledJob_fields
        using Cons.prems(1) m take by (intro inv_schedule_job) simp_all
      have new: "created now job" "good_claim now lt mx job"
        using Cons.prems(3) by (simp_all add: created_def good_claim_def job_def newScheduledJob_def)
      have "job_ID x \<noteq> job_ID job" if "x \<in> set claimed" for x
      proof
        assume eq: "job_ID x = job_ID job"
        from Cons.prems(2) that have "checkJobs s (job_ID job) = Some x" "\<not> terminal_status x"
          unfolding claimed_ok_def eq [symmetric] by (auto simp: good_claim_def terminal_status_def)
        moreover from this have "job_MonitorID x = mon_ID m"
          using store_inv_job [OF Cons.prems(1)] job_ok_fields(2) by (fastforce simp: job_def)
        ultimately show False using store_inv_active [OF Cons.prems(1), of "mon_ID m" "job_ID job"] take by auto
      qed
      then have neq: "job_ID job \<notin> job_ID ` set claimed" "\<And>x. x \<in> set claimed \<Longrightarrow> job_ID x \<noteq> job_ID job"
        by (metis imageE, blast)
      have ok: "claimed_ok now lt mx limit (claimed @ [job]) t"
        using Cons.prems(2) False new neq by (simp add: claimed_ok_def t_def)
      have loop: "scheduleLoop limit w now lt draws ms (claimed @ [job]) t = (claimed', s')"
        using Cons.prems(5) False take by (simp add: job_def t_def Let_def)
      have "byID t (mon_ID m') = Some m'" if "m' \<in> set ms" for m'
        using Cons.prems(4) that by (simp add: t_def)
      note IH = Cons.IH [OF inv ok Cons.prems(3) this loop]
      then obtain extra where extra: "claimed' = (claimed @ [job]) @ extra" "\<forall>job \<in> set extra. created now job"
        by blast
      then have ex: "\<exists>extra. claimed' = claimed @ extra \<and> (\<forall>job \<in> set extra. created now job)"
        using new by (intro exI [of _ "job # extra"]) simp
      have jt: "job \<in> set claimed'" using extra by simp
      have act: "activeJobByMonitor s' x = Some j" if "activeJobByMonitor t x = Some j" for x j
        using IH that by blast
      have mono: "activeJobByMonitor s' x = Some j" if "activeJobByMonitor s x = Some j" for x j
        using that take by (intro act) (auto simp: t_def)
      have tabl: "checkJobs s j = Some v \<or> created now v \<and> v \<in> set claimed'"
        if "checkJobs s' j = Some v" for j v
      proof -
        from IH that have "checkJobs t j = Some v \<or> created now v \<and> v \<in> set claimed'" by blast
        then show ?thesis using new jt by (auto simp: t_def split: if_splits)
      qed
      have "activeJobByMonitor s' (mon_ID m) \<noteq> None"
        using act [of "mon_ID m" "job_ID job"] by (simp add: t_def)
      with IH ex mono tabl show ?thesis by auto
    qed
  qed
qed

section \<open>The whole call\<close>

text \<open>How a claim may leave a job that existed before.\<close>

definition claim_moves :: "CheckJobRecord \<Rightarrow> CheckJobRecord \<Rightarrow> bool" where
  "claim_moves job job' \<longleftrightarrow> (\<exists>mid. recovered job mid \<and> claimed_from mid job')"

lemma ClaimDueJobs_result:
  assumes inv: "store_inv env s" and pos: "0 < limit"
    and ks: "distinct (ce_jobs ce)" "set (ce_monitors ce) \<supseteq> dom (byID s)"
    and lt: "lt = (if leaseTimeout \<le> 0 then Minute else leaseTimeout)"
    and mx: "mx = (if maxAttempts \<le> 0 then defaultMaxJobAttempts else maxAttempts)"
    and call: "ClaimDueJobsWithMaxAttempts ce limit now leaseTimeout maxAttempts s = (claimed, s')"
  shows "claimed_ok now lt mx limit claimed s'"
    and "\<And>j job'. checkJobs s' j = Some job' \<Longrightarrow>
      (\<exists>job. checkJobs s j = Some job \<and> claim_moves job job') \<or> created now job' \<and> job' \<in> set claimed"
    and "int (length claimed) < limit \<Longrightarrow>
      byID s' i = Some m \<Longrightarrow> mon_Enabled m \<Longrightarrow> mon_NextCheckAt m \<le> now \<Longrightarrow> activeJobByMonitor s' i \<noteq> None"
proof -
  define s1 where "s1 = recoverLoop now mx (ce_recover ce) s"
  define cs where "cs = sort_key candidate_key (filter (claimable now mx) (map_values (checkJobs s1) (ce_jobs ce)))"
  obtain c2 s2 where c: "claimLoop limit now lt (ce_draws ce) cs [] s1 = (c2, s2)"
    by (rule prod.exhaust)
  define ms where "ms = sort_key monitor_due_key (map_values (byID s2) (ce_monitors ce))"
  have mxpos: "0 < mx" using mx by simp
  have inv1: "store_inv env s1" unfolding s1_def using inv by (rule recoverLoop_inv)
  have cs: "\<And>job. job \<in> set cs \<Longrightarrow> checkJobs s1 (job_ID job) = Some job \<and> claimable now mx job"
    "distinct (map job_ID cs)"
    using map_values_jobs [OF inv1 ks(1)]
    by (auto simp: cs_def intro!: distinct_map_filter_sort)
  have inv2: "store_inv env s2" using claimLoop_inv [OF inv1 cs, of limit lt "ce_draws ce" "[]"] c by simp
  have ok2: "claimed_ok now lt mx limit c2 s2"
    using claimLoop_ok [OF _ cs _ c] pos by (simp add: claimed_ok_def)
  have k: "jobs_keep claim_moves s s2"
  proof (rule jobs_keep_trans)
    show "jobs_keep recovered s s1" unfolding s1_def by (rule recoverLoop_keeps)
    show "jobs_keep claimed_from s1 s2" using claimLoop_keeps [OF cs, of limit lt "ce_draws ce" "[]"] c by simp
  qed (auto simp: claim_moves_def)
  have body: "(if int (length c2) \<ge> limit then (c2, s2)
      else scheduleLoop limit (ce_wall ce) now lt (ce_draws ce) ms c2 s2) = (claimed, s')"
    using call pos c unfolding ClaimDueJobsWithMaxAttempts_def Let_def lt [symmetric] mx [symmetric]
      s1_def [symmetric] cs_def [symmetric] by (simp add: ms_def split: if_splits)
  have "claimed_ok now lt mx limit claimed s' \<and>
    (\<forall>j job'. checkJobs s' j = Some job' \<longrightarrow>
      (\<exists>job. checkJobs s j = Some job \<and> claim_moves job job') \<or> created now job' \<and> job' \<in> set claimed) \<and>
    (int (length claimed) < limit \<longrightarrow> byID s' i = Some m \<longrightarrow> mon_Enabled m \<longrightarrow> mon_NextCheckAt m \<le> now \<longrightarrow>
      activeJobByMonitor s' i \<noteq> None)"
  proof (cases "int (length c2) \<ge> limit")
    case True
    with body ok2 k show ?thesis by (auto simp: jobs_keep_def)
  next
    case False
    have mon: "\<And>m. m \<in> set ms \<Longrightarrow> byID s2 (mon_ID m) = Some m"
      using map_values_monitors [OF inv2] by (simp add: ms_def)
    have loop: "scheduleLoop limit (ce_wall ce) now lt (ce_draws ce) ms c2 s2 = (claimed, s')"
      using body False by simp
    note sch = scheduleLoop_ok [OF inv2 ok2 mxpos mon loop]
    have "byID s' = byID s2"
    proof -
      have "byID (snd (scheduleLoop limit w now lt draws l c t)) = byID t" for w draws l c t
        by (induction l arbitrary: c t) (simp_all add: Let_def)
      then show ?thesis using loop by (metis snd_conv)
    qed
    moreover have "dom (byID s2) = dom (byID s)"
    proof -
      have "dom (byID (recoverJob now mx j job s)) = dom (byID s)" for j job s
        by (auto simp: recoverJob_def finishExhaustedJobLocked_def Let_def split: option.split if_splits)
      then have "dom (byID (recoverLoop now mx l s)) = dom (byID s)" for l s
        by (induction l arbitrary: s) (simp_all split: option.split)
      then show ?thesis using c claimLoop_frame(1) [of limit now lt "ce_draws ce" cs "[]" s1]
        by (simp add: s1_def)
    qed
    ultimately have "m \<in> set ms" if "byID s' i = Some m" for i m
      using that ks(2) by (auto simp: ms_def set_map_values)
    moreover have "mon_ID m = i" if "byID s' i = Some m" for i m
      using that \<open>byID s' = byID s2\<close> store_inv_monitor [OF inv2] by (auto simp: monitor_ok_def)
    ultimately show ?thesis using sch k unfolding jobs_keep_def by blast
  qed
  then show "claimed_ok now lt mx limit claimed s'"
    and "\<And>j job'. checkJobs s' j = Some job' \<Longrightarrow>
      (\<exists>job. checkJobs s j = Some job \<and> claim_moves job job') \<or> created now job' \<and> job' \<in> set claimed"
    and "int (length claimed) < limit \<Longrightarrow>
      byID s' i = Some m \<Longrightarrow> mon_Enabled m \<Longrightarrow> mon_NextCheckAt m \<le> now \<Longrightarrow> activeJobByMonitor s' i \<noteq> None"
    by blast+
qed

end
