(* ===== verification/Job_Lifecycle.thy ===== *)
theory Job_Lifecycle
  imports Store_Claim
begin

text \<open>
  The life of a check job: the operations of the store as one step relation, the states
  it reaches, the transitions a job can make, and the fencing of processing leases.
  A step carries, beside the store, the set of lease tokens issued so far.
\<close>

section \<open>Steps and reachable states\<close>

type_synonym config = "MonitorStore \<times> string set"

inductive store_step :: "parsers \<Rightarrow> config \<Rightarrow> config \<Rightarrow> bool" for env where
  step_Create: "byID s (newMonitorID draw) = None \<Longrightarrow>
    store_step env (s, I) (snd (Create env draw now input s), I)"
| step_Update: "store_step env (s, I) (snd (Update env mid patch now s), I)"
| step_Delete: "store_step env (s, I) (snd (Delete mid s), I)"
| step_Claim: "distinct (ce_jobs ce) \<Longrightarrow> dom (byID s) \<subseteq> set (ce_monitors ce) \<Longrightarrow>
    store_step env (s, I) (snd (ClaimDueJobsWithMaxAttempts ce limit now lt mx s), I)"
| step_Manual: "checkJobs s (newID ''job'' draw) = None \<Longrightarrow>
    store_step env (s, I) (snd (CreateManualJob mid draw now s), I)"
| step_Published: "store_step env (s, I) (snd (MarkJobPublished claim now s), I)"
| step_Release: "store_step env (s, I) (snd (ReleaseJobPublish claim err now s), I)"
| step_Topology: "store_step env (s, I) (snd (RecoverQueuedJobsAfterTopologyLoss ks now s), I)"
| step_Processing: "newID ''lease'' draw \<notin> I \<Longrightarrow>
    store_step env (s, I) (snd (MarkJobProcessing mid j attempt draw now lt s), insert (newID ''lease'' draw) I)"
| step_Failed: "store_step env (s, I) (snd (MarkJobFailed lease err now retryAt wall s), I)"
| step_Dead: "store_step env (s, I) (snd (MarkJobDead lease err now nextCheckAt wall s), I)"
| step_AddCheck: "incidents s (newID ''inc'' draw) = None \<Longrightarrow>
    AddCheck draw now record lease s = Some (res, s') \<Longrightarrow> store_step env (s, I) (s', I)"

inductive_cases store_stepE: "store_step env (s, I) c"

inductive store_reachable :: "parsers \<Rightarrow> NetworkPolicy \<Rightarrow> config \<Rightarrow> bool" for env policy where
  reach_init: "store_reachable env policy (NewMonitorStore policy, {})"
| reach_step: "store_reachable env policy c \<Longrightarrow> store_step env c c' \<Longrightarrow> store_reachable env policy c'"

lemma store_step_inv: "store_step env c c' \<Longrightarrow> store_inv env (fst c) \<Longrightarrow> store_inv env (fst c')"
proof (induction rule: store_step.induct)
  case (step_AddCheck s draw now rec lease res s' I)
  then show ?case using AddCheck_inv [of env s draw now rec lease] by auto
qed (simp_all add: Create_inv Update_inv Delete_inv ClaimDueJobsWithMaxAttempts_inv CreateManualJob_inv
    MarkJobPublished_inv ReleaseJobPublish_inv RecoverQueuedJobsAfterTopologyLoss_inv
    MarkJobProcessing_inv MarkJobFailed_inv MarkJobDead_inv)

lemma reachable_inv: "store_reachable env policy c \<Longrightarrow> store_inv env (fst c)"
  by (induction rule: store_reachable.induct) (simp_all add: NewMonitorStore_inv store_step_inv)

section \<open>Transitions of one job\<close>

text \<open>
  The statuses one operation can move a job to. A job leaves \<open>processing\<close> for \<open>scheduled\<close>
  when the scheduler finds its lease expired and claims it again in the same call.
\<close>

fun next_statuses :: "CheckJobStatus \<Rightarrow> CheckJobStatus list" where
  "next_statuses checkJobStatusScheduled =
     [checkJobStatusScheduled, checkJobStatusQueued, checkJobStatusProcessing,
      checkJobStatusFailed, checkJobStatusDead]"
| "next_statuses checkJobStatusQueued =
     [checkJobStatusQueued, checkJobStatusProcessing, checkJobStatusFailed, checkJobStatusDead]"
| "next_statuses checkJobStatusProcessing =
     [checkJobStatusProcessing, checkJobStatusCompleted, checkJobStatusFailed,
      checkJobStatusScheduled, checkJobStatusDead]"
| "next_statuses checkJobStatusFailed =
     [checkJobStatusFailed, checkJobStatusScheduled, checkJobStatusDead]"
| "next_statuses checkJobStatusCompleted = [checkJobStatusCompleted]"
| "next_statuses checkJobStatusDead = [checkJobStatusDead]"

definition starts :: "CheckJobRecord \<Rightarrow> CheckJobRecord \<Rightarrow> bool" where
  "starts job job' \<longleftrightarrow>
     job_Status job \<noteq> checkJobStatusProcessing \<and> job_Status job' = checkJobStatusProcessing"

text \<open>
  \<open>lifecycle N job job'\<close>: the same job, a permitted change of status, an attempt number
  that grows exactly when processing starts, and a lease token that is kept, cleared, or,
  at the start of processing, one of the new tokens \<open>N\<close>.
\<close>

definition lifecycle :: "string set \<Rightarrow> CheckJobRecord \<Rightarrow> CheckJobRecord \<Rightarrow> bool" where
  "lifecycle N job job' \<longleftrightarrow>
     same_job job job' \<and> job_Status job' \<in> set (next_statuses (job_Status job))
     \<and> (if starts job job' then job_Attempt job < job_Attempt job' \<and> job_LeaseToken job' \<in> N
        else job_Attempt job' = job_Attempt job
             \<and> (job_LeaseToken job' = [] \<or> job_LeaseToken job' = job_LeaseToken job))"

definition newborn :: "CheckJobRecord \<Rightarrow> bool" where
  "newborn job \<longleftrightarrow> job_Status job = checkJobStatusScheduled \<and> job_Attempt job = 0 \<and> job_LeaseToken job = []"

lemma next_statuses_refl [simp]: "st \<in> set (next_statuses st)"
  by (cases st) simp_all

lemma lifecycle_refl [simp]: "lifecycle N job job"
  by (simp add: lifecycle_def same_job_def starts_def)

text \<open>How the table of jobs may change in one step.\<close>

definition jobs_evolve :: "string set \<Rightarrow> MonitorStore \<Rightarrow> MonitorStore \<Rightarrow> bool" where
  "jobs_evolve N s s' \<longleftrightarrow> (\<forall>j job'. checkJobs s' j = Some job' \<longrightarrow>
     (\<exists>job. checkJobs s j = Some job \<and> lifecycle N job job') \<or> newborn job')"

lemma jobs_evolve_eq: "checkJobs s' = checkJobs s \<Longrightarrow> jobs_evolve N s s'"
  by (auto simp: jobs_evolve_def)

lemma jobs_evolve_keeps: "jobs_keep (lifecycle N) s s' \<Longrightarrow> jobs_evolve N s s'"
  by (auto simp: jobs_evolve_def jobs_keep_def)

lemma jobs_evolve_upd:
  "checkJobs s j = Some job \<Longrightarrow> lifecycle N job job' \<Longrightarrow>
   jobs_evolve N s (s\<lparr>checkJobs := (checkJobs s)(j \<mapsto> job')\<rparr>)"
  by (auto simp: jobs_evolve_def)

lemma jobs_keep_finish:
  assumes "checkJobs s j = Some job" "lifecycle N job job'"
  shows "jobs_keep (lifecycle N) s (rememberTerminalJobLocked j (s\<lparr>checkJobs := (checkJobs s)(j \<mapsto> job'),
    activeJobByMonitor := a\<rparr>))"
proof -
  let ?t = "s\<lparr>checkJobs := (checkJobs s)(j \<mapsto> job'), activeJobByMonitor := a\<rparr>"
  have "jobs_keep (lifecycle N) s ?t" using assms by (auto simp: jobs_keep_def)
  moreover have "jobs_keep (=) ?t (rememberTerminalJobLocked j ?t)" by (rule jobs_keep_remember) simp
  ultimately show ?thesis by (rule jobs_keep_trans) simp
qed

lemma lifecycle_dead:
  assumes "job_ok j job" "\<not> terminal_status job" "same_job job job'"
    "job_Status job' = checkJobStatusDead" "job_Attempt job' = job_Attempt job" "job_LeaseToken job' = []"
  shows "lifecycle N job job'"
  using assms by (cases "job_Status job") (auto simp: lifecycle_def terminal_status_def starts_def)

lemma finishActiveJobLocked_keeps:
  assumes inv: "store_inv env s"
  shows "jobs_keep (lifecycle N) s (finishActiveJobLocked m checkJobStatusDead err now s)"
proof (cases "activeJobByMonitor s m")
  case None
  then show ?thesis by (simp add: finishActiveJobLocked_def jobs_keep_refl)
next
  case (Some j)
  then obtain job where job: "checkJobs s j = Some job" "job_MonitorID job = m" "\<not> terminal_status job"
    using store_inv_active [OF inv] by blast
  let ?job = "job\<lparr>job_Status := checkJobStatusDead, job_LastError := err, job_ProcessingStartedAt := zeroTime,
    job_LeaseExpiresAt := zeroTime, job_LeaseToken := [], job_UpdatedAt := now, job_CompletedAt := now\<rparr>"
  have "lifecycle N job ?job"
    using store_inv_job [OF inv job(1)] job(3) by (intro lifecycle_dead [of j]) (auto simp: same_job_def)
  from jobs_keep_finish [OF job(1) this] Some job(1) show ?thesis
    by (simp add: finishActiveJobLocked_def Let_def jobs_active_commute)
qed

lemma Create_checkJobs [simp]: "checkJobs (snd (Create env draw now input s)) = checkJobs s"
  by (simp add: Create_def Let_def split: option.split)

lemma rememberTerminalJobLocked_checkJobs:
  "checkJobs (rememberTerminalJobLocked j s) =
   snd (evictLoop maxRetainedCheckJobs terminal_status (terminalJobOrder s @ [j]) (terminalJobHead s)
      (checkJobs s))"
  by (simp add: rememberTerminalJobLocked_def Let_def split: prod.split)

lemma finishActiveJobLocked_cong:
  assumes "activeJobByMonitor r = activeJobByMonitor s" "checkJobs r = checkJobs s"
    "terminalJobOrder r = terminalJobOrder s" "terminalJobHead r = terminalJobHead s"
  shows "checkJobs (finishActiveJobLocked m st e now r) = checkJobs (finishActiveJobLocked m st e now s)"
  using assms
  by (simp add: finishActiveJobLocked_def Let_def rememberTerminalJobLocked_checkJobs split: option.split)

lemma Update_keeps:
  assumes inv: "store_inv env s"
  shows "jobs_keep (lifecycle N) s (snd (Update env mid patch now s))"
proof (cases rule: Update_cases [of env mid patch now s])
  case rejected
  then show ?thesis by (simp add: jobs_keep_refl)
next
  case (accepted monitor)
  let ?en = "mon_Enabled (apply_patch patch monitor)"
  let ?sem = "checkSemanticsChanged (apply_patch patch monitor) monitor"
  define t where "t = snd (Update env mid patch now s)"
  define u where "u = (if mon_URL (apply_patch patch monitor) \<noteq> mon_URL monitor
       then ((byURL s)(mon_URL monitor := None))(mon_URL (apply_patch patch monitor) \<mapsto> mid) else byURL s)"
  have "t = updateEffects mid now ?en ?sem (s\<lparr>byURL := u, byID := (byID s)(mid \<mapsto> updatedMonitor patch now monitor)\<rparr>)"
    unfolding t_def u_def by (simp only: Update_success [OF accepted(1,2)] accepted(3) snd_conv)
  moreover have "checkJobs (finishActiveJobLocked m st e now (r\<lparr>byURL := b, byID := c\<rparr>)) =
      checkJobs (finishActiveJobLocked m st e now r)" for m st e r b c
    by (rule finishActiveJobLocked_cong) simp_all
  moreover have "checkJobs (finishActiveJobLocked m st e now (resolveOpenIncidentLocked mid now r)) =
      checkJobs (finishActiveJobLocked m st e now r)" for m st e r
    by (rule finishActiveJobLocked_cong) (simp_all add: resolveOpenIncidentLocked_def split: option.split)
  ultimately have "checkJobs t = checkJobs s \<or>
      (\<exists>e. checkJobs t = checkJobs (finishActiveJobLocked mid checkJobStatusDead e now s))"
    unfolding updateEffects_def Let_def by (cases ?en; cases ?sem) auto
  then show ?thesis
    using finishActiveJobLocked_keeps [OF inv, of N mid] unfolding t_def [symmetric]
    by (auto simp: jobs_keep_def)
qed

lemma Delete_keeps: "jobs_keep (lifecycle N) s (snd (Delete mid s))"
proof -
  have "checkJobs s j = Some job" if "checkJobs (snd (Delete mid s)) j = Some job" for j job
    using that by (auto simp: Delete_def Let_def delete_where_Some split: option.splits if_splits)
  then show ?thesis by (auto simp: jobs_keep_def)
qed

lemma claim_moves_lifecycle:
  assumes "claim_moves job job'"
  shows "lifecycle N job job'"
proof -
  from assms obtain x where "recovered job x" "claimed_from x job'" by (auto simp: claim_moves_def)
  then show ?thesis
    by (cases "job_Status job")
      (auto simp: recovered_def claimed_from_def same_job_def lifecycle_def starts_def)
qed

lemma Claim_evolve:
  assumes inv: "store_inv env s" and ks: "distinct (ce_jobs ce)" "dom (byID s) \<subseteq> set (ce_monitors ce)"
  shows "jobs_evolve N s (snd (ClaimDueJobsWithMaxAttempts ce limit now lt mx s))"
proof (cases "0 < limit")
  case True
  obtain claimed s' where call: "ClaimDueJobsWithMaxAttempts ce limit now lt mx s = (claimed, s')"
    by (rule prod.exhaust)
  have "lifecycle N job job'" if "claim_moves job job'" for job job'
    using that by (rule claim_moves_lifecycle)
  moreover have "newborn job" if "created now job" for job
    using that by (simp add: newborn_def created_def)
  ultimately show ?thesis
    using ClaimDueJobs_result(2) [OF inv True ks(1) ks(2) refl refl call]
    unfolding call jobs_evolve_def snd_conv by metis
next
  case False
  then show ?thesis by (simp add: ClaimDueJobsWithMaxAttempts_def jobs_evolve_eq)
qed

lemma Manual_evolve: "jobs_evolve N s (snd (CreateManualJob mid draw now s))"
  by (auto simp: CreateManualJob_def Let_def jobs_evolve_def newborn_def split: option.split)

lemma Published_evolve: "jobs_evolve N s (snd (MarkJobPublished claim now s))"
proof (cases "publicationJobLocked claim s")
  case (Inr job)
  then have j: "checkJobs s (claim_JobID claim) = Some job" by (simp add: publicationJobLocked_Inr)
  have "jobs_evolve N s (s\<lparr>checkJobs := (checkJobs s)(claim_JobID claim \<mapsto>
      job\<lparr>job_Status := checkJobStatusQueued, job_PublishedAt := now,
          job_LeaseExpiresAt := zeroTime, job_UpdatedAt := now\<rparr>)\<rparr>)"
    if "job_Status job = checkJobStatusScheduled"
    using that by (intro jobs_evolve_upd [OF j]) (simp add: lifecycle_def same_job_def starts_def)
  with Inr show ?thesis by (simp add: MarkJobPublished_def jobs_evolve_eq)
qed (simp add: MarkJobPublished_def jobs_evolve_eq)

lemma Release_evolve: "jobs_evolve N s (snd (ReleaseJobPublish claim err now s))"
proof (cases "publicationJobLocked claim s")
  case (Inr job)
  then have j: "checkJobs s (claim_JobID claim) = Some job" by (simp add: publicationJobLocked_Inr)
  have "jobs_evolve N s (s\<lparr>checkJobs := (checkJobs s)(claim_JobID claim \<mapsto>
      job\<lparr>job_LeaseExpiresAt := zeroTime, job_PublicationToken := [],
          job_LastError := err, job_UpdatedAt := now\<rparr>)\<rparr>)"
    if "job_Status job = checkJobStatusScheduled"
    using that by (intro jobs_evolve_upd [OF j]) (simp add: lifecycle_def same_job_def starts_def)
  with Inr show ?thesis by (simp add: ReleaseJobPublish_def jobs_evolve_eq)
qed (simp add: ReleaseJobPublish_def jobs_evolve_eq)

text \<open>Topology recovery sends scheduled and queued jobs to \<open>failed\<close> and touches no other job.\<close>

definition topology_moves :: "gotime \<Rightarrow> CheckJobRecord \<Rightarrow> CheckJobRecord \<Rightarrow> bool" where
  "topology_moves now job job' \<longleftrightarrow> job' = job \<or> topologyLost job \<and> job' = recoverTopologyJob now job"

lemma topology_moves_trans: "topology_moves now a b \<Longrightarrow> topology_moves now b c \<Longrightarrow> topology_moves now a c"
  by (auto simp: topology_moves_def topologyLost_def recoverTopologyJob_def)

lemma topologyLoop_keeps: "jobs_keep (topology_moves now) s (snd (topologyLoop now ks n s))"
proof (induction ks arbitrary: n s)
  case Nil
  then show ?case by (simp add: jobs_keep_refl topology_moves_def)
next
  case (Cons j ks)
  show ?case
  proof (cases "\<exists>job. checkJobs s j = Some job \<and> topologyLost job")
    case True
    then obtain job where job: "checkJobs s j = Some job" "topologyLost job" by blast
    let ?t = "s\<lparr>checkJobs := (checkJobs s)(j \<mapsto> recoverTopologyJob now job)\<rparr>"
    have "jobs_keep (topology_moves now) s ?t"
      using job by (intro jobs_keep_upd [OF job(1)]) (auto simp: topology_moves_def)
    from jobs_keep_trans [OF this Cons.IH [of ?t "Suc n"] topology_moves_trans] job show ?thesis by simp
  next
    case False
    with Cons.IH show ?thesis by (auto split: option.split)
  qed
qed

lemma Topology_evolve: "jobs_evolve N s (snd (RecoverQueuedJobsAfterTopologyLoss ks now s))"
  unfolding RecoverQueuedJobsAfterTopologyLoss_def
  by (rule jobs_evolve_keeps, rule jobs_keep_mono [OF topologyLoop_keeps])
    (auto simp: topology_moves_def topologyLost_def recoverTopologyJob_def lifecycle_def same_job_def starts_def)

lemma Processing_evolve: "jobs_evolve {newID ''lease'' draw} s (snd (MarkJobProcessing mid j attempt draw now lt s))"
proof (cases "MarkJobProcessing mid j attempt draw now lt s")
  case (Pair r s')
  show ?thesis
  proof (cases r)
    case (Inl e)
    with Pair MarkJobProcessing_Inl show ?thesis by (metis jobs_evolve_eq snd_conv)
  next
    case (Inr lease)
    with Pair obtain job where job: "activeJobLocked mid j s = Inr job"
      "job_Status job = checkJobStatusScheduled \<or> job_Status job = checkJobStatusQueued"
      "job_Attempt job < attempt"
      and s': "s' = s\<lparr>checkJobs := (checkJobs s)(j \<mapsto> startProcessing attempt draw now lt job)\<rparr>"
      using MarkJobProcessing_Inr by metis
    have "lifecycle {newID ''lease'' draw} job (startProcessing attempt draw now lt job)"
      using job(2,3) by (auto simp: lifecycle_def same_job_def starts_def startProcessing_def Let_def)
    then show ?thesis using job(1) Pair unfolding s'
      by (auto simp: activeJobLocked_Inr intro: jobs_evolve_upd)
  qed
qed

lemma Failed_evolve: "jobs_evolve N s (snd (MarkJobFailed lease err now retryAt wall s))"
proof (cases "activeJobLocked (lease_MonitorID lease) (lease_JobID lease) s")
  case (Inr job)
  then have j: "checkJobs s (lease_JobID lease) = Some job" by (simp add: activeJobLocked_Inr)
  have "jobs_evolve N s (s\<lparr>checkJobs := (checkJobs s)(lease_JobID lease \<mapsto>
      job\<lparr>job_Status := checkJobStatusFailed, job_AvailableAt := retryAt,
          job_ProcessingStartedAt := zeroTime, job_LeaseExpiresAt := zeroTime,
          job_LeaseToken := [], job_LastError := err, job_UpdatedAt := now\<rparr>)\<rparr>)"
    if "jobOwnsLease job lease now"
    using that
    by (intro jobs_evolve_upd [OF j]) (simp add: lifecycle_def same_job_def starts_def jobOwnsLease_def)
  with Inr show ?thesis by (simp add: MarkJobFailed_def jobs_evolve_eq)
qed (simp add: MarkJobFailed_def jobs_evolve_eq)

lemma Dead_evolve:
  assumes inv: "store_inv env s"
  shows "jobs_evolve N s (snd (MarkJobDead lease err now nextCheckAt wall s))"
proof (cases "activeJobLocked (lease_MonitorID lease) (lease_JobID lease) s")
  case (Inl e)
  then show ?thesis by (simp add: MarkJobDead_def jobs_evolve_eq split: option.split)
next
  case (Inr job)
  note a = activeJobLocked_active [OF inv Inr]
  let ?job = "job\<lparr>job_Status := checkJobStatusDead, job_CompletedAt := now,
    job_ProcessingStartedAt := zeroTime, job_LeaseExpiresAt := zeroTime, job_LeaseToken := [],
    job_LastError := err, job_UpdatedAt := now\<rparr>"
  have "lifecycle N job ?job"
    using store_inv_job [OF inv a(1)] a(2) by (intro lifecycle_dead [of "lease_JobID lease"]) (auto simp: same_job_def)
  from jobs_evolve_keeps [OF jobs_keep_finish [OF a(1) this]] Inr show ?thesis
    by (simp add: MarkJobDead_def Let_def jobs_evolve_def split: option.split)
qed

lemma updateIncident_checkJobs [simp]: "checkJobs (updateIncident draw r now s) = checkJobs s"
  by (simp add: updateIncident_def Let_def split: option.split)

lemma AddCheck_Inr:
  assumes inv: "store_inv env s" and call: "AddCheck draw now r lease s = Some (Inr m', s')"
  obtains m job where "byID s (chk_MonitorID r) = Some m" "checkJobs s (chk_JobID r) = Some job"
    "job_MonitorID job = chk_MonitorID r" "jobOwnsLease job lease now" "chk_JobID r \<notin> processedJobs s"
    "completeCheck draw now r job m s = Some (m', s')" "chk_JobID r \<noteq> []"
    "checkJobs s' = checkJobs (rememberTerminalJobLocked (chk_JobID r)
       (s\<lparr>checkJobs := (checkJobs s)(chk_JobID r \<mapsto> completedJob now job),
          activeJobByMonitor := (activeJobByMonitor s)(chk_MonitorID r := None)\<rparr>))"
proof -
  from call obtain m job where mj: "byID s (chk_MonitorID r) = Some m" "checkJobs s (chk_JobID r) = Some job"
    "job_MonitorID job = chk_MonitorID r" "jobOwnsLease job lease now" "chk_JobID r \<notin> processedJobs s"
    "completeCheck draw now r job m s = Some (m', s')" "chk_JobID r \<noteq> []"
    by (auto simp: AddCheck_def split: option.splits if_splits)
  from rememberProcessedJobLocked_ok [OF store_invD(9) [OF inv], of "chk_JobID r"]
  obtain s1 where r1: "rememberProcessedJobLocked (chk_JobID r) s = Some s1"
    and s1: "s1 = s\<lparr>processedJobs := processedJobs s1, processedJobOrder := processedJobOrder s1,
            processedJobHead := processedJobHead s1\<rparr>" by blast
  have f: "checkJobs s1 = checkJobs s" "terminalJobOrder s1 = terminalJobOrder s"
    "terminalJobHead s1 = terminalJobHead s" by (subst s1, simp)+
  from mj(6) have "checkJobs s' = checkJobs (rememberTerminalJobLocked (chk_JobID r)
       (s\<lparr>checkJobs := (checkJobs s)(chk_JobID r \<mapsto> completedJob now job),
          activeJobByMonitor := (activeJobByMonitor s)(chk_MonitorID r := None)\<rparr>))"
    by (auto simp: completeCheck_alt r1 f Let_def rememberTerminalJobLocked_checkJobs)
  with mj show thesis by (rule that)
qed

lemma AddCheck_evolve:
  assumes inv: "store_inv env s" and call: "AddCheck draw now r lease s = Some (res, s')"
  shows "jobs_evolve N s s'"
proof (cases res)
  case (Inl e)
  with call have "s' = s" by (auto simp: AddCheck_def split: option.splits if_splits)
  then show ?thesis by (simp add: jobs_evolve_eq)
next
  case (Inr m')
  with call have "AddCheck draw now r lease s = Some (Inr m', s')" by simp
  from AddCheck_Inr [OF inv this] obtain m job where
    job: "checkJobs s (chk_JobID r) = Some job" "jobOwnsLease job lease now"
    and s': "checkJobs s' = checkJobs (rememberTerminalJobLocked (chk_JobID r)
       (s\<lparr>checkJobs := (checkJobs s)(chk_JobID r \<mapsto> completedJob now job),
          activeJobByMonitor := (activeJobByMonitor s)(chk_MonitorID r := None)\<rparr>))" by metis
  have "lifecycle N job (completedJob now job)"
    using job(2) by (auto simp: jobOwnsLease_def lifecycle_def same_job_def starts_def completedJob_def)
  from jobs_evolve_keeps [OF jobs_keep_finish [OF job(1) this]] s' show ?thesis
    by (simp add: jobs_evolve_def)
qed

lemma store_step_evolve:
  assumes "store_step env c c'" "store_inv env (fst c)"
  shows "jobs_evolve (snd c' - snd c) (fst c) (fst c')"
  using assms
proof (cases rule: store_step.cases)
  case (step_Processing draw I s mid j attempt now lt)
  then have "snd c' - snd c = {newID ''lease'' draw}" by auto
  with step_Processing Processing_evolve show ?thesis by simp
qed (use assms(2) in \<open>auto simp: jobs_evolve_eq Claim_evolve Manual_evolve Published_evolve Release_evolve
    Topology_evolve Failed_evolve Dead_evolve AddCheck_evolve
    jobs_evolve_keeps [OF Update_keeps] jobs_evolve_keeps [OF Delete_keeps]\<close>)

end
