(* ===== verification/Lease_Fencing.thy ===== *)
theory Lease_Fencing
  imports Job_Lifecycle
begin

text \<open>
  Fencing of processing leases: a token belongs to at most one job, it is never issued
  twice, and once its job has left \<open>processing\<close> the lease can change nothing any more.
\<close>

section \<open>Tokens held by jobs\<close>

lemma store_inv_token:
  "store_inv env s \<Longrightarrow> checkJobs s j = Some job \<Longrightarrow>
   job_LeaseToken job \<noteq> [] \<longleftrightarrow> job_Status job = checkJobStatusProcessing"
  using store_inv_job [of env s j job] by (simp add: job_ok_def)

definition holds_token :: "MonitorStore \<Rightarrow> string \<Rightarrow> string \<Rightarrow> bool" where
  "holds_token s j t \<longleftrightarrow> t \<noteq> [] \<and> (\<exists>job. checkJobs s j = Some job \<and> job_LeaseToken job = t)"

definition tokens_ok :: "config \<Rightarrow> bool" where
  "tokens_ok c \<longleftrightarrow> (\<forall>j t. holds_token (fst c) j t \<longrightarrow> t \<in> snd c)
     \<and> (\<forall>j k t. holds_token (fst c) j t \<and> holds_token (fst c) k t \<longrightarrow> j = k)"

lemma evolve_tokens:
  "jobs_evolve {} s s' \<Longrightarrow> holds_token s' j t \<Longrightarrow> holds_token s j t"
  by (fastforce simp: jobs_evolve_def holds_token_def lifecycle_def newborn_def split: if_splits)

lemma processing_tokens:
  assumes "holds_token (snd (MarkJobProcessing mid j attempt draw now lt s)) k t"
  shows "holds_token s k t \<or> k = j \<and> t = newID ''lease'' draw"
proof (cases "MarkJobProcessing mid j attempt draw now lt s")
  case (Pair r s')
  show ?thesis
  proof (cases r)
    case (Inl e)
    with Pair assms MarkJobProcessing_Inl show ?thesis by fastforce
  next
    case (Inr lease)
    with Pair obtain job where
      "s' = s\<lparr>checkJobs := (checkJobs s)(j \<mapsto> startProcessing attempt draw now lt job)\<rparr>"
      using MarkJobProcessing_Inr by metis
    with assms Pair show ?thesis by (auto simp: holds_token_def split: if_splits)
  qed
qed

text \<open>In one step the tokens held before may disappear, and the ones that appear are new.\<close>

lemma step_tokens:
  assumes st: "store_step env c c'" and inv: "store_inv env (fst c)"
  obtains (old) "snd c' = snd c" "\<And>j t. holds_token (fst c') j t \<Longrightarrow> holds_token (fst c) j t"
  | (issued) k u where "u \<notin> snd c" "snd c' = insert u (snd c)"
      "\<And>j t. holds_token (fst c') j t \<Longrightarrow> holds_token (fst c) j t \<or> j = k \<and> t = u"
proof (cases "snd c' = snd c")
  case True
  with store_step_evolve [OF st inv] have "jobs_evolve {} (fst c) (fst c')" by simp
  from evolve_tokens [OF this] True old show thesis by blast
next
  case False
  from st show thesis
  proof (cases rule: store_step.cases)
    case (step_Processing draw I s mid j attempt now lt)
    with processing_tokens show thesis
      by (intro issued [of "newID ''lease'' draw" j]) fastforce+
  qed (use False in simp_all)
qed

lemma step_tokens_ok:
  assumes "store_step env c c'" "store_inv env (fst c)" "tokens_ok c"
  shows "tokens_ok c'"
proof (cases rule: step_tokens [OF assms(1) assms(2), case_names old issued])
  case old
  with assms(3) show ?thesis unfolding tokens_ok_def by metis
next
  case (issued k u)
  have "j = k'" if "holds_token (fst c') j t" "holds_token (fst c') k' t" for j k' t
    using issued(1) issued(3) [OF that(1)] issued(3) [OF that(2)] assms(3) unfolding tokens_ok_def by metis
  with issued assms(3) show ?thesis unfolding tokens_ok_def by blast
qed

lemma reachable_tokens_ok: "store_reachable env policy c \<Longrightarrow> tokens_ok c"
proof (induction rule: store_reachable.induct)
  case reach_init
  then show ?case by (simp add: tokens_ok_def holds_token_def NewMonitorStore_def)
next
  case (reach_step c c')
  then show ?case using step_tokens_ok reachable_inv by blast
qed

section \<open>Revoked leases\<close>

definition revoked :: "config \<Rightarrow> ProcessingLease \<Rightarrow> bool" where
  "revoked c lease \<longleftrightarrow> lease_Token lease \<in> snd c \<and> (\<forall>j. \<not> holds_token (fst c) j (lease_Token lease))"

lemma revoked_step:
  assumes "store_step env c c'" "store_inv env (fst c)" "revoked c lease"
  shows "revoked c' lease"
proof (cases rule: step_tokens [OF assms(1) assms(2), case_names old issued])
  case old
  with assms(3) show ?thesis unfolding revoked_def by metis
next
  case (issued k u)
  with assms(3) show ?thesis unfolding revoked_def by blast
qed

lemma revoked_steps:
  "(store_step env)\<^sup>*\<^sup>* c c' \<Longrightarrow> store_inv env (fst c) \<Longrightarrow> revoked c lease \<Longrightarrow>
   revoked c' lease \<and> store_inv env (fst c')"
  by (induction rule: rtranclp_induct) (auto intro: revoked_step store_step_inv)

lemma revoked_not_owner:
  assumes "revoked c lease" "checkJobs (fst c) j = Some job"
  shows "\<not> jobOwnsLease job lease now"
proof
  assume "jobOwnsLease job lease now"
  then have "holds_token (fst c) j (lease_Token lease)"
    using assms(2) by (auto simp: jobOwnsLease_def holds_token_def)
  with assms(1) show False by (simp add: revoked_def)
qed

text \<open>What an operation under a lease answers when no job is owned by it.\<close>

definition rejects_lease :: "MonitorStore \<Rightarrow> ProcessingLease \<Rightarrow> gotime \<Rightarrow> bool" where
  "rejects_lease s lease now \<longleftrightarrow>
     (\<forall>err retryAt wall. \<exists>e. MarkJobFailed lease err now retryAt wall s = (Some e, s))
     \<and> (\<forall>err nextCheckAt wall. \<exists>e. MarkJobDead lease err now nextCheckAt wall s = (Some e, s))
     \<and> (\<forall>draw r. \<exists>e. AddCheck draw now r lease s = Some (Inl e, s))"

lemma rejects_leaseI:
  assumes no: "\<And>j job. checkJobs s j = Some job \<Longrightarrow> \<not> jobOwnsLease job lease now"
  shows "rejects_lease s lease now"
proof -
  have no': "\<not> jobOwnsLease job lease now" if "activeJobLocked m j s = Inr job" for m j job
    using that no by (auto simp: activeJobLocked_Inr)
  have "\<exists>e. MarkJobFailed lease err now retryAt wall s = (Some e, s)" for err retryAt wall
    using no' by (auto simp: MarkJobFailed_def split: sum.split)
  moreover have "\<exists>e. MarkJobDead lease err now nextCheckAt wall s = (Some e, s)" for err nextCheckAt wall
    using no' by (auto simp: MarkJobDead_def split: option.split sum.split)
  moreover have "\<exists>e. AddCheck draw now r lease s = Some (Inl e, s)" for draw r
    using no by (auto simp: AddCheck_def split: option.split)
  ultimately show ?thesis by (simp add: rejects_lease_def)
qed

lemma revoked_rejects: "revoked c lease \<Longrightarrow> rejects_lease (fst c) lease now"
  by (rule rejects_leaseI) (rule revoked_not_owner)

lemma expired_rejects:
  assumes "\<And>job. checkJobs s (lease_JobID lease) = Some job \<Longrightarrow> job_LeaseExpiresAt job \<le> now"
    and inv: "store_inv env s"
  shows "rejects_lease s lease now"
proof (rule rejects_leaseI)
  fix j job
  assume j: "checkJobs s j = Some job"
  show "\<not> jobOwnsLease job lease now"
  proof
    assume own: "jobOwnsLease job lease now"
    from owned_job_active(2) [OF inv j own] assms(1) j have "job_LeaseExpiresAt job \<le> now" by auto
    with own show False by (simp add: jobOwnsLease_def)
  qed
qed

text \<open>A job that is not processing holds no token, so leaving \<open>processing\<close> revokes the lease.\<close>

lemma left_processing_revokes:
  assumes tok: "tokens_ok c" and inv: "store_inv env (fst c)"
    and own: "checkJobs (fst c) j = Some job" "job_LeaseToken job = lease_Token lease" "lease_Token lease \<noteq> []"
    and st: "store_step env c c'"
    and left: "\<And>job'. checkJobs (fst c') j = Some job' \<Longrightarrow> job_Status job' \<noteq> checkJobStatusProcessing"
  shows "revoked c' lease"
proof -
  have held: "holds_token (fst c) j (lease_Token lease)" using own by (auto simp: holds_token_def)
  with tok have mem: "lease_Token lease \<in> snd c" by (auto simp: tokens_ok_def)
  have inv': "store_inv env (fst c')" using st inv by (rule store_step_inv)
  have notj: "\<not> holds_token (fst c') j (lease_Token lease)"
    using left store_inv_token [OF inv'] own(3) unfolding holds_token_def by metis
  show ?thesis
  proof (cases rule: step_tokens [OF st inv, case_names old issued])
    case old
    have "\<not> holds_token (fst c') k (lease_Token lease)" for k
      using notj old(2) [of k "lease_Token lease"] held tok unfolding tokens_ok_def by blast
    with mem old(1) show ?thesis by (simp add: revoked_def)
  next
    case (issued k u)
    have "\<not> holds_token (fst c') x (lease_Token lease)" for x
      using notj issued(1) issued(3) [of x "lease_Token lease"] held tok mem unfolding tokens_ok_def by blast
    with mem issued(2) show ?thesis by (simp add: revoked_def)
  qed
qed

end
