(* ===== verification/Scenario.thy ===== *)
theory Scenario
  imports Lease_Fencing
begin

text \<open>
  A concrete run of the store, from the empty store to a recorded check, that the
  applications of the general theorems evaluate.
\<close>

definition demo_policy :: NetworkPolicy where
  "demo_policy = \<lparr>allowPrivateNetworks = False, allowProxyEnv = False, maxRedirects = 5,
     allowedPorts = {80, 443}\<rparr>"

definition demo_url :: URL where
  "demo_url = \<lparr>url_Scheme = ''https'', url_User = False, url_Host = ''a.org'', url_Path = [],
     url_RawPath = [], url_RawQuery = [], url_ForceQuery = False, url_Fragment = [],
     url_RawFragment = []\<rparr>"

definition demo_env :: parsers where
  "demo_env = \<lparr>ParseRequestURI = (\<lambda>_. True), ParseURL = (\<lambda>_. Some demo_url), ParseAddr = (\<lambda>_. None)\<rparr>"

definition demo_draw :: id_draw where "demo_draw = (Some [1], 0)"

definition demo_input :: MonitorInput where
  "demo_input = \<lparr>in_URL = ''https://a.org'', in_IntervalSeconds = 60, in_TimeoutSeconds = 5,
     in_ExpectedStatus = 200, in_Enabled = None\<rparr>"

definition demo_mid :: string where "demo_mid = newMonitorID demo_draw"

definition demo_m1 :: Monitor where "demo_m1 = newMonitor demo_draw 100 demo_input"

definition demo_s1 :: MonitorStore where
  "demo_s1 = snd (Create demo_env demo_draw 100 demo_input (NewMonitorStore demo_policy))"

definition demo_ce :: claim_env where
  "demo_ce = \<lparr>ce_recover = [], ce_jobs = [], ce_monitors = [demo_mid], ce_draws = (\<lambda>_. demo_draw),
     ce_wall = 200\<rparr>"

definition demo_jid :: string where "demo_jid = NewCheckJobID 200 demo_mid 100"

definition demo_j2 :: CheckJobRecord where
  "demo_j2 = newScheduledJob 200 200 1000 demo_draw demo_m1"

definition demo_s2 :: MonitorStore where
  "demo_s2 = snd (ClaimDueJobsWithMaxAttempts demo_ce 10 200 1000 3 demo_s1)"

definition demo_claim :: PublicationClaim where
  "demo_claim = PublicationClaim_of demo_j2"

definition demo_j3 :: CheckJobRecord where
  "demo_j3 = demo_j2\<lparr>job_Status := checkJobStatusQueued, job_PublishedAt := 300,
     job_LeaseExpiresAt := zeroTime, job_UpdatedAt := 300\<rparr>"

definition demo_s3 :: MonitorStore where
  "demo_s3 = snd (MarkJobPublished demo_claim 300 demo_s2)"

definition demo_lease :: ProcessingLease where
  "demo_lease = \<lparr>lease_JobID = demo_jid, lease_MonitorID = demo_mid, lease_Attempt = 1,
     lease_Token = newID ''lease'' demo_draw\<rparr>"

definition demo_j4 :: CheckJobRecord where
  "demo_j4 = startProcessing 1 demo_draw 400 1000 demo_j3"

definition demo_s4 :: MonitorStore where
  "demo_s4 = snd (MarkJobProcessing demo_mid demo_jid 1 demo_draw 400 1000 demo_s3)"

definition demo_record :: CheckRecord where
  "demo_record = \<lparr>chk_ID = ''chk_1'', chk_JobID = demo_jid, chk_MonitorID = demo_mid,
     chk_StatusCode = 500, chk_LatencyMS = 12, chk_Error = [], chk_Success = False, chk_CheckedAt = 450\<rparr>"

lemma demo_valid: "validateMonitorInput demo_env demo_input demo_policy = None"
  by code_simp

lemma demo_m1_fields [simp]:
  "mon_ID demo_m1 = demo_mid" "mon_URL demo_m1 = ''https://a.org''" "mon_Enabled demo_m1"
  "mon_NextCheckAt demo_m1 = 100"
  by (simp_all add: demo_m1_def newMonitor_def demo_input_def demo_mid_def)

lemma demo_create:
  "Create demo_env demo_draw 100 demo_input (NewMonitorStore demo_policy) =
   (Inr demo_m1, (NewMonitorStore demo_policy)\<lparr>byID := [demo_mid \<mapsto> demo_m1],
      byURL := [''https://a.org'' \<mapsto> demo_mid]\<rparr>)"
  using demo_valid
  by (simp add: Create_def Let_def NewMonitorStore_def demo_m1_def [symmetric])

lemma demo_s1_eq:
  "demo_s1 = (NewMonitorStore demo_policy)\<lparr>byID := [demo_mid \<mapsto> demo_m1],
      byURL := [''https://a.org'' \<mapsto> demo_mid]\<rparr>"
  by (simp add: demo_s1_def demo_create)

lemma demo_j2_fields [simp]:
  "job_ID demo_j2 = demo_jid" "job_MonitorID demo_j2 = demo_mid" "job_Attempt demo_j2 = 0"
  "job_Status demo_j2 = checkJobStatusScheduled" "job_LeaseExpiresAt demo_j2 = 1200"
  "job_PublicationToken demo_j2 = newID ''publish'' demo_draw" "job_Kind demo_j2 = checkJobKindScheduled"
  by (simp_all add: demo_j2_def demo_jid_def)

lemma demo_claimed:
  "ClaimDueJobsWithMaxAttempts demo_ce 10 200 1000 3 demo_s1 =
   ([demo_j2], demo_s1\<lparr>checkJobs := [demo_jid \<mapsto> demo_j2], activeJobByMonitor := [demo_mid \<mapsto> demo_jid]\<rparr>)"
  by (simp add: ClaimDueJobsWithMaxAttempts_def demo_ce_def Let_def demo_s1_eq NewMonitorStore_def
      demo_j2_def [symmetric] demo_jid_def [symmetric])

lemma demo_s2_eq:
  "demo_s2 = demo_s1\<lparr>checkJobs := [demo_jid \<mapsto> demo_j2], activeJobByMonitor := [demo_mid \<mapsto> demo_jid]\<rparr>"
  by (simp add: demo_s2_def demo_claimed)

lemma demo_published:
  "MarkJobPublished demo_claim 300 demo_s2 = (None, demo_s2\<lparr>checkJobs := [demo_jid \<mapsto> demo_j3]\<rparr>)"
  by (simp add: MarkJobPublished_def publicationJobLocked_def demo_claim_def PublicationClaim_of_def
      demo_s2_eq demo_s1_eq demo_j3_def)

lemma demo_s3_eq: "demo_s3 = demo_s2\<lparr>checkJobs := [demo_jid \<mapsto> demo_j3]\<rparr>"
  by (simp add: demo_s3_def demo_published)

lemma demo_j3_fields [simp]:
  "job_ID demo_j3 = demo_jid" "job_MonitorID demo_j3 = demo_mid" "job_Attempt demo_j3 = 0"
  "job_Status demo_j3 = checkJobStatusQueued" "job_Kind demo_j3 = checkJobKindScheduled"
  by (simp_all add: demo_j3_def)

lemma demo_leased:
  "MarkJobProcessing demo_mid demo_jid 1 demo_draw 400 1000 demo_s3 =
   (Inr demo_lease, demo_s3\<lparr>checkJobs := [demo_jid \<mapsto> demo_j4]\<rparr>)"
  by (simp add: MarkJobProcessing_def activeJobLocked_def demo_s3_eq demo_s2_eq demo_s1_eq
      demo_lease_def demo_j4_def Let_def)

lemma demo_s4_eq: "demo_s4 = demo_s3\<lparr>checkJobs := [demo_jid \<mapsto> demo_j4]\<rparr>"
  by (simp add: demo_s4_def demo_leased)

lemma demo_j4_fields [simp]:
  "job_ID demo_j4 = demo_jid" "job_MonitorID demo_j4 = demo_mid" "job_Attempt demo_j4 = 1"
  "job_Status demo_j4 = checkJobStatusProcessing" "job_Kind demo_j4 = checkJobKindScheduled"
  "job_LeaseExpiresAt demo_j4 = 1400" "job_LeaseToken demo_j4 = newID ''lease'' demo_draw"
  by (simp_all add: demo_j4_def)

lemma demo_owned: "jobOwnsLease demo_j4 demo_lease 450"
  by (simp add: jobOwnsLease_def demo_lease_def)

lemma demo_s4_fields [simp]:
  "checkJobs demo_s4 = [demo_jid \<mapsto> demo_j4]" "byID demo_s4 = [demo_mid \<mapsto> demo_m1]"
  "activeJobByMonitor demo_s4 = [demo_mid \<mapsto> demo_jid]" "incidents demo_s4 = Map.empty"
  "processedJobs demo_s4 = {}" "openIncidentByMonitor demo_s4 = Map.empty" "checks demo_s4 = Map.empty"
  by (simp_all add: demo_s4_eq demo_s3_eq demo_s2_eq demo_s1_eq NewMonitorStore_def)

section \<open>The run is reachable\<close>

lemma demo_reachable_1: "store_reachable demo_env demo_policy (demo_s1, {})"
  unfolding demo_s1_def
  by (rule reach_step [OF reach_init step_Create]) (simp add: NewMonitorStore_def)

lemma demo_reachable_2: "store_reachable demo_env demo_policy (demo_s2, {})"
  unfolding demo_s2_def
  by (rule reach_step [OF demo_reachable_1 step_Claim])
    (simp_all add: demo_ce_def demo_s1_eq)

lemma demo_reachable_3: "store_reachable demo_env demo_policy (demo_s3, {})"
  unfolding demo_s3_def by (rule reach_step [OF demo_reachable_2 step_Published])

lemma demo_step_4: "store_step demo_env (demo_s3, {}) (demo_s4, {newID ''lease'' demo_draw})"
  unfolding demo_s4_def by (rule step_Processing) simp

lemma demo_reachable_4: "store_reachable demo_env demo_policy (demo_s4, {newID ''lease'' demo_draw})"
  by (rule reach_step [OF demo_reachable_3 demo_step_4])

lemmas demo_inv_4 = reachable_inv [OF demo_reachable_4, simplified]

end
