(* ===== verification/Store_Properties.thy ===== *)
theory Store_Properties
  imports Scenario
begin

text \<open>
  The properties of the in-memory store over its reachable states: the representation
  invariant and what it means for clients, the job life cycle, lease fencing, and the
  promises of a claim.
\<close>

section \<open>Invariants of reachable states\<close>

text \<open>
  C3. Every sequence of store operations keeps the representation invariant: the indexes by
  URL, by active job and by open incident agree with the tables, every stored monitor
  is valid under the network policy and active exactly when enabled, a job carries a
  lease token exactly while it is processing, and the retention logs are consistent.
\<close>

theorem store_invariant:
  assumes "store_reachable env policy c"
  shows "store_inv env (fst c)"
  using assms by (rule reachable_inv)

theorem store_invariant_witness: "store_inv demo_env demo_s4"
  using store_invariant [OF demo_reachable_4] by simp

text \<open>
  In every reachable state a monitor has at most one unfinished job and at most one
  unresolved incident, and no two monitors share a URL.
\<close>

theorem uniqueness_in_reachable_states:
  assumes "store_reachable env policy c"
  shows "(\<forall>j k job job'. checkJobs (fst c) j = Some job \<and> checkJobs (fst c) k = Some job'
      \<and> job_MonitorID job = job_MonitorID job' \<and> \<not> terminal_status job \<and> \<not> terminal_status job' \<longrightarrow> j = k)
    \<and> (\<forall>i k inc inc'. incidents (fst c) i = Some inc \<and> incidents (fst c) k = Some inc'
      \<and> inc_MonitorID inc = inc_MonitorID inc' \<and> \<not> resolved_status inc \<and> \<not> resolved_status inc' \<longrightarrow> i = k)
    \<and> (\<forall>i k m m'. byID (fst c) i = Some m \<and> byID (fst c) k = Some m' \<and> mon_URL m = mon_URL m' \<longrightarrow> i = k)"
proof -
  note inv = reachable_inv [OF assms]
  have act: "activeJobByMonitor (fst c) (job_MonitorID job) = Some j"
    if "checkJobs (fst c) j = Some job" "\<not> terminal_status job" for j job
    using that store_inv_active [OF inv] by blast
  have opn: "openIncidentByMonitor (fst c) (inc_MonitorID inc) = Some i"
    if "incidents (fst c) i = Some inc" "\<not> resolved_status inc" for i inc
    using that store_inv_open [OF inv] by blast
  have url: "byURL (fst c) (mon_URL m) = Some i" if "byID (fst c) i = Some m" for i m
    using that store_invD(2) [OF inv] by (auto simp: urls_ok_def)
  show ?thesis
  proof (intro conjI allI impI; elim conjE)
    show "j = k" if "checkJobs (fst c) j = Some job" "checkJobs (fst c) k = Some job'"
      "job_MonitorID job = job_MonitorID job'" "\<not> terminal_status job" "\<not> terminal_status job'" for j k job job'
      using act [OF that(1,4)] act [OF that(2,5)] that(3) by simp
    show "i = k" if "incidents (fst c) i = Some inc" "incidents (fst c) k = Some inc'"
      "inc_MonitorID inc = inc_MonitorID inc'" "\<not> resolved_status inc" "\<not> resolved_status inc'" for i k inc inc'
      using opn [OF that(1,4)] opn [OF that(2,5)] that(3) by simp
    show "i = k" if "byID (fst c) i = Some m" "byID (fst c) k = Some m'" "mon_URL m = mon_URL m'" for i k m m'
      using url [OF that(1)] url [OF that(2)] that(3) by simp
  qed
qed

theorem uniqueness_in_reachable_states_witness:
  "{j. \<exists>job. checkJobs demo_s4 j = Some job \<and> job_MonitorID job = demo_mid \<and> \<not> terminal_status job}
   = {demo_jid}"
proof -
  have "\<not> terminal_status demo_j4" by (simp add: terminal_status_def)
  then have mem: "checkJobs demo_s4 demo_jid = Some demo_j4 \<and> job_MonitorID demo_j4 = demo_mid \<and>
      \<not> terminal_status demo_j4" by simp
  moreover have "j = demo_jid" if "checkJobs demo_s4 j = Some job \<and> job_MonitorID job = demo_mid \<and>
      \<not> terminal_status job" for j job
    using uniqueness_in_reachable_states [OF demo_reachable_4] that mem unfolding fst_conv by metis
  ultimately show ?thesis by blast
qed

text \<open>
  The store's memory is bounded: in every reachable state at most 10,000 finished jobs,
  10,000 resolved incidents and 10,000 processed job identifiers are kept, and at most
  500 check records per monitor.
\<close>

theorem retention_bounds:
  assumes "store_reachable env policy c"
  shows "card {j. \<exists>job. checkJobs (fst c) j = Some job \<and> terminal_status job} \<le> 10000
    \<and> card {i. \<exists>inc. incidents (fst c) i = Some inc \<and> resolved_status inc} \<le> 10000
    \<and> card (processedJobs (fst c)) \<le> 10000
    \<and> (\<forall>m rs. checks (fst c) m = Some rs \<longrightarrow> length rs \<le> 500)"
proof -
  note inv = store_invD [OF reachable_inv [OF assms]]
  have "card (processedJobs (fst c)) \<le> maxProcessedJobIDs"
    using inv(9) by (metis card_length le_trans processed_ok_def)
  with jobs_log.retained_bound(2) [OF inv(7)] incidents_log.retained_bound(2) [OF inv(8)] inv(6)
  show ?thesis
    by (simp add: checks_ok_def maxChecksPerMonitor_def maxProcessedJobIDs_def maxRetainedCheckJobs_def
        maxRetainedResolvedIncidents_def)
qed

theorem retention_bounds_witness:
  "card {j. \<exists>job. checkJobs demo_s4 j = Some job \<and> terminal_status job} \<le> 10000"
  using retention_bounds [OF demo_reachable_4] by simp

section \<open>The life of a job\<close>



section \<open>Leases\<close>

text \<open>
  C1. Lease fencing: once the job a lease was issued for has left processing, for whatever
  reason (completion, failure, expiry and recovery, deletion), the lease stays without
  effect in every later state: failing, burying or completing a job under it returns an
  error and changes nothing.
\<close>

theorem lease_fencing:
  assumes "store_reachable env policy c" and "checkJobs (fst c) j = Some job"
    and "job_LeaseToken job = lease_Token lease" and "lease_Token lease \<noteq> []"
    and "store_step env c c'"
    and "\<forall>job'. checkJobs (fst c') j = Some job' \<longrightarrow> job_Status job' \<noteq> checkJobStatusProcessing"
    and "(store_step env)\<^sup>*\<^sup>* c' c''"
  shows "rejects_lease (fst c'') lease now"
proof -
  note inv = reachable_inv [OF assms(1)]
  have "revoked c' lease"
    using assms(6)
    by (intro left_processing_revokes [OF reachable_tokens_ok [OF assms(1)] inv assms(2-5)]) auto
  with revoked_steps [OF assms(7) store_step_inv [OF assms(5) inv]] show ?thesis
    by (intro revoked_rejects) blast
qed

theorem lease_fencing_witness:
  "rejects_lease (snd (MarkJobFailed demo_lease ''timeout'' 450 900 450 demo_s4)) demo_lease 460"
proof -
  let ?c = "(demo_s4, {newID ''lease'' demo_draw})"
  let ?c' = "(snd (MarkJobFailed demo_lease ''timeout'' 450 900 450 demo_s4), {newID ''lease'' demo_draw})"
  have "activeJobLocked demo_mid demo_jid demo_s4 = Inr demo_j4" by (simp add: activeJobLocked_def)
  then have failed: "\<forall>job'. checkJobs (fst ?c') demo_jid = Some job' \<longrightarrow> job_Status job' \<noteq> checkJobStatusProcessing"
    using demo_owned by (simp add: MarkJobFailed_def demo_lease_def)
  have "rejects_lease (fst ?c') demo_lease 460"
    by (rule lease_fencing [where job = demo_j4, OF demo_reachable_4 _ _ _ step_Failed failed
          rtranclp.rtrancl_refl])
      (simp_all add: demo_lease_def)
  then show ?thesis by simp
qed

text \<open>
  Lease expiry revokes write authority by itself: from the instant the lease of a job has
  run out, before any scheduler has recovered the job, every write under the lease is
  rejected and changes nothing.
\<close>

theorem expired_lease_cannot_write:
  assumes "store_reachable env policy c"
    and "checkJobs (fst c) (lease_JobID lease) = Some job" and "job_LeaseExpiresAt job \<le> now"
  shows "rejects_lease (fst c) lease now"
  using assms by (intro expired_rejects [OF _ reachable_inv [OF assms(1)]]) auto

theorem expired_lease_cannot_write_witness: "rejects_lease demo_s4 demo_lease 1400"
  using expired_lease_cannot_write [OF demo_reachable_4, of demo_lease demo_j4 1400]
  by (simp add: demo_lease_def)

section \<open>Claims\<close>

text \<open>
  C17. A claim hands out at most \<open>limit\<close> different jobs; each is stored exactly as returned, is
  scheduled, carries a non-empty publication token and a publication lease of the
  requested length, and has used fewer attempts than the maximum, so the scheduler never
  publishes an attempt above it.
\<close>

theorem claim_hands_out_publishable_jobs:
  assumes "store_reachable env policy c" and "0 < limit" and "0 < leaseTimeout" and "0 < maxAttempts"
    and "distinct (ce_jobs ce)" and "dom (byID (fst c)) \<subseteq> set (ce_monitors ce)"
    and "ClaimDueJobsWithMaxAttempts ce limit now leaseTimeout maxAttempts (fst c) = (claimed, s')"
  shows "int (length claimed) \<le> limit \<and> distinct (map job_ID claimed)
    \<and> (\<forall>job \<in> set claimed. checkJobs s' (job_ID job) = Some job
         \<and> job_Status job = checkJobStatusScheduled \<and> job_PublicationToken job \<noteq> []
         \<and> job_LeaseExpiresAt job = now + leaseTimeout \<and> job_Attempt job + 1 \<le> maxAttempts)"
proof -
  have "claimed_ok now leaseTimeout maxAttempts limit claimed s'"
    using ClaimDueJobs_result(1) [OF reachable_inv [OF assms(1)] assms(2,5,6) _ _ assms(7)] assms(3,4)
    by simp
  then show ?thesis by (auto simp: claimed_ok_def good_claim_def)
qed

theorem claim_hands_out_publishable_jobs_witness:
  "job_Attempt demo_j2 + 1 \<le> 3 \<and> job_PublicationToken demo_j2 \<noteq> []"
  using claim_hands_out_publishable_jobs
    [OF demo_reachable_1, of 10 1000 3 demo_ce 200 "[demo_j2]" demo_s2]
  by (simp add: demo_claimed demo_s2_eq demo_ce_def demo_s1_eq)

text \<open>
  C18. No due monitor is skipped: when a claim returns fewer jobs than the limit, every enabled
  monitor whose next check is due has an unfinished job afterwards.
\<close>

theorem claim_skips_no_due_monitor:
  assumes "store_reachable env policy c" and "0 < limit"
    and "distinct (ce_jobs ce)" and "dom (byID (fst c)) \<subseteq> set (ce_monitors ce)"
    and "ClaimDueJobsWithMaxAttempts ce limit now leaseTimeout maxAttempts (fst c) = (claimed, s')"
    and "int (length claimed) < limit"
    and "byID s' i = Some m" and "mon_Enabled m" and "mon_NextCheckAt m \<le> now"
  shows "\<exists>j job. activeJobByMonitor s' i = Some j \<and> checkJobs s' j = Some job
    \<and> job_MonitorID job = i \<and> \<not> terminal_status job"
proof -
  note inv = reachable_inv [OF assms(1)]
  obtain j where j: "activeJobByMonitor s' i = Some j"
    using ClaimDueJobs_result(3) [OF inv assms(2,3,4) refl refl assms(5-9)] by blast
  have "store_inv env s'"
    using ClaimDueJobsWithMaxAttempts_inv [OF inv assms(3), of limit now leaseTimeout maxAttempts] assms(5)
    by simp
  with j show ?thesis using store_inv_active by blast
qed

theorem claim_skips_no_due_monitor_witness:
  "\<exists>j job. activeJobByMonitor demo_s2 demo_mid = Some j \<and> checkJobs demo_s2 j = Some job
    \<and> job_MonitorID job = demo_mid \<and> \<not> terminal_status job"
proof (rule claim_skips_no_due_monitor [OF demo_reachable_1])
  show "ClaimDueJobsWithMaxAttempts demo_ce 10 200 1000 3 (fst (demo_s1, {})) = ([demo_j2], demo_s2)"
    by (simp add: demo_claimed demo_s2_eq)
  show "byID demo_s2 demo_mid = Some demo_m1" by (simp add: demo_s2_eq demo_s1_eq)
qed (simp_all add: demo_ce_def demo_s1_eq)

end
