(* ===== verification/Store_Effects.thy ===== *)
theory Store_Effects
  imports Scenario
begin

text \<open>
  The functional behaviour of the store's larger operations: recording a check and the
  incident it opens, counts or resolves, topology recovery, and the update and deletion
  of a monitor.
\<close>

section \<open>Recording a check\<close>

lemma updateIncident_frame [simp]:
  "byID (updateIncident draw r now s) = byID s"
  "checks (updateIncident draw r now s) = checks s"
  "activeJobByMonitor (updateIncident draw r now s) = activeJobByMonitor s"
  "store_policy (updateIncident draw r now s) = store_policy s"
  by (simp_all add: updateIncident_def Let_def split: option.split)

text \<open>The consecutive failures of a monitor: the count of its open incident.\<close>

definition failure_count :: "string \<Rightarrow> MonitorStore \<Rightarrow> int" where
  "failure_count mid s =
     (case openIncidentByMonitor s mid of
        None \<Rightarrow> 0 | Some i \<Rightarrow> inc_FailureCount (lookupIncident i s))"

lemma failure_count_cong:
  "openIncidentByMonitor s = openIncidentByMonitor t \<Longrightarrow> incidents s = incidents t \<Longrightarrow>
   failure_count mid s = failure_count mid t"
  by (simp add: failure_count_def lookupIncident_def split: option.split)

lemma updateIncident_count:
  assumes inv: "store_inv env s" and fresh: "incidents s (newID ''inc'' draw) = None"
  shows "failure_count mid (updateIncident draw r now s) =
    (if mid \<noteq> chk_MonitorID r then failure_count mid s
     else if chk_Success r then 0 else wrap64 (failure_count mid s + 1))"
proof (cases "openIncidentByMonitor s (chk_MonitorID r)")
  case None
  have other: "openIncidentByMonitor s m \<noteq> Some (newID ''inc'' draw)" for m
    using fresh store_inv_open [OF inv, of m] by auto
  have "wrap64 1 = 1" by (simp add: wrap64_id int64_range_def)
  with None other show ?thesis
    by (auto simp: updateIncident_def Let_def failure_count_def lookupIncident_def split: option.split)
next
  case (Some i)
  have other: "openIncidentByMonitor s m \<noteq> Some i" if "m \<noteq> chk_MonitorID r" for m
    using Some that store_inv_open [OF inv, of m i] store_inv_open [OF inv, of "chk_MonitorID r" i] by auto
  show ?thesis
  proof (cases "chk_Success r")
    case False
    with Some other show ?thesis
      by (auto simp: updateIncident_def Let_def failure_count_def lookupIncident_def split: option.split)
  next
    case True
    let ?inc = "(lookupIncident i s)\<lparr>inc_Status := incidentStatusResolved,
      inc_ResolvedAt := chk_CheckedAt r, inc_UpdatedAt := now\<rparr>"
    let ?t = "s\<lparr>incidents := (incidents s)(i \<mapsto> ?inc),
      openIncidentByMonitor := (openIncidentByMonitor s)(chk_MonitorID r := None)\<rparr>"
    have u: "updateIncident draw r now s = rememberResolvedIncidentLocked i ?t"
      using True Some by (simp add: updateIncident_def Let_def)
    have ok: "resolved_head_ok ?t" "length (resolved_live ?t) \<le> maxRetainedResolvedIncidents"
      using store_inv_incidents_retained [OF inv] by (simp_all add: resolved_head_ok_def resolved_live_def)
    have same: "incidents (rememberResolvedIncidentLocked i ?t) k = incidents s k"
      if "openIncidentByMonitor s m = Some k" "m \<noteq> chk_MonitorID r" for m k
    proof -
      from that store_inv_open [OF inv] obtain inc where
        k: "incidents s k = Some inc" "\<not> resolved_status inc" by blast
      have "incidents ?t k = Some inc" using k other that by auto
      from incidents_log.remember_keeps [OF ok this k(2), of i] k(1) show ?thesis by simp
    qed
    show ?thesis
      unfolding u using True same
      by (auto simp: failure_count_def lookupIncident_def split: option.split)
  qed
qed

lemma AddCheck_state:
  assumes inv: "store_inv env s" and call: "AddCheck draw now r lease s = Some (Inr m', s')"
  obtains m job s4 where "byID s (chk_MonitorID r) = Some m" "checkJobs s (chk_JobID r) = Some job"
    "jobOwnsLease job lease now" "job_MonitorID job = chk_MonitorID r" "m' = checkedMonitor now r job m"
    "s' = updateIncident draw r now s4"
    "byID s4 = (byID s)(chk_MonitorID r \<mapsto> m')"
    "checks s4 = (checks s)(chk_MonitorID r \<mapsto> appendCheck r (checkHistory (chk_MonitorID r) s))"
    "activeJobByMonitor s4 = (activeJobByMonitor s)(chk_MonitorID r := None)"
    "incidents s4 = incidents s" "openIncidentByMonitor s4 = openIncidentByMonitor s"
    "resolvedIncidentOrder s4 = resolvedIncidentOrder s" "resolvedIncidentHead s4 = resolvedIncidentHead s"
proof -
  from AddCheck_Inr [OF inv call] obtain m job where
    mj: "byID s (chk_MonitorID r) = Some m" "checkJobs s (chk_JobID r) = Some job"
    "jobOwnsLease job lease now" "job_MonitorID job = chk_MonitorID r"
    and cc: "completeCheck draw now r job m s = Some (m', s')" by metis
  from rememberProcessedJobLocked_ok [OF store_invD(9) [OF inv], of "chk_JobID r"]
  obtain s1 where r1: "rememberProcessedJobLocked (chk_JobID r) s = Some s1"
    and s1: "s1 = s\<lparr>processedJobs := processedJobs s1, processedJobOrder := processedJobOrder s1,
            processedJobHead := processedJobHead s1\<rparr>" by blast
  have f: "checks s1 = checks s" "byID s1 = byID s" "activeJobByMonitor s1 = activeJobByMonitor s"
    "incidents s1 = incidents s" "openIncidentByMonitor s1 = openIncidentByMonitor s"
    "resolvedIncidentOrder s1 = resolvedIncidentOrder s" "resolvedIncidentHead s1 = resolvedIncidentHead s"
    by (subst s1, simp)+
  define s2 where "s2 = rememberTerminalJobLocked (chk_JobID r)
              (s1\<lparr>checkJobs := (checkJobs s1)(chk_JobID r \<mapsto> completedJob now job),
                 activeJobByMonitor := (activeJobByMonitor s1)(chk_MonitorID r := None)\<rparr>)"
  define s3 where "s3 = s2\<lparr>byID := (byID s2)(chk_MonitorID r \<mapsto> checkedMonitor now r job m)\<rparr>"
  define s4 where "s4 = s3\<lparr>checks := (checks s3)(chk_MonitorID r \<mapsto>
      appendCheck r (checkHistory (chk_MonitorID r) s3))\<rparr>"
  have "completeCheck draw now r job m s =
      Some (checkedMonitor now r job m, updateIncident draw r now s4)"
    unfolding completeCheck_alt r1 option.case Let_def s2_def [symmetric] s3_def [symmetric]
      s4_def [symmetric] by (rule refl)
  with cc have eq: "m' = checkedMonitor now r job m" "s' = updateIncident draw r now s4" by simp_all
  have "checkHistory (chk_MonitorID r) s3 = checkHistory (chk_MonitorID r) s"
    using f by (simp add: checkHistory_def s3_def s2_def)
  then show thesis
    using f by (intro that [OF mj eq]) (simp_all add: s4_def s3_def s2_def eq(1))
qed

lemma AddCheck_finishes:
  assumes inv: "store_inv env s" and call: "AddCheck draw now r lease s = Some (Inr m', s')"
    and job': "checkJobs s' (chk_JobID r) = Some job'"
  shows "job_Status job' = checkJobStatusCompleted"
proof -
  from AddCheck_Inr [OF inv call] obtain m job where
    s': "checkJobs s' = checkJobs (rememberTerminalJobLocked (chk_JobID r)
       (s\<lparr>checkJobs := (checkJobs s)(chk_JobID r \<mapsto> completedJob now job),
          activeJobByMonitor := (activeJobByMonitor s)(chk_MonitorID r := None)\<rparr>))" by metis
  obtain h jobs where ev: "evictLoop maxRetainedCheckJobs terminal_status
      (terminalJobOrder s @ [chk_JobID r]) (terminalJobHead s)
      ((checkJobs s)(chk_JobID r \<mapsto> completedJob now job)) = (h, jobs)" by (rule prod.exhaust)
  have "jobs (chk_JobID r) = Some job'"
    using job' unfolding s' by (simp add: rememberTerminalJobLocked_checkJobs ev)
  from evictLoop_sub [OF ev this] show ?thesis by (auto simp: completedJob_def)
qed


lemma demo_recorded:
  obtains m' s' where "AddCheck demo_draw 450 demo_record demo_lease demo_s4 = Some (Inr m', s')"
proof -
  have r: "chk_JobID demo_record = demo_jid" "chk_MonitorID demo_record = demo_mid"
    by (simp_all add: demo_record_def)
  have ne: "demo_jid \<noteq> []" by (simp add: demo_jid_def NewCheckJobID_def Let_def)
  obtain s' where "completeCheck demo_draw 450 demo_record demo_j4 demo_m1 demo_s4 =
      Some (checkedMonitor 450 demo_record demo_j4 demo_m1, s')"
    by (rule completeCheck_inv [OF demo_inv_4, of demo_record demo_j4 demo_lease 450 demo_m1 demo_draw])
      (use ne demo_owned in \<open>auto simp: r\<close>)
  then have "AddCheck demo_draw 450 demo_record demo_lease demo_s4 =
      Some (Inr (checkedMonitor 450 demo_record demo_j4 demo_m1), s')"
    using ne demo_owned by (simp add: AddCheck_def r)
  then show thesis by (rule that)
qed


section \<open>Topology loss\<close>

lemma topologyLoop_result:
  assumes "distinct ks"
  shows "snd (topologyLoop now ks n s) = s\<lparr>checkJobs := (\<lambda>j. case checkJobs s j of None \<Rightarrow> None
       | Some job \<Rightarrow> Some (if j \<in> set ks \<and> topologyLost job then recoverTopologyJob now job else job))\<rparr>"
    and "fst (topologyLoop now ks n s) =
       n + card {j \<in> set ks. \<exists>job. checkJobs s j = Some job \<and> topologyLost job}"
proof -
  have "snd (topologyLoop now ks n s) = s\<lparr>checkJobs := (\<lambda>j. case checkJobs s j of None \<Rightarrow> None
       | Some job \<Rightarrow> Some (if j \<in> set ks \<and> topologyLost job then recoverTopologyJob now job else job))\<rparr>
    \<and> fst (topologyLoop now ks n s) =
       n + card {j \<in> set ks. \<exists>job. checkJobs s j = Some job \<and> topologyLost job}"
    using assms
  proof (induction ks arbitrary: n s)
    case Nil
    have eq: "(\<lambda>j. case checkJobs s j of None \<Rightarrow> None | Some job \<Rightarrow>
        Some (if j \<in> set [] \<and> topologyLost job then recoverTopologyJob now job else job)) = checkJobs s"
      by (auto simp: fun_eq_iff split: option.split)
    show ?case unfolding eq by simp
  next
    case (Cons k ks)
    show ?case
    proof (cases "\<exists>job. checkJobs s k = Some job \<and> topologyLost job")
      case True
      then obtain job where job: "checkJobs s k = Some job" "topologyLost job" by blast
      let ?t = "s\<lparr>checkJobs := (checkJobs s)(k \<mapsto> recoverTopologyJob now job)\<rparr>"
      have nl: "\<not> topologyLost (recoverTopologyJob now job)"
        by (simp add: topologyLost_def recoverTopologyJob_def)
      have set1: "{j \<in> set (k # ks). \<exists>job. checkJobs s j = Some job \<and> topologyLost job} =
          insert k {j \<in> set ks. \<exists>job. checkJobs ?t j = Some job \<and> topologyLost job}"
        using job Cons.prems by auto
      have notin: "k \<notin> {j \<in> set ks. \<exists>job. checkJobs ?t j = Some job \<and> topologyLost job}"
        using Cons.prems by auto
      have map1: "(\<lambda>j. case checkJobs ?t j of None \<Rightarrow> None | Some job \<Rightarrow>
            Some (if j \<in> set ks \<and> topologyLost job then recoverTopologyJob now job else job)) =
          (\<lambda>j. case checkJobs s j of None \<Rightarrow> None | Some job \<Rightarrow>
            Some (if j \<in> set (k # ks) \<and> topologyLost job then recoverTopologyJob now job else job))"
        using job Cons.prems by (auto simp: fun_eq_iff split: option.split)
      from Cons.IH [of "Suc n" ?t] Cons.prems job notin show ?thesis
        unfolding set1 map1 [symmetric] by simp
    next
      case False
      have "{j \<in> set (k # ks). \<exists>job. checkJobs s j = Some job \<and> topologyLost job} =
          {j \<in> set ks. \<exists>job. checkJobs s j = Some job \<and> topologyLost job}" using False by auto
      moreover have "(\<lambda>j. case checkJobs s j of None \<Rightarrow> None | Some job \<Rightarrow>
            Some (if j \<in> set (k # ks) \<and> topologyLost job then recoverTopologyJob now job else job)) =
          (\<lambda>j. case checkJobs s j of None \<Rightarrow> None | Some job \<Rightarrow>
            Some (if j \<in> set ks \<and> topologyLost job then recoverTopologyJob now job else job))"
        using False by (auto simp: fun_eq_iff split: option.split)
      ultimately show ?thesis using Cons.IH [of n s] Cons.prems False by (auto split: option.split)
    qed
  qed
  then show "snd (topologyLoop now ks n s) = s\<lparr>checkJobs := (\<lambda>j. case checkJobs s j of None \<Rightarrow> None
       | Some job \<Rightarrow> Some (if j \<in> set ks \<and> topologyLost job then recoverTopologyJob now job else job))\<rparr>"
    and "fst (topologyLoop now ks n s) =
       n + card {j \<in> set ks. \<exists>job. checkJobs s j = Some job \<and> topologyLost job}" by blast+
qed

lemma topology_recovery_jobs:
  assumes "iter_order (checkJobs s) ks"
    and "RecoverQueuedJobsAfterTopologyLoss ks now s = (n, s')"
  shows "n = card {j. \<exists>job. checkJobs s j = Some job \<and> topologyLost job}
    \<and> (\<forall>j job. checkJobs s j = Some job \<longrightarrow>
         checkJobs s' j = Some (if topologyLost job then recoverTopologyJob now job else job))
    \<and> (\<forall>claim job. checkJobs s (claim_JobID claim) = Some job \<and> topologyLost job \<longrightarrow>
         (\<exists>e. MarkJobPublished claim now s' = (Some e, s'))
         \<and> (\<exists>e. ReleaseJobPublish claim msg now s' = (Some e, s')))"
proof -
  from assms have ks: "distinct ks" "set ks = dom (checkJobs s)" by (simp_all add: iter_order_def)
  have n: "n = card {j \<in> set ks. \<exists>job. checkJobs s j = Some job \<and> topologyLost job}"
    and s': "s' = s\<lparr>checkJobs := (\<lambda>j. case checkJobs s j of None \<Rightarrow> None
       | Some job \<Rightarrow> Some (if j \<in> set ks \<and> topologyLost job then recoverTopologyJob now job else job))\<rparr>"
    using topologyLoop_result [OF ks(1), of now 0 s] assms(2)
    by (simp_all add: RecoverQueuedJobsAfterTopologyLoss_def)
  have "{j \<in> set ks. \<exists>job. checkJobs s j = Some job \<and> topologyLost job} =
      {j. \<exists>job. checkJobs s j = Some job \<and> topologyLost job}" using ks(2) by auto
  moreover have jobs: "checkJobs s' j = Some (if topologyLost job then recoverTopologyJob now job else job)"
    if "checkJobs s j = Some job" for j job
    using that ks(2) by (auto simp: s')
  moreover have "\<exists>e. publicationJobLocked claim s' = Inl e"
    if "checkJobs s (claim_JobID claim) = Some job" "topologyLost job" for claim job
    using jobs [OF that(1)] that(2)
    by (auto simp: publicationJobLocked_def recoverTopologyJob_def split: option.split)
  then have "(\<exists>e. MarkJobPublished claim now s' = (Some e, s'))
         \<and> (\<exists>e. ReleaseJobPublish claim msg now s' = (Some e, s'))"
    if "checkJobs s (claim_JobID claim) = Some job" "topologyLost job" for claim job
    using that by (fastforce simp: MarkJobPublished_def ReleaseJobPublish_def)
  ultimately show ?thesis using n by auto
qed

text \<open>A job whose message may be on the broker.\<close>

definition awaits_worker :: "CheckJobRecord \<Rightarrow> bool" where
  "awaits_worker job \<longleftrightarrow> job_Status job \<in> {checkJobStatusScheduled, checkJobStatusQueued}"

text \<open>What recovery makes of a job: the same job and attempt, failed and available at once, without a
  lease or a publication claim.\<close>

definition back_in_schedule :: "gotime \<Rightarrow> CheckJobRecord \<Rightarrow> CheckJobRecord \<Rightarrow> bool" where
  "back_in_schedule now job job' \<longleftrightarrow>
     job_ID job' = job_ID job \<and> job_MonitorID job' = job_MonitorID job \<and> job_Attempt job' = job_Attempt job
     \<and> job_Status job' = checkJobStatusFailed \<and> job_AvailableAt job' = now \<and> job_LeaseToken job' = []
     \<and> job_PublicationToken job' = []"

lemma recoverTopologyJob_back: "back_in_schedule now job (recoverTopologyJob now job)"
  by (simp add: back_in_schedule_def recoverTopologyJob_def)

text \<open>
  C19. Recovery after a loss of the broker topology sends exactly the scheduled and queued jobs
  to failed, available at once, whatever the order in which it visits them, and counts
  them. Processing jobs keep their leases, and every publication claim held for a
  recovered job is revoked: marking it published or releasing it is rejected and
  changes nothing.
\<close>

theorem topology_recovery:
  assumes "iter_order (checkJobs s) ks"
    and "RecoverQueuedJobsAfterTopologyLoss ks now s = (n, s')"
  shows "n = card {j. \<exists>job. checkJobs s j = Some job \<and> awaits_worker job}
    \<and> (\<forall>j job. checkJobs s j = Some job \<longrightarrow>
         (if awaits_worker job then \<exists>job'. checkJobs s' j = Some job' \<and> back_in_schedule now job job'
          else checkJobs s' j = Some job))
    \<and> (\<forall>claim job. checkJobs s (claim_JobID claim) = Some job \<and> awaits_worker job \<longrightarrow>
         (\<exists>e. MarkJobPublished claim now s' = (Some e, s'))
         \<and> (\<exists>e. ReleaseJobPublish claim msg now s' = (Some e, s')))"
proof -
  have lost: "awaits_worker job \<longleftrightarrow> topologyLost job" for job
    by (auto simp: awaits_worker_def topologyLost_def)
  from topology_recovery_jobs [OF assms, of msg] show ?thesis
    unfolding lost by (simp add: recoverTopologyJob_back)
qed

theorem topology_recovery_witness:
  "fst (RecoverQueuedJobsAfterTopologyLoss [demo_jid] 500 demo_s3) = 1
   \<and> (\<exists>job'. checkJobs (snd (RecoverQueuedJobsAfterTopologyLoss [demo_jid] 500 demo_s3)) demo_jid = Some job'
        \<and> back_in_schedule 500 demo_j3 job')"
proof -
  obtain n s' where r: "RecoverQueuedJobsAfterTopologyLoss [demo_jid] 500 demo_s3 = (n, s')"
    by (rule prod.exhaust)
  have jobs: "checkJobs demo_s3 = [demo_jid \<mapsto> demo_j3]" by (simp add: demo_s3_eq)
  then have "iter_order (checkJobs demo_s3) [demo_jid]" by (simp add: iter_order_def)
  note t = topology_recovery [OF this r]
  have lost: "awaits_worker demo_j3" by (simp add: awaits_worker_def)
  then have "{j. \<exists>job. checkJobs demo_s3 j = Some job \<and> awaits_worker job} = {demo_jid}"
    using jobs by auto
  with t lost jobs r show ?thesis by simp
qed

end
