(* ===== verification/Store_Queries.thy ===== *)
theory Store_Queries
  imports Scenario
begin

text \<open>
  Updates and deletions as their callers see them, and the queries of the store: listings
  do not depend on the iteration order of a Go map, never panic on the pages the API asks
  for, and the statistics are the exact ratios of the recorded checks.
\<close>

section \<open>Deletion\<close>

text \<open>
  Deleting a monitor removes every trace of it: the monitor, its URL, its checks, jobs,
  incidents and index entries; a lease on one of its jobs has no effect any more; and
  the monitors, jobs, incidents and checks of all others stay as they were.
\<close>

theorem delete_removes_everything:
  assumes "store_reachable env policy c" and "Delete mid (fst c) = (None, s')"
  shows "Get mid s' = Inl ErrMonitorNotFound
    \<and> (\<forall>u. byURL s' u \<noteq> Some mid) \<and> checks s' mid = None
    \<and> activeJobByMonitor s' mid = None \<and> openIncidentByMonitor s' mid = None
    \<and> (\<forall>j. checkJobs s' j = (case checkJobs (fst c) j of None \<Rightarrow> None
         | Some job \<Rightarrow> if job_MonitorID job = mid then None else Some job))
    \<and> (\<forall>i. incidents s' i = (case incidents (fst c) i of None \<Rightarrow> None
         | Some inc \<Rightarrow> if inc_MonitorID inc = mid then None else Some inc))
    \<and> (\<forall>i. i \<noteq> mid \<longrightarrow> byID s' i = byID (fst c) i \<and> checks s' i = checks (fst c) i)
    \<and> (\<forall>lease now. lease_MonitorID lease = mid \<longrightarrow> rejects_lease s' lease now)"
proof -
  note inv = reachable_inv [OF assms(1)]
  from assms(2) obtain m where m: "byID (fst c) mid = Some m"
    by (auto simp: Delete_def split: option.splits)
  from Delete_state [OF inv m] assms(2) have s': "s' = (fst c)\<lparr>byID := (byID (fst c))(mid := None),
     byURL := (byURL (fst c))(mon_URL m := None), checks := (checks (fst c))(mid := None),
     checkJobs := delete_where (\<lambda>job. job_MonitorID job = mid) (checkJobs (fst c)),
     activeJobByMonitor := (activeJobByMonitor (fst c))(mid := None),
     openIncidentByMonitor := (openIncidentByMonitor (fst c))(mid := None),
     incidents := delete_where (\<lambda>i. inc_MonitorID i = mid) (incidents (fst c))\<rparr>" by simp
  have "byURL s' u \<noteq> Some mid" for u
    using store_invD(2) [OF inv] m by (auto simp: s' urls_ok_def)
  moreover have "rejects_lease s' lease now" if "lease_MonitorID lease = mid" for lease now
  proof (rule rejects_leaseI)
    fix j job
    assume "checkJobs s' j = Some job"
    then have "job_MonitorID job \<noteq> mid" by (simp add: s' delete_where_Some)
    with that show "\<not> jobOwnsLease job lease now" by (auto simp: jobOwnsLease_def)
  qed
  ultimately show ?thesis by (simp add: s' Get_def delete_where_def)
qed

theorem delete_removes_everything_witness:
  "Get demo_mid (snd (Delete demo_mid demo_s4)) = Inl ErrMonitorNotFound
   \<and> rejects_lease (snd (Delete demo_mid demo_s4)) demo_lease 450"
proof -
  have "byID demo_s4 demo_mid = Some demo_m1" by simp
  then have "Delete demo_mid (fst (demo_s4, {newID ''lease'' demo_draw})) =
      (None, snd (Delete demo_mid demo_s4))"
    by (simp add: Delete_def Let_def)
  moreover have "lease_MonitorID demo_lease = demo_mid" by (simp add: demo_lease_def)
  ultimately show ?thesis using delete_removes_everything [OF demo_reachable_4] by blast
qed

section \<open>Updates\<close>

lemma reschedule_not_past: "now \<le> reschedule monitor now updated"
  by (simp add: reschedule_def nextCheckAfterIntervalChange_def Let_def)

lemma finishActiveJobLocked_clears:
  "activeJobByMonitor (finishActiveJobLocked m checkJobStatusDead e now s) m = None"
  by (auto simp: finishActiveJobLocked_def Let_def split: option.split)

lemma resolveOpenIncidentLocked_clears:
  "openIncidentByMonitor (resolveOpenIncidentLocked m now s) m = None"
  by (auto simp: resolveOpenIncidentLocked_def split: option.split)

lemma updateEffects_clears:
  "\<not> en \<or> sem \<Longrightarrow> activeJobByMonitor (updateEffects m now en sem s) m = None"
  "sem \<Longrightarrow> openIncidentByMonitor (updateEffects m now en sem s) m = None"
  by (auto simp: updateEffects_def Let_def finishActiveJobLocked_clears resolveOpenIncidentLocked_clears)

lemma reschedule_upd: "reschedule m now (u\<lparr>mon_UpdatedAt := t\<rparr>) = reschedule m now u"
  by (simp add: reschedule_def checkSemanticsChanged_def)

text \<open>
  A successful update stores a monitor that is valid and active exactly when enabled; an
  enabled monitor is never left with a check time in the past, and is checked at once
  when what is checked (URL, timeout, expected status) changed or it was just enabled.
  Disabling a monitor, or changing what is checked, leaves it without an unfinished job,
  so the result of a check of the old configuration cannot be recorded; a change of what
  is checked also clears the last result and closes the open incident.
\<close>

theorem update_effect:
  assumes "store_reachable env policy c" and "Update env mid patch now (fst c) = (Inr m', s')"
  shows "\<exists>m. byID (fst c) mid = Some m \<and> byID s' = (byID (fst c))(mid \<mapsto> m')
    \<and> monitor_ok env (store_policy s') mid m'
    \<and> (mon_Enabled m' \<longrightarrow> now \<le> mon_NextCheckAt m')
    \<and> (mon_Enabled m' \<and> (checkSemanticsChanged m' m \<or> \<not> mon_Enabled m) \<longrightarrow> mon_NextCheckAt m' = now)
    \<and> (\<not> mon_Enabled m' \<or> checkSemanticsChanged m' m \<longrightarrow> activeJobByMonitor s' mid = None
         \<and> (\<forall>j job. checkJobs s' j = Some job \<and> job_MonitorID job = mid \<longrightarrow> terminal_status job))
    \<and> (checkSemanticsChanged m' m \<longrightarrow> openIncidentByMonitor s' mid = None
         \<and> mon_LastCheckedAt m' = zeroTime \<and> mon_LastError m' = [])"
proof (cases rule: Update_cases [of env mid patch now "fst c"])
  case (rejected e)
  with assms(2) show ?thesis by simp
next
  case (accepted m)
  note inv = reachable_inv [OF assms(1)]
  have inv': "store_inv env s'" using Update_inv [OF inv, of mid patch now] assms(2) by simp
  let ?u = "apply_patch patch m"
  have m': "m' = updatedMonitor patch now m"
    and s': "s' = updateEffects mid now (mon_Enabled ?u) (checkSemanticsChanged ?u m)
       ((fst c)\<lparr>byURL := (if mon_URL ?u \<noteq> mon_URL m
            then ((byURL (fst c))(mon_URL m := None))(mon_URL ?u \<mapsto> mid) else byURL (fst c)),
          byID := (byID (fst c))(mid \<mapsto> updatedMonitor patch now m)\<rparr>)"
    using assms(2) by (auto simp only: Update_success [OF accepted(1,2)] accepted(3) prod.inject sum.inject)
  have by': "byID s' = (byID (fst c))(mid \<mapsto> m')" by (simp add: s' m')
  have en: "mon_Enabled m' = mon_Enabled ?u" by (simp add: m')
  have sem: "checkSemanticsChanged m' m = checkSemanticsChanged ?u m"
    by (simp add: m' checkSemanticsChanged_def updatedMonitor_def Let_def)
  have "monitor_ok env (store_policy s') mid m'" using store_inv_monitor [OF inv'] by' by simp
  moreover have nxt: "mon_NextCheckAt m' = reschedule m now ?u" if "mon_Enabled m'"
    using that en by (simp add: m' updatedMonitor_def Let_def reschedule_upd)
  moreover have "mon_NextCheckAt m' = now"
    if "mon_Enabled m'" "checkSemanticsChanged m' m \<or> \<not> mon_Enabled m"
    using nxt [OF that(1)] that sem en by (auto simp: reschedule_def)
  moreover have "activeJobByMonitor s' mid = None" if "\<not> mon_Enabled m' \<or> checkSemanticsChanged m' m"
    using that en sem by (simp add: s' updateEffects_clears(1))
  moreover have "openIncidentByMonitor s' mid = None" if "checkSemanticsChanged m' m"
    using that sem by (simp add: s' updateEffects_clears(2))
  moreover have "mon_LastCheckedAt m' = zeroTime \<and> mon_LastError m' = []" if "checkSemanticsChanged m' m"
    using that sem by (simp add: m' updatedMonitor_def Let_def)
  ultimately show ?thesis
    using accepted(1) by' store_inv_active [OF inv', of mid] reschedule_not_past [of now m ?u]
    by (intro exI [of _ m]) auto
qed

theorem update_effect_witness:
  "\<exists>m' s'. Update demo_env demo_mid \<lparr>patch_URL = None, patch_IntervalSeconds = None,
       patch_TimeoutSeconds = Some 9, patch_ExpectedStatus = None, patch_Enabled = None\<rparr> 500 demo_s4
       = (Inr m', s') \<and> activeJobByMonitor s' demo_mid = None \<and> mon_NextCheckAt m' = 500"
proof -
  let ?p = "\<lparr>patch_URL = None, patch_IntervalSeconds = None, patch_TimeoutSeconds = Some 9,
    patch_ExpectedStatus = None, patch_Enabled = None\<rparr> :: MonitorPatch"
  let ?u = "apply_patch ?p demo_m1"
  have u: "mon_URL ?u = ''https://a.org''" "mon_Enabled ?u" "mon_TimeoutSeconds ?u = 9"
    by (simp_all add: apply_patch_def)
  have t: "mon_TimeoutSeconds demo_m1 = 5" by (simp add: demo_m1_def newMonitor_def demo_input_def Let_def)
  have "store_policy demo_s4 = demo_policy" "byURL demo_s4 = [''https://a.org'' \<mapsto> demo_mid]"
    by (simp_all add: demo_s4_eq demo_s3_eq demo_s2_eq demo_s1_eq NewMonitorStore_def)
  moreover have "validateMonitorInput demo_env (input_of ?u) demo_policy = None"
    using demo_valid
    by (auto simp: validateMonitorInput_None input_of_def apply_patch_def demo_m1_def newMonitor_def
        demo_input_def Let_def)
  ultimately have "Update demo_env demo_mid ?p 500 (fst (demo_s4, {newID ''lease'' demo_draw})) =
      (Inr (updatedMonitor ?p 500 demo_m1), snd (Update demo_env demo_mid ?p 500 demo_s4))"
    using Update_success [of demo_s4 demo_mid demo_m1 demo_env ?p 500] u by (simp split: if_splits)
  note eff = update_effect [OF demo_reachable_4 this]
  have "checkSemanticsChanged (updatedMonitor ?p 500 demo_m1) demo_m1"
    using u t by (simp add: checkSemanticsChanged_def updatedMonitor_def Let_def)
  with eff u \<open>Update demo_env demo_mid ?p 500 (fst (demo_s4, {newID ''lease'' demo_draw})) = _\<close>
  show ?thesis by auto
qed

section \<open>Listings\<close>

lemma monitor_created_key_inj:
  assumes "store_inv env s"
  shows "inj_on monitor_created_key (ran (byID s))"
  using store_inv_monitor [OF assms]
  by (auto simp: inj_on_def monitor_created_key_def ran_def monitor_ok_def)

text \<open>
  Listing monitors does not depend on the order in which Go iterates the map, never panics
  for a non-negative offset and limit, and returns the requested window of all stored
  monitors sorted by creation time and identifier, with the total number.
\<close>

theorem list_is_a_window:
  assumes "store_reachable env policy c"
    and "iter_order (byID (fst c)) ks" and "iter_order (byID (fst c)) ks'"
    and "0 \<le> offset" and "0 \<le> limit" and "limit < 2 ^ 62" and "int (Count (fst c)) < 2 ^ 62"
  shows "List_monitors ks offset limit (fst c) = List_monitors ks' offset limit (fst c)
    \<and> (\<exists>all. List_monitors ks offset limit (fst c) =
          (Some (take (nat limit) (drop (nat offset) all)), Count (fst c))
        \<and> set all = ran (byID (fst c)) \<and> distinct all \<and> sorted (map monitor_created_key all))"
proof -
  note inv = reachable_inv [OF assms(1)]
  define all where "all = sort_key monitor_created_key (map_values (byID (fst c)) ks)"
  have id: "\<And>k v. byID (fst c) k = Some v \<Longrightarrow> mon_ID v = k"
    using store_inv_monitor [OF inv] by (simp add: monitor_ok_def)
  have all': "all = sort_key monitor_created_key (map_values (byID (fst c)) ks')"
    unfolding all_def
    by (rule sort_key_map_values_unique [OF assms(2,3) id monitor_created_key_inj [OF inv]])
  have len: "length all = Count (fst c)"
    using assms(2) by (simp add: all_def Count_def length_map_values)
  have "go_page all offset limit = Some (take (nat limit) (drop (nat offset) all))"
    using assms len by (intro go_page_defined) simp_all
  moreover have "set all = ran (byID (fst c))"
    using assms(2) by (simp add: all_def map_values_ran)
  moreover have "distinct all"
  proof -
    have "map mon_ID (map_values (byID (fst c)) ks) = ks"
      using assms(2) id by (intro map_values_keys) (auto simp: iter_order_def)
    then have "distinct (map_values (byID (fst c)) ks)"
      using assms(2) by (metis distinct_map iter_order_def)
    then show ?thesis by (simp add: all_def)
  qed
  moreover have "sorted (map monitor_created_key all)" by (simp add: all_def)
  ultimately show ?thesis
    using all' len unfolding List_monitors_def Let_def all_def [symmetric] by auto
qed

theorem list_is_a_window_witness:
  "\<exists>all. List_monitors [demo_mid] 0 10 demo_s4 = (Some (take 10 (drop 0 all)), Count demo_s4)
     \<and> set all = {demo_m1}"
proof -
  have "iter_order (byID demo_s4) [demo_mid]" by (simp add: iter_order_def)
  moreover have "Count demo_s4 = 1" by (simp add: Count_def)
  ultimately show ?thesis
    using list_is_a_window [OF demo_reachable_4, of "[demo_mid]" "[demo_mid]" 0 10] by auto
qed

section \<open>Statistics\<close>

lemma statsLoop_counts:
  "statsLoop rs ok failed lat = (ok', failed', lat') \<Longrightarrow>
   ok' = ok + length (filter chk_Success rs) \<and> failed' = failed + length (filter (Not \<circ> chk_Success) rs)"
proof (induction rs arbitrary: ok failed lat)
  case (Cons r rs)
  from Cons.prems show ?case by (cases "chk_Success r") (auto dest!: Cons.IH)
qed simp

lemma statsLoop_latency:
  assumes "\<And>r. r \<in> set rs \<Longrightarrow> 0 \<le> chk_LatencyMS r" "0 \<le> lat"
    "lat + sum_list (map chk_LatencyMS rs) < 2 ^ 63"
    "statsLoop rs ok failed lat = (ok', failed', lat')"
  shows "lat' = lat + sum_list (map chk_LatencyMS rs)"
  using assms
proof (induction rs arbitrary: ok failed lat)
  case (Cons r rs)
  have nonneg: "0 \<le> sum_list (map chk_LatencyMS rs)" using Cons.prems(1) by (intro sum_list_nonneg) auto
  moreover have "0 \<le> chk_LatencyMS r" using Cons.prems(1) [of r] by simp
  ultimately have "wrap64 (lat + chk_LatencyMS r) = lat + chk_LatencyMS r"
    using Cons.prems(2,3) by (intro wrap64_id) (simp add: int64_range_def)
  then obtain a b where "statsLoop rs a b (lat + chk_LatencyMS r) = (ok', failed', lat')"
    using Cons.prems(4) by (auto split: if_splits)
  from Cons.IH [OF _ _ _ this] Cons.prems(1-3) show ?case by (simp add: add.assoc)
qed simp

text \<open>
  The statistics of a monitor are those of its recorded checks: every record counts as
  exactly one success or failure, the uptime is the exact percentage of successes and
  lies between 0 and 100, and the average latency is the exact mean while the sum of
  latencies fits a 64-bit integer.
\<close>

theorem stats_are_exact:
  assumes "Stats mid s = Inr st" and "checks s mid = Some rs" and "rs \<noteq> []"
    and "\<forall>r \<in> set rs. 0 \<le> chk_LatencyMS r" and "sum_list (map chk_LatencyMS rs) < 2 ^ 63"
  shows "stats_ChecksTotal st = length rs
    \<and> stats_SuccessfulChecks st = length (filter chk_Success rs)
    \<and> stats_SuccessfulChecks st + stats_FailedChecks st = length rs
    \<and> stats_UptimePercent st * of_nat (length rs) = 100 * of_nat (length (filter chk_Success rs))
    \<and> 0 \<le> stats_UptimePercent st \<and> stats_UptimePercent st \<le> 100
    \<and> stats_AverageLatencyMS st * of_nat (length rs) = of_int (sum_list (map chk_LatencyMS rs))"
proof -
  obtain ok failed lat where l: "statsLoop (rev rs) 0 0 0 = (ok, failed, lat)" by (rule prod_cases3)
  have lat: "lat = sum_list (map chk_LatencyMS rs)"
    using statsLoop_latency [OF _ _ _ l] assms(4,5) by (simp add: rev_map [symmetric])
  from statsLoop_counts [OF l] have c: "ok = length (filter chk_Success rs)"
    "failed = length (filter (Not \<circ> chk_Success) rs)" by (simp_all add: rev_filter [symmetric])
  have sum: "ok + failed = length rs"
    using sum_length_filter_compl [of chk_Success rs] c by (simp add: comp_def)
  have st: "stats_ChecksTotal st = length rs" "stats_SuccessfulChecks st = ok" "stats_FailedChecks st = failed"
    "stats_UptimePercent st = of_nat ok / of_nat (length rs) * 100"
    "stats_AverageLatencyMS st = of_int lat / of_nat (length rs)"
    using assms(1-3) l by (auto simp: Stats_def Let_def split: option.splits)
  have "(of_nat ok :: rat) \<le> of_nat (length rs)" using sum by simp
  then have "(of_nat ok :: rat) * 100 / of_nat (length rs) \<le> 100" using assms(3) by (simp add: divide_le_eq)
  then have up: "0 \<le> stats_UptimePercent st" "stats_UptimePercent st \<le> 100" using st by simp_all
  have ne: "(of_nat (length rs) :: rat) \<noteq> 0" using assms(3) by simp
  have "stats_UptimePercent st * of_nat (length rs) = 100 * of_nat ok"
    "stats_AverageLatencyMS st * of_nat (length rs) = of_int lat" using ne by (simp_all add: st)
  with st(1-3) c(1) lat sum up show ?thesis by simp
qed

theorem stats_are_exact_witness:
  "\<exists>st. Stats demo_mid (demo_s4\<lparr>checks := [demo_mid \<mapsto> [demo_record]]\<rparr>) = Inr st
     \<and> stats_UptimePercent st = 0 \<and> stats_AverageLatencyMS st = 12"
proof -
  let ?s = "demo_s4\<lparr>checks := [demo_mid \<mapsto> [demo_record]]\<rparr>"
  obtain st where st: "Stats demo_mid ?s = Inr st" by (simp add: Stats_def Let_def demo_record_def)
  have "stats_UptimePercent st * of_nat (length [demo_record]) =
      100 * of_nat (length (filter chk_Success [demo_record]))
    \<and> stats_AverageLatencyMS st * of_nat (length [demo_record]) =
      of_int (sum_list (map chk_LatencyMS [demo_record]))"
    using stats_are_exact [OF st, of "[demo_record]"] by (simp add: demo_record_def)
  with st show ?thesis by (simp add: demo_record_def)
qed

end
