(* ===== verification/Status_Policy.thy ===== *)
theory Status_Policy
  imports Go_Strings
begin

text \<open>
  The expected-status policy of \<open>status_policy.go\<close>: a comma-separated list of HTTP
  status codes and ranges. The parser, the membership test and the preferred status
  are modelled; the lemmas give the well-formedness of what the parser accepts and
  the round trip of printing and parsing.
\<close>

section \<open>Data\<close>

record StatusRange =
  range_Min :: int
  range_Max :: int

record StatusPolicy =
  policy_ranges :: "StatusRange list"
  policy_raw :: string

datatype status_error =
    PolicyEmpty
  | EmptyStatusItem
  | InvalidRange string
  | DescendingRange string
  | StatusNotNumeric string
  | StatusOutside int

section \<open>Operations\<close>

definition parseHTTPStatus :: "string \<Rightarrow> status_error + int" where
  "parseHTTPStatus raw =
     (case Atoi (TrimSpace raw) of
        None \<Rightarrow> Inl (StatusNotNumeric raw)
      | Some code \<Rightarrow> if code < 100 \<or> code > 599 then Inl (StatusOutside code) else Inr code)"

definition parseStatusRange :: "string \<Rightarrow> status_error + StatusRange" where
  "parseStatusRange raw =
     (if \<not> ContainsChar raw CHR ''-''
      then (case parseHTTPStatus raw of
              Inl e \<Rightarrow> Inl e
            | Inr code \<Rightarrow> Inr \<lparr>range_Min = code, range_Max = code\<rparr>)
      else (case Split raw CHR ''-'' of
              [lo, hi] \<Rightarrow>
                (case parseHTTPStatus lo of
                   Inl e \<Rightarrow> Inl e
                 | Inr minCode \<Rightarrow>
                     (case parseHTTPStatus hi of
                        Inl e \<Rightarrow> Inl e
                      | Inr maxCode \<Rightarrow>
                          if minCode > maxCode then Inl (DescendingRange raw)
                          else Inr \<lparr>range_Min = minCode, range_Max = maxCode\<rparr>))
            | _ \<Rightarrow> Inl (InvalidRange raw)))"

fun parseStatusParts :: "string list \<Rightarrow> StatusRange list \<Rightarrow> status_error + StatusRange list" where
  "parseStatusParts [] ranges = Inr ranges"
| "parseStatusParts (part # parts) ranges =
     (let item = TrimSpace part in
      if item = [] then Inl EmptyStatusItem
      else (case parseStatusRange item of
              Inl e \<Rightarrow> Inl e
            | Inr r \<Rightarrow> parseStatusParts parts (ranges @ [r])))"

definition ParseStatusPolicy :: "string \<Rightarrow> status_error + StatusPolicy" where
  "ParseStatusPolicy raw0 =
     (let raw = TrimSpace raw0 in
      if raw = [] then Inl PolicyEmpty
      else (case parseStatusParts (Split raw CHR '','') [] of
              Inl e \<Rightarrow> Inl e
            | Inr ranges \<Rightarrow> Inr \<lparr>policy_ranges = ranges, policy_raw = raw\<rparr>))"

fun allows_ranges :: "StatusRange list \<Rightarrow> int \<Rightarrow> bool" where
  "allows_ranges [] statusCode = False"
| "allows_ranges (r # rs) statusCode =
     (if statusCode \<ge> range_Min r \<and> statusCode \<le> range_Max r then True
      else allows_ranges rs statusCode)"

definition Allows :: "StatusPolicy \<Rightarrow> int \<Rightarrow> bool" where
  "Allows p statusCode = allows_ranges (policy_ranges p) statusCode"

definition StatusPolicy_String :: "StatusPolicy \<Rightarrow> string" where
  "StatusPolicy_String p = policy_raw p"

definition PreferredStatus :: "StatusPolicy \<Rightarrow> int" where
  "PreferredStatus p = (case policy_ranges p of [] \<Rightarrow> 200 | r # _ \<Rightarrow> range_Min r)"

section \<open>Well-formed ranges\<close>

definition wf_range :: "StatusRange \<Rightarrow> bool" where
  "wf_range r \<longleftrightarrow> 100 \<le> range_Min r \<and> range_Min r \<le> range_Max r \<and> range_Max r \<le> 599"

lemma Allows_iff:
  "Allows p c \<longleftrightarrow> (\<exists>r \<in> set (policy_ranges p). range_Min r \<le> c \<and> c \<le> range_Max r)"
proof -
  have "allows_ranges rs c \<longleftrightarrow> (\<exists>r \<in> set rs. range_Min r \<le> c \<and> c \<le> range_Max r)" for rs
    by (induction rs) auto
  then show ?thesis by (simp add: Allows_def)
qed

lemma parseHTTPStatus_bounds: "parseHTTPStatus s = Inr c \<Longrightarrow> 100 \<le> c \<and> c \<le> 599"
  by (auto simp: parseHTTPStatus_def split: option.splits if_splits)

lemma parseStatusRange_wf: "parseStatusRange s = Inr r \<Longrightarrow> wf_range r"
  by (auto simp: parseStatusRange_def wf_range_def dest!: parseHTTPStatus_bounds
      split: if_splits sum.splits list.splits)

lemma parseStatusParts_wf:
  "parseStatusParts parts rs = Inr rs' \<Longrightarrow> (\<forall>r \<in> set rs. wf_range r) \<Longrightarrow>
   (\<forall>r \<in> set rs'. wf_range r) \<and> length rs' = length rs + length parts"
proof (induction parts arbitrary: rs)
  case (Cons p ps)
  from Cons.prems(1) obtain r where
    "parseStatusRange (TrimSpace p) = Inr r" and rest: "parseStatusParts ps (rs @ [r]) = Inr rs'"
    by (auto simp: Let_def split: if_splits sum.splits)
  then have "wf_range r" by (blast dest: parseStatusRange_wf)
  with Cons.IH [OF rest] Cons.prems(2) show ?case by auto
qed simp

lemma ParseStatusPolicy_wf:
  assumes "ParseStatusPolicy s = Inr p"
  shows "policy_ranges p \<noteq> []" "\<And>r. r \<in> set (policy_ranges p) \<Longrightarrow> wf_range r"
    "policy_raw p = TrimSpace s"
proof -
  from assms obtain rs where rs: "parseStatusParts (Split (TrimSpace s) CHR '','') [] = Inr rs"
    and p: "p = \<lparr>policy_ranges = rs, policy_raw = TrimSpace s\<rparr>"
    by (auto simp: ParseStatusPolicy_def Let_def split: if_splits sum.splits)
  from parseStatusParts_wf [OF rs]
  have wf: "\<forall>r \<in> set rs. wf_range r" and "length rs = length (Split (TrimSpace s) CHR '','')"
    by auto
  then have "rs \<noteq> []" using Split_nonempty by (metis length_0_conv)
  with p show "policy_ranges p \<noteq> []" by simp
  show "\<And>r. r \<in> set (policy_ranges p) \<Longrightarrow> wf_range r" using wf p by simp
  show "policy_raw p = TrimSpace s" using p by simp
qed

section \<open>Printing and parsing\<close>

text \<open>The notation of the documentation: a code, or two codes joined by a dash.\<close>

definition show_range :: "StatusRange \<Rightarrow> string" where
  "show_range r =
     (if range_Min r = range_Max r then Itoa (range_Min r)
      else Itoa (range_Min r) @ CHR ''-'' # Itoa (range_Max r))"

definition show_ranges :: "StatusRange list \<Rightarrow> string" where
  "show_ranges rs = Join (map show_range rs) '',''"

lemma plain_byte_digit: "is_digit c \<Longrightarrow> plain_byte c"
  by (auto simp: plain_byte_def space_encodings_def is_digit_def)

lemma Itoa_nonneg_digits: "0 \<le> n \<Longrightarrow> c \<in> set (Itoa n) \<Longrightarrow> is_digit c"
  by (simp add: Itoa_def string_of_nat_digits)

lemma TrimSpace_digit_ends:
  assumes "s \<noteq> []" "is_digit (hd s)" "is_digit (last s)"
  shows "TrimSpace s = s"
  using assms by (intro TrimSpace_plain) (simp add: plain_byte_digit)

lemma Itoa_nonneg_ends: "0 \<le> n \<Longrightarrow> is_digit (hd (Itoa n)) \<and> is_digit (last (Itoa n))"
  using Itoa_nonneg_digits by (meson Itoa_nonempty hd_in_set last_in_set)

lemma parseHTTPStatus_Itoa: "100 \<le> n \<Longrightarrow> n \<le> 599 \<Longrightarrow> parseHTTPStatus (Itoa n) = Inr n"
  using Itoa_nonneg_ends [of n]
  by (simp add: parseHTTPStatus_def TrimSpace_digit_ends Atoi_Itoa int64_range_def)

lemma Itoa_nonneg_free: "0 \<le> n \<Longrightarrow> \<not> is_digit c \<Longrightarrow> c \<notin> set (Itoa n)"
  using Itoa_nonneg_digits by blast

lemma parseStatusRange_show: "wf_range r \<Longrightarrow> parseStatusRange (show_range r) = Inr r"
  by (cases r)
    (auto simp: parseStatusRange_def show_range_def wf_range_def ContainsChar_def
      parseHTTPStatus_Itoa Itoa_nonneg_free Split_append Split_single)

lemma show_range_props:
  assumes "wf_range r"
  shows "show_range r \<noteq> []" "is_digit (hd (show_range r))" "is_digit (last (show_range r))"
    "CHR '','' \<notin> set (show_range r)"
  using assms Itoa_nonneg_ends [of "range_Min r"] Itoa_nonneg_ends [of "range_Max r"]
  by (auto simp: show_range_def wf_range_def Itoa_nonneg_free is_digit_def hd_append)

lemma Split_Join:
  assumes "xs \<noteq> []" "\<And>x. x \<in> set xs \<Longrightarrow> c \<notin> set x"
  shows "Split (Join xs [c]) c = xs"
  using assms by (induction xs "[c]" rule: Join.induct) (auto simp: Split_single Split_append)

lemma parseStatusParts_show:
  "(\<And>r. r \<in> set rs \<Longrightarrow> wf_range r) \<Longrightarrow>
   parseStatusParts (map show_range rs) acc = Inr (acc @ rs)"
proof (induction rs arbitrary: acc)
  case (Cons r rs)
  then have "TrimSpace (show_range r) = show_range r"
    using show_range_props [of r] by (intro TrimSpace_digit_ends) simp_all
  with Cons show_range_props(1) [of r] parseStatusRange_show [of r] show ?case by simp
qed simp

lemma Join_ends:
  assumes "xs \<noteq> []" "\<And>x. x \<in> set xs \<Longrightarrow> x \<noteq> [] \<and> is_digit (hd x) \<and> is_digit (last x)"
  shows "Join xs sep \<noteq> [] \<and> is_digit (hd (Join xs sep)) \<and> is_digit (last (Join xs sep))"
  using assms by (induction xs sep rule: Join.induct) auto

lemma ParseStatusPolicy_show:
  assumes "rs \<noteq> []" "\<And>r. r \<in> set rs \<Longrightarrow> wf_range r"
  shows "ParseStatusPolicy (show_ranges rs) =
    Inr \<lparr>policy_ranges = rs, policy_raw = show_ranges rs\<rparr>"
proof -
  have ends: "show_ranges rs \<noteq> [] \<and> is_digit (hd (show_ranges rs)) \<and> is_digit (last (show_ranges rs))"
    unfolding show_ranges_def
    by (rule Join_ends) (use assms show_range_props in auto)
  then have trim: "TrimSpace (show_ranges rs) = show_ranges rs"
    by (intro TrimSpace_digit_ends) simp_all
  have split: "Split (show_ranges rs) CHR '','' = map show_range rs"
    unfolding show_ranges_def
    by (rule Split_Join) (use assms show_range_props in auto)
  have "parseStatusParts (map show_range rs) [] = Inr rs"
    using parseStatusParts_show [of rs "[]"] assms(2) by simp
  with ends trim split show ?thesis by (simp add: ParseStatusPolicy_def Let_def)
qed

section \<open>Properties\<close>

text \<open>
  C23. Printing a non-empty list of well-formed status ranges in the documented notation
  and parsing it gives back exactly these ranges, so the parsed policy allows a code
  if and only if one of the ranges contains it.
\<close>

theorem status_policy_roundtrip:
  assumes "rs \<noteq> []" and "\<forall>r \<in> set rs. wf_range r"
  shows "ParseStatusPolicy (show_ranges rs) = Inr \<lparr>policy_ranges = rs, policy_raw = show_ranges rs\<rparr>
    \<and> (\<forall>c. Allows \<lparr>policy_ranges = rs, policy_raw = show_ranges rs\<rparr> c
          \<longleftrightarrow> (\<exists>r \<in> set rs. range_Min r \<le> c \<and> c \<le> range_Max r))"
  using assms by (simp add: ParseStatusPolicy_show Allows_iff)

theorem status_policy_roundtrip_witness:
  "\<exists>p. ParseStatusPolicy ''200-299,401'' = Inr p \<and> Allows p 204 \<and> Allows p 401 \<and> \<not> Allows p 400"
proof -
  let ?rs = "[\<lparr>range_Min = 200, range_Max = 299\<rparr>, \<lparr>range_Min = 401, range_Max = 401\<rparr>]"
  have show_eq: "show_ranges ?rs = ''200-299,401''" by code_simp
  have "ParseStatusPolicy (show_ranges ?rs) = Inr \<lparr>policy_ranges = ?rs, policy_raw = show_ranges ?rs\<rparr>
    \<and> (\<forall>c. Allows \<lparr>policy_ranges = ?rs, policy_raw = show_ranges ?rs\<rparr> c
          \<longleftrightarrow> (\<exists>r \<in> set ?rs. range_Min r \<le> c \<and> c \<le> range_Max r))"
    by (rule status_policy_roundtrip) (simp_all add: wf_range_def)
  then show ?thesis unfolding show_eq by simp
qed

text \<open>
  Every policy text the parser accepts denotes a usable policy: only codes from 100
  to 599 are allowed, at least one is, namely the preferred status, and the policy
  prints as the trimmed text.
\<close>

theorem accepted_policy_usable:
  assumes "ParseStatusPolicy s = Inr p"
  shows "Allows p (PreferredStatus p) \<and> (\<forall>c. Allows p c \<longrightarrow> 100 \<le> c \<and> c \<le> 599)
    \<and> StatusPolicy_String p = TrimSpace s"
proof -
  note wf = ParseStatusPolicy_wf [OF assms]
  from wf(1) obtain r rs where p: "policy_ranges p = r # rs" by (cases "policy_ranges p") auto
  with wf(2) [of r] have "Allows p (PreferredStatus p)"
    by (simp add: Allows_iff PreferredStatus_def wf_range_def)
  moreover have "100 \<le> c \<and> c \<le> 599" if "Allows p c" for c
    using that wf(2) unfolding Allows_iff wf_range_def by force
  ultimately show ?thesis using wf(3) by (simp add: StatusPolicy_String_def)
qed

theorem accepted_policy_usable_witness:
  "\<exists>p. ParseStatusPolicy '' 301-308 '' = Inr p \<and> Allows p 301 \<and> StatusPolicy_String p = ''301-308''"
proof -
  let ?p = "\<lparr>policy_ranges = [\<lparr>range_Min = 301, range_Max = 308\<rparr>], policy_raw = ''301-308''\<rparr>"
  have p: "ParseStatusPolicy '' 301-308 '' = Inr ?p" by code_simp
  have "Allows ?p 301" using accepted_policy_usable [OF p] by (simp add: PreferredStatus_def)
  moreover have "StatusPolicy_String ?p = ''301-308''" by (simp add: StatusPolicy_String_def)
  ultimately show ?thesis using p by (intro exI [of _ ?p] conjI)
qed

end
