(* ===== verification/Config.thy ===== *)
theory Config
  imports Domain Status_Policy "HOL-Library.State_Monad"
begin

text \<open>
  The configuration of \<open>config.go\<close>. \<open>LoadConfig\<close> reads the environment, accumulating errors
  in a slice it passes by pointer; here it runs in the state monad whose state is that
  slice. The environment, \<open>time.ParseDuration\<close> and the URL parser are the fields of
  \<open>config_env\<close>. An error value is a constructor that carries what its text is made of.

  \<open>sound m Q\<close> is the program logic of the loader: a step that leaves no error was entered
  with no error and gives a value that satisfies \<open>Q\<close>.
\<close>

section \<open>Data\<close>

datatype config_error =
    NotInteger string
  | IntRange string int int
  | NotDuration string
  | DurationRange string duration duration
  | NotBoolean string
  | NotOneOf string "string list"
  | EmptyPort string
  | InvalidPort string string
  | NoPort string
  | ExpectedStatusInvalid status_error
  | AlertWebhookInvalid string
  | LeaseTooShort string duration
  | RoleNeeds string string
  | Rule string

record config_env =
  LookupEnv :: "string \<Rightarrow> string option"
  ParseDuration :: "string \<Rightarrow> duration option"
  ParseConfigURL :: "string \<Rightarrow> URL option"
  QueryGet :: "URL \<Rightarrow> string \<Rightarrow> string"

record Config =
  cfg_AppEnv :: string
  cfg_AppRole :: string
  cfg_StorageType :: string
  cfg_DatabaseURL :: string
  cfg_DatabaseOperationTimeout :: duration
  cfg_DatabaseMigrationTimeout :: duration
  cfg_RunMigrations :: bool
  cfg_APIKey :: string
  cfg_AuthDisabled :: bool
  cfg_QueueType :: string
  cfg_RabbitMQURL :: string
  cfg_RabbitMQConnectTimeout :: duration
  cfg_RabbitMQPublishTimeout :: duration
  cfg_RabbitMQReconnectInitial :: duration
  cfg_RabbitMQReconnectMax :: duration
  cfg_QueueName :: string
  cfg_DeadLetterQueueName :: string
  cfg_QueueBufferSize :: int
  cfg_QueuePrefetch :: int
  cfg_MaxJobAttempts :: int
  cfg_WorkerCount :: int
  cfg_SchedulerBatchSize :: int
  cfg_CheckInterval :: duration
  cfg_HTTPTimeout :: duration
  cfg_CheckLeaseTimeout :: duration
  cfg_HealthAddr :: string
  cfg_MaxRedirects :: int
  cfg_MaxBodyBytes :: int
  cfg_MaxHeaderBytes :: int
  cfg_AllowPrivateNetworks :: bool
  cfg_AllowProxyEnv :: bool
  cfg_AllowedPorts :: "int set"
  cfg_URLsFile :: string
  cfg_SeedURLsFile :: string
  cfg_SeedDefaultLinks :: bool
  cfg_ExpectedStatus :: StatusPolicy
  cfg_AlertWebhookURL :: string
  cfg_AlertFailureThreshold :: int
  cfg_AlertCooldown :: duration
  cfg_AlertDispatchInterval :: duration
  cfg_AlertDispatchBatchSize :: int
  cfg_AlertLeaseTimeout :: duration
  cfg_AlertDeliveryTimeout :: duration
  cfg_AlertMaxAttempts :: int
  cfg_AlertRetryInitialBackoff :: duration
  cfg_AlertRetryMaxBackoff :: duration
  cfg_RetentionEnabled :: bool
  cfg_RetentionInterval :: duration
  cfg_RetentionBatchSize :: int
  cfg_CheckResultsRetention :: duration
  cfg_CheckJobsRetention :: duration
  cfg_AlertOutboxRetention :: duration
  cfg_ResolvedIncidentRetention :: duration
  cfg_UserAgent :: string
  cfg_EnablePprof :: bool

type_synonym 'a loader = "(config_error list, 'a) state"

section \<open>Reading one variable\<close>

definition report :: "config_error \<Rightarrow> unit loader" where
  "report e = State (\<lambda>errs. ((), errs @ [e]))"

text \<open>\<open>if cond { errs = append(errs, e) }\<close>\<close>

definition report_if :: "bool \<Rightarrow> config_error \<Rightarrow> unit loader" where
  "report_if cond e = (if cond then report e else State_Monad.return ())"

definition envString :: "config_env \<Rightarrow> string \<Rightarrow> string \<Rightarrow> string" where
  "envString env key defaultValue =
     (case LookupEnv env key of None \<Rightarrow> defaultValue | Some v \<Rightarrow> TrimSpace v)"

text \<open>The test the typed readers share: the trimmed value, unless it is unset or blank.\<close>

definition envRaw :: "config_env \<Rightarrow> string \<Rightarrow> string option" where
  "envRaw env key =
     (case LookupEnv env key of
        None \<Rightarrow> None
      | Some raw \<Rightarrow> if TrimSpace raw = [] then None else Some (TrimSpace raw))"

definition envInt :: "config_env \<Rightarrow> string \<Rightarrow> int \<Rightarrow> int \<Rightarrow> int \<Rightarrow> int loader" where
  "envInt env key defaultValue minValue maxValue =
     (case envRaw env key of
        None \<Rightarrow> State_Monad.return defaultValue
      | Some raw \<Rightarrow>
          (case Atoi raw of
             None \<Rightarrow> do { report (NotInteger key); State_Monad.return defaultValue }
           | Some v \<Rightarrow>
               if v < minValue \<or> v > maxValue
               then do { report (IntRange key minValue maxValue); State_Monad.return defaultValue }
               else State_Monad.return v))"

definition envDuration ::
  "config_env \<Rightarrow> string \<Rightarrow> duration \<Rightarrow> duration \<Rightarrow> duration \<Rightarrow> duration loader" where
  "envDuration env key defaultValue minValue maxValue =
     (case envRaw env key of
        None \<Rightarrow> State_Monad.return defaultValue
      | Some raw \<Rightarrow>
          (case ParseDuration env raw of
             None \<Rightarrow> do { report (NotDuration key); State_Monad.return defaultValue }
           | Some v \<Rightarrow>
               if v < minValue \<or> v > maxValue
               then do { report (DurationRange key minValue maxValue); State_Monad.return defaultValue }
               else State_Monad.return v))"

definition envBool :: "config_env \<Rightarrow> string \<Rightarrow> bool \<Rightarrow> bool loader" where
  "envBool env key defaultValue =
     (case envRaw env key of
        None \<Rightarrow> State_Monad.return defaultValue
      | Some raw \<Rightarrow>
          (let word = ToLower raw in
           if word \<in> {''1'', ''true'', ''yes'', ''y'', ''on''} then State_Monad.return True
           else if word \<in> {''0'', ''false'', ''no'', ''n'', ''off''} then State_Monad.return False
           else do { report (NotBoolean key); State_Monad.return defaultValue }))"

text \<open>\<open>allowed[0]\<close> is evaluated on literal, non-empty lists only.\<close>

definition validateEnum :: "string \<Rightarrow> string \<Rightarrow> string list \<Rightarrow> string loader" where
  "validateEnum key raw allowed =
     (let v = ToLower (TrimSpace raw) in
      if v \<in> set allowed then State_Monad.return v
      else do { report (NotOneOf key allowed); State_Monad.return (hd allowed) })"

definition envEnum :: "config_env \<Rightarrow> string \<Rightarrow> string \<Rightarrow> string list \<Rightarrow> string loader" where
  "envEnum env key defaultValue allowed = validateEnum key (envString env key defaultValue) allowed"

fun envPortParts :: "string \<Rightarrow> string list \<Rightarrow> int set \<Rightarrow> (int set) loader" where
  "envPortParts key [] ports = State_Monad.return ports"
| "envPortParts key (part0 # parts) ports =
     (let part = TrimSpace part0 in
      if part = [] then do { report (EmptyPort key); envPortParts key parts ports }
      else (case Atoi part of
              None \<Rightarrow> do { report (InvalidPort key part); envPortParts key parts ports }
            | Some port \<Rightarrow>
                if port < 1 \<or> port > 65535
                then do { report (InvalidPort key part); envPortParts key parts ports }
                else envPortParts key parts (insert port ports)))"

definition envPorts :: "config_env \<Rightarrow> string \<Rightarrow> string \<Rightarrow> (int set) loader" where
  "envPorts env key defaultValue =
     do {
       ports \<leftarrow> envPortParts key (Split (envString env key defaultValue) CHR '','') {};
       report_if (ports = {}) (NoPort key);
       State_Monad.return ports
     }"

definition validateHTTPURLShape :: "config_env \<Rightarrow> string \<Rightarrow> string option" where
  "validateHTTPURLShape env raw =
     (case ParseConfigURL env raw of
        None \<Rightarrow> Some ''invalid URL syntax''
      | Some parsed \<Rightarrow>
          if url_Scheme parsed \<noteq> ''http'' \<and> url_Scheme parsed \<noteq> ''https''
            then Some ''scheme must be http or https''
          else if Hostname parsed = [] then Some ''host is required''
          else if url_User parsed then Some ''userinfo is not allowed''
          else None)"

definition rabbitMQHeartbeatDisabled :: "config_env \<Rightarrow> string \<Rightarrow> bool" where
  "rabbitMQHeartbeatDisabled env rawURL =
     (case ParseConfigURL env rawURL of
        None \<Rightarrow> False
      | Some parsed \<Rightarrow>
          (let rawHeartbeat = QueryGet env parsed ''heartbeat'' in
           if rawHeartbeat = [] then False
           else (case Atoi rawHeartbeat of None \<Rightarrow> False | Some heartbeat \<Rightarrow> heartbeat \<le> 0)))"

abbreviation (input) processingLeaseSafetyMargin :: duration where
  "processingLeaseSafetyMargin \<equiv> 30 * Second"
abbreviation (input) alertLeaseSafetyMargin :: duration where
  "alertLeaseSafetyMargin \<equiv> 5 * Second"
abbreviation (input) minAPIKeyLength :: nat where "minAPIKeyLength \<equiv> 24"

definition minimumCheckLeaseTimeout :: "duration \<Rightarrow> duration \<Rightarrow> duration" where
  "minimumCheckLeaseTimeout databaseOperationTimeout rabbitMQPublishTimeout =
     (let processingBudget = wrap64 (maxMonitorTimeoutSeconds * Second + databaseOperationTimeout);
          publicationBudget = wrap64 (rabbitMQPublishTimeout + databaseOperationTimeout)
      in wrap64 (max processingBudget publicationBudget + processingLeaseSafetyMargin))"

definition minimumAlertLeaseTimeout :: "duration \<Rightarrow> duration \<Rightarrow> duration" where
  "minimumAlertLeaseTimeout deliveryTimeout databaseOperationTimeout =
     wrap64 (deliveryTimeout + 2 * databaseOperationTimeout + alertLeaseSafetyMargin)"

definition roleEnabled :: "string \<Rightarrow> string \<Rightarrow> bool" where
  "roleEnabled role target \<longleftrightarrow> role = ''all'' \<or> role = target"

section \<open>Loading the configuration\<close>

text \<open>The expected-status policy; the zero policy is kept when it does not parse.\<close>

definition expectedStatusPolicy :: "config_env \<Rightarrow> StatusPolicy loader" where
  "expectedStatusPolicy env =
     (case ParseStatusPolicy (envString env ''EXPECTED_STATUS'' ''200-399'') of
        Inl e \<Rightarrow> do { report (ExpectedStatusInvalid e);
                    State_Monad.return \<lparr>policy_ranges = [], policy_raw = []\<rparr> }
      | Inr policy \<Rightarrow> State_Monad.return policy)"

text \<open>The first part of \<open>LoadConfig\<close>: every variable, in the order of the code.\<close>

definition readConfig :: "config_env \<Rightarrow> Config loader" where
  "readConfig env =
     do {
       appEnv \<leftarrow> envEnum env ''APP_ENV'' ''production'' [''production'', ''local'', ''development'', ''demo''];
       appRole \<leftarrow> envEnum env ''APP_ROLE'' ''all'' [''all'', ''api'', ''scheduler'', ''worker'', ''alert-dispatcher''];
       let databaseURL = envString env ''DATABASE_URL'' [];
       databaseOperationTimeout \<leftarrow> envDuration env ''DATABASE_OPERATION_TIMEOUT'' (15 * Second) (Second) (5 * Minute);
       databaseMigrationTimeout \<leftarrow> envDuration env ''DATABASE_MIGRATION_TIMEOUT'' (2 * Minute) (Second) (30 * Minute);
       let storageType = (let v = envString env ''STORAGE_TYPE'' [] in
         if v = [] then (if databaseURL \<noteq> [] then ''postgres'' else ''memory'') else v);
       storageType \<leftarrow> validateEnum ''STORAGE_TYPE'' storageType [''memory'', ''postgres''];
       runMigrations \<leftarrow> envBool env ''RUN_MIGRATIONS'' True;
       let apiKey = envString env ''API_KEY'' [];
       authDisabled \<leftarrow> envBool env ''AUTH_DISABLED'' False;
       let rabbitMQURL = envString env ''RABBITMQ_URL'' [];
       rabbitMQConnectTimeout \<leftarrow> envDuration env ''RABBITMQ_CONNECT_TIMEOUT'' (5 * Second) (Second) (Minute);
       rabbitMQPublishTimeout \<leftarrow> envDuration env ''RABBITMQ_PUBLISH_TIMEOUT'' (10 * Second) (100 * Millisecond) (5 * Minute);
       rabbitMQReconnectInitial \<leftarrow> envDuration env ''RABBITMQ_RECONNECT_INITIAL_BACKOFF'' (Second) (100 * Millisecond) (Hour);
       rabbitMQReconnectMax \<leftarrow> envDuration env ''RABBITMQ_RECONNECT_MAX_BACKOFF'' (30 * Second) (100 * Millisecond) (24 * Hour);
       let queueType = (let v = envString env ''QUEUE_TYPE'' [] in
         if v = [] then (if rabbitMQURL \<noteq> [] then ''rabbitmq'' else ''memory'') else v);
       queueType \<leftarrow> validateEnum ''QUEUE_TYPE'' queueType [''memory'', ''rabbitmq''];
       let queueName = envString env ''QUEUE_NAME'' ''site_checker.checks'';
       let deadLetterQueueName = envString env ''DEAD_LETTER_QUEUE_NAME'' ''site_checker.checks.dead'';
       queueBufferSize \<leftarrow> envInt env ''QUEUE_BUFFER_SIZE'' 1000 1 100000;
       queuePrefetch \<leftarrow> envInt env ''QUEUE_PREFETCH'' 10 1 1000;
       maxJobAttempts \<leftarrow> envInt env ''MAX_JOB_ATTEMPTS'' 3 1 20;
       workerCount \<leftarrow> envInt env ''WORKER_COUNT'' 10 1 100;
       schedulerBatchSize \<leftarrow> envInt env ''SCHEDULER_BATCH_SIZE'' 100 1 1000;
       checkInterval \<leftarrow> envDuration env ''CHECK_INTERVAL'' (5 * Minute) (30 * Second) (24 * Hour);
       httpTimeout \<leftarrow> envDuration env ''HTTP_TIMEOUT'' (5 * Second) (Second) (Minute);
       checkLeaseTimeout \<leftarrow> envDuration env ''CHECK_LEASE_TIMEOUT'' (2 * Minute) (Second) (24 * Hour);
       let minimum = minimumCheckLeaseTimeout databaseOperationTimeout rabbitMQPublishTimeout;
       report_if (checkLeaseTimeout < minimum) (LeaseTooShort ''CHECK_LEASE_TIMEOUT'' minimum);
       let healthAddr = envString env ''HEALTH_ADDR'' '':8080'';
       redirects \<leftarrow> envInt env ''MAX_REDIRECTS'' 3 0 10;
       maxBodyBytes \<leftarrow> envInt env ''MAX_BODY_BYTES'' 65536 1024 10485760;
       maxHeaderBytes \<leftarrow> envInt env ''MAX_HEADER_BYTES'' 65536 1024 1048576;
       allowPrivate \<leftarrow> envBool env ''ALLOW_PRIVATE_NETWORKS'' False;
       allowProxy \<leftarrow> envBool env ''ALLOW_PROXY_ENV'' False;
       report_if (allowProxy \<and> \<not> allowPrivate)
         (Rule ''ALLOW_PROXY_ENV=true requires ALLOW_PRIVATE_NETWORKS=true because proxy-side DNS resolution is outside the local SSRF boundary'');
       ports \<leftarrow> envPorts env ''ALLOWED_PORTS'' ''80,443'';
       let urlsFile = envString env ''URLS_FILE'' [];
       let seedURLsFile = envString env ''SEED_URLS_FILE'' urlsFile;
       seedDefault \<leftarrow> envBool env ''SEED_DEFAULT_LINKS'' False;
       let alertWebhookURL = envString env ''ALERT_WEBHOOK_URL'' [];
       alertFailureThreshold \<leftarrow> envInt env ''ALERT_FAILURE_THRESHOLD'' 3 1 100;
       alertCooldown \<leftarrow> envDuration env ''ALERT_COOLDOWN'' (10 * Minute) (0) (24 * Hour);
       alertDispatchInterval \<leftarrow> envDuration env ''ALERT_DISPATCH_INTERVAL'' (Second) (100 * Millisecond) (Minute);
       alertDispatchBatchSize \<leftarrow> envInt env ''ALERT_DISPATCH_BATCH_SIZE'' 50 1 1000;
       alertLeaseTimeout \<leftarrow> envDuration env ''ALERT_LEASE_TIMEOUT'' (Minute) (Second) (Hour);
       alertDeliveryTimeout \<leftarrow> envDuration env ''ALERT_DELIVERY_TIMEOUT'' (5 * Second) (Second) (Minute);
       alertMaxAttempts \<leftarrow> envInt env ''ALERT_MAX_ATTEMPTS'' 8 1 100;
       alertRetryInitialBackoff \<leftarrow> envDuration env ''ALERT_RETRY_INITIAL_BACKOFF'' (Second) (100 * Millisecond) (Hour);
       alertRetryMaxBackoff \<leftarrow> envDuration env ''ALERT_RETRY_MAX_BACKOFF'' (5 * Minute) (100 * Millisecond) (24 * Hour);
       retentionEnabled \<leftarrow> envBool env ''RETENTION_ENABLED'' False;
       retentionInterval \<leftarrow> envDuration env ''RETENTION_INTERVAL'' (Minute) (Minute) (24 * Hour);
       retentionBatchSize \<leftarrow> envInt env ''RETENTION_BATCH_SIZE'' 10000 1 100000;
       checkResultsRetention \<leftarrow> envDuration env ''CHECK_RESULTS_RETENTION'' (90 * 24 * Hour) (Hour) (10 * 365 * 24 * Hour);
       checkJobsRetention \<leftarrow> envDuration env ''CHECK_JOBS_RETENTION'' (30 * 24 * Hour) (Hour) (10 * 365 * 24 * Hour);
       alertOutboxRetention \<leftarrow> envDuration env ''ALERT_OUTBOX_RETENTION'' (30 * 24 * Hour) (Hour) (10 * 365 * 24 * Hour);
       resolvedIncidentRetention \<leftarrow> envDuration env ''RESOLVED_INCIDENT_RETENTION'' (365 * 24 * Hour) (Hour) (10 * 365 * 24 * Hour);
       let userAgent = envString env ''USER_AGENT'' ''site-checker'';
       enablePprof \<leftarrow> envBool env ''ENABLE_PPROF'' False;
       expectedStatus \<leftarrow> expectedStatusPolicy env;
       State_Monad.return
         \<lparr>cfg_AppEnv = appEnv, cfg_AppRole = appRole, cfg_StorageType = storageType,
          cfg_DatabaseURL = databaseURL, cfg_DatabaseOperationTimeout = databaseOperationTimeout,
          cfg_DatabaseMigrationTimeout = databaseMigrationTimeout,
          cfg_RunMigrations = runMigrations, cfg_APIKey = apiKey,
          cfg_AuthDisabled = authDisabled, cfg_QueueType = queueType,
          cfg_RabbitMQURL = rabbitMQURL, cfg_RabbitMQConnectTimeout = rabbitMQConnectTimeout,
          cfg_RabbitMQPublishTimeout = rabbitMQPublishTimeout,
          cfg_RabbitMQReconnectInitial = rabbitMQReconnectInitial,
          cfg_RabbitMQReconnectMax = rabbitMQReconnectMax, cfg_QueueName = queueName,
          cfg_DeadLetterQueueName = deadLetterQueueName, cfg_QueueBufferSize = queueBufferSize,
          cfg_QueuePrefetch = queuePrefetch, cfg_MaxJobAttempts = maxJobAttempts,
          cfg_WorkerCount = workerCount, cfg_SchedulerBatchSize = schedulerBatchSize,
          cfg_CheckInterval = checkInterval, cfg_HTTPTimeout = httpTimeout,
          cfg_CheckLeaseTimeout = checkLeaseTimeout, cfg_HealthAddr = healthAddr,
          cfg_MaxRedirects = redirects, cfg_MaxBodyBytes = maxBodyBytes,
          cfg_MaxHeaderBytes = maxHeaderBytes, cfg_AllowPrivateNetworks = allowPrivate,
          cfg_AllowProxyEnv = allowProxy, cfg_AllowedPorts = ports, cfg_URLsFile = urlsFile,
          cfg_SeedURLsFile = seedURLsFile,
          cfg_SeedDefaultLinks = (seedDefault \<or> appEnv = ''demo''),
          cfg_ExpectedStatus = expectedStatus, cfg_AlertWebhookURL = alertWebhookURL,
          cfg_AlertFailureThreshold = alertFailureThreshold, cfg_AlertCooldown = alertCooldown,
          cfg_AlertDispatchInterval = alertDispatchInterval,
          cfg_AlertDispatchBatchSize = alertDispatchBatchSize,
          cfg_AlertLeaseTimeout = alertLeaseTimeout,
          cfg_AlertDeliveryTimeout = alertDeliveryTimeout,
          cfg_AlertMaxAttempts = alertMaxAttempts,
          cfg_AlertRetryInitialBackoff = alertRetryInitialBackoff,
          cfg_AlertRetryMaxBackoff = alertRetryMaxBackoff,
          cfg_RetentionEnabled = retentionEnabled, cfg_RetentionInterval = retentionInterval,
          cfg_RetentionBatchSize = retentionBatchSize,
          cfg_CheckResultsRetention = checkResultsRetention,
          cfg_CheckJobsRetention = checkJobsRetention,
          cfg_AlertOutboxRetention = alertOutboxRetention,
          cfg_ResolvedIncidentRetention = resolvedIncidentRetention, cfg_UserAgent = userAgent,
          cfg_EnablePprof = enablePprof\<rparr>
     }"

text \<open>The second part: the rules that relate the values.\<close>

definition validateConfig :: "config_env \<Rightarrow> Config \<Rightarrow> unit loader" where
  "validateConfig env cfg =
     (let role = cfg_AppRole cfg;
          production = (cfg_AppEnv cfg = ''production'');
          postgres = (cfg_StorageType cfg = ''postgres'');
          rabbitmq = (cfg_QueueType cfg = ''rabbitmq'');
          webhook = cfg_AlertWebhookURL cfg;
          minimum = minimumAlertLeaseTimeout (cfg_AlertDeliveryTimeout cfg)
                      (cfg_DatabaseOperationTimeout cfg);
          apiEnabled = (role = ''all'' \<or> role = ''api'')
      in do {
       (if webhook \<noteq> [] then (case validateHTTPURLShape env webhook of
          None \<Rightarrow> State_Monad.return () | Some e \<Rightarrow> report (AlertWebhookInvalid e))
        else State_Monad.return ());
       report_if (webhook \<noteq> [] \<and> \<not> postgres)
         (Rule ''STORAGE_TYPE=postgres is required when ALERT_WEBHOOK_URL is configured'');
       report_if (role = ''alert-dispatcher'' \<and> webhook = [])
         (Rule ''ALERT_WEBHOOK_URL is required for APP_ROLE=alert-dispatcher'');
       report_if (cfg_AlertRetryMaxBackoff cfg < cfg_AlertRetryInitialBackoff cfg)
         (Rule ''ALERT_RETRY_MAX_BACKOFF must be greater than or equal to ALERT_RETRY_INITIAL_BACKOFF'');
       report_if (cfg_AlertLeaseTimeout cfg < minimum) (LeaseTooShort ''ALERT_LEASE_TIMEOUT'' minimum);
       report_if (cfg_UserAgent cfg = []) (Rule ''USER_AGENT must not be empty'');
       report_if (apiEnabled \<and> cfg_HealthAddr cfg = [])
         (Rule ''HEALTH_ADDR must not be empty for API-enabled roles'');
       report_if (cfg_AuthDisabled cfg \<and> cfg_AppEnv cfg \<notin> {''local'', ''development'', ''demo''})
         (Rule ''AUTH_DISABLED=true is allowed only when APP_ENV is local, development, or demo'');
       report_if (cfg_AuthDisabled cfg \<and> cfg_APIKey cfg \<noteq> [])
         (Rule ''AUTH_DISABLED=true must not be combined with API_KEY'');
       report_if (apiEnabled \<and> \<not> cfg_AuthDisabled cfg \<and> cfg_APIKey cfg = [])
         (Rule ''API_KEY is required for API-enabled roles; use AUTH_DISABLED=true only in local, development, or demo environments'');
       report_if (apiEnabled \<and> \<not> cfg_AuthDisabled cfg \<and> cfg_APIKey cfg \<noteq> []
                  \<and> length (cfg_APIKey cfg) < minAPIKeyLength)
         (Rule ''API_KEY must contain at least 24 characters'');
       report_if (postgres \<and> cfg_DatabaseURL cfg = [])
         (Rule ''DATABASE_URL is required when STORAGE_TYPE=postgres'');
       report_if (rabbitmq \<and> cfg_RabbitMQURL cfg = [])
         (Rule ''RABBITMQ_URL is required when QUEUE_TYPE=rabbitmq'');
       report_if (cfg_RetentionEnabled cfg \<and> \<not> postgres)
         (Rule ''STORAGE_TYPE=postgres is required when RETENTION_ENABLED=true'');
       report_if (cfg_RetentionEnabled cfg \<and> role \<noteq> ''all'' \<and> role \<noteq> ''scheduler'')
         (Rule ''RETENTION_ENABLED=true requires APP_ROLE=all or APP_ROLE=scheduler'');
       report_if (production \<and> \<not> postgres) (Rule ''STORAGE_TYPE=postgres is required in production'');
       report_if (production \<and> roleEnabled role ''scheduler'' \<and> \<not> rabbitmq)
         (Rule ''QUEUE_TYPE=rabbitmq is required for scheduler-enabled production roles'');
       report_if (production \<and> rabbitmq
                  \<and> (roleEnabled role ''scheduler'' \<or> roleEnabled role ''worker'')
                  \<and> rabbitMQHeartbeatDisabled env (cfg_RabbitMQURL cfg))
         (Rule ''RABBITMQ_URL heartbeat must be greater than zero in production'');
       report_if (production \<and> role = ''all'' \<and> \<not> cfg_RetentionEnabled cfg)
         (Rule ''RETENTION_ENABLED=true is required for APP_ROLE=all in production'');
       report_if (production \<and> cfg_EnablePprof cfg)
         (Rule ''ENABLE_PPROF=true is not allowed in production'');
       report_if (role \<in> {''api'', ''scheduler'', ''worker''} \<and> \<not> postgres)
         (RoleNeeds ''STORAGE_TYPE=postgres'' role);
       report_if (role \<in> {''scheduler'', ''worker''} \<and> \<not> rabbitmq)
         (RoleNeeds ''QUEUE_TYPE=rabbitmq'' role);
       report_if (cfg_RabbitMQReconnectMax cfg < cfg_RabbitMQReconnectInitial cfg)
         (Rule ''RABBITMQ_RECONNECT_MAX_BACKOFF must be greater than or equal to RABBITMQ_RECONNECT_INITIAL_BACKOFF'');
       report_if (cfg_QueueName cfg = []) (Rule ''QUEUE_NAME must not be empty'');
       report_if (cfg_DeadLetterQueueName cfg = []) (Rule ''DEAD_LETTER_QUEUE_NAME must not be empty'')
      })"

definition LoadConfig :: "config_env \<Rightarrow> config_error list + Config" where
  "LoadConfig env =
     (case run_state (do { cfg \<leftarrow> readConfig env; validateConfig env cfg; State_Monad.return cfg }) [] of
        (cfg, errs) \<Rightarrow> if errs \<noteq> [] then Inl errs else Inr cfg)"

text \<open>The network policy built from a configuration.\<close>

definition NewNetworkPolicy :: "Config \<Rightarrow> NetworkPolicy" where
  "NewNetworkPolicy cfg =
     \<lparr>allowPrivateNetworks = cfg_AllowPrivateNetworks cfg,
      allowProxyEnv = cfg_AllowProxyEnv cfg,
      maxRedirects = cfg_MaxRedirects cfg,
      allowedPorts = (if cfg_AllowedPorts cfg = {} then {80, 443} else cfg_AllowedPorts cfg)\<rparr>"

section \<open>A program logic for the loader\<close>

definition sound :: "'a loader \<Rightarrow> ('a \<Rightarrow> bool) \<Rightarrow> bool" where
  "sound m Q \<longleftrightarrow> (\<forall>errs. snd (run_state m errs) = [] \<longrightarrow> errs = [] \<and> Q (fst (run_state m errs)))"

lemma sound_return: "Q x \<Longrightarrow> sound (State_Monad.return x) Q"
  by (simp add: sound_def)

lemma sound_bind:
  "sound m Q \<Longrightarrow> (\<And>x. sound (f x) (\<lambda>y. Q x \<longrightarrow> R y)) \<Longrightarrow> sound (m \<bind> f) R"
  unfolding sound_def run_state_bind split_beta by metis

lemma sound_report: "sound (report e) Q"
  by (simp add: sound_def report_def)

lemma sound_report_if: "sound (report_if c e) (\<lambda>_. \<not> c)"
  by (simp add: report_if_def sound_report sound_return)

lemma sound_report_return: "sound (do { report e; State_Monad.return x }) Q"
  by (simp add: sound_def report_def)

lemmas sound_reader = sound_return sound_report_return

lemma sound_envInt:
  "lo \<le> d \<Longrightarrow> d \<le> hi \<Longrightarrow> sound (envInt env key d lo hi) (\<lambda>v. lo \<le> v \<and> v \<le> hi)"
  by (auto simp: envInt_def split: option.splits intro: sound_reader)

lemma sound_envDuration:
  "lo \<le> d \<Longrightarrow> d \<le> hi \<Longrightarrow> sound (envDuration env key d lo hi) (\<lambda>v. lo \<le> v \<and> v \<le> hi)"
  by (auto simp: envDuration_def split: option.splits intro: sound_reader)

lemma sound_envBool: "sound (envBool env key d) (\<lambda>_. True)"
  by (auto simp: envBool_def Let_def split: option.splits intro: sound_reader)

lemma sound_validateEnum: "sound (validateEnum key v allowed) (\<lambda>v. v \<in> set allowed)"
  by (auto simp: validateEnum_def Let_def intro: sound_reader)

lemma sound_envEnum: "sound (envEnum env key d allowed) (\<lambda>v. v \<in> set allowed)"
  by (simp add: envEnum_def sound_validateEnum)

lemma sound_envPortParts:
  "ports \<subseteq> {1..65535} \<Longrightarrow> sound (envPortParts key parts ports) (\<lambda>ps. ps \<subseteq> {1..65535})"
proof (induction parts arbitrary: ports)
  case Nil
  then show ?case by (auto intro: sound_return)
next
  case (Cons part parts)
  have rep: "sound (do { report e; envPortParts key parts ports }) (\<lambda>ps. ps \<subseteq> {1..65535})" for e
    by (rule sound_bind [OF sound_report [of e "\<lambda>_. True"]]) (use Cons in simp)
  show ?case
    using Cons by (auto simp: Let_def rep split: option.splits intro!: Cons.IH)
qed

lemma sound_envPorts:
  "sound (envPorts env key d) (\<lambda>ps. ps \<subseteq> {1..65535} \<and> ps \<noteq> {})"
  unfolding envPorts_def
  by (intro sound_bind [OF sound_envPortParts] sound_bind [OF sound_report_if] sound_return) auto

lemma sound_expectedStatus:
  "sound (expectedStatusPolicy env) (\<lambda>p. policy_ranges p \<noteq> [] \<and> list_all wf_range (policy_ranges p))"
proof (cases "ParseStatusPolicy (envString env ''EXPECTED_STATUS'' ''200-399'')")
  case (Inl e)
  then show ?thesis by (simp add: expectedStatusPolicy_def sound_report_return)
next
  case (Inr p)
  with ParseStatusPolicy_wf [OF Inr] show ?thesis
    by (auto simp: expectedStatusPolicy_def list_all_iff intro!: sound_return)
qed

lemmas loader_steps =
  sound_bind [OF sound_report_if] sound_bind [OF sound_envInt] sound_bind [OF sound_envDuration]
  sound_bind [OF sound_envBool] sound_bind [OF sound_validateEnum] sound_bind [OF sound_envEnum]
  sound_bind [OF sound_envPorts] sound_bind [OF sound_expectedStatus]

section \<open>What a loaded configuration satisfies\<close>

definition config_ranges :: "Config \<Rightarrow> bool" where
  "config_ranges cfg \<longleftrightarrow>
     cfg_AppEnv cfg \<in> {''production'', ''local'', ''development'', ''demo''}
   \<and> cfg_AppRole cfg \<in> {''all'', ''api'', ''scheduler'', ''worker'', ''alert-dispatcher''}
   \<and> cfg_StorageType cfg \<in> {''memory'', ''postgres''} \<and> cfg_QueueType cfg \<in> {''memory'', ''rabbitmq''}
   \<and> cfg_DatabaseOperationTimeout cfg \<in> {Second..5 * Minute}
   \<and> cfg_RabbitMQPublishTimeout cfg \<in> {100 * Millisecond..5 * Minute}
   \<and> cfg_RabbitMQReconnectInitial cfg \<in> {100 * Millisecond..Hour}
   \<and> cfg_RabbitMQReconnectMax cfg \<in> {100 * Millisecond..24 * Hour}
   \<and> cfg_QueueBufferSize cfg \<in> {1..100000} \<and> cfg_QueuePrefetch cfg \<in> {1..1000}
   \<and> cfg_MaxJobAttempts cfg \<in> {1..20} \<and> cfg_WorkerCount cfg \<in> {1..100}
   \<and> cfg_SchedulerBatchSize cfg \<in> {1..1000}
   \<and> cfg_CheckInterval cfg \<in> {30 * Second..24 * Hour} \<and> cfg_HTTPTimeout cfg \<in> {Second..Minute}
   \<and> cfg_CheckLeaseTimeout cfg \<in> {Second..24 * Hour}
   \<and> cfg_MaxRedirects cfg \<in> {0..10} \<and> cfg_MaxBodyBytes cfg \<in> {1024..10485760}
   \<and> cfg_AllowedPorts cfg \<subseteq> {1..65535} \<and> cfg_AllowedPorts cfg \<noteq> {}
   \<and> policy_ranges (cfg_ExpectedStatus cfg) \<noteq> [] \<and> list_all wf_range (policy_ranges (cfg_ExpectedStatus cfg))
   \<and> cfg_AlertLeaseTimeout cfg \<in> {Second..Hour} \<and> cfg_AlertDeliveryTimeout cfg \<in> {Second..Minute}
   \<and> cfg_AlertRetryInitialBackoff cfg \<in> {100 * Millisecond..Hour}
   \<and> cfg_AlertRetryMaxBackoff cfg \<in> {100 * Millisecond..24 * Hour}
   \<and> minimumCheckLeaseTimeout (cfg_DatabaseOperationTimeout cfg) (cfg_RabbitMQPublishTimeout cfg)
       \<le> cfg_CheckLeaseTimeout cfg
   \<and> (cfg_AllowProxyEnv cfg \<longrightarrow> cfg_AllowPrivateNetworks cfg)"

lemma readConfig_sound: "sound (readConfig env) config_ranges"
  unfolding readConfig_def Let_def
  apply (intro loader_steps sound_return)
  prefer 65
  subgoal
    unfolding config_ranges_def
    apply (simp only: Config.simps atLeastAtMost_iff list.set not_less)
    apply satx
    done
  apply simp_all
  done

text \<open>The rules across variables, as conditions on the result.\<close>

definition config_rules :: "config_env \<Rightarrow> Config \<Rightarrow> bool" where
  "config_rules env cfg \<longleftrightarrow>
     (cfg_AlertWebhookURL cfg \<noteq> [] \<longrightarrow> validateHTTPURLShape env (cfg_AlertWebhookURL cfg) = None)
   \<and> (cfg_AlertWebhookURL cfg \<noteq> [] \<longrightarrow> cfg_StorageType cfg = ''postgres'')
   \<and> (cfg_AppRole cfg = ''alert-dispatcher'' \<longrightarrow> cfg_AlertWebhookURL cfg \<noteq> [])
   \<and> cfg_AlertRetryInitialBackoff cfg \<le> cfg_AlertRetryMaxBackoff cfg
   \<and> cfg_RabbitMQReconnectInitial cfg \<le> cfg_RabbitMQReconnectMax cfg
   \<and> minimumAlertLeaseTimeout (cfg_AlertDeliveryTimeout cfg) (cfg_DatabaseOperationTimeout cfg)
       \<le> cfg_AlertLeaseTimeout cfg
   \<and> (cfg_AuthDisabled cfg \<longrightarrow>
        cfg_AppEnv cfg \<in> {''local'', ''development'', ''demo''} \<and> cfg_APIKey cfg = [])
   \<and> ((cfg_AppRole cfg = ''all'' \<or> cfg_AppRole cfg = ''api'') \<and> \<not> cfg_AuthDisabled cfg \<longrightarrow>
        \<not> length (cfg_APIKey cfg) < minAPIKeyLength)
   \<and> (cfg_AppEnv cfg = ''production'' \<longrightarrow>
        cfg_StorageType cfg = ''postgres'' \<and> \<not> cfg_EnablePprof cfg)
   \<and> (cfg_AppEnv cfg = ''production'' \<and> cfg_AppRole cfg = ''all'' \<longrightarrow> cfg_RetentionEnabled cfg)
   \<and> (cfg_AppEnv cfg = ''production'' \<and> roleEnabled (cfg_AppRole cfg) ''scheduler'' \<longrightarrow>
        cfg_QueueType cfg = ''rabbitmq'')
   \<and> (cfg_AppEnv cfg = ''production'' \<and> cfg_QueueType cfg = ''rabbitmq''
        \<and> (roleEnabled (cfg_AppRole cfg) ''scheduler'' \<or> roleEnabled (cfg_AppRole cfg) ''worker'') \<longrightarrow>
        \<not> rabbitMQHeartbeatDisabled env (cfg_RabbitMQURL cfg))
   \<and> (cfg_AppRole cfg \<in> {''api'', ''scheduler'', ''worker''} \<longrightarrow> cfg_StorageType cfg = ''postgres'')
   \<and> (cfg_AppRole cfg \<in> {''scheduler'', ''worker''} \<longrightarrow> cfg_QueueType cfg = ''rabbitmq'')
   \<and> (cfg_StorageType cfg = ''postgres'' \<longrightarrow> cfg_DatabaseURL cfg \<noteq> [])
   \<and> (cfg_QueueType cfg = ''rabbitmq'' \<longrightarrow> cfg_RabbitMQURL cfg \<noteq> [])
   \<and> (cfg_RetentionEnabled cfg \<longrightarrow> cfg_StorageType cfg = ''postgres'')
   \<and> cfg_UserAgent cfg \<noteq> [] \<and> cfg_QueueName cfg \<noteq> [] \<and> cfg_DeadLetterQueueName cfg \<noteq> []"

lemma sound_webhook:
  "sound (if w \<noteq> [] then (case validateHTTPURLShape env w of
            None \<Rightarrow> State_Monad.return () | Some e \<Rightarrow> report (AlertWebhookInvalid e))
          else State_Monad.return ())
     (\<lambda>_. w \<noteq> [] \<longrightarrow> validateHTTPURLShape env w = None)"
  by (auto intro: sound_return sound_report split: option.splits)

lemma sound_last: "sound m Q \<Longrightarrow> (\<And>x. Q x \<Longrightarrow> R x) \<Longrightarrow> sound m R"
  by (simp add: sound_def)

lemma validateConfig_sound: "sound (validateConfig env cfg) (\<lambda>_. config_rules env cfg)"
  unfolding validateConfig_def Let_def
  apply (intro sound_bind [OF sound_webhook] sound_bind [OF sound_report_if] sound_last [OF sound_report_if])
  unfolding config_rules_def not_less [symmetric]
  by satx

lemma LoadConfig_ok:
  assumes "LoadConfig env = Inr cfg"
  shows "config_ranges cfg" "config_rules env cfg"
proof -
  define m where "m = do { cfg \<leftarrow> readConfig env; validateConfig env cfg; State_Monad.return cfg }"
  have "sound m (\<lambda>cfg. config_ranges cfg \<and> config_rules env cfg)"
    unfolding m_def
    by (intro sound_bind [OF readConfig_sound] sound_bind [OF validateConfig_sound] sound_return) simp
  moreover have "LoadConfig env = (case run_state m [] of (cfg, errs) \<Rightarrow> if errs \<noteq> [] then Inl errs else Inr cfg)"
    unfolding LoadConfig_def m_def by (rule refl)
  with assms have "run_state m [] = (cfg, [])" by (auto split: prod.splits if_splits)
  ultimately show "config_ranges cfg" "config_rules env cfg"
    by (auto simp: sound_def dest: spec [of _ "[]"])
qed

lemma loaded_auth:
  assumes "LoadConfig env = Inr cfg"
  shows "roleEnabled (cfg_AppRole cfg) ''api'' \<longrightarrow>
    24 \<le> length (cfg_APIKey cfg) \<or> cfg_AuthDisabled cfg \<and> cfg_AppEnv cfg \<noteq> ''production''"
proof -
  have "cfg_AuthDisabled cfg \<longrightarrow> cfg_AppEnv cfg \<in> {''local'', ''development'', ''demo''} \<and> cfg_APIKey cfg = []"
    and "(cfg_AppRole cfg = ''all'' \<or> cfg_AppRole cfg = ''api'') \<and> \<not> cfg_AuthDisabled cfg \<longrightarrow>
        \<not> length (cfg_APIKey cfg) < minAPIKeyLength"
    using LoadConfig_ok(2) [OF assms] unfolding config_rules_def by satx+
  then show ?thesis by (auto simp: roleEnabled_def)
qed

lemma loaded_pprof:
  assumes "LoadConfig env = Inr cfg"
  shows "cfg_AppEnv cfg = ''production'' \<longrightarrow> \<not> cfg_EnablePprof cfg"
  using LoadConfig_ok(2) [OF assms] unfolding config_rules_def by satx

section \<open>A configuration that loads\<close>

text \<open>A production environment with the variables it must set.\<close>

definition demo_config_env :: config_env where
  "demo_config_env =
     \<lparr>LookupEnv = map_of [(''DATABASE_URL'', ''postgres://db/checks''),
                         (''RABBITMQ_URL'', ''amqp://mq/''),
                         (''API_KEY'', '' 0123456789abcdef01234567 ''),
                         (''RETENTION_ENABLED'', ''yes'')],
      ParseDuration = (\<lambda>_. None), ParseConfigURL = (\<lambda>_. None), QueryGet = (\<lambda>_ _. [])\<rparr>"

lemma demo_config_loads:
  obtains cfg where "LoadConfig demo_config_env = Inr cfg"
    "cfg_AppEnv cfg = ''production''" "cfg_AppRole cfg = ''all''" "cfg_AuthDisabled cfg = False"
proof -
  have "case LoadConfig demo_config_env of Inl _ \<Rightarrow> False | Inr cfg \<Rightarrow>
          cfg_AppEnv cfg = ''production'' \<and> cfg_AppRole cfg = ''all'' \<and> cfg_AuthDisabled cfg = False"
    by code_simp
  then show ?thesis using that by (cases "LoadConfig demo_config_env") auto
qed

section \<open>Properties\<close>

text \<open>
  C25. A configuration that loads has safe time budgets, in exact arithmetic although the
  code adds 64-bit durations: a processing lease outlives the longest check a monitor may
  ask for (60 seconds) plus one database operation, and the publication of a job plus one
  database operation, each with 30 seconds to spare; an alert lease outlives a delivery and
  two database operations with 5 seconds to spare; and the upper bound of each backoff is
  not below its first delay.\<close>
theorem loaded_budgets:
  assumes "LoadConfig env = Inr cfg"
  shows "60 * Second + cfg_DatabaseOperationTimeout cfg + 30 * Second \<le> cfg_CheckLeaseTimeout cfg
    \<and> cfg_RabbitMQPublishTimeout cfg + cfg_DatabaseOperationTimeout cfg + 30 * Second
        \<le> cfg_CheckLeaseTimeout cfg
    \<and> cfg_AlertDeliveryTimeout cfg + 2 * cfg_DatabaseOperationTimeout cfg + 5 * Second
        \<le> cfg_AlertLeaseTimeout cfg
    \<and> 0 < cfg_AlertRetryInitialBackoff cfg
    \<and> cfg_AlertRetryInitialBackoff cfg \<le> cfg_AlertRetryMaxBackoff cfg
    \<and> 0 < cfg_RabbitMQReconnectInitial cfg
    \<and> cfg_RabbitMQReconnectInitial cfg \<le> cfg_RabbitMQReconnectMax cfg"
proof -
  note ok = LoadConfig_ok [OF assms]
  let ?d = "cfg_DatabaseOperationTimeout cfg"
  have d: "Second \<le> ?d" "?d \<le> 5 * Minute"
    and p: "100 * Millisecond \<le> cfg_RabbitMQPublishTimeout cfg" "cfg_RabbitMQPublishTimeout cfg \<le> 5 * Minute"
    and a: "Second \<le> cfg_AlertDeliveryTimeout cfg" "cfg_AlertDeliveryTimeout cfg \<le> Minute"
    and b: "100 * Millisecond \<le> cfg_AlertRetryInitialBackoff cfg" "100 * Millisecond \<le> cfg_RabbitMQReconnectInitial cfg"
    and m: "minimumCheckLeaseTimeout ?d (cfg_RabbitMQPublishTimeout cfg) \<le> cfg_CheckLeaseTimeout cfg"
    using ok(1) by (simp_all add: config_ranges_def)
  have "minimumAlertLeaseTimeout (cfg_AlertDeliveryTimeout cfg) ?d \<le> cfg_AlertLeaseTimeout cfg"
    "cfg_AlertRetryInitialBackoff cfg \<le> cfg_AlertRetryMaxBackoff cfg"
    "cfg_RabbitMQReconnectInitial cfg \<le> cfg_RabbitMQReconnectMax cfg"
    using ok(2) by (simp_all only: config_rules_def)
  with m d p a b show ?thesis
    by (simp add: minimumCheckLeaseTimeout_def minimumAlertLeaseTimeout_def Let_def wrap64_id int64_range_def
        max_def split: if_splits)
qed

theorem loaded_budgets_witness:
  "\<exists>cfg. LoadConfig demo_config_env = Inr cfg
     \<and> 90 * Second + cfg_DatabaseOperationTimeout cfg \<le> cfg_CheckLeaseTimeout cfg"
proof -
  obtain cfg where "LoadConfig demo_config_env = Inr cfg" by (rule demo_config_loads)
  with loaded_budgets [OF this] show ?thesis by auto
qed

text \<open>
  C26. A configuration that loads is safe to serve. The API is never reachable without a key
  of at least 24 bytes unless authentication was switched off in a non-production
  environment; production has a database, no profiling endpoints, a broker with heartbeats
  wherever jobs are scheduled, and retention when one process plays all roles; the proxy
  environment is honoured only when private networks are allowed; and the network policy
  built from it admits exactly the configured ports, all in 1 to 65535.\<close>
theorem loaded_config_is_safe:
  assumes "LoadConfig env = Inr cfg"
  shows "(roleEnabled (cfg_AppRole cfg) ''api'' \<longrightarrow>
           24 \<le> length (cfg_APIKey cfg) \<or> cfg_AuthDisabled cfg \<and> cfg_AppEnv cfg \<noteq> ''production'')
    \<and> (cfg_AppEnv cfg = ''production'' \<longrightarrow>
         cfg_StorageType cfg = ''postgres'' \<and> cfg_DatabaseURL cfg \<noteq> [] \<and> \<not> cfg_EnablePprof cfg
         \<and> (cfg_AppRole cfg = ''all'' \<longrightarrow> cfg_RetentionEnabled cfg)
         \<and> (roleEnabled (cfg_AppRole cfg) ''scheduler'' \<longrightarrow>
              cfg_QueueType cfg = ''rabbitmq'' \<and> cfg_RabbitMQURL cfg \<noteq> []
              \<and> \<not> rabbitMQHeartbeatDisabled env (cfg_RabbitMQURL cfg)))
    \<and> (allowProxyEnv (NewNetworkPolicy cfg) \<longrightarrow> allowPrivateNetworks (NewNetworkPolicy cfg))
    \<and> allowedPorts (NewNetworkPolicy cfg) = cfg_AllowedPorts cfg
    \<and> cfg_AllowedPorts cfg \<subseteq> {1..65535} \<and> cfg_AllowedPorts cfg \<noteq> {}"
  (is "?auth \<and> ?production \<and> ?rest")
proof (intro conjI)
  have rules: "config_rules env cfg" using LoadConfig_ok [OF assms] by blast
  show ?auth using assms by (rule loaded_auth)
  show ?production using rules unfolding config_rules_def by satx
  show "allowProxyEnv (NewNetworkPolicy cfg) \<longrightarrow> allowPrivateNetworks (NewNetworkPolicy cfg)"
    "allowedPorts (NewNetworkPolicy cfg) = cfg_AllowedPorts cfg"
    "cfg_AllowedPorts cfg \<subseteq> {1..65535}" "cfg_AllowedPorts cfg \<noteq> {}"
    using LoadConfig_ok(1) [OF assms] by (simp_all add: config_ranges_def NewNetworkPolicy_def)
qed

theorem loaded_config_is_safe_witness:
  "\<exists>cfg. LoadConfig demo_config_env = Inr cfg \<and> cfg_AppEnv cfg = ''production''
     \<and> 24 \<le> length (cfg_APIKey cfg) \<and> cfg_QueueType cfg = ''rabbitmq'' \<and> cfg_RetentionEnabled cfg"
proof -
  obtain cfg where c: "LoadConfig demo_config_env = Inr cfg"
    "cfg_AppEnv cfg = ''production''" "cfg_AppRole cfg = ''all''" "cfg_AuthDisabled cfg = False"
    by (rule demo_config_loads)
  with loaded_config_is_safe [OF c(1)] show ?thesis by (auto simp: roleEnabled_def)
qed

end
