(* ===== verification/Checker.thy ===== *)
theory Checker
  imports Config
begin

text \<open>
  The HTTP check of \<open>checker.go\<close>. What the outside gives one check is the record \<open>probe\<close>:
  the exchange of the HTTP client for a URL and a user agent (refused, failed, or a status
  and the successive reads of the body), the elapsed time and the final clock reading.
\<close>

section \<open>Errors and their text\<close>

text \<open>An error value of the client: a \<open>url.Error\<close> with its cause, an error that wraps another,
  or a plain one; each with the text of its \<open>Error\<close> method.\<close>

datatype client_error =
    URLError string "client_error option"
  | Wrapped string client_error
  | Plain string

fun err_text :: "client_error \<Rightarrow> string" where
  "err_text (URLError t cause) = t"
| "err_text (Wrapped t cause) = t"
| "err_text (Plain t) = t"

text \<open>\<open>errors.As\<close> for a \<open>*url.Error\<close>: the cause of the first one in the chain.\<close>

fun as_url_error :: "client_error \<Rightarrow> client_error option option" where
  "as_url_error (URLError t cause) = Some cause"
| "as_url_error (Wrapped t cause) = as_url_error cause"
| "as_url_error (Plain t) = None"

lemma as_url_error_smaller: "as_url_error err = Some (Some cause) \<Longrightarrow> size cause < size err"
  by (induction err rule: as_url_error.induct) auto

function checkerErrorText :: "client_error option \<Rightarrow> string" where
  "checkerErrorText None = ''request failed''"
| "checkerErrorText (Some err) =
     (case as_url_error err of
        None \<Rightarrow> err_text err
      | Some None \<Rightarrow> err_text err
      | Some (Some cause) \<Rightarrow> checkerErrorText (Some cause))"
  by pat_completeness auto
termination
  by (relation "measure (size_option size)") (auto dest: as_url_error_smaller)

section \<open>Results\<close>

record CheckJob_task =
  cj_URL :: string
  cj_Sequence :: nat
  cj_EnqueuedAt :: gotime

record CheckResult =
  res_MonitorID :: string
  res_URL :: string
  res_Sequence :: nat
  res_Healthy :: bool
  res_StatusCode :: int
  res_Duration :: duration
  res_BytesRead :: int
  res_Error :: string
  res_CheckedAt :: gotime

datatype read_status = More | EOF | ReadError string

datatype exchange =
    BadRequest client_error
  | DoFailed client_error
  | Response int "(nat \<times> read_status) list"

record probe =
  probe_exchange :: "string \<Rightarrow> string \<Rightarrow> exchange"
  probe_elapsed :: duration
  probe_now :: gotime

text \<open>
  \<open>io.Copy(io.Discard, io.LimitReader(body, n))\<close>: the reader is asked for at most the
  remaining bytes at each call; when none remain the copy ends without another read.
\<close>

fun copyLimited :: "int \<Rightarrow> (nat \<times> read_status) list \<Rightarrow> int \<Rightarrow> int \<times> string option" where
  "copyLimited remaining [] written = (written, None)"
| "copyLimited remaining ((n, st) # reads) written =
     (if remaining \<le> 0 then (written, None)
      else (let k = min (int n) remaining in
            case st of
              EOF \<Rightarrow> (written + k, None)
            | ReadError e \<Rightarrow> (written + k, Some e)
            | More \<Rightarrow> copyLimited (remaining - k) reads (written + k)))"

text \<open>The body of \<open>Check\<close> up to the deferred function.\<close>

definition checkExchange :: "Config \<Rightarrow> exchange \<Rightarrow> CheckResult \<Rightarrow> CheckResult" where
  "checkExchange cfg ex result =
     (case ex of
        BadRequest err \<Rightarrow> result\<lparr>res_Error := checkerErrorText (Some err)\<rparr>
      | DoFailed err \<Rightarrow> result\<lparr>res_Error := checkerErrorText (Some err)\<rparr>
      | Response statusCode body \<Rightarrow>
          (let (bytesRead, readErr) = copyLimited (cfg_MaxBodyBytes cfg) body 0;
               result = result\<lparr>res_StatusCode := statusCode, res_BytesRead := bytesRead\<rparr>
           in case readErr of
                Some e \<Rightarrow> result\<lparr>res_Error := e\<rparr>
              | None \<Rightarrow>
                  if \<not> Allows (cfg_ExpectedStatus cfg) statusCode
                  then result\<lparr>res_Error := ''unexpected status '' @ Itoa statusCode\<rparr>
                  else result\<lparr>res_Healthy := True\<rparr>))"

definition Check :: "Config \<Rightarrow> probe \<Rightarrow> CheckJob_task \<Rightarrow> CheckResult" where
  "Check cfg w job =
     (let result = checkExchange cfg (probe_exchange w (cj_URL job) (cfg_UserAgent cfg))
            \<lparr>res_MonitorID = [], res_URL = cj_URL job, res_Sequence = cj_Sequence job, res_Healthy = False, res_StatusCode = 0,
             res_Duration = 0, res_BytesRead = 0, res_Error = [], res_CheckedAt = zeroTime\<rparr>;
          duration = (if probe_elapsed w \<le> 0 then Nanosecond else probe_elapsed w)
      in result\<lparr>res_Duration := duration, res_CheckedAt := probe_now w\<rparr>)"

text \<open>\<open>quote\<close> is the verb \<open>%q\<close>.\<close>

definition status_error_text :: "(string \<Rightarrow> string) \<Rightarrow> status_error \<Rightarrow> string" where
  "status_error_text quote e =
     (case e of
        PolicyEmpty \<Rightarrow> ''policy is empty''
      | EmptyStatusItem \<Rightarrow> ''empty status item''
      | InvalidRange raw \<Rightarrow> ''invalid status range '' @ quote raw
      | DescendingRange raw \<Rightarrow> ''invalid descending status range '' @ quote raw
      | StatusNotNumeric raw \<Rightarrow> ''status '' @ quote raw @ '' must be numeric''
      | StatusOutside code \<Rightarrow> ''status '' @ Itoa code @ '' is outside 100-599'')"

definition CheckMonitor :: "(string \<Rightarrow> string) \<Rightarrow> Config \<Rightarrow> probe \<Rightarrow> Monitor \<Rightarrow> CheckResult" where
  "CheckMonitor quote cfg w monitor =
     (case ParseStatusPolicy (Itoa (mon_ExpectedStatus monitor)) of
        Inl err \<Rightarrow>
          \<lparr>res_MonitorID = [], res_URL = mon_URL monitor, res_Sequence = 0, res_Healthy = False, res_StatusCode = 0,
           res_Duration = 0, res_BytesRead = 0, res_Error = status_error_text quote err,
           res_CheckedAt = probe_now w\<rparr>
      | Inr policy \<Rightarrow>
          (Check (cfg\<lparr>cfg_ExpectedStatus := policy\<rparr>) w
             \<lparr>cj_URL = mon_URL monitor, cj_Sequence = 0, cj_EnqueuedAt = zeroTime\<rparr>)
            \<lparr>res_MonitorID := mon_ID monitor, res_Sequence := 0\<rparr>)"

text \<open>\<open>Duration.Milliseconds\<close> truncates towards zero.\<close>

definition Milliseconds :: "duration \<Rightarrow> int" where
  "Milliseconds d = go_div d Millisecond"

definition CheckRecordFromResult :: "id_draw \<Rightarrow> CheckResult \<Rightarrow> CheckRecord" where
  "CheckRecordFromResult draw result =
     \<lparr>chk_ID = newID ''check'' draw, chk_JobID = [], chk_MonitorID = res_MonitorID result,
      chk_StatusCode = res_StatusCode result, chk_LatencyMS = Milliseconds (res_Duration result),
      chk_Error = res_Error result, chk_Success = res_Healthy result,
      chk_CheckedAt = res_CheckedAt result\<rparr>"

section \<open>Facts\<close>

text \<open>The text of a failed request never comes from a \<open>url.Error\<close> that has a cause: such an
  error prints the requested URL.\<close>

lemma checkerErrorText_redacts:
  "\<exists>e. checkerErrorText (Some err) = err_text e \<and> (\<forall>cause. as_url_error e \<noteq> Some (Some cause))"
proof (induction "Some err" arbitrary: err rule: checkerErrorText.induct)
  case (2 err)
  show ?case
  proof (cases "as_url_error err")
    case None
    then show ?thesis by (intro exI [of _ err]) simp
  next
    case (Some c)
    show ?thesis
    proof (cases c)
      case None
      with Some show ?thesis by (intro exI [of _ err]) simp
    next
      case (Some cause)
      with \<open>as_url_error err = Some c\<close> 2 show ?thesis by auto
    qed
  qed
qed

lemma copyLimited_bounds:
  "0 \<le> remaining \<Longrightarrow> written \<le> fst (copyLimited remaining reads written)
     \<and> fst (copyLimited remaining reads written) \<le> written + remaining"
proof (induction remaining reads written rule: copyLimited.induct)
  case (2 remaining n st reads written)
  show ?case
  proof (cases "remaining \<le> 0 \<or> st \<noteq> More")
    case True
    with 2(2) show ?thesis by (cases st) (auto simp: Let_def)
  next
    case False
    let ?k = "min (int n) remaining"
    have "written + ?k \<le> fst (copyLimited (remaining - ?k) reads (written + ?k))
        \<and> fst (copyLimited (remaining - ?k) reads (written + ?k)) \<le> written + ?k + (remaining - ?k)"
      using False 2(1) [OF _ refl] by auto
    moreover have "0 \<le> ?k" using 2(2) by simp
    ultimately have "written \<le> fst (copyLimited (remaining - ?k) reads (written + ?k))
        \<and> fst (copyLimited (remaining - ?k) reads (written + ?k)) \<le> written + remaining"
      by linarith
    with False show ?thesis by (simp add: Let_def)
  qed
qed simp

lemma ParseStatusPolicy_Itoa:
  assumes "100 \<le> n" "n \<le> 599"
  shows "\<exists>p. ParseStatusPolicy (Itoa n) = Inr p \<and> policy_ranges p = [\<lparr>range_Min = n, range_Max = n\<rparr>]"
proof -
  have free: "CHR '','' \<notin> set (Itoa n)" "CHR ''-'' \<notin> set (Itoa n)"
    using Itoa_nonneg_free [of n "CHR '',''"] Itoa_nonneg_free [of n "CHR ''-''"] assms
    by (simp_all add: is_digit_def)
  have "TrimSpace (Itoa n) = Itoa n"
    using assms by (intro TrimSpace_digit_ends) (auto simp: Itoa_nonneg_ends)
  with free assms show ?thesis
    by (simp add: ParseStatusPolicy_def Split_single parseStatusRange_def ContainsChar_def
        parseHTTPStatus_Itoa)
qed

lemma copyLimited_written:
  "0 \<le> remaining \<Longrightarrow> 0 \<le> fst (copyLimited remaining reads 0) \<and> fst (copyLimited remaining reads 0) \<le> remaining"
  using copyLimited_bounds [of remaining 0 reads] by simp

section \<open>Properties\<close>

text \<open>
  C27. The verdict of a check of a stored monitor (its expected status is a valid HTTP status,
  as the validation of inputs ensures): the check is attributed to the monitor, it is
  healthy exactly when the server answered with the expected status and the limited body
  was read without error, a healthy check has no error text, at most \<open>MaxBodyBytes\<close> bytes
  are read, and the duration is positive.\<close>
theorem check_verdict:
  assumes "100 \<le> mon_ExpectedStatus monitor" "mon_ExpectedStatus monitor \<le> 599" "0 \<le> cfg_MaxBodyBytes cfg"
    and result_def: "result = CheckMonitor quote cfg w monitor"
  shows "res_MonitorID result = mon_ID monitor \<and> res_URL result = mon_URL monitor
    \<and> (res_Healthy result \<longleftrightarrow>
         (\<exists>body. probe_exchange w (mon_URL monitor) (cfg_UserAgent cfg)
                   = Response (mon_ExpectedStatus monitor) body
               \<and> snd (copyLimited (cfg_MaxBodyBytes cfg) body 0) = None))
    \<and> \<not> (res_Healthy result \<and> res_Error result \<noteq> [])
    \<and> 0 \<le> res_BytesRead result \<and> res_BytesRead result \<le> cfg_MaxBodyBytes cfg
    \<and> 0 < res_Duration result \<and> res_CheckedAt result = probe_now w"
proof -
  obtain p where p: "ParseStatusPolicy (Itoa (mon_ExpectedStatus monitor)) = Inr p"
    and ranges: "policy_ranges p = [\<lparr>range_Min = mon_ExpectedStatus monitor, range_Max = mon_ExpectedStatus monitor\<rparr>]"
    using ParseStatusPolicy_Itoa assms(1,2) by blast
  have allows: "Allows p code \<longleftrightarrow> code = mon_ExpectedStatus monitor" for code
    by (auto simp: Allows_def ranges)
  note bounds = copyLimited_written [OF assms(3)]
  show ?thesis
  proof (cases "probe_exchange w (mon_URL monitor) (cfg_UserAgent cfg)")
    case (Response code body)
    obtain n e where c: "copyLimited (cfg_MaxBodyBytes cfg) body 0 = (n, e)" by fastforce
    with bounds [of body] have "0 \<le> n" "n \<le> cfg_MaxBodyBytes cfg" by auto
    with Response c allows show ?thesis
      by (cases e) (auto simp: result_def CheckMonitor_def p Check_def checkExchange_def Let_def)
  qed (use assms(3) in \<open>auto simp: result_def CheckMonitor_def p Check_def checkExchange_def Let_def\<close>)
qed

text \<open>A monitor that expects 200, and a server that answers 200 with a body of three bytes.\<close>

definition demo_monitor :: Monitor where
  "demo_monitor =
     \<lparr>mon_ID = ''mon_1'', mon_URL = ''https://site.example/'', mon_IntervalSeconds = 60,
      mon_TimeoutSeconds = 5, mon_ExpectedStatus = 200, mon_Status = monitorStatusActive,
      mon_Enabled = True, mon_NextCheckAt = 1, mon_CreatedAt = 1, mon_UpdatedAt = 1,
      mon_LastStatusCode = 0, mon_LastLatencyMS = 0, mon_LastCheckedAt = zeroTime,
      mon_LastError = []\<rparr>"

definition demo_probe :: probe where
  "demo_probe = \<lparr>probe_exchange = (\<lambda>_ _. Response 200 [(2, More), (1, EOF)]),
                 probe_elapsed = 5 * Millisecond, probe_now = 7\<rparr>"

theorem check_verdict_witness:
  "\<exists>cfg. LoadConfig demo_config_env = Inr cfg
     \<and> res_Healthy (CheckMonitor (\<lambda>s. s) cfg demo_probe demo_monitor)
     \<and> res_MonitorID (CheckMonitor (\<lambda>s. s) cfg demo_probe demo_monitor) = ''mon_1''"
proof -
  obtain cfg where load: "LoadConfig demo_config_env = Inr cfg" by (rule demo_config_loads)
  then have size: "0 \<le> cfg_MaxBodyBytes cfg" "1024 \<le> cfg_MaxBodyBytes cfg"
    using LoadConfig_ok(1) [OF load] by (simp_all add: config_ranges_def)
  from check_verdict [of demo_monitor cfg _ "\<lambda>s. s" demo_probe, OF _ _ size(1) refl] load size(2)
  show ?thesis by (auto simp: demo_monitor_def demo_probe_def Let_def)
qed

end
