(* ===== verification/Metrics.thy ===== *)
theory Metrics
  imports Complex_Main Checker
begin

text \<open>
  The process metrics of \<open>metrics.go\<close>: counters on 64-bit words, gauges per monitor bounded by
  a retention log, and their Prometheus text. The sum of durations is kept exactly, where
  the code rounds to \<open>float64\<close>; the text of a \<open>float64\<close> is an argument of the printer.
\<close>

section \<open>State\<close>

definition maxTrackedMetricMonitors :: nat where "maxTrackedMetricMonitors = 10000"

record Metrics =
  mx_monitorStateEnabled :: bool
  mx_startedAt :: gotime
  mx_version :: string
  mx_commit :: string
  mx_buildDate :: string
  mx_totalLinks :: int
  mx_checksTotal :: "64 word"
  mx_healthyTotal :: "64 word"
  mx_unhealthyTotal :: "64 word"
  mx_checkErrorsTotal :: "64 word"
  mx_jobsScheduledTotal :: "64 word"
  mx_jobsSkippedTotal :: "64 word"
  mx_infraRequeuesTotal :: "64 word"
  mx_alertsDeliveredTotal :: "64 word"
  mx_alertFailuresTotal :: "64 word"
  mx_alertsDeadTotal :: "64 word"
  mx_durationSumSeconds :: rat
  mx_durationCount :: "64 word"
  mx_lastCheckAt :: gotime
  mx_lastSuccessAt :: gotime
  mx_statusByMonitor :: "string \<rightharpoonup> int"
  mx_upByMonitor :: "string \<rightharpoonup> bool"
  mx_consecutiveFailures :: "string \<rightharpoonup> int"
  mx_dependencyUp :: "string \<rightharpoonup> bool"
  mx_trackedMonitors :: "string set"
  mx_trackedMonitorOrder :: "string list"
  mx_trackedMonitorHead :: nat

definition newMetrics :: "gotime \<Rightarrow> string \<Rightarrow> string \<Rightarrow> string \<Rightarrow> int \<Rightarrow> bool \<Rightarrow> Metrics" where
  "newMetrics now version commit buildDate totalLinks monitorStateEnabled =
     \<lparr>mx_monitorStateEnabled = monitorStateEnabled, mx_startedAt = now, mx_version = version,
      mx_commit = commit, mx_buildDate = buildDate, mx_totalLinks = totalLinks,
      mx_checksTotal = 0, mx_healthyTotal = 0, mx_unhealthyTotal = 0, mx_checkErrorsTotal = 0,
      mx_jobsScheduledTotal = 0, mx_jobsSkippedTotal = 0, mx_infraRequeuesTotal = 0,
      mx_alertsDeliveredTotal = 0, mx_alertFailuresTotal = 0, mx_alertsDeadTotal = 0,
      mx_durationSumSeconds = 0, mx_durationCount = 0, mx_lastCheckAt = zeroTime,
      mx_lastSuccessAt = zeroTime, mx_statusByMonitor = Map.empty, mx_upByMonitor = Map.empty,
      mx_consecutiveFailures = Map.empty, mx_dependencyUp = Map.empty, mx_trackedMonitors = {},
      mx_trackedMonitorOrder = [], mx_trackedMonitorHead = 0\<rparr>"

definition NewMetrics :: "gotime \<Rightarrow> string \<Rightarrow> string \<Rightarrow> string \<Rightarrow> int \<Rightarrow> Metrics" where
  "NewMetrics now version commit buildDate totalLinks =
     newMetrics now version commit buildDate totalLinks True"

definition NewMetricsForRole ::
  "gotime \<Rightarrow> string \<Rightarrow> string \<Rightarrow> string \<Rightarrow> int \<Rightarrow> string \<Rightarrow> Metrics" where
  "NewMetricsForRole now version commit buildDate totalLinks appRole =
     newMetrics now version commit buildDate totalLinks (appRole = ''all'')"

section \<open>Operations\<close>

definition SetTotalLinks :: "int \<Rightarrow> Metrics \<Rightarrow> Metrics" where
  "SetTotalLinks totalLinks m = m\<lparr>mx_totalLinks := totalLinks\<rparr>"

definition AdjustTotalLinks :: "int \<Rightarrow> Metrics \<Rightarrow> Metrics" where
  "AdjustTotalLinks delta m = m\<lparr>mx_totalLinks := max (wrap64 (mx_totalLinks m + delta)) 0\<rparr>"

definition forgetGauges :: "string \<Rightarrow> Metrics \<Rightarrow> Metrics" where
  "forgetGauges monitorID m =
     m\<lparr>mx_statusByMonitor := (mx_statusByMonitor m)(monitorID := None),
       mx_upByMonitor := (mx_upByMonitor m)(monitorID := None),
       mx_consecutiveFailures := (mx_consecutiveFailures m)(monitorID := None)\<rparr>"

text \<open>The removal loop drops the first occurrence at or after the head of the log.\<close>

definition RemoveMonitor :: "string \<Rightarrow> Metrics \<Rightarrow> Metrics" where
  "RemoveMonitor monitorID m =
     (if monitorID = [] \<or> \<not> mx_monitorStateEnabled m then m
      else (let m = forgetGauges monitorID m in
            if monitorID \<notin> mx_trackedMonitors m then m
            else m\<lparr>mx_trackedMonitors := mx_trackedMonitors m - {monitorID},
                   mx_trackedMonitorOrder :=
                     take (mx_trackedMonitorHead m) (mx_trackedMonitorOrder m)
                     @ remove1 monitorID (drop (mx_trackedMonitorHead m) (mx_trackedMonitorOrder m))\<rparr>))"

definition RecordScheduled :: "Metrics \<Rightarrow> Metrics" where
  "RecordScheduled m = m\<lparr>mx_jobsScheduledTotal := mx_jobsScheduledTotal m + 1\<rparr>"

definition RecordSkipped :: "Metrics \<Rightarrow> Metrics" where
  "RecordSkipped m = m\<lparr>mx_jobsSkippedTotal := mx_jobsSkippedTotal m + 1\<rparr>"

definition RecordInfrastructureRequeue :: "Metrics \<Rightarrow> Metrics" where
  "RecordInfrastructureRequeue m = m\<lparr>mx_infraRequeuesTotal := mx_infraRequeuesTotal m + 1\<rparr>"

definition RecordAlertDelivered :: "Metrics \<Rightarrow> Metrics" where
  "RecordAlertDelivered m = m\<lparr>mx_alertsDeliveredTotal := mx_alertsDeliveredTotal m + 1\<rparr>"

definition RecordAlertFailure :: "bool \<Rightarrow> Metrics \<Rightarrow> Metrics" where
  "RecordAlertFailure dead m =
     (let m = m\<lparr>mx_alertFailuresTotal := mx_alertFailuresTotal m + 1\<rparr>
      in if dead then m\<lparr>mx_alertsDeadTotal := mx_alertsDeadTotal m + 1\<rparr> else m)"

definition SetDependencyUp :: "string \<Rightarrow> bool \<Rightarrow> Metrics \<Rightarrow> Metrics" where
  "SetDependencyUp name up m = m\<lparr>mx_dependencyUp := (mx_dependencyUp m)(name \<mapsto> up)\<rparr>"

text \<open>The eviction loop of \<open>trackMonitorLocked\<close>; \<open>None\<close> is the panic of an index out of range.\<close>

function trackLoop :: "Metrics \<Rightarrow> Metrics option" where
  "trackLoop m =
     (if card (mx_trackedMonitors m) > maxTrackedMetricMonitors
      then (if mx_trackedMonitorHead m < length (mx_trackedMonitorOrder m)
            then (let oldest = mx_trackedMonitorOrder m ! mx_trackedMonitorHead m in
                  trackLoop (forgetGauges oldest
                    (m\<lparr>mx_trackedMonitorHead := mx_trackedMonitorHead m + 1,
                       mx_trackedMonitors := mx_trackedMonitors m - {oldest}\<rparr>)))
            else None)
      else Some m)"
  by pat_completeness auto
termination
  by (relation "measure (\<lambda>m. length (mx_trackedMonitorOrder m) - mx_trackedMonitorHead m)")
     (auto simp: forgetGauges_def)

declare trackLoop.simps [simp del]

definition compactTracked :: "Metrics \<Rightarrow> Metrics" where
  "compactTracked m =
     (if mx_trackedMonitorHead m > maxTrackedMetricMonitors
         \<and> mx_trackedMonitorHead m * 2 \<ge> length (mx_trackedMonitorOrder m)
      then m\<lparr>mx_trackedMonitorOrder := drop (mx_trackedMonitorHead m) (mx_trackedMonitorOrder m),
             mx_trackedMonitorHead := 0\<rparr>
      else m)"

definition trackMonitorLocked :: "string \<Rightarrow> Metrics \<Rightarrow> Metrics option" where
  "trackMonitorLocked monitorID m =
     (if monitorID \<in> mx_trackedMonitors m then Some m
      else map_option compactTracked
        (trackLoop (m\<lparr>mx_trackedMonitors := insert monitorID (mx_trackedMonitors m),
                      mx_trackedMonitorOrder := mx_trackedMonitorOrder m @ [monitorID]\<rparr>)))"

text \<open>\<open>Duration.Seconds\<close>, exactly.\<close>

definition Seconds :: "duration \<Rightarrow> rat" where
  "Seconds d = of_int d / of_int Second"

definition countCheck :: "gotime \<Rightarrow> CheckResult \<Rightarrow> Metrics \<Rightarrow> Metrics" where
  "countCheck recordedAt result m =
     m\<lparr>mx_checksTotal := mx_checksTotal m + 1, mx_lastCheckAt := recordedAt,
       mx_durationSumSeconds := mx_durationSumSeconds m + Seconds (res_Duration result),
       mx_durationCount := mx_durationCount m + 1\<rparr>"

definition setGauges :: "CheckResult \<Rightarrow> Metrics \<Rightarrow> Metrics" where
  "setGauges result m =
     m\<lparr>mx_statusByMonitor := (mx_statusByMonitor m)(res_MonitorID result \<mapsto> res_StatusCode result),
       mx_upByMonitor := (mx_upByMonitor m)(res_MonitorID result \<mapsto> res_Healthy result)\<rparr>"

definition setFailures :: "string \<Rightarrow> int \<Rightarrow> Metrics \<Rightarrow> Metrics" where
  "setFailures monitorID n m =
     m\<lparr>mx_consecutiveFailures := (mx_consecutiveFailures m)(monitorID \<mapsto> n)\<rparr>"

definition consecutive :: "string \<Rightarrow> Metrics \<Rightarrow> int" where
  "consecutive monitorID m = (case mx_consecutiveFailures m monitorID of None \<Rightarrow> 0 | Some n \<Rightarrow> n)"

definition RecordResult :: "CheckResult \<Rightarrow> gotime \<Rightarrow> gotime \<Rightarrow> Metrics \<Rightarrow> Metrics option" where
  "RecordResult result recordedAt0 wall m0 =
     (let recordedAt = (if IsZero recordedAt0 then wall else recordedAt0);
          monitorID = res_MonitorID result;
          gauged = (mx_monitorStateEnabled m0 \<and> monitorID \<noteq> []);
          m1 = countCheck recordedAt result m0
      in map_option
           (\<lambda>m. if res_Healthy result
                then (let m = m\<lparr>mx_healthyTotal := mx_healthyTotal m + 1, mx_lastSuccessAt := recordedAt\<rparr>
                      in if gauged then setFailures monitorID 0 m else m)
                else (let m = m\<lparr>mx_unhealthyTotal := mx_unhealthyTotal m + 1\<rparr>;
                          m = (if gauged then setFailures monitorID (wrap64 (consecutive monitorID m + 1)) m else m)
                      in if res_Error result \<noteq> []
                         then m\<lparr>mx_checkErrorsTotal := mx_checkErrorsTotal m + 1\<rparr> else m))
           (if gauged then map_option (setGauges result) (trackMonitorLocked monitorID m1) else Some m1))"

section \<open>The retention log\<close>

definition track_pre :: "Metrics \<Rightarrow> bool" where
  "track_pre m \<longleftrightarrow>
     mx_trackedMonitorHead m \<le> length (mx_trackedMonitorOrder m)
   \<and> distinct (drop (mx_trackedMonitorHead m) (mx_trackedMonitorOrder m))
   \<and> set (drop (mx_trackedMonitorHead m) (mx_trackedMonitorOrder m)) = mx_trackedMonitors m"

text \<open>The closed form of the loop: the \<open>k\<close> oldest monitors lose their gauges.\<close>

definition dropOldest :: "nat \<Rightarrow> Metrics \<Rightarrow> Metrics" where
  "dropOldest k m =
     (let gone = set (take k (drop (mx_trackedMonitorHead m) (mx_trackedMonitorOrder m))) in
      m\<lparr>mx_statusByMonitor := mx_statusByMonitor m |` (- gone),
        mx_upByMonitor := mx_upByMonitor m |` (- gone),
        mx_consecutiveFailures := mx_consecutiveFailures m |` (- gone),
        mx_trackedMonitors := mx_trackedMonitors m - gone,
        mx_trackedMonitorHead := mx_trackedMonitorHead m + k\<rparr>)"

lemma restrict_UNIV [simp]: "f |` UNIV = f"
  by (auto simp: restrict_map_def)

lemma restrict_upd_None: "(f(x := None)) |` (- g) = f |` (- insert x g)"
  by (auto simp: restrict_map_def)

lemma trackLoop_closed_form:
  assumes "track_pre m"
  shows "trackLoop m = Some (dropOldest (card (mx_trackedMonitors m) - maxTrackedMetricMonitors) m)"
  using assms
proof (induction "card (mx_trackedMonitors m) - maxTrackedMetricMonitors" arbitrary: m)
  case 0
  then have "\<not> card (mx_trackedMonitors m) > maxTrackedMetricMonitors" by simp
  then show ?case by (subst trackLoop.simps) (simp add: dropOldest_def)
next
  case (Suc n)
  let ?head = "mx_trackedMonitorHead m" and ?order = "mx_trackedMonitorOrder m"
  from Suc.hyps(2) have big: "card (mx_trackedMonitors m) > maxTrackedMetricMonitors" by simp
  with Suc.prems have "drop ?head ?order \<noteq> []" by (auto simp: track_pre_def)
  then have inrange: "?head < length ?order" by simp
  define x where "x = ?order ! ?head"
  from inrange have live: "drop ?head ?order = x # drop (Suc ?head) ?order"
    by (simp add: Cons_nth_drop_Suc x_def)
  let ?m1 = "forgetGauges x (m\<lparr>mx_trackedMonitorHead := ?head + 1,
                                 mx_trackedMonitors := mx_trackedMonitors m - {x}\<rparr>)"
  have step: "trackLoop m = trackLoop ?m1"
    using big inrange by (subst trackLoop.simps) (simp add: x_def Let_def)
  have tracked: "mx_trackedMonitors m = insert x (set (drop (Suc ?head) ?order))"
    "x \<notin> set (drop (Suc ?head) ?order)" "distinct (drop (Suc ?head) ?order)"
    using Suc.prems live by (auto simp: track_pre_def)
  then have pre1: "track_pre ?m1"
    using inrange by (auto simp: track_pre_def forgetGauges_def)
  have "card (mx_trackedMonitors ?m1) - maxTrackedMetricMonitors = n"
    using Suc.hyps(2) tracked by (simp add: forgetGauges_def)
  with Suc.hyps(1) [OF _ pre1] have "trackLoop ?m1 = Some (dropOldest n ?m1)" by simp
  moreover have "dropOldest n ?m1 = dropOldest (Suc n) m"
    by (simp add: dropOldest_def forgetGauges_def live restrict_upd_None Let_def
        flip: Diff_insert2 del: restrict_fun_upd Compl_insert)
  ultimately show ?case using step Suc.hyps(2) by simp
qed

section \<open>Invariant\<close>

definition gauges_ok :: "Metrics \<Rightarrow> bool" where
  "gauges_ok m \<longleftrightarrow>
     track_pre m
   \<and> card (mx_trackedMonitors m) \<le> maxTrackedMetricMonitors
   \<and> mx_trackedMonitorHead m \<le> maxTrackedMetricMonitors
   \<and> dom (mx_statusByMonitor m) = mx_trackedMonitors m
   \<and> dom (mx_upByMonitor m) = mx_trackedMonitors m
   \<and> dom (mx_consecutiveFailures m) = mx_trackedMonitors m"

definition metrics_ok :: "Metrics \<Rightarrow> bool" where
  "metrics_ok m \<longleftrightarrow> gauges_ok m
   \<and> mx_checksTotal m = mx_healthyTotal m + mx_unhealthyTotal m
   \<and> mx_durationCount m = mx_checksTotal m"

lemma gauges_ok_finite: "gauges_ok m \<Longrightarrow> finite (mx_trackedMonitors m)"
  by (auto simp: gauges_ok_def track_pre_def intro: finite_subset [OF eq_refl [OF sym]])

lemma compactTracked_ok:
  assumes "track_pre m" "card (mx_trackedMonitors m) \<le> maxTrackedMetricMonitors"
  shows "track_pre (compactTracked m)"
    "mx_trackedMonitorHead (compactTracked m) \<le> maxTrackedMetricMonitors"
    "mx_trackedMonitors (compactTracked m) = mx_trackedMonitors m"
    "mx_statusByMonitor (compactTracked m) = mx_statusByMonitor m"
    "mx_upByMonitor (compactTracked m) = mx_upByMonitor m"
    "mx_consecutiveFailures (compactTracked m) = mx_consecutiveFailures m"
    "mx_checksTotal (compactTracked m) = mx_checksTotal m"
    "mx_healthyTotal (compactTracked m) = mx_healthyTotal m"
    "mx_unhealthyTotal (compactTracked m) = mx_unhealthyTotal m"
    "mx_durationCount (compactTracked m) = mx_durationCount m"
    "mx_monitorStateEnabled (compactTracked m) = mx_monitorStateEnabled m"
    "mx_totalLinks (compactTracked m) = mx_totalLinks m"
proof -
  have "length (drop (mx_trackedMonitorHead m) (mx_trackedMonitorOrder m)) = card (mx_trackedMonitors m)"
    using assms(1) unfolding track_pre_def by (metis distinct_card)
  with assms show "mx_trackedMonitorHead (compactTracked m) \<le> maxTrackedMetricMonitors"
    by (auto simp: compactTracked_def track_pre_def)
qed (use assms in \<open>simp_all add: compactTracked_def track_pre_def\<close>)

text \<open>Tracking a monitor succeeds, keeps the log well formed and bounded, and leaves every
  gauge that is not the oldest one.\<close>

lemma trackMonitorLocked_ok:
  assumes ok: "gauges_ok m"
  obtains m' where "trackMonitorLocked i m = Some m'" "track_pre m'"
    "card (mx_trackedMonitors m') \<le> maxTrackedMetricMonitors"
    "mx_trackedMonitorHead m' \<le> maxTrackedMetricMonitors" "i \<in> mx_trackedMonitors m'"
    "insert i (dom (mx_statusByMonitor m')) = mx_trackedMonitors m'"
    "insert i (dom (mx_upByMonitor m')) = mx_trackedMonitors m'"
    "insert i (dom (mx_consecutiveFailures m')) = mx_trackedMonitors m'"
    "mx_checksTotal m' = mx_checksTotal m" "mx_healthyTotal m' = mx_healthyTotal m"
    "mx_unhealthyTotal m' = mx_unhealthyTotal m" "mx_durationCount m' = mx_durationCount m"
    "mx_monitorStateEnabled m' = mx_monitorStateEnabled m"
    "mx_totalLinks m' = mx_totalLinks m"
    "mx_trackedMonitors m' \<subseteq> insert i (mx_trackedMonitors m)"
proof (cases "i \<in> mx_trackedMonitors m")
  case True
  show ?thesis
    by (rule that [of m]) (use ok True in \<open>simp_all add: trackMonitorLocked_def gauges_ok_def insert_absorb\<close>)
next
  case False
  let ?m1 = "m\<lparr>mx_trackedMonitors := insert i (mx_trackedMonitors m),
               mx_trackedMonitorOrder := mx_trackedMonitorOrder m @ [i]\<rparr>"
  let ?live = "drop (mx_trackedMonitorHead m) (mx_trackedMonitorOrder m)"
  have pre: "mx_trackedMonitorHead m \<le> length (mx_trackedMonitorOrder m)" "distinct ?live"
    "set ?live = mx_trackedMonitors m" "card (mx_trackedMonitors m) \<le> maxTrackedMetricMonitors"
    "mx_trackedMonitorHead m \<le> maxTrackedMetricMonitors"
    using ok by (simp_all add: gauges_ok_def track_pre_def)
  with False have pre1: "track_pre ?m1" by (simp add: track_pre_def)
  define k where "k = card (mx_trackedMonitors ?m1) - maxTrackedMetricMonitors"
  define m2 where "m2 = dropOldest k ?m1"
  have run: "trackMonitorLocked i m = Some (compactTracked m2)"
    using False trackLoop_closed_form [OF pre1] by (simp add: trackMonitorLocked_def m2_def k_def)
  have fin: "finite (mx_trackedMonitors m)" using ok by (rule gauges_ok_finite)
  then have card1: "card (mx_trackedMonitors ?m1) = Suc (card (mx_trackedMonitors m))"
    using False by simp
  have len: "length ?live = card (mx_trackedMonitors m)"
    using pre by (metis distinct_card)
  have "1 \<le> maxTrackedMetricMonitors" by (simp add: maxTrackedMetricMonitors_def)
  then have k: "k \<le> length ?live" "k \<le> 1" using card1 pre(4) len by (auto simp: k_def)
  define gone where "gone = set (take k ?live)"
  have gone: "gone \<subseteq> mx_trackedMonitors m" "card gone = k" "i \<notin> gone"
    using pre(2,3) k(1) False set_take_subset [of k ?live]
    by (auto simp: gone_def distinct_card)
  have take1: "set (take k (?live @ [i])) = gone" using k(1) by (simp add: gone_def)
  have m2: "mx_trackedMonitors m2 = insert i (mx_trackedMonitors m) - gone"
    "mx_trackedMonitorHead m2 = mx_trackedMonitorHead m + k"
    "mx_trackedMonitorOrder m2 = mx_trackedMonitorOrder m @ [i]"
    "dom (mx_statusByMonitor m2) = mx_trackedMonitors m - gone"
    "dom (mx_upByMonitor m2) = mx_trackedMonitors m - gone"
    "dom (mx_consecutiveFailures m2) = mx_trackedMonitors m - gone"
    "mx_checksTotal m2 = mx_checksTotal m" "mx_healthyTotal m2 = mx_healthyTotal m"
    "mx_unhealthyTotal m2 = mx_unhealthyTotal m" "mx_durationCount m2 = mx_durationCount m"
    "mx_monitorStateEnabled m2 = mx_monitorStateEnabled m" "mx_totalLinks m2 = mx_totalLinks m"
    using ok pre(1) take1
    by (auto simp: m2_def dropOldest_def Let_def gauges_ok_def)
  have live2: "drop (mx_trackedMonitorHead m2) (mx_trackedMonitorOrder m2) = drop k ?live @ [i]"
    using pre(1) k(1) by (simp add: m2 add.commute)
  have "set (drop k ?live) = mx_trackedMonitors m - gone"
    using pre(2,3) by (metis append_take_drop_id distinct_append gone_def Diff_Diff_Int Diff_disjoint
        Un_Diff inf_commute set_append Diff_cancel Diff_triv Un_empty_left)
  moreover have "distinct (drop k ?live @ [i])"
    using distinct_drop [OF pre(2), of k] in_set_dropD [of i k ?live] False pre(3) by auto
  ultimately have pre2: "track_pre m2"
    unfolding track_pre_def live2 using pre(1) k(1) gone(3) by (auto simp: m2)
  have cardm2: "card (mx_trackedMonitors m2) \<le> maxTrackedMetricMonitors"
    using fin gone card1 pre(4)
      card_Diff_subset [OF finite_subset [OF gone(1) fin] subset_insertI2 [OF gone(1), of i]]
    by (auto simp: m2 k_def)
  show ?thesis
  proof (rule that [OF run])
  qed (use compactTracked_ok [OF pre2 cardm2] cardm2 m2 gone False in \<open>auto simp: insert_Diff_if\<close>)
qed

section \<open>Every operation keeps the invariant\<close>

lemma newMetrics_ok: "metrics_ok (newMetrics now v c b n enabled)"
  by (simp add: metrics_ok_def gauges_ok_def newMetrics_def track_pre_def)

lemma RemoveMonitor_ok:
  assumes "metrics_ok m"
  shows "metrics_ok (RemoveMonitor i m)"
proof (cases "i = [] \<or> \<not> mx_monitorStateEnabled m")
  case True
  with assms show ?thesis by (simp add: RemoveMonitor_def)
next
  case False
  show ?thesis
  proof (cases "i \<in> mx_trackedMonitors m")
    case F: False
    then have "forgetGauges i m = m"
      using assms by (auto simp: forgetGauges_def metrics_ok_def gauges_ok_def domIff fun_upd_idem)
    with False F assms show ?thesis by (simp add: RemoveMonitor_def)
  next
    case True
    have "card (mx_trackedMonitors m - {i}) \<le> maxTrackedMetricMonitors"
      using assms card_Diff1_le [of "mx_trackedMonitors m" i] by (simp add: metrics_ok_def gauges_ok_def)
    with False True assms show ?thesis
      by (auto simp: RemoveMonitor_def forgetGauges_def metrics_ok_def gauges_ok_def track_pre_def Let_def
          length_remove1 min_def set_remove1_eq)
  qed
qed

text \<open>The tail of \<open>RecordResult\<close>, once the monitor is tracked.\<close>

definition countVerdict :: "bool \<Rightarrow> gotime \<Rightarrow> CheckResult \<Rightarrow> Metrics \<Rightarrow> Metrics" where
  "countVerdict gauged recordedAt result m =
     (if res_Healthy result
      then (let m = m\<lparr>mx_healthyTotal := mx_healthyTotal m + 1, mx_lastSuccessAt := recordedAt\<rparr>
            in if gauged then setFailures (res_MonitorID result) 0 m else m)
      else (let m = m\<lparr>mx_unhealthyTotal := mx_unhealthyTotal m + 1\<rparr>;
                m = (if gauged then setFailures (res_MonitorID result)
                                      (wrap64 (consecutive (res_MonitorID result) m + 1)) m else m)
            in if res_Error result \<noteq> []
               then m\<lparr>mx_checkErrorsTotal := mx_checkErrorsTotal m + 1\<rparr> else m))"

lemma RecordResult_alt:
  "RecordResult result recordedAt wall m =
     (let t = (if IsZero recordedAt then wall else recordedAt);
          gauged = (mx_monitorStateEnabled m \<and> res_MonitorID result \<noteq> [])
      in map_option (countVerdict gauged t result)
           (if gauged then map_option (setGauges result)
                             (trackMonitorLocked (res_MonitorID result) (countCheck t result m))
            else Some (countCheck t result m)))"
  unfolding RecordResult_def countVerdict_def Let_def by (rule refl)

lemma countVerdict_simps [simp]:
  "mx_trackedMonitors (countVerdict g t res m) = mx_trackedMonitors m"
  "mx_trackedMonitorOrder (countVerdict g t res m) = mx_trackedMonitorOrder m"
  "mx_trackedMonitorHead (countVerdict g t res m) = mx_trackedMonitorHead m"
  "mx_statusByMonitor (countVerdict g t res m) = mx_statusByMonitor m"
  "mx_upByMonitor (countVerdict g t res m) = mx_upByMonitor m"
  "dom (mx_consecutiveFailures (countVerdict g t res m)) =
     (if g then insert (res_MonitorID res) (dom (mx_consecutiveFailures m)) else dom (mx_consecutiveFailures m))"
  "mx_checksTotal (countVerdict g t res m) = mx_checksTotal m"
  "mx_durationCount (countVerdict g t res m) = mx_durationCount m"
  "mx_healthyTotal (countVerdict g t res m) + mx_unhealthyTotal (countVerdict g t res m)
     = mx_healthyTotal m + mx_unhealthyTotal m + 1"
  "mx_totalLinks (countVerdict g t res m) = mx_totalLinks m"
  "mx_monitorStateEnabled (countVerdict g t res m) = mx_monitorStateEnabled m"
  by (simp_all add: countVerdict_def setFailures_def Let_def algebra_simps)

lemma countCheck_simps [simp]:
  "gauges_ok (countCheck t res m) = gauges_ok m"
  "mx_checksTotal (countCheck t res m) = mx_checksTotal m + 1"
  "mx_durationCount (countCheck t res m) = mx_durationCount m + 1"
  "mx_healthyTotal (countCheck t res m) = mx_healthyTotal m"
  "mx_unhealthyTotal (countCheck t res m) = mx_unhealthyTotal m"
  "mx_monitorStateEnabled (countCheck t res m) = mx_monitorStateEnabled m"
  "mx_trackedMonitors (countCheck t res m) = mx_trackedMonitors m"
  "mx_totalLinks (countCheck t res m) = mx_totalLinks m"
  by (simp_all add: countCheck_def gauges_ok_def track_pre_def)

lemma setGauges_simps [simp]:
  "mx_trackedMonitors (setGauges res m) = mx_trackedMonitors m"
  "mx_trackedMonitorOrder (setGauges res m) = mx_trackedMonitorOrder m"
  "mx_trackedMonitorHead (setGauges res m) = mx_trackedMonitorHead m"
  "mx_statusByMonitor (setGauges res m) = (mx_statusByMonitor m)(res_MonitorID res \<mapsto> res_StatusCode res)"
  "mx_upByMonitor (setGauges res m) = (mx_upByMonitor m)(res_MonitorID res \<mapsto> res_Healthy res)"
  "mx_consecutiveFailures (setGauges res m) = mx_consecutiveFailures m"
  "mx_checksTotal (setGauges res m) = mx_checksTotal m"
  "mx_durationCount (setGauges res m) = mx_durationCount m"
  "mx_healthyTotal (setGauges res m) = mx_healthyTotal m"
  "mx_unhealthyTotal (setGauges res m) = mx_unhealthyTotal m"
  "mx_totalLinks (setGauges res m) = mx_totalLinks m"
  "mx_monitorStateEnabled (setGauges res m) = mx_monitorStateEnabled m"
  by (simp_all add: setGauges_def)

lemma RecordResult_ok:
  assumes ok: "metrics_ok m"
  obtains m' where "RecordResult res t wall m = Some m'" "metrics_ok m'"
    "mx_totalLinks m' = mx_totalLinks m" "mx_monitorStateEnabled m' = mx_monitorStateEnabled m"
    "mx_trackedMonitors m' \<subseteq>
       (if mx_monitorStateEnabled m \<and> res_MonitorID res \<noteq> []
        then insert (res_MonitorID res) (mx_trackedMonitors m) else mx_trackedMonitors m)"
proof -
  define t' where "t' = (if IsZero t then wall else t)"
  define gauged where "gauged \<longleftrightarrow> mx_monitorStateEnabled m \<and> res_MonitorID res \<noteq> []"
  show ?thesis
  proof (cases gauged)
    case False
    show ?thesis
    proof (rule that)
      show "RecordResult res t wall m = Some (countVerdict gauged t' res (countCheck t' res m))"
        using False unfolding t'_def gauged_def by (auto simp: RecordResult_alt Let_def)
      show "metrics_ok (countVerdict gauged t' res (countCheck t' res m))"
        using False ok by (simp add: metrics_ok_def gauges_ok_def track_pre_def countCheck_def)
    qed auto
  next
    case True
    obtain m1 where m1: "trackMonitorLocked (res_MonitorID res) (countCheck t' res m) = Some m1"
      "track_pre m1" "card (mx_trackedMonitors m1) \<le> maxTrackedMetricMonitors"
      "mx_trackedMonitorHead m1 \<le> maxTrackedMetricMonitors" "res_MonitorID res \<in> mx_trackedMonitors m1"
      "insert (res_MonitorID res) (dom (mx_statusByMonitor m1)) = mx_trackedMonitors m1"
      "insert (res_MonitorID res) (dom (mx_upByMonitor m1)) = mx_trackedMonitors m1"
      "insert (res_MonitorID res) (dom (mx_consecutiveFailures m1)) = mx_trackedMonitors m1"
      "mx_checksTotal m1 = mx_checksTotal m + 1" "mx_durationCount m1 = mx_durationCount m + 1"
      "mx_healthyTotal m1 = mx_healthyTotal m" "mx_unhealthyTotal m1 = mx_unhealthyTotal m"
      "mx_totalLinks m1 = mx_totalLinks m" "mx_monitorStateEnabled m1 = mx_monitorStateEnabled m"
      "mx_trackedMonitors m1 \<subseteq> insert (res_MonitorID res) (mx_trackedMonitors m)"
      by (rule trackMonitorLocked_ok [of "countCheck t' res m" "res_MonitorID res"])
         (use ok in \<open>simp_all add: metrics_ok_def\<close>)
    show ?thesis
    proof (rule that)
      show "RecordResult res t wall m = Some (countVerdict gauged t' res (setGauges res m1))"
        using True m1(1) unfolding t'_def gauged_def by (simp add: RecordResult_alt Let_def)
      show "metrics_ok (countVerdict gauged t' res (setGauges res m1))"
        using True m1 ok by (simp add: metrics_ok_def gauges_ok_def track_pre_def)
    qed (use m1 True in \<open>simp_all add: gauged_def\<close>)
  qed
qed

section \<open>Runs of the process\<close>

inductive metrics_reachable :: "Metrics \<Rightarrow> bool" where
  mr_new: "metrics_reachable (newMetrics now v c b n enabled)"
| mr_set_links: "metrics_reachable m \<Longrightarrow> metrics_reachable (SetTotalLinks n m)"
| mr_adjust_links: "metrics_reachable m \<Longrightarrow> metrics_reachable (AdjustTotalLinks d m)"
| mr_remove: "metrics_reachable m \<Longrightarrow> metrics_reachable (RemoveMonitor i m)"
| mr_scheduled: "metrics_reachable m \<Longrightarrow> metrics_reachable (RecordScheduled m)"
| mr_skipped: "metrics_reachable m \<Longrightarrow> metrics_reachable (RecordSkipped m)"
| mr_requeue: "metrics_reachable m \<Longrightarrow> metrics_reachable (RecordInfrastructureRequeue m)"
| mr_delivered: "metrics_reachable m \<Longrightarrow> metrics_reachable (RecordAlertDelivered m)"
| mr_failure: "metrics_reachable m \<Longrightarrow> metrics_reachable (RecordAlertFailure dead m)"
| mr_dependency: "metrics_reachable m \<Longrightarrow> metrics_reachable (SetDependencyUp name up m)"
| mr_result: "metrics_reachable m \<Longrightarrow> RecordResult res t wall m = Some m' \<Longrightarrow> metrics_reachable m'"

lemma metrics_reachable_ok: "metrics_reachable m \<Longrightarrow> metrics_ok m"
proof (induction rule: metrics_reachable.induct)
  case (mr_new now v c b n enabled)
  show ?case by (rule newMetrics_ok)
next
  case (mr_remove m i)
  then show ?case by (intro RemoveMonitor_ok)
next
  case (mr_result m res t wall m')
  then show ?case by (metis RecordResult_ok option.inject)
qed (simp_all add: metrics_ok_def gauges_ok_def track_pre_def SetTotalLinks_def AdjustTotalLinks_def
    RecordScheduled_def RecordSkipped_def RecordInfrastructureRequeue_def RecordAlertDelivered_def
    RecordAlertFailure_def SetDependencyUp_def Let_def)

section \<open>Text\<close>

text \<open>\<open>strings.ReplaceAll\<close> of a single byte.\<close>

definition ReplaceAll :: "string \<Rightarrow> char \<Rightarrow> string \<Rightarrow> string" where
  "ReplaceAll s c new = concat (map (\<lambda>x. if x = c then new else [x]) s)"

abbreviation (input) backslash :: char where "backslash \<equiv> CHR 0x5C"
abbreviation (input) newline :: char where "newline \<equiv> CHR 0x0A"
abbreviation (input) dquote :: char where "dquote \<equiv> CHR 0x22"

definition escapeLabelValue :: "string \<Rightarrow> string" where
  "escapeLabelValue s =
     ReplaceAll (ReplaceAll (ReplaceAll s backslash [backslash, backslash])
                   newline [backslash, CHR ''n''])
       dquote [backslash, dquote]"

definition unixSeconds :: "gotime \<Rightarrow> int" where
  "unixSeconds t = (if IsZero t then 0 else (t - unix_epoch) div Second)"

definition writeMetric :: "string \<Rightarrow> string \<Rightarrow> string \<Rightarrow> string \<Rightarrow> string" where
  "writeMetric name help metricType val =
     ''# HELP '' @ name @ '' '' @ help @ [newline]
     @ ''# TYPE '' @ name @ '' '' @ metricType @ [newline]
     @ name @ '' '' @ val @ [newline]"

definition quoted :: "string \<Rightarrow> string" where
  "quoted s = [dquote] @ escapeLabelValue s @ [dquote]"

definition uint_text :: "64 word \<Rightarrow> string" where
  "uint_text n = string_of_nat (unat n)"

definition flag_text :: "bool \<Rightarrow> string" where
  "flag_text b = (if b then ''1'' else ''0'')"

definition lookup_int :: "(string \<rightharpoonup> int) \<Rightarrow> string \<Rightarrow> int" where
  "lookup_int m k = (case m k of None \<Rightarrow> 0 | Some v \<Rightarrow> v)"

text \<open>The lines of one monitor, and of one dependency.\<close>

definition monitorLines :: "Metrics \<Rightarrow> string \<Rightarrow> string" where
  "monitorLines m monitorID =
     (let label = ''monitor_id='' @ quoted monitorID in
      ''site_checker_site_up{'' @ label @ ''} ''
        @ flag_text (mx_upByMonitor m monitorID = Some True) @ [newline]
      @ ''site_checker_site_status_code{'' @ label @ ''} ''
        @ Itoa (lookup_int (mx_statusByMonitor m) monitorID) @ [newline]
      @ ''site_checker_site_consecutive_failures{'' @ label @ ''} ''
        @ Itoa (lookup_int (mx_consecutiveFailures m) monitorID) @ [newline])"

definition dependencyLine :: "Metrics \<Rightarrow> string \<Rightarrow> string" where
  "dependencyLine m dependency =
     ''site_checker_dependency_up{dependency='' @ quoted dependency @ ''} ''
     @ flag_text (mx_dependencyUp m dependency = Some True) @ [newline]"

text \<open>\<open>Prometheus\<close>: \<open>ids\<close> and \<open>deps\<close> are the orders in which the two range loops visit their
  maps, \<open>float_text\<close> prints a \<open>float64\<close>.\<close>

definition Prometheus :: "(rat \<Rightarrow> string) \<Rightarrow> string list \<Rightarrow> string list \<Rightarrow> Metrics \<Rightarrow> string" where
  "Prometheus float_text ids deps m =
     ''# HELP site_checker_build_info Build metadata.'' @ [newline]
   @ ''# TYPE site_checker_build_info gauge'' @ [newline]
   @ ''site_checker_build_info{version='' @ quoted (mx_version m)
   @ '',commit='' @ quoted (mx_commit m) @ '',build_date='' @ quoted (mx_buildDate m) @ ''} 1'' @ [newline]
   @ (if mx_monitorStateEnabled m
      then writeMetric ''site_checker_links_total'' ''Number of configured URLs.'' ''gauge''
             (Itoa (mx_totalLinks m)) else [])
   @ writeMetric ''site_checker_checks_total'' ''Total completed checks.'' ''counter''
       (uint_text (mx_checksTotal m))
   @ writeMetric ''site_checker_checks_healthy_total''
       ''Total checks matching the expected status policy.'' ''counter'' (uint_text (mx_healthyTotal m))
   @ writeMetric ''site_checker_checks_unhealthy_total''
       ''Total checks outside the expected status policy.'' ''counter'' (uint_text (mx_unhealthyTotal m))
   @ writeMetric ''site_checker_check_errors_total'' ''Total checks that returned an error.'' ''counter''
       (uint_text (mx_checkErrorsTotal m))
   @ writeMetric ''site_checker_jobs_scheduled_total'' ''Total jobs accepted by the scheduler.'' ''counter''
       (uint_text (mx_jobsScheduledTotal m))
   @ writeMetric ''site_checker_jobs_skipped_total''
       ''Total scheduler attempts skipped because the queue was full.'' ''counter''
       (uint_text (mx_jobsSkippedTotal m))
   @ writeMetric ''site_checker_job_infrastructure_requeues_total''
       ''Total jobs requeued after transient infrastructure failures.'' ''counter''
       (uint_text (mx_infraRequeuesTotal m))
   @ writeMetric ''site_checker_alerts_delivered_total'' ''Total webhook alerts delivered successfully.''
       ''counter'' (uint_text (mx_alertsDeliveredTotal m))
   @ writeMetric ''site_checker_alert_delivery_failures_total''
       ''Total failed webhook alert delivery attempts.'' ''counter'' (uint_text (mx_alertFailuresTotal m))
   @ writeMetric ''site_checker_alerts_dead_total'' ''Total webhook alerts exhausted after retry attempts.''
       ''counter'' (uint_text (mx_alertsDeadTotal m))
   @ writeMetric ''site_checker_check_duration_seconds_sum'' ''Total check duration in seconds.'' ''counter''
       (float_text (mx_durationSumSeconds m))
   @ writeMetric ''site_checker_check_duration_seconds_count'' ''Number of observed check durations.''
       ''counter'' (uint_text (mx_durationCount m))
   @ writeMetric ''site_checker_started_timestamp_seconds'' ''Unix timestamp when the process started.''
       ''gauge'' (Itoa (unixSeconds (mx_startedAt m)))
   @ writeMetric ''site_checker_last_check_timestamp_seconds''
       ''Unix timestamp of the last completed check.'' ''gauge'' (Itoa (unixSeconds (mx_lastCheckAt m)))
   @ writeMetric ''site_checker_last_success_timestamp_seconds''
       ''Unix timestamp of the last successful check.'' ''gauge'' (Itoa (unixSeconds (mx_lastSuccessAt m)))
   @ (if mx_monitorStateEnabled m
      then ''# HELP site_checker_site_up Last known site health by monitor ID.'' @ [newline]
         @ ''# TYPE site_checker_site_up gauge'' @ [newline]
         @ ''# HELP site_checker_site_status_code Last observed HTTP status code by monitor ID.'' @ [newline]
         @ ''# TYPE site_checker_site_status_code gauge'' @ [newline]
         @ ''# HELP site_checker_site_consecutive_failures Consecutive failed checks by monitor ID.'' @ [newline]
         @ ''# TYPE site_checker_site_consecutive_failures gauge'' @ [newline]
         @ concat (map (monitorLines m) (sort ids))
      else [])
   @ ''# HELP site_checker_dependency_up Last known dependency readiness by dependency name.'' @ [newline]
   @ ''# TYPE site_checker_dependency_up gauge'' @ [newline]
   @ concat (map (dependencyLine m) (sort deps))"

section \<open>Escaping\<close>

text \<open>The three replacements act on each byte on its own.\<close>

definition escape_byte :: "char \<Rightarrow> string" where
  "escape_byte c =
     (if c = backslash then [backslash, backslash]
      else if c = newline then [backslash, CHR ''n'']
      else if c = dquote then [backslash, dquote] else [c])"

lemma escapeLabelValue_bytes: "escapeLabelValue s = concat (map escape_byte s)"
  by (induction s) (auto simp: escapeLabelValue_def ReplaceAll_def escape_byte_def)

text \<open>What a scraper reads: the inverse of escaping.\<close>

fun unescape :: "string \<Rightarrow> string" where
  "unescape [] = []"
| "unescape [c] = [c]"
| "unescape (c # d # s) =
     (if c = backslash then (if d = CHR ''n'' then newline else d) # unescape s
      else c # unescape (d # s))"

lemma unescape_plain: "c \<noteq> backslash \<Longrightarrow> unescape (c # s) = c # unescape s"
  by (cases s) simp_all

lemma unescape_escape: "unescape (escapeLabelValue s) = s"
proof (induction s)
  case Nil
  show ?case by (simp add: escapeLabelValue_bytes)
next
  case (Cons c s)
  have "unescape (escape_byte c @ r) = c # unescape r" for r
    by (auto simp: escape_byte_def unescape_plain)
  with Cons show ?case by (simp add: escapeLabelValue_bytes)
qed

text \<open>Reading up to the first quote that is not escaped.\<close>

fun closing_quote :: "string \<Rightarrow> (string \<times> string) option" where
  "closing_quote [] = None"
| "closing_quote (c # s) =
     (if c = dquote then Some ([], s)
      else if c = backslash
        then (case s of [] \<Rightarrow> None
              | d # s' \<Rightarrow> map_option (\<lambda>(a, r). (c # d # a, r)) (closing_quote s'))
      else map_option (\<lambda>(a, r). (c # a, r)) (closing_quote s))"

lemma closing_quote_escape: "closing_quote (escapeLabelValue s @ dquote # r) = Some (escapeLabelValue s, r)"
proof (induction s)
  case Nil
  show ?case by (simp add: escapeLabelValue_bytes)
next
  case (Cons c s)
  then show ?case by (auto simp: escapeLabelValue_bytes escape_byte_def)
qed

lemma escape_no_newline: "newline \<notin> set (escapeLabelValue s)"
  by (induction s) (auto simp: escapeLabelValue_bytes escape_byte_def)

section \<open>Properties\<close>

text \<open>
  C28. The metrics stay consistent and bounded in every run of the process. Recording a result
  never panics; at most 10,000 monitors have gauges, exactly the tracked ones have each of
  the three, the retention log never exceeds 20,000 entries, and the number of checks is the
  number of healthy plus unhealthy ones (as 64-bit counters).\<close>
theorem metrics_consistent:
  assumes "metrics_reachable m"
  shows "(\<exists>m'. RecordResult result recordedAt wall m = Some m')
    \<and> card (dom (mx_upByMonitor m)) \<le> 10000
    \<and> dom (mx_upByMonitor m) = mx_trackedMonitors m
    \<and> dom (mx_statusByMonitor m) = mx_trackedMonitors m
    \<and> dom (mx_consecutiveFailures m) = mx_trackedMonitors m
    \<and> length (mx_trackedMonitorOrder m) \<le> 20000
    \<and> mx_checksTotal m = mx_healthyTotal m + mx_unhealthyTotal m"
proof -
  have ok: "metrics_ok m" using assms by (rule metrics_reachable_ok)
  then have "length (drop (mx_trackedMonitorHead m) (mx_trackedMonitorOrder m)) = card (mx_trackedMonitors m)"
    unfolding metrics_ok_def gauges_ok_def track_pre_def by (metis distinct_card)
  moreover obtain m' where "RecordResult result recordedAt wall m = Some m'"
    using ok by (rule RecordResult_ok)
  ultimately show ?thesis
    using ok by (auto simp: metrics_ok_def gauges_ok_def maxTrackedMetricMonitors_def)
qed

theorem metrics_consistent_witness:
  "card (dom (mx_upByMonitor (RemoveMonitor ''mon_1'' (newMetrics 1 ''v1'' ''abc'' ''today'' 3 True)))) \<le> 10000"
  using metrics_consistent [OF mr_remove [OF mr_new, where i = "''mon_1''"]] by blast

text \<open>
  Label values survive the exposition format: reading an escaped value up to its closing
  quote finds exactly the escaped text whatever follows, unescaping it gives the value back,
  and it never contains a line break, so no identifier or version can inject a label or a
  sample line.\<close>
theorem label_escaping_roundtrip:
  "closing_quote (escapeLabelValue s @ CHR 0x22 # rest) = Some (escapeLabelValue s, rest)
   \<and> unescape (escapeLabelValue s) = s \<and> CHR 0x0A \<notin> set (escapeLabelValue s)"
  using closing_quote_escape unescape_escape escape_no_newline by blast

text \<open>The order in which the maps are visited does not show in the text.\<close>

lemma Prometheus_order:
  assumes "iter_order (mx_upByMonitor m) ids" "iter_order (mx_upByMonitor m) ids'"
    and "iter_order (mx_dependencyUp m) deps" "iter_order (mx_dependencyUp m) deps'"
  shows "Prometheus f ids deps m = Prometheus f ids' deps' m"
proof -
  have "sort ids = sort ids'" "sort deps = sort deps'"
    using assms by (auto simp: iter_order_def intro!: sorted_distinct_set_unique)
  then show ?thesis unfolding Prometheus_def by simp
qed

end
