(* ===== verification/Memory_Queue.thy ===== *)
theory Memory_Queue
  imports Domain "HOL-Library.Multiset"
begin

text \<open>
  The in-memory job queue of \<open>queue.go\<close>. The two Go channels are lists bounded by the
  buffer size (a queue with buffer size 0 is outside the model: the configuration never
  makes one); \<open>seen\<close> is the set of job identifiers the queue holds a reservation for.

  A context is the error it reports: \<open>None\<close> while it is live, \<open>Some e\<close> once it is done.
  Where a \<open>select\<close> has several ready cases Go picks one at random; the operations take
  that pick as an argument, and the theorems hold for both picks.

  The second half interleaves the operations at the grain of the mutex: publishers and
  consumers run concurrently, and the relation \<open>queue_step\<close> has one rule for each critical
  section and each channel operation.
\<close>

section \<open>The queue and its operations\<close>

type_synonym ctx_err = "go_error option"

record InMemoryQueue =
  q_jobs :: "CheckJobMessage list"
  q_deadLetters :: "CheckJobMessage list"
  q_bufferSize :: nat
  q_maxAttempts :: int
  q_seen :: "string set"
  q_closed :: bool

definition NewInMemoryQueue :: "nat \<Rightarrow> int \<Rightarrow> InMemoryQueue" where
  "NewInMemoryQueue bufferSize maxAttempts =
     \<lparr>q_jobs = [], q_deadLetters = [], q_bufferSize = bufferSize, q_maxAttempts = maxAttempts,
      q_seen = {}, q_closed = False\<rparr>"

definition forget :: "string \<Rightarrow> InMemoryQueue \<Rightarrow> InMemoryQueue" where
  "forget jobID q = q\<lparr>q_seen := q_seen q - {jobID}\<rparr>"

definition Close :: "InMemoryQueue \<Rightarrow> InMemoryQueue" where
  "Close q = q\<lparr>q_closed := True\<rparr>"

text \<open>\<open>enqueue\<close>: the error it returns with the queue. \<open>pick_done\<close> is the choice of the
  \<open>select\<close> when the context is done and the buffer has room.\<close>

definition enqueue ::
  "ctx_err \<Rightarrow> bool \<Rightarrow> CheckJobMessage \<Rightarrow> InMemoryQueue \<Rightarrow> InMemoryQueue \<times> go_error option" where
  "enqueue ctx pick_done job q =
     (let room = length (q_jobs q) < q_bufferSize q;
          sent = (q\<lparr>q_jobs := q_jobs q @ [job]\<rparr>, None)
      in if q_closed q then (q, Some ContextCanceled)
         else case ctx of
             Some err \<Rightarrow> if room \<and> \<not> pick_done then sent else (q, Some err)
           | None \<Rightarrow> if room then sent else (q, Some ErrQueueFull))"

text \<open>The defaults \<open>Publish\<close> fills in before it takes the lock.\<close>

definition publishDefaults :: "gotime \<Rightarrow> CheckJobMessage \<Rightarrow> CheckJobMessage" where
  "publishDefaults wall job =
     (let job = (if msg_JobID job = []
                 then job\<lparr>msg_JobID := NewCheckJobID wall (msg_MonitorID job) (msg_EnqueuedAt job)\<rparr>
                 else job)
      in if msg_Attempt job = 0 then job\<lparr>msg_Attempt := 1\<rparr> else job)"

text \<open>The first critical section of \<open>Publish\<close>: it returns early (with an error, or with
  \<open>nil\<close> for a job already seen) or goes on with the job reserved.\<close>

datatype reservation = Return "go_error option" | Reserved InMemoryQueue

definition reserve :: "CheckJobMessage \<Rightarrow> InMemoryQueue \<Rightarrow> reservation" where
  "reserve job q =
     (if q_closed q then Return (Some ContextCanceled)
      else if msg_JobID job \<in> q_seen q then Return None
      else Reserved (q\<lparr>q_seen := insert (msg_JobID job) (q_seen q)\<rparr>))"

definition Publish ::
  "gotime \<Rightarrow> ctx_err \<Rightarrow> bool \<Rightarrow> CheckJobMessage \<Rightarrow> InMemoryQueue
   \<Rightarrow> InMemoryQueue \<times> go_error option" where
  "Publish wall ctx pick_done job0 q =
     (let job = publishDefaults wall job0 in
      case reserve job q of
        Return err \<Rightarrow> (q, err)
      | Reserved q1 \<Rightarrow>
          (case enqueue ctx pick_done job q1 of
             (q2, None) \<Rightarrow> (q2, None)
           | (q2, Some err) \<Rightarrow> (forget (msg_JobID job) q2, Some err)))"

text \<open>One turn of the consumer loop of \<open>Consume\<close>: \<open>pick_done\<close> and \<open>pick_done'\<close> are the
  choices of its two \<open>select\<close> statements, \<open>ctx\<close> and \<open>ctx'\<close> the context at each. A
  consumer that stops after it received a job drops that job.\<close>

datatype consumer_turn =
    Waiting
  | Stopped "go_error option"
  | Dropped CheckJobMessage
  | Delivered CheckJobMessage

definition consumeTurn ::
  "ctx_err \<Rightarrow> bool \<Rightarrow> ctx_err \<Rightarrow> bool \<Rightarrow> InMemoryQueue \<Rightarrow> InMemoryQueue \<times> consumer_turn" where
  "consumeTurn ctx pick_done ctx' pick_done' q =
     (if ctx \<noteq> None \<and> (pick_done \<or> q_jobs q = [] \<and> \<not> q_closed q) then (q, Stopped None)
      else case q_jobs q of
          job # rest \<Rightarrow>
            (q\<lparr>q_jobs := rest\<rparr>,
             if ctx' \<noteq> None \<and> pick_done' then Dropped job else Delivered job)
        | [] \<Rightarrow>
            if q_closed q
            then (q, Stopped (if ctx = None then Some ErrQueueConsumerClosed else None))
            else (q, Waiting))"

definition Retryable :: "InMemoryQueue \<Rightarrow> CheckJobMessage \<Rightarrow> bool" where
  "Retryable q job \<longleftrightarrow> msg_Attempt job < q_maxAttempts q"

definition delivery_Ack :: "CheckJobMessage \<Rightarrow> InMemoryQueue \<Rightarrow> InMemoryQueue \<times> go_error option" where
  "delivery_Ack job q = (forget (msg_JobID job) q, None)"

definition deadLetter :: "CheckJobMessage \<Rightarrow> InMemoryQueue \<Rightarrow> InMemoryQueue" where
  "deadLetter job q =
     (if length (q_deadLetters q) < q_bufferSize q
      then q\<lparr>q_deadLetters := q_deadLetters q @ [job]\<rparr> else q)"

definition delivery_Nack ::
  "ctx_err \<Rightarrow> bool \<Rightarrow> bool \<Rightarrow> CheckJobMessage \<Rightarrow> InMemoryQueue
   \<Rightarrow> InMemoryQueue \<times> go_error option" where
  "delivery_Nack ctx pick_done requeue job q =
     (if requeue \<and> msg_Attempt job < q_maxAttempts q
      then (case enqueue ctx pick_done (job\<lparr>msg_Attempt := msg_Attempt job + 1\<rparr>) q of
              (q1, None) \<Rightarrow> (q1, None)
            | (q1, Some err) \<Rightarrow> (forget (msg_JobID job) q1, Some err))
      else (forget (msg_JobID job) (deadLetter job q), None))"

definition delivery_Requeue ::
  "ctx_err \<Rightarrow> bool \<Rightarrow> CheckJobMessage \<Rightarrow> InMemoryQueue \<Rightarrow> InMemoryQueue \<times> go_error option" where
  "delivery_Requeue ctx pick_done job q =
     (case enqueue ctx pick_done job q of
        (q1, None) \<Rightarrow> (q1, None)
      | (q1, Some err) \<Rightarrow> (forget (msg_JobID job) q1, Some err))"

section \<open>Facts on single operations\<close>

lemma enqueue_cases:
  obtains (sent) "enqueue ctx p job q = (q\<lparr>q_jobs := q_jobs q @ [job]\<rparr>, None)"
      "length (q_jobs q) < q_bufferSize q" "\<not> q_closed q"
  | (failed) err where "enqueue ctx p job q = (q, Some err)"
  by (cases "enqueue ctx p job q") (auto simp: enqueue_def Let_def split: if_splits option.splits)

lemma publishDefaults_id:
  "msg_JobID job \<noteq> [] \<Longrightarrow> msg_Attempt job \<noteq> 0 \<Longrightarrow> publishDefaults wall job = job"
  by (simp add: publishDefaults_def)

lemma publishDefaults_identified: "msg_JobID (publishDefaults wall job) \<noteq> []"
  by (simp add: publishDefaults_def NewCheckJobID_def)

section \<open>Concurrent publishers and consumers\<close>

text \<open>
  A configuration of the running queue: the shared queue; \<open>publishing\<close>, the messages of
  publishers that hold a reservation and have not yet sent; \<open>held\<close>, the messages a consumer
  received and whose delivery is not yet settled; \<open>releasing\<close>, the identifiers whose
  reservation is about to be deleted (a failed send, or a delivery put on the dead letters);
  \<open>dropped\<close>, the identifiers of messages a stopping consumer dropped. The histories \<open>sent\<close>
  and \<open>received\<close> record the order of channel operations.
\<close>

record queue_config =
  qc_queue :: InMemoryQueue
  qc_publishing :: "CheckJobMessage list"
  qc_held :: "CheckJobMessage list"
  qc_releasing :: "string list"
  qc_dropped :: "string list"
  qc_sent :: "CheckJobMessage list"
  qc_received :: "CheckJobMessage list"

definition queue_start :: "nat \<Rightarrow> int \<Rightarrow> queue_config" where
  "queue_start bufferSize maxAttempts =
     \<lparr>qc_queue = NewInMemoryQueue bufferSize maxAttempts, qc_publishing = [], qc_held = [],
      qc_releasing = [], qc_dropped = [], qc_sent = [], qc_received = []\<rparr>"

text \<open>The effect of a send attempted on behalf of \<open>job\<close>: on success the message is sent, on
  failure its reservation is released by a later step.\<close>

definition send_effect ::
  "ctx_err \<Rightarrow> bool \<Rightarrow> CheckJobMessage \<Rightarrow> queue_config \<Rightarrow> queue_config" where
  "send_effect ctx pick_done job c =
     (case enqueue ctx pick_done job (qc_queue c) of
        (q, None) \<Rightarrow> c\<lparr>qc_queue := q, qc_sent := qc_sent c @ [job]\<rparr>
      | (q, Some err) \<Rightarrow> c\<lparr>qc_queue := q, qc_releasing := msg_JobID job # qc_releasing c\<rparr>)"

inductive queue_step :: "queue_config \<Rightarrow> queue_config \<Rightarrow> bool" where
  qs_reserve:
    "reserve (publishDefaults wall job) (qc_queue c) = Reserved q
     \<Longrightarrow> queue_step c (c\<lparr>qc_queue := q, qc_publishing := publishDefaults wall job # qc_publishing c\<rparr>)"
| qs_send:
    "job \<in> set (qc_publishing c)
     \<Longrightarrow> queue_step c (send_effect ctx p job (c\<lparr>qc_publishing := remove1 job (qc_publishing c)\<rparr>))"
| qs_release:
    "jobID \<in> set (qc_releasing c)
     \<Longrightarrow> queue_step c (c\<lparr>qc_releasing := remove1 jobID (qc_releasing c),
                          qc_queue := forget jobID (qc_queue c)\<rparr>)"
| qs_deliver:
    "consumeTurn ctx p ctx' p' (qc_queue c) = (q, Delivered job)
     \<Longrightarrow> queue_step c (c\<lparr>qc_queue := q, qc_held := job # qc_held c,
                          qc_received := qc_received c @ [job]\<rparr>)"
| qs_drop:
    "consumeTurn ctx p ctx' p' (qc_queue c) = (q, Dropped job)
     \<Longrightarrow> queue_step c (c\<lparr>qc_queue := q, qc_dropped := msg_JobID job # qc_dropped c,
                          qc_received := qc_received c @ [job]\<rparr>)"
| qs_ack:
    "job \<in> set (qc_held c) \<Longrightarrow> delivery_Ack job (qc_queue c) = (q, None)
     \<Longrightarrow> queue_step c (c\<lparr>qc_held := remove1 job (qc_held c), qc_queue := q\<rparr>)"
| qs_retry:
    "job \<in> set (qc_held c) \<Longrightarrow> Retryable (qc_queue c) job
     \<Longrightarrow> queue_step c (send_effect ctx p (job\<lparr>msg_Attempt := msg_Attempt job + 1\<rparr>)
                          (c\<lparr>qc_held := remove1 job (qc_held c)\<rparr>))"
| qs_dead_letter:
    "job \<in> set (qc_held c)
     \<Longrightarrow> queue_step c (c\<lparr>qc_held := remove1 job (qc_held c),
                          qc_queue := deadLetter job (qc_queue c),
                          qc_releasing := msg_JobID job # qc_releasing c\<rparr>)"
| qs_requeue:
    "job \<in> set (qc_held c)
     \<Longrightarrow> queue_step c (send_effect ctx p job (c\<lparr>qc_held := remove1 job (qc_held c)\<rparr>))"
| qs_close: "queue_step c (c\<lparr>qc_queue := Close (qc_queue c)\<rparr>)"

inductive queue_reachable :: "nat \<Rightarrow> int \<Rightarrow> queue_config \<Rightarrow> bool" for b m where
  qr_start: "queue_reachable b m (queue_start b m)"
| qr_step: "queue_reachable b m c \<Longrightarrow> queue_step c c' \<Longrightarrow> queue_reachable b m c'"

section \<open>The invariant\<close>

text \<open>The identifiers the queue answers for, in one list.\<close>

definition live_ids :: "queue_config \<Rightarrow> string list" where
  "live_ids c = map msg_JobID (qc_publishing c @ q_jobs (qc_queue c) @ qc_held c)
                @ qc_releasing c @ qc_dropped c"

definition queue_inv :: "nat \<Rightarrow> int \<Rightarrow> queue_config \<Rightarrow> bool" where
  "queue_inv b m c \<longleftrightarrow>
     distinct (live_ids c)
   \<and> set (live_ids c) = q_seen (qc_queue c)
   \<and> length (q_jobs (qc_queue c)) \<le> b
   \<and> length (q_deadLetters (qc_queue c)) \<le> b
   \<and> q_bufferSize (qc_queue c) = b \<and> q_maxAttempts (qc_queue c) = m
   \<and> qc_sent c = qc_received c @ q_jobs (qc_queue c)"

text \<open>The invariant while an operation holds the reservations \<open>own\<close> itself.\<close>

definition queue_inv_with :: "string multiset \<Rightarrow> nat \<Rightarrow> int \<Rightarrow> queue_config \<Rightarrow> bool" where
  "queue_inv_with own b m c \<longleftrightarrow>
     (\<forall>x. count (mset (live_ids c) + own) x = (if x \<in> q_seen (qc_queue c) then 1 else 0))
   \<and> length (q_jobs (qc_queue c)) \<le> b
   \<and> length (q_deadLetters (qc_queue c)) \<le> b
   \<and> q_bufferSize (qc_queue c) = b \<and> q_maxAttempts (qc_queue c) = m
   \<and> qc_sent c = qc_received c @ q_jobs (qc_queue c)"

lemma distinct_set_count:
  "distinct xs \<and> set xs = A \<longleftrightarrow> (\<forall>x. count (mset xs) x = (if x \<in> A then 1 else 0))"
  (is "?L = ?R")
proof
  assume R: ?R
  have "x \<in> set xs \<longleftrightarrow> x \<in> A" for x
    using spec [OF R, of x] count_mset_0_iff [of xs x] by (auto split: if_splits)
  then have "set xs = A" by blast
  with R show ?L by (simp add: distinct_count_atmost_1)
qed (auto simp: distinct_count_atmost_1)

lemma queue_inv_with_none: "queue_inv b m c \<longleftrightarrow> queue_inv_with {#} b m c"
  unfolding queue_inv_def queue_inv_with_def
  by (simp only: conj_assoc [symmetric] distinct_set_count add_0_right)

lemma mset_live_ids:
  "mset (live_ids c) =
     image_mset msg_JobID (mset (qc_publishing c)) + image_mset msg_JobID (mset (q_jobs (qc_queue c)))
   + image_mset msg_JobID (mset (qc_held c)) + mset (qc_releasing c) + mset (qc_dropped c)"
  by (simp add: live_ids_def)

lemma image_mset_remove1:
  "x \<in> set xs \<Longrightarrow> image_mset f (mset xs) = add_mset (f x) (image_mset f (mset (remove1 x xs)))"
  by (metis image_mset_add_mset insert_DiffM mset_remove1 set_mset_mset)

lemma take_publishing:
  assumes "queue_inv b m c" "job \<in> set (qc_publishing c)"
  shows "queue_inv_with {#msg_JobID job#} b m (c\<lparr>qc_publishing := remove1 job (qc_publishing c)\<rparr>)"
  using assms unfolding queue_inv_with_none
  by (simp add: queue_inv_with_def mset_live_ids image_mset_remove1 [OF assms(2)] del: mset_remove1)

lemma take_held:
  assumes "queue_inv b m c" "job \<in> set (qc_held c)"
  shows "queue_inv_with {#msg_JobID job#} b m (c\<lparr>qc_held := remove1 job (qc_held c)\<rparr>)"
  using assms unfolding queue_inv_with_none
  by (simp add: queue_inv_with_def mset_live_ids image_mset_remove1 [OF assms(2)] del: mset_remove1)

lemma take_releasing:
  assumes "queue_inv b m c" "i \<in> set (qc_releasing c)"
  shows "queue_inv_with {#i#} b m (c\<lparr>qc_releasing := remove1 i (qc_releasing c)\<rparr>)"
proof -
  have "mset (qc_releasing c) = add_mset i (mset (remove1 i (qc_releasing c)))"
    using image_mset_remove1 [OF assms(2), of "\<lambda>x. x"] by (simp del: mset_remove1)
  with assms show ?thesis unfolding queue_inv_with_none
    by (simp add: queue_inv_with_def mset_live_ids del: mset_remove1)
qed

lemma put_releasing:
  assumes "queue_inv_with {#i#} b m c"
  shows "queue_inv b m (c\<lparr>qc_releasing := i # qc_releasing c\<rparr>)"
  using assms unfolding queue_inv_with_none by (simp add: queue_inv_with_def mset_live_ids)

lemma forget_own:
  assumes "queue_inv_with {#i#} b m c"
  shows "queue_inv b m (c\<lparr>qc_queue := forget i (qc_queue c)\<rparr>)"
proof -
  have "count (mset (live_ids c)) x = (if x \<in> q_seen (qc_queue c) - {i} then 1 else 0)" for x
  proof (cases "x = i")
    case False
    have "count (mset (live_ids c) + {#i#}) x = (if x \<in> q_seen (qc_queue c) then 1 else 0)"
      using assms by (simp only: queue_inv_with_def)
    with False show ?thesis by simp
  next
    case True
    have "count (mset (live_ids c) + {#i#}) i = (if i \<in> q_seen (qc_queue c) then 1 else 0)"
      using assms by (simp only: queue_inv_with_def)
    with True show ?thesis by (simp split: if_splits)
  qed
  with assms show ?thesis unfolding queue_inv_with_none
    by (simp add: queue_inv_with_def mset_live_ids forget_def)
qed

lemma send_effect_inv:
  assumes "queue_inv_with {#msg_JobID job#} b m c"
  shows "queue_inv b m (send_effect ctx p job c)"
proof (cases rule: enqueue_cases [of ctx p job "qc_queue c"])
  case sent
  with assms show ?thesis unfolding queue_inv_with_none
    by (simp add: queue_inv_with_def send_effect_def mset_live_ids)
next
  case failed
  with put_releasing [OF assms] show ?thesis by (simp add: send_effect_def)
qed

lemma deadLetter_inv:
  assumes "queue_inv_with own b m c" "q = qc_queue c"
  shows "queue_inv_with own b m (c\<lparr>qc_queue := deadLetter job q\<rparr>)"
proof -
  have "live_ids (c\<lparr>qc_queue := deadLetter job q\<rparr>) = live_ids c"
    using assms(2) by (simp add: live_ids_def deadLetter_def)
  with assms show ?thesis
    by (cases "length (q_deadLetters q) < q_bufferSize q")
       (simp_all add: queue_inv_with_def deadLetter_def)
qed

lemma consumeTurn_job:
  assumes "consumeTurn ctx p ctx' p' q = (q', r)" "r = Delivered job \<or> r = Dropped job"
  shows "q_jobs q = job # q_jobs q'" "q' = q\<lparr>q_jobs := q_jobs q'\<rparr>"
  using assms by (auto simp: consumeTurn_def split: if_splits list.splits)

lemma queue_step_inv:
  assumes "queue_step c c'" "queue_inv b m c"
  shows "queue_inv b m c'"
  using assms
proof cases
  case (qs_reserve wall job q)
  then have "msg_JobID (publishDefaults wall job) \<notin> q_seen (qc_queue c)"
    "q = (qc_queue c)\<lparr>q_seen := insert (msg_JobID (publishDefaults wall job)) (q_seen (qc_queue c))\<rparr>"
    by (auto simp: reserve_def split: if_splits)
  with qs_reserve(1) assms(2) show ?thesis
    by (auto simp: queue_inv_def live_ids_def)
next
  case (qs_send job ctx p)
  with take_publishing [OF assms(2)] show ?thesis by (simp add: send_effect_inv)
next
  case (qs_release jobID)
  with forget_own [OF take_releasing [OF assms(2)]] show ?thesis by simp
next
  case (qs_deliver ctx p ctx' p' q job)
  note turn = consumeTurn_job [OF qs_deliver(2) disjI1 [OF refl]]
  have "image_mset msg_JobID (mset (q_jobs (qc_queue c)))
      = add_mset (msg_JobID job) (image_mset msg_JobID (mset (q_jobs q)))"
    using turn(1) by simp
  moreover have "q_seen q = q_seen (qc_queue c)" "q_bufferSize q = q_bufferSize (qc_queue c)"
    "q_maxAttempts q = q_maxAttempts (qc_queue c)" "q_deadLetters q = q_deadLetters (qc_queue c)"
    by (subst turn(2), simp)+
  ultimately show ?thesis using assms(2) turn(1) unfolding queue_inv_with_none qs_deliver(1)
    by (simp add: queue_inv_with_def mset_live_ids)
next
  case (qs_drop ctx p ctx' p' q job)
  note turn = consumeTurn_job [OF qs_drop(2) disjI2 [OF refl]]
  have "image_mset msg_JobID (mset (q_jobs (qc_queue c)))
      = add_mset (msg_JobID job) (image_mset msg_JobID (mset (q_jobs q)))"
    using turn(1) by simp
  moreover have "q_seen q = q_seen (qc_queue c)" "q_bufferSize q = q_bufferSize (qc_queue c)"
    "q_maxAttempts q = q_maxAttempts (qc_queue c)" "q_deadLetters q = q_deadLetters (qc_queue c)"
    by (subst turn(2), simp)+
  ultimately show ?thesis using assms(2) turn(1) unfolding queue_inv_with_none qs_drop(1)
    by (simp add: queue_inv_with_def mset_live_ids)
next
  case (qs_ack job q)
  then have "q = forget (msg_JobID job) (qc_queue c)" by (simp add: delivery_Ack_def)
  with forget_own [OF take_held [OF assms(2) qs_ack(2)]] qs_ack(1) show ?thesis by simp
next
  case (qs_retry job ctx p)
  with take_held [OF assms(2) qs_retry(2)] show ?thesis by (simp add: send_effect_inv)
next
  case (qs_dead_letter job)
  have "queue_inv_with {#msg_JobID job#} b m
      (c\<lparr>qc_held := remove1 job (qc_held c), qc_queue := deadLetter job (qc_queue c)\<rparr>)"
    using take_held [OF assms(2) qs_dead_letter(2)] by (rule deadLetter_inv) simp
  from put_releasing [OF this] qs_dead_letter(1) show ?thesis by simp
next
  case (qs_requeue job ctx p)
  with take_held [OF assms(2)] show ?thesis by (simp add: send_effect_inv)
next
  case qs_close
  with assms(2) show ?thesis by (simp add: queue_inv_def live_ids_def Close_def)
qed

lemma queue_start_inv: "queue_inv b m (queue_start b m)"
  by (simp add: queue_inv_def queue_start_def live_ids_def NewInMemoryQueue_def)

lemma queue_reachable_inv: "queue_reachable b m c \<Longrightarrow> queue_inv b m c"
  by (induction rule: queue_reachable.induct) (auto simp: queue_start_inv intro: queue_step_inv)

section \<open>Properties\<close>

text \<open>
  C24. However publishers, consumers and a shutdown interleave, the in-memory queue never
  holds a job twice: the jobs being published, buffered and in the hands of a worker have
  pairwise distinct identifiers; the identifiers it reserves are exactly those of these
  jobs, of sends being rolled back and of deliveries a stopping consumer dropped; the two
  channels respect the buffer size; and messages are received in the order they were sent.\<close>
theorem queue_deduplicates:
  assumes "queue_reachable b m c"
  shows "distinct (map msg_JobID (qc_publishing c @ q_jobs (qc_queue c) @ qc_held c))
    \<and> q_seen (qc_queue c) =
        msg_JobID ` set (qc_publishing c @ q_jobs (qc_queue c) @ qc_held c)
        \<union> set (qc_releasing c) \<union> set (qc_dropped c)
    \<and> length (q_jobs (qc_queue c)) \<le> b \<and> length (q_deadLetters (qc_queue c)) \<le> b
    \<and> qc_sent c = qc_received c @ q_jobs (qc_queue c)"
  using queue_reachable_inv [OF assms] by (auto simp: queue_inv_def live_ids_def)

definition queue_demo_message :: CheckJobMessage where
  "queue_demo_message = \<lparr>msg_JobID = ''job_1'', msg_MonitorID = ''mon_1'', msg_Attempt = 1, msg_EnqueuedAt = 5\<rparr>"

definition queue_demo :: queue_config where
  "queue_demo =
     \<lparr>qc_queue = \<lparr>q_jobs = [], q_deadLetters = [], q_bufferSize = 2, q_maxAttempts = 3,
                  q_seen = {''job_1''}, q_closed = False\<rparr>,
      qc_publishing = [], qc_held = [queue_demo_message], qc_releasing = [], qc_dropped = [],
      qc_sent = [queue_demo_message], qc_received = [queue_demo_message]\<rparr>"

lemma queue_demo_reachable: "queue_reachable 2 3 queue_demo"
proof -
  let ?c1 = "(queue_start 2 3)\<lparr>qc_queue := (NewInMemoryQueue 2 3)\<lparr>q_seen := {''job_1''}\<rparr>,
               qc_publishing := [queue_demo_message]\<rparr>"
  let ?c2 = "?c1\<lparr>qc_publishing := [],
               qc_queue := (NewInMemoryQueue 2 3)\<lparr>q_seen := {''job_1''}, q_jobs := [queue_demo_message]\<rparr>,
               qc_sent := [queue_demo_message]\<rparr>"
  have m: "publishDefaults 0 queue_demo_message = queue_demo_message" "msg_JobID queue_demo_message = ''job_1''"
    by (simp_all add: publishDefaults_def queue_demo_message_def)
  have "queue_step (queue_start 2 3) ?c1"
    using qs_reserve [of 0 queue_demo_message "queue_start 2 3"]
    by (simp add: m reserve_def queue_start_def NewInMemoryQueue_def)
  moreover have "queue_step ?c1 ?c2"
    using qs_send [of queue_demo_message ?c1 None False]
    by (simp add: send_effect_def enqueue_def queue_start_def NewInMemoryQueue_def)
  moreover have "queue_step ?c2 queue_demo"
    using qs_deliver [of None False None False ?c2]
    by (simp add: consumeTurn_def queue_start_def NewInMemoryQueue_def queue_demo_def)
  ultimately show ?thesis by (blast intro: qr_start qr_step)
qed

theorem queue_deduplicates_witness:
  "distinct (map msg_JobID (qc_publishing queue_demo @ q_jobs (qc_queue queue_demo) @ qc_held queue_demo))
   \<and> q_seen (qc_queue queue_demo) = {''job_1''}
   \<and> qc_sent queue_demo = [queue_demo_message]"
  using queue_deduplicates [OF queue_demo_reachable] by (simp add: queue_demo_def queue_demo_message_def)

text \<open>
  Publishing is all or nothing. When \<open>Publish\<close> returns an error the queue is exactly as
  before, so the reservation of the identifier is gone and the job can be published again;
  when it returns \<open>nil\<close> either the job was appended at the end of the buffer under a fresh
  reservation, or its identifier was still reserved and the call changed nothing.\<close>
theorem publish_all_or_nothing:
  "case Publish wall ctx pick_done job q of
     (q', Some err) \<Rightarrow> q' = q
   | (q', None) \<Rightarrow>
       (let j = publishDefaults wall job in
          msg_JobID j \<in> q_seen q \<and> q' = q
        \<or> msg_JobID j \<notin> q_seen q \<and> \<not> q_closed q
          \<and> length (q_jobs q) < q_bufferSize q
          \<and> q' = q\<lparr>q_jobs := q_jobs q @ [j], q_seen := insert (msg_JobID j) (q_seen q)\<rparr>)"
proof -
  define j where "j = publishDefaults wall job"
  have "forget (msg_JobID j) (q\<lparr>q_seen := insert (msg_JobID j) (q_seen q)\<rparr>) = q"
    if "msg_JobID j \<notin> q_seen q"
    using that by (simp add: forget_def)
  then show ?thesis
    by (cases rule: enqueue_cases [of ctx pick_done j "q\<lparr>q_seen := insert (msg_JobID j) (q_seen q)\<rparr>"])
       (auto simp: Publish_def Let_def reserve_def j_def [symmetric])
qed

text \<open>A call of \<open>Publish\<close> that no other operation interrupts is a run of the step relation.\<close>

lemma Publish_is_a_run:
  assumes "Publish wall ctx p job (qc_queue c) = (q', err)"
  shows "\<exists>c'. queue_step\<^sup>*\<^sup>* c c' \<and> qc_queue c' = q' \<and> qc_publishing c' = qc_publishing c
           \<and> qc_held c' = qc_held c"
proof (cases "reserve (publishDefaults wall job) (qc_queue c)")
  case (Return e)
  with assms show ?thesis by (intro exI [of _ c]) (simp add: Publish_def)
next
  case (Reserved q1)
  define j where "j = publishDefaults wall job"
  let ?c1 = "c\<lparr>qc_queue := q1, qc_publishing := j # qc_publishing c\<rparr>"
  let ?c2 = "send_effect ctx p j (?c1\<lparr>qc_publishing := qc_publishing c\<rparr>)"
  have s1: "queue_step c ?c1" using qs_reserve [OF Reserved] by (simp add: j_def)
  have s2: "queue_step ?c1 ?c2" using qs_send [of j ?c1 ctx p] by simp
  show ?thesis
  proof (cases rule: enqueue_cases [of ctx p j q1])
    case sent
    with assms Reserved have "qc_queue ?c2 = q'" by (simp add: Publish_def j_def send_effect_def)
    with s1 s2 sent show ?thesis
      by (intro exI [of _ ?c2]) (auto simp: send_effect_def)
  next
    case (failed e)
    let ?c3 = "?c2\<lparr>qc_releasing := qc_releasing c, qc_queue := forget (msg_JobID j) q1\<rparr>"
    have "queue_step ?c2 ?c3"
      using qs_release [of "msg_JobID j" ?c2] failed by (simp add: send_effect_def)
    with s1 s2 have "queue_step\<^sup>*\<^sup>* c ?c3" by (meson converse_rtranclp_into_rtranclp rtranclp.rtrancl_refl)
    moreover have "qc_queue ?c3 = q'"
      using assms Reserved failed by (simp add: Publish_def j_def)
    ultimately show ?thesis using failed by (intro exI [of _ ?c3]) (simp add: send_effect_def)
  qed
qed

end
