(* ===== verification/Repository.thy ===== *)
theory Repository
  imports Store_Queries Store_Effects Metrics Memory_Queue
begin

text \<open>
  The interface \<open>MonitorRepository\<close> of \<open>repository.go\<close> as a record of operations on a state
  \<open>'s\<close>, and its in-memory implementation on the store. A \<open>call\<close> carries what an operation
  reads from its surroundings: the context, two clock readings (at the start and when a
  lease is compared), the entropy drawn for an identifier, the parsers and the orders in
  which maps are visited.
\<close>

section \<open>The interface\<close>

record call =
  c_ctx :: ctx_err
  c_now :: gotime
  c_wall :: gotime
  c_draw :: id_draw
  c_env :: parsers
  c_claim :: claim_env
  c_keys :: "string list"

text \<open>The latest instant a call reads.\<close>

definition call_time :: "call \<Rightarrow> gotime" where
  "call_time c = max (c_now c) (c_wall c)"

record AlertPolicy =
  ap_Enabled :: bool
  ap_FailureThreshold :: int
  ap_Cooldown :: duration

text \<open>A page of a listing is \<open>None\<close> where the slice panics, as in the store; so is the result of
  \<open>AddCheck\<close>.\<close>

record 's MonitorRepository =
  repo_Ping :: "call \<Rightarrow> 's \<Rightarrow> go_error option"
  repo_Count :: "call \<Rightarrow> 's \<Rightarrow> go_error + nat"
  repo_Create :: "call \<Rightarrow> MonitorInput \<Rightarrow> 's \<Rightarrow> (go_error + Monitor) \<times> 's"
  repo_List :: "call \<Rightarrow> int \<Rightarrow> int \<Rightarrow> 's \<Rightarrow> go_error + (Monitor list option \<times> nat)"
  repo_Get :: "call \<Rightarrow> string \<Rightarrow> 's \<Rightarrow> go_error + Monitor"
  repo_Update :: "call \<Rightarrow> string \<Rightarrow> MonitorPatch \<Rightarrow> 's \<Rightarrow> (go_error + Monitor) \<times> 's"
  repo_Delete :: "call \<Rightarrow> string \<Rightarrow> 's \<Rightarrow> go_error option \<times> 's"
  repo_CreateManualJob :: "call \<Rightarrow> string \<Rightarrow> 's \<Rightarrow> (go_error + CheckJobRecord \<times> bool) \<times> 's"
  repo_ClaimDueJobs :: "call \<Rightarrow> int \<Rightarrow> duration \<Rightarrow> int \<Rightarrow> 's \<Rightarrow> (go_error + CheckJobRecord list) \<times> 's"
  repo_MarkJobPublished :: "call \<Rightarrow> PublicationClaim \<Rightarrow> 's \<Rightarrow> go_error option \<times> 's"
  repo_ReleaseJobPublish :: "call \<Rightarrow> PublicationClaim \<Rightarrow> string \<Rightarrow> 's \<Rightarrow> go_error option \<times> 's"
  repo_MarkJobProcessing ::
    "call \<Rightarrow> string \<Rightarrow> string \<Rightarrow> int \<Rightarrow> duration \<Rightarrow> 's \<Rightarrow> (go_error + ProcessingLease) \<times> 's"
  repo_MarkJobFailed :: "call \<Rightarrow> ProcessingLease \<Rightarrow> string \<Rightarrow> duration \<Rightarrow> 's \<Rightarrow> go_error option \<times> 's"
  repo_MarkJobDead :: "call \<Rightarrow> ProcessingLease \<Rightarrow> string \<Rightarrow> 's \<Rightarrow> go_error option \<times> 's"
  repo_AddCheck ::
    "call \<Rightarrow> CheckRecord \<Rightarrow> ProcessingLease \<Rightarrow> AlertPolicy \<Rightarrow> 's \<Rightarrow> ((go_error + Monitor) \<times> 's) option"
  repo_ListChecks :: "call \<Rightarrow> string \<Rightarrow> int \<Rightarrow> int \<Rightarrow> 's \<Rightarrow> go_error + (CheckRecord list option \<times> nat)"
  repo_Stats :: "call \<Rightarrow> string \<Rightarrow> 's \<Rightarrow> go_error + MonitorStats"
  repo_ListIncidents :: "call \<Rightarrow> string \<Rightarrow> int \<Rightarrow> int \<Rightarrow> 's \<Rightarrow> go_error + (Incident list option \<times> nat)"
  repo_Recovery :: "(call \<Rightarrow> 's \<Rightarrow> (go_error + nat) \<times> 's) option"

section \<open>The in-memory repository\<close>

text \<open>\<open>now.Add(max(retryDelay, 0))\<close> and the dead transition, which reads the interval first.\<close>

definition mem_MarkJobFailed ::
  "call \<Rightarrow> ProcessingLease \<Rightarrow> string \<Rightarrow> duration \<Rightarrow> MonitorStore \<Rightarrow> go_error option \<times> MonitorStore" where
  "mem_MarkJobFailed c lease lastError retryDelay s =
     MarkJobFailed lease lastError (c_now c) (c_now c + max retryDelay 0) (c_wall c) s"

definition mem_MarkJobDead ::
  "call \<Rightarrow> ProcessingLease \<Rightarrow> string \<Rightarrow> MonitorStore \<Rightarrow> go_error option \<times> MonitorStore" where
  "mem_MarkJobDead c lease lastError s =
     (case Get (lease_MonitorID lease) s of
        Inl err \<Rightarrow> (Some err, s)
      | Inr monitor \<Rightarrow>
          MarkJobDead lease lastError (c_now c) (c_now c + seconds (mon_IntervalSeconds monitor))
            (c_wall c) s)"

text \<open>The filter of \<open>ListIncidents\<close> is a string in the code; no incident has any other status
  than these two.\<close>

definition mem_ListIncidents ::
  "call \<Rightarrow> string \<Rightarrow> int \<Rightarrow> int \<Rightarrow> MonitorStore \<Rightarrow> Incident list option \<times> nat" where
  "mem_ListIncidents c status offset limit s =
     (if status = [] then ListIncidents (c_keys c) incidentStatusUnset offset limit s
      else if status = ''open'' then ListIncidents (c_keys c) incidentStatusOpen offset limit s
      else if status = ''resolved'' then ListIncidents (c_keys c) incidentStatusResolved offset limit s
      else (go_page [] offset limit, 0))"

definition InMemoryMonitorRepository :: "MonitorStore MonitorRepository" where
  "InMemoryMonitorRepository =
     \<lparr>repo_Ping = (\<lambda>c s. None),
      repo_Count = (\<lambda>c s. Inr (Count s)),
      repo_Create = (\<lambda>c input s. Create (c_env c) (c_draw c) (c_now c) input s),
      repo_List = (\<lambda>c offset limit s. Inr (List_monitors (c_keys c) offset limit s)),
      repo_Get = (\<lambda>c mid s. Get mid s),
      repo_Update = (\<lambda>c mid patch s. Update (c_env c) mid patch (c_now c) s),
      repo_Delete = (\<lambda>c mid s. Delete mid s),
      repo_CreateManualJob = (\<lambda>c mid s. CreateManualJob mid (c_draw c) (c_now c) s),
      repo_ClaimDueJobs = (\<lambda>c limit leaseTimeout maxAttempts s.
        apfst Inr (ClaimDueJobsWithMaxAttempts (c_claim c) limit (c_now c) leaseTimeout maxAttempts s)),
      repo_MarkJobPublished = (\<lambda>c claim s. MarkJobPublished claim (c_now c) s),
      repo_ReleaseJobPublish = (\<lambda>c claim lastError s. ReleaseJobPublish claim lastError (c_now c) s),
      repo_MarkJobProcessing = (\<lambda>c mid jobID attempt leaseTimeout s.
        MarkJobProcessing mid jobID attempt (c_draw c) (c_now c) leaseTimeout s),
      repo_MarkJobFailed = mem_MarkJobFailed,
      repo_MarkJobDead = mem_MarkJobDead,
      repo_AddCheck = (\<lambda>c record lease alertPolicy s. AddCheck (c_draw c) (c_now c) record lease s),
      repo_ListChecks = (\<lambda>c mid offset limit s. ListChecks mid offset limit s),
      repo_Stats = (\<lambda>c mid s. Stats mid s),
      repo_ListIncidents = (\<lambda>c status offset limit s. Inr (mem_ListIncidents c status offset limit s)),
      repo_Recovery = Some (\<lambda>c s. apfst Inr (RecoverQueuedJobsAfterTopologyLoss (c_keys c) (c_now c) s))\<rparr>"


end
