(* ===== verification/Service.thy ===== *)
theory Service
  imports Repository
begin

text \<open>
  The monitor service of \<open>service.go\<close> over any repository \<open>R\<close>, with the metrics it keeps, and
  the seeding of a repository. The state is the repository's state and the metrics; the
  context and the other inputs of a repository call are its \<open>call\<close>.
\<close>

section \<open>State and operations\<close>

record 's MonitorService =
  svc_store :: 's
  svc_metrics :: Metrics

definition Service_Create ::
  "'s MonitorRepository \<Rightarrow> call \<Rightarrow> MonitorInput \<Rightarrow> 's MonitorService
   \<Rightarrow> (go_error + Monitor) \<times> 's MonitorService" where
  "Service_Create R c input st =
     (case repo_Create R c input (svc_store st) of
        (Inl err, s) \<Rightarrow> (Inl err, st\<lparr>svc_store := s\<rparr>)
      | (Inr monitor, s) \<Rightarrow>
          (Inr monitor, st\<lparr>svc_store := s, svc_metrics := AdjustTotalLinks 1 (svc_metrics st)\<rparr>))"

text \<open>The patches after which the gauges of a monitor are dropped.\<close>

definition patchDropsGauges :: "MonitorPatch \<Rightarrow> bool" where
  "patchDropsGauges patch \<longleftrightarrow>
     patch_URL patch \<noteq> None \<or> patch_TimeoutSeconds patch \<noteq> None
     \<or> patch_ExpectedStatus patch \<noteq> None \<or> patch_Enabled patch = Some False"

definition Service_Update ::
  "'s MonitorRepository \<Rightarrow> call \<Rightarrow> string \<Rightarrow> MonitorPatch \<Rightarrow> 's MonitorService
   \<Rightarrow> (go_error + Monitor) \<times> 's MonitorService" where
  "Service_Update R c mid patch st =
     (case repo_Update R c mid patch (svc_store st) of
        (Inl err, s) \<Rightarrow> (Inl err, st\<lparr>svc_store := s\<rparr>)
      | (Inr monitor, s) \<Rightarrow>
          (Inr monitor,
           st\<lparr>svc_store := s,
              svc_metrics := (if patchDropsGauges patch then RemoveMonitor mid (svc_metrics st)
                              else svc_metrics st)\<rparr>))"

definition Service_Delete ::
  "'s MonitorRepository \<Rightarrow> call \<Rightarrow> string \<Rightarrow> 's MonitorService \<Rightarrow> go_error option \<times> 's MonitorService" where
  "Service_Delete R c mid st =
     (case repo_Delete R c mid (svc_store st) of
        (Some err, s) \<Rightarrow> (Some err, st\<lparr>svc_store := s\<rparr>)
      | (None, s) \<Rightarrow>
          (None, st\<lparr>svc_store := s,
                    svc_metrics := RemoveMonitor mid (AdjustTotalLinks (-1) (svc_metrics st))\<rparr>))"

definition Service_Get :: "'s MonitorRepository \<Rightarrow> call \<Rightarrow> string \<Rightarrow> 's MonitorService \<Rightarrow> go_error + Monitor" where
  "Service_Get R c mid st = repo_Get R c mid (svc_store st)"

definition Service_Count :: "'s MonitorRepository \<Rightarrow> call \<Rightarrow> 's MonitorService \<Rightarrow> go_error + nat" where
  "Service_Count R c st = repo_Count R c (svc_store st)"

definition Service_List ::
  "'s MonitorRepository \<Rightarrow> call \<Rightarrow> int \<Rightarrow> int \<Rightarrow> 's MonitorService \<Rightarrow> go_error + (Monitor list option \<times> nat)" where
  "Service_List R c offset limit st = repo_List R c offset limit (svc_store st)"

definition Service_ListChecks ::
  "'s MonitorRepository \<Rightarrow> call \<Rightarrow> string \<Rightarrow> int \<Rightarrow> int \<Rightarrow> 's MonitorService
   \<Rightarrow> go_error + (CheckRecord list option \<times> nat)" where
  "Service_ListChecks R c mid offset limit st = repo_ListChecks R c mid offset limit (svc_store st)"

definition Service_Stats :: "'s MonitorRepository \<Rightarrow> call \<Rightarrow> string \<Rightarrow> 's MonitorService \<Rightarrow> go_error + MonitorStats" where
  "Service_Stats R c mid st = repo_Stats R c mid (svc_store st)"

definition Service_ListIncidents ::
  "'s MonitorRepository \<Rightarrow> call \<Rightarrow> string \<Rightarrow> int \<Rightarrow> int \<Rightarrow> 's MonitorService
   \<Rightarrow> go_error + (Incident list option \<times> nat)" where
  "Service_ListIncidents R c status offset limit st = repo_ListIncidents R c status offset limit (svc_store st)"

definition QueueManualCheck ::
  "'s MonitorRepository \<Rightarrow> call \<Rightarrow> string \<Rightarrow> 's MonitorService
   \<Rightarrow> (go_error + ManualCheckJobReceipt) \<times> 's MonitorService" where
  "QueueManualCheck R c mid st =
     (case repo_CreateManualJob R c mid (svc_store st) of
        (Inl err, s) \<Rightarrow> (Inl err, st\<lparr>svc_store := s\<rparr>)
      | (Inr (job, isNew), s) \<Rightarrow>
          (Inr \<lparr>rcpt_JobID = job_ID job, rcpt_MonitorID = job_MonitorID job, rcpt_Kind = job_Kind job,
                rcpt_Status = job_Status job, rcpt_CreatedAt = job_CreatedAt job,
                rcpt_Deduplicated = (\<not> isNew)\<rparr>, st\<lparr>svc_store := s\<rparr>))"

definition Service_ClaimDueJobs ::
  "'s MonitorRepository \<Rightarrow> call \<Rightarrow> int \<Rightarrow> duration \<Rightarrow> int \<Rightarrow> 's MonitorService
   \<Rightarrow> (go_error + CheckJobRecord list) \<times> 's MonitorService" where
  "Service_ClaimDueJobs R c limit leaseTimeout maxAttempts st =
     (case repo_ClaimDueJobs R c limit leaseTimeout maxAttempts (svc_store st) of
        (r, s) \<Rightarrow> (r, st\<lparr>svc_store := s\<rparr>))"

definition Service_MarkJobPublished ::
  "'s MonitorRepository \<Rightarrow> call \<Rightarrow> PublicationClaim \<Rightarrow> 's MonitorService
   \<Rightarrow> go_error option \<times> 's MonitorService" where
  "Service_MarkJobPublished R c claim st =
     (case repo_MarkJobPublished R c claim (svc_store st) of (r, s) \<Rightarrow> (r, st\<lparr>svc_store := s\<rparr>))"

definition Service_ReleaseJobPublish ::
  "'s MonitorRepository \<Rightarrow> call \<Rightarrow> PublicationClaim \<Rightarrow> string \<Rightarrow> 's MonitorService
   \<Rightarrow> go_error option \<times> 's MonitorService" where
  "Service_ReleaseJobPublish R c claim lastError st =
     (case repo_ReleaseJobPublish R c claim lastError (svc_store st) of (r, s) \<Rightarrow> (r, st\<lparr>svc_store := s\<rparr>))"

definition Service_RecoverQueuedJobs ::
  "'s MonitorRepository \<Rightarrow> call \<Rightarrow> 's MonitorService \<Rightarrow> (go_error + nat) \<times> 's MonitorService" where
  "Service_RecoverQueuedJobs R c st =
     (case repo_Recovery R of
        None \<Rightarrow> (Inl (ErrOther ''configured repository does not support queued job recovery''), st)
      | Some recover \<Rightarrow> (case recover c (svc_store st) of (r, s) \<Rightarrow> (r, st\<lparr>svc_store := s\<rparr>)))"

definition MarkProcessing ::
  "'s MonitorRepository \<Rightarrow> call \<Rightarrow> string \<Rightarrow> string \<Rightarrow> int \<Rightarrow> duration \<Rightarrow> 's MonitorService
   \<Rightarrow> (go_error + ProcessingLease) \<times> 's MonitorService" where
  "MarkProcessing R c mid jobID attempt leaseTimeout st =
     (case repo_MarkJobProcessing R c mid jobID attempt leaseTimeout (svc_store st) of
        (r, s) \<Rightarrow> (r, st\<lparr>svc_store := s\<rparr>))"

definition Service_MarkJobFailed ::
  "'s MonitorRepository \<Rightarrow> call \<Rightarrow> ProcessingLease \<Rightarrow> string \<Rightarrow> duration \<Rightarrow> 's MonitorService
   \<Rightarrow> go_error option \<times> 's MonitorService" where
  "Service_MarkJobFailed R c lease lastError retryDelay st =
     (case repo_MarkJobFailed R c lease lastError retryDelay (svc_store st) of
        (r, s) \<Rightarrow> (r, st\<lparr>svc_store := s\<rparr>))"

definition FailProcessing ::
  "'s MonitorRepository \<Rightarrow> call \<Rightarrow> ProcessingLease \<Rightarrow> string \<Rightarrow> 's MonitorService
   \<Rightarrow> go_error option \<times> 's MonitorService" where
  "FailProcessing R c lease lastError st =
     (case repo_MarkJobDead R c lease lastError (svc_store st) of (r, s) \<Rightarrow> (r, st\<lparr>svc_store := s\<rparr>))"

text \<open>\<open>None\<close> is a panic of \<open>AddCheck\<close> or of \<open>RecordResult\<close>.\<close>

definition StoreCheckResult ::
  "'s MonitorRepository \<Rightarrow> AlertPolicy \<Rightarrow> call \<Rightarrow> CheckRecord \<Rightarrow> CheckResult \<Rightarrow> ProcessingLease
   \<Rightarrow> 's MonitorService \<Rightarrow> (go_error option \<times> 's MonitorService) option" where
  "StoreCheckResult R policy c record result lease st =
     (case repo_AddCheck R c record lease policy (svc_store st) of
        None \<Rightarrow> None
      | Some (Inl err, s) \<Rightarrow>
          (if err = ErrDuplicateJob then Some (None, st\<lparr>svc_store := s\<rparr>)
           else Some (Some err, st\<lparr>svc_store := s\<rparr>))
      | Some (Inr monitor, s) \<Rightarrow>
          (case RecordResult result (mon_LastCheckedAt monitor) (c_wall c) (svc_metrics st) of
             None \<Rightarrow> None
           | Some m \<Rightarrow> Some (None, st\<lparr>svc_store := s, svc_metrics := m\<rparr>)))"

definition updateTotalLinks ::
  "'s MonitorRepository \<Rightarrow> call \<Rightarrow> 's MonitorService \<Rightarrow> 's MonitorService" where
  "updateTotalLinks R c st =
     (case repo_Count R c (svc_store st) of
        Inl err \<Rightarrow> st
      | Inr n \<Rightarrow> st\<lparr>svc_metrics := SetTotalLinks (int n) (svc_metrics st)\<rparr>)"

section \<open>Seeding\<close>

text \<open>\<open>int(d.Seconds())\<close> truncates; one call for each link.\<close>

fun SeedRepository ::
  "'s MonitorRepository \<Rightarrow> Config \<Rightarrow> (call \<times> string) list \<Rightarrow> 's \<Rightarrow> go_error option \<times> 's" where
  "SeedRepository R cfg [] s = (None, s)"
| "SeedRepository R cfg ((c, link) # links) s =
     (case repo_Create R c
             \<lparr>in_URL = link,
              in_IntervalSeconds = go_div (cfg_CheckInterval cfg) Second,
              in_TimeoutSeconds = go_div (cfg_HTTPTimeout cfg) Second,
              in_ExpectedStatus = PreferredStatus (cfg_ExpectedStatus cfg),
              in_Enabled = None\<rparr> s of
        (Inl err, s) \<Rightarrow>
          if err \<noteq> ErrMonitorExists then (Some err, s) else SeedRepository R cfg links s
      | (Inr monitor, s) \<Rightarrow> SeedRepository R cfg links s)"

section \<open>The gauge of configured monitors\<close>

text \<open>Steps of the service over the in-memory repository that change the set of monitors or the
  metrics kept for them, and every other step of the store.\<close>

type_synonym memory_service = "MonitorStore MonitorService"

inductive service_step :: "parsers \<Rightarrow> memory_service \<Rightarrow> memory_service \<Rightarrow> bool" for env where
  sv_create: "c_env c = env \<Longrightarrow> byID (svc_store st) (newMonitorID (c_draw c)) = None \<Longrightarrow>
    int (Count (svc_store st)) < 2 ^ 62 \<Longrightarrow> service_step env st (snd (Service_Create InMemoryMonitorRepository c input st))"
| sv_update: "c_env c = env \<Longrightarrow>
    service_step env st (snd (Service_Update InMemoryMonitorRepository c mid patch st))"
| sv_delete: "service_step env st (snd (Service_Delete InMemoryMonitorRepository c mid st))"
| sv_result: "chk_MonitorID record = res_MonitorID result \<Longrightarrow>
    incidents (svc_store st) (newID ''inc'' (c_draw c)) = None \<Longrightarrow>
    StoreCheckResult InMemoryMonitorRepository policy c record result lease st = Some (r, st') \<Longrightarrow>
    service_step env st st'"
| sv_count: "service_step env st (updateTotalLinks InMemoryMonitorRepository c st)"
| sv_job: "store_step env (svc_store st, I) (s', I') \<Longrightarrow> dom (byID s') = dom (byID (svc_store st)) \<Longrightarrow>
    service_step env st (st\<lparr>svc_store := s'\<rparr>)"

definition service_inv :: "parsers \<Rightarrow> memory_service \<Rightarrow> bool" where
  "service_inv env st \<longleftrightarrow>
     store_inv env (svc_store st) \<and> metrics_ok (svc_metrics st)
   \<and> mx_totalLinks (svc_metrics st) = int (Count (svc_store st))
   \<and> int (Count (svc_store st)) \<le> 2 ^ 62
   \<and> mx_trackedMonitors (svc_metrics st) \<subseteq> dom (byID (svc_store st))
   \<and> [] \<notin> mx_trackedMonitors (svc_metrics st)
   \<and> (mx_monitorStateEnabled (svc_metrics st) \<or> mx_trackedMonitors (svc_metrics st) = {})"

text \<open>How the operations change the set of monitors.\<close>

lemma Create_dom:
  assumes "Create env draw now input s = (r, s')"
  shows "case r of Inl e \<Rightarrow> s' = s | Inr m \<Rightarrow> dom (byID s') = insert (newMonitorID draw) (dom (byID s))"
  using assms by (auto simp: Create_def Let_def split: option.splits if_splits)

lemma Update_dom: "dom (byID (snd (Update env mid patch now s))) = dom (byID s)"
proof (cases rule: Update_cases [of env mid patch now s])
  case (accepted monitor)
  then show ?thesis by (auto simp: Update_success)
qed simp

lemma Delete_dom:
  assumes "Delete mid s = (r, s')"
  shows "case r of Some e \<Rightarrow> s' = s | None \<Rightarrow> mid \<in> dom (byID s) \<and> dom (byID s') = dom (byID s) - {mid}"
  using assms by (auto simp: Delete_def Let_def dom_def split: option.splits if_splits)

lemma AddCheck_dom:
  assumes "store_inv env s" "AddCheck draw now r lease s = Some (Inr m', s')"
  shows "dom (byID s') = dom (byID s)" "chk_MonitorID r \<in> dom (byID s)"
  by (rule AddCheck_state [OF assms]; auto)+

lemma Count_dom: "dom (byID s') = dom (byID s) \<Longrightarrow> Count s' = Count s"
  by (simp add: Count_def)

lemma RemoveMonitor_frame [simp]:
  "mx_totalLinks (RemoveMonitor i m) = mx_totalLinks m"
  "mx_monitorStateEnabled (RemoveMonitor i m) = mx_monitorStateEnabled m"
  by (simp_all add: RemoveMonitor_def forgetGauges_def Let_def)

lemma RemoveMonitor_tracked:
  "i \<noteq> [] \<and> mx_monitorStateEnabled m \<or> i \<notin> mx_trackedMonitors m \<Longrightarrow>
   mx_trackedMonitors (RemoveMonitor i m) = mx_trackedMonitors m - {i}"
  by (auto simp: RemoveMonitor_def forgetGauges_def Let_def)

lemma RemoveMonitor_tracked_le: "mx_trackedMonitors (RemoveMonitor i m) \<subseteq> mx_trackedMonitors m"
  by (auto simp: RemoveMonitor_def forgetGauges_def Let_def)

lemma AdjustTotalLinks_frame [simp]:
  "metrics_ok (AdjustTotalLinks d m) = metrics_ok m"
  "mx_monitorStateEnabled (AdjustTotalLinks d m) = mx_monitorStateEnabled m"
  "mx_trackedMonitors (AdjustTotalLinks d m) = mx_trackedMonitors m"
  "metrics_ok (SetTotalLinks n m) = metrics_ok m"
  by (simp_all add: AdjustTotalLinks_def SetTotalLinks_def metrics_ok_def gauges_ok_def track_pre_def)

lemma AdjustTotalLinks_exact:
  "int64_range (mx_totalLinks m + d) \<Longrightarrow> 0 \<le> mx_totalLinks m + d \<Longrightarrow>
   mx_totalLinks (AdjustTotalLinks d m) = mx_totalLinks m + d"
  by (simp add: AdjustTotalLinks_def wrap64_id)

section \<open>The service invariant\<close>

lemma service_create_inv:
  assumes inv: "service_inv env st" and c: "c_env c = env"
    and fresh: "byID (svc_store st) (newMonitorID (c_draw c)) = None"
    and small: "int (Count (svc_store st)) < 2 ^ 62"
  shows "service_inv env (snd (Service_Create InMemoryMonitorRepository c input st))"
proof -
  obtain r s' where call: "Create env (c_draw c) (c_now c) input (svc_store st) = (r, s')" by fastforce
  note dom' = Create_dom [OF call]
  have inv': "store_inv env s'"
    using Create_inv [of env "svc_store st" "c_draw c" "c_now c" input] fresh inv call
    by (simp add: service_inv_def)
  show ?thesis
  proof (cases r)
    case (Inl e)
    with call dom' inv c show ?thesis
      by (simp add: Service_Create_def InMemoryMonitorRepository_def service_inv_def)
  next
    case (Inr m)
    have "finite (dom (byID (svc_store st)))"
      using inv by (simp add: service_inv_def store_inv_def monitors_ok_def)
    with Inr dom' fresh have "Count s' = Suc (Count (svc_store st))" by (simp add: Count_def domIff)
    with Inr call dom' inv inv' c small show ?thesis
      by (auto simp: Service_Create_def InMemoryMonitorRepository_def service_inv_def
          AdjustTotalLinks_exact int64_range_def)
  qed
qed

lemma service_update_inv:
  assumes inv: "service_inv env st" and c: "c_env c = env"
  shows "service_inv env (snd (Service_Update InMemoryMonitorRepository c mid patch st))"
proof -
  obtain r s' where call: "Update env mid patch (c_now c) (svc_store st) = (r, s')" by fastforce
  have "store_inv env s'" "dom (byID s') = dom (byID (svc_store st))"
    using Update_inv [of env "svc_store st" mid patch "c_now c"]
      Update_dom [of env mid patch "c_now c" "svc_store st"] inv call
    by (simp_all add: service_inv_def)
  moreover have "Count s' = Count (svc_store st)" using calculation(2) by (rule Count_dom)
  ultimately show ?thesis
    using call c inv RemoveMonitor_tracked_le [of mid "svc_metrics st"]
    by (auto simp: Service_Update_def InMemoryMonitorRepository_def service_inv_def RemoveMonitor_ok
        split: sum.split)
qed

lemma service_delete_inv:
  assumes inv: "service_inv env st"
  shows "service_inv env (snd (Service_Delete InMemoryMonitorRepository c mid st))"
proof -
  obtain r s' where call: "Delete mid (svc_store st) = (r, s')" by fastforce
  note dom' = Delete_dom [OF call]
  have inv': "store_inv env s'" using Delete_inv [of env "svc_store st" mid] inv call by (simp add: service_inv_def)
  show ?thesis
  proof (cases r)
    case (Some e)
    with call dom' inv show ?thesis
      by (simp add: Service_Delete_def InMemoryMonitorRepository_def service_inv_def)
  next
    case None
    have "finite (dom (byID (svc_store st)))"
      using inv by (simp add: service_inv_def store_inv_def monitors_ok_def)
    with None dom' have n: "Suc (Count s') = Count (svc_store st)"
      using card.remove [of "dom (byID (svc_store st))" mid] by (simp add: Count_def)
    have "mx_trackedMonitors (RemoveMonitor mid (AdjustTotalLinks (- 1) (svc_metrics st)))
        = mx_trackedMonitors (svc_metrics st) - {mid}"
      using inv by (subst RemoveMonitor_tracked) (auto simp: service_inv_def)
    with None call dom' inv inv' n show ?thesis
      by (auto simp: Service_Delete_def InMemoryMonitorRepository_def service_inv_def RemoveMonitor_ok
          AdjustTotalLinks_exact int64_range_def)
  qed
qed

lemma service_result_inv:
  assumes inv: "service_inv env st" and same: "chk_MonitorID record = res_MonitorID result"
    and fresh: "incidents (svc_store st) (newID ''inc'' (c_draw c)) = None"
    and call: "StoreCheckResult InMemoryMonitorRepository policy c record result lease st = Some (r, st')"
  shows "service_inv env st'"
proof -
  let ?s = "svc_store st"
  have sinv: "store_inv env ?s" and mok: "metrics_ok (svc_metrics st)"
    using inv by (simp_all add: service_inv_def)
  obtain res s' where add: "AddCheck (c_draw c) (c_now c) record lease ?s = Some (res, s')" and inv': "store_inv env s'"
    by (rule AddCheck_inv [OF sinv fresh])
  show ?thesis
  proof (cases res)
    case (Inl e)
    with add have "s' = ?s" by (auto simp: AddCheck_def split: option.splits if_splits)
    with Inl add call inv show ?thesis
      by (auto simp: StoreCheckResult_def InMemoryMonitorRepository_def split: if_splits)
  next
    case (Inr m)
    with add have "AddCheck (c_draw c) (c_now c) record lease ?s = Some (Inr m, s')" by simp
    note dom' = AddCheck_dom [OF sinv this]
    obtain m' where rec: "RecordResult result (mon_LastCheckedAt m) (c_wall c) (svc_metrics st) = Some m'"
      and m': "metrics_ok m'" "mx_totalLinks m' = mx_totalLinks (svc_metrics st)"
        "mx_monitorStateEnabled m' = mx_monitorStateEnabled (svc_metrics st)"
        "mx_trackedMonitors m' \<subseteq>
           (if mx_monitorStateEnabled (svc_metrics st) \<and> res_MonitorID result \<noteq> []
            then insert (res_MonitorID result) (mx_trackedMonitors (svc_metrics st))
            else mx_trackedMonitors (svc_metrics st))"
      by (rule RecordResult_ok [OF mok])
    from Inr add rec call have st': "st' = st\<lparr>svc_store := s', svc_metrics := m'\<rparr>"
      by (simp add: StoreCheckResult_def InMemoryMonitorRepository_def)
    have "mx_trackedMonitors m' \<subseteq> dom (byID s')" "[] \<notin> mx_trackedMonitors m'"
      "mx_monitorStateEnabled m' \<or> mx_trackedMonitors m' = {}"
      using m'(3,4) dom' same inv by (auto simp: service_inv_def split: if_splits)
    with st' inv' m' Count_dom [OF dom'(1)] inv show ?thesis by (simp add: service_inv_def)
  qed
qed

lemma service_step_inv:
  assumes "service_step env st st'" "service_inv env st"
  shows "service_inv env st'"
  using assms
proof cases
  case (sv_job I s' I')
  with assms(2) store_step_inv [OF sv_job(2)] Count_dom [OF sv_job(3)] show ?thesis
    by (simp add: service_inv_def)
next
  case (sv_count c)
  with assms(2) show ?thesis
    by (simp add: updateTotalLinks_def InMemoryMonitorRepository_def service_inv_def SetTotalLinks_def
        metrics_ok_def gauges_ok_def track_pre_def)
qed (use assms(2) in \<open>simp_all add: service_create_inv service_update_inv service_delete_inv service_result_inv\<close>)

inductive service_reachable :: "parsers \<Rightarrow> NetworkPolicy \<Rightarrow> memory_service \<Rightarrow> bool" for env policy where
  sr_start: "service_reachable env policy
    \<lparr>svc_store = NewMonitorStore policy, svc_metrics = newMetrics now v c b 0 enabled\<rparr>"
| sr_step: "service_reachable env policy st \<Longrightarrow> service_step env st st' \<Longrightarrow> service_reachable env policy st'"

lemma service_reachable_inv: "service_reachable env policy st \<Longrightarrow> service_inv env st"
proof (induction rule: service_reachable.induct)
  case (sr_start now v c b enabled)
  show ?case
    using newMetrics_ok [of now v c b 0 enabled] NewMonitorStore_inv [of env policy]
    by (simp add: service_inv_def newMetrics_def Count_def NewMonitorStore_def)
qed (rule service_step_inv)

section \<open>Properties\<close>


definition demo_call :: call where
  "demo_call = \<lparr>c_ctx = None, c_now = 450, c_wall = 450, c_draw = demo_draw, c_env = demo_env,
                c_claim = demo_ce, c_keys = []\<rparr>"

definition demo_service :: memory_service where
  "demo_service = snd (Service_Create InMemoryMonitorRepository demo_call demo_input
     \<lparr>svc_store = NewMonitorStore demo_policy, svc_metrics = newMetrics 1 ''v1'' ''abc'' ''today'' 0 True\<rparr>)"


end
