(* ===== verification/Worker.thy ===== *)
theory Worker
  imports Service
begin

text \<open>
  The queue worker of \<open>runtime.go\<close>: what a delivery does to the repository and to the queue,
  on every branch. The handler runs beside other goroutines: before each of its repository
  calls the others may change the repository, which is a function \<open>others\<close> in the
  description of the call (a \<open>point\<close>). Waiting is a choice of the surroundings: the timer
  of a given delay fires, or the context is done first.

  \<open>lease_repository\<close> states what the worker needs of a repository; the client lemmas are
  proved from it once and the in-memory repository is an interpretation.
\<close>

section \<open>Deliveries\<close>

record 'q QueueDelivery =
  dl_Job :: CheckJobMessage
  dl_Retryable :: bool
  dl_Ack :: "ctx_err \<Rightarrow> 'q \<Rightarrow> 'q \<times> go_error option"
  dl_Nack :: "ctx_err \<Rightarrow> bool \<Rightarrow> 'q \<Rightarrow> 'q \<times> go_error option"
  dl_Requeue :: "(ctx_err \<Rightarrow> 'q \<Rightarrow> 'q \<times> go_error option) option"

text \<open>The delivery the in-memory queue makes of a received job; \<open>pick\<close> is the choice of the
  \<open>select\<close> in a later send.\<close>

definition memoryDelivery :: "bool \<Rightarrow> InMemoryQueue \<Rightarrow> CheckJobMessage \<Rightarrow> InMemoryQueue QueueDelivery" where
  "memoryDelivery pick q job =
     \<lparr>dl_Job = job, dl_Retryable = Retryable q job,
      dl_Ack = (\<lambda>ctx. delivery_Ack job),
      dl_Nack = (\<lambda>ctx requeue. delivery_Nack ctx pick requeue job),
      dl_Requeue = Some (\<lambda>ctx. delivery_Requeue ctx pick job)\<rparr>"

text \<open>The calls made on a delivery, in order, and the lease obtained are recorded with the
  worker's state; \<open>wk_decided\<close> is the clock of the repository call a settlement rests on.\<close>

datatype settlement = Acked | Nacked bool | Requeued

record ('s, 'q) worker =
  wk_service :: "'s MonitorService"
  wk_queue :: 'q
  wk_backoff :: infrastructureRequeueBackoff
  wk_settled :: "settlement list"
  wk_lease :: "ProcessingLease option"
  wk_decided :: gotime

definition callAck ::
  "ctx_err \<Rightarrow> 'q QueueDelivery \<Rightarrow> ('s, 'q) worker \<Rightarrow> go_error option \<times> ('s, 'q) worker" where
  "callAck ctx delivery w =
     (case dl_Ack delivery ctx (wk_queue w) of
        (q, err) \<Rightarrow> (err, w\<lparr>wk_queue := q, wk_settled := wk_settled w @ [Acked]\<rparr>))"

definition callNack ::
  "ctx_err \<Rightarrow> bool \<Rightarrow> 'q QueueDelivery \<Rightarrow> ('s, 'q) worker \<Rightarrow> go_error option \<times> ('s, 'q) worker" where
  "callNack ctx requeue delivery w =
     (case dl_Nack delivery ctx requeue (wk_queue w) of
        (q, err) \<Rightarrow> (err, w\<lparr>wk_queue := q, wk_settled := wk_settled w @ [Nacked requeue]\<rparr>))"

definition callRequeue ::
  "ctx_err \<Rightarrow> 'q QueueDelivery \<Rightarrow> ('s, 'q) worker \<Rightarrow> go_error option \<times> ('s, 'q) worker" where
  "callRequeue ctx delivery w =
     (case dl_Requeue delivery of
        None \<Rightarrow> callNack ctx True delivery w
      | Some requeue \<Rightarrow>
          (case requeue ctx (wk_queue w) of
             (q, err) \<Rightarrow> (err, w\<lparr>wk_queue := q, wk_settled := wk_settled w @ [Requeued]\<rparr>)))"

section \<open>The handler\<close>

type_synonym 's point = "('s \<Rightarrow> 's) \<times> call"

text \<open>What one delivery meets: the points of its repository calls, the probe, the draw of the
  record's identifier, the state transitions tried with the outcome of each wait, the wait
  before a requeue, and the context when the delivery is settled.\<close>

record 's handling =
  hd_get :: "'s point"
  hd_mark :: "'s point"
  hd_probe :: probe
  hd_draw :: id_draw
  hd_store :: "'s point"
  hd_retries :: "('s point \<times> (duration \<Rightarrow> bool)) list"
  hd_timer :: "duration \<Rightarrow> bool"
  hd_ctx :: ctx_err

definition interfere :: "('s \<Rightarrow> 's) \<Rightarrow> 's MonitorService \<Rightarrow> 's MonitorService" where
  "interfere others st = st\<lparr>svc_store := others (svc_store st)\<rparr>"

type_synonym worker_error = "string \<times> go_error"

definition obsolete :: "go_error \<Rightarrow> bool" where
  "obsolete err \<longleftrightarrow> err = ErrMonitorNotFound \<or> err = ErrStaleJob"

abbreviation (input) leaseStateRetryInitialDelay :: duration where
  "leaseStateRetryInitialDelay \<equiv> 50 * Millisecond"
abbreviation (input) leaseStateRetryMaxDelay :: duration where
  "leaseStateRetryMaxDelay \<equiv> Second"

text \<open>
  \<open>retryJobStateTransition\<close> along the attempts of the surroundings: \<open>None\<close> when they run out
  while it is still retrying. The third component of the result is the clock of the last call.
\<close>

fun retryJobStateTransition ::
  "(call \<Rightarrow> 's MonitorService \<Rightarrow> go_error option \<times> 's MonitorService) \<Rightarrow> duration
   \<Rightarrow> ('s point \<times> (duration \<Rightarrow> bool)) list \<Rightarrow> 's MonitorService
   \<Rightarrow> (go_error option \<times> 's MonitorService \<times> gotime) option" where
  "retryJobStateTransition transition delay [] st = None"
| "retryJobStateTransition transition delay (((others, c), fires) # rest) st =
     (case transition c (interfere others st) of
        (None, st) \<Rightarrow> Some (None, st, call_time c)
      | (Some err, st) \<Rightarrow>
          if obsolete err then Some (Some err, st, call_time c)
          else if \<not> fires delay then Some (Some err, st, call_time c)
          else retryJobStateTransition transition (min (delay * 2) leaseStateRetryMaxDelay) rest st)"

definition ackInactiveJob ::
  "ctx_err \<Rightarrow> 'q QueueDelivery \<Rightarrow> go_error \<Rightarrow> ('s, 'q) worker \<Rightarrow> bool \<times> ('s, 'q) worker" where
  "ackInactiveJob ctx delivery err w =
     (if \<not> obsolete err then (False, w) else (True, snd (callAck ctx delivery w)))"

definition requeueInfrastructureFailure ::
  "'s handling \<Rightarrow> 'q QueueDelivery \<Rightarrow> go_error \<Rightarrow> int \<Rightarrow> string \<Rightarrow> ('s, 'q) worker
   \<Rightarrow> worker_error option \<times> ('s, 'q) worker" where
  "requeueInfrastructureFailure h delivery cause workerID operation w =
     (case NextDelay (msg_JobID (dl_Job delivery)) workerID (wk_backoff w) of
        (delay, b) \<Rightarrow>
          (let w = w\<lparr>wk_backoff := b\<rparr> in
           if \<not> hd_timer h delay then (None, w)
           else (case callRequeue (hd_ctx h) delivery w of
                   (Some err, w) \<Rightarrow> (Some (operation @ '' failed and job requeue failed'', err), w)
                 | (None, w) \<Rightarrow>
                     (None, w\<lparr>wk_service := (wk_service w)\<lparr>svc_metrics :=
                         RecordInfrastructureRequeue (svc_metrics (wk_service w))\<rparr>\<rparr>))))"

definition resetBackoff :: "('s, 'q) worker \<Rightarrow> ('s, 'q) worker" where
  "resetBackoff w = w\<lparr>wk_backoff := Reset (wk_backoff w)\<rparr>"

text \<open>The branch of a result that could not be stored.\<close>

definition handleStoreFailure ::
  "'s MonitorRepository \<Rightarrow> 's handling \<Rightarrow> 'q QueueDelivery \<Rightarrow> ProcessingLease \<Rightarrow> ('s, 'q) worker
   \<Rightarrow> (worker_error option \<times> ('s, 'q) worker) option" where
  "handleStoreFailure R h delivery lease w =
     (let transition = (if dl_Retryable delivery
            then (\<lambda>c. Service_MarkJobFailed R c lease ''result persistence failed''
                         (checkJobRetryDelay (msg_Attempt (dl_Job delivery))))
            else (\<lambda>c. FailProcessing R c lease ''result persistence failed''))
      in case retryJobStateTransition transition leaseStateRetryInitialDelay (hd_retries h) (wk_service w) of
           None \<Rightarrow> None
         | Some (Some stateErr, st, t) \<Rightarrow>
             (case ackInactiveJob (hd_ctx h) delivery stateErr (w\<lparr>wk_service := st, wk_decided := t\<rparr>) of
                (True, w) \<Rightarrow> Some (None, w)
              | (False, w) \<Rightarrow>
                  Some (Some (if dl_Retryable delivery then ''persist retryable check job failure''
                              else ''persist dead check job state'', stateErr), w))
         | Some (None, st, t) \<Rightarrow>
             (if dl_Retryable delivery
              then (case callAck (hd_ctx h) delivery (w\<lparr>wk_service := st, wk_decided := t\<rparr>) of
                      (Some err, w) \<Rightarrow> Some (Some (''ack job after persisting retry state'', err), w)
                    | (None, w) \<Rightarrow> Some (None, w))
              else (case callNack (hd_ctx h) False delivery (w\<lparr>wk_service := st, wk_decided := t\<rparr>) of
                      (Some err, w) \<Rightarrow> Some (Some (''dead-letter exhausted job'', err), w)
                    | (None, w) \<Rightarrow> Some (None, w))))"

text \<open>The part of the handler that holds a lease.\<close>

definition handleLeasedJob ::
  "'s MonitorRepository \<Rightarrow> AlertPolicy \<Rightarrow> (string \<Rightarrow> string) \<Rightarrow> Config \<Rightarrow> 's handling
   \<Rightarrow> 'q QueueDelivery \<Rightarrow> Monitor \<Rightarrow> ProcessingLease \<Rightarrow> ('s, 'q) worker
   \<Rightarrow> (worker_error option \<times> ('s, 'q) worker) option" where
  "handleLeasedJob R policy quote cfg h delivery monitor lease w =
     (let result = CheckMonitor quote cfg (hd_probe h) monitor;
          record = (CheckRecordFromResult (hd_draw h) result)\<lparr>chk_JobID := msg_JobID (dl_Job delivery)\<rparr>;
          (others, c) = hd_store h
      in case StoreCheckResult R policy c record result lease (interfere others (wk_service w)) of
           None \<Rightarrow> None
         | Some (Some err, st) \<Rightarrow> handleStoreFailure R h delivery lease (w\<lparr>wk_service := st\<rparr>)
         | Some (None, st) \<Rightarrow>
             Some (None, snd (callAck (hd_ctx h) delivery
                                (w\<lparr>wk_service := st, wk_decided := call_time c\<rparr>))))"

definition handleQueueDeliveryWithBackoff ::
  "'s MonitorRepository \<Rightarrow> AlertPolicy \<Rightarrow> (string \<Rightarrow> string) \<Rightarrow> Config \<Rightarrow> int \<Rightarrow> duration
   \<Rightarrow> 's handling \<Rightarrow> 'q QueueDelivery \<Rightarrow> ('s, 'q) worker
   \<Rightarrow> (worker_error option \<times> ('s, 'q) worker) option" where
  "handleQueueDeliveryWithBackoff R policy quote cfg workerID leaseTimeout h delivery w =
     (let job = dl_Job delivery;
          (others, c) = hd_get h;
          st = interfere others (wk_service w);
          w = w\<lparr>wk_service := st\<rparr>
      in case Service_Get R c (msg_MonitorID job) st of
           Inl err \<Rightarrow>
             if err = ErrMonitorNotFound
             then Some (None, snd (callAck (hd_ctx h) delivery (resetBackoff w)))
             else Some (requeueInfrastructureFailure h delivery err workerID ''monitor lookup'' w)
         | Inr monitor \<Rightarrow>
             (let (others, c) = hd_mark h in
              case MarkProcessing R c (msg_MonitorID job) (msg_JobID job) (msg_Attempt job) leaseTimeout
                     (interfere others st) of
                (Inl err, st) \<Rightarrow>
                  (let w = w\<lparr>wk_service := st\<rparr> in
                   if err = ErrStaleJob \<or> err = ErrJobAlreadyProcessing \<or> err = ErrMonitorNotFound
                   then Some (None, snd (callAck (hd_ctx h) delivery (resetBackoff w)))
                   else Some (requeueInfrastructureFailure h delivery err workerID
                                ''processing state transition'' w))
              | (Inr lease, st) \<Rightarrow>
                  handleLeasedJob R policy quote cfg h delivery monitor lease
                    ((resetBackoff w)\<lparr>wk_service := st, wk_lease := Some lease\<rparr>)))"

definition handleQueueDelivery ::
  "'s MonitorRepository \<Rightarrow> AlertPolicy \<Rightarrow> (string \<Rightarrow> string) \<Rightarrow> Config \<Rightarrow> int \<Rightarrow> duration
   \<Rightarrow> 's handling \<Rightarrow> 'q QueueDelivery \<Rightarrow> ('s, 'q) worker
   \<Rightarrow> (worker_error option \<times> ('s, 'q) worker) option" where
  "handleQueueDelivery R policy quote cfg workerID leaseTimeout h delivery w =
     handleQueueDeliveryWithBackoff R policy quote cfg workerID leaseTimeout h delivery
       (w\<lparr>wk_backoff := \<lparr>failures = 0\<rparr>\<rparr>)"

text \<open>The loop of a worker over the deliveries it receives: it ends at the first error; a
  message is taken only while the context is live.\<close>

fun runQueueWorkerWithBackoff ::
  "'s MonitorRepository \<Rightarrow> AlertPolicy \<Rightarrow> (string \<Rightarrow> string) \<Rightarrow> Config \<Rightarrow> int \<Rightarrow> duration
   \<Rightarrow> ('s handling \<times> 'q QueueDelivery) list \<Rightarrow> ('s, 'q) worker
   \<Rightarrow> (worker_error option \<times> ('s, 'q) worker) option" where
  "runQueueWorkerWithBackoff R policy quote cfg workerID leaseTimeout [] w = Some (None, w)"
| "runQueueWorkerWithBackoff R policy quote cfg workerID leaseTimeout ((h, delivery) # rest) w =
     (case handleQueueDeliveryWithBackoff R policy quote cfg workerID leaseTimeout h delivery w of
        None \<Rightarrow> None
      | Some (Some err, w) \<Rightarrow> Some (Some err, w)
      | Some (None, w) \<Rightarrow> runQueueWorkerWithBackoff R policy quote cfg workerID leaseTimeout rest w)"

section \<open>What a settlement must rest on\<close>

text \<open>
  \<open>live lease t s\<close>: the lease still owns its processing job at instant \<open>t\<close>;
  \<open>recorded j s\<close>: a result of job \<open>j\<close> is stored; \<open>waiting m j a s\<close>: job \<open>j\<close> of monitor \<open>m\<close>
  waits for a message with attempt \<open>a\<close>. A message may be acknowledged when its job does not
  wait for it, when the result is stored, or when the lease it was given has ended; it may be
  dead-lettered only when the lease has ended; it goes back to the queue only when no
  lease was obtained.
\<close>

definition settlement_ok ::
  "(ProcessingLease \<Rightarrow> gotime \<Rightarrow> 's \<Rightarrow> bool) \<Rightarrow> (string \<Rightarrow> 's \<Rightarrow> bool)
   \<Rightarrow> (string \<Rightarrow> string \<Rightarrow> int \<Rightarrow> 's \<Rightarrow> bool) \<Rightarrow> CheckJobMessage \<Rightarrow> settlement \<Rightarrow> ('s, 'q) worker \<Rightarrow> bool" where
  "settlement_ok live recorded waiting job x w \<longleftrightarrow>
     (let s = svc_store (wk_service w) in
      case x of
        Acked \<Rightarrow>
          (case wk_lease w of
             None \<Rightarrow> \<not> waiting (msg_MonitorID job) (msg_JobID job) (msg_Attempt job) s
           | Some lease \<Rightarrow> recorded (msg_JobID job) s \<or> \<not> live lease (wk_decided w) s)
      | Nacked requeue \<Rightarrow>
          (case wk_lease w of
             None \<Rightarrow> requeue
           | Some lease \<Rightarrow> \<not> requeue \<and> \<not> live lease (wk_decided w) s)
      | Requeued \<Rightarrow> wk_lease w = None)"

definition point_ok :: "('s \<Rightarrow> bool) \<Rightarrow> 's point \<Rightarrow> bool" where
  "point_ok good p \<longleftrightarrow> (\<forall>s. good s \<longrightarrow> good (fst p s))"

definition handling_ok :: "('s \<Rightarrow> bool) \<Rightarrow> 's handling \<Rightarrow> bool" where
  "handling_ok good h \<longleftrightarrow> point_ok good (hd_get h) \<and> point_ok good (hd_mark h) \<and> point_ok good (hd_store h)
     \<and> (\<forall>(p, fires) \<in> set (hd_retries h). point_ok good p)"

lemma callAck_frame:
  "callAck ctx d w = (e, w') \<Longrightarrow> wk_service w' = wk_service w \<and> wk_lease w' = wk_lease w
     \<and> wk_decided w' = wk_decided w \<and> wk_settled w' = wk_settled w @ [Acked]"
  by (auto simp: callAck_def split: prod.splits)

lemma callNack_frame:
  "callNack ctx r d w = (e, w') \<Longrightarrow> wk_service w' = wk_service w \<and> wk_lease w' = wk_lease w
     \<and> wk_decided w' = wk_decided w \<and> wk_settled w' = wk_settled w @ [Nacked r]"
  by (auto simp: callNack_def split: prod.splits)

lemma callRequeue_frame:
  "callRequeue ctx d w = (e, w') \<Longrightarrow> wk_lease w' = wk_lease w
     \<and> (wk_settled w' = wk_settled w @ [Nacked True] \<or> wk_settled w' = wk_settled w @ [Requeued])"
  by (auto simp: callRequeue_def callNack_def split: prod.splits option.splits)

lemma callAck_snd [simp]:
  "wk_service (snd (callAck ctx d w)) = wk_service w" "wk_lease (snd (callAck ctx d w)) = wk_lease w"
  "wk_decided (snd (callAck ctx d w)) = wk_decided w"
  "wk_settled (snd (callAck ctx d w)) = wk_settled w @ [Acked]"
  by (simp_all add: callAck_def split: prod.splits)

lemma requeue_outcome:
  assumes "requeueInfrastructureFailure h d cause wid op w = (err, w')"
  shows "wk_lease w' = wk_lease w \<and> (wk_settled w' = wk_settled w
     \<or> wk_settled w' = wk_settled w @ [Nacked True] \<or> wk_settled w' = wk_settled w @ [Requeued])"
proof -
  obtain delay b where n: "NextDelay (msg_JobID (dl_Job d)) wid (wk_backoff w) = (delay, b)" by fastforce
  obtain e w1 where c: "callRequeue (hd_ctx h) d (w\<lparr>wk_backoff := b\<rparr>) = (e, w1)" by fastforce
  from assms callRequeue_frame [OF c] show ?thesis
    by (auto simp: requeueInfrastructureFailure_def n c Let_def split: if_splits option.splits)
qed

section \<open>The contract of a repository with leases\<close>

locale lease_repository =
  fixes R :: "'s MonitorRepository"
    and good :: "'s \<Rightarrow> bool"
    and live :: "ProcessingLease \<Rightarrow> gotime \<Rightarrow> 's \<Rightarrow> bool"
    and recorded :: "string \<Rightarrow> 's \<Rightarrow> bool"
    and waiting :: "string \<Rightarrow> string \<Rightarrow> int \<Rightarrow> 's \<Rightarrow> bool"
  assumes get_missing: "good s \<Longrightarrow> repo_Get R c m s = Inl ErrMonitorNotFound \<Longrightarrow> \<not> waiting m j a s"
    and mark_refused: "good s \<Longrightarrow> repo_MarkJobProcessing R c m j a lt s = (Inl e, s') \<Longrightarrow>
      e = ErrStaleJob \<or> e = ErrJobAlreadyProcessing \<or> e = ErrMonitorNotFound \<Longrightarrow> \<not> waiting m j a s'"
    and mark_granted: "good s \<Longrightarrow> repo_MarkJobProcessing R c m j a lt s = (Inr lease, s') \<Longrightarrow> good s'"
    and add_recorded: "good s \<Longrightarrow> repo_AddCheck R c r lease policy s = Some (ares, s') \<Longrightarrow>
      (\<exists>m. ares = Inr m) \<or> ares = Inl ErrDuplicateJob \<Longrightarrow> recorded (chk_JobID r) s'"
    and add_refused: "good s \<Longrightarrow> repo_AddCheck R c r lease policy s = Some (Inl e, s') \<Longrightarrow> good s'"
    and failed_keeps: "good s \<Longrightarrow> repo_MarkJobFailed R c lease err d s = (res, s') \<Longrightarrow> good s'"
    and failed_ends: "good s \<Longrightarrow> repo_MarkJobFailed R c lease err d s = (res, s') \<Longrightarrow>
      res = None \<or> res = Some ErrStaleJob \<or> res = Some ErrMonitorNotFound \<Longrightarrow> \<not> live lease (call_time c) s'"
    and dead_keeps: "good s \<Longrightarrow> repo_MarkJobDead R c lease err s = (res, s') \<Longrightarrow> good s'"
    and dead_ends: "good s \<Longrightarrow> repo_MarkJobDead R c lease err s = (res, s') \<Longrightarrow>
      res = None \<or> res = Some ErrStaleJob \<or> res = Some ErrMonitorNotFound \<Longrightarrow> \<not> live lease (call_time c) s'"
begin

text \<open>A transition that ends the lease when it succeeds or is refused.\<close>

definition ends_lease :: "ProcessingLease \<Rightarrow> (call \<Rightarrow> 's MonitorService \<Rightarrow> go_error option \<times> 's MonitorService) \<Rightarrow> bool" where
  "ends_lease lease transition \<longleftrightarrow>
     (\<forall>c st res st'. good (svc_store st) \<longrightarrow> transition c st = (res, st') \<longrightarrow>
        good (svc_store st')
        \<and> ((case res of None \<Rightarrow> True | Some e \<Rightarrow> obsolete e) \<longrightarrow> \<not> live lease (call_time c) (svc_store st')))"

lemma failed_ends_lease: "ends_lease lease (\<lambda>c. Service_MarkJobFailed R c lease err d)"
  unfolding ends_lease_def
proof (intro allI impI)
  fix c and st st' :: "'s MonitorService" and res
  assume ok: "good (svc_store st)" and call: "Service_MarkJobFailed R c lease err d st = (res, st')"
  from call have "repo_MarkJobFailed R c lease err d (svc_store st) = (res, svc_store st')"
    by (auto simp: Service_MarkJobFailed_def split: prod.splits)
  from failed_keeps [OF ok this] failed_ends [OF ok this]
  show "good (svc_store st') \<and> ((case res of None \<Rightarrow> True | Some e \<Rightarrow> obsolete e) \<longrightarrow>
      \<not> live lease (call_time c) (svc_store st'))"
    by (auto simp: obsolete_def split: option.splits)
qed

lemma dead_ends_lease: "ends_lease lease (\<lambda>c. FailProcessing R c lease err)"
  unfolding ends_lease_def
proof (intro allI impI)
  fix c and st st' :: "'s MonitorService" and res
  assume ok: "good (svc_store st)" and call: "FailProcessing R c lease err st = (res, st')"
  from call have "repo_MarkJobDead R c lease err (svc_store st) = (res, svc_store st')"
    by (auto simp: FailProcessing_def split: prod.splits)
  from dead_keeps [OF ok this] dead_ends [OF ok this]
  show "good (svc_store st') \<and> ((case res of None \<Rightarrow> True | Some e \<Rightarrow> obsolete e) \<longrightarrow>
      \<not> live lease (call_time c) (svc_store st'))"
    by (auto simp: obsolete_def split: option.splits)
qed

lemma retry_ends_lease:
  assumes tr: "ends_lease lease transition"
  shows "\<forall>(p, fires) \<in> set ps. point_ok good p \<Longrightarrow> good (svc_store st) \<Longrightarrow>
    retryJobStateTransition transition delay ps st = Some (res, st', t) \<Longrightarrow>
    (case res of None \<Rightarrow> True | Some e \<Rightarrow> obsolete e) \<Longrightarrow> \<not> live lease t (svc_store st')"
proof (induction ps arbitrary: delay st)
  case (Cons x rest)
  obtain others c fires where x: "x = ((others, c), fires)" by (cases x) auto
  have ok1: "good (svc_store (interfere others st))"
    using Cons.prems(1,2) by (auto simp: point_ok_def interfere_def x)
  obtain r1 st1 where call: "transition c (interfere others st) = (r1, st1)" by fastforce
  with tr ok1 have tr1: "good (svc_store st1)"
    "(case r1 of None \<Rightarrow> True | Some e \<Rightarrow> obsolete e) \<Longrightarrow> \<not> live lease (call_time c) (svc_store st1)"
    unfolding ends_lease_def by blast+
  show ?case
  proof (cases r1)
    case None
    with Cons.prems(3) tr1(2) call show ?thesis by (simp add: x)
  next
    case (Some e)
    show ?thesis
    proof (cases "obsolete e \<or> \<not> fires delay")
      case True
      with Some Cons.prems(3,4) tr1(2) call show ?thesis by (auto simp: x split: if_splits)
    next
      case False
      with Some Cons.prems(3) call have
        "retryJobStateTransition transition (min (delay * 2) leaseStateRetryMaxDelay) rest st1 = Some (res, st', t)"
        by (simp add: x)
      with Cons.IH [OF _ tr1(1)] Cons.prems(1,4) show ?thesis by simp
    qed
  qed
qed simp

text \<open>The branch of a result that could not be stored settles the delivery once, after the end
  of the lease.\<close>

lemma handleStoreFailure_ok:
  assumes ret: "handleStoreFailure R h d lease w = Some (None, w')"
    and h: "\<forall>(p, fires) \<in> set (hd_retries h). point_ok good p"
    and start: "good (svc_store (wk_service w))" "wk_settled w = []" "wk_lease w = Some lease"
  shows "\<exists>x. wk_settled w' = [x] \<and> settlement_ok live recorded waiting (dl_Job d) x w'"
proof -
  define tr where "tr = (if dl_Retryable d
            then (\<lambda>c. Service_MarkJobFailed R c lease ''result persistence failed''
                         (checkJobRetryDelay (msg_Attempt (dl_Job d))))
            else (\<lambda>c. FailProcessing R c lease ''result persistence failed''))"
  have tr: "ends_lease lease tr"
    unfolding tr_def by (simp add: failed_ends_lease dead_ends_lease)
  note unf = ret [unfolded handleStoreFailure_def, folded tr_def, unfolded Let_def]
  obtain res st t where run:
    "retryJobStateTransition tr leaseStateRetryInitialDelay (hd_retries h) (wk_service w) = Some (res, st, t)"
    using unf by (auto split: option.splits)
  note ends = retry_ends_lease [OF tr h start(1) run]
  let ?w = "w\<lparr>wk_service := st, wk_decided := t\<rparr>"
  show ?thesis
  proof (cases res)
    case None
    show ?thesis
    proof (cases "dl_Retryable d")
      case True
      obtain e w1 where c: "callAck (hd_ctx h) d ?w = (e, w1)" by fastforce
      with unf run None True have "w' = w1" by (auto split: option.splits)
      with callAck_frame [OF c] ends None start show ?thesis by (auto simp: settlement_ok_def)
    next
      case False
      obtain e w1 where c: "callNack (hd_ctx h) False d ?w = (e, w1)" by fastforce
      with unf run None False have "w' = w1" by (auto split: option.splits)
      with callNack_frame [OF c] ends None start show ?thesis by (auto simp: settlement_ok_def)
    qed
  next
    case (Some e)
    show ?thesis
    proof (cases "obsolete e")
      case True
      with unf run Some have "w' = snd (callAck (hd_ctx h) d ?w)" by (simp add: ackInactiveJob_def)
      with ends Some True start show ?thesis by (simp add: settlement_ok_def)
    next
      case False
      with unf run Some show ?thesis by (simp add: ackInactiveJob_def)
    qed
  qed
qed

lemma handleLeasedJob_ok:
  assumes ret: "handleLeasedJob R policy quote cfg h d monitor lease w = Some (None, w')"
    and h: "handling_ok good h"
    and start: "good (svc_store (wk_service w))" "wk_settled w = []" "wk_lease w = Some lease"
  shows "\<exists>x. wk_settled w' = [x] \<and> settlement_ok live recorded waiting (dl_Job d) x w'"
proof -
  define result where "result = CheckMonitor quote cfg (hd_probe h) monitor"
  define r where "r = (CheckRecordFromResult (hd_draw h) result)\<lparr>chk_JobID := msg_JobID (dl_Job d)\<rparr>"
  obtain others c where hs: "hd_store h = (others, c)" by fastforce
  let ?st = "interfere others (wk_service w)"
  have ok1: "good (svc_store ?st)"
    using h start(1) by (simp add: handling_ok_def point_ok_def interfere_def hs)
  note unf = ret [unfolded handleLeasedJob_def, folded result_def, unfolded Let_def, folded r_def]
  obtain res st where run: "StoreCheckResult R policy c r result lease ?st = Some (res, st)"
    using unf by (auto simp: hs r_def split: option.splits)
  obtain ares s where add: "repo_AddCheck R c r lease policy (svc_store ?st) = Some (ares, s)"
    using run by (auto simp: StoreCheckResult_def split: option.splits)
  show ?thesis
  proof (cases res)
    case None
    with run add have "(\<exists>m. ares = Inr m) \<or> ares = Inl ErrDuplicateJob" "svc_store st = s"
      by (auto simp: StoreCheckResult_def split: sum.splits if_splits option.splits)
    with add_recorded [OF ok1 add] have "recorded (msg_JobID (dl_Job d)) (svc_store st)"
      by (simp add: r_def)
    with unf run None start show ?thesis by (auto simp: hs r_def settlement_ok_def)
  next
    case (Some e)
    with run add have "ares = Inl e" "svc_store st = s"
      by (auto simp: StoreCheckResult_def split: sum.splits if_splits option.splits)
    with add_refused [OF ok1] add have "good (svc_store st)" by simp
    with unf run Some start h handleStoreFailure_ok [of h d lease "w\<lparr>wk_service := st\<rparr>" w'] show ?thesis
      by (simp add: hs r_def handling_ok_def)
  qed
qed

text \<open>The whole handler: when it returns without an error the delivery was settled exactly once
  and rightly so, or the context ended while it waited to requeue.\<close>

lemma handler_settles:
  assumes ret: "handleQueueDeliveryWithBackoff R policy quote cfg wid lt h d w = Some (None, w')"
    and h: "handling_ok good h"
    and start: "good (svc_store (wk_service w))" "wk_settled w = []" "wk_lease w = None"
  shows "wk_settled w' = [] \<and> wk_lease w' = None
    \<or> (\<exists>x. wk_settled w' = [x] \<and> settlement_ok live recorded waiting (dl_Job d) x w')"
proof -
  let ?job = "dl_Job d"
  obtain o1 c1 o2 c2 where p: "hd_get h = (o1, c1)" "hd_mark h = (o2, c2)" by fastforce
  define st1 where "st1 = interfere o1 (wk_service w)"
  define st2 where "st2 = interfere o2 st1"
  have ok: "good (svc_store st1)" "good (svc_store st2)"
    using h start(1) by (simp_all add: handling_ok_def point_ok_def interfere_def p st1_def st2_def)
  have requeue: "wk_settled w' = [] \<and> wk_lease w' = None
      \<or> (\<exists>x. wk_settled w' = [x] \<and> settlement_ok live recorded waiting ?job x w')"
    if "requeueInfrastructureFailure h d cause wid op (w\<lparr>wk_service := st\<rparr>) = (None, w')" for cause op st
    using requeue_outcome [OF that] start by (auto simp: settlement_ok_def)
  note unf = ret [unfolded handleQueueDeliveryWithBackoff_def Let_def p prod.case, folded st1_def, folded st2_def]
  show ?thesis
  proof (cases "Service_Get R c1 (msg_MonitorID ?job) st1")
    case (Inl e)
    show ?thesis
    proof (cases "e = ErrMonitorNotFound")
      case True
      with Inl get_missing [OF ok(1)] have "\<not> waiting (msg_MonitorID ?job) (msg_JobID ?job) (msg_Attempt ?job) (svc_store st1)"
        by (simp add: Service_Get_def)
      with unf Inl True start show ?thesis by (auto simp: settlement_ok_def resetBackoff_def)
    next
      case False
      with unf Inl requeue show ?thesis by auto
    qed
  next
    case (Inr monitor)
    obtain r st where mark: "MarkProcessing R c2 (msg_MonitorID ?job) (msg_JobID ?job) (msg_Attempt ?job) lt st2 = (r, st)"
      by fastforce
    then have mark': "repo_MarkJobProcessing R c2 (msg_MonitorID ?job) (msg_JobID ?job) (msg_Attempt ?job) lt (svc_store st2)
        = (r, svc_store st)"
      by (auto simp: MarkProcessing_def split: prod.splits)
    show ?thesis
    proof (cases r)
      case (Inl e)
      show ?thesis
      proof (cases "e = ErrStaleJob \<or> e = ErrJobAlreadyProcessing \<or> e = ErrMonitorNotFound")
        case True
        with mark_refused [OF ok(2)] mark' Inl
        have "\<not> waiting (msg_MonitorID ?job) (msg_JobID ?job) (msg_Attempt ?job) (svc_store st)" by simp
        moreover have "w' = snd (callAck (hd_ctx h) d (resetBackoff (w\<lparr>wk_service := st\<rparr>)))"
          using unf Inl True mark \<open>Service_Get R c1 _ st1 = Inr monitor\<close> by (auto split: if_splits)
        ultimately show ?thesis using start by (simp add: settlement_ok_def resetBackoff_def)
      next
        case False
        with unf Inl mark \<open>Service_Get R c1 _ st1 = Inr monitor\<close> requeue show ?thesis by auto
      qed
    next
      case (Inr lease)
      have "good (svc_store st)" using mark_granted [OF ok(2)] mark' Inr by simp
      with unf Inr mark \<open>Service_Get R c1 _ st1 = Inr monitor\<close> h start
        handleLeasedJob_ok [of policy quote cfg h d monitor lease
          "(resetBackoff (w\<lparr>wk_service := st1\<rparr>))\<lparr>wk_service := st, wk_lease := Some lease\<rparr>" w']
      show ?thesis by (simp add: resetBackoff_def)
    qed
  qed
qed

end

end
