(* ===== verification/Worker_Store.thy ===== *)
theory Worker_Store
  imports Worker
begin

text \<open>
  The worker over the in-memory repository: the interpretation of \<open>lease_repository\<close> on the
  store, that the handler always returns there, and the end of the retry loop.
\<close>

section \<open>The in-memory repository has leases\<close>

definition lease_live :: "ProcessingLease \<Rightarrow> gotime \<Rightarrow> MonitorStore \<Rightarrow> bool" where
  "lease_live lease t s \<longleftrightarrow>
     (case checkJobs s (lease_JobID lease) of None \<Rightarrow> False | Some job \<Rightarrow> jobOwnsLease job lease t)"

definition result_recorded :: "string \<Rightarrow> MonitorStore \<Rightarrow> bool" where
  "result_recorded j s \<longleftrightarrow> j \<in> processedJobs s
     \<or> (case checkJobs s j of None \<Rightarrow> False | Some job \<Rightarrow> job_Status job = checkJobStatusCompleted)"

definition job_waiting :: "string \<Rightarrow> string \<Rightarrow> int \<Rightarrow> MonitorStore \<Rightarrow> bool" where
  "job_waiting m j attempt s \<longleftrightarrow>
     (case activeJobLocked m j s of
        Inl e \<Rightarrow> False
      | Inr job \<Rightarrow> topologyLost job \<and> job_Attempt job < attempt)"

lemma updateIncident_processed [simp]: "processedJobs (updateIncident draw r now s) = processedJobs s"
  by (simp add: updateIncident_def Let_def split: option.split)

lemma AddCheck_processed:
  assumes inv: "store_inv env s" and call: "AddCheck draw now r lease s = Some (Inr m', s')"
  shows "chk_JobID r \<in> processedJobs s'"
proof -
  from AddCheck_Inr [OF inv call] obtain m job where
    cc: "completeCheck draw now r job m s = Some (m', s')" by metis
  from rememberProcessedJobLocked_ok [OF store_invD(9) [OF inv], of "chk_JobID r"]
  obtain s1 where "rememberProcessedJobLocked (chk_JobID r) s = Some s1" "chk_JobID r \<in> processedJobs s1"
    by blast
  with cc show ?thesis by (auto simp: completeCheck_alt Let_def)
qed

lemma AddCheck_returns:
  assumes inv: "store_inv env s"
  shows "\<exists>res s'. AddCheck draw now r lease s = Some (res, s')"
proof -
  obtain s1 where "rememberProcessedJobLocked (chk_JobID r) s = Some s1"
    using rememberProcessedJobLocked_ok [OF store_invD(9) [OF inv], of "chk_JobID r"] by blast
  then have "completeCheck draw now r job m s \<noteq> None" for job m
    by (simp add: completeCheck_alt Let_def)
  then show ?thesis by (force simp: AddCheck_def simp del: not_None_eq split: option.splits)
qed

lemma AddCheck_refused: "AddCheck draw now r lease s = Some (Inl e, s') \<Longrightarrow> s' = s"
  by (auto simp: AddCheck_def split: option.splits if_splits)

text \<open>A lease that is live at an instant owns the active job at every earlier one.\<close>

lemma lease_live_active:
  assumes inv: "store_inv env s" and live: "lease_live lease (max a b) s"
  obtains job where "activeJobLocked (lease_MonitorID lease) (lease_JobID lease) s = Inr job"
    "jobOwnsLease job lease a" "After (job_LeaseExpiresAt job) b" "byID s (lease_MonitorID lease) \<noteq> None"
proof -
  from live obtain job where job: "checkJobs s (lease_JobID lease) = Some job"
    and own: "jobOwnsLease job lease (max a b)" by (auto simp: lease_live_def split: option.splits)
  note o = owned_job_active [OF inv job own]
  have "activeJobLocked (lease_MonitorID lease) (lease_JobID lease) s = Inr job" using o by simp
  moreover from own have "jobOwnsLease job lease a" "After (job_LeaseExpiresAt job) b"
    by (auto simp: jobOwnsLease_def)
  ultimately show thesis by (intro that) (auto simp: activeJobLocked_Inr)
qed

lemma failed_not_live:
  assumes inv: "store_inv env s"
    and call: "MarkJobFailed lease err now retryAt wall s = (r, s')"
  shows "\<not> lease_live lease (max now wall) s'"
proof (cases r)
  case None
  with call show ?thesis
    by (auto simp: MarkJobFailed_def lease_live_def jobOwnsLease_def split: sum.splits if_splits)
next
  case (Some e)
  with call have "s' = s" by (auto simp: MarkJobFailed_def split: sum.splits if_splits)
  with Some call lease_live_active [OF inv, of lease now wall] show ?thesis
    by (fastforce simp: MarkJobFailed_def split: sum.splits if_splits)
qed

lemma dead_not_live:
  assumes inv: "store_inv env s"
    and call: "MarkJobDead lease err now nextCheckAt wall s = (r, s')"
  shows "\<not> lease_live lease (max now wall) s'"
proof (cases r)
  case None
  then obtain job where job: "activeJobLocked (lease_MonitorID lease) (lease_JobID lease) s = Inr job"
    using call by (auto simp: MarkJobDead_def split: option.splits sum.splits)
  let ?job = "job\<lparr>job_Status := checkJobStatusDead, job_CompletedAt := now,
    job_ProcessingStartedAt := zeroTime, job_LeaseExpiresAt := zeroTime, job_LeaseToken := [],
    job_LastError := err, job_UpdatedAt := now\<rparr>"
  obtain h jobs where ev: "evictLoop maxRetainedCheckJobs terminal_status
      (terminalJobOrder s @ [lease_JobID lease]) (terminalJobHead s)
      ((checkJobs s)(lease_JobID lease \<mapsto> ?job)) = (h, jobs)" by (rule prod.exhaust)
  have s': "checkJobs s' = jobs"
    using call None job ev
    by (auto simp: MarkJobDead_def Let_def rememberTerminalJobLocked_checkJobs split: option.splits if_splits)
  have "jobs (lease_JobID lease) = Some job' \<Longrightarrow> job' = ?job" for job'
    using evictLoop_sub [OF ev] by fastforce
  then show ?thesis by (auto simp: lease_live_def s' jobOwnsLease_def split: option.splits)
next
  case (Some e)
  with call have "s' = s" by (auto simp: MarkJobDead_def Let_def split: option.splits sum.splits if_splits)
  with Some call lease_live_active [OF inv, of lease now wall] show ?thesis
    by (fastforce simp: MarkJobDead_def Let_def split: option.splits sum.splits if_splits)
qed

lemma mem_dead_not_live:
  assumes inv: "store_inv env s" and call: "mem_MarkJobDead c lease err s = (r, s')"
  shows "\<not> lease_live lease (call_time c) s'"
proof (cases "byID s (lease_MonitorID lease)")
  case None
  with call have "s' = s" by (simp add: mem_MarkJobDead_def Get_def)
  with None lease_live_active [OF inv, of lease "c_now c" "c_wall c"] show ?thesis
    by (auto simp: call_time_def)
next
  case (Some m)
  with call dead_not_live [OF inv] show ?thesis
    by (simp add: mem_MarkJobDead_def Get_def call_time_def)
qed

lemma mem_dead_inv: "store_inv env s \<Longrightarrow> mem_MarkJobDead c lease err s = (r, s') \<Longrightarrow> store_inv env s'"
  using MarkJobDead_inv [of env s lease err "c_now c" _ "c_wall c"]
  by (auto simp: mem_MarkJobDead_def split: sum.splits) (metis snd_conv)

lemma mark_refused_not_waiting:
  "MarkJobProcessing m j a draw now lt s = (Inl e, s') \<Longrightarrow> \<not> job_waiting m j a s'"
  by (auto simp: MarkJobProcessing_def job_waiting_def topologyLost_def Let_def
      split: sum.splits option.splits CheckJobStatus.splits if_splits)

interpretation mem_leases: lease_repository InMemoryMonitorRepository "store_inv env"
  lease_live result_recorded job_waiting for env
proof unfold_locales
  fix s c m j a
  assume "repo_Get InMemoryMonitorRepository c m s = Inl ErrMonitorNotFound"
  then show "\<not> job_waiting m j a s"
    by (auto simp: InMemoryMonitorRepository_def Get_def job_waiting_def activeJobLocked_def split: option.splits)
next
  fix s c r lease policy ares s'
  assume "store_inv env s" "repo_AddCheck InMemoryMonitorRepository c r lease policy s = Some (ares, s')"
    "(\<exists>m. ares = Inr m) \<or> ares = Inl ErrDuplicateJob"
  then show "result_recorded (chk_JobID r) s'"
    by (auto simp: InMemoryMonitorRepository_def result_recorded_def dest: AddCheck_processed)
      (auto simp: AddCheck_def split: option.splits if_splits)
qed (use mark_refused_not_waiting AddCheck_refused mem_dead_inv mem_dead_not_live MarkJobProcessing_inv MarkJobFailed_inv failed_not_live
     in \<open>auto simp: InMemoryMonitorRepository_def mem_MarkJobFailed_def call_time_def, (metis snd_conv)+\<close>)

section \<open>The handler always returns\<close>

text \<open>The only refusals of the in-memory transitions.\<close>

lemma mem_failed_error:
  "mem_MarkJobFailed c lease err d s = (Some e, s') \<Longrightarrow> obsolete e"
  by (auto simp: mem_MarkJobFailed_def MarkJobFailed_def obsolete_def activeJobLocked_def
      split: sum.splits option.splits if_splits)

lemma mem_dead_error:
  "mem_MarkJobDead c lease err s = (Some e, s') \<Longrightarrow> obsolete e"
  by (auto simp: mem_MarkJobDead_def MarkJobDead_def obsolete_def activeJobLocked_def Get_def Let_def
      split: sum.splits option.splits if_splits)

lemma mem_mark_error:
  "MarkJobProcessing m j a draw now lt s = (Inl e, s') \<Longrightarrow>
   e = ErrStaleJob \<or> e = ErrJobAlreadyProcessing \<or> e = ErrMonitorNotFound"
  by (auto simp: MarkJobProcessing_def activeJobLocked_def Let_def
      split: sum.splits option.splits CheckJobStatus.splits if_splits)

lemma retry_first:
  assumes "ps \<noteq> []"
    and "\<And>c st e st'. transition c st = (Some e, st') \<Longrightarrow> obsolete e"
  shows "\<exists>r st' t. retryJobStateTransition transition delay ps st = Some (r, st', t)
           \<and> (case r of None \<Rightarrow> True | Some e \<Rightarrow> obsolete e)"
proof -
  obtain others c fires rest where ps: "ps = ((others, c), fires) # rest"
    using assms(1) by (metis neq_Nil_conv surj_pair)
  obtain r st' where call: "transition c (interfere others st) = (r, st')" by fastforce
  with assms(2) show ?thesis by (cases r) (auto simp: ps)
qed

lemma mem_StoreCheckResult_returns:
  assumes "store_inv env (svc_store st)" "metrics_ok (svc_metrics st)"
  shows "\<exists>r st'. StoreCheckResult InMemoryMonitorRepository policy c record result lease st = Some (r, st')"
proof -
  obtain res s' where add: "AddCheck (c_draw c) (c_now c) record lease (svc_store st) = Some (res, s')"
    using AddCheck_returns [OF assms(1)] by blast
  show ?thesis
  proof (cases res)
    case (Inr m)
    obtain m' where "RecordResult result (mon_LastCheckedAt m) (c_wall c) (svc_metrics st) = Some m'"
      by (rule RecordResult_ok [OF assms(2)])
    with Inr add show ?thesis by (simp add: StoreCheckResult_def InMemoryMonitorRepository_def)
  qed (use add in \<open>simp add: StoreCheckResult_def InMemoryMonitorRepository_def\<close>)
qed

definition settles :: "'q QueueDelivery \<Rightarrow> bool" where
  "settles d \<longleftrightarrow> (\<forall>ctx q. snd (dl_Ack d ctx q) = None) \<and> (\<forall>ctx q. snd (dl_Nack d ctx False q) = None)"

lemma callAck_settles:
  assumes "settles d"
  obtains w' where "callAck ctx d w = (None, w')" "wk_settled w' = wk_settled w @ [Acked]"
proof (cases "dl_Ack d ctx (wk_queue w)")
  case (Pair q e)
  with assms have "e = None" by (metis settles_def snd_conv)
  with Pair that show thesis by (simp add: callAck_def)
qed

lemma callNack_settles:
  assumes "settles d"
  obtains w' where "callNack ctx False d w = (None, w')" "wk_settled w' = wk_settled w @ [Nacked False]"
proof (cases "dl_Nack d ctx False (wk_queue w)")
  case (Pair q e)
  with assms have "e = None" by (metis settles_def snd_conv)
  with Pair that show thesis by (simp add: callNack_def)
qed

lemma memoryDelivery_settles: "settles (memoryDelivery pick q job)"
  by (simp add: settles_def memoryDelivery_def delivery_Ack_def delivery_Nack_def)

text \<open>The two ways the handler ends a delivery here.\<close>

definition delivery_settled :: "('s, 'q) worker \<Rightarrow> ('s, 'q) worker \<Rightarrow> bool" where
  "delivery_settled w w' \<longleftrightarrow> wk_settled w' = wk_settled w @ [Acked] \<or> wk_settled w' = wk_settled w @ [Nacked False]"

lemma mem_handleStoreFailure_returns:
  assumes "hd_retries h \<noteq> []" "settles d"
  shows "\<exists>w'. handleStoreFailure InMemoryMonitorRepository h d lease w = Some (None, w') \<and> delivery_settled w w'"
proof -
  define tr where "tr = (if dl_Retryable d
            then (\<lambda>c. Service_MarkJobFailed InMemoryMonitorRepository c lease ''result persistence failed''
                         (checkJobRetryDelay (msg_Attempt (dl_Job d))))
            else (\<lambda>c. FailProcessing InMemoryMonitorRepository c lease ''result persistence failed''))"
  have err: "tr c st = (Some e, st') \<Longrightarrow> obsolete e" for c st e st'
    by (auto simp: tr_def Service_MarkJobFailed_def FailProcessing_def InMemoryMonitorRepository_def
        split: if_splits prod.splits dest: mem_failed_error mem_dead_error)
  obtain r st t where
    run: "retryJobStateTransition tr leaseStateRetryInitialDelay (hd_retries h) (wk_service w) = Some (r, st, t)"
    and r: "case r of None \<Rightarrow> True | Some e \<Rightarrow> obsolete e"
    using retry_first [of "hd_retries h" tr] assms(1) err by blast
  let ?w = "w\<lparr>wk_service := st, wk_decided := t\<rparr>"
  obtain w1 where "callAck (hd_ctx h) d ?w = (None, w1)" "wk_settled w1 = wk_settled ?w @ [Acked]"
    by (rule callAck_settles [OF assms(2)])
  moreover obtain w2 where "callNack (hd_ctx h) False d ?w = (None, w2)"
    "wk_settled w2 = wk_settled ?w @ [Nacked False]"
    by (rule callNack_settles [OF assms(2)])
  ultimately show ?thesis
    unfolding handleStoreFailure_def tr_def [symmetric] Let_def run option.case
    using r by (cases r) (simp_all add: ackInactiveJob_def delivery_settled_def)
qed

lemma mem_handleLeasedJob_returns:
  assumes h: "handling_ok (store_inv env) h" "hd_retries h \<noteq> []" and d: "settles d"
    and start: "store_inv env (svc_store (wk_service w))" "metrics_ok (svc_metrics (wk_service w))"
  shows "\<exists>w'. handleLeasedJob InMemoryMonitorRepository policy quote cfg h d monitor lease w = Some (None, w')
    \<and> delivery_settled w w'"
proof -
  obtain others c where hs: "hd_store h = (others, c)" by fastforce
  have ok: "store_inv env (svc_store (interfere others (wk_service w)))"
    "metrics_ok (svc_metrics (interfere others (wk_service w)))"
    using h(1) start by (simp_all add: handling_ok_def point_ok_def interfere_def hs)
  let ?result = "CheckMonitor quote cfg (hd_probe h) monitor"
  let ?rec = "(CheckRecordFromResult (hd_draw h) ?result)\<lparr>chk_JobID := msg_JobID (dl_Job d)\<rparr>"
  obtain r st where "StoreCheckResult InMemoryMonitorRepository policy c ?rec ?result lease
      (interfere others (wk_service w)) = Some (r, st)"
    using mem_StoreCheckResult_returns [OF ok] by blast
  then show ?thesis
    using mem_handleStoreFailure_returns [OF h(2) d, of lease "w\<lparr>wk_service := st\<rparr>"]
    by (cases r) (simp_all add: handleLeasedJob_def hs Let_def delivery_settled_def)
qed

lemma mem_handler_returns:
  assumes h: "handling_ok (store_inv env) h" "hd_retries h \<noteq> []" and d: "settles d"
    and start: "store_inv env (svc_store (wk_service w))" "metrics_ok (svc_metrics (wk_service w))"
  shows "\<exists>w'. handleQueueDeliveryWithBackoff InMemoryMonitorRepository policy quote cfg wid lt h d w
           = Some (None, w') \<and> delivery_settled w w'"
proof -
  obtain o1 c1 o2 c2 where p: "hd_get h = (o1, c1)" "hd_mark h = (o2, c2)" by fastforce
  define st1 where "st1 = interfere o1 (wk_service w)"
  define st2 where "st2 = interfere o2 st1"
  have ok: "store_inv env (svc_store st2)" "metrics_ok (svc_metrics st2)"
    using h start by (simp_all add: handling_ok_def point_ok_def interfere_def p st1_def st2_def)
  note unf = handleQueueDeliveryWithBackoff_def Let_def p prod.case st1_def [symmetric] st2_def [symmetric]
  show ?thesis
  proof (cases "Service_Get InMemoryMonitorRepository c1 (msg_MonitorID (dl_Job d)) st1")
    case (Inl e)
    then have "e = ErrMonitorNotFound"
      by (auto simp: Service_Get_def InMemoryMonitorRepository_def Get_def split: option.splits)
    with Inl show ?thesis by (simp add: unf delivery_settled_def resetBackoff_def)
  next
    case (Inr monitor)
    obtain r st where mark: "MarkProcessing InMemoryMonitorRepository c2 (msg_MonitorID (dl_Job d))
        (msg_JobID (dl_Job d)) (msg_Attempt (dl_Job d)) lt st2 = (r, st)" by fastforce
    then obtain s where mark': "MarkJobProcessing (msg_MonitorID (dl_Job d)) (msg_JobID (dl_Job d))
        (msg_Attempt (dl_Job d)) (c_draw c2) (c_now c2) lt (svc_store st2) = (r, s)"
      and st: "st = st2\<lparr>svc_store := s\<rparr>"
      by (auto simp: MarkProcessing_def InMemoryMonitorRepository_def split: prod.splits)
    show ?thesis
    proof (cases r)
      case (Inl e)
      with mem_mark_error mark' have e: "e = ErrStaleJob \<or> e = ErrJobAlreadyProcessing \<or> e = ErrMonitorNotFound"
        by simp
      with Inl mark \<open>Service_Get _ _ _ st1 = Inr monitor\<close> show ?thesis
        by (simp add: unf delivery_settled_def resetBackoff_def)
    next
      case (Inr lease)
      let ?w = "(resetBackoff (w\<lparr>wk_service := st1\<rparr>))\<lparr>wk_service := st, wk_lease := Some lease\<rparr>"
      have "store_inv env (svc_store (wk_service ?w))" "metrics_ok (svc_metrics (wk_service ?w))"
        using MarkJobProcessing_inv [OF ok(1), of "msg_MonitorID (dl_Job d)" "msg_JobID (dl_Job d)"
            "msg_Attempt (dl_Job d)" "c_draw c2" "c_now c2" lt] mark' ok(2) by (simp_all add: st)
      note w = this
      from mem_handleLeasedJob_returns [OF h d w]
      obtain w' where leased: "handleLeasedJob InMemoryMonitorRepository policy quote cfg h d monitor lease ?w
          = Some (None, w')" "delivery_settled ?w w'" by blast
      with mark Inr \<open>Service_Get _ _ _ st1 = Inr monitor\<close> show ?thesis
        by (simp add: unf delivery_settled_def resetBackoff_def)
    qed
  qed
qed

section \<open>The retry loop ends with its context\<close>

lemma retry_returns:
  assumes "50 * Millisecond \<le> delay \<and> delay \<le> Second"
    and "((others, c), fires) \<in> set ps"
    and "\<And>d. 50 * Millisecond \<le> d \<Longrightarrow> d \<le> Second \<Longrightarrow> \<not> fires d"
  shows "\<exists>r st' t. retryJobStateTransition transition delay ps st = Some (r, st', t)
     \<and> (\<exists>c' st0. transition c' st0 = (r, st') \<and> t = call_time c')"
  using assms(1,2)
proof (induction ps arbitrary: delay st)
  case (Cons x rest)
  obtain o1 c1 f1 where x: "x = ((o1, c1), f1)" by (cases x) auto
  obtain r st1 where call: "transition c1 (interfere o1 st) = (r, st1)" by fastforce
  show ?case
  proof (cases "case r of None \<Rightarrow> False | Some e \<Rightarrow> \<not> obsolete e \<and> f1 delay")
    case True
    with Cons.prems assms(3) x have "((others, c), fires) \<in> set rest" by (auto split: option.splits)
    moreover have "50 * Millisecond \<le> min (delay * 2) Second \<and> min (delay * 2) Second \<le> Second"
      using Cons.prems(1) by (auto simp: min_def)
    ultimately show ?thesis
      using Cons.IH [of "min (delay * 2) Second" st1] True call x by (auto split: option.splits)
  next
    case False
    with call x show ?thesis by (cases r) auto
  qed
qed simp

section \<open>A delivery\<close>

text \<open>The first attempt of the published job of the scenario, with no interference.\<close>

definition demo_point :: "MonitorStore point" where
  "demo_point = (\<lambda>s. s, demo_call)"

definition demo_handling :: "MonitorStore handling" where
  "demo_handling = \<lparr>hd_get = demo_point, hd_mark = demo_point, hd_probe = demo_probe, hd_draw = demo_draw,
     hd_store = demo_point, hd_retries = [(demo_point, \<lambda>_. False)], hd_timer = (\<lambda>_. True), hd_ctx = None\<rparr>"

definition demo_config :: Config where
  "demo_config = projr (LoadConfig demo_config_env)"

definition demo_message :: CheckJobMessage where
  "demo_message = \<lparr>msg_JobID = demo_jid, msg_MonitorID = demo_mid, msg_Attempt = 1, msg_EnqueuedAt = 300\<rparr>"

definition demo_delivery :: "InMemoryQueue QueueDelivery" where
  "demo_delivery = memoryDelivery True (NewInMemoryQueue 4 3) demo_message"

definition demo_worker :: "(MonitorStore, InMemoryQueue) worker" where
  "demo_worker = \<lparr>wk_service = \<lparr>svc_store = demo_s3, svc_metrics = newMetrics 1 ''v1'' ''abc'' ''today'' 1 True\<rparr>,
     wk_queue = NewInMemoryQueue 4 3, wk_backoff = \<lparr>failures = 0\<rparr>, wk_settled = [], wk_lease = None,
     wk_decided = 0\<rparr>"

lemma demo_handling_ok: "handling_ok (store_inv demo_env) demo_handling" "hd_retries demo_handling \<noteq> []"
  by (simp_all add: handling_ok_def point_ok_def demo_handling_def demo_point_def)

lemma demo_worker_ok:
  "store_inv demo_env (svc_store (wk_service demo_worker))" "metrics_ok (svc_metrics (wk_service demo_worker))"
  "wk_settled demo_worker = []" "wk_lease demo_worker = None"
  using reachable_inv [OF demo_reachable_3] newMetrics_ok by (simp_all add: demo_worker_def)

section \<open>Properties\<close>

text \<open>
  C30. The worker settles each delivery at most once, and for a reason the store gives. While
  other goroutines change the store before each of its calls in any way that keeps the store's
  invariant, when the handler returns without an error either it settled nothing (its context
  ended while it waited to requeue, with no lease taken), or it settled exactly once:
  acknowledged without a lease only if the job does not wait for this attempt, acknowledged
  with a lease only if the result is stored or the lease is no longer live, dead-lettered
  only when the lease is no longer live, put back into the queue only without a lease.\<close>
theorem worker_settles_once:
  assumes "handleQueueDeliveryWithBackoff InMemoryMonitorRepository policy quote cfg wid lt h d w
             = Some (None, w')"
    and "handling_ok (store_inv env) h" and "store_inv env (svc_store (wk_service w))"
    and "wk_settled w = []" and "wk_lease w = None"
  shows "wk_settled w' = [] \<and> wk_lease w' = None
    \<or> (\<exists>x. wk_settled w' = [x] \<and> settlement_ok lease_live result_recorded job_waiting (dl_Job d) x w')"
  using assms by (rule mem_leases.handler_settles)

theorem worker_settles_once_witness:
  "\<exists>w' x. handleQueueDeliveryWithBackoff InMemoryMonitorRepository \<lparr>ap_Enabled = False, ap_FailureThreshold = 3,
        ap_Cooldown = 0\<rparr> (\<lambda>s. s) demo_config 1 1000 demo_handling demo_delivery demo_worker = Some (None, w')
     \<and> wk_settled w' = [x]
     \<and> settlement_ok lease_live result_recorded job_waiting demo_message x w'"
proof -
  obtain w' where run: "handleQueueDeliveryWithBackoff InMemoryMonitorRepository \<lparr>ap_Enabled = False,
        ap_FailureThreshold = 3, ap_Cooldown = 0\<rparr> (\<lambda>s. s) demo_config 1 1000 demo_handling demo_delivery demo_worker
        = Some (None, w')" and "delivery_settled demo_worker w'"
    using mem_handler_returns [OF demo_handling_ok memoryDelivery_settles demo_worker_ok(1,2)]
    unfolding demo_delivery_def by blast
  moreover have "dl_Job demo_delivery = demo_message" by (simp add: demo_delivery_def memoryDelivery_def)
  ultimately show ?thesis
    using worker_settles_once [OF run demo_handling_ok(1) demo_worker_ok(1,3,4)] demo_worker_ok(3)
    by (auto simp: delivery_settled_def)
qed

text \<open>
  C31. Over the in-memory repository and the in-memory queue the handler of a delivery always
  returns without an error and without a panic, and the delivery has then been settled
  exactly once, by an acknowledgement or a dead-lettering: no message is lost or
  requeued, whatever other goroutines do to the store within its invariant.\<close>
theorem worker_handles_every_delivery:
  assumes "handling_ok (store_inv env) h" and "hd_retries h \<noteq> []"
    and "store_inv env (svc_store (wk_service w))" and "metrics_ok (svc_metrics (wk_service w))"
    and "wk_settled w = []"
  shows "\<exists>w'. handleQueueDeliveryWithBackoff InMemoryMonitorRepository policy quote cfg wid lt h
                (memoryDelivery pick q job) w = Some (None, w')
     \<and> (wk_settled w' = [Acked] \<or> wk_settled w' = [Nacked False])"
proof -
  obtain w' where run: "handleQueueDeliveryWithBackoff InMemoryMonitorRepository policy quote cfg wid lt h
                (memoryDelivery pick q job) w = Some (None, w')" and "delivery_settled w w'"
    using mem_handler_returns [OF assms(1,2) memoryDelivery_settles assms(3,4)] by blast
  then show ?thesis using assms(5) by (auto simp: delivery_settled_def)
qed

theorem worker_handles_every_delivery_witness:
  "\<exists>w'. handleQueueDeliveryWithBackoff InMemoryMonitorRepository \<lparr>ap_Enabled = False, ap_FailureThreshold = 3,
        ap_Cooldown = 0\<rparr> (\<lambda>s. s) demo_config 1 1000 demo_handling
        (memoryDelivery True (NewInMemoryQueue 4 3) demo_message) demo_worker = Some (None, w')
     \<and> (wk_settled w' = [Acked] \<or> wk_settled w' = [Nacked False])"
  by (rule worker_handles_every_delivery [OF demo_handling_ok demo_worker_ok(1-3)])

text \<open>
  The retry of a state transition ends: once the context is done (no timer of a delay
  between 50 ms and one second fires before it), the loop returns, with whatever the
  repository answered before; an error it returns then is the last one of the transition. Every
  delay it waits for lies in that range.\<close>
theorem retry_ends_with_context:
  assumes "((others, c), fires) \<in> set ps"
    and "\<And>d. 50 * Millisecond \<le> d \<Longrightarrow> d \<le> Second \<Longrightarrow> \<not> fires d"
  shows "\<exists>r st' t. retryJobStateTransition transition leaseStateRetryInitialDelay ps st = Some (r, st', t)
     \<and> (\<exists>c' st0. transition c' st0 = (r, st') \<and> t = call_time c')"
  by (rule retry_returns [OF _ assms]) simp_all

theorem retry_ends_with_context_witness:
  "\<exists>r st' t. retryJobStateTransition (\<lambda>c st. (Some ErrDuplicateJob, st)) leaseStateRetryInitialDelay
       [(demo_point, \<lambda>d. d = 50 * Millisecond), (demo_point, \<lambda>d. False)] (wk_service demo_worker) = Some (r, st', t)
     \<and> r = Some ErrDuplicateJob"
  using retry_ends_with_context [of "fst demo_point" "snd demo_point" "\<lambda>_. False"
      "[(demo_point, \<lambda>d. d = 50 * Millisecond), (demo_point, \<lambda>d. False)]"
      "\<lambda>c st. (Some ErrDuplicateJob, st)" "wk_service demo_worker"] by auto

end
