(* ===== verification/Scheduler.thy ===== *)
theory Scheduler
  imports Worker_Store
begin

text \<open>
  The scheduler of \<open>runtime.go\<close>: a round claims due jobs, publishes one message for each, and
  then marks the job as published or releases its claim. \<open>publication_repository\<close> is what it
  needs of a repository; the in-memory store is an interpretation.
\<close>

section \<open>Queues\<close>

record 'q JobQueue =
  jq_Ping :: "call \<Rightarrow> 'q \<Rightarrow> 'q \<times> go_error option"
  jq_Publish :: "call \<Rightarrow> CheckJobMessage \<Rightarrow> 'q \<Rightarrow> 'q \<times> go_error option"

definition memoryJobQueue :: "bool \<Rightarrow> InMemoryQueue JobQueue" where
  "memoryJobQueue pick =
     \<lparr>jq_Ping = (\<lambda>c q. (q, None)), jq_Publish = (\<lambda>c job. Publish (c_wall c) (c_ctx c) pick job)\<rparr>"

section \<open>A round of the scheduler\<close>

record ('s, 'q) scheduler =
  sc_service :: "'s MonitorService"
  sc_queue :: 'q

text \<open>The message for a claimed job; the clock is read when the message is made.\<close>

definition jobMessage :: "call \<Rightarrow> CheckJobRecord \<Rightarrow> CheckJobMessage" where
  "jobMessage c job =
     \<lparr>msg_JobID = job_ID job, msg_MonitorID = job_MonitorID job,
      msg_Attempt = wrap64 (job_Attempt job + 1), msg_EnqueuedAt = c_wall c\<rparr>"

text \<open>One turn of the loop, with the error of the publication. A failed write of the outcome is
  only logged.\<close>

definition publishJob ::
  "'s MonitorRepository \<Rightarrow> 'q JobQueue \<Rightarrow> call \<Rightarrow> CheckJobRecord \<Rightarrow> ('s, 'q) scheduler
   \<Rightarrow> go_error option \<times> ('s, 'q) scheduler" where
  "publishJob R Q c persistedJob sc =
     (let claim = PublicationClaim_of persistedJob in
      case jq_Publish Q c (jobMessage c persistedJob) (sc_queue sc) of
        (q, Some err) \<Rightarrow>
          (let st = snd (Service_ReleaseJobPublish R c claim ''broker publish failed'' (sc_service sc))
           in (Some err, sc\<lparr>sc_service := st\<lparr>svc_metrics := RecordSkipped (svc_metrics st)\<rparr>, sc_queue := q\<rparr>))
      | (q, None) \<Rightarrow>
          (let st = snd (Service_MarkJobPublished R c claim (sc_service sc))
           in (None, sc\<lparr>sc_service := st\<lparr>svc_metrics := RecordScheduled (svc_metrics st)\<rparr>, sc_queue := q\<rparr>)))"

fun publishLoop ::
  "'s MonitorRepository \<Rightarrow> 'q JobQueue \<Rightarrow> (nat \<Rightarrow> call) \<Rightarrow> nat \<Rightarrow> CheckJobRecord list \<Rightarrow> ('s, 'q) scheduler
   \<Rightarrow> (CheckJobRecord \<times> go_error option) list \<times> ('s, 'q) scheduler" where
  "publishLoop R Q calls n [] sc = ([], sc)"
| "publishLoop R Q calls n (job # jobs) sc =
     (let (err, sc) = publishJob R Q (calls n) job sc;
          (out, sc) = publishLoop R Q calls (Suc n) jobs sc
      in ((job, err) # out, sc))"

definition enqueueDueMonitorJobs ::
  "'s MonitorRepository \<Rightarrow> 'q JobQueue \<Rightarrow> call \<Rightarrow> (nat \<Rightarrow> call) \<Rightarrow> int \<Rightarrow> duration \<Rightarrow> int
   \<Rightarrow> ('s, 'q) scheduler \<Rightarrow> (CheckJobRecord \<times> go_error option) list \<times> ('s, 'q) scheduler" where
  "enqueueDueMonitorJobs R Q c calls limit leaseTimeout maxAttempts sc =
     (case Service_ClaimDueJobs R c limit leaseTimeout maxAttempts (sc_service sc) of
        (Inl err, st) \<Rightarrow> ([], sc\<lparr>sc_service := st\<rparr>)
      | (Inr jobs, st) \<Rightarrow> publishLoop R Q calls 0 jobs (sc\<lparr>sc_service := st\<rparr>))"

text \<open>The ticks before the context is done; a tick whose ping fails is skipped.\<close>

record tick =
  tk_ping :: call
  tk_claim :: call
  tk_calls :: "nat \<Rightarrow> call"

definition schedulerTick ::
  "'s MonitorRepository \<Rightarrow> 'q JobQueue \<Rightarrow> Config \<Rightarrow> tick \<Rightarrow> ('s, 'q) scheduler \<Rightarrow> ('s, 'q) scheduler" where
  "schedulerTick R Q cfg k sc =
     (case jq_Ping Q (tk_ping k) (sc_queue sc) of
        (q, Some err) \<Rightarrow> sc\<lparr>sc_queue := q\<rparr>
      | (q, None) \<Rightarrow> snd (enqueueDueMonitorJobs R Q (tk_claim k) (tk_calls k) (cfg_SchedulerBatchSize cfg)
                            (cfg_CheckLeaseTimeout cfg) (cfg_MaxJobAttempts cfg) (sc\<lparr>sc_queue := q\<rparr>)))"

definition RunQueueScheduler ::
  "'s MonitorRepository \<Rightarrow> 'q JobQueue \<Rightarrow> Config \<Rightarrow> tick list \<Rightarrow> ('s, 'q) scheduler \<Rightarrow> ('s, 'q) scheduler" where
  "RunQueueScheduler R Q cfg ticks sc = fold (schedulerTick R Q cfg) ticks sc"

definition queueTopologyLossHandler ::
  "'s MonitorRepository \<Rightarrow> call \<Rightarrow> 's MonitorService \<Rightarrow> go_error option \<times> 's MonitorService" where
  "queueTopologyLossHandler R c st =
     (case Service_RecoverQueuedJobs R c st of
        (Inl err, st) \<Rightarrow> (Some err, st)
      | (Inr n, st) \<Rightarrow> (None, st))"

section \<open>The contract of a repository with publication claims\<close>

text \<open>\<open>pending t job s\<close>: the claimed \<open>job\<close> is stored as it was handed out and its claim holds
  beyond \<open>t\<close>; \<open>published t job s\<close>, \<open>released t job s\<close>: what the call at \<open>t\<close> made of it.\<close>

locale publication_repository =
  fixes R :: "'s MonitorRepository"
    and good :: "'s \<Rightarrow> bool"
    and pending published released :: "gotime \<Rightarrow> CheckJobRecord \<Rightarrow> 's \<Rightarrow> bool"
  assumes mark_good: "good s \<Longrightarrow> repo_MarkJobPublished R c (PublicationClaim_of job) s = (r, s') \<Longrightarrow> good s'"
    and mark_publishes: "good s \<Longrightarrow> pending (c_now c) job s \<Longrightarrow>
      repo_MarkJobPublished R c (PublicationClaim_of job) s = (r, s') \<Longrightarrow> r = None \<and> published (c_now c) job s'"
    and mark_others: "good s \<Longrightarrow> repo_MarkJobPublished R c (PublicationClaim_of job) s = (r, s') \<Longrightarrow>
      job_ID job' \<noteq> job_ID job \<Longrightarrow> pending t job' s' = pending t job' s
        \<and> published t job' s' = published t job' s \<and> released t job' s' = released t job' s"
    and release_good: "good s \<Longrightarrow> repo_ReleaseJobPublish R c (PublicationClaim_of job) e s = (r, s') \<Longrightarrow> good s'"
    and release_releases: "good s \<Longrightarrow> pending (c_now c) job s \<Longrightarrow>
      repo_ReleaseJobPublish R c (PublicationClaim_of job) ''broker publish failed'' s = (r, s') \<Longrightarrow> r = None \<and> released (c_now c) job s'"
    and release_others: "good s \<Longrightarrow> repo_ReleaseJobPublish R c (PublicationClaim_of job) e s = (r, s') \<Longrightarrow>
      job_ID job' \<noteq> job_ID job \<Longrightarrow> pending t job' s' = pending t job' s
        \<and> published t job' s' = published t job' s \<and> released t job' s' = released t job' s"
begin

abbreviation store_of :: "('s, 'q) scheduler \<Rightarrow> 's" where
  "store_of sc \<equiv> svc_store (sc_service sc)"

text \<open>A turn settles its own claim and touches no other.\<close>

lemma publishJob_outcome:
  assumes ok: "good (store_of sc)" and run: "publishJob R Q c job sc = (err, sc')"
  shows "good (store_of sc')"
    and "pending (c_now c) job (store_of sc) \<Longrightarrow>
      (if err = None then published (c_now c) job (store_of sc') else released (c_now c) job (store_of sc'))"
    and "job_ID job' \<noteq> job_ID job \<Longrightarrow> pending t job' (store_of sc') = pending t job' (store_of sc)
      \<and> published t job' (store_of sc') = published t job' (store_of sc)
      \<and> released t job' (store_of sc') = released t job' (store_of sc)"
proof -
  obtain q e where pub: "jq_Publish Q c (jobMessage c job) (sc_queue sc) = (q, e)" by fastforce
  have "good (store_of sc')
    \<and> (pending (c_now c) job (store_of sc) \<longrightarrow>
        (if err = None then published (c_now c) job (store_of sc') else released (c_now c) job (store_of sc')))
    \<and> (job_ID job' \<noteq> job_ID job \<longrightarrow> pending t job' (store_of sc') = pending t job' (store_of sc)
      \<and> published t job' (store_of sc') = published t job' (store_of sc)
      \<and> released t job' (store_of sc') = released t job' (store_of sc))"
  proof (cases e)
    case None
    obtain r s where m: "repo_MarkJobPublished R c (PublicationClaim_of job) (store_of sc) = (r, s)" by fastforce
    from run pub None m have "err = None" "store_of sc' = s"
      by (auto simp: publishJob_def Let_def Service_MarkJobPublished_def)
    with mark_good [OF ok m] mark_publishes [OF ok _ m] mark_others [OF ok m] show ?thesis by simp
  next
    case (Some x)
    obtain r s where m: "repo_ReleaseJobPublish R c (PublicationClaim_of job) ''broker publish failed'' (store_of sc) = (r, s)"
      by fastforce
    from run pub Some m have "err = Some x" "store_of sc' = s"
      by (auto simp: publishJob_def Let_def Service_ReleaseJobPublish_def)
    with release_good [OF ok m] release_releases [OF ok _ m] release_others [OF ok m] show ?thesis by simp
  qed
  then show "good (store_of sc')"
    and "pending (c_now c) job (store_of sc) \<Longrightarrow>
      (if err = None then published (c_now c) job (store_of sc') else released (c_now c) job (store_of sc'))"
    and "job_ID job' \<noteq> job_ID job \<Longrightarrow> pending t job' (store_of sc') = pending t job' (store_of sc)
      \<and> published t job' (store_of sc') = published t job' (store_of sc)
      \<and> released t job' (store_of sc') = released t job' (store_of sc)"
    by blast+
qed

lemma publishLoop_others:
  assumes "publishLoop R Q calls n jobs sc = (out, sc')" "good (store_of sc)" "job_ID job' \<notin> job_ID ` set jobs"
  shows "published t job' (store_of sc') = published t job' (store_of sc)
      \<and> released t job' (store_of sc') = released t job' (store_of sc)"
  using assms
proof (induction jobs arbitrary: n sc out)
  case (Cons job jobs)
  obtain err sc1 where turn: "publishJob R Q (calls n) job sc = (err, sc1)" by fastforce
  obtain out1 where rest: "publishLoop R Q calls (Suc n) jobs sc1 = (out1, sc')"
    using Cons.prems(1) turn by (auto split: prod.splits)
  note o = publishJob_outcome [OF Cons.prems(2) turn]
  from Cons.IH [OF rest o(1)] o(3) [of job' t] Cons.prems(3) show ?case by auto
qed simp

text \<open>Every claim of a round is settled by the outcome of its own publication.\<close>

lemma publishLoop_outcome:
  assumes "publishLoop R Q calls n jobs sc = (out, sc')" "good (store_of sc)" "distinct (map job_ID jobs)"
    and "\<And>i. i < length jobs \<Longrightarrow> pending (c_now (calls (n + i))) (jobs ! i) (store_of sc)"
  shows "good (store_of sc') \<and> map fst out = jobs
    \<and> (\<forall>i < length jobs. if snd (out ! i) = None then published (c_now (calls (n + i))) (jobs ! i) (store_of sc')
        else released (c_now (calls (n + i))) (jobs ! i) (store_of sc'))"
  using assms
proof (induction jobs arbitrary: n sc out)
  case (Cons job jobs)
  obtain err sc1 where turn: "publishJob R Q (calls n) job sc = (err, sc1)" by fastforce
  obtain out1 where rest: "publishLoop R Q calls (Suc n) jobs sc1 = (out1, sc')"
    and eq: "out = (job, err) # out1" using Cons.prems(1) turn by (auto split: prod.splits)
  note o = publishJob_outcome [OF Cons.prems(2) turn]
  have fresh: "job_ID job \<notin> job_ID ` set jobs" "distinct (map job_ID jobs)" using Cons.prems(3) by auto
  have "pending (c_now (calls (Suc n + i))) (jobs ! i) (store_of sc1)" if "i < length jobs" for i
  proof -
    have "job_ID (jobs ! i) \<noteq> job_ID job" using that fresh(1) by (metis image_eqI nth_mem)
    with o(3) [of "jobs ! i" "c_now (calls (Suc n + i))"] Cons.prems(4) [of "Suc i"] that show ?thesis by simp
  qed
  from Cons.IH [OF rest o(1) fresh(2) this]
  have tail: "good (store_of sc')" "map fst out1 = jobs"
    "\<And>i. i < length jobs \<Longrightarrow> if snd (out1 ! i) = None then published (c_now (calls (Suc n + i))) (jobs ! i) (store_of sc')
        else released (c_now (calls (Suc n + i))) (jobs ! i) (store_of sc')" by auto
  have "if err = None then published (c_now (calls n)) job (store_of sc')
        else released (c_now (calls n)) job (store_of sc')"
    using o(2) Cons.prems(4) [of 0] publishLoop_others [OF rest o(1) fresh(1)] by simp
  note head = this
  have "if snd (out ! i) = None then published (c_now (calls (n + i))) ((job # jobs) ! i) (store_of sc')
        else released (c_now (calls (n + i))) ((job # jobs) ! i) (store_of sc')" if "i < length (job # jobs)" for i
    using that head tail(3) [of "i - 1"] by (cases i) (auto simp: eq split: if_splits)
  with tail(1,2) show ?case by (simp add: eq)
qed simp

end

section \<open>The in-memory repository has publication claims\<close>

definition claim_pending :: "gotime \<Rightarrow> CheckJobRecord \<Rightarrow> MonitorStore \<Rightarrow> bool" where
  "claim_pending t job s \<longleftrightarrow>
     checkJobs s (job_ID job) = Some job \<and> byID s (job_MonitorID job) \<noteq> None
     \<and> job_Status job = checkJobStatusScheduled \<and> job_PublicationToken job \<noteq> []
     \<and> t < job_LeaseExpiresAt job \<and> \<not> IsZero (job_LeaseExpiresAt job)"

definition job_published :: "gotime \<Rightarrow> CheckJobRecord \<Rightarrow> MonitorStore \<Rightarrow> bool" where
  "job_published t job s \<longleftrightarrow>
     checkJobs s (job_ID job) = Some (job\<lparr>job_Status := checkJobStatusQueued, job_PublishedAt := t,
       job_LeaseExpiresAt := zeroTime, job_UpdatedAt := t\<rparr>)"

definition claim_released :: "gotime \<Rightarrow> CheckJobRecord \<Rightarrow> MonitorStore \<Rightarrow> bool" where
  "claim_released t job s \<longleftrightarrow>
     checkJobs s (job_ID job) = Some (job\<lparr>job_LeaseExpiresAt := zeroTime, job_PublicationToken := [],
       job_LastError := ''broker publish failed'', job_UpdatedAt := t\<rparr>)"

lemma pending_publicationJob:
  "claim_pending t job s \<Longrightarrow> publicationJobLocked (PublicationClaim_of job) s = Inr job"
  by (auto simp: claim_pending_def publicationJobLocked_def PublicationClaim_of_def)

lemma mark_checkJobs:
  "MarkJobPublished (PublicationClaim_of job) now s = (r, s') \<Longrightarrow>
   byID s' = byID s \<and> (\<forall>j. j \<noteq> job_ID job \<longrightarrow> checkJobs s' j = checkJobs s j)"
  by (auto simp: MarkJobPublished_def PublicationClaim_of_def split: sum.splits if_splits)

lemma release_checkJobs:
  "ReleaseJobPublish (PublicationClaim_of job) e now s = (r, s') \<Longrightarrow>
   byID s' = byID s \<and> (\<forall>j. j \<noteq> job_ID job \<longrightarrow> checkJobs s' j = checkJobs s j)"
  by (auto simp: ReleaseJobPublish_def PublicationClaim_of_def split: sum.splits if_splits)

lemma claims_frame:
  assumes "byID s' = byID s \<and> (\<forall>j. j \<noteq> i \<longrightarrow> checkJobs s' j = checkJobs s j)" "job_ID job \<noteq> i"
  shows "claim_pending t job s' = claim_pending t job s \<and> job_published t job s' = job_published t job s
    \<and> claim_released t job s' = claim_released t job s"
  using assms by (simp add: claim_pending_def job_published_def claim_released_def)

interpretation mem_claims: publication_repository InMemoryMonitorRepository "store_inv env"
  claim_pending job_published claim_released for env
proof (unfold_locales, goal_cases)
  case (1 s c job r s')
  with MarkJobPublished_inv [of env s "PublicationClaim_of job" "c_now c"] show ?case
    by (simp add: InMemoryMonitorRepository_def)
next
  case (2 s c job r s')
  then show ?case
    using pending_publicationJob [OF 2(2)]
    by (auto simp: InMemoryMonitorRepository_def MarkJobPublished_def claim_pending_def job_published_def
        PublicationClaim_of_def)
next
  case (3 s c job r s' job' t)
  then show ?case
    using claims_frame [OF mark_checkJobs] by (simp add: InMemoryMonitorRepository_def)
next
  case (4 s c job e r s')
  with ReleaseJobPublish_inv [of env s "PublicationClaim_of job" e "c_now c"] show ?case
    by (simp add: InMemoryMonitorRepository_def)
next
  case (5 s c job r s')
  then show ?case
    using pending_publicationJob [OF 5(2)]
    by (auto simp: InMemoryMonitorRepository_def ReleaseJobPublish_def claim_pending_def claim_released_def
        PublicationClaim_of_def)
next
  case (6 s c job e r s' job' t)
  then show ?case
    using claims_frame [OF release_checkJobs] by (simp add: InMemoryMonitorRepository_def)
qed

lemma publishLoop_metrics:
  assumes "publishLoop R Q calls n jobs sc = (out, sc')"
  shows "mx_jobsScheduledTotal (svc_metrics (sc_service sc'))
       = mx_jobsScheduledTotal (svc_metrics (sc_service sc)) + of_nat (length (filter (\<lambda>x. snd x = None) out))
     \<and> mx_jobsSkippedTotal (svc_metrics (sc_service sc'))
       = mx_jobsSkippedTotal (svc_metrics (sc_service sc)) + of_nat (length (filter (\<lambda>x. snd x \<noteq> None) out))"
  using assms
proof (induction jobs arbitrary: n sc out)
  case (Cons job jobs)
  obtain err sc1 where turn: "publishJob R Q (calls n) job sc = (err, sc1)" by fastforce
  obtain out1 where rest: "publishLoop R Q calls (Suc n) jobs sc1 = (out1, sc')"
    and eq: "out = (job, err) # out1" using Cons.prems turn by (auto split: prod.splits)
  from turn have "svc_metrics (sc_service sc1) =
     (if err = None then RecordScheduled (svc_metrics (sc_service sc)) else RecordSkipped (svc_metrics (sc_service sc)))"
    by (auto simp: publishJob_def Let_def Service_MarkJobPublished_def Service_ReleaseJobPublish_def
        split: prod.splits option.splits)
  with Cons.IH [OF rest] show ?case by (auto simp: eq RecordScheduled_def RecordSkipped_def)
qed simp

lemma claimed_pending:
  assumes inv: "store_inv env s" and ok: "claimed_ok now lt mx limit claimed s" and job: "job \<in> set claimed"
    and t: "0 < now" "t < now + lt" "0 < lt"
  shows "claim_pending t job s"
proof -
  from ok job have g: "good_claim now lt mx job" "checkJobs s (job_ID job) = Some job"
    by (auto simp: claimed_ok_def)
  with store_inv_job [OF inv g(2)] t show ?thesis
    by (auto simp: claim_pending_def good_claim_def terminal_status_def)
qed

text \<open>What a settled claim means for the message and for the next round.\<close>

lemma settled_claim:
  assumes inv: "store_inv env s1" and g: "good_claim (c_now c) lt mx job" "checkJobs s1 (job_ID job) = Some job"
    and "mx < 2 ^ 63" "c_now c \<le> t"
    and "err = None \<Longrightarrow> job_published t job s'" "err \<noteq> None \<Longrightarrow> claim_released t job s'"
  shows "msg_Attempt (jobMessage k job) = job_Attempt job + 1" "msg_Attempt (jobMessage k job) \<le> mx"
    and "if err = None then job_published t job s'
         else claim_released t job s' \<and> claimable t mx (the (checkJobs s' (job_ID job)))"
proof -
  have "wrap64 (job_Attempt job + 1) = job_Attempt job + 1"
    using g assms(4) store_inv_job [OF inv g(2)]
    by (intro wrap64_id) (auto simp: int64_range_def good_claim_def job_ok_def)
  with g show "msg_Attempt (jobMessage k job) = job_Attempt job + 1" "msg_Attempt (jobMessage k job) \<le> mx"
    by (simp_all add: jobMessage_def good_claim_def)
  show "if err = None then job_published t job s'
        else claim_released t job s' \<and> claimable t mx (the (checkJobs s' (job_ID job)))"
    using assms(5-7) g(1) by (auto simp: good_claim_def claim_released_def claimable_def split: if_splits)
qed

lemma round_counters:
  assumes "publishLoop R Q calls n jobs sc = (out, sc')"
  shows "mx_jobsScheduledTotal (svc_metrics (sc_service sc')) + mx_jobsSkippedTotal (svc_metrics (sc_service sc'))
      = mx_jobsScheduledTotal (svc_metrics (sc_service sc)) + mx_jobsSkippedTotal (svc_metrics (sc_service sc))
        + of_nat (length out)"
proof -
  have "length (filter (\<lambda>x. snd x = None) out) + length (filter (\<lambda>x. snd x \<noteq> None) out) = length out"
    by (rule sum_length_filter_compl)
  then have "(of_nat (length (filter (\<lambda>x. snd x = None) out)) + of_nat (length (filter (\<lambda>x. snd x \<noteq> None) out)) :: 64 word)
      = of_nat (length out)" by (metis of_nat_add)
  with publishLoop_metrics [OF assms] show ?thesis by (simp add: algebra_simps)
qed

section \<open>Properties\<close>


definition demo_scheduler :: "(MonitorStore, InMemoryQueue) scheduler" where
  "demo_scheduler = \<lparr>sc_service = \<lparr>svc_store = demo_s1, svc_metrics = newMetrics 1 ''v1'' ''abc'' ''today'' 1 True\<rparr>,
     sc_queue = NewInMemoryQueue 4 3\<rparr>"

definition call_at :: "gotime \<Rightarrow> call" where
  "call_at t = demo_call\<lparr>c_now := t, c_wall := t\<rparr>"

lemma demo_jid_nonempty [simp]: "demo_jid \<noteq> []"
  by (simp add: demo_jid_def NewCheckJobID_def)

text \<open>The queue after the first round.\<close>

definition demo_queue :: InMemoryQueue where
  "demo_queue = (NewInMemoryQueue 4 3)\<lparr>q_jobs := [jobMessage (call_at 300) demo_j2], q_seen := {demo_jid}\<rparr>"

lemma demo_publish:
  "jq_Publish (memoryJobQueue True) (call_at 300) (jobMessage (call_at 300) demo_j2) (NewInMemoryQueue 4 3)
   = (demo_queue, None)"
  by (simp add: memoryJobQueue_def Publish_def publishDefaults_def jobMessage_def reserve_def NewInMemoryQueue_def
      enqueue_def Let_def demo_queue_def call_at_def demo_call_def wrap64_def)

lemma demo_round:
  "\<exists>sc'. enqueueDueMonitorJobs InMemoryMonitorRepository (memoryJobQueue True) (call_at 200) (\<lambda>_. call_at 300) 10 1000 3
      demo_scheduler = ([(demo_j2, None)], sc')
    \<and> sc_queue sc' = demo_queue \<and> svc_store (sc_service sc') = demo_s3"
proof -
  have "repo_ClaimDueJobs InMemoryMonitorRepository (call_at 200) 10 1000 3 demo_s1 = (Inr [demo_j2], demo_s2)"
    by (simp add: InMemoryMonitorRepository_def call_at_def demo_call_def demo_claimed demo_s2_eq)
  moreover have "repo_MarkJobPublished InMemoryMonitorRepository (call_at 300) (PublicationClaim_of demo_j2) demo_s2 = (None, demo_s3)"
    using demo_published
    by (simp add: InMemoryMonitorRepository_def call_at_def demo_call_def demo_claim_def demo_s3_eq)
  ultimately show ?thesis
    by (simp add: enqueueDueMonitorJobs_def Service_ClaimDueJobs_def demo_scheduler_def publishJob_def demo_publish
        Service_MarkJobPublished_def Let_def)
qed


section \<open>A swallowed publication\<close>

text \<open>
  A worker that outlives its processing lease: its delivery is not settled, so the queue still
  has the job's identifier as seen. The scheduler recovers the job and publishes its second
  attempt; \<open>Publish\<close> reports success without sending a message, and the job is marked
  \<open>queued\<close>. After the worker's acknowledgement the queue holds nothing for the job, and the
  next claim does not hand it out.
\<close>

definition late_call :: call where
  "late_call = (call_at 2000)\<lparr>c_claim := demo_ce\<lparr>ce_recover := [demo_jid], ce_jobs := [demo_jid]\<rparr>\<rparr>"

definition late_scheduler :: "(MonitorStore, InMemoryQueue) scheduler" where
  "late_scheduler = \<lparr>sc_service = \<lparr>svc_store = demo_s4, svc_metrics = newMetrics 1 ''v1'' ''abc'' ''today'' 1 True\<rparr>,
     sc_queue = demo_queue\<lparr>q_jobs := []\<rparr>\<rparr>"

definition late_job :: CheckJobRecord where
  "late_job = claimJob 2000 1000 demo_draw
     (demo_j4\<lparr>job_Status := checkJobStatusFailed, job_AvailableAt := 2000,
        job_ProcessingStartedAt := zeroTime, job_LeaseExpiresAt := zeroTime, job_LeaseToken := [],
        job_LastError := ''processing lease expired'', job_UpdatedAt := 2000\<rparr>)"

lemma late_claim:
  "ClaimDueJobsWithMaxAttempts (demo_ce\<lparr>ce_recover := [demo_jid], ce_jobs := [demo_jid]\<rparr>) 10 2000 1000 3 demo_s4
   = ([late_job], demo_s4\<lparr>checkJobs := [demo_jid \<mapsto> late_job]\<rparr>)"
  by (simp add: ClaimDueJobsWithMaxAttempts_def demo_ce_def Let_def recoverJob_def processingExpired_def
      failedExhausted_def claimable_def late_job_def)

lemma late_job_fields [simp]:
  "job_ID late_job = demo_jid" "job_MonitorID late_job = demo_mid" "job_Attempt late_job = 1"
  "job_Status late_job = checkJobStatusScheduled" "job_LeaseExpiresAt late_job = 3000"
  "job_PublicationToken late_job = newID ''publish'' demo_draw"
  by (simp_all add: late_job_def claimJob_def)

theorem swallowed_publication:
  "consumeTurn None p None p' demo_queue = (sc_queue late_scheduler, Delivered (jobMessage (call_at 300) demo_j2))
   \<and> (\<exists>sc'. enqueueDueMonitorJobs InMemoryMonitorRepository (memoryJobQueue True) late_call (\<lambda>_. call_at 2100) 10 1000 3
          late_scheduler = ([(late_job, None)], sc')
        \<and> map_option job_Status (checkJobs (svc_store (sc_service sc')) demo_jid) = Some checkJobStatusQueued
        \<and> q_jobs (sc_queue sc') = []
        \<and> fst (ClaimDueJobsWithMaxAttempts (demo_ce\<lparr>ce_recover := [demo_jid], ce_jobs := [demo_jid]\<rparr>) 10 9000 1000 3
                 (svc_store (sc_service sc'))) = [])"
proof -
  let ?s = "demo_s4\<lparr>checkJobs := [demo_jid \<mapsto> late_job]\<rparr>"
  let ?job = "late_job\<lparr>job_Status := checkJobStatusQueued, job_PublishedAt := 2100,
      job_LeaseExpiresAt := zeroTime, job_UpdatedAt := 2100\<rparr>"
  have "repo_ClaimDueJobs InMemoryMonitorRepository late_call 10 1000 3 demo_s4 = (Inr [late_job], ?s)"
    by (simp add: InMemoryMonitorRepository_def late_call_def call_at_def demo_call_def late_claim)
  moreover have "repo_MarkJobPublished InMemoryMonitorRepository (call_at 2100) (PublicationClaim_of late_job) ?s
      = (None, ?s\<lparr>checkJobs := [demo_jid \<mapsto> ?job]\<rparr>)"
    by (simp add: InMemoryMonitorRepository_def call_at_def demo_call_def MarkJobPublished_def
        publicationJobLocked_def PublicationClaim_of_def)
  moreover have "jq_Publish (memoryJobQueue True) (call_at 2100) (jobMessage (call_at 2100) late_job)
      (demo_queue\<lparr>q_jobs := []\<rparr>) = (demo_queue\<lparr>q_jobs := []\<rparr>, None)"
    by (simp add: memoryJobQueue_def Publish_def publishDefaults_def jobMessage_def reserve_def NewInMemoryQueue_def
        demo_queue_def Let_def wrap64_def)
  moreover have "fst (ClaimDueJobsWithMaxAttempts (demo_ce\<lparr>ce_recover := [demo_jid], ce_jobs := [demo_jid]\<rparr>)
      10 9000 1000 3 (?s\<lparr>checkJobs := [demo_jid \<mapsto> ?job]\<rparr>)) = []"
    by (simp add: ClaimDueJobsWithMaxAttempts_def demo_ce_def Let_def recoverJob_def processingExpired_def
        failedExhausted_def claimable_def)
  ultimately show ?thesis
    by (simp add: enqueueDueMonitorJobs_def Service_ClaimDueJobs_def late_scheduler_def publishJob_def
        Service_MarkJobPublished_def Let_def consumeTurn_def demo_queue_def)
qed

end
