(* ===== verification/Alert.thy ===== *)
theory Alert
  imports Checker Repository Backoff
begin

text \<open>
  Alert delivery of \<open>alert.go\<close>: the webhook request and its verdict, the retry delay, and the
  dispatcher over any alert outbox. The JSON encoder, the HTTP exchange and the parser of HTTP
  dates are the fields of \<open>alert_world\<close>. \<open>alert_outbox\<close> states what the dispatcher needs of an
  outbox.
\<close>

section \<open>Events\<close>

record AlertPayload =
  ap_EventType :: string
  ap_IncidentID :: string
  ap_MonitorID :: string
  ap_URL :: string
  ap_StatusCode :: int
  ap_Error :: string
  ap_ConsecutiveFailures :: int
  ap_CheckedAt :: gotime

record AlertOutboxEvent =
  ev_ID :: string
  ev_IdempotencyKey :: string
  ev_IncidentID :: string
  ev_MonitorID :: string
  ev_Payload :: AlertPayload
  ev_AttemptCount :: int
  ev_LeaseToken :: string

record AlertDeliveryError =
  de_StatusCode :: int
  de_Permanent :: bool
  de_RetryAfter :: duration

abbreviation (input) alertEventIncidentFailure :: string where
  "alertEventIncidentFailure \<equiv> ''incident.failure''"
abbreviation (input) maxAlertRetryAfter :: duration where
  "maxAlertRetryAfter \<equiv> 24 * Hour"

section \<open>Sending\<close>

datatype alert_exchange =
    BadAlertRequest string
  | AlertFailed client_error
  | AlertResponse int string string

text \<open>An answer has a status and the headers \<open>Retry-After\<close> and \<open>Date\<close>.\<close>

record alert_world =
  aw_marshal :: "AlertPayload \<Rightarrow> string + string"
  aw_exchange :: "string \<Rightarrow> string \<Rightarrow> string \<Rightarrow> string \<Rightarrow> alert_exchange"
  aw_parseTime :: "string \<Rightarrow> gotime option"

record AlertSender =
  as_webhookURL :: string
  as_userAgent :: string

datatype send_error = ResponseError AlertDeliveryError | PlainError string

fun send_error_text :: "send_error \<Rightarrow> string" where
  "send_error_text (ResponseError e) = ''alert webhook returned status '' @ Itoa (de_StatusCode e)"
| "send_error_text (PlainError t) = t"

definition alertTransportCause :: "client_error \<Rightarrow> client_error" where
  "alertTransportCause err =
     (case as_url_error err of Some (Some cause) \<Rightarrow> cause | _ \<Rightarrow> err)"

definition isPermanentAlertStatus :: "int \<Rightarrow> bool" where
  "isPermanentAlertStatus statusCode =
     (if statusCode < 400 \<or> statusCode \<ge> 500 then False
      else statusCode \<notin> {408, 425, 429})"

definition parseRetryAfter :: "(string \<Rightarrow> gotime option) \<Rightarrow> string \<Rightarrow> string \<Rightarrow> duration" where
  "parseRetryAfter parseTime value responseDate =
     (let value = TrimSpace value in
      if value = [] then 0
      else case Atoi value of
          Some s \<Rightarrow> if s \<le> 0 then 0
                    else if s \<ge> go_div maxAlertRetryAfter Second then maxAlertRetryAfter
                    else wrap64 (s * Second)
        | None \<Rightarrow>
            (case parseTime value of
               None \<Rightarrow> 0
             | Some retryAt \<Rightarrow>
                 (case parseTime responseDate of
                    None \<Rightarrow> 0
                  | Some serverTime \<Rightarrow>
                      if \<not> After retryAt serverTime then 0
                      else if retryAt - serverTime > maxAlertRetryAfter then maxAlertRetryAfter
                      else retryAt - serverTime)))"

definition Send :: "alert_world \<Rightarrow> AlertSender \<Rightarrow> AlertOutboxEvent \<Rightarrow> send_error option" where
  "Send w s event =
     (case aw_marshal w (ev_Payload event) of
        Inl e \<Rightarrow> Some (PlainError (''encode alert payload: '' @ e))
      | Inr body \<Rightarrow>
          (case aw_exchange w (as_webhookURL s) (as_userAgent s) (ev_IdempotencyKey event) body of
             BadAlertRequest e \<Rightarrow> Some (PlainError (''create alert request: '' @ e))
           | AlertFailed err \<Rightarrow> Some (PlainError (''send alert: '' @ err_text (alertTransportCause err)))
           | AlertResponse statusCode retryAfter date \<Rightarrow>
               if statusCode < 200 \<or> statusCode \<ge> 300
               then Some (ResponseError \<lparr>de_StatusCode = statusCode,
                      de_Permanent = isPermanentAlertStatus statusCode,
                      de_RetryAfter = parseRetryAfter (aw_parseTime w) retryAfter date\<rparr>)
               else None))"

section \<open>Dispatching\<close>

record 's AlertOutboxRepository =
  aor_ClaimAlerts :: "call \<Rightarrow> int \<Rightarrow> duration \<Rightarrow> int \<Rightarrow> 's \<Rightarrow> (go_error + AlertOutboxEvent list) \<times> 's"
  aor_MarkAlertDelivered :: "call \<Rightarrow> string \<Rightarrow> string \<Rightarrow> 's \<Rightarrow> go_error option \<times> 's"
  aor_MarkAlertFailed ::
    "call \<Rightarrow> string \<Rightarrow> string \<Rightarrow> string \<Rightarrow> duration \<Rightarrow> bool \<Rightarrow> 's \<Rightarrow> go_error option \<times> 's"

text \<open>What a failed delivery leads to: whether the event is given up, and the delay otherwise.\<close>

definition failureVerdict :: "Config \<Rightarrow> AlertOutboxEvent \<Rightarrow> send_error \<Rightarrow> bool \<times> duration" where
  "failureVerdict cfg event deliveryErr =
     (let permanent = (case deliveryErr of ResponseError e \<Rightarrow> de_Permanent e | PlainError _ \<Rightarrow> False);
          dead = (permanent \<or> ev_AttemptCount event \<ge> cfg_AlertMaxAttempts cfg);
          retryDelay = alertRetryDelay (ev_AttemptCount event) (cfg_AlertRetryInitialBackoff cfg)
                         (cfg_AlertRetryMaxBackoff cfg);
          retryDelay = (case deliveryErr of
                          ResponseError e \<Rightarrow> if de_RetryAfter e > retryDelay then de_RetryAfter e else retryDelay
                        | PlainError _ \<Rightarrow> retryDelay)
      in (dead, retryDelay))"

text \<open>The first component is the error of the outbox, \<open>None\<close> also when the context ended and
  nothing was written.\<close>

definition dispatchAlert ::
  "'s AlertOutboxRepository \<Rightarrow> (AlertOutboxEvent \<Rightarrow> send_error option) \<Rightarrow> Config \<Rightarrow> call \<Rightarrow> AlertOutboxEvent
   \<Rightarrow> 's \<times> Metrics \<Rightarrow> go_error option \<times> 's \<times> Metrics" where
  "dispatchAlert R send cfg c event st =
     (case st of (s, m) \<Rightarrow>
      case send event of
        None \<Rightarrow>
          (case aor_MarkAlertDelivered R c (ev_ID event) (ev_LeaseToken event) s of
             (Some err, s) \<Rightarrow> (Some err, s, m)
           | (None, s) \<Rightarrow> (None, s, RecordAlertDelivered m))
      | Some deliveryErr \<Rightarrow>
          if c_ctx c \<noteq> None then (None, s, m)
          else (case failureVerdict cfg event deliveryErr of
                  (dead, retryDelay) \<Rightarrow>
                    (case aor_MarkAlertFailed R c (ev_ID event) (ev_LeaseToken event)
                            (send_error_text deliveryErr) retryDelay dead s of
                       (Some err, s) \<Rightarrow> (Some err, s, m)
                     | (None, s) \<Rightarrow> (None, s, RecordAlertFailure dead m))))"

text \<open>The deliveries of a batch run concurrently; each touches the outbox once, at its end, so a
  batch is the sequence of these writes in the order \<open>finish\<close> puts them.\<close>

fun dispatchAll ::
  "'s AlertOutboxRepository \<Rightarrow> (AlertOutboxEvent \<Rightarrow> send_error option) \<Rightarrow> Config \<Rightarrow> (AlertOutboxEvent \<Rightarrow> call)
   \<Rightarrow> AlertOutboxEvent list \<Rightarrow> 's \<times> Metrics \<Rightarrow> (AlertOutboxEvent \<times> go_error option) list \<times> 's \<times> Metrics" where
  "dispatchAll R send cfg calls [] st = ([], st)"
| "dispatchAll R send cfg calls (event # events) st =
     (case dispatchAlert R send cfg (calls event) event st of
        (err, st) \<Rightarrow>
          (case dispatchAll R send cfg calls events st of (out, st) \<Rightarrow> ((event, err) # out, st)))"

definition dispatchAlertBatch ::
  "'s AlertOutboxRepository \<Rightarrow> (AlertOutboxEvent \<Rightarrow> send_error option) \<Rightarrow> Config \<Rightarrow> call \<Rightarrow> ctx_err
   \<Rightarrow> (AlertOutboxEvent \<Rightarrow> call) \<Rightarrow> (AlertOutboxEvent list \<Rightarrow> AlertOutboxEvent list) \<Rightarrow> 's \<times> Metrics
   \<Rightarrow> (nat \<times> go_error option) \<times> (AlertOutboxEvent \<times> go_error option) list \<times> 's \<times> Metrics" where
  "dispatchAlertBatch R send cfg c ctx_after calls finish st =
     (case aor_ClaimAlerts R c (cfg_AlertDispatchBatchSize cfg) (cfg_AlertLeaseTimeout cfg)
             (cfg_AlertMaxAttempts cfg) (fst st) of
        (Inl err, s) \<Rightarrow> ((0, Some err), [], s, snd st)
      | (Inr events, s) \<Rightarrow>
          ((length events, ctx_after), dispatchAll R send cfg calls (finish events) (s, snd st)))"

text \<open>The dispatcher over its rounds: \<open>None\<close> when the rounds given do not reach the end of the
  context. A full batch is followed by the next without waiting.\<close>

record dispatch_round =
  dr_claim :: call
  dr_after :: ctx_err
  dr_calls :: "AlertOutboxEvent \<Rightarrow> call"
  dr_finish :: "AlertOutboxEvent list \<Rightarrow> AlertOutboxEvent list"
  dr_tick :: bool

fun RunAlertDispatcher ::
  "'s AlertOutboxRepository \<Rightarrow> (AlertOutboxEvent \<Rightarrow> send_error option) \<Rightarrow> Config \<Rightarrow> dispatch_round list
   \<Rightarrow> 's \<times> Metrics \<Rightarrow> ('s \<times> Metrics) option" where
  "RunAlertDispatcher R send cfg [] st = None"
| "RunAlertDispatcher R send cfg (r # rounds) st =
     (case dispatchAlertBatch R send cfg (dr_claim r) (dr_after r) (dr_calls r) (dr_finish r) st of
        ((dispatched, err), out, st) \<Rightarrow>
          if dr_after r \<noteq> None then Some st
          else if int dispatched = cfg_AlertDispatchBatchSize cfg \<or> dr_tick r
          then RunAlertDispatcher R send cfg rounds st
          else Some st)"

section \<open>Delays and verdicts\<close>

lemma parseRetryAfter_bounds: "0 \<le> parseRetryAfter pt v d \<and> parseRetryAfter pt v d \<le> maxAlertRetryAfter"
proof -
  have "go_div maxAlertRetryAfter Second = 86400" by (simp add: go_div_def)
  moreover have "wrap64 (s * Second) = s * Second" if "0 < s" "s < 86400" for s
    using that by (intro wrap64_id) (simp add: int64_range_def)
  ultimately show ?thesis
    by (auto simp: parseRetryAfter_def Let_def split: option.split)
qed

lemma isPermanentAlertStatus_iff:
  "isPermanentAlertStatus n \<longleftrightarrow> 400 \<le> n \<and> n < 500 \<and> n \<noteq> 408 \<and> n \<noteq> 425 \<and> n \<noteq> 429"
  by (auto simp: isPermanentAlertStatus_def)

section \<open>The contract of an outbox\<close>

text \<open>What a delivery decides for its event: delivered, or failed with a text, a delay and whether
  it is given up.\<close>

datatype alert_fate = FateDelivered | FateFailed string duration bool

definition fate_of :: "Config \<Rightarrow> AlertOutboxEvent \<Rightarrow> send_error option \<Rightarrow> alert_fate" where
  "fate_of cfg event r =
     (case r of
        None \<Rightarrow> FateDelivered
      | Some e \<Rightarrow> (case failureVerdict cfg event e of (dead, delay) \<Rightarrow> FateFailed (send_error_text e) delay dead))"

text \<open>The event was written: not when its context had ended after a failed delivery.\<close>

definition answered :: "(AlertOutboxEvent \<Rightarrow> send_error option) \<Rightarrow> (AlertOutboxEvent \<Rightarrow> call) \<Rightarrow> AlertOutboxEvent \<Rightarrow> bool" where
  "answered send calls event \<longleftrightarrow> send event = None \<or> c_ctx (calls event) = None"

locale alert_outbox =
  fixes R :: "'s AlertOutboxRepository"
    and good :: "'s \<Rightarrow> bool"
    and fated :: "call \<Rightarrow> AlertOutboxEvent \<Rightarrow> alert_fate \<Rightarrow> 's \<Rightarrow> bool"
  assumes claim_good: "good s \<Longrightarrow> aor_ClaimAlerts R c n lt mx s = (r, s') \<Longrightarrow> good s'"
    and claim_distinct: "good s \<Longrightarrow> aor_ClaimAlerts R c n lt mx s = (Inr events, s') \<Longrightarrow> distinct (map ev_ID events)"
    and deliver_good: "good s \<Longrightarrow> aor_MarkAlertDelivered R c i tok s = (res, s') \<Longrightarrow> good s'"
    and deliver_fate: "good s \<Longrightarrow> aor_MarkAlertDelivered R c (ev_ID e) (ev_LeaseToken e) s = (None, s') \<Longrightarrow>
      fated c e FateDelivered s'"
    and deliver_others: "good s \<Longrightarrow> aor_MarkAlertDelivered R c i tok s = (res, s') \<Longrightarrow> ev_ID e \<noteq> i \<Longrightarrow>
      fated c' e f s \<Longrightarrow> fated c' e f s'"
    and fail_good: "good s \<Longrightarrow> aor_MarkAlertFailed R c i tok t d dead s = (res, s') \<Longrightarrow> good s'"
    and fail_fate: "good s \<Longrightarrow> aor_MarkAlertFailed R c (ev_ID e) (ev_LeaseToken e) t d dead s = (None, s') \<Longrightarrow>
      fated c e (FateFailed t d dead) s'"
    and fail_others: "good s \<Longrightarrow> aor_MarkAlertFailed R c i tok t d dead s = (res, s') \<Longrightarrow> ev_ID e \<noteq> i \<Longrightarrow>
      fated c' e f s \<Longrightarrow> fated c' e f s'"
begin

lemma dispatchAlert_outcome:
  assumes ok: "good s" and run: "dispatchAlert R send cfg (calls e) e (s, m) = (err, s', m')"
  shows "good s'"
    and "err = None \<Longrightarrow> answered send calls e \<Longrightarrow> fated (calls e) e (fate_of cfg e (send e)) s'"
    and "ev_ID e' \<noteq> ev_ID e \<Longrightarrow> fated c' e' f s \<Longrightarrow> fated c' e' f s'"
proof -
  have "good s'
    \<and> (err = None \<longrightarrow> answered send calls e \<longrightarrow> fated (calls e) e (fate_of cfg e (send e)) s')
    \<and> (ev_ID e' \<noteq> ev_ID e \<longrightarrow> fated c' e' f s \<longrightarrow> fated c' e' f s')"
  proof (cases "send e")
    case None
    obtain r s1 where d: "aor_MarkAlertDelivered R (calls e) (ev_ID e) (ev_LeaseToken e) s = (r, s1)" by fastforce
    with run None have "err = r" "s' = s1" by (auto simp: dispatchAlert_def split: option.splits)
    with d None deliver_good [OF ok d] deliver_fate [OF ok] deliver_others [OF ok d] show ?thesis
      by (auto simp: fate_of_def)
  next
    case (Some x)
    obtain dead delay where v: "failureVerdict cfg e x = (dead, delay)" by fastforce
    obtain r s1 where d: "aor_MarkAlertFailed R (calls e) (ev_ID e) (ev_LeaseToken e) (send_error_text x) delay dead s = (r, s1)"
      by fastforce
    show ?thesis
    proof (cases "c_ctx (calls e) = None")
      case True
      with run Some v d have "err = r" "s' = s1" by (auto simp: dispatchAlert_def split: option.splits)
      with d v Some fail_good [OF ok d] fail_fate [OF ok] fail_others [OF ok d] show ?thesis
        by (auto simp: fate_of_def)
    next
      case False
      with run Some ok show ?thesis by (auto simp: dispatchAlert_def answered_def)
    qed
  qed
  then show "good s'"
    and "err = None \<Longrightarrow> answered send calls e \<Longrightarrow> fated (calls e) e (fate_of cfg e (send e)) s'"
    and "ev_ID e' \<noteq> ev_ID e \<Longrightarrow> fated c' e' f s \<Longrightarrow> fated c' e' f s'" by blast+
qed

lemma dispatchAll_others:
  assumes "dispatchAll R send cfg calls events (s, m) = (out, s', m')" "good s" "ev_ID e \<notin> ev_ID ` set events"
    "fated c' e f s"
  shows "fated c' e f s'"
  using assms
proof (induction events arbitrary: s m out)
  case (Cons x events)
  obtain err s1 m1 where turn: "dispatchAlert R send cfg (calls x) x (s, m) = (err, s1, m1)" by (metis surj_pair)
  obtain out1 where rest: "dispatchAll R send cfg calls events (s1, m1) = (out1, s', m')"
    using Cons.prems(1) turn by (auto split: prod.splits)
  note o = dispatchAlert_outcome [where calls = calls and e = x, OF Cons.prems(2) turn]
  from Cons.IH [OF rest o(1)] o(3) [OF _ Cons.prems(4)] Cons.prems(3) show ?case by auto
qed simp

text \<open>Every event of a batch ends as its own delivery decided, and the counters agree.\<close>

lemma dispatchAll_outcome:
  assumes "dispatchAll R send cfg calls events (s, m) = (out, s', m')" "good s" "distinct (map ev_ID events)"
  shows "good s' \<and> map fst out = events
    \<and> (\<forall>e. (e, None) \<in> set out \<longrightarrow> answered send calls e \<longrightarrow> fated (calls e) e (fate_of cfg e (send e)) s')"
  using assms
proof (induction events arbitrary: s m out)
  case (Cons x events)
  obtain err s1 m1 where turn: "dispatchAlert R send cfg (calls x) x (s, m) = (err, s1, m1)" by (metis surj_pair)
  obtain out1 where rest: "dispatchAll R send cfg calls events (s1, m1) = (out1, s', m')"
    and out: "out = (x, err) # out1"
    using Cons.prems(1) turn by (auto split: prod.splits)
  note o = dispatchAlert_outcome [where calls = calls and e = x, OF Cons.prems(2) turn]
  have tail: "good s' \<and> map fst out1 = events
    \<and> (\<forall>e. (e, None) \<in> set out1 \<longrightarrow> answered send calls e \<longrightarrow> fated (calls e) e (fate_of cfg e (send e)) s')"
    using Cons.IH [OF rest o(1)] Cons.prems(3) by simp
  have "fated (calls x) x (fate_of cfg x (send x)) s'" if "err = None" "answered send calls x"
    using dispatchAll_others [OF rest o(1) _ o(2) [OF that]] Cons.prems(3) by auto
  with tail show ?case by (auto simp: out)
qed simp

end

lemma dispatchAll_metrics:
  assumes "dispatchAll R send cfg calls events (s, m) = (out, s', m')"
  shows "mx_alertsDeliveredTotal m' = mx_alertsDeliveredTotal m
      + of_nat (length (filter (\<lambda>(e, err). err = None \<and> send e = None) out))
    \<and> mx_alertFailuresTotal m' = mx_alertFailuresTotal m
      + of_nat (length (filter (\<lambda>(e, err). err = None \<and> send e \<noteq> None \<and> answered send calls e) out))"
  using assms
proof (induction events arbitrary: s m out)
  case (Cons x events)
  obtain err s1 m1 where turn: "dispatchAlert R send cfg (calls x) x (s, m) = (err, s1, m1)" by (metis surj_pair)
  obtain out1 where rest: "dispatchAll R send cfg calls events (s1, m1) = (out1, s', m')"
    and out: "out = (x, err) # out1"
    using Cons.prems turn by (auto split: prod.splits)
  have "m1 = (if err \<noteq> None \<or> \<not> answered send calls x then m
              else case send x of None \<Rightarrow> RecordAlertDelivered m
                 | Some e \<Rightarrow> RecordAlertFailure (fst (failureVerdict cfg x e)) m)"
    using turn by (auto simp: dispatchAlert_def answered_def split: option.splits prod.splits if_splits)
  with Cons.IH [OF rest] show ?case
    by (auto simp: out answered_def RecordAlertDelivered_def RecordAlertFailure_def Let_def split: option.splits)
qed simp

end
