(* ===== verification/Pg_Tables.thy ===== *)
theory Pg_Tables
  imports Alert
begin

text \<open>
  The database of the PostgreSQL repository: the tables the migrations create, as lists of
  rows with \<open>option\<close> for a nullable column, the statements the repository is made of (a
  \<open>SELECT\<close> filters, an \<open>UPDATE\<close> maps, a \<open>DELETE\<close> filters, an \<open>INSERT\<close> appends), the readers
  \<open>scan...\<close> of \<open>postgres_repository.go\<close>, and the constraints of the schema.

  A statement of a call succeeds, fails before it has an effect, or takes effect and loses its
  answer; only the last statement of a call that commits can make a difference between the
  two failures, since every other one is rolled back. A transaction is one step: the
  rows it reads \<open>FOR UPDATE\<close> stay locked until its end. Columns of type \<open>integer\<close> are
  unbounded here, and \<open>timestamptz\<close> keeps microseconds.
\<close>

section \<open>Rows\<close>

record monitor_row =
  mr_id :: string
  mr_url :: string
  mr_interval_seconds :: int
  mr_timeout_seconds :: int
  mr_expected_status :: int
  mr_status :: MonitorStatus
  mr_enabled :: bool
  mr_next_check_at :: gotime
  mr_created_at :: gotime
  mr_updated_at :: gotime
  mr_last_status_code :: "int option"
  mr_last_latency_ms :: "int option"
  mr_last_checked_at :: "gotime option"
  mr_last_error :: string

record job_row =
  jr_id :: string
  jr_monitor_id :: string
  jr_kind :: CheckJobKind
  jr_scheduled_for :: gotime
  jr_status :: CheckJobStatus
  jr_attempt :: int
  jr_available_at :: gotime
  jr_published_at :: "gotime option"
  jr_processing_started_at :: "gotime option"
  jr_lease_expires_at :: "gotime option"
  jr_lease_token :: "string option"
  jr_completed_at :: "gotime option"
  jr_last_error :: string
  jr_created_at :: gotime
  jr_updated_at :: gotime
  jr_publication_token :: "string option"

record result_row =
  rr_id :: string
  rr_job_id :: "string option"
  rr_monitor_id :: string
  rr_status_code :: int
  rr_latency_ms :: int
  rr_error :: string
  rr_success :: bool
  rr_checked_at :: gotime
  rr_recorded_at :: gotime

record incident_row =
  ir_id :: string
  ir_monitor_id :: string
  ir_status :: IncidentStatus
  ir_failure_count :: int
  ir_first_failure_at :: gotime
  ir_last_failure_at :: gotime
  ir_resolved_at :: "gotime option"
  ir_last_error :: string
  ir_last_alerted_at :: "gotime option"
  ir_alert_count :: int
  ir_created_at :: gotime
  ir_updated_at :: gotime

datatype alert_status = alertPending | alertProcessing | alertDelivered | alertDead

record outbox_row =
  or_id :: string
  or_idempotency_key :: string
  or_incident_id :: string
  or_monitor_id :: string
  or_event_type :: string
  or_payload :: AlertPayload
  or_status :: alert_status
  or_attempt_count :: int
  or_available_at :: gotime
  or_lease_token :: "string option"
  or_locked_until :: "gotime option"
  or_delivered_at :: "gotime option"
  or_last_error :: string
  or_created_at :: gotime
  or_updated_at :: gotime

record db =
  db_monitors :: "monitor_row list"
  db_jobs :: "job_row list"
  db_results :: "result_row list"
  db_incidents :: "incident_row list"
  db_outbox :: "outbox_row list"

definition empty_db :: db where
  "empty_db = \<lparr>db_monitors = [], db_jobs = [], db_results = [], db_incidents = [], db_outbox = []\<rparr>"

section \<open>Statements\<close>

definition update_rows :: "('r \<Rightarrow> bool) \<Rightarrow> ('r \<Rightarrow> 'r) \<Rightarrow> 'r list \<Rightarrow> 'r list" where
  "update_rows P f rows = map (\<lambda>r. if P r then f r else r) rows"

text \<open>A comparison with \<open>NULL\<close> is not true.\<close>

definition sql_gt :: "gotime option \<Rightarrow> gotime \<Rightarrow> bool" where
  "sql_gt a t = (case a of None \<Rightarrow> False | Some x \<Rightarrow> x > t)"

definition sql_le :: "gotime option \<Rightarrow> gotime \<Rightarrow> bool" where
  "sql_le a t = (case a of None \<Rightarrow> False | Some x \<Rightarrow> x \<le> t)"

definition sql_lt :: "gotime option \<Rightarrow> gotime \<Rightarrow> bool" where
  "sql_lt a t = (case a of None \<Rightarrow> False | Some x \<Rightarrow> x < t)"

text \<open>An instant as \<open>timestamptz\<close> stores it, and \<open>Duration.Microseconds\<close> times a microsecond.\<close>

definition timestamptz :: "gotime \<Rightarrow> gotime" where
  "timestamptz t = t div 1000 * 1000"

definition microseconds :: "duration \<Rightarrow> duration" where
  "microseconds d = go_div d 1000 * 1000"

text \<open>The partial index of unfinished jobs.\<close>

definition active_status :: "CheckJobStatus \<Rightarrow> bool" where
  "active_status st \<longleftrightarrow>
     st \<in> {checkJobStatusScheduled, checkJobStatusQueued, checkJobStatusProcessing, checkJobStatusFailed}"

datatype pg_outcome = PgOk | PgFailed string | PgLost string

definition failed :: "pg_outcome \<Rightarrow> go_error option" where
  "failed x = (case x of PgOk \<Rightarrow> None | PgFailed t \<Rightarrow> Some (ErrOther t) | PgLost t \<Rightarrow> Some (ErrOther t))"

text \<open>A statement inside a transaction: a failure aborts it, a result is passed on.\<close>

definition perform :: "pg_outcome \<Rightarrow> 'a \<Rightarrow> ('a \<Rightarrow> go_error + 'b) \<Rightarrow> go_error + 'b" where
  "perform x v k = (case failed x of Some e \<Rightarrow> Inl e | None \<Rightarrow> k v)"

text \<open>The end of a call that writes: \<open>Commit\<close>, or a statement outside any transaction.\<close>

definition settle :: "pg_outcome \<Rightarrow> 'a \<Rightarrow> 's \<Rightarrow> 's \<Rightarrow> (go_error + 'a) \<times> 's" where
  "settle x v new old =
     (case x of
        PgOk \<Rightarrow> (Inr v, new)
      | PgFailed t \<Rightarrow> (Inl (ErrOther t), old)
      | PgLost t \<Rightarrow> (Inl (ErrOther t), new))"

text \<open>\<open>Begin\<close>, the body, \<open>Commit\<close>; a body that ends with an error is rolled back.\<close>

definition transaction ::
  "pg_outcome \<Rightarrow> pg_outcome \<Rightarrow> ('s \<Rightarrow> go_error + ('a \<times> 's)) \<Rightarrow> 's \<Rightarrow> (go_error + 'a) \<times> 's" where
  "transaction begins commits body s =
     (case failed begins of
        Some e \<Rightarrow> (Inl e, s)
      | None \<Rightarrow>
          (case body s of
             Inl e \<Rightarrow> (Inl e, s)
           | Inr (v, s') \<Rightarrow> settle commits v s' s))"

definition err_of :: "(go_error + 'a) \<times> 's \<Rightarrow> go_error option \<times> 's" where
  "err_of r = (case r of (Inl e, s) \<Rightarrow> (Some e, s) | (Inr _, s) \<Rightarrow> (None, s))"

section \<open>Readers\<close>

definition scanMonitor :: "monitor_row \<Rightarrow> Monitor" where
  "scanMonitor r =
     \<lparr>mon_ID = mr_id r, mon_URL = mr_url r, mon_IntervalSeconds = mr_interval_seconds r,
      mon_TimeoutSeconds = mr_timeout_seconds r, mon_ExpectedStatus = mr_expected_status r,
      mon_Status = mr_status r, mon_Enabled = mr_enabled r, mon_NextCheckAt = mr_next_check_at r,
      mon_CreatedAt = mr_created_at r, mon_UpdatedAt = mr_updated_at r,
      mon_LastStatusCode = (case mr_last_status_code r of None \<Rightarrow> 0 | Some v \<Rightarrow> v),
      mon_LastLatencyMS = (case mr_last_latency_ms r of None \<Rightarrow> 0 | Some v \<Rightarrow> v),
      mon_LastCheckedAt = (case mr_last_checked_at r of None \<Rightarrow> zeroTime | Some v \<Rightarrow> v),
      mon_LastError = mr_last_error r\<rparr>"

definition scanCheckJob :: "job_row \<Rightarrow> CheckJobRecord" where
  "scanCheckJob r =
     \<lparr>job_ID = jr_id r, job_MonitorID = jr_monitor_id r, job_Kind = jr_kind r,
      job_ScheduledFor = jr_scheduled_for r, job_Status = jr_status r, job_Attempt = jr_attempt r,
      job_AvailableAt = jr_available_at r,
      job_PublishedAt = (case jr_published_at r of None \<Rightarrow> zeroTime | Some v \<Rightarrow> v),
      job_ProcessingStartedAt = (case jr_processing_started_at r of None \<Rightarrow> zeroTime | Some v \<Rightarrow> v),
      job_LeaseExpiresAt = (case jr_lease_expires_at r of None \<Rightarrow> zeroTime | Some v \<Rightarrow> v),
      job_LeaseToken = (case jr_lease_token r of None \<Rightarrow> [] | Some v \<Rightarrow> v),
      job_PublicationToken = (case jr_publication_token r of None \<Rightarrow> [] | Some v \<Rightarrow> v),
      job_CompletedAt = (case jr_completed_at r of None \<Rightarrow> zeroTime | Some v \<Rightarrow> v),
      job_LastError = jr_last_error r, job_CreatedAt = jr_created_at r, job_UpdatedAt = jr_updated_at r\<rparr>"

definition scanCheckRecord :: "result_row \<Rightarrow> CheckRecord" where
  "scanCheckRecord r =
     \<lparr>chk_ID = rr_id r, chk_JobID = (case rr_job_id r of None \<Rightarrow> [] | Some j \<Rightarrow> j), chk_MonitorID = rr_monitor_id r,
      chk_StatusCode = rr_status_code r, chk_LatencyMS = rr_latency_ms r, chk_Error = rr_error r,
      chk_Success = rr_success r, chk_CheckedAt = rr_checked_at r\<rparr>"

definition scanIncident :: "incident_row \<Rightarrow> Incident" where
  "scanIncident r =
     \<lparr>inc_ID = ir_id r, inc_MonitorID = ir_monitor_id r, inc_Status = ir_status r,
      inc_FailureCount = ir_failure_count r, inc_FirstFailureAt = ir_first_failure_at r,
      inc_LastFailureAt = ir_last_failure_at r,
      inc_ResolvedAt = (case ir_resolved_at r of None \<Rightarrow> zeroTime | Some v \<Rightarrow> v),
      inc_LastError = ir_last_error r,
      inc_LastAlertedAt = (case ir_last_alerted_at r of None \<Rightarrow> zeroTime | Some v \<Rightarrow> v),
      inc_AlertCount = ir_alert_count r, inc_CreatedAt = ir_created_at r, inc_UpdatedAt = ir_updated_at r\<rparr>"

section \<open>Constraints of the schema\<close>

definition schema_ok :: "db \<Rightarrow> bool" where
  "schema_ok d \<longleftrightarrow>
     distinct (map mr_id (db_monitors d)) \<and> distinct (map mr_url (db_monitors d))
   \<and> distinct (map jr_id (db_jobs d))
   \<and> distinct (map jr_monitor_id (filter (\<lambda>r. active_status (jr_status r)) (db_jobs d)))
   \<and> jr_monitor_id ` set (db_jobs d) \<subseteq> mr_id ` set (db_monitors d)
   \<and> distinct (map rr_id (db_results d))
   \<and> distinct (map rr_job_id (filter (\<lambda>r. rr_job_id r \<noteq> None) (db_results d)))
   \<and> rr_monitor_id ` set (db_results d) \<subseteq> mr_id ` set (db_monitors d)
   \<and> distinct (map ir_id (db_incidents d))
   \<and> distinct (map ir_monitor_id (filter (\<lambda>r. ir_status r = incidentStatusOpen) (db_incidents d)))
   \<and> ir_monitor_id ` set (db_incidents d) \<subseteq> mr_id ` set (db_monitors d)
   \<and> distinct (map or_id (db_outbox d)) \<and> distinct (map or_idempotency_key (db_outbox d))
   \<and> or_monitor_id ` set (db_outbox d) \<subseteq> mr_id ` set (db_monitors d)
   \<and> or_incident_id ` set (db_outbox d) \<subseteq> ir_id ` set (db_incidents d)"

text \<open>The \<open>CHECK\<close> constraints of single rows; for a job also what the program keeps beyond them, a
  lease token exactly while processing and never an empty one.\<close>

definition monitor_row_ok :: "monitor_row \<Rightarrow> bool" where
  "monitor_row_ok r \<longleftrightarrow> 30 \<le> mr_interval_seconds r \<and> mr_interval_seconds r \<le> 86400
        \<and> 1 \<le> mr_timeout_seconds r \<and> mr_timeout_seconds r \<le> 60
        \<and> 100 \<le> mr_expected_status r \<and> mr_expected_status r \<le> 599
        \<and> RuneCountInString (mr_url r) \<le> 8192"

definition job_row_ok :: "job_row \<Rightarrow> bool" where
  "job_row_ok r \<longleftrightarrow> 0 \<le> jr_attempt r \<and> (jr_status r = checkJobStatusProcessing \<longleftrightarrow> jr_lease_token r \<noteq> None)
     \<and> jr_lease_token r \<noteq> Some []"

definition outbox_row_ok :: "outbox_row \<Rightarrow> bool" where
  "outbox_row_ok r \<longleftrightarrow> 0 \<le> or_attempt_count r \<and> or_event_type r = alertEventIncidentFailure
        \<and> (or_status r = alertProcessing \<longleftrightarrow> or_lease_token r \<noteq> None)
        \<and> (or_status r = alertProcessing \<longleftrightarrow> or_locked_until r \<noteq> None)"

definition rows_ok :: "db \<Rightarrow> bool" where
  "rows_ok d \<longleftrightarrow>
     (\<forall>r \<in> set (db_monitors d). monitor_row_ok r) \<and> (\<forall>r \<in> set (db_jobs d). job_row_ok r)
   \<and> (\<forall>r \<in> set (db_incidents d). ir_status r \<noteq> incidentStatusUnset)
   \<and> (\<forall>r \<in> set (db_outbox d). outbox_row_ok r)"

definition db_ok :: "db \<Rightarrow> bool" where
  "db_ok d \<longleftrightarrow> schema_ok d \<and> rows_ok d"

section \<open>Facts on statements\<close>

lemma set_update_rows: "set (update_rows P f rows) = f ` {r \<in> set rows. P r} \<union> {r \<in> set rows. \<not> P r}"
  by (auto simp: update_rows_def)

lemma update_rows_Nil [simp]: "update_rows P f [] = []"
  by (simp add: update_rows_def)

lemma length_update_rows [simp]: "length (update_rows P f rows) = length rows"
  by (simp add: update_rows_def)

lemma map_update_rows:
  "(\<And>r. r \<in> set rows \<Longrightarrow> P r \<Longrightarrow> key (f r) = key r) \<Longrightarrow> map key (update_rows P f rows) = map key rows"
  by (auto simp: update_rows_def)

lemma distinct_map_filter_mono:
  "distinct (map key (filter P rows)) \<Longrightarrow> (\<And>r. r \<in> set rows \<Longrightarrow> Q r \<Longrightarrow> P r) \<Longrightarrow> distinct (map key (filter Q rows))"
  by (induction rows) (auto split: if_splits)

lemma distinct_map_update_filter:
  assumes "distinct (map key (filter Q rows))"
    and "\<And>r. r \<in> set rows \<Longrightarrow> P r \<Longrightarrow> key (f r) = key r \<and> (Q (f r) \<longrightarrow> Q r)"
  shows "distinct (map key (filter Q (update_rows P f rows)))"
  using assms
proof (induction rows)
  case (Cons r rows)
  have IH: "distinct (map key (filter Q (update_rows P f rows)))"
    using Cons.prems by (intro Cons.IH) (auto split: if_splits)
  have sub: "key ` {x \<in> set (update_rows P f rows). Q x} \<subseteq> key ` {x \<in> set rows. Q x}"
    using Cons.prems(2) by (fastforce simp: set_update_rows)
  let ?r = "if P r then f r else r"
  have hd: "key ?r = key r" "Q ?r \<Longrightarrow> Q r" using Cons.prems(2) [of r] by (auto split: if_splits)
  have "update_rows P f (r # rows) = ?r # update_rows P f rows" by (simp add: update_rows_def)
  moreover have "key ?r \<notin> key ` {x \<in> set (update_rows P f rows). Q x}" if "Q ?r"
    using that hd sub Cons.prems(1) by auto
  ultimately show ?case using IH by auto
qed simp

text \<open>Rows are found by a key that determines them.\<close>

lemma find_key:
  assumes "distinct (map key rows)" "r \<in> set rows" "P r" "\<And>x. P x \<Longrightarrow> key x = key r"
  shows "List.find P rows = Some r"
proof -
  obtain x where x: "List.find P rows = Some x"
    using assms(2,3) by (cases "List.find P rows") (auto simp: find_None_iff)
  then have "x \<in> set rows" "P x" by (auto simp: find_Some_iff in_set_conv_nth)
  with assms have "x = r" by (metis eq_key_imp_eq_value distinct_map inj_on_def)
  with x show ?thesis by simp
qed

lemma find_SomeD: "List.find P rows = Some r \<Longrightarrow> r \<in> set rows \<and> P r"
  by (auto simp: find_Some_iff in_set_conv_nth)

lemma find_NoneD: "List.find P rows = None \<Longrightarrow> r \<in> set rows \<Longrightarrow> \<not> P r"
  by (simp add: find_None_iff)

text \<open>How a transaction can end.\<close>

lemma settle_cases:
  "settle x v new old = (r, s) \<Longrightarrow>
   (r = Inr v \<and> s = new) \<or> (\<exists>t. r = Inl (ErrOther t) \<and> (s = new \<or> s = old))"
  by (auto simp: settle_def split: pg_outcome.splits)

lemma transaction_cases:
  assumes "transaction b c body s = (r, s')"
  obtains (aborted) e where "r = Inl e" "s' = s" "(\<exists>t. e = ErrOther t) \<or> body s = Inl e"
  | (committed) v where "body s = Inr (v, s')" "r = Inr v \<or> (\<exists>t. r = Inl (ErrOther t))"
proof (cases "failed b")
  case None
  show thesis
  proof (cases "body s")
    case (Inl e)
    with None assms aborted show thesis by (auto simp: transaction_def)
  next
    case (Inr p)
    then obtain v s1 where p: "body s = Inr (v, s1)" by (cases p) auto
    with None assms have "settle c v s1 s = (r, s')" by (simp add: transaction_def)
    with p committed aborted show thesis by (auto dest!: settle_cases)
  qed
next
  case (Some e)
  with assms aborted show thesis by (auto simp: transaction_def failed_def split: pg_outcome.splits)
qed

lemma perform_Inr: "perform x v k = Inr y \<longleftrightarrow> failed x = None \<and> k v = Inr y"
  by (simp add: perform_def split: option.split)

lemma perform_Inl: "perform x v k = Inl e \<longleftrightarrow> failed x = Some e \<or> failed x = None \<and> k v = Inl e"
  by (simp add: perform_def split: option.split)

lemma failed_Some: "failed x = Some e \<Longrightarrow> \<exists>t. e = ErrOther t"
  by (auto simp: failed_def split: pg_outcome.splits)

end
