(* ===== verification/Pg_Repository.thy ===== *)
theory Pg_Repository
  imports Pg_Tables
begin

text \<open>
  The operations of \<open>postgres_repository.go\<close> and \<open>postgres_retention.go\<close> on the tables of
  \<open>Pg_Tables\<close>, one definition per operation. \<open>X k\<close> is the outcome of one statement of a call,
  another \<open>k\<close> for each statement and 0 for \<open>Begin\<close>. The database clock is \<open>c_now\<close> of the call,
  read once, and \<open>c_wall\<close> where a later statement reads it again. The operations with two
  statements outside a transaction take both at the same state. The alert payload is stored as
  it is: the decoder returns what the JSON encoder wrote.
\<close>

record pg_env =
  pe_outcome :: "nat \<Rightarrow> pg_outcome"
  pe_locked :: "string set"

definition databaseTime :: "call \<Rightarrow> gotime" where
  "databaseTime c = timestamptz (c_now c)"

definition laterTime :: "call \<Rightarrow> gotime" where
  "laterTime c = timestamptz (c_wall c)"

definition performIf :: "bool \<Rightarrow> pg_outcome \<Rightarrow> 'a \<Rightarrow> 'a \<Rightarrow> ('a \<Rightarrow> go_error + 'b) \<Rightarrow> go_error + 'b" where
  "performIf cond x v old k = (if cond then perform x v k else k old)"

abbreviation (input) unique_violation :: go_error where
  "unique_violation \<equiv> ErrOther ''unique_violation''"
abbreviation (input) foreign_key_violation :: go_error where
  "foreign_key_violation \<equiv> ErrOther ''foreign_key_violation''"

section \<open>Monitors\<close>

definition findMonitor :: "string \<Rightarrow> db \<Rightarrow> monitor_row option" where
  "findMonitor mid d = List.find (\<lambda>r. mr_id r = mid) (db_monitors d)"

definition pg_Count :: "(nat \<Rightarrow> pg_outcome) \<Rightarrow> db \<Rightarrow> go_error + nat" where
  "pg_Count X d = perform (X 0) (length (db_monitors d)) Inr"

definition newMonitorRow :: "call \<Rightarrow> MonitorInput \<Rightarrow> monitor_row" where
  "newMonitorRow c input =
     (let enabled = (case in_Enabled input of None \<Rightarrow> True | Some b \<Rightarrow> b);
          status = (if \<not> enabled then monitorStatusDisabled else monitorStatusActive);
          now = databaseTime c
      in \<lparr>mr_id = newMonitorID (c_draw c), mr_url = in_URL input,
          mr_interval_seconds = in_IntervalSeconds input, mr_timeout_seconds = in_TimeoutSeconds input,
          mr_expected_status = in_ExpectedStatus input, mr_status = status, mr_enabled = enabled,
          mr_next_check_at = now, mr_created_at = now, mr_updated_at = now,
          mr_last_status_code = None, mr_last_latency_ms = None, mr_last_checked_at = None,
          mr_last_error = []\<rparr>)"

definition pg_Create ::
  "NetworkPolicy \<Rightarrow> (nat \<Rightarrow> pg_outcome) \<Rightarrow> call \<Rightarrow> MonitorInput \<Rightarrow> db \<Rightarrow> (go_error + Monitor) \<times> db" where
  "pg_Create policy X c input d =
     (case validateMonitorInput (c_env c) input policy of
        Some e \<Rightarrow> (Inl e, d)
      | None \<Rightarrow>
          (let row = newMonitorRow c input in
           if \<exists>r \<in> set (db_monitors d). mr_id r = mr_id row \<or> mr_url r = mr_url row
           then (case failed (X 0) of Some e \<Rightarrow> (Inl e, d) | None \<Rightarrow> (Inl ErrMonitorExists, d))
           else settle (X 0) (scanMonitor row) (d\<lparr>db_monitors := db_monitors d @ [row]\<rparr>) d))"

text \<open>\<open>OFFSET\<close> and \<open>LIMIT\<close>; a negative one is an error of the database.\<close>

definition sql_page :: "int \<Rightarrow> int \<Rightarrow> 'a list \<Rightarrow> go_error + 'a list" where
  "sql_page offset limit rows =
     (if offset < 0 then Inl (ErrOther ''OFFSET must not be negative'')
      else if limit < 0 then Inl (ErrOther ''LIMIT must not be negative'')
      else Inr (take (nat limit) (drop (nat offset) rows)))"

definition pg_List ::
  "(nat \<Rightarrow> pg_outcome) \<Rightarrow> int \<Rightarrow> int \<Rightarrow> db \<Rightarrow> go_error + (Monitor list option \<times> nat)" where
  "pg_List X offset limit d =
     perform (X 0) (length (db_monitors d)) (\<lambda>n.
       perform (X 1) (sql_page offset limit (sort_key (\<lambda>r. (mr_created_at r, mr_id r)) (db_monitors d))) (\<lambda>page.
         case page of Inl e \<Rightarrow> Inl e | Inr rows \<Rightarrow> Inr (Some (map scanMonitor rows), n)))"

definition pg_Get :: "(nat \<Rightarrow> pg_outcome) \<Rightarrow> string \<Rightarrow> db \<Rightarrow> go_error + Monitor" where
  "pg_Get X mid d =
     perform (X 0) (findMonitor mid d) (\<lambda>r.
       case r of None \<Rightarrow> Inl ErrMonitorNotFound | Some row \<Rightarrow> Inr (scanMonitor row))"

text \<open>The \<open>SET\<close> clause of the update of a monitor.\<close>

definition writeMonitor :: "Monitor \<Rightarrow> bool \<Rightarrow> monitor_row \<Rightarrow> monitor_row" where
  "writeMonitor updated semantics r =
     r\<lparr>mr_url := mon_URL updated, mr_interval_seconds := mon_IntervalSeconds updated,
       mr_timeout_seconds := mon_TimeoutSeconds updated, mr_expected_status := mon_ExpectedStatus updated,
       mr_status := mon_Status updated, mr_enabled := mon_Enabled updated,
       mr_next_check_at := timestamptz (mon_NextCheckAt updated), mr_updated_at := mon_UpdatedAt updated,
       mr_last_status_code := (if semantics then None else mr_last_status_code r),
       mr_last_latency_ms := (if semantics then None else mr_last_latency_ms r),
       mr_last_checked_at := (if semantics then None else mr_last_checked_at r),
       mr_last_error := (if semantics then [] else mr_last_error r)\<rparr>"

definition resolveIncidents :: "string \<Rightarrow> gotime \<Rightarrow> db \<Rightarrow> db" where
  "resolveIncidents mid now d =
     d\<lparr>db_incidents := update_rows (\<lambda>r. ir_monitor_id r = mid \<and> ir_status r = incidentStatusOpen)
         (\<lambda>r. r\<lparr>ir_status := incidentStatusResolved, ir_resolved_at := Some now, ir_updated_at := now\<rparr>)
         (db_incidents d)\<rparr>"

definition killJobs :: "string \<Rightarrow> gotime \<Rightarrow> string \<Rightarrow> db \<Rightarrow> db" where
  "killJobs mid now lastError d =
     d\<lparr>db_jobs := update_rows (\<lambda>r. jr_monitor_id r = mid \<and> active_status (jr_status r))
         (\<lambda>r. r\<lparr>jr_status := checkJobStatusDead, jr_completed_at := Some now,
                jr_processing_started_at := None, jr_lease_expires_at := None, jr_lease_token := None,
                jr_last_error := lastError, jr_updated_at := now\<rparr>)
         (db_jobs d)\<rparr>"

definition pg_Update ::
  "NetworkPolicy \<Rightarrow> (nat \<Rightarrow> pg_outcome) \<Rightarrow> call \<Rightarrow> string \<Rightarrow> MonitorPatch \<Rightarrow> db
   \<Rightarrow> (go_error + Monitor) \<times> db" where
  "pg_Update policy X c mid patch =
     transaction (X 0) (X 6) (\<lambda>d.
       perform (X 1) (findMonitor mid d) (\<lambda>found.
         case found of
           None \<Rightarrow> Inl ErrMonitorNotFound
         | Some row \<Rightarrow>
             (let current = scanMonitor row;
                  updated = apply_patch patch current
              in case validateMonitorInput (c_env c) (input_of updated) policy of
                   Some e \<Rightarrow> Inl e
                 | None \<Rightarrow>
                     perform (X 2) (databaseTime c) (\<lambda>now.
                       let semantics = checkSemanticsChanged updated current;
                           updated = updated\<lparr>mon_UpdatedAt := now\<rparr>;
                           updated = (if mon_Enabled updated
                                      then updated\<lparr>mon_Status := monitorStatusActive,
                                                   mon_NextCheckAt := reschedule current now updated\<rparr>
                                      else updated\<lparr>mon_Status := monitorStatusDisabled\<rparr>)
                       in perform (X 3) () (\<lambda>_.
                            if \<exists>r \<in> set (db_monitors d). mr_url r = mon_URL updated \<and> mr_id r \<noteq> mid
                            then Inl ErrMonitorExists
                            else
                              (let d = d\<lparr>db_monitors := update_rows (\<lambda>r. mr_id r = mid)
                                            (writeMonitor updated semantics) (db_monitors d)\<rparr>
                               in performIf semantics (X 4) (resolveIncidents mid now d) d (\<lambda>d.
                                    performIf (\<not> mon_Enabled updated \<or> semantics) (X 5)
                                      (killJobs mid now (if \<not> mon_Enabled updated then ''monitor disabled''
                                                         else ''monitor configuration changed'') d) d (\<lambda>d.
                                      Inr (scanMonitor (writeMonitor updated semantics row), d)))))))))"

text \<open>The delete cascades through the foreign keys.\<close>

definition deleteMonitorRows :: "string \<Rightarrow> db \<Rightarrow> db" where
  "deleteMonitorRows mid d =
     (let gone = ir_id ` set (filter (\<lambda>r. ir_monitor_id r = mid) (db_incidents d))
      in d\<lparr>db_monitors := filter (\<lambda>r. mr_id r \<noteq> mid) (db_monitors d),
           db_jobs := filter (\<lambda>r. jr_monitor_id r \<noteq> mid) (db_jobs d),
           db_results := filter (\<lambda>r. rr_monitor_id r \<noteq> mid) (db_results d),
           db_incidents := filter (\<lambda>r. ir_monitor_id r \<noteq> mid) (db_incidents d),
           db_outbox := filter (\<lambda>r. or_monitor_id r \<noteq> mid \<and> or_incident_id r \<notin> gone) (db_outbox d)\<rparr>)"

definition pg_Delete :: "(nat \<Rightarrow> pg_outcome) \<Rightarrow> string \<Rightarrow> db \<Rightarrow> go_error option \<times> db" where
  "pg_Delete X mid d =
     (case findMonitor mid d of
        None \<Rightarrow> (case failed (X 0) of Some e \<Rightarrow> (Some e, d) | None \<Rightarrow> (Some ErrMonitorNotFound, d))
      | Some _ \<Rightarrow> err_of (settle (X 0) () (deleteMonitorRows mid d) d))"

section \<open>Creating and claiming jobs\<close>

definition insertJob :: "job_row \<Rightarrow> db \<Rightarrow> go_error + db" where
  "insertJob row d =
     (if (\<exists>r \<in> set (db_jobs d). jr_id r = jr_id row)
         \<or> (active_status (jr_status row)
            \<and> (\<exists>r \<in> set (db_jobs d). active_status (jr_status r) \<and> jr_monitor_id r = jr_monitor_id row))
      then Inl unique_violation
      else if findMonitor (jr_monitor_id row) d = None then Inl foreign_key_violation
      else Inr (d\<lparr>db_jobs := db_jobs d @ [row]\<rparr>))"

definition newJobRow ::
  "string \<Rightarrow> string \<Rightarrow> CheckJobKind \<Rightarrow> gotime \<Rightarrow> gotime \<Rightarrow> gotime option \<Rightarrow> string option \<Rightarrow> job_row" where
  "newJobRow jobID mid kind scheduledFor now lease token =
     \<lparr>jr_id = jobID, jr_monitor_id = mid, jr_kind = kind, jr_scheduled_for = scheduledFor,
      jr_status = checkJobStatusScheduled, jr_attempt = 0, jr_available_at = now, jr_published_at = None,
      jr_processing_started_at = None, jr_lease_expires_at = lease, jr_lease_token = None,
      jr_completed_at = None, jr_last_error = [], jr_created_at = now, jr_updated_at = now,
      jr_publication_token = token\<rparr>"

definition pg_CreateManualJob ::
  "(nat \<Rightarrow> pg_outcome) \<Rightarrow> call \<Rightarrow> string \<Rightarrow> db \<Rightarrow> (go_error + CheckJobRecord \<times> bool) \<times> db" where
  "pg_CreateManualJob X c mid =
     transaction (X 0) (X 5) (\<lambda>d.
       perform (X 1) (databaseTime c) (\<lambda>now.
         perform (X 2) (findMonitor mid d) (\<lambda>found.
           if found = None then Inl ErrMonitorNotFound
           else perform (X 3) (List.find (\<lambda>r. jr_monitor_id r = mid \<and> active_status (jr_status r)) (db_jobs d)) (\<lambda>existing.
             case existing of
               Some row \<Rightarrow> Inr ((scanCheckJob row, False), d)
             | None \<Rightarrow>
                 (let row = newJobRow (newID ''job'' (c_draw c)) mid checkJobKindManual now now None None
                  in perform (X 4) (insertJob row d) (\<lambda>r.
                       case r of Inl e \<Rightarrow> Inl e | Inr d \<Rightarrow> Inr ((scanCheckJob row, True), d)))))))"

text \<open>The statements of a claim: give up exhausted jobs, release expired leases, claim, find due
  monitors and insert their jobs.\<close>

definition exhaustedRow :: "gotime \<Rightarrow> int \<Rightarrow> job_row \<Rightarrow> bool" where
  "exhaustedRow now maxAttempts r \<longleftrightarrow>
     jr_attempt r \<ge> maxAttempts
     \<and> ((jr_status r = checkJobStatusProcessing \<and> sql_le (jr_lease_expires_at r) now)
        \<or> (jr_status r = checkJobStatusFailed \<and> jr_available_at r \<le> now)
        \<or> (jr_status r = checkJobStatusScheduled \<and> sql_le (jr_lease_expires_at r) now))"

definition exhaustRow :: "gotime \<Rightarrow> job_row \<Rightarrow> job_row" where
  "exhaustRow now r =
     r\<lparr>jr_status := checkJobStatusDead, jr_processing_started_at := None, jr_lease_expires_at := None,
       jr_lease_token := None, jr_completed_at := Some now,
       jr_last_error := (if jr_status r = checkJobStatusProcessing
                         then ''processing lease expired; maximum attempts reached''
                         else ''maximum processing attempts reached''),
       jr_updated_at := now\<rparr>"

definition rescheduleRow :: "gotime \<Rightarrow> monitor_row \<Rightarrow> monitor_row" where
  "rescheduleRow now r =
     r\<lparr>mr_next_check_at := now + mr_interval_seconds r * Second, mr_updated_at := now\<rparr>"

definition exhaustJobs :: "gotime \<Rightarrow> int \<Rightarrow> db \<Rightarrow> db" where
  "exhaustJobs now maxAttempts d =
     d\<lparr>db_jobs := update_rows (exhaustedRow now maxAttempts) (exhaustRow now) (db_jobs d),
       db_monitors := update_rows (\<lambda>m. \<exists>r \<in> set (db_jobs d). exhaustedRow now maxAttempts r
             \<and> jr_monitor_id r = mr_id m \<and> jr_kind r = checkJobKindScheduled)
           (rescheduleRow now) (db_monitors d)\<rparr>"

definition expiredRow :: "gotime \<Rightarrow> int \<Rightarrow> job_row \<Rightarrow> bool" where
  "expiredRow now maxAttempts r \<longleftrightarrow>
     jr_status r = checkJobStatusProcessing \<and> sql_le (jr_lease_expires_at r) now \<and> jr_attempt r < maxAttempts"

definition expireRow :: "gotime \<Rightarrow> job_row \<Rightarrow> job_row" where
  "expireRow now r =
     r\<lparr>jr_status := checkJobStatusFailed, jr_available_at := now, jr_processing_started_at := None,
       jr_lease_expires_at := None, jr_lease_token := None, jr_last_error := ''processing lease expired'',
       jr_updated_at := now\<rparr>"

definition expireJobs :: "gotime \<Rightarrow> int \<Rightarrow> db \<Rightarrow> db" where
  "expireJobs now maxAttempts d =
     d\<lparr>db_jobs := update_rows (expiredRow now maxAttempts) (expireRow now) (db_jobs d)\<rparr>"

definition claimableRow :: "gotime \<Rightarrow> int \<Rightarrow> job_row \<Rightarrow> bool" where
  "claimableRow now maxAttempts r \<longleftrightarrow>
     (jr_status r = checkJobStatusScheduled \<or> jr_status r = checkJobStatusFailed)
     \<and> jr_available_at r \<le> now \<and> (jr_lease_expires_at r = None \<or> sql_le (jr_lease_expires_at r) now)
     \<and> jr_attempt r < maxAttempts"

definition claimRow :: "gotime \<Rightarrow> gotime \<Rightarrow> string \<Rightarrow> job_row \<Rightarrow> job_row" where
  "claimRow now lease token r =
     r\<lparr>jr_status := checkJobStatusScheduled, jr_lease_expires_at := Some lease,
       jr_publication_token := Some (token @ '':'' @ jr_id r), jr_updated_at := now\<rparr>"

definition claimIDs :: "gotime \<Rightarrow> int \<Rightarrow> string set \<Rightarrow> int \<Rightarrow> db \<Rightarrow> string list" where
  "claimIDs now maxAttempts locked limit d =
     map jr_id (take (nat limit)
       (sort_key (\<lambda>r. (jr_available_at r, jr_scheduled_for r, jr_id r))
         (filter (\<lambda>r. claimableRow now maxAttempts r \<and> jr_id r \<notin> locked) (db_jobs d))))"

definition claimJobs ::
  "gotime \<Rightarrow> gotime \<Rightarrow> string \<Rightarrow> string list \<Rightarrow> db \<Rightarrow> CheckJobRecord list \<times> db" where
  "claimJobs now lease token ids d =
     (let jobs = update_rows (\<lambda>r. jr_id r \<in> set ids) (claimRow now lease token) (db_jobs d)
      in (map scanCheckJob (filter (\<lambda>r. jr_id r \<in> set ids) jobs), d\<lparr>db_jobs := jobs\<rparr>))"

definition dueMonitors :: "gotime \<Rightarrow> string set \<Rightarrow> nat \<Rightarrow> db \<Rightarrow> monitor_row list" where
  "dueMonitors now locked remaining d =
     take remaining
       (sort_key (\<lambda>m. (mr_next_check_at m, mr_id m))
         (filter (\<lambda>m. mr_enabled m \<and> mr_next_check_at m \<le> now
             \<and> \<not> (\<exists>r \<in> set (db_jobs d). jr_monitor_id r = mr_id m \<and> active_status (jr_status r))
             \<and> mr_id m \<notin> locked) (db_monitors d)))"

fun insertDue ::
  "(nat \<Rightarrow> pg_outcome) \<Rightarrow> claim_env \<Rightarrow> gotime \<Rightarrow> gotime \<Rightarrow> nat \<Rightarrow> monitor_row list \<Rightarrow> CheckJobRecord list \<Rightarrow> db
   \<Rightarrow> go_error + (CheckJobRecord list \<times> db)" where
  "insertDue X ce now lease n [] jobs d = Inr (jobs, d)"
| "insertDue X ce now lease n (m # due) jobs d =
     (let row = newJobRow (NewCheckJobID (ce_wall ce) (mr_id m) (mr_next_check_at m)) (mr_id m)
                  checkJobKindScheduled (mr_next_check_at m) now (Some lease)
                  (Some (newID ''publish'' (ce_draws ce (Suc n))))
      in perform (X n) (insertJob row d) (\<lambda>r.
           case r of
             Inl e \<Rightarrow> Inl e
           | Inr d \<Rightarrow> insertDue X ce now lease (Suc n) due (jobs @ [scanCheckJob row]) d))"

definition pg_ClaimDueJobs ::
  "(nat \<Rightarrow> pg_outcome) \<Rightarrow> string set \<Rightarrow> call \<Rightarrow> int \<Rightarrow> duration \<Rightarrow> int \<Rightarrow> db
   \<Rightarrow> (go_error + CheckJobRecord list) \<times> db" where
  "pg_ClaimDueJobs X locked c limit leaseTimeout maxAttempts d =
     (if limit \<le> 0 then (Inr [], d)
      else
        (let leaseTimeout = (if leaseTimeout \<le> 0 then Minute else leaseTimeout);
             maxAttempts = (if maxAttempts \<le> 0 then defaultMaxJobAttempts else maxAttempts)
         in transaction (X 0) (X 6) (\<lambda>d.
              perform (X 1) (databaseTime c) (\<lambda>now.
                let lease = timestamptz (now + leaseTimeout) in
                perform (X 2) (exhaustJobs now maxAttempts d) (\<lambda>d.
                  perform (X 3) (expireJobs now maxAttempts d) (\<lambda>d.
                    perform (X 4) (claimJobs now lease (newID ''publish'' (ce_draws (c_claim c) 0))
                                     (claimIDs now maxAttempts locked limit d) d) (\<lambda>(jobs, d).
                      let remaining = nat limit - length jobs in
                      if 0 < remaining
                      then perform (X 5) (dueMonitors now locked remaining d) (\<lambda>due.
                             insertDue (\<lambda>n. X (7 + n)) (c_claim c) now lease 0 due jobs d)
                      else Inr (jobs, d)))))) d))"

definition pg_GetCheckJob :: "(nat \<Rightarrow> pg_outcome) \<Rightarrow> string \<Rightarrow> db \<Rightarrow> go_error + CheckJobRecord" where
  "pg_GetCheckJob X jobID d =
     perform (X 0) (List.find (\<lambda>r. jr_id r = jobID) (db_jobs d)) (\<lambda>r.
       case r of None \<Rightarrow> Inl ErrStaleJob | Some row \<Rightarrow> Inr (scanCheckJob row))"

section \<open>Job transitions\<close>

definition classifyInactiveJobQuery :: "pg_outcome \<Rightarrow> string \<Rightarrow> string \<Rightarrow> db \<Rightarrow> go_error" where
  "classifyInactiveJobQuery x mid jobID d =
     (case failed x of
        Some e \<Rightarrow> e
      | None \<Rightarrow>
          (let monitorExists = (findMonitor mid d \<noteq> None);
               jobExists = (\<exists>r \<in> set (db_jobs d). jr_id r = jobID \<and> jr_monitor_id r = mid)
           in if \<not> monitorExists then ErrMonitorNotFound
              else if \<not> jobExists then ErrStaleJob
              else ErrStaleJob))"

definition findJob :: "string \<Rightarrow> string \<Rightarrow> db \<Rightarrow> job_row option" where
  "findJob jobID mid d = List.find (\<lambda>r. jr_id r = jobID \<and> jr_monitor_id r = mid) (db_jobs d)"

text \<open>\<open>nil\<close> (\<open>None\<close>) when the same publication has already advanced.\<close>

definition acceptPublicationProgress ::
  "pg_outcome \<Rightarrow> pg_outcome \<Rightarrow> PublicationClaim \<Rightarrow> db \<Rightarrow> go_error option" where
  "acceptPublicationProgress x y claim d =
     (case failed x of
        Some e \<Rightarrow> Some e
      | None \<Rightarrow>
          (case findJob (claim_JobID claim) (claim_MonitorID claim) d of
             None \<Rightarrow> Some (classifyInactiveJobQuery y (claim_MonitorID claim) (claim_JobID claim) d)
           | Some r \<Rightarrow>
               if jr_publication_token r = Some (claim_Token claim) \<and> jr_status r \<noteq> checkJobStatusScheduled
               then None else Some ErrStaleJob))"

definition ownsPublication :: "PublicationClaim \<Rightarrow> gotime \<Rightarrow> job_row \<Rightarrow> bool" where
  "ownsPublication claim now r \<longleftrightarrow>
     jr_id r = claim_JobID claim \<and> jr_monitor_id r = claim_MonitorID claim
     \<and> jr_status r = checkJobStatusScheduled \<and> jr_attempt r = claim_Attempt claim
     \<and> jr_publication_token r = Some (claim_Token claim) \<and> sql_gt (jr_lease_expires_at r) now"

text \<open>An update of the rows that satisfy \<open>P\<close>, outside a transaction; \<open>otherwise\<close> when it
  affects no row.\<close>

definition update_or ::
  "pg_outcome \<Rightarrow> (job_row \<Rightarrow> bool) \<Rightarrow> (job_row \<Rightarrow> job_row) \<Rightarrow> (db \<Rightarrow> go_error option) \<Rightarrow> db
   \<Rightarrow> go_error option \<times> db" where
  "update_or x P f otherwise d =
     (if \<exists>r \<in> set (db_jobs d). P r
      then err_of (settle x () (d\<lparr>db_jobs := update_rows P f (db_jobs d)\<rparr>) d)
      else (case failed x of Some e \<Rightarrow> (Some e, d) | None \<Rightarrow> (otherwise d, d)))"

definition publishRow :: "gotime \<Rightarrow> job_row \<Rightarrow> job_row" where
  "publishRow now r =
     r\<lparr>jr_status := checkJobStatusQueued, jr_published_at := Some now, jr_lease_expires_at := None,
       jr_updated_at := now\<rparr>"

definition pg_MarkJobPublished ::
  "(nat \<Rightarrow> pg_outcome) \<Rightarrow> call \<Rightarrow> PublicationClaim \<Rightarrow> db \<Rightarrow> go_error option \<times> db" where
  "pg_MarkJobPublished X c claim d =
     (if claim_Token claim = [] then (Some ErrStaleJob, d)
      else update_or (X 0) (ownsPublication claim (databaseTime c)) (publishRow (databaseTime c))
             (acceptPublicationProgress (X 1) (X 2) claim) d)"

definition releaseRow :: "gotime \<Rightarrow> string \<Rightarrow> job_row \<Rightarrow> job_row" where
  "releaseRow now lastError r =
     r\<lparr>jr_lease_expires_at := None, jr_publication_token := None, jr_last_error := lastError,
       jr_updated_at := now\<rparr>"

definition pg_ReleaseJobPublish ::
  "(nat \<Rightarrow> pg_outcome) \<Rightarrow> call \<Rightarrow> PublicationClaim \<Rightarrow> string \<Rightarrow> db \<Rightarrow> go_error option \<times> db" where
  "pg_ReleaseJobPublish X c claim lastError d =
     (if claim_Token claim = [] then (Some ErrStaleJob, d)
      else update_or (X 0) (ownsPublication claim (databaseTime c)) (releaseRow (databaseTime c) lastError)
             (acceptPublicationProgress (X 1) (X 2) claim) d)"

definition recoverRow :: "gotime \<Rightarrow> job_row \<Rightarrow> job_row" where
  "recoverRow now r =
     r\<lparr>jr_status := checkJobStatusFailed, jr_available_at := now, jr_published_at := None,
       jr_processing_started_at := None, jr_lease_expires_at := None, jr_lease_token := None,
       jr_publication_token := None, jr_last_error := ''rabbitmq queue topology was lost'',
       jr_updated_at := now\<rparr>"

definition unprocessed :: "job_row \<Rightarrow> bool" where
  "unprocessed r \<longleftrightarrow> jr_status r = checkJobStatusScheduled \<or> jr_status r = checkJobStatusQueued"

definition pg_RecoverQueuedJobs ::
  "(nat \<Rightarrow> pg_outcome) \<Rightarrow> call \<Rightarrow> db \<Rightarrow> (go_error + nat) \<times> db" where
  "pg_RecoverQueuedJobs X c d =
     settle (X 0) (length (filter unprocessed (db_jobs d)))
       (d\<lparr>db_jobs := update_rows unprocessed (recoverRow (databaseTime c)) (db_jobs d)\<rparr>) d"

definition startable :: "string \<Rightarrow> string \<Rightarrow> int \<Rightarrow> job_row \<Rightarrow> bool" where
  "startable mid jobID attempt r \<longleftrightarrow>
     jr_id r = jobID \<and> jr_monitor_id r = mid \<and> unprocessed r \<and> attempt > jr_attempt r"

definition startRow :: "gotime \<Rightarrow> duration \<Rightarrow> int \<Rightarrow> string \<Rightarrow> job_row \<Rightarrow> job_row" where
  "startRow now leaseTimeout attempt token r =
     r\<lparr>jr_status := checkJobStatusProcessing, jr_attempt := attempt, jr_processing_started_at := Some now,
       jr_lease_expires_at := Some (now + microseconds leaseTimeout), jr_lease_token := Some token,
       jr_updated_at := now\<rparr>"

definition checkJobStatus :: "pg_outcome \<Rightarrow> pg_outcome \<Rightarrow> string \<Rightarrow> string \<Rightarrow> db \<Rightarrow> go_error + CheckJobStatus" where
  "checkJobStatus x y mid jobID d =
     perform x (findJob jobID mid d) (\<lambda>r.
       case r of Some row \<Rightarrow> Inr (jr_status row) | None \<Rightarrow> Inl (classifyInactiveJobQuery y mid jobID d))"

definition pg_MarkJobProcessing ::
  "(nat \<Rightarrow> pg_outcome) \<Rightarrow> call \<Rightarrow> string \<Rightarrow> string \<Rightarrow> int \<Rightarrow> duration \<Rightarrow> db
   \<Rightarrow> (go_error + ProcessingLease) \<times> db" where
  "pg_MarkJobProcessing X c mid jobID attempt leaseTimeout d =
     (let leaseTimeout = (if leaseTimeout \<le> 0 then Minute else leaseTimeout);
          leaseToken = newID ''lease'' (c_draw c);
          attempt = max attempt 1
      in if \<exists>r \<in> set (db_jobs d). startable mid jobID attempt r
         then settle (X 0) \<lparr>lease_JobID = jobID, lease_MonitorID = mid, lease_Attempt = attempt,
                            lease_Token = leaseToken\<rparr>
                (d\<lparr>db_jobs := update_rows (startable mid jobID attempt)
                     (startRow (databaseTime c) leaseTimeout attempt leaseToken) (db_jobs d)\<rparr>) d
         else (case failed (X 0) of
                 Some e \<Rightarrow> (Inl e, d)
               | None \<Rightarrow>
                   (case checkJobStatus (X 1) (X 2) mid jobID d of
                      Inl e \<Rightarrow> (Inl e, d)
                    | Inr status \<Rightarrow>
                        (Inl (if status = checkJobStatusProcessing then ErrJobAlreadyProcessing else ErrStaleJob), d))))"

definition ownsLease :: "ProcessingLease \<Rightarrow> gotime \<Rightarrow> job_row \<Rightarrow> bool" where
  "ownsLease lease now r \<longleftrightarrow>
     jr_id r = lease_JobID lease \<and> jr_monitor_id r = lease_MonitorID lease
     \<and> jr_status r = checkJobStatusProcessing \<and> jr_attempt r = lease_Attempt lease
     \<and> jr_lease_token r = Some (lease_Token lease) \<and> sql_gt (jr_lease_expires_at r) now"

definition failRow :: "gotime \<Rightarrow> duration \<Rightarrow> string \<Rightarrow> job_row \<Rightarrow> job_row" where
  "failRow now retryDelay lastError r =
     r\<lparr>jr_status := checkJobStatusFailed, jr_available_at := now + microseconds retryDelay,
       jr_processing_started_at := None, jr_lease_expires_at := None, jr_lease_token := None,
       jr_last_error := lastError, jr_updated_at := now\<rparr>"

definition pg_MarkJobFailed ::
  "(nat \<Rightarrow> pg_outcome) \<Rightarrow> call \<Rightarrow> ProcessingLease \<Rightarrow> string \<Rightarrow> duration \<Rightarrow> db \<Rightarrow> go_error option \<times> db" where
  "pg_MarkJobFailed X c lease lastError retryDelay =
     update_or (X 0) (ownsLease lease (databaseTime c)) (failRow (databaseTime c) (max retryDelay 0) lastError)
       (\<lambda>d. Some (classifyInactiveJobQuery (X 1) (lease_MonitorID lease) (lease_JobID lease) d))"

definition deadRow :: "gotime \<Rightarrow> string \<Rightarrow> job_row \<Rightarrow> job_row" where
  "deadRow now lastError r =
     r\<lparr>jr_status := checkJobStatusDead, jr_processing_started_at := None, jr_lease_expires_at := None,
       jr_lease_token := None, jr_completed_at := Some now, jr_last_error := lastError, jr_updated_at := now\<rparr>"

definition pg_MarkJobDead ::
  "(nat \<Rightarrow> pg_outcome) \<Rightarrow> call \<Rightarrow> ProcessingLease \<Rightarrow> string \<Rightarrow> db \<Rightarrow> go_error option \<times> db" where
  "pg_MarkJobDead X c lease lastError d =
     err_of (transaction (X 0) (X 5) (\<lambda>d.
       perform (X 1) (findMonitor (lease_MonitorID lease) d) (\<lambda>found.
         if found = None then Inl ErrMonitorNotFound
         else
           (let now = databaseTime c in
            perform (X 2) (List.find (ownsLease lease now) (db_jobs d)) (\<lambda>owned.
              case owned of
                None \<Rightarrow> Inl (classifyInactiveJobQuery (X 3) (lease_MonitorID lease) (lease_JobID lease) d)
              | Some row \<Rightarrow>
                  (let d = d\<lparr>db_jobs := update_rows (ownsLease lease now) (deadRow now lastError) (db_jobs d)\<rparr>
                   in performIf (jr_kind row = checkJobKindScheduled) (X 4)
                        (d\<lparr>db_monitors := update_rows (\<lambda>m. mr_id m = lease_MonitorID lease) (rescheduleRow now)
                             (db_monitors d)\<rparr>) d (\<lambda>d. Inr ((), d))))))) d)"

section \<open>Recording a check\<close>

text \<open>\<open>INSERT ... ON CONFLICT (job_id) DO NOTHING\<close>: the number of affected rows with the database.\<close>

definition insertResult :: "result_row \<Rightarrow> db \<Rightarrow> go_error + (nat \<times> db)" where
  "insertResult row d =
     (if rr_job_id row \<noteq> None \<and> (\<exists>r \<in> set (db_results d). rr_job_id r = rr_job_id row) then Inr (0, d)
      else if \<exists>r \<in> set (db_results d). rr_id r = rr_id row then Inl unique_violation
      else Inr (1, d\<lparr>db_results := db_results d @ [row]\<rparr>))"

definition recordRow :: "CheckRecord \<Rightarrow> CheckJobKind \<Rightarrow> gotime \<Rightarrow> monitor_row \<Rightarrow> monitor_row" where
  "recordRow record kind now r =
     r\<lparr>mr_last_status_code := Some (chk_StatusCode record), mr_last_latency_ms := Some (chk_LatencyMS record),
       mr_last_checked_at := Some now, mr_last_error := chk_Error record,
       mr_next_check_at := (if kind = checkJobKindScheduled then now + mr_interval_seconds r * Second
                            else mr_next_check_at r),
       mr_updated_at := now\<rparr>"

definition newIncidentRow :: "string \<Rightarrow> string \<Rightarrow> gotime \<Rightarrow> string \<Rightarrow> incident_row" where
  "newIncidentRow incidentID mid now lastError =
     \<lparr>ir_id = incidentID, ir_monitor_id = mid, ir_status = incidentStatusOpen, ir_failure_count = 1,
      ir_first_failure_at = now, ir_last_failure_at = now, ir_resolved_at = None, ir_last_error = lastError,
      ir_last_alerted_at = None, ir_alert_count = 0, ir_created_at = now, ir_updated_at = now\<rparr>"

definition failAgain :: "gotime \<Rightarrow> string \<Rightarrow> incident_row \<Rightarrow> incident_row" where
  "failAgain now lastError r =
     r\<lparr>ir_failure_count := ir_failure_count r + 1, ir_last_failure_at := now, ir_last_error := lastError,
       ir_updated_at := now\<rparr>"

definition openIncident :: "string \<Rightarrow> incident_row \<Rightarrow> bool" where
  "openIncident mid r \<longleftrightarrow> ir_monitor_id r = mid \<and> ir_status r = incidentStatusOpen"

text \<open>The upsert of the open incident; the row as returned.\<close>

definition upsertIncident :: "string \<Rightarrow> string \<Rightarrow> gotime \<Rightarrow> string \<Rightarrow> db \<Rightarrow> go_error + (incident_row \<times> db)" where
  "upsertIncident incidentID mid now lastError d =
     (case List.find (openIncident mid) (db_incidents d) of
        Some r \<Rightarrow> Inr (failAgain now lastError r,
                     d\<lparr>db_incidents := update_rows (openIncident mid) (failAgain now lastError) (db_incidents d)\<rparr>)
      | None \<Rightarrow>
          if \<exists>r \<in> set (db_incidents d). ir_id r = incidentID then Inl unique_violation
          else (let row = newIncidentRow incidentID mid now lastError
                in Inr (row, d\<lparr>db_incidents := db_incidents d @ [row]\<rparr>)))"

definition newOutboxRow :: "string \<Rightarrow> string \<Rightarrow> AlertPayload \<Rightarrow> gotime \<Rightarrow> outbox_row" where
  "newOutboxRow alertID key payload now =
     \<lparr>or_id = alertID, or_idempotency_key = key, or_incident_id = ap_IncidentID payload,
      or_monitor_id = ap_MonitorID payload, or_event_type = alertEventIncidentFailure, or_payload = payload,
      or_status = alertPending, or_attempt_count = 0, or_available_at = now, or_lease_token = None,
      or_locked_until = None, or_delivered_at = None, or_last_error = [], or_created_at = now,
      or_updated_at = now\<rparr>"

definition insertOutbox :: "outbox_row \<Rightarrow> db \<Rightarrow> go_error + (nat \<times> db)" where
  "insertOutbox row d =
     (if \<exists>r \<in> set (db_outbox d). or_idempotency_key r = or_idempotency_key row then Inr (0, d)
      else if \<exists>r \<in> set (db_outbox d). or_id r = or_id row then Inl unique_violation
      else Inr (1, d\<lparr>db_outbox := db_outbox d @ [row]\<rparr>))"

definition alertDue :: "AlertPolicy \<Rightarrow> gotime \<Rightarrow> incident_row \<Rightarrow> bool" where
  "alertDue policy now inc \<longleftrightarrow>
     \<not> (\<not> ap_Enabled policy \<or> ir_failure_count inc < ap_FailureThreshold policy)
     \<and> \<not> (case ir_last_alerted_at inc of None \<Rightarrow> False | Some t \<Rightarrow> now - t < ap_Cooldown policy)"

definition alertedRow :: "gotime \<Rightarrow> incident_row \<Rightarrow> incident_row" where
  "alertedRow now r = r\<lparr>ir_last_alerted_at := Some now, ir_alert_count := ir_alert_count r + 1, ir_updated_at := now\<rparr>"

definition markAlerted :: "string \<Rightarrow> gotime \<Rightarrow> db \<Rightarrow> db" where
  "markAlerted incidentID now d =
     d\<lparr>db_incidents := update_rows (\<lambda>r. ir_id r = incidentID) (alertedRow now) (db_incidents d)\<rparr>"

definition failureText :: "CheckRecord \<Rightarrow> string" where
  "failureText record = (if chk_Error record = [] then ''unexpected status code '' @ Itoa (chk_StatusCode record)
                         else chk_Error record)"

definition alertRow :: "call \<Rightarrow> CheckRecord \<Rightarrow> Monitor \<Rightarrow> gotime \<Rightarrow> incident_row \<Rightarrow> outbox_row" where
  "alertRow c record monitor now inc =
     newOutboxRow (newID ''alert'' (ce_draws (c_claim c) 0)) (ir_id inc @ '':failure:'' @ Itoa (ir_failure_count inc))
       \<lparr>ap_EventType = alertEventIncidentFailure, ap_IncidentID = ir_id inc, ap_MonitorID = chk_MonitorID record,
        ap_URL = mon_URL monitor, ap_StatusCode = chk_StatusCode record,
        ap_Error = failureText record,
        ap_ConsecutiveFailures = ir_failure_count inc, ap_CheckedAt = chk_CheckedAt record\<rparr> now"

definition upsertIncidentAndAlert ::
  "(nat \<Rightarrow> pg_outcome) \<Rightarrow> call \<Rightarrow> CheckRecord \<Rightarrow> Monitor \<Rightarrow> AlertPolicy \<Rightarrow> gotime \<Rightarrow> db \<Rightarrow> go_error + db" where
  "upsertIncidentAndAlert X c record monitor policy now d =
     (if chk_Success record then perform (X 0) (resolveIncidents (chk_MonitorID record) now d) Inr
      else
        perform (X 0) (upsertIncident (newID ''inc'' (c_draw c)) (chk_MonitorID record) now (failureText record) d) (\<lambda>r.
          case r of
            Inl e \<Rightarrow> Inl e
          | Inr (inc, d) \<Rightarrow>
              if \<not> alertDue policy now inc then Inr d
              else
                perform (X 1) (insertOutbox (alertRow c record monitor now inc) d) (\<lambda>r.
                  case r of
                    Inl e \<Rightarrow> Inl e
                  | Inr (n, d) \<Rightarrow>
                      if n = 0 then Inr d
                      else perform (X 2) (markAlerted (ir_id inc) now d) Inr)))"

definition completeRow :: "gotime \<Rightarrow> job_row \<Rightarrow> job_row" where
  "completeRow now r =
     r\<lparr>jr_status := checkJobStatusCompleted, jr_processing_started_at := None, jr_lease_expires_at := None,
       jr_lease_token := None, jr_completed_at := Some now, jr_last_error := [], jr_updated_at := now\<rparr>"

definition newResultRow :: "CheckRecord \<Rightarrow> gotime \<Rightarrow> result_row" where
  "newResultRow record now =
     \<lparr>rr_id = chk_ID record, rr_job_id = (if chk_JobID record = [] then None else Some (chk_JobID record)),
      rr_monitor_id = chk_MonitorID record, rr_status_code = chk_StatusCode record,
      rr_latency_ms = chk_LatencyMS record, rr_error = chk_Error record, rr_success = chk_Success record,
      rr_checked_at = timestamptz (chk_CheckedAt record), rr_recorded_at = now\<rparr>"

text \<open>The guards on the job row before the clock is read, \<open>None\<close> when they all pass.\<close>

definition leaseGuard :: "CheckRecord \<Rightarrow> ProcessingLease \<Rightarrow> job_row \<Rightarrow> go_error option" where
  "leaseGuard record lease r =
     (if jr_status r = checkJobStatusCompleted then Some ErrDuplicateJob
      else if jr_status r \<noteq> checkJobStatusProcessing then Some ErrStaleJob
      else if jr_attempt r \<noteq> lease_Attempt lease
           \<or> (case jr_lease_token r of None \<Rightarrow> True | Some t \<Rightarrow> t = [] \<or> t \<noteq> lease_Token lease)
           \<or> lease_JobID lease \<noteq> chk_JobID record \<or> lease_MonitorID lease \<noteq> chk_MonitorID record
        then Some ErrStaleJob
      else None)"

definition addCheckBody ::
  "(nat \<Rightarrow> pg_outcome) \<Rightarrow> call \<Rightarrow> CheckRecord \<Rightarrow> ProcessingLease \<Rightarrow> AlertPolicy \<Rightarrow> db
   \<Rightarrow> go_error + (Monitor \<times> db)" where
  "addCheckBody X c record lease policy d =
     perform (X 1) (findMonitor (chk_MonitorID record) d) (\<lambda>found.
        case found of
          None \<Rightarrow> Inl ErrMonitorNotFound
        | Some mrow \<Rightarrow>
            perform (X 2) (findJob (chk_JobID record) (chk_MonitorID record) d) (\<lambda>job.
              case job of
                None \<Rightarrow> Inl ErrStaleJob
              | Some jrow \<Rightarrow>
                  (case leaseGuard record lease jrow of
                     Some e \<Rightarrow> Inl e
                   | None \<Rightarrow>
                       perform (X 3) (databaseTime c) (\<lambda>now.
                         if \<not> sql_gt (jr_lease_expires_at jrow) now then Inl ErrStaleJob
                         else
                           perform (X 4) (insertResult (newResultRow record now) d) (\<lambda>ins.
                             case ins of
                               Inl e \<Rightarrow> Inl e
                             | Inr (n, d) \<Rightarrow>
                                 if n = 0 then Inl ErrDuplicateJob
                                 else
                                   (let written = recordRow record (jr_kind jrow) now;
                                        d = d\<lparr>db_monitors := update_rows (\<lambda>m. mr_id m = chk_MonitorID record)
                                                written (db_monitors d)\<rparr>;
                                        monitor = scanMonitor (written mrow)
                                    in perform (X 5) d (\<lambda>d.
                                         case upsertIncidentAndAlert (\<lambda>k. X (6 + k)) c record monitor policy now d of
                                           Inl e \<Rightarrow> Inl e
                                         | Inr d \<Rightarrow>
                                             perform (X 9) (\<exists>r \<in> set (db_jobs d). ownsLease lease (laterTime c) r) (\<lambda>hit.
                                               if \<not> hit then Inl ErrStaleJob
                                               else Inr (monitor,
                                                 d\<lparr>db_jobs := update_rows (ownsLease lease (laterTime c))
                                                      (completeRow now) (db_jobs d)\<rparr>)))))))))"

definition pg_AddCheck ::
  "(nat \<Rightarrow> pg_outcome) \<Rightarrow> call \<Rightarrow> CheckRecord \<Rightarrow> ProcessingLease \<Rightarrow> AlertPolicy \<Rightarrow> db
   \<Rightarrow> ((go_error + Monitor) \<times> db) option" where
  "pg_AddCheck X c record lease policy d =
     Some (if chk_JobID record = [] then (Inl ErrJobIDRequired, d)
           else transaction (X 0) (X 10) (addCheckBody X c record lease policy) d)"

section \<open>Queries\<close>

definition pg_ListChecks ::
  "(nat \<Rightarrow> pg_outcome) \<Rightarrow> string \<Rightarrow> int \<Rightarrow> int \<Rightarrow> db \<Rightarrow> go_error + (CheckRecord list option \<times> nat)" where
  "pg_ListChecks X mid offset limit d =
     (case pg_Get X mid d of
        Inl e \<Rightarrow> Inl e
      | Inr _ \<Rightarrow>
          (let mine = filter (\<lambda>r. rr_monitor_id r = mid) (db_results d) in
           perform (X 1) (length mine) (\<lambda>n.
             perform (X 2) (sql_page offset limit (rev (sort_key (\<lambda>r. (rr_recorded_at r, rr_id r)) mine))) (\<lambda>page.
               case page of Inl e \<Rightarrow> Inl e | Inr rows \<Rightarrow> Inr (Some (map scanCheckRecord rows), n)))))"

definition pg_Stats :: "(nat \<Rightarrow> pg_outcome) \<Rightarrow> string \<Rightarrow> db \<Rightarrow> go_error + MonitorStats" where
  "pg_Stats X mid d =
     (case pg_Get X mid d of
        Inl e \<Rightarrow> Inl e
      | Inr monitor \<Rightarrow>
          (let mine = filter (\<lambda>r. rr_monitor_id r = mid) (db_results d) in
           perform (X 1) (length mine, length (filter rr_success mine), length (filter (\<lambda>r. \<not> rr_success r) mine),
                          if mine = [] then 0 else of_int (sum_list (map rr_latency_ms mine)) / of_nat (length mine))
             (\<lambda>(total, ok, failed, average).
               perform (X 2) (case List.find (openIncident mid) (db_incidents d) of
                                None \<Rightarrow> 0 | Some r \<Rightarrow> ir_failure_count r) (\<lambda>failures.
                 Inr \<lparr>stats_MonitorID = mid,
                      stats_UptimePercent = (if total > 0 then of_nat ok / of_nat total * 100 else 0),
                      stats_AverageLatencyMS = average, stats_ChecksTotal = total,
                      stats_SuccessfulChecks = ok, stats_FailedChecks = failed,
                      stats_LastCheckedAt = mon_LastCheckedAt monitor,
                      stats_LastStatusCode = mon_LastStatusCode monitor,
                      stats_ConsecutiveFailure = failures\<rparr>))))"

definition incidentStatusText :: "IncidentStatus \<Rightarrow> string" where
  "incidentStatusText st =
     (case st of incidentStatusUnset \<Rightarrow> [] | incidentStatusOpen \<Rightarrow> ''open'' | incidentStatusResolved \<Rightarrow> ''resolved'')"

definition pg_ListIncidents ::
  "(nat \<Rightarrow> pg_outcome) \<Rightarrow> string \<Rightarrow> int \<Rightarrow> int \<Rightarrow> db \<Rightarrow> go_error + (Incident list option \<times> nat)" where
  "pg_ListIncidents X status offset limit d =
     (let mine = filter (\<lambda>r. status = [] \<or> incidentStatusText (ir_status r) = status) (db_incidents d) in
      perform (X 0) (length mine) (\<lambda>n.
        perform (X 1) (sql_page offset limit (rev (sort_key (\<lambda>r. (ir_created_at r, ir_id r)) mine))) (\<lambda>page.
          case page of Inl e \<Rightarrow> Inl e | Inr rows \<Rightarrow> Inr (Some (map scanIncident rows), n))))"

section \<open>The alert outbox\<close>

abbreviation (input) defaultAlertLeaseTimeout :: duration where "defaultAlertLeaseTimeout \<equiv> Minute"
abbreviation (input) defaultAlertMaxAttempts :: int where "defaultAlertMaxAttempts \<equiv> 8"

definition exhaustedAlert :: "gotime \<Rightarrow> int \<Rightarrow> outbox_row \<Rightarrow> bool" where
  "exhaustedAlert now maxAttempts r \<longleftrightarrow>
     or_attempt_count r \<ge> maxAttempts
     \<and> (or_status r = alertPending \<or> or_status r = alertProcessing \<and> sql_le (or_locked_until r) now)"

definition exhaustAlert :: "gotime \<Rightarrow> outbox_row \<Rightarrow> outbox_row" where
  "exhaustAlert now r =
     r\<lparr>or_status := alertDead, or_lease_token := None, or_locked_until := None,
       or_last_error := (if or_last_error r = [] then ''maximum delivery attempts reached after lease expiry''
                         else or_last_error r),
       or_updated_at := now\<rparr>"

definition claimableAlert :: "gotime \<Rightarrow> int \<Rightarrow> outbox_row \<Rightarrow> bool" where
  "claimableAlert now maxAttempts r \<longleftrightarrow>
     or_attempt_count r < maxAttempts
     \<and> (or_status r = alertPending \<and> or_available_at r \<le> now
        \<or> or_status r = alertProcessing \<and> sql_le (or_locked_until r) now)"

definition claimAlertRow :: "gotime \<Rightarrow> gotime \<Rightarrow> string \<Rightarrow> outbox_row \<Rightarrow> outbox_row" where
  "claimAlertRow now lockedUntil token r =
     r\<lparr>or_status := alertProcessing, or_attempt_count := or_attempt_count r + 1, or_lease_token := Some token,
       or_locked_until := Some lockedUntil, or_updated_at := now\<rparr>"

definition scanAlert :: "outbox_row \<Rightarrow> AlertOutboxEvent" where
  "scanAlert r =
     \<lparr>ev_ID = or_id r, ev_IdempotencyKey = or_idempotency_key r, ev_IncidentID = or_incident_id r,
      ev_MonitorID = or_monitor_id r, ev_Payload = or_payload r, ev_AttemptCount = or_attempt_count r,
      ev_LeaseToken = (case or_lease_token r of None \<Rightarrow> [] | Some t \<Rightarrow> t)\<rparr>"

definition claimAlertIDs :: "gotime \<Rightarrow> int \<Rightarrow> string set \<Rightarrow> int \<Rightarrow> outbox_row list \<Rightarrow> string list" where
  "claimAlertIDs now maxAttempts locked limit rows =
     map or_id (take (nat limit)
       (sort_key (\<lambda>r. (or_available_at r, or_created_at r, or_id r))
         (filter (\<lambda>r. claimableAlert now maxAttempts r \<and> or_id r \<notin> locked) rows)))"

definition claimAlertRows ::
  "gotime \<Rightarrow> gotime \<Rightarrow> string \<Rightarrow> string list \<Rightarrow> db \<Rightarrow> AlertOutboxEvent list \<times> db" where
  "claimAlertRows now lockedUntil token ids d =
     (let rows = update_rows (\<lambda>r. or_id r \<in> set ids) (claimAlertRow now lockedUntil token) (db_outbox d)
      in (map scanAlert (filter (\<lambda>r. or_id r \<in> set ids) rows), d\<lparr>db_outbox := rows\<rparr>))"

definition pg_ClaimAlerts ::
  "(nat \<Rightarrow> pg_outcome) \<Rightarrow> string set \<Rightarrow> call \<Rightarrow> int \<Rightarrow> duration \<Rightarrow> int \<Rightarrow> db
   \<Rightarrow> (go_error + AlertOutboxEvent list) \<times> db" where
  "pg_ClaimAlerts X locked c limit leaseTimeout maxAttempts d =
     (if limit \<le> 0 then (Inr [], d)
      else
        (let leaseTimeout = (if leaseTimeout \<le> 0 then defaultAlertLeaseTimeout else leaseTimeout);
             maxAttempts = (if maxAttempts \<le> 0 then defaultAlertMaxAttempts else maxAttempts);
             leaseToken = newID ''lease'' (c_draw c)
         in transaction (X 0) (X 4) (\<lambda>d.
              perform (X 1) (databaseTime c) (\<lambda>now.
                perform (X 2) (d\<lparr>db_outbox := update_rows (exhaustedAlert now maxAttempts) (exhaustAlert now)
                                   (db_outbox d)\<rparr>) (\<lambda>d.
                  perform (X 3) (claimAlertRows now (timestamptz (now + leaseTimeout)) leaseToken
                                   (claimAlertIDs now maxAttempts locked limit (db_outbox d)) d) Inr))) d))"

definition ownsAlert :: "string \<Rightarrow> string \<Rightarrow> outbox_row \<Rightarrow> bool" where
  "ownsAlert alertID leaseToken r \<longleftrightarrow>
     or_id r = alertID \<and> or_status r = alertProcessing \<and> or_lease_token r = Some leaseToken"

definition writeAlert ::
  "pg_outcome \<Rightarrow> string \<Rightarrow> string \<Rightarrow> (outbox_row \<Rightarrow> outbox_row) \<Rightarrow> db \<Rightarrow> go_error option \<times> db" where
  "writeAlert x alertID leaseToken f d =
     (if \<exists>r \<in> set (db_outbox d). ownsAlert alertID leaseToken r
      then err_of (settle x () (d\<lparr>db_outbox := update_rows (ownsAlert alertID leaseToken) f (db_outbox d)\<rparr>) d)
      else (case failed x of Some e \<Rightarrow> (Some e, d) | None \<Rightarrow> (Some ErrStaleAlertLease, d)))"

definition deliverRow :: "gotime \<Rightarrow> outbox_row \<Rightarrow> outbox_row" where
  "deliverRow now r =
     r\<lparr>or_status := alertDelivered, or_delivered_at := Some now, or_lease_token := None, or_locked_until := None,
       or_last_error := [], or_updated_at := now\<rparr>"

definition pg_MarkAlertDelivered ::
  "(nat \<Rightarrow> pg_outcome) \<Rightarrow> call \<Rightarrow> string \<Rightarrow> string \<Rightarrow> db \<Rightarrow> go_error option \<times> db" where
  "pg_MarkAlertDelivered X c alertID leaseToken =
     writeAlert (X 0) alertID leaseToken (deliverRow (databaseTime c))"

definition truncateAlertError :: "string \<Rightarrow> string" where
  "truncateAlertError value = (if length value \<le> 4096 then value else take 4096 value)"

definition failAlertRow :: "gotime \<Rightarrow> string \<Rightarrow> duration \<Rightarrow> bool \<Rightarrow> outbox_row \<Rightarrow> outbox_row" where
  "failAlertRow now lastError retryDelay dead r =
     r\<lparr>or_status := (if dead then alertDead else alertPending),
       or_available_at := now + microseconds (max retryDelay 0), or_lease_token := None, or_locked_until := None,
       or_last_error := truncateAlertError lastError, or_updated_at := now\<rparr>"

definition pg_MarkAlertFailed ::
  "(nat \<Rightarrow> pg_outcome) \<Rightarrow> call \<Rightarrow> string \<Rightarrow> string \<Rightarrow> string \<Rightarrow> duration \<Rightarrow> bool \<Rightarrow> db \<Rightarrow> go_error option \<times> db" where
  "pg_MarkAlertFailed X c alertID leaseToken lastError retryDelay dead =
     writeAlert (X 0) alertID leaseToken (failAlertRow (databaseTime c) lastError retryDelay dead)"

section \<open>Retention\<close>

record RetentionPolicy =
  rp_CheckResults :: duration
  rp_CheckJobs :: duration
  rp_AlertOutbox :: duration
  rp_ResolvedIncident :: duration
  rp_BatchSize :: int

record RetentionResult =
  rres_CheckResults :: nat
  rres_CheckJobs :: nat
  rres_AlertOutbox :: nat
  rres_ResolvedIncidents :: nat

text \<open>The identifiers a batch deletes: the oldest expired rows that are not locked.\<close>

definition expiredIDs ::
  "('r \<Rightarrow> bool) \<Rightarrow> ('r \<Rightarrow> gotime) \<Rightarrow> ('r \<Rightarrow> string) \<Rightarrow> string set \<Rightarrow> int \<Rightarrow> 'r list \<Rightarrow> string set" where
  "expiredIDs P age key locked batchSize rows =
     set (map key (take (nat batchSize)
       (sort_key (\<lambda>r. (age r, key r)) (filter (\<lambda>r. P r \<and> key r \<notin> locked) rows))))"

definition deleteIDs :: "('r \<Rightarrow> string) \<Rightarrow> string set \<Rightarrow> 'r list \<Rightarrow> 'r list" where
  "deleteIDs key ids rows = filter (\<lambda>r. key r \<notin> ids) rows"

definition terminal_job_row :: "gotime \<Rightarrow> job_row \<Rightarrow> bool" where
  "terminal_job_row cutoff r \<longleftrightarrow>
     (jr_status r = checkJobStatusCompleted \<or> jr_status r = checkJobStatusDead) \<and> jr_updated_at r < cutoff"

definition settled_alert_row :: "gotime \<Rightarrow> outbox_row \<Rightarrow> bool" where
  "settled_alert_row cutoff r \<longleftrightarrow>
     (or_status r = alertDelivered \<or> or_status r = alertDead) \<and> or_updated_at r < cutoff"

definition resolved_incident_row :: "gotime \<Rightarrow> db \<Rightarrow> incident_row \<Rightarrow> bool" where
  "resolved_incident_row cutoff d r \<longleftrightarrow>
     ir_status r = incidentStatusResolved \<and> sql_lt (ir_resolved_at r) cutoff
     \<and> \<not> (\<exists>x \<in> set (db_outbox d). or_incident_id x = ir_id r)"

definition deleteResultBatch :: "string set \<Rightarrow> int \<Rightarrow> gotime \<Rightarrow> db \<Rightarrow> nat \<times> db" where
  "deleteResultBatch locked n cutoff d =
     (let ids = expiredIDs (\<lambda>r. rr_recorded_at r < cutoff) rr_recorded_at rr_id locked n (db_results d)
      in (card ids, d\<lparr>db_results := deleteIDs rr_id ids (db_results d)\<rparr>))"

definition deleteJobBatch :: "string set \<Rightarrow> int \<Rightarrow> gotime \<Rightarrow> db \<Rightarrow> nat \<times> db" where
  "deleteJobBatch locked n cutoff d =
     (let ids = expiredIDs (terminal_job_row cutoff) jr_updated_at jr_id locked n (db_jobs d)
      in (card ids, d\<lparr>db_jobs := deleteIDs jr_id ids (db_jobs d)\<rparr>))"

definition deleteAlertBatch :: "string set \<Rightarrow> int \<Rightarrow> gotime \<Rightarrow> db \<Rightarrow> nat \<times> db" where
  "deleteAlertBatch locked n cutoff d =
     (let ids = expiredIDs (settled_alert_row cutoff) or_updated_at or_id locked n (db_outbox d)
      in (card ids, d\<lparr>db_outbox := deleteIDs or_id ids (db_outbox d)\<rparr>))"

definition deleteIncidentBatch :: "string set \<Rightarrow> int \<Rightarrow> gotime \<Rightarrow> db \<Rightarrow> nat \<times> db" where
  "deleteIncidentBatch locked n cutoff d =
     (let ids = expiredIDs (resolved_incident_row cutoff d) (\<lambda>r. the (ir_resolved_at r)) ir_id locked n (db_incidents d)
      in (card ids, d\<lparr>db_incidents := deleteIDs ir_id ids (db_incidents d)\<rparr>))"

definition DeleteExpiredData ::
  "(nat \<Rightarrow> pg_outcome) \<Rightarrow> string set \<Rightarrow> call \<Rightarrow> RetentionPolicy \<Rightarrow> db \<Rightarrow> (go_error + RetentionResult) \<times> db" where
  "DeleteExpiredData X locked c policy d =
     (if rp_BatchSize policy < 1 then (Inl (ErrOther ''retention batch size must be positive''), d)
      else if rp_CheckResults policy \<le> 0 \<or> rp_CheckJobs policy \<le> 0 \<or> rp_AlertOutbox policy \<le> 0
           \<or> rp_ResolvedIncident policy \<le> 0
        then (Inl (ErrOther ''retention durations must be positive''), d)
      else transaction (X 0) (X 6) (\<lambda>d.
        perform (X 1) (databaseTime c) (\<lambda>now.
          let n = rp_BatchSize policy; cutoff = (\<lambda>age. timestamptz (now - age))
          in perform (X 2) (deleteResultBatch locked n (cutoff (rp_CheckResults policy)) d) (\<lambda>(results, d).
             perform (X 3) (deleteJobBatch locked n (cutoff (rp_CheckJobs policy)) d) (\<lambda>(jobs, d).
             perform (X 4) (deleteAlertBatch locked n (cutoff (rp_AlertOutbox policy)) d) (\<lambda>(alerts, d).
             perform (X 5) (deleteIncidentBatch locked n (cutoff (rp_ResolvedIncident policy)) d) (\<lambda>(incidents, d).
               Inr (\<lparr>rres_CheckResults = results, rres_CheckJobs = jobs, rres_AlertOutbox = alerts,
                     rres_ResolvedIncidents = incidents\<rparr>, d))))))) d)"

section \<open>The repository\<close>

definition PostgresMonitorRepository :: "(call \<Rightarrow> pg_env) \<Rightarrow> NetworkPolicy \<Rightarrow> db MonitorRepository" where
  "PostgresMonitorRepository E policy =
     \<lparr>repo_Ping = (\<lambda>c d. failed (pe_outcome (E c) 0)),
      repo_Count = (\<lambda>c. pg_Count (pe_outcome (E c))),
      repo_Create = (\<lambda>c. pg_Create policy (pe_outcome (E c)) c),
      repo_List = (\<lambda>c. pg_List (pe_outcome (E c))),
      repo_Get = (\<lambda>c. pg_Get (pe_outcome (E c))),
      repo_Update = (\<lambda>c. pg_Update policy (pe_outcome (E c)) c),
      repo_Delete = (\<lambda>c. pg_Delete (pe_outcome (E c))),
      repo_CreateManualJob = (\<lambda>c. pg_CreateManualJob (pe_outcome (E c)) c),
      repo_ClaimDueJobs = (\<lambda>c. pg_ClaimDueJobs (pe_outcome (E c)) (pe_locked (E c)) c),
      repo_MarkJobPublished = (\<lambda>c. pg_MarkJobPublished (pe_outcome (E c)) c),
      repo_ReleaseJobPublish = (\<lambda>c. pg_ReleaseJobPublish (pe_outcome (E c)) c),
      repo_MarkJobProcessing = (\<lambda>c. pg_MarkJobProcessing (pe_outcome (E c)) c),
      repo_MarkJobFailed = (\<lambda>c. pg_MarkJobFailed (pe_outcome (E c)) c),
      repo_MarkJobDead = (\<lambda>c. pg_MarkJobDead (pe_outcome (E c)) c),
      repo_AddCheck = (\<lambda>c. pg_AddCheck (pe_outcome (E c)) c),
      repo_ListChecks = (\<lambda>c. pg_ListChecks (pe_outcome (E c))),
      repo_Stats = (\<lambda>c. pg_Stats (pe_outcome (E c))),
      repo_ListIncidents = (\<lambda>c. pg_ListIncidents (pe_outcome (E c))),
      repo_Recovery = Some (\<lambda>c. pg_RecoverQueuedJobs (pe_outcome (E c)) c)\<rparr>"

definition PostgresAlertOutbox :: "(call \<Rightarrow> pg_env) \<Rightarrow> db AlertOutboxRepository" where
  "PostgresAlertOutbox E =
     \<lparr>aor_ClaimAlerts = (\<lambda>c. pg_ClaimAlerts (pe_outcome (E c)) (pe_locked (E c)) c),
      aor_MarkAlertDelivered = (\<lambda>c. pg_MarkAlertDelivered (pe_outcome (E c)) c),
      aor_MarkAlertFailed = (\<lambda>c. pg_MarkAlertFailed (pe_outcome (E c)) c)\<rparr>"

end
