(* ===== verification/Pg_Invariant.thy ===== *)
theory Pg_Invariant
  imports Pg_Repository
begin

text \<open>
  Every operation of the PostgreSQL repository keeps the constraints of the schema and the
  program's own rule for lease tokens: no statement but the modelled inserts can meet a
  constraint. One lemma per kind of write, then one per operation.
\<close>

section \<open>Writes\<close>

lemma db_ok_jobs: "db_ok d \<Longrightarrow> r \<in> set (db_jobs d) \<Longrightarrow> job_row_ok r"
  by (simp add: db_ok_def rows_ok_def)

lemma db_ok_update_jobs:
  assumes ok: "db_ok d"
    and f: "\<And>r. r \<in> set (db_jobs d) \<Longrightarrow> P r \<Longrightarrow> jr_id (f r) = jr_id r \<and> jr_monitor_id (f r) = jr_monitor_id r
      \<and> (active_status (jr_status (f r)) \<longrightarrow> active_status (jr_status r)) \<and> job_row_ok (f r)"
  shows "db_ok (d\<lparr>db_jobs := update_rows P f (db_jobs d)\<rparr>)"
proof -
  have "map jr_id (update_rows P f (db_jobs d)) = map jr_id (db_jobs d)"
    "map jr_monitor_id (update_rows P f (db_jobs d)) = map jr_monitor_id (db_jobs d)"
    using f by (auto intro!: map_update_rows)
  then have keys: "distinct (map jr_id (update_rows P f (db_jobs d)))"
    "jr_monitor_id ` set (update_rows P f (db_jobs d)) \<subseteq> mr_id ` set (db_monitors d)"
    using ok by (simp_all add: db_ok_def schema_ok_def flip: set_map)
  have act: "distinct (map jr_monitor_id (filter (\<lambda>r. active_status (jr_status r)) (update_rows P f (db_jobs d))))"
    using ok f by (intro distinct_map_update_filter) (auto simp: db_ok_def schema_ok_def)
  have "\<forall>r \<in> set (update_rows P f (db_jobs d)). job_row_ok r"
    using f db_ok_jobs [OF ok] by (auto simp: set_update_rows)
  with ok keys act show ?thesis
    by (simp add: db_ok_def schema_ok_def rows_ok_def)
qed

lemma db_ok_monitors: "db_ok d \<Longrightarrow> r \<in> set (db_monitors d) \<Longrightarrow> monitor_row_ok r"
  by (simp add: db_ok_def rows_ok_def)

lemma db_ok_update_monitors:
  assumes ok: "db_ok d"
    and f: "\<And>r. r \<in> set (db_monitors d) \<Longrightarrow> P r \<Longrightarrow> mr_id (f r) = mr_id r \<and> monitor_row_ok (f r)"
    and url: "distinct (map mr_url (update_rows P f (db_monitors d)))"
  shows "db_ok (d\<lparr>db_monitors := update_rows P f (db_monitors d)\<rparr>)"
proof -
  have ids: "map mr_id (update_rows P f (db_monitors d)) = map mr_id (db_monitors d)"
    using f by (intro map_update_rows) auto
  then have "mr_id ` set (update_rows P f (db_monitors d)) = mr_id ` set (db_monitors d)"
    by (simp flip: set_map)
  moreover have "\<forall>r \<in> set (update_rows P f (db_monitors d)). monitor_row_ok r"
    using f db_ok_monitors [OF ok] by (auto simp: set_update_rows)
  ultimately show ?thesis
    using ok url ids
    by (simp add: db_ok_def schema_ok_def rows_ok_def)
qed

lemma db_ok_update_monitors_url:
  assumes "db_ok d"
    and "\<And>r. r \<in> set (db_monitors d) \<Longrightarrow> P r \<Longrightarrow> mr_id (f r) = mr_id r \<and> mr_url (f r) = mr_url r \<and> monitor_row_ok (f r)"
  shows "db_ok (d\<lparr>db_monitors := update_rows P f (db_monitors d)\<rparr>)"
proof (rule db_ok_update_monitors)
  have "map mr_url (update_rows P f (db_monitors d)) = map mr_url (db_monitors d)"
    using assms(2) by (intro map_update_rows) auto
  then show "distinct (map mr_url (update_rows P f (db_monitors d)))"
    using assms(1) by (simp add: db_ok_def schema_ok_def)
qed (use assms in auto)

lemma db_ok_update_incidents:
  assumes ok: "db_ok d"
    and f: "\<And>r. r \<in> set (db_incidents d) \<Longrightarrow> P r \<Longrightarrow> ir_id (f r) = ir_id r \<and> ir_monitor_id (f r) = ir_monitor_id r
      \<and> (ir_status (f r) = incidentStatusOpen \<longrightarrow> ir_status r = incidentStatusOpen) \<and> ir_status (f r) \<noteq> incidentStatusUnset"
  shows "db_ok (d\<lparr>db_incidents := update_rows P f (db_incidents d)\<rparr>)"
proof -
  have maps: "map ir_id (update_rows P f (db_incidents d)) = map ir_id (db_incidents d)"
    "map ir_monitor_id (update_rows P f (db_incidents d)) = map ir_monitor_id (db_incidents d)"
    using f by (auto intro!: map_update_rows)
  then have sets: "ir_id ` set (update_rows P f (db_incidents d)) = ir_id ` set (db_incidents d)"
    "ir_monitor_id ` set (update_rows P f (db_incidents d)) = ir_monitor_id ` set (db_incidents d)"
    by (simp_all flip: set_map)
  have op: "distinct (map ir_monitor_id (filter (\<lambda>r. ir_status r = incidentStatusOpen) (update_rows P f (db_incidents d))))"
    using ok f by (intro distinct_map_update_filter) (auto simp: db_ok_def schema_ok_def)
  have "\<forall>r \<in> set (update_rows P f (db_incidents d)). ir_status r \<noteq> incidentStatusUnset"
    using f ok by (auto simp: set_update_rows db_ok_def rows_ok_def)
  with ok maps sets op show ?thesis
    by (simp add: db_ok_def schema_ok_def rows_ok_def)
qed

lemma db_ok_outbox: "db_ok d \<Longrightarrow> r \<in> set (db_outbox d) \<Longrightarrow> outbox_row_ok r"
  by (auto simp add: db_ok_def rows_ok_def)

lemma db_ok_update_outbox:
  assumes ok: "db_ok d"
    and f: "\<And>r. r \<in> set (db_outbox d) \<Longrightarrow> P r \<Longrightarrow> or_id (f r) = or_id r \<and> or_idempotency_key (f r) = or_idempotency_key r
      \<and> or_monitor_id (f r) = or_monitor_id r \<and> or_incident_id (f r) = or_incident_id r \<and> outbox_row_ok (f r)"
  shows "db_ok (d\<lparr>db_outbox := update_rows P f (db_outbox d)\<rparr>)"
proof -
  have maps: "map or_id (update_rows P f (db_outbox d)) = map or_id (db_outbox d)"
    "map or_idempotency_key (update_rows P f (db_outbox d)) = map or_idempotency_key (db_outbox d)"
    "map or_monitor_id (update_rows P f (db_outbox d)) = map or_monitor_id (db_outbox d)"
    "map or_incident_id (update_rows P f (db_outbox d)) = map or_incident_id (db_outbox d)"
    using f by (auto intro!: map_update_rows)
  then have sets: "or_monitor_id ` set (update_rows P f (db_outbox d)) = or_monitor_id ` set (db_outbox d)"
    "or_incident_id ` set (update_rows P f (db_outbox d)) = or_incident_id ` set (db_outbox d)"
    by (simp_all flip: set_map)
  have "\<forall>r \<in> set (update_rows P f (db_outbox d)). outbox_row_ok r"
    using f db_ok_outbox [OF ok] by (auto simp: set_update_rows)
  with ok maps sets show ?thesis
    by (simp add: db_ok_def schema_ok_def rows_ok_def)
qed

text \<open>Inserts.\<close>

lemma findMonitor_None: "findMonitor mid d = None \<longleftrightarrow> mid \<notin> mr_id ` set (db_monitors d)"
  by (auto simp: findMonitor_def find_None_iff)

lemma findMonitor_Some: "findMonitor mid d = Some r \<Longrightarrow> r \<in> set (db_monitors d) \<and> mr_id r = mid"
  using find_SomeD by (fastforce simp: findMonitor_def)

lemma db_ok_insertJob:
  assumes ok: "db_ok d" and ins: "insertJob row d = Inr d'" and row: "job_row_ok row"
  shows "db_ok d'"
proof -
  from ins have d': "d' = d\<lparr>db_jobs := db_jobs d @ [row]\<rparr>"
    and new: "jr_id row \<notin> jr_id ` set (db_jobs d)" "jr_monitor_id row \<in> mr_id ` set (db_monitors d)"
      "\<And>r. active_status (jr_status row) \<Longrightarrow> r \<in> set (db_jobs d) \<Longrightarrow> active_status (jr_status r) \<Longrightarrow> jr_monitor_id r \<noteq> jr_monitor_id row"
    by (auto simp: insertJob_def findMonitor_None split: if_splits)
  have "distinct (map jr_monitor_id (filter (\<lambda>r. active_status (jr_status r)) (db_jobs d)))"
    using ok by (simp add: db_ok_def schema_ok_def)
  with new(3) have "distinct (map jr_monitor_id (filter (\<lambda>r. active_status (jr_status r)) (db_jobs d @ [row])))"
    by (auto, metis)
  with ok row new(1,2) show ?thesis by (simp add: d' db_ok_def schema_ok_def rows_ok_def)
qed

lemma db_ok_insertResult:
  assumes ok: "db_ok d" and ins: "insertResult row d = Inr (n, d')"
    and mon: "rr_monitor_id row \<in> mr_id ` set (db_monitors d)"
  shows "db_ok d'"
proof (cases "d' = d")
  case False
  with ins have d': "d' = d\<lparr>db_results := db_results d @ [row]\<rparr>"
    and new: "rr_id row \<notin> rr_id ` set (db_results d)"
      "\<And>r. rr_job_id row \<noteq> None \<Longrightarrow> r \<in> set (db_results d) \<Longrightarrow> rr_job_id r \<noteq> rr_job_id row"
    by (auto simp: insertResult_def split: if_splits)
  have "distinct (map rr_job_id (filter (\<lambda>r. rr_job_id r \<noteq> None) (db_results d)))"
    using ok by (simp add: db_ok_def schema_ok_def)
  with new(2) have "distinct (map rr_job_id (filter (\<lambda>r. rr_job_id r \<noteq> None) (db_results d @ [row])))"
    by auto
  with ok new(1) mon show ?thesis by (simp add: d' db_ok_def schema_ok_def rows_ok_def)
qed (use ok in simp)

lemma db_ok_insertOutbox:
  assumes ok: "db_ok d" and ins: "insertOutbox row d = Inr (n, d')" and row: "outbox_row_ok row"
    "or_monitor_id row \<in> mr_id ` set (db_monitors d)" "or_incident_id row \<in> ir_id ` set (db_incidents d)"
  shows "db_ok d'"
proof (cases "d' = d")
  case False
  with ins have d': "d' = d\<lparr>db_outbox := db_outbox d @ [row]\<rparr>"
    and new: "or_id row \<notin> or_id ` set (db_outbox d)" "or_idempotency_key row \<notin> or_idempotency_key ` set (db_outbox d)"
    by (auto simp: insertOutbox_def split: if_splits)
  with ok row show ?thesis by (simp add: d' db_ok_def schema_ok_def rows_ok_def)
qed (use ok in simp)

lemma db_ok_insertMonitor:
  assumes ok: "db_ok d" and row: "monitor_row_ok row"
    and new: "mr_id row \<notin> mr_id ` set (db_monitors d)" "mr_url row \<notin> mr_url ` set (db_monitors d)"
  shows "db_ok (d\<lparr>db_monitors := db_monitors d @ [row]\<rparr>)"
proof -
  have "A \<subseteq> insert (mr_id row) (mr_id ` set (db_monitors d))" if "A \<subseteq> mr_id ` set (db_monitors d)" for A
    using that by blast
  with ok row new show ?thesis by (simp add: db_ok_def schema_ok_def rows_ok_def)
qed

lemma db_ok_incidents:
  assumes "db_ok d" "distinct (map ir_id incs)"
    "distinct (map ir_monitor_id (filter (\<lambda>r. ir_status r = incidentStatusOpen) incs))"
    "ir_monitor_id ` set incs \<subseteq> mr_id ` set (db_monitors d)"
    "or_incident_id ` set (db_outbox d) \<subseteq> ir_id ` set incs" "\<forall>r \<in> set incs. ir_status r \<noteq> incidentStatusUnset"
  shows "db_ok (d\<lparr>db_incidents := incs\<rparr>)"
  using assms by (simp add: db_ok_def schema_ok_def rows_ok_def)

lemma db_ok_upsertIncident:
  assumes ok: "db_ok d" and ins: "upsertIncident i mid now e d = Inr (inc, d')"
    and mon: "mid \<in> mr_id ` set (db_monitors d)"
  shows "db_ok d'" "ir_id inc \<in> ir_id ` set (db_incidents d')" "db_monitors d' = db_monitors d" "db_jobs d' = db_jobs d"
proof -
  have "db_ok d' \<and> ir_id inc \<in> ir_id ` set (db_incidents d') \<and> db_monitors d' = db_monitors d \<and> db_jobs d' = db_jobs d"
  proof (cases "List.find (openIncident mid) (db_incidents d)")
    case (Some r)
    with ins have d': "d' = d\<lparr>db_incidents := update_rows (openIncident mid) (failAgain now e) (db_incidents d)\<rparr>"
      and inc: "inc = failAgain now e r" by (simp_all add: upsertIncident_def)
    have "db_ok d'" unfolding d'
      by (rule db_ok_update_incidents [OF ok]) (auto simp: failAgain_def openIncident_def)
    moreover have "inc \<in> set (db_incidents d')"
      using find_SomeD [OF Some] by (auto simp: d' inc set_update_rows)
    ultimately show ?thesis by (simp add: d')
  next
    case None
    let ?row = "newIncidentRow i mid now e"
    from None ins have d': "d' = d\<lparr>db_incidents := db_incidents d @ [?row]\<rparr>" and inc: "inc = ?row"
      and new: "i \<notin> ir_id ` set (db_incidents d)"
      by (auto simp: upsertIncident_def Let_def split: if_splits)
    have "distinct (map ir_monitor_id (filter (\<lambda>r. ir_status r = incidentStatusOpen) (db_incidents d)))"
      using ok by (simp add: db_ok_def schema_ok_def)
    with None have op: "distinct (map ir_monitor_id (filter (\<lambda>r. ir_status r = incidentStatusOpen) (db_incidents d @ [?row])))"
      by (auto simp: newIncidentRow_def find_None_iff openIncident_def)
    have fk: "or_incident_id ` set (db_outbox d) \<subseteq> insert i (ir_id ` set (db_incidents d))"
      using ok by (auto simp: db_ok_def schema_ok_def)
    have st: "ir_status ?row = incidentStatusOpen" "ir_id ?row = i" "ir_monitor_id ?row = mid"
      by (simp_all add: newIncidentRow_def)
    have "db_ok d'" unfolding d'
    proof (rule db_ok_incidents [OF ok _ op])
      show "distinct (map ir_id (db_incidents d @ [?row]))"
        using ok new by (simp add: st db_ok_def schema_ok_def)
      show "ir_monitor_id ` set (db_incidents d @ [?row]) \<subseteq> mr_id ` set (db_monitors d)"
        using ok mon by (auto simp: st db_ok_def schema_ok_def)
      show "or_incident_id ` set (db_outbox d) \<subseteq> ir_id ` set (db_incidents d @ [?row])"
        using fk by (simp add: st)
      show "\<forall>r \<in> set (db_incidents d @ [?row]). ir_status r \<noteq> incidentStatusUnset"
        using ok by (auto simp: st db_ok_def rows_ok_def)
    qed
    then show ?thesis by (simp add: d' inc)
  qed
  then show "db_ok d'" "ir_id inc \<in> ir_id ` set (db_incidents d')" "db_monitors d' = db_monitors d" "db_jobs d' = db_jobs d"
    by simp_all
qed

text \<open>Deletes.\<close>

lemma distinct_map_filter_filter:
  "distinct (map key (filter P xs)) \<Longrightarrow> distinct (map key (filter P (filter Q xs)))"
  by (induction xs) (auto split: if_splits)

lemma image_filter_subset: "key ` set xs \<subseteq> A \<Longrightarrow> key ` set (filter Q xs) \<subseteq> A"
  by auto

text \<open>The tables that others refer to can be replaced when the references still hold.\<close>

lemma db_ok_replace_results:
  assumes "db_ok d" "distinct (map rr_id rows)" "distinct (map rr_job_id (filter (\<lambda>r. rr_job_id r \<noteq> None) rows))"
    "rr_monitor_id ` set rows \<subseteq> mr_id ` set (db_monitors d)"
  shows "db_ok (d\<lparr>db_results := rows\<rparr>)"
  using assms by (simp add: db_ok_def schema_ok_def rows_ok_def)

lemma db_ok_replace_jobs:
  assumes "db_ok d" "distinct (map jr_id rows)"
    "distinct (map jr_monitor_id (filter (\<lambda>r. active_status (jr_status r)) rows))"
    "jr_monitor_id ` set rows \<subseteq> mr_id ` set (db_monitors d)" "\<forall>r \<in> set rows. job_row_ok r"
  shows "db_ok (d\<lparr>db_jobs := rows\<rparr>)"
  using assms by (simp add: db_ok_def schema_ok_def rows_ok_def)

lemma db_ok_replace_outbox:
  assumes "db_ok d" "distinct (map or_id rows)" "distinct (map or_idempotency_key rows)"
    "or_monitor_id ` set rows \<subseteq> mr_id ` set (db_monitors d)"
    "or_incident_id ` set rows \<subseteq> ir_id ` set (db_incidents d)" "\<forall>r \<in> set rows. outbox_row_ok r"
  shows "db_ok (d\<lparr>db_outbox := rows\<rparr>)"
  using assms by (simp add: db_ok_def schema_ok_def rows_ok_def)

lemma db_ok_replace_monitors:
  assumes "db_ok d" "distinct (map mr_id rows)" "distinct (map mr_url rows)" "\<forall>r \<in> set rows. monitor_row_ok r"
    "jr_monitor_id ` set (db_jobs d) \<subseteq> mr_id ` set rows" "rr_monitor_id ` set (db_results d) \<subseteq> mr_id ` set rows"
    "ir_monitor_id ` set (db_incidents d) \<subseteq> mr_id ` set rows" "or_monitor_id ` set (db_outbox d) \<subseteq> mr_id ` set rows"
  shows "db_ok (d\<lparr>db_monitors := rows\<rparr>)"
  using assms by (simp add: db_ok_def schema_ok_def rows_ok_def)

lemma db_okD:
  assumes "db_ok d"
  shows "distinct (map mr_id (db_monitors d))" "distinct (map mr_url (db_monitors d))"
    "distinct (map jr_id (db_jobs d))" "distinct (map jr_monitor_id (filter (\<lambda>r. active_status (jr_status r)) (db_jobs d)))"
    "jr_monitor_id ` set (db_jobs d) \<subseteq> mr_id ` set (db_monitors d)"
    "distinct (map rr_id (db_results d))" "distinct (map rr_job_id (filter (\<lambda>r. rr_job_id r \<noteq> None) (db_results d)))"
    "rr_monitor_id ` set (db_results d) \<subseteq> mr_id ` set (db_monitors d)"
    "distinct (map ir_id (db_incidents d))"
    "distinct (map ir_monitor_id (filter (\<lambda>r. ir_status r = incidentStatusOpen) (db_incidents d)))"
    "ir_monitor_id ` set (db_incidents d) \<subseteq> mr_id ` set (db_monitors d)"
    "distinct (map or_id (db_outbox d))" "distinct (map or_idempotency_key (db_outbox d))"
    "or_monitor_id ` set (db_outbox d) \<subseteq> mr_id ` set (db_monitors d)"
    "or_incident_id ` set (db_outbox d) \<subseteq> ir_id ` set (db_incidents d)"
    "\<forall>r \<in> set (db_incidents d). ir_status r \<noteq> incidentStatusUnset"
  using assms by (simp_all add: db_ok_def schema_ok_def rows_ok_def)

lemma db_ok_delete_results: "db_ok d \<Longrightarrow> db_ok (d\<lparr>db_results := filter Q (db_results d)\<rparr>)"
  by (intro db_ok_replace_results distinct_map_filter distinct_map_filter_filter image_filter_subset db_okD)

lemma db_ok_delete_jobs:
  assumes ok: "db_ok d"
  shows "db_ok (d\<lparr>db_jobs := filter Q (db_jobs d)\<rparr>)"
  using ok
  by (intro db_ok_replace_jobs distinct_map_filter distinct_map_filter_filter image_filter_subset db_okD)
    (simp_all add: db_ok_jobs)

lemma db_ok_delete_outbox:
  assumes ok: "db_ok d"
  shows "db_ok (d\<lparr>db_outbox := filter Q (db_outbox d)\<rparr>)"
  using ok
  by (intro db_ok_replace_outbox distinct_map_filter image_filter_subset db_okD) (simp_all add: db_ok_outbox)

lemma image_filter_keeps: "A \<subseteq> f ` set xs \<Longrightarrow> (\<And>x. x \<in> set xs \<Longrightarrow> f x \<in> A \<Longrightarrow> Q x) \<Longrightarrow> A \<subseteq> f ` set (filter Q xs)"
  by auto

lemma db_ok_delete_incidents:
  assumes ok: "db_ok d" and free: "\<And>r x. r \<in> set (db_incidents d) \<Longrightarrow> x \<in> set (db_outbox d) \<Longrightarrow> or_incident_id x = ir_id r \<Longrightarrow> Q r"
  shows "db_ok (d\<lparr>db_incidents := filter Q (db_incidents d)\<rparr>)"
proof (rule db_ok_incidents [OF ok])
  show "or_incident_id ` set (db_outbox d) \<subseteq> ir_id ` set (filter Q (db_incidents d))"
    by (rule image_filter_keeps [OF db_okD(15) [OF ok]]) (use free in auto)
  show "\<forall>r \<in> set (filter Q (db_incidents d)). ir_status r \<noteq> incidentStatusUnset"
    using db_okD(16) [OF ok] by simp
qed (intro distinct_map_filter distinct_map_filter_filter image_filter_subset db_okD ok)+

lemma image_filter_other: "key ` set xs \<subseteq> mr_id ` set ms \<Longrightarrow>
    key ` set (filter (\<lambda>r. key r \<noteq> mid) xs) \<subseteq> mr_id ` set (filter (\<lambda>r. mr_id r \<noteq> mid) ms)"
  by (rule image_filter_keeps, erule image_filter_subset) auto

lemma db_ok_deleteMonitor:
  assumes ok: "db_ok d"
  shows "db_ok (deleteMonitorRows mid d)"
proof -
  define out where "out = filter (\<lambda>r. or_monitor_id r \<noteq> mid \<and> or_incident_id r \<notin> ir_id ` set (filter (\<lambda>r. ir_monitor_id r = mid) (db_incidents d))) (db_outbox d)"
  let ?d1 = "d\<lparr>db_outbox := out\<rparr>"
  have ok1: "db_ok ?d1" unfolding out_def by (rule db_ok_delete_outbox [OF ok])
  have "db_ok (?d1\<lparr>db_incidents := filter (\<lambda>r. ir_monitor_id r \<noteq> mid) (db_incidents ?d1)\<rparr>)"
    by (rule db_ok_delete_incidents [OF ok1]) (auto simp: out_def)
  from db_ok_delete_results [OF db_ok_delete_jobs [OF this, of "\<lambda>r. jr_monitor_id r \<noteq> mid"], of "\<lambda>r. rr_monitor_id r \<noteq> mid"]
  have ok3: "db_ok (d\<lparr>db_outbox := out, db_incidents := filter (\<lambda>r. ir_monitor_id r \<noteq> mid) (db_incidents d),
      db_jobs := filter (\<lambda>r. jr_monitor_id r \<noteq> mid) (db_jobs d),
      db_results := filter (\<lambda>r. rr_monitor_id r \<noteq> mid) (db_results d)\<rparr>)" (is "db_ok ?d3") by simp
  have "or_monitor_id ` set (filter (\<lambda>r. or_monitor_id r \<noteq> mid) (db_outbox d)) \<subseteq> mr_id ` set (filter (\<lambda>r. mr_id r \<noteq> mid) (db_monitors d))"
    by (rule image_filter_other) (rule db_okD [OF ok])
  then have fk: "or_monitor_id ` set out \<subseteq> mr_id ` set (filter (\<lambda>r. mr_id r \<noteq> mid) (db_monitors d))"
    by (rule order_trans [rotated]) (auto simp: out_def)
  note refs = image_filter_other [OF db_okD(5) [OF ok], of mid] image_filter_other [OF db_okD(8) [OF ok], of mid]
    image_filter_other [OF db_okD(11) [OF ok], of mid]
  have "deleteMonitorRows mid d = ?d3\<lparr>db_monitors := filter (\<lambda>r. mr_id r \<noteq> mid) (db_monitors d)\<rparr>"
    by (simp add: deleteMonitorRows_def Let_def out_def)
  moreover have "db_ok \<dots>"
    proof (rule db_ok_replace_monitors [OF ok3])
    show "\<forall>r \<in> set (filter (\<lambda>r. mr_id r \<noteq> mid) (db_monitors d)). monitor_row_ok r"
      using db_ok_monitors [OF ok] by simp
  qed (use refs fk in \<open>simp_all add: distinct_map_filter db_okD [OF ok]\<close>)
  ultimately show ?thesis by simp
qed

end
