(* ===== verification/Pg_Preserves.thy ===== *)
theory Pg_Preserves
  imports Pg_Invariant
begin

text \<open>
  The constraints hold after every operation of the repository, whatever statements fail: one
  lemma per operation, and the states a sequence of calls can reach.
\<close>

section \<open>Statements and transactions\<close>

lemma transaction_ok:
  "db_ok d \<Longrightarrow> (\<And>v d'. body d = Inr (v, d') \<Longrightarrow> db_ok d') \<Longrightarrow> db_ok (snd (transaction b c body d))"
  by (auto simp: transaction_def settle_def split: option.split sum.split pg_outcome.split)

lemma settle_ok: "db_ok new \<Longrightarrow> db_ok old \<Longrightarrow> db_ok (snd (settle x v new old))"
  by (simp add: settle_def split: pg_outcome.split)

lemma snd_err_of [simp]: "snd (err_of r) = snd r"
  by (cases r) (auto simp: err_of_def split: sum.split)

lemma update_or_ok:
  assumes ok: "db_ok d" and f: "\<And>r. r \<in> set (db_jobs d) \<Longrightarrow> P r \<Longrightarrow> jr_id (f r) = jr_id r \<and> jr_monitor_id (f r) = jr_monitor_id r
      \<and> (active_status (jr_status (f r)) \<longrightarrow> active_status (jr_status r)) \<and> job_row_ok (f r)"
  shows "db_ok (snd (update_or x P f otherwise d))"
proof -
  have "db_ok (d\<lparr>db_jobs := update_rows P f (db_jobs d)\<rparr>)" by (rule db_ok_update_jobs [OF ok f])
  with ok show ?thesis by (simp add: update_or_def settle_ok split: option.split)
qed

lemma performIf_Inr: "performIf b x v old k = Inr y \<longleftrightarrow> (if b then failed x = None \<and> k v = Inr y else k old = Inr y)"
  by (simp add: performIf_def perform_Inr)

section \<open>Monitors\<close>

lemma pg_Create_ok:
  assumes ok: "db_ok d"
  shows "db_ok (snd (pg_Create policy X c input d))"
proof -
  let ?row = "newMonitorRow c input"
  have "db_ok (d\<lparr>db_monitors := db_monitors d @ [?row]\<rparr>)"
    if "validateMonitorInput (c_env c) input policy = None"
      "\<not> (\<exists>r \<in> set (db_monitors d). mr_id r = mr_id ?row \<or> mr_url r = mr_url ?row)"
    by (rule db_ok_insertMonitor [OF ok])
      (use that in \<open>auto simp: validateMonitorInput_None monitor_row_ok_def newMonitorRow_def Let_def\<close>)
  with ok show ?thesis by (simp add: pg_Create_def Let_def settle_ok split: option.split)
qed

lemma db_ok_resolveIncidents: "db_ok d \<Longrightarrow> db_ok (resolveIncidents mid now d)"
  unfolding resolveIncidents_def by (rule db_ok_update_incidents) auto

lemma db_ok_killJobs:
  assumes ok: "db_ok d"
  shows "db_ok (killJobs mid now t d)"
  unfolding killJobs_def
proof (rule db_ok_update_jobs [OF ok], goal_cases)
  case (1 r)
  from db_ok_jobs [OF ok this(1)] show ?case by (simp add: job_row_ok_def active_status_def)
qed

lemma distinct_url_update:
  assumes ids: "distinct (map mr_id rows)" and urls: "distinct (map mr_url rows)"
    and free: "\<not> (\<exists>r \<in> set rows. mr_url r = u \<and> mr_id r \<noteq> mid)" and f: "\<And>r. mr_url (f r) = u"
  shows "distinct (map mr_url (update_rows (\<lambda>r. mr_id r = mid) f rows))"
proof -
  let ?url = "\<lambda>r. if mr_id r = mid then u else mr_url r"
  have "x = y" if "x \<in> set rows" "y \<in> set rows" "?url x = ?url y" for x y
  proof (cases "mr_id x = mid \<and> mr_id y = mid")
    case True
    with ids that show ?thesis by (auto simp: distinct_map inj_on_def)
  next
    case False
    with free that have "mr_url x = mr_url y" by (auto split: if_splits)
    with urls that show ?thesis by (auto simp: distinct_map inj_on_def)
  qed
  then have "inj_on ?url (set rows)" by (rule inj_onI)
  moreover have "map mr_url (update_rows (\<lambda>r. mr_id r = mid) f rows) = map ?url rows"
    by (simp add: update_rows_def f)
  ultimately show ?thesis using ids by (simp add: distinct_map)
qed

lemma db_ok_writeMonitor:
  assumes ok: "db_ok d" and valid: "validateMonitorInput env (input_of u) policy = None"
    and free: "\<not> (\<exists>r \<in> set (db_monitors d). mr_url r = mon_URL u \<and> mr_id r \<noteq> mid)"
  shows "db_ok (d\<lparr>db_monitors := update_rows (\<lambda>r. mr_id r = mid) (writeMonitor u semantics) (db_monitors d)\<rparr>)"
proof (rule db_ok_update_monitors [OF ok], goal_cases)
  case (1 r)
  with valid show ?case
    by (simp add: writeMonitor_def monitor_row_ok_def validateMonitorInput_None input_of_def)
next
  case 2
  from db_okD(1,2) [OF ok] free show ?case
    by (rule distinct_url_update) (simp add: writeMonitor_def)
qed

lemma input_of_update [simp]:
  "input_of (u\<lparr>mon_UpdatedAt := t\<rparr>) = input_of u" "input_of (u\<lparr>mon_Status := st\<rparr>) = input_of u"
  "input_of (u\<lparr>mon_NextCheckAt := t\<rparr>) = input_of u"
  by (simp_all add: input_of_def)

lemma pg_Update_ok:
  assumes ok: "db_ok d"
  shows "db_ok (snd (pg_Update policy X c mid patch d))"
  unfolding pg_Update_def
proof (rule transaction_ok [OF ok], goal_cases)
  case (1 v d')
  then show ?case
    by (auto simp: perform_Inr performIf_Inr Let_def split: option.splits if_splits
        intro!: db_ok_killJobs db_ok_resolveIncidents db_ok_writeMonitor [OF ok, where env = "c_env c" and policy = policy])
qed

lemma pg_Delete_ok: "db_ok d \<Longrightarrow> db_ok (snd (pg_Delete X mid d))"
  by (simp add: pg_Delete_def settle_ok db_ok_deleteMonitor split: option.split)

section \<open>Jobs\<close>

lemma newJobRow_ok [simp]: "job_row_ok (newJobRow i m k s t l p)"
  by (simp add: newJobRow_def job_row_ok_def)

lemma pg_CreateManualJob_ok:
  assumes ok: "db_ok d"
  shows "db_ok (snd (pg_CreateManualJob X c mid d))"
  unfolding pg_CreateManualJob_def
proof (rule transaction_ok [OF ok], goal_cases)
  case (1 v d')
  with ok show ?case
    by (auto simp: perform_Inr Let_def split: option.splits sum.splits if_splits elim!: db_ok_insertJob)
qed

lemma rescheduleRow_ok [simp]:
  "mr_id (rescheduleRow now r) = mr_id r" "mr_url (rescheduleRow now r) = mr_url r"
  "monitor_row_ok (rescheduleRow now r) = monitor_row_ok r"
  by (simp_all add: rescheduleRow_def monitor_row_ok_def)

lemma db_ok_exhaustJobs:
  assumes ok: "db_ok d"
  shows "db_ok (exhaustJobs now mx d)"
proof -
  have "db_ok (d\<lparr>db_jobs := update_rows (exhaustedRow now mx) (exhaustRow now) (db_jobs d)\<rparr>)"
  proof (rule db_ok_update_jobs [OF ok], goal_cases)
    case (1 r)
    from db_ok_jobs [OF ok this(1)] show ?case by (simp add: exhaustRow_def job_row_ok_def active_status_def)
  qed
  from db_ok_update_monitors_url [OF this, of P "rescheduleRow now" for P] db_ok_monitors [OF ok]
  show ?thesis by (simp add: exhaustJobs_def)
qed

lemma db_ok_expireJobs:
  assumes ok: "db_ok d"
  shows "db_ok (expireJobs now mx d)"
  unfolding expireJobs_def
proof (rule db_ok_update_jobs [OF ok], goal_cases)
  case (1 r)
  from db_ok_jobs [OF ok 1(1)] 1(2) show ?case
    by (simp add: expireRow_def expiredRow_def job_row_ok_def active_status_def)
qed

lemma claimIDs_rows:
  assumes ok: "db_ok d" and r: "r \<in> set (db_jobs d)" "jr_id r \<in> set (claimIDs now mx locked n d)"
  shows "claimableRow now mx r"
proof -
  from r(2) obtain x where "x \<in> set (db_jobs d)" "claimableRow now mx x" "jr_id x = jr_id r"
    by (auto simp: claimIDs_def dest!: in_set_takeD)
  moreover have "x = r"
    using db_okD(3) [OF ok] calculation r(1) by (metis distinct_map inj_on_def)
  ultimately show ?thesis by simp
qed

lemma db_ok_claimJobs:
  assumes ok: "db_ok d"
  shows "db_ok (snd (claimJobs now lease token (claimIDs now mx locked n d) d))"
  unfolding claimJobs_def Let_def snd_conv
proof (rule db_ok_update_jobs [OF ok], goal_cases)
  case (1 r)
  from db_ok_jobs [OF ok 1(1)] claimIDs_rows [OF ok 1] show ?case
    by (auto simp: claimRow_def claimableRow_def job_row_ok_def active_status_def)
qed

lemma db_ok_insertDue:
  "insertDue X ce now lease n due jobs d = Inr (jobs', d') \<Longrightarrow> db_ok d \<Longrightarrow> db_ok d'"
  by (induction X ce now lease n due jobs d rule: insertDue.induct)
    (auto simp: perform_Inr Let_def split: sum.splits dest: db_ok_insertJob)

lemma pg_ClaimDueJobs_ok:
  assumes ok: "db_ok d"
  shows "db_ok (snd (pg_ClaimDueJobs X locked c limit lt mx d))"
proof -
  have "db_ok d'" if "db_ok d0" "claimJobs now lease token (claimIDs now mx locked n d0) d0 = (jobs, d')"
    for d0 d' now lease token mx n jobs
    using db_ok_claimJobs [OF that(1), of now lease token mx locked n] that(2) by simp
  note claimed = this
  have *: "db_ok (snd (transaction b cm body d))" if "\<And>v d'. body d = Inr (v, d') \<Longrightarrow> db_ok d'" for b cm body
    using that by (rule transaction_ok [OF ok])
  show ?thesis
    unfolding pg_ClaimDueJobs_def Let_def
    using ok by (auto simp: perform_Inr split: prod.splits if_splits
        intro!: * dest!: claimed [OF db_ok_expireJobs [OF db_ok_exhaustJobs [OF ok]]] db_ok_insertDue)
qed


lemma pg_MarkJobPublished_ok:
  assumes ok: "db_ok d"
  shows "db_ok (snd (pg_MarkJobPublished X c claim d))"
proof -
  have "job_row_ok (publishRow now r)" if "r \<in> set (db_jobs d)" "ownsPublication claim now r" for now r
    using db_ok_jobs [OF ok that(1)] that(2) by (simp add: publishRow_def ownsPublication_def job_row_ok_def)
  then show ?thesis
    using ok by (auto simp: pg_MarkJobPublished_def publishRow_def ownsPublication_def active_status_def intro!: update_or_ok)
qed

lemma pg_ReleaseJobPublish_ok:
  assumes ok: "db_ok d"
  shows "db_ok (snd (pg_ReleaseJobPublish X c claim e d))"
proof -
  have "job_row_ok (releaseRow now e r)" if "r \<in> set (db_jobs d)" for now r
    using db_ok_jobs [OF ok that] by (simp add: releaseRow_def job_row_ok_def)
  then show ?thesis
    using ok by (auto simp: pg_ReleaseJobPublish_def releaseRow_def intro!: update_or_ok)
qed

lemma pg_RecoverQueuedJobs_ok:
  assumes ok: "db_ok d"
  shows "db_ok (snd (pg_RecoverQueuedJobs X c d))"
  unfolding pg_RecoverQueuedJobs_def
proof (rule settle_ok [OF _ ok], rule db_ok_update_jobs [OF ok], goal_cases)
  case (1 r)
  from db_ok_jobs [OF ok 1(1)] 1(2) show ?case
    by (auto simp: recoverRow_def unprocessed_def job_row_ok_def active_status_def)
qed

lemma pg_MarkJobProcessing_ok:
  assumes ok: "db_ok d"
  shows "db_ok (snd (pg_MarkJobProcessing X c mid j a lt d))"
proof -
  have "db_ok (d\<lparr>db_jobs := update_rows (startable mid j (max a 1)) (startRow now l (max a 1) (newID p dr)) (db_jobs d)\<rparr>)"
    for now l p dr
    by (rule db_ok_update_jobs [OF ok]) (auto simp: startRow_def startable_def unprocessed_def job_row_ok_def active_status_def)
  with ok show ?thesis
    by (simp add: pg_MarkJobProcessing_def Let_def settle_ok split: option.split sum.split)
qed

lemma pg_MarkJobFailed_ok:
  assumes ok: "db_ok d"
  shows "db_ok (snd (pg_MarkJobFailed X c lease e delay d))"
proof -
  have "job_row_ok (failRow now w e r)" if "r \<in> set (db_jobs d)" for now w r
    using db_ok_jobs [OF ok that] by (simp add: failRow_def job_row_ok_def)
  then show ?thesis
    using ok by (auto simp: pg_MarkJobFailed_def failRow_def ownsLease_def active_status_def intro!: update_or_ok)
qed

lemma db_ok_end_lease:
  assumes ok: "db_ok d" and f: "\<And>r. jr_id (f r) = jr_id r \<and> jr_monitor_id (f r) = jr_monitor_id r
      \<and> \<not> active_status (jr_status (f r)) \<and> jr_lease_token (f r) = None \<and> jr_attempt (f r) = jr_attempt r"
  shows "db_ok (d\<lparr>db_jobs := update_rows P f (db_jobs d)\<rparr>)"
proof (rule db_ok_update_jobs [OF ok], goal_cases)
  case (1 r)
  from db_ok_jobs [OF ok 1(1)] f [of r] show ?case by (auto simp: job_row_ok_def active_status_def)
qed

lemma deadRow_ends: "jr_id (deadRow now e r) = jr_id r \<and> jr_monitor_id (deadRow now e r) = jr_monitor_id r
      \<and> \<not> active_status (jr_status (deadRow now e r)) \<and> jr_lease_token (deadRow now e r) = None
      \<and> jr_attempt (deadRow now e r) = jr_attempt r"
  by (simp add: deadRow_def active_status_def)

lemma completeRow_ends: "jr_id (completeRow now r) = jr_id r \<and> jr_monitor_id (completeRow now r) = jr_monitor_id r
      \<and> \<not> active_status (jr_status (completeRow now r)) \<and> jr_lease_token (completeRow now r) = None
      \<and> jr_attempt (completeRow now r) = jr_attempt r"
  by (simp add: completeRow_def active_status_def)

lemma pg_MarkJobDead_ok:
  assumes ok: "db_ok d"
  shows "db_ok (snd (pg_MarkJobDead X c lease e d))"
proof -
  let ?d = "\<lambda>now. d\<lparr>db_jobs := update_rows (ownsLease lease now) (deadRow now e) (db_jobs d)\<rparr>"
  have dead: "db_ok (?d now)" for now
    by (rule db_ok_end_lease [OF ok deadRow_ends])
  have "db_ok (?d now\<lparr>db_monitors := update_rows P (rescheduleRow now) (db_monitors (?d now))\<rparr>)" for now P
    by (rule db_ok_update_monitors_url [OF dead]) (simp add: db_ok_monitors [OF ok])
  with dead show ?thesis
    unfolding pg_MarkJobDead_def snd_err_of
    by (auto simp: perform_Inr performIf_Inr Let_def intro!: transaction_ok [OF ok] split: option.splits if_splits)
qed

section \<open>Recording a check\<close>

text \<open>How a committed check got through its guards.\<close>

lemma addCheckBody_Inr:
  assumes "addCheckBody X c record lease policy d = Inr (m, d')"
  obtains mrow jrow d1 where "findMonitor (chk_MonitorID record) d = Some mrow"
    "findJob (chk_JobID record) (chk_MonitorID record) d = Some jrow" "leaseGuard record lease jrow = None"
    "sql_gt (jr_lease_expires_at jrow) (databaseTime c)"
    "insertResult (newResultRow record (databaseTime c)) d
       = Inr (1, d\<lparr>db_results := db_results d @ [newResultRow record (databaseTime c)]\<rparr>)"
    "m = scanMonitor (recordRow record (jr_kind jrow) (databaseTime c) mrow)"
    "upsertIncidentAndAlert (\<lambda>k. X (6 + k)) c record m policy (databaseTime c)
       (d\<lparr>db_results := db_results d @ [newResultRow record (databaseTime c)],
          db_monitors := update_rows (\<lambda>r. mr_id r = chk_MonitorID record)
            (recordRow record (jr_kind jrow) (databaseTime c)) (db_monitors d)\<rparr>) = Inr d1"
    "\<exists>r \<in> set (db_jobs d1). ownsLease lease (laterTime c) r"
    "d' = d1\<lparr>db_jobs := update_rows (ownsLease lease (laterTime c)) (completeRow (databaseTime c)) (db_jobs d1)\<rparr>"
proof -
  have ins: "insertResult row d = Inr (n, d0) \<Longrightarrow> n \<noteq> 0 \<Longrightarrow> n = 1 \<and> d0 = d\<lparr>db_results := db_results d @ [row]\<rparr>"
    for row n d0 by (auto simp: insertResult_def split: if_splits)
  show thesis
    using assms that unfolding addCheckBody_def perform_Inr Let_def
    by (auto simp: perform_Inr split: option.splits sum.splits if_splits prod.splits dest!: ins) blast
qed

text \<open>The four ends of the incident step.\<close>

lemma upsertIncidentAndAlert_Inr:
  assumes "upsertIncidentAndAlert X c record monitor policy now d = Inr d'"
  obtains (resolved) "chk_Success record" "d' = resolveIncidents (chk_MonitorID record) now d"
  | (quiet) inc where "\<not> chk_Success record"
      "upsertIncident (newID ''inc'' (c_draw c)) (chk_MonitorID record) now (failureText record) d = Inr (inc, d')"
      "\<not> alertDue policy now inc"
  | (repeated) inc where "\<not> chk_Success record"
      "upsertIncident (newID ''inc'' (c_draw c)) (chk_MonitorID record) now (failureText record) d = Inr (inc, d')"
      "alertDue policy now inc" "insertOutbox (alertRow c record monitor now inc) d' = Inr (0, d')"
  | (alerted) inc d1 d2 where "\<not> chk_Success record"
      "upsertIncident (newID ''inc'' (c_draw c)) (chk_MonitorID record) now (failureText record) d = Inr (inc, d1)"
      "alertDue policy now inc" "insertOutbox (alertRow c record monitor now inc) d1 = Inr (1, d2)"
      "d' = markAlerted (ir_id inc) now d2"
proof -
  have ins: "insertOutbox row d1 = Inr (n, d2) \<Longrightarrow> n = 0 \<and> d2 = d1 \<or> n = 1" for row n d1 d2
    by (auto simp: insertOutbox_def split: if_splits)
  show thesis
  proof (cases "chk_Success record")
    case True
    with assms resolved show thesis by (simp add: upsertIncidentAndAlert_def perform_Inr)
  next
    case False
    with assms obtain inc d1 where up: "upsertIncident (newID ''inc'' (c_draw c)) (chk_MonitorID record) now (failureText record) d = Inr (inc, d1)"
      by (auto simp: upsertIncidentAndAlert_def perform_Inr Let_def split: sum.splits)
    show thesis
    proof (cases "alertDue policy now inc")
      case due: False
      with assms False up quiet show thesis
        by (simp add: upsertIncidentAndAlert_def perform_Inr Let_def)
    next
      case due: True
      with assms False up obtain n d2 where o: "insertOutbox (alertRow c record monitor now inc) d1 = Inr (n, d2)"
        and d': "d' = (if n = 0 then d2 else markAlerted (ir_id inc) now d2)"
        by (auto simp: upsertIncidentAndAlert_def perform_Inr Let_def split: sum.splits if_splits)
      from ins [OF o] False up due o d' repeated alerted show thesis by auto
    qed
  qed
qed

lemma db_ok_upsertIncidentAndAlert:
  assumes ok: "db_ok d" and run: "upsertIncidentAndAlert X c record monitor policy now d = Inr d'"
    and mon: "chk_MonitorID record \<in> mr_id ` set (db_monitors d)"
  shows "db_ok d' \<and> db_jobs d' = db_jobs d"
  using run
proof (cases rule: upsertIncidentAndAlert_Inr)
  case resolved
  with ok show ?thesis by (simp add: db_ok_resolveIncidents) (simp add: resolveIncidents_def)
next
  case (quiet inc)
  with db_ok_upsertIncident [OF ok _ mon] show ?thesis by blast
next
  case (repeated inc)
  with db_ok_upsertIncident [OF ok _ mon] show ?thesis by blast
next
  case (alerted inc d1 d2)
  note up = db_ok_upsertIncident [OF ok alerted(2) mon]
  have ok2: "db_ok d2" and jobs: "db_jobs d2 = db_jobs d1"
  proof -
    show "db_ok d2"
      by (rule db_ok_insertOutbox [OF up(1) alerted(4)])
        (use up mon in \<open>simp_all add: alertRow_def newOutboxRow_def outbox_row_ok_def\<close>)
    show "db_jobs d2 = db_jobs d1" using alerted(4) by (auto simp: insertOutbox_def split: if_splits)
  qed
  have "db_ok (markAlerted (ir_id inc) now d2)"
    unfolding markAlerted_def
    by (rule db_ok_update_incidents [OF ok2]) (use db_okD(16) [OF ok2] in \<open>auto simp: alertedRow_def\<close>)
  with alerted(5) jobs up(4) show ?thesis by (simp add: markAlerted_def)
qed

lemma addCheckBody_ok:
  assumes ok: "db_ok d" and run: "addCheckBody X c record lease policy d = Inr (m, d')"
  shows "db_ok d'"
  using run
proof (cases rule: addCheckBody_Inr)
  case (1 mrow jrow d1)
  let ?now = "databaseTime c"
  let ?d1 = "d\<lparr>db_results := db_results d @ [newResultRow record ?now]\<rparr>"
  have mon: "chk_MonitorID record \<in> mr_id ` set (db_monitors d)"
    using findMonitor_Some [OF 1(1)] by (metis image_eqI)
  have ok1: "db_ok ?d1"
    by (rule db_ok_insertResult [OF ok 1(5)]) (use mon in \<open>simp add: newResultRow_def\<close>)
  let ?f = "recordRow record (jr_kind jrow) ?now"
  have f: "mr_id (?f r) = mr_id r" "mr_url (?f r) = mr_url r" "monitor_row_ok (?f r) = monitor_row_ok r" for r
    by (simp_all add: recordRow_def monitor_row_ok_def)
  have "db_ok (?d1\<lparr>db_monitors := update_rows (\<lambda>r. mr_id r = chk_MonitorID record) ?f (db_monitors ?d1)\<rparr>)"
    by (rule db_ok_update_monitors_url [OF ok1]) (use db_ok_monitors [OF ok] f in auto)
  then have ok2: "db_ok (?d1\<lparr>db_monitors := update_rows (\<lambda>r. mr_id r = chk_MonitorID record) ?f (db_monitors d)\<rparr>)"
    (is "db_ok ?d2") by simp
  have "map mr_id (db_monitors ?d2) = map mr_id (db_monitors d)"
    using f by (simp add: map_update_rows)
  then have "mr_id ` set (db_monitors ?d2) = mr_id ` set (db_monitors d)"
    by (metis list.set_map)
  with db_ok_upsertIncidentAndAlert [OF ok2] 1(7) mon have "db_ok d1" by simp
  then show ?thesis unfolding 1(9) by (rule db_ok_end_lease [OF _ completeRow_ends])
qed

lemma pg_AddCheck_ok:
  assumes ok: "db_ok d" and run: "pg_AddCheck X c record lease policy d = Some (r, d')"
  shows "db_ok d'"
proof -
  have "db_ok (snd (transaction (X 0) (X 10) (addCheckBody X c record lease policy) d))"
    by (rule transaction_ok [OF ok]) (rule addCheckBody_ok [OF ok])
  with run ok show ?thesis by (auto simp: pg_AddCheck_def split: if_splits)
qed

section \<open>Alerts and retention\<close>

lemma pg_ClaimAlerts_ok:
  assumes ok: "db_ok d"
  shows "db_ok (snd (pg_ClaimAlerts X locked c limit lt mx d))"
proof -
  have ex: "db_ok (d\<lparr>db_outbox := update_rows (exhaustedAlert now m) (exhaustAlert now) (db_outbox d)\<rparr>)" for now m
    by (rule db_ok_update_outbox [OF ok]) (use db_ok_outbox [OF ok] in \<open>simp add: exhaustAlert_def outbox_row_ok_def\<close>)
  have claimed: "db_ok d'" if "db_ok d0" "claimAlertRows now u tok ids d0 = (events, d')" for d0 d' now u tok ids events
  proof -
    have "db_ok (d0\<lparr>db_outbox := update_rows (\<lambda>r. or_id r \<in> set ids) (claimAlertRow now u tok) (db_outbox d0)\<rparr>)"
      by (rule db_ok_update_outbox [OF that(1)])
        (use db_ok_outbox [OF that(1)] in \<open>simp add: claimAlertRow_def outbox_row_ok_def\<close>)
    with that(2) show ?thesis by (auto simp: claimAlertRows_def Let_def)
  qed
  show ?thesis
    unfolding pg_ClaimAlerts_def Let_def
    using ok by (auto simp: perform_Inr intro!: transaction_ok dest!: claimed [OF ex])
qed

lemma writeAlert_ok:
  assumes ok: "db_ok d" and f: "\<And>r. outbox_row_ok r \<Longrightarrow> or_id (f r) = or_id r \<and> or_idempotency_key (f r) = or_idempotency_key r
      \<and> or_monitor_id (f r) = or_monitor_id r \<and> or_incident_id (f r) = or_incident_id r \<and> outbox_row_ok (f r)"
  shows "db_ok (snd (writeAlert x i tok f d))"
proof -
  have "db_ok (d\<lparr>db_outbox := update_rows (ownsAlert i tok) f (db_outbox d)\<rparr>)"
    by (rule db_ok_update_outbox [OF ok f]) (rule db_ok_outbox [OF ok])
  with ok show ?thesis by (simp add: writeAlert_def settle_ok split: option.split)
qed

lemma pg_MarkAlertDelivered_ok: "db_ok d \<Longrightarrow> db_ok (snd (pg_MarkAlertDelivered X c i tok d))"
  unfolding pg_MarkAlertDelivered_def by (rule writeAlert_ok) (simp_all add: deliverRow_def outbox_row_ok_def)

lemma pg_MarkAlertFailed_ok: "db_ok d \<Longrightarrow> db_ok (snd (pg_MarkAlertFailed X c i tok e w dead d))"
  unfolding pg_MarkAlertFailed_def by (rule writeAlert_ok) (simp_all add: failAlertRow_def outbox_row_ok_def)

text \<open>An incident of the batch has no alert left.\<close>

lemma expiredIDs_sound:
  assumes "distinct (map key rows)" "r \<in> set rows" "key r \<in> expiredIDs P age key locked n rows"
  shows "P r \<and> key r \<notin> locked"
proof -
  from assms(3) obtain x where "x \<in> set rows" "P x" "key x = key r" "key x \<notin> locked"
    by (auto simp: expiredIDs_def dest!: in_set_takeD)
  moreover from this have "x = r" using assms(1,2) by (metis distinct_map inj_on_def)
  ultimately show ?thesis by simp
qed

lemma db_ok_batches:
  assumes ok: "db_ok d"
  shows "db_ok (snd (deleteResultBatch locked n t d))" "db_ok (snd (deleteJobBatch locked n t d))"
    "db_ok (snd (deleteAlertBatch locked n t d))" "db_ok (snd (deleteIncidentBatch locked n t d))"
proof -
  show "db_ok (snd (deleteIncidentBatch locked n t d))"
    unfolding deleteIncidentBatch_def Let_def snd_conv deleteIDs_def
    by (rule db_ok_delete_incidents [OF ok])
      (auto dest!: expiredIDs_sound [OF db_okD(9) [OF ok]] simp: resolved_incident_row_def)
qed (simp_all add: deleteResultBatch_def deleteJobBatch_def deleteAlertBatch_def Let_def deleteIDs_def
    db_ok_delete_results db_ok_delete_jobs db_ok_delete_outbox ok)

lemma DeleteExpiredData_Inr:
  assumes "DeleteExpiredData X locked c policy d = (r, d')" "d' \<noteq> d \<or> (\<exists>res. r = Inr res)"
  defines "n \<equiv> rp_BatchSize policy" and "cutoff \<equiv> \<lambda>age. timestamptz (databaseTime c - age)"
  obtains k1 d1 k2 d2 k3 d3 k4 where "deleteResultBatch locked n (cutoff (rp_CheckResults policy)) d = (k1, d1)"
    "deleteJobBatch locked n (cutoff (rp_CheckJobs policy)) d1 = (k2, d2)"
    "deleteAlertBatch locked n (cutoff (rp_AlertOutbox policy)) d2 = (k3, d3)"
    "deleteIncidentBatch locked n (cutoff (rp_ResolvedIncident policy)) d3 = (k4, d')"
    "0 < n" "r = Inr \<lparr>rres_CheckResults = k1, rres_CheckJobs = k2, rres_AlertOutbox = k3, rres_ResolvedIncidents = k4\<rparr>
       \<or> (\<exists>t. r = Inl (ErrOther t))"
  using assms
  by (auto simp: DeleteExpiredData_def perform_Inr Let_def split: if_splits prod.splits elim!: transaction_cases)

lemma DeleteExpiredData_ok:
  assumes ok: "db_ok d"
  shows "db_ok (snd (DeleteExpiredData X locked c policy d))"
proof -
  obtain r d' where run: "DeleteExpiredData X locked c policy d = (r, d')" by fastforce
  have "db_ok d'"
  proof (cases "d' = d")
    case False
    then have "d' \<noteq> d \<or> (\<exists>res. r = Inr res)" ..
    with run show ?thesis
    proof (cases rule: DeleteExpiredData_Inr)
      case (1 k1 d1 k2 d2 k3 d3 k4)
      from 1(1) have "db_ok d1" using db_ok_batches(1) [OF ok] by (metis snd_conv)
      with 1(2) have "db_ok d2" using db_ok_batches(2) by (metis snd_conv)
      with 1(3) have "db_ok d3" using db_ok_batches(3) by (metis snd_conv)
      with 1(4) show ?thesis using db_ok_batches(4) by (metis snd_conv)
    qed
  qed (use ok in simp)
  with run show ?thesis by simp
qed

end
