(* ===== verification/Pg_Lifecycle.thy ===== *)
theory Pg_Lifecycle
  imports Pg_Preserves
begin

text \<open>
  The operations of the PostgreSQL repository as one step relation, the databases it reaches,
  and the refinement of the job lifecycle: the table of jobs, read by \<open>scanCheckJob\<close>, moves by
  the transitions the in-memory store makes too, under any failure of statements and
  commits.
\<close>

section \<open>Steps\<close>

text \<open>The set is that of the lease tokens the step draws.\<close>

inductive pg_step :: "NetworkPolicy \<Rightarrow> string set \<Rightarrow> db \<Rightarrow> db \<Rightarrow> bool" for policy where
  pgs_Create: "pg_step policy {} d (snd (pg_Create policy X c input d))"
| pgs_Update: "pg_step policy {} d (snd (pg_Update policy X c mid patch d))"
| pgs_Delete: "pg_step policy {} d (snd (pg_Delete X mid d))"
| pgs_Manual: "pg_step policy {} d (snd (pg_CreateManualJob X c mid d))"
| pgs_Claim: "pg_step policy {} d (snd (pg_ClaimDueJobs X locked c limit lt mx d))"
| pgs_Published: "pg_step policy {} d (snd (pg_MarkJobPublished X c claim d))"
| pgs_Release: "pg_step policy {} d (snd (pg_ReleaseJobPublish X c claim err d))"
| pgs_Topology: "pg_step policy {} d (snd (pg_RecoverQueuedJobs X c d))"
| pgs_Processing: "pg_step policy {newID ''lease'' (c_draw c)} d (snd (pg_MarkJobProcessing X c mid j attempt lt d))"
| pgs_Failed: "pg_step policy {} d (snd (pg_MarkJobFailed X c lease err delay d))"
| pgs_Dead: "pg_step policy {} d (snd (pg_MarkJobDead X c lease err d))"
| pgs_AddCheck: "pg_AddCheck X c record lease alerts d = Some (res, d') \<Longrightarrow> pg_step policy {} d d'"
| pgs_ClaimAlerts: "pg_step policy {} d (snd (pg_ClaimAlerts X locked c limit lt mx d))"
| pgs_Delivered: "pg_step policy {} d (snd (pg_MarkAlertDelivered X c i tok d))"
| pgs_AlertFailed: "pg_step policy {} d (snd (pg_MarkAlertFailed X c i tok err delay dead d))"
| pgs_Retention: "pg_step policy {} d (snd (DeleteExpiredData X locked c rp d))"

inductive pg_reachable :: "NetworkPolicy \<Rightarrow> db \<Rightarrow> bool" for policy where
  pgr_init: "pg_reachable policy empty_db"
| pgr_step: "pg_reachable policy d \<Longrightarrow> pg_step policy N d d' \<Longrightarrow> pg_reachable policy d'"

lemma pg_step_ok: "pg_step policy N d d' \<Longrightarrow> db_ok d \<Longrightarrow> db_ok d'"
  by (induction rule: pg_step.induct)
    (simp_all add: pg_Create_ok pg_Update_ok pg_Delete_ok pg_CreateManualJob_ok pg_ClaimDueJobs_ok
      pg_MarkJobPublished_ok pg_ReleaseJobPublish_ok pg_RecoverQueuedJobs_ok pg_MarkJobProcessing_ok
      pg_MarkJobFailed_ok pg_MarkJobDead_ok pg_AddCheck_ok pg_ClaimAlerts_ok pg_MarkAlertDelivered_ok
      pg_MarkAlertFailed_ok DeleteExpiredData_ok)

lemma empty_db_ok: "db_ok empty_db"
  by (simp add: db_ok_def schema_ok_def rows_ok_def empty_db_def)

lemma pg_reachable_db_ok: "pg_reachable policy d \<Longrightarrow> db_ok d"
  by (induction rule: pg_reachable.induct) (simp_all add: empty_db_ok pg_step_ok)

section \<open>The lifecycle of a row\<close>

definition rows_evolve :: "string set \<Rightarrow> job_row list \<Rightarrow> job_row list \<Rightarrow> bool" where
  "rows_evolve N rows rows' \<longleftrightarrow> (\<forall>r' \<in> set rows'.
     (\<exists>r \<in> set rows. lifecycle N (scanCheckJob r) (scanCheckJob r')) \<or> newborn (scanCheckJob r'))"

lemma rows_evolve_refl [simp]: "rows_evolve N rows rows"
  unfolding rows_evolve_def using lifecycle_refl by blast

lemma rows_evolve_sub: "set rows' \<subseteq> set rows \<Longrightarrow> rows_evolve N rows rows'"
  unfolding rows_evolve_def using lifecycle_refl by blast

lemma rows_evolve_filter [simp]: "rows_evolve N rows (filter P rows)"
  by (rule rows_evolve_sub) simp

lemma rows_evolve_update:
  "(\<And>r. r \<in> set rows \<Longrightarrow> P r \<Longrightarrow> lifecycle N (scanCheckJob r) (scanCheckJob (f r))) \<Longrightarrow> rows_evolve N rows (update_rows P f rows)"
  unfolding rows_evolve_def set_update_rows using lifecycle_refl by blast

lemma rows_evolve_append: "newborn (scanCheckJob r) \<Longrightarrow> rows_evolve N rows (rows @ [r])"
  unfolding rows_evolve_def using lifecycle_refl by (metis UnE empty_iff insert_iff list.set set_append)

lemma scanCheckJob_lifecycle:
  "lifecycle N (scanCheckJob r) (scanCheckJob r') \<longleftrightarrow>
     jr_id r' = jr_id r \<and> jr_monitor_id r' = jr_monitor_id r \<and> jr_kind r' = jr_kind r
     \<and> jr_scheduled_for r' = jr_scheduled_for r \<and> jr_created_at r' = jr_created_at r
     \<and> jr_status r' \<in> set (next_statuses (jr_status r))
     \<and> (let tok = (\<lambda>x. case jr_lease_token x of None \<Rightarrow> [] | Some v \<Rightarrow> v)
        in if jr_status r \<noteq> checkJobStatusProcessing \<and> jr_status r' = checkJobStatusProcessing
           then jr_attempt r < jr_attempt r' \<and> tok r' \<in> N
           else jr_attempt r' = jr_attempt r \<and> (tok r' = [] \<or> tok r' = tok r))"
  by (auto simp: lifecycle_def same_job_def starts_def scanCheckJob_def Let_def)

lemma newJobRow_newborn [simp]: "newborn (scanCheckJob (newJobRow i m k s t l p))"
  by (simp add: newJobRow_def newborn_def scanCheckJob_def)

lemma job_row_token: "job_row_ok r \<Longrightarrow> jr_status r \<noteq> checkJobStatusProcessing \<Longrightarrow> jr_lease_token r = None"
  by (auto simp: job_row_ok_def)

text \<open>One call of the claim moves a row at most from expired to claimed, or to dead.\<close>

lemma claim_lifecycle:
  assumes ok: "job_row_ok r"
    and r1: "r1 = (if exhaustedRow now mx r then exhaustRow now r else r)"
    and r2: "r2 = (if expiredRow now mx r1 then expireRow now r1 else r1)"
    and r3: "r3 = (if b then claimRow now lease tok r2 else r2)"
    and C: "b \<Longrightarrow> claimableRow now mx r2"
  shows "lifecycle {} (scanCheckJob r) (scanCheckJob r3)"
proof (cases "exhaustedRow now mx r")
  case True
  then have "jr_status r1 = checkJobStatusDead" by (simp add: r1 exhaustRow_def)
  then have "r3 = r1" using C by (auto simp: r3 r2 expiredRow_def claimableRow_def)
  with True show ?thesis
    by (auto simp: r1 exhaustRow_def exhaustedRow_def scanCheckJob_lifecycle)
next
  case False
  then have "r1 = r" by (simp add: r1)
  show ?thesis
  proof (cases "expiredRow now mx r")
    case True
    with \<open>r1 = r\<close> show ?thesis
      by (auto simp: r3 r2 expiredRow_def expireRow_def claimRow_def scanCheckJob_lifecycle)
  next
    case False
    with \<open>r1 = r\<close> have "r2 = r" by (simp add: r2)
    with C ok show ?thesis
      by (auto simp: r3 claimRow_def claimableRow_def scanCheckJob_lifecycle job_row_token)
  qed
qed

lemma update_rowsE:
  assumes "r' \<in> set (update_rows P f rows)"
  obtains r where "r \<in> set rows" "r' = (if P r then f r else r)"
  using assms by (auto simp: update_rows_def)

lemma insertDue_evolve:
  "insertDue X ce now lease n due jobs d = Inr (jobs', d') \<Longrightarrow>
   \<forall>r' \<in> set (db_jobs d'). r' \<in> set (db_jobs d) \<or> newborn (scanCheckJob r')"
proof (induction X ce now lease n due jobs d rule: insertDue.induct)
  case (2 X ce now lease n m due jobs d)
  then show ?case
    by (fastforce simp: perform_Inr Let_def insertJob_def split: sum.splits if_splits)
qed simp

lemma claim_evolve:
  assumes ok: "db_ok d"
    and claimed: "claimJobs now lease tok (claimIDs now mx locked n (expireJobs now mx (exhaustJobs now mx d)))
       (expireJobs now mx (exhaustJobs now mx d)) = (jobs, d')"
  shows "\<forall>r' \<in> set (db_jobs d'). \<exists>r \<in> set (db_jobs d). lifecycle {} (scanCheckJob r) (scanCheckJob r')"
proof
  let ?d2 = "expireJobs now mx (exhaustJobs now mx d)"
  let ?ids = "claimIDs now mx locked n ?d2"
  have ok2: "db_ok ?d2" by (rule db_ok_expireJobs [OF db_ok_exhaustJobs [OF ok]])
  fix r' assume "r' \<in> set (db_jobs d')"
  then have "r' \<in> set (update_rows (\<lambda>r. jr_id r \<in> set ?ids) (claimRow now lease tok) (db_jobs ?d2))"
    using claimed by (auto simp: claimJobs_def Let_def)
  then obtain r2 where r2: "r2 \<in> set (db_jobs ?d2)" "r' = (if jr_id r2 \<in> set ?ids then claimRow now lease tok r2 else r2)"
    by (rule update_rowsE)
  then obtain r1 where r1: "r1 \<in> set (db_jobs (exhaustJobs now mx d))" "r2 = (if expiredRow now mx r1 then expireRow now r1 else r1)"
    by (auto simp: expireJobs_def elim: update_rowsE)
  then obtain r where r: "r \<in> set (db_jobs d)" "r1 = (if exhaustedRow now mx r then exhaustRow now r else r)"
    by (auto simp: exhaustJobs_def elim: update_rowsE)
  have "lifecycle {} (scanCheckJob r) (scanCheckJob r')"
    by (rule claim_lifecycle [OF db_ok_jobs [OF ok r(1)] r(2) r1(2) r2(2) claimIDs_rows [OF ok2 r2(1)]])
  with r(1) show "\<exists>r \<in> set (db_jobs d). lifecycle {} (scanCheckJob r) (scanCheckJob r')" by blast
qed

section \<open>Every operation follows the lifecycle\<close>

lemma upsertIncidentAndAlert_frame:
  assumes "upsertIncidentAndAlert X c record monitor policy now d = Inr d'"
  shows "db_results d' = db_results d" "db_jobs d' = db_jobs d" "db_monitors d' = db_monitors d"
  using assms
  by (auto simp: upsertIncidentAndAlert_def upsertIncident_def insertOutbox_def resolveIncidents_def markAlerted_def
      perform_Inr Let_def split: if_splits option.splits sum.splits prod.splits)

lemma transaction_evolve:
  "(\<And>v d'. body d = Inr (v, d') \<Longrightarrow> rows_evolve N (db_jobs d) (db_jobs d')) \<Longrightarrow>
   rows_evolve N (db_jobs d) (db_jobs (snd (transaction b c body d)))"
  by (auto simp: transaction_def settle_def split: option.split sum.split pg_outcome.split)

lemma settle_evolve:
  "rows_evolve N (db_jobs d) (db_jobs new) \<Longrightarrow> rows_evolve N (db_jobs d) (db_jobs (snd (settle x v new d)))"
  by (simp add: settle_def split: pg_outcome.split)

lemma update_or_evolve:
  assumes "\<And>r. r \<in> set (db_jobs d) \<Longrightarrow> P r \<Longrightarrow> lifecycle N (scanCheckJob r) (scanCheckJob (f r))"
  shows "rows_evolve N (db_jobs d) (db_jobs (snd (update_or x P f otherwise d)))"
  using rows_evolve_update [OF assms]
  by (simp add: update_or_def settle_evolve split: option.split)

lemma killJobs_evolve: "rows_evolve N (db_jobs d) (db_jobs (killJobs mid now t d))"
proof -
  have "rows_evolve N (db_jobs d) (update_rows (\<lambda>r. jr_monitor_id r = mid \<and> active_status (jr_status r))
         (\<lambda>r. r\<lparr>jr_status := checkJobStatusDead, jr_completed_at := Some now,
                jr_processing_started_at := None, jr_lease_expires_at := None, jr_lease_token := None,
                jr_last_error := t, jr_updated_at := now\<rparr>) (db_jobs d))"
    by (rule rows_evolve_update) (auto simp: scanCheckJob_lifecycle active_status_def)
  then show ?thesis by (simp add: killJobs_def)
qed

lemma pg_Update_evolve: "rows_evolve N (db_jobs d) (db_jobs (snd (pg_Update policy X c mid patch d)))"
  unfolding pg_Update_def
proof (rule transaction_evolve, goal_cases)
  case (1 v d')
  have "rows_evolve N (db_jobs d) (db_jobs (killJobs mid now t d0))" if "db_jobs d0 = db_jobs d" for now t d0
    using killJobs_evolve [of N d mid now t] that by (simp add: killJobs_def)
  with 1 show ?case
    by (auto simp: perform_Inr performIf_Inr Let_def resolveIncidents_def split: option.splits if_splits)
qed

lemma pg_Manual_evolve: "rows_evolve N (db_jobs d) (db_jobs (snd (pg_CreateManualJob X c mid d)))"
  unfolding pg_CreateManualJob_def
  by (rule transaction_evolve)
    (auto simp: perform_Inr Let_def insertJob_def rows_evolve_append split: option.splits sum.splits if_splits)

lemma pg_Claim_evolve:
  assumes ok: "db_ok d"
  shows "rows_evolve {} (db_jobs d) (db_jobs (snd (pg_ClaimDueJobs X locked c limit lt mx d)))"
proof -
  have due: "rows_evolve {} (db_jobs d) (db_jobs d')"
    if "claimJobs now lease tok (claimIDs now m locked n (expireJobs now m (exhaustJobs now m d)))
       (expireJobs now m (exhaustJobs now m d)) = (jobs, d0)"
      "d' = d0 \<or> insertDue Y ce now lease k ms jobs d0 = Inr (jobs', d')"
    for d' d0 now lease tok n m jobs jobs' Y ce k ms
    using claim_evolve [OF ok that(1)] that(2) insertDue_evolve unfolding rows_evolve_def by metis
  show ?thesis
    unfolding pg_ClaimDueJobs_def Let_def
    by (auto simp: perform_Inr split: prod.splits if_splits intro!: transaction_evolve dest: due)
qed

lemma pg_Published_evolve: "rows_evolve N (db_jobs d) (db_jobs (snd (pg_MarkJobPublished X c claim d)))"
  unfolding pg_MarkJobPublished_def
  by (auto intro!: update_or_evolve simp: scanCheckJob_lifecycle publishRow_def ownsPublication_def Let_def)

lemma pg_Release_evolve: "rows_evolve N (db_jobs d) (db_jobs (snd (pg_ReleaseJobPublish X c claim e d)))"
  unfolding pg_ReleaseJobPublish_def
  by (auto intro!: update_or_evolve simp: scanCheckJob_lifecycle releaseRow_def Let_def)

lemma pg_Topology_evolve: "rows_evolve N (db_jobs d) (db_jobs (snd (pg_RecoverQueuedJobs X c d)))"
  unfolding pg_RecoverQueuedJobs_def
  by (rule settle_evolve) (auto intro!: rows_evolve_update simp: scanCheckJob_lifecycle recoverRow_def unprocessed_def)

lemma pg_Processing_evolve:
  "rows_evolve {newID ''lease'' (c_draw c)} (db_jobs d) (db_jobs (snd (pg_MarkJobProcessing X c mid j a lt d)))"
proof -
  have "rows_evolve {newID ''lease'' (c_draw c)} (db_jobs d)
      (update_rows (startable mid j a) (startRow t l a (newID ''lease'' (c_draw c))) (db_jobs d))" for t l a
    by (rule rows_evolve_update) (auto simp: scanCheckJob_lifecycle startRow_def startable_def unprocessed_def)
  then show ?thesis
    by (simp add: pg_MarkJobProcessing_def Let_def settle_evolve split: option.split sum.split)
qed

lemma pg_Failed_evolve: "rows_evolve N (db_jobs d) (db_jobs (snd (pg_MarkJobFailed X c lease e w d)))"
  unfolding pg_MarkJobFailed_def
  by (rule update_or_evolve) (auto simp: scanCheckJob_lifecycle failRow_def ownsLease_def)

lemma deadRow_lifecycle: "ownsLease lease t r \<Longrightarrow> lifecycle N (scanCheckJob r) (scanCheckJob (deadRow now e r))"
  by (auto simp: scanCheckJob_lifecycle deadRow_def ownsLease_def)

lemma completeRow_lifecycle: "ownsLease lease t r \<Longrightarrow> lifecycle N (scanCheckJob r) (scanCheckJob (completeRow now r))"
  by (auto simp: scanCheckJob_lifecycle completeRow_def ownsLease_def)

lemma pg_Dead_evolve: "rows_evolve N (db_jobs d) (db_jobs (snd (pg_MarkJobDead X c lease e d)))"
  unfolding pg_MarkJobDead_def snd_err_of
  by (rule transaction_evolve)
    (auto simp: perform_Inr performIf_Inr Let_def intro!: rows_evolve_update deadRow_lifecycle split: option.splits if_splits)

lemma pg_AddCheck_evolve:
  assumes run: "pg_AddCheck X c record lease alerts d = Some (res, d')"
  shows "rows_evolve N (db_jobs d) (db_jobs d')"
proof -
  have "rows_evolve N (db_jobs d) (db_jobs d1)" if "addCheckBody X c record lease alerts d = Inr (m, d1)" for m d1
    using that
  proof (cases rule: addCheckBody_Inr)
    case (1 mrow jrow d2)
    from upsertIncidentAndAlert_frame(2) [OF 1(7)] show ?thesis
      by (auto simp: 1(9) intro!: rows_evolve_update completeRow_lifecycle)
  qed
  then have "rows_evolve N (db_jobs d) (db_jobs (snd (transaction (X 0) (X 10) (addCheckBody X c record lease alerts) d)))"
    by (rule transaction_evolve)
  with run show ?thesis
    by (auto simp: pg_AddCheck_def split: if_splits)
qed

lemma pg_alerts_jobs [simp]:
  "db_jobs (snd (writeAlert x i tok f d)) = db_jobs d" "db_jobs (snd (pg_ClaimAlerts X locked c limit lt mx d)) = db_jobs d"
proof -
  have "db_jobs (snd (transaction b c body d)) = db_jobs d"
    if "\<And>v d'. body d = Inr (v, d') \<Longrightarrow> db_jobs d' = db_jobs d" for b c and body :: "db \<Rightarrow> go_error + AlertOutboxEvent list \<times> db"
    using that by (auto simp: transaction_def settle_def split: option.split sum.split pg_outcome.split)
  note tr = this
  show "db_jobs (snd (pg_ClaimAlerts X locked c limit lt mx d)) = db_jobs d"
    unfolding pg_ClaimAlerts_def Let_def
    by (auto simp: perform_Inr claimAlertRows_def Let_def intro!: tr)
qed (simp add: writeAlert_def settle_def split: pg_outcome.split option.split)

lemma pg_Retention_evolve: "rows_evolve N (db_jobs d) (db_jobs (snd (DeleteExpiredData X locked c rp d)))"
  unfolding DeleteExpiredData_def
  by (auto simp: perform_Inr Let_def deleteResultBatch_def deleteJobBatch_def deleteAlertBatch_def
      deleteIncidentBatch_def deleteIDs_def intro!: transaction_evolve split: prod.splits)

lemma pg_step_evolve: "pg_step policy N d d' \<Longrightarrow> db_ok d \<Longrightarrow> rows_evolve N (db_jobs d) (db_jobs d')"
proof (induction rule: pg_step.induct)
  case (pgs_Create d X c input)
  have "db_jobs (snd (pg_Create policy X c input d)) = db_jobs d"
    by (simp add: pg_Create_def Let_def settle_def split: option.split pg_outcome.split)
  then show ?case by simp
next
  case (pgs_Delete d X mid)
  show ?case by (simp add: pg_Delete_def settle_evolve deleteMonitorRows_def Let_def split: option.split)
qed (simp_all add: pg_Update_evolve pg_Manual_evolve pg_Claim_evolve pg_Published_evolve pg_Release_evolve pg_Topology_evolve
    pg_Processing_evolve pg_Failed_evolve pg_Dead_evolve pg_AddCheck_evolve pg_Retention_evolve
    pg_MarkAlertDelivered_def pg_MarkAlertFailed_def)

section \<open>The abstract job table\<close>

text \<open>The specification: a table of jobs that moves by \<open>lifecycle\<close>, gains newborn jobs and loses
  others. \<open>job_table\<close> abstracts a database to it.\<close>

definition lifecycle_step ::
  "string set \<Rightarrow> (string \<rightharpoonup> CheckJobRecord) \<Rightarrow> (string \<rightharpoonup> CheckJobRecord) \<Rightarrow> bool" where
  "lifecycle_step N T T' \<longleftrightarrow> (\<forall>j job'. T' j = Some job' \<longrightarrow>
     (\<exists>job. T j = Some job \<and> lifecycle N job job') \<or> newborn job')"

definition job_table :: "db \<Rightarrow> string \<rightharpoonup> CheckJobRecord" where
  "job_table d j = map_option scanCheckJob (List.find (\<lambda>r. jr_id r = j) (db_jobs d))"

lemma job_table_row: "db_ok d \<Longrightarrow> r \<in> set (db_jobs d) \<Longrightarrow> job_table d (jr_id r) = Some (scanCheckJob r)"
  using find_key [OF db_okD(3), of d r "\<lambda>x. jr_id x = jr_id r"] by (simp add: job_table_def)

lemma rows_evolve_table:
  assumes ok: "db_ok d" and ev: "rows_evolve N (db_jobs d) (db_jobs d')"
  shows "lifecycle_step N (job_table d) (job_table d')"
  unfolding lifecycle_step_def
proof (intro allI impI)
  fix j job' assume "job_table d' j = Some job'"
  then obtain r' where r': "r' \<in> set (db_jobs d')" "jr_id r' = j" "job' = scanCheckJob r'"
    by (auto simp: job_table_def dest!: find_SomeD)
  with ev consider r where "r \<in> set (db_jobs d)" "lifecycle N (scanCheckJob r) job'" | "newborn job'"
    by (auto simp: rows_evolve_def)
  then show "(\<exists>job. job_table d j = Some job \<and> lifecycle N job job') \<or> newborn job'"
  proof cases
    case (1 r)
    with r' have "jr_id r = j" by (simp add: scanCheckJob_lifecycle)
    with 1 job_table_row [OF ok 1(1)] show ?thesis by auto
  qed simp
qed

lemma pg_step_table: "pg_step policy N d d' \<Longrightarrow> db_ok d \<Longrightarrow> lifecycle_step N (job_table d) (job_table d')"
  by (rule rows_evolve_table) (simp_all add: pg_step_evolve)

lemma store_step_table:
  "store_step env c c' \<Longrightarrow> store_inv env (fst c) \<Longrightarrow> lifecycle_step (snd c' - snd c) (checkJobs (fst c)) (checkJobs (fst c'))"
  using store_step_evolve by (simp add: lifecycle_step_def jobs_evolve_def)

end
