(* ===== verification/Pg_Worker.thy ===== *)
theory Pg_Worker
  imports Pg_Lifecycle Worker_Store
begin

text \<open>
  The worker over the PostgreSQL repository: the repository is an interpretation of
  \<open>lease_repository\<close> whatever statements fail, so the handler's guarantee carries over.
\<close>

section \<open>The repository has leases\<close>

definition pg_live :: "ProcessingLease \<Rightarrow> gotime \<Rightarrow> db \<Rightarrow> bool" where
  "pg_live lease t d \<longleftrightarrow> (\<exists>r \<in> set (db_jobs d). ownsLease lease t r)"

definition pg_recorded :: "string \<Rightarrow> db \<Rightarrow> bool" where
  "pg_recorded j d \<longleftrightarrow> (\<exists>r \<in> set (db_results d). rr_job_id r = Some j)
     \<or> (\<exists>r \<in> set (db_jobs d). jr_id r = j \<and> jr_status r = checkJobStatusCompleted)"

definition pg_waiting :: "string \<Rightarrow> string \<Rightarrow> int \<Rightarrow> db \<Rightarrow> bool" where
  "pg_waiting m j attempt d \<longleftrightarrow> (\<exists>r \<in> set (db_jobs d). startable m j (max attempt 1) r)"

lemma timestamptz_le: "timestamptz t \<le> t"
  by (simp add: timestamptz_def)

lemma ownsLease_earlier: "ownsLease lease t r \<Longrightarrow> t' \<le> t \<Longrightarrow> ownsLease lease t' r"
  by (auto simp: ownsLease_def sql_gt_def split: option.splits)

lemma live_call:
  "pg_live lease (call_time c) d \<Longrightarrow> pg_live lease (databaseTime c) d"
  using timestamptz_le [of "c_now c"]
  by (auto simp: pg_live_def call_time_def databaseTime_def intro!: bexI elim!: ownsLease_earlier)

lemma ended_not_live:
  assumes "\<And>r. jr_status (f r) \<noteq> checkJobStatusProcessing"
  shows "\<not> pg_live lease (call_time c) (d\<lparr>db_jobs := update_rows (ownsLease lease (databaseTime c)) f (db_jobs d)\<rparr>)"
proof
  let ?d = "d\<lparr>db_jobs := update_rows (ownsLease lease (databaseTime c)) f (db_jobs d)\<rparr>"
  assume "pg_live lease (call_time c) ?d"
  from live_call [OF this] assms show False
    by (auto simp: pg_live_def set_update_rows ownsLease_def)
qed

lemma update_or_cases:
  assumes "update_or x P f otherwise d = (res, d')"
  obtains (written) "\<exists>r \<in> set (db_jobs d). P r" "res = None \<or> (\<exists>t. res = Some (ErrOther t))"
    "d' = d\<lparr>db_jobs := update_rows P f (db_jobs d)\<rparr>"
  | (broken) t where "res = Some (ErrOther t)" "d' = d"
  | (nothing) "\<not> (\<exists>r \<in> set (db_jobs d). P r)" "res = otherwise d" "d' = d"
proof -
  have "(\<exists>r \<in> set (db_jobs d). P r) \<and> (res = None \<or> (\<exists>t. res = Some (ErrOther t)))
      \<and> d' = d\<lparr>db_jobs := update_rows P f (db_jobs d)\<rparr>
    \<or> (\<exists>t. res = Some (ErrOther t)) \<and> d' = d
    \<or> \<not> (\<exists>r \<in> set (db_jobs d). P r) \<and> res = otherwise d \<and> d' = d"
    using assms by (auto simp: update_or_def err_of_def settle_def failed_def split: if_splits pg_outcome.splits)
  with that show thesis by blast
qed

lemma pg_failed_ends:
  assumes "pg_MarkJobFailed X c lease e delay d = (res, d')"
    and "res = None \<or> res = Some ErrStaleJob \<or> res = Some ErrMonitorNotFound"
  shows "\<not> pg_live lease (call_time c) d'"
  using assms(1) unfolding pg_MarkJobFailed_def
proof (cases rule: update_or_cases)
  case written
  then show ?thesis by (simp add: ended_not_live failRow_def)
next
  case nothing
  with live_call [of lease c d] show ?thesis by (auto simp: pg_live_def)
qed (use assms(2) in simp)

lemma pg_MarkJobDead_cases:
  assumes "pg_MarkJobDead X c lease e d = (res, d')"
  obtains (written) P where "\<exists>r \<in> set (db_jobs d). ownsLease lease (databaseTime c) r"
      "res = None \<or> (\<exists>t. res = Some (ErrOther t))"
      "db_jobs d' = update_rows (ownsLease lease (databaseTime c)) (deadRow (databaseTime c) e) (db_jobs d)"
      "db_monitors d' = update_rows P (rescheduleRow (databaseTime c)) (db_monitors d)"
      "db_results d' = db_results d" "db_incidents d' = db_incidents d" "db_outbox d' = db_outbox d"
  | (broken) t where "res = Some (ErrOther t)" "d' = d"
  | (missing) "findMonitor (lease_MonitorID lease) d = None" "res = Some ErrMonitorNotFound" "d' = d"
  | (unowned) "\<not> (\<exists>r \<in> set (db_jobs d). ownsLease lease (databaseTime c) r)" "\<exists>e. res = Some e" "d' = d"
proof -
  let ?own = "ownsLease lease (databaseTime c)"
  obtain r where r: "transaction (X 0) (X 5) (\<lambda>d.
       perform (X 1) (findMonitor (lease_MonitorID lease) d) (\<lambda>found.
         if found = None then Inl ErrMonitorNotFound
         else
           (let now = databaseTime c in
            perform (X 2) (List.find (ownsLease lease now) (db_jobs d)) (\<lambda>owned.
              case owned of
                None \<Rightarrow> Inl (classifyInactiveJobQuery (X 3) (lease_MonitorID lease) (lease_JobID lease) d)
              | Some row \<Rightarrow>
                  (let d = d\<lparr>db_jobs := update_rows (ownsLease lease now) (deadRow now e) (db_jobs d)\<rparr>
                   in performIf (jr_kind row = checkJobKindScheduled) (X 4)
                        (d\<lparr>db_monitors := update_rows (\<lambda>m. mr_id m = lease_MonitorID lease) (rescheduleRow now)
                             (db_monitors d)\<rparr>) d (\<lambda>d. Inr ((), d))))))) d = (r, d')"
      and res: "res = (case r of Inl x \<Rightarrow> Some x | Inr _ \<Rightarrow> None)"
    using assms unfolding pg_MarkJobDead_def err_of_def by (auto split: prod.splits sum.splits)
  from r show thesis
  proof (cases rule: transaction_cases)
    case (aborted x)
    then consider "\<exists>t. x = ErrOther t" | "findMonitor (lease_MonitorID lease) d = None" "x = ErrMonitorNotFound"
      | "List.find ?own (db_jobs d) = None"
      by (auto simp: perform_Inl performIf_def Let_def split: option.splits if_splits dest: failed_Some)
    then show thesis
      using aborted(1,2) res broken missing unowned by cases (auto simp: find_None_iff)
  next
    case (committed v)
    then obtain row where row: "List.find ?own (db_jobs d) = Some row"
      and d': "d' = d\<lparr>db_jobs := update_rows ?own (deadRow (databaseTime c) e) (db_jobs d)\<rparr>
        \<or> d' = d\<lparr>db_jobs := update_rows ?own (deadRow (databaseTime c) e) (db_jobs d),
            db_monitors := update_rows (\<lambda>m. mr_id m = lease_MonitorID lease) (rescheduleRow (databaseTime c)) (db_monitors d)\<rparr>"
      by (auto simp: perform_Inr performIf_Inr Let_def split: option.splits if_splits)
    have own: "\<exists>r \<in> set (db_jobs d). ?own r" using find_SomeD [OF row] by blast
    have "update_rows (\<lambda>_. False) g rows = rows" for g and rows :: "monitor_row list" by (simp add: update_rows_def)
    with d' committed(2) res written [OF own, of "\<lambda>_. False"] written [OF own, of "\<lambda>m. mr_id m = lease_MonitorID lease"]
    show thesis by (auto split: sum.splits)
  qed
qed

lemma no_monitor_not_live:
  assumes ok: "db_ok d" and none: "findMonitor (lease_MonitorID lease) d = None"
  shows "\<not> pg_live lease t d"
proof
  assume "pg_live lease t d"
  then obtain r where "r \<in> set (db_jobs d)" "jr_monitor_id r = lease_MonitorID lease"
    by (auto simp: pg_live_def ownsLease_def)
  with db_okD(5) [OF ok] none show False unfolding findMonitor_None by (metis image_eqI subset_eq)
qed

lemma pg_dead_ends:
  assumes ok: "db_ok d" and call: "pg_MarkJobDead X c lease e d = (res, d')"
    and res: "res = None \<or> res = Some ErrStaleJob \<or> res = Some ErrMonitorNotFound"
  shows "\<not> pg_live lease (call_time c) d'"
  using call
proof (cases rule: pg_MarkJobDead_cases)
  case (written P)
  with ended_not_live [of "deadRow (databaseTime c) e" lease c d] show ?thesis
    by (simp add: pg_live_def deadRow_def)
next
  case unowned
  with live_call [of lease c d] show ?thesis by (auto simp: pg_live_def)
qed (use res no_monitor_not_live [OF ok] in auto)

lemma upsertIncidentAndAlert_Inl:
  "upsertIncidentAndAlert X c record monitor policy now d = Inl e \<Longrightarrow> \<exists>t. e = ErrOther t"
  by (auto simp: upsertIncidentAndAlert_def upsertIncident_def insertOutbox_def perform_Inl Let_def
      split: if_splits option.splits sum.splits prod.splits dest: failed_Some)

text \<open>Why a check is refused.\<close>

lemma addCheckBody_Inl:
  assumes "addCheckBody X c r lease policy d = Inl e"
  shows "(\<exists>t. e = ErrOther t) \<or> e = ErrMonitorNotFound \<or> e = ErrStaleJob
    \<or> e = ErrDuplicateJob
      \<and> ((\<exists>jrow. findJob (chk_JobID r) (chk_MonitorID r) d = Some jrow \<and> jr_status jrow = checkJobStatusCompleted)
        \<or> chk_JobID r \<noteq> [] \<and> (\<exists>x \<in> set (db_results d). rr_job_id x = Some (chk_JobID r)))"
proof -
  have guard: "leaseGuard r lease jrow = Some x \<Longrightarrow> x = ErrStaleJob \<or> x = ErrDuplicateJob \<and> jr_status jrow = checkJobStatusCompleted"
    for jrow x by (auto simp: leaseGuard_def split: if_splits)
  have zero: "insertResult (newResultRow r now) d = Inr (0, d1) \<Longrightarrow> chk_JobID r \<noteq> [] \<and> (\<exists>x \<in> set (db_results d). rr_job_id x = Some (chk_JobID r))"
    for now d1 by (auto simp: insertResult_def newResultRow_def split: if_splits)
  have other: "insertResult row d = Inl x \<Longrightarrow> \<exists>t. x = ErrOther t" for row x
    by (auto simp: insertResult_def split: if_splits)
  show ?thesis
    using assms unfolding addCheckBody_def perform_Inl Let_def
    by (auto simp: perform_Inl split: option.splits sum.splits prod.splits if_splits
        dest: failed_Some guard zero other upsertIncidentAndAlert_Inl)
qed

lemma pg_add_recorded:
  assumes "pg_AddCheck X c r lease policy d = Some (ares, d')"
    and "(\<exists>m. ares = Inr m) \<or> ares = Inl ErrDuplicateJob"
  shows "pg_recorded (chk_JobID r) d'"
proof -
  from assms have id: "chk_JobID r \<noteq> []" and run: "transaction (X 0) (X 10) (addCheckBody X c r lease policy) d = (ares, d')"
    by (auto simp: pg_AddCheck_def split: if_splits)
  from run show ?thesis
  proof (cases rule: transaction_cases)
    case (aborted e)
    with assms(2) have "addCheckBody X c r lease policy d = Inl ErrDuplicateJob" by auto
    from addCheckBody_Inl [OF this] aborted(2) show ?thesis by (auto simp: pg_recorded_def findJob_def dest!: find_SomeD)
  next
    case (committed m)
    from committed(1) show ?thesis
    proof (cases rule: addCheckBody_Inr)
      case (1 mrow jrow d1)
      from upsertIncidentAndAlert_frame(1) [OF 1(7)] 1(9) id show ?thesis
        by (simp add: pg_recorded_def newResultRow_def)
    qed
  qed
qed

lemma pg_mark_refused:
  "pg_MarkJobProcessing X c m j a lt d = (Inl e, d') \<Longrightarrow>
   e = ErrStaleJob \<or> e = ErrJobAlreadyProcessing \<or> e = ErrMonitorNotFound \<Longrightarrow> \<not> pg_waiting m j a d'"
  by (auto simp: pg_MarkJobProcessing_def pg_waiting_def settle_def Let_def
      split: if_splits option.splits sum.splits pg_outcome.splits)

lemma pg_get_missing:
  assumes ok: "db_ok d" and get: "pg_Get X m d = Inl ErrMonitorNotFound"
  shows "\<not> pg_waiting m j a d"
proof -
  from get have "findMonitor m d = None"
    by (auto simp: pg_Get_def perform_Inl split: option.splits dest: failed_Some)
  with db_okD(5) [OF ok] have "jr_monitor_id r \<noteq> m" if "r \<in> set (db_jobs d)" for r
    using that unfolding findMonitor_None by (metis image_eqI subset_eq)
  then show ?thesis by (auto simp: pg_waiting_def startable_def)
qed

interpretation pg_leases: lease_repository "PostgresMonitorRepository E policy" db_ok pg_live pg_recorded pg_waiting
  for E policy
proof (unfold_locales, goal_cases)
  case (3 s c m j a lt lease s')
  with pg_MarkJobProcessing_ok [of s] show ?case by (auto simp: PostgresMonitorRepository_def) (metis snd_conv)
next
  case (6 s c lease err d res s')
  with pg_MarkJobFailed_ok [of s] show ?case by (auto simp: PostgresMonitorRepository_def) (metis snd_conv)
next
  case (8 s c lease err res s')
  with pg_MarkJobDead_ok [of s] show ?case by (auto simp: PostgresMonitorRepository_def) (metis snd_conv)
qed (simp_all add: PostgresMonitorRepository_def pg_get_missing pg_mark_refused pg_add_recorded pg_AddCheck_ok
    pg_failed_ends pg_dead_ends)

end
