(* ===== verification/Pg_Scenario.thy ===== *)
theory Pg_Scenario
  imports Pg_Lifecycle Scheduler
begin

text \<open>
  A run of the PostgreSQL repository from the empty schema to a recorded failure with an alert
  in the outbox, every statement succeeding.
\<close>

abbreviation (input) all_ok :: "nat \<Rightarrow> pg_outcome" where "all_ok \<equiv> \<lambda>_. PgOk"

definition pg_d1 :: db where
  "pg_d1 = snd (pg_Create demo_policy all_ok (call_at 1000) demo_input empty_db)"

definition pg_d2 :: db where
  "pg_d2 = snd (pg_ClaimDueJobs all_ok {} (call_at 2000) 10 Minute 3 pg_d1)"

definition pg_jid :: string where "pg_jid = NewCheckJobID 200 demo_mid 1000"

definition pg_claim :: PublicationClaim where
  "pg_claim = \<lparr>claim_JobID = pg_jid, claim_MonitorID = demo_mid, claim_Attempt = 0,
     claim_Token = newID ''publish'' demo_draw\<rparr>"

definition pg_d3 :: db where
  "pg_d3 = snd (pg_MarkJobPublished all_ok (call_at 3000) pg_claim pg_d2)"

definition pg_d4 :: db where
  "pg_d4 = snd (pg_MarkJobProcessing all_ok (call_at 4000) demo_mid pg_jid 1 Minute pg_d3)"

definition pg_lease :: ProcessingLease where
  "pg_lease = \<lparr>lease_JobID = pg_jid, lease_MonitorID = demo_mid, lease_Attempt = 1,
     lease_Token = newID ''lease'' demo_draw\<rparr>"

definition pg_record :: CheckRecord where
  "pg_record = demo_record\<lparr>chk_JobID := pg_jid\<rparr>"

definition pg_alerts :: AlertPolicy where
  "pg_alerts = \<lparr>ap_Enabled = True, ap_FailureThreshold = 1, ap_Cooldown = 0\<rparr>"

section \<open>The rows\<close>

definition pg_mrow :: monitor_row where
  "pg_mrow = newMonitorRow (call_at 1000) demo_input"

definition pg_j2 :: job_row where
  "pg_j2 = newJobRow pg_jid demo_mid checkJobKindScheduled 1000 2000 (Some (timestamptz (2000 + Minute)))
     (Some (newID ''publish'' demo_draw))"

definition pg_j3 :: job_row where "pg_j3 = publishRow 3000 pg_j2"

definition pg_j4 :: job_row where
  "pg_j4 = startRow 4000 Minute 1 (newID ''lease'' demo_draw) pg_j3"

lemma pg_times [simp]:
  "databaseTime (call_at t) = timestamptz t" "laterTime (call_at t) = timestamptz t"
  "c_draw (call_at t) = demo_draw" "c_claim (call_at t) = demo_ce" "c_env (call_at t) = demo_env"
  by (simp_all add: databaseTime_def laterTime_def call_at_def demo_call_def)

lemma pg_jid_nonempty [simp]: "pg_jid \<noteq> []"
  by (simp add: pg_jid_def NewCheckJobID_def)

lemma pg_mrow_fields [simp]:
  "mr_id pg_mrow = demo_mid" "mr_enabled pg_mrow" "mr_next_check_at pg_mrow = 1000"
  by (simp_all add: pg_mrow_def newMonitorRow_def Let_def demo_mid_def demo_input_def timestamptz_def)

lemma pg_d1_eq: "pg_d1 = empty_db\<lparr>db_monitors := [pg_mrow]\<rparr>"
  using demo_valid by (simp add: pg_d1_def pg_Create_def empty_db_def Let_def settle_def pg_mrow_def [symmetric])

text \<open>A claim when there is no job and one due monitor.\<close>

lemma update_rows_False [simp]: "update_rows (\<lambda>_. False) f rows = rows"
  by (simp add: update_rows_def)

lemma pg_claim_empty:
  "exhaustJobs now mx pg_d1 = pg_d1" "expireJobs now mx pg_d1 = pg_d1" "claimIDs now mx locked n pg_d1 = []"
  "claimJobs now lease tok [] pg_d1 = ([], pg_d1)"
  "dueMonitors 2000 {} 10 pg_d1 = [pg_mrow]"
  by (simp_all add: pg_d1_eq empty_db_def exhaustJobs_def expireJobs_def claimIDs_def claimJobs_def dueMonitors_def)

lemma pg_d2_eq: "pg_d2 = empty_db\<lparr>db_monitors := [pg_mrow], db_jobs := [pg_j2]\<rparr>"
proof -
  have "insertJob pg_j2 pg_d1 = Inr (pg_d1\<lparr>db_jobs := [pg_j2]\<rparr>)"
    by (simp add: insertJob_def findMonitor_def pg_d1_eq empty_db_def pg_j2_def newJobRow_def)
  moreover have "timestamptz 2000 = 2000" by (simp add: timestamptz_def)
  moreover have "newJobRow (NewCheckJobID (ce_wall demo_ce) demo_mid 1000) demo_mid checkJobKindScheduled 1000 2000
      (Some (timestamptz (2000 + Minute))) (Some (newID ''publish'' (ce_draws demo_ce (Suc 0)))) = pg_j2"
    by (simp add: pg_j2_def pg_jid_def demo_ce_def)
  ultimately have "pg_d2 = pg_d1\<lparr>db_jobs := [pg_j2]\<rparr>"
    by (simp add: pg_d2_def pg_ClaimDueJobs_def transaction_def failed_def perform_def Let_def
      pg_claim_empty settle_def)
  then show ?thesis by (simp add: pg_d1_eq)
qed


lemma pg_d3_eq: "pg_d3 = empty_db\<lparr>db_monitors := [pg_mrow], db_jobs := [pg_j3]\<rparr>"
proof -
  have "ownsPublication pg_claim 3000 pg_j2" "claim_Token pg_claim \<noteq> []" "timestamptz 3000 = 3000"
    by (simp_all add: ownsPublication_def pg_claim_def pg_j2_def newJobRow_def sql_gt_def timestamptz_def)
  then show ?thesis
    by (simp add: pg_d3_def pg_MarkJobPublished_def update_or_def pg_d2_eq settle_def update_rows_def pg_j3_def)
qed

lemma pg_d4_run:
  "pg_MarkJobProcessing all_ok (call_at 4000) demo_mid pg_jid 1 Minute pg_d3
     = (Inr pg_lease, empty_db\<lparr>db_monitors := [pg_mrow], db_jobs := [pg_j4]\<rparr>)"
proof -
  have "startable demo_mid pg_jid 1 pg_j3" "timestamptz 4000 = 4000"
    by (simp_all add: startable_def unprocessed_def pg_j3_def publishRow_def pg_j2_def newJobRow_def timestamptz_def)
  then show ?thesis
    by (simp add: pg_MarkJobProcessing_def Let_def pg_d3_eq settle_def update_rows_def pg_j4_def pg_lease_def)
qed

lemma pg_d4_eq: "pg_d4 = empty_db\<lparr>db_monitors := [pg_mrow], db_jobs := [pg_j4]\<rparr>"
  by (simp add: pg_d4_def pg_d4_run)

lemma pg_j4_fields [simp]:
  "jr_id pg_j4 = pg_jid" "jr_monitor_id pg_j4 = demo_mid" "jr_status pg_j4 = checkJobStatusProcessing"
  "jr_attempt pg_j4 = 1" "jr_lease_token pg_j4 = Some (newID ''lease'' demo_draw)" "jr_kind pg_j4 = checkJobKindScheduled"
  "jr_lease_expires_at pg_j4 = Some (4000 + Minute)"
  by (simp_all add: pg_j4_def startRow_def pg_j3_def publishRow_def pg_j2_def newJobRow_def microseconds_def go_div_def)

section \<open>The run is reachable\<close>

lemma pg_reachable_1: "pg_reachable demo_policy pg_d1"
  unfolding pg_d1_def by (rule pgr_step [OF pgr_init pgs_Create])

lemma pg_reachable_2: "pg_reachable demo_policy pg_d2"
  unfolding pg_d2_def by (rule pgr_step [OF pg_reachable_1 pgs_Claim])

lemma pg_reachable_3: "pg_reachable demo_policy pg_d3"
  unfolding pg_d3_def by (rule pgr_step [OF pg_reachable_2 pgs_Published])

lemma pg_step_4: "pg_step demo_policy {newID ''lease'' demo_draw} pg_d3 pg_d4"
  using pgs_Processing [of demo_policy "call_at 4000" pg_d3 all_ok demo_mid pg_jid 1 Minute] by (simp add: pg_d4_def)

lemma pg_reachable_4: "pg_reachable demo_policy pg_d4"
  by (rule pgr_step [OF pg_reachable_3 pg_step_4])

lemmas pg_d4_ok = pg_reachable_db_ok [OF pg_reachable_4]

end
