(* ===== verification/Pg_Fencing.thy ===== *)
theory Pg_Fencing
  imports Pg_Worker Pg_Scenario
begin

text \<open>
  Fencing by lease tokens on PostgreSQL: a lease that is not live writes nothing, and a token
  that no job holds is never held again unless it is drawn anew.
\<close>

inductive pg_run :: "NetworkPolicy \<Rightarrow> string set \<Rightarrow> db \<Rightarrow> db \<Rightarrow> bool" for policy where
  run_nil: "pg_run policy {} d d"
| run_step: "pg_run policy M d d1 \<Longrightarrow> pg_step policy N d1 d2 \<Longrightarrow> pg_run policy (M \<union> N) d d2"

definition token_free :: "string \<Rightarrow> db \<Rightarrow> bool" where
  "token_free tok d \<longleftrightarrow> (\<forall>r \<in> set (db_jobs d). jr_lease_token r \<noteq> Some tok)"

lemma lifecycle_token:
  assumes "lifecycle N (scanCheckJob r) (scanCheckJob r')" "jr_lease_token r' = Some tok" "tok \<noteq> []" "tok \<notin> N"
  shows "jr_lease_token r = Some tok"
  using assms by (auto simp: scanCheckJob_lifecycle Let_def split: option.splits if_splits)

lemma newborn_token: "newborn (scanCheckJob r) \<Longrightarrow> jr_lease_token r = Some tok \<Longrightarrow> tok = []"
  by (simp add: newborn_def scanCheckJob_def)

lemma step_token_free:
  assumes "pg_step policy N d d'" "db_ok d" "tok \<notin> N" "tok \<noteq> []" "token_free tok d"
  shows "token_free tok d'"
  unfolding token_free_def
proof
  fix r' assume r': "r' \<in> set (db_jobs d')"
  from pg_step_evolve [OF assms(1,2)] r' consider r where "r \<in> set (db_jobs d)" "lifecycle N (scanCheckJob r) (scanCheckJob r')"
    | "newborn (scanCheckJob r')" by (auto simp: rows_evolve_def)
  then show "jr_lease_token r' \<noteq> Some tok"
    using assms(3-5) lifecycle_token newborn_token by cases (auto simp: token_free_def)
qed

lemma pg_run_ok: "pg_run policy M d d' \<Longrightarrow> db_ok d \<Longrightarrow> db_ok d'"
  by (induction rule: pg_run.induct) (simp_all add: pg_step_ok)

lemma run_token_free:
  "pg_run policy M d d' \<Longrightarrow> db_ok d \<Longrightarrow> tok \<notin> M \<Longrightarrow> tok \<noteq> [] \<Longrightarrow> token_free tok d \<Longrightarrow> token_free tok d'"
proof (induction rule: pg_run.induct)
  case (run_step M d d1 N d2)
  then show ?case using step_token_free [OF run_step.hyps(2) pg_run_ok [OF run_step.hyps(1)]] by simp
qed simp

lemma token_free_not_live: "token_free (lease_Token lease) d \<Longrightarrow> \<not> pg_live lease t d"
  by (auto simp: token_free_def pg_live_def ownsLease_def)

text \<open>Writes under a lease that is not live.\<close>

lemma addCheckBody_live:
  assumes "addCheckBody X c record lease alerts d = Inr (m, d')"
  shows "pg_live lease (databaseTime c) d"
  using assms
proof (cases rule: addCheckBody_Inr)
  case (1 mrow jrow d1)
  then have "jrow \<in> set (db_jobs d)" "jr_id jrow = chk_JobID record" "jr_monitor_id jrow = chk_MonitorID record"
    by (auto simp: findJob_def dest: find_SomeD)
  moreover from 1(3) have "jr_status jrow = checkJobStatusProcessing" "jr_attempt jrow = lease_Attempt lease"
    "jr_lease_token jrow = Some (lease_Token lease)" "lease_JobID lease = chk_JobID record" "lease_MonitorID lease = chk_MonitorID record"
    by (auto simp: leaseGuard_def split: if_splits option.splits)
  ultimately show ?thesis using 1(4) by (auto simp: pg_live_def ownsLease_def)
qed

lemma not_live_AddCheck:
  assumes "\<not> pg_live lease (databaseTime c) d"
  shows "\<exists>e. pg_AddCheck X c record lease alerts d = Some (Inl e, d)"
proof -
  obtain r d' where run: "transaction (X 0) (X 10) (addCheckBody X c record lease alerts) d = (r, d')" by fastforce
  then have "(\<exists>e. r = Inl e) \<and> d' = d"
    using assms addCheckBody_live by (cases rule: transaction_cases) auto
  with run show ?thesis by (auto simp: pg_AddCheck_def)
qed

lemma not_live_MarkJobFailed:
  "\<not> pg_live lease (databaseTime c) d \<Longrightarrow> \<exists>e. pg_MarkJobFailed X c lease err delay d = (Some e, d)"
  by (auto simp: pg_MarkJobFailed_def update_or_def pg_live_def split: option.split)

lemma not_live_MarkJobDead:
  assumes "\<not> pg_live lease (databaseTime c) d"
  shows "\<exists>e. pg_MarkJobDead X c lease err d = (Some e, d)"
proof -
  obtain res d' where run: "pg_MarkJobDead X c lease err d = (res, d')" by fastforce
  then have "(\<exists>e. res = Some e) \<and> d' = d"
    by (cases rule: pg_MarkJobDead_cases) (use assms in \<open>auto simp: pg_live_def\<close>)
  with run show ?thesis by auto
qed

section \<open>The recorded failure\<close>

definition pg_d5 :: db where
  "pg_d5 = snd (the (pg_AddCheck all_ok (call_at 5000) pg_record pg_lease pg_alerts pg_d4))"

definition pg_written :: monitor_row where
  "pg_written = recordRow pg_record checkJobKindScheduled 5000 pg_mrow"

definition pg_incident :: incident_row where
  "pg_incident = newIncidentRow (newID ''inc'' demo_draw) demo_mid 5000 (failureText pg_record)"

definition pg_alert :: outbox_row where
  "pg_alert = alertRow (call_at 5000) pg_record (scanMonitor pg_written) 5000 pg_incident"

lemma pg_record_fields [simp]:
  "chk_JobID pg_record = pg_jid" "chk_MonitorID pg_record = demo_mid" "\<not> chk_Success pg_record"
  by (simp_all add: pg_record_def demo_record_def)

lemma pg_incident_fields [simp]: "ir_id pg_incident = newID ''inc'' demo_draw" "ir_failure_count pg_incident = 1"
  "ir_last_alerted_at pg_incident = None"
  by (simp_all add: pg_incident_def newIncidentRow_def)

lemma pg_upsert:
  assumes d: "db_incidents d = []" "db_outbox d = []"
  shows "upsertIncidentAndAlert all_ok (call_at 5000) pg_record (scanMonitor pg_written) pg_alerts 5000 d
    = Inr (d\<lparr>db_incidents := [pg_incident\<lparr>ir_last_alerted_at := Some 5000, ir_alert_count := 1, ir_updated_at := 5000\<rparr>],
             db_outbox := [pg_alert]\<rparr>)"
proof -
  have up: "upsertIncident (newID ''inc'' demo_draw) demo_mid 5000 (failureText pg_record) d
      = Inr (pg_incident, d\<lparr>db_incidents := [pg_incident]\<rparr>)"
    by (simp add: upsertIncident_def d pg_incident_def Let_def)
  have due: "alertDue pg_alerts 5000 pg_incident" by (simp add: alertDue_def pg_alerts_def)
  have ins: "insertOutbox pg_alert (d\<lparr>db_incidents := [pg_incident]\<rparr>) = Inr (1, d\<lparr>db_incidents := [pg_incident], db_outbox := [pg_alert]\<rparr>)"
    by (simp add: insertOutbox_def d)
  have count: "ir_alert_count pg_incident = 0" by (simp add: pg_incident_def newIncidentRow_def)
  show ?thesis
    using up due ins count
    by (simp add: upsertIncidentAndAlert_def perform_def failed_def markAlerted_def alertedRow_def update_rows_def
        flip: pg_alert_def)
qed

lemma pg_d5_run:
  "pg_AddCheck all_ok (call_at 5000) pg_record pg_lease pg_alerts pg_d4 =
     Some (Inr (scanMonitor pg_written),
       \<lparr>db_monitors = [pg_written], db_jobs = [completeRow 5000 pg_j4], db_results = [newResultRow pg_record 5000],
        db_incidents = [pg_incident\<lparr>ir_last_alerted_at := Some 5000, ir_alert_count := 1, ir_updated_at := 5000\<rparr>],
        db_outbox = [pg_alert]\<rparr>)"
proof -
  have now: "timestamptz 5000 = 5000" by (simp add: timestamptz_def)
  have m: "findMonitor demo_mid pg_d4 = Some pg_mrow" by (simp add: findMonitor_def pg_d4_eq empty_db_def)
  have j: "findJob pg_jid demo_mid pg_d4 = Some pg_j4" by (simp add: findJob_def pg_d4_eq empty_db_def)
  have g: "leaseGuard pg_record pg_lease pg_j4 = None" by (simp add: leaseGuard_def pg_lease_def)
  have own: "ownsLease pg_lease 5000 pg_j4" by (simp add: ownsLease_def pg_lease_def sql_gt_def)
  have r: "insertResult (newResultRow pg_record 5000) pg_d4 = Inr (1, pg_d4\<lparr>db_results := [newResultRow pg_record 5000]\<rparr>)"
    by (simp add: insertResult_def pg_d4_eq empty_db_def)
  have w: "update_rows (\<lambda>m. mr_id m = demo_mid) (recordRow pg_record checkJobKindScheduled 5000) (db_monitors pg_d4) = [pg_written]"
    by (simp add: update_rows_def pg_d4_eq empty_db_def pg_written_def)
  have jobs: "db_jobs pg_d4 = [pg_j4]" "db_incidents pg_d4 = []" "db_outbox pg_d4 = []" by (simp_all add: pg_d4_eq empty_db_def)
  have eq: "pg_d4\<lparr>db_results := rs, db_monitors := ms, db_incidents := is, db_outbox := os, db_jobs := js\<rparr>
      = \<lparr>db_monitors = ms, db_jobs = js, db_results = rs, db_incidents = is, db_outbox = os\<rparr>" for rs ms "is" os js
    by (simp add: pg_d4_eq empty_db_def)
  show ?thesis
    using m j g r own w jobs pg_upsert [of "pg_d4\<lparr>db_results := [newResultRow pg_record 5000], db_monitors := [pg_written]\<rparr>"]
    by (simp add: pg_AddCheck_def transaction_def addCheckBody_def perform_def failed_def now sql_gt_def Let_def settle_def
        update_rows_def eq flip: pg_written_def)
qed

end
