(* ===== verification/Pg_Effects.thy ===== *)
theory Pg_Effects
  imports Pg_Fencing
begin

text \<open>
  What a recorded check writes to PostgreSQL, on the incidents and in the outbox: all of it or
  nothing.
\<close>

section \<open>Incidents\<close>

definition openCount :: "string \<Rightarrow> db \<Rightarrow> int" where
  "openCount mid d = (case List.find (openIncident mid) (db_incidents d) of None \<Rightarrow> 0 | Some r \<Rightarrow> ir_failure_count r)"

lemma find_update_rows:
  "(\<And>r. r \<in> set rows \<Longrightarrow> P r \<Longrightarrow> Q (f r) = Q r) \<Longrightarrow>
   List.find Q (update_rows P f rows) = map_option (\<lambda>r. if P r then f r else r) (List.find Q rows)"
  by (induction rows) (auto simp: update_rows_def)

lemma find_update_None:
  "(\<And>r. P r \<Longrightarrow> \<not> Q (f r)) \<Longrightarrow> (\<And>r. Q r \<Longrightarrow> P r) \<Longrightarrow> List.find Q (update_rows P f rows) = None"
  by (induction rows) (auto simp: update_rows_def)

lemma find_append: "List.find P (xs @ ys) = (case List.find P xs of None \<Rightarrow> List.find P ys | Some x \<Rightarrow> Some x)"
  by (induction xs) auto

lemma openCount_upsert:
  assumes "upsertIncident i mid now e d = Inr (inc, d')"
  shows "List.find (openIncident mid) (db_incidents d') = Some inc \<and> ir_failure_count inc = openCount mid d + 1"
proof (cases "List.find (openIncident mid) (db_incidents d)")
  case (Some r)
  then have "openIncident mid r" by (auto dest: find_SomeD)
  moreover have "openIncident mid (failAgain now e x) = openIncident mid x" for x
    by (simp add: openIncident_def failAgain_def)
  ultimately show ?thesis using assms Some
    by (auto simp: upsertIncident_def find_update_rows openCount_def failAgain_def)
next
  case None
  with assms show ?thesis
    by (auto simp: upsertIncident_def Let_def find_append openCount_def newIncidentRow_def openIncident_def split: if_splits)
qed

lemma upsertIncident_alerted:
  assumes "upsertIncident i mid now e d = Inr (inc, d')"
  shows "ir_last_alerted_at inc
    = (case List.find (openIncident mid) (db_incidents d) of None \<Rightarrow> None | Some r \<Rightarrow> ir_last_alerted_at r)"
    and "db_outbox d' = db_outbox d"
  using assms
  by (auto simp: upsertIncident_def Let_def failAgain_def newIncidentRow_def split: option.splits if_splits)

lemma find_markAlerted:
  "List.find (openIncident mid) (db_incidents (markAlerted i now d)) =
   map_option (\<lambda>r. if ir_id r = i then alertedRow now r else r) (List.find (openIncident mid) (db_incidents d))"
proof -
  have "openIncident mid (alertedRow now r) = openIncident mid r" for r
    by (simp add: openIncident_def alertedRow_def)
  then show ?thesis by (simp add: markAlerted_def find_update_rows)
qed

lemma find_resolveIncidents: "List.find (openIncident mid) (db_incidents (resolveIncidents mid now d)) = None"
  by (simp add: resolveIncidents_def) (rule find_update_None; simp add: openIncident_def)

text \<open>What the policy asks before an alert: enabled, the threshold reached, the cooldown over.\<close>

definition alert_wanted :: "AlertPolicy \<Rightarrow> gotime \<Rightarrow> string \<Rightarrow> db \<Rightarrow> bool" where
  "alert_wanted policy now mid d \<longleftrightarrow> ap_Enabled policy \<and> ap_FailureThreshold policy \<le> openCount mid d + 1
     \<and> (case List.find (openIncident mid) (db_incidents d) of
          None \<Rightarrow> True
        | Some r \<Rightarrow> (case ir_last_alerted_at r of None \<Rightarrow> True | Some t \<Rightarrow> ap_Cooldown policy \<le> now - t))"

lemma alertDue_wanted:
  assumes "upsertIncident i mid now e d = Inr (inc, d')"
  shows "alertDue policy now inc = alert_wanted policy now mid d"
  using openCount_upsert [OF assms] upsertIncident_alerted(1) [OF assms]
  by (auto simp: alertDue_def alert_wanted_def split: option.splits)

text \<open>The effect of a check on the incident of its monitor and on the outbox.\<close>

definition incident_effect :: "CheckRecord \<Rightarrow> AlertPolicy \<Rightarrow> gotime \<Rightarrow> db \<Rightarrow> db \<Rightarrow> bool" where
  "incident_effect record policy now d d' \<longleftrightarrow>
     (let mid = chk_MonitorID record; current = List.find (openIncident mid) (db_incidents d') in
      if chk_Success record then current = None \<and> db_outbox d' = db_outbox d
      else openCount mid d' = openCount mid d + 1 \<and> current \<noteq> None
        \<and> (db_outbox d' = db_outbox d
           \<and> (alert_wanted policy now mid d \<longrightarrow>
                (\<exists>a \<in> set (db_outbox d). or_idempotency_key a
                   = ir_id (the current) @ '':failure:'' @ Itoa (openCount mid d')))
         \<or> alert_wanted policy now mid d
           \<and> (\<exists>a. db_outbox d' = db_outbox d @ [a] \<and> or_status a = alertPending \<and> or_attempt_count a = 0
                \<and> or_incident_id a = ir_id (the current) \<and> or_monitor_id a = mid
                \<and> ap_ConsecutiveFailures (or_payload a) = openCount mid d'
                \<and> ir_last_alerted_at (the current) = Some now)))"

lemma incident_effect_frame:
  "db_incidents e = db_incidents d \<Longrightarrow> db_outbox e = db_outbox d \<Longrightarrow> db_incidents e' = db_incidents d' \<Longrightarrow>
   db_outbox e' = db_outbox d' \<Longrightarrow> incident_effect r p n e e' = incident_effect r p n d d'"
  by (simp add: incident_effect_def openCount_def alert_wanted_def Let_def)

lemma upsert_effect:
  assumes run: "upsertIncidentAndAlert X c record monitor policy now d = Inr d'"
  shows "incident_effect record policy now d d'"
  using run
proof (cases rule: upsertIncidentAndAlert_Inr)
  case resolved
  then show ?thesis by (simp add: incident_effect_def find_resolveIncidents) (simp add: resolveIncidents_def)
next
  case (quiet inc)
  with openCount_upsert [OF quiet(2)] upsertIncident_alerted(2) [OF quiet(2)] alertDue_wanted [OF quiet(2)] show ?thesis
    by (simp add: incident_effect_def openCount_def)
next
  case (repeated inc)
  have "\<exists>a \<in> set (db_outbox d'). or_idempotency_key a = ir_id inc @ '':failure:'' @ Itoa (ir_failure_count inc)"
    using repeated(4) by (auto simp: insertOutbox_def alertRow_def newOutboxRow_def split: if_splits)
  with openCount_upsert [OF repeated(2)] upsertIncident_alerted(2) [OF repeated(2)] repeated show ?thesis
    by (simp add: incident_effect_def openCount_def)
next
  case (alerted inc d1 d2)
  have d2: "d2 = d1\<lparr>db_outbox := db_outbox d1 @ [alertRow c record monitor now inc]\<rparr>"
    using alerted(4) by (auto simp: insertOutbox_def split: if_splits)
  have "db_outbox d' = db_outbox d @ [alertRow c record monitor now inc]"
    using alerted(5) upsertIncident_alerted(2) [OF alerted(2)] by (simp add: markAlerted_def d2)
  moreover have "List.find (openIncident (chk_MonitorID record)) (db_incidents d') = Some (alertedRow now inc)"
    using openCount_upsert [OF alerted(2)] by (simp add: alerted(5) find_markAlerted d2)
  ultimately show ?thesis
    using openCount_upsert [OF alerted(2)] alertDue_wanted [OF alerted(2)] alerted(1,3)
    by (simp add: incident_effect_def openCount_def alertRow_def newOutboxRow_def alertedRow_def)
qed

section \<open>A committed check\<close>

definition check_written :: "call \<Rightarrow> CheckRecord \<Rightarrow> ProcessingLease \<Rightarrow> AlertPolicy \<Rightarrow> db \<Rightarrow> db \<Rightarrow> bool" where
  "check_written c record lease policy d d' \<longleftrightarrow>
     (let now = databaseTime c; mid = chk_MonitorID record; j = chk_JobID record in
      (\<exists>job \<in> set (db_jobs d). ownsLease lease now job \<and> jr_id job = j
         \<and> db_jobs d' = update_rows (\<lambda>r. jr_id r = j) (completeRow now) (db_jobs d)
         \<and> db_monitors d' = update_rows (\<lambda>m. mr_id m = mid) (recordRow record (jr_kind job) now) (db_monitors d))
      \<and> \<not> (\<exists>r \<in> set (db_results d). rr_job_id r = Some j)
      \<and> db_results d' = db_results d @ [newResultRow record now]
      \<and> incident_effect record policy now d d')"

lemma update_rows_cong:
  "(\<And>r. r \<in> set rows \<Longrightarrow> P r = Q r) \<Longrightarrow> update_rows P f rows = update_rows Q f rows"
  by (simp add: update_rows_def)

lemma addCheckBody_written:
  assumes ok: "db_ok d" and id: "chk_JobID record \<noteq> []"
    and run: "addCheckBody X c record lease policy d = Inr (m, d')"
  shows "check_written c record lease policy d d'"
  using run
proof (cases rule: addCheckBody_Inr)
  case (1 mrow jrow d1)
  let ?now = "databaseTime c"
  have j: "jrow \<in> set (db_jobs d)" "jr_id jrow = chk_JobID record" "jr_monitor_id jrow = chk_MonitorID record"
    using 1(2) by (auto simp: findJob_def dest: find_SomeD)
  have guard: "jr_status jrow = checkJobStatusProcessing" "jr_attempt jrow = lease_Attempt lease"
    "jr_lease_token jrow = Some (lease_Token lease)" "lease_JobID lease = chk_JobID record" "lease_MonitorID lease = chk_MonitorID record"
    using 1(3) by (auto simp: leaseGuard_def split: if_splits option.splits)
  then have own: "ownsLease lease ?now jrow" using 1(4) j by (simp add: ownsLease_def)
  note frame = upsertIncidentAndAlert_frame [OF 1(7), simplified]
  have only: "ownsLease lease (laterTime c) r = (jr_id r = chk_JobID record)" if "r \<in> set (db_jobs d)" for r
  proof
    show "ownsLease lease (laterTime c) r \<Longrightarrow> jr_id r = chk_JobID record" using guard by (simp add: ownsLease_def)
    assume "jr_id r = chk_JobID record"
    with that j db_okD(3) [OF ok] have "r = jrow" by (auto simp: distinct_map inj_on_def)
    moreover obtain r' where "r' \<in> set (db_jobs d)" "ownsLease lease (laterTime c) r'" using 1(8) frame by auto
    moreover from this guard j db_okD(3) [OF ok] have "r' = jrow" by (auto simp: distinct_map inj_on_def ownsLease_def)
    ultimately show "ownsLease lease (laterTime c) r" by simp
  qed
  have "incident_effect record policy ?now d d'"
    using upsert_effect [OF 1(7)] by (rule incident_effect_frame [THEN iffD1, rotated 4]) (simp_all add: 1(9))
  moreover have "db_jobs d' = update_rows (\<lambda>r. jr_id r = chk_JobID record) (completeRow ?now) (db_jobs d)"
    using frame update_rows_cong [OF only] by (simp add: 1(9))
  moreover have "\<not> (\<exists>r \<in> set (db_results d). rr_job_id r = Some (chk_JobID record))"
    using 1(5) id by (auto simp: insertResult_def newResultRow_def split: if_splits)
  ultimately show ?thesis
    using frame own j by (auto simp: check_written_def Let_def 1(9))
qed

end
