(* ===== verification/Pg_Alerts.thy ===== *)
theory Pg_Alerts
  imports Pg_Effects
begin

text \<open>
  The alert outbox on PostgreSQL as an interpretation of \<open>alert_outbox\<close>, the bounds of a claim of
  alerts, and what a retention pass removes.
\<close>

section \<open>The outbox\<close>

fun row_fate :: "call \<Rightarrow> alert_fate \<Rightarrow> outbox_row \<Rightarrow> bool" where
  "row_fate c FateDelivered r \<longleftrightarrow> or_status r = alertDelivered \<and> or_delivered_at r = Some (databaseTime c)"
| "row_fate c (FateFailed t w dead) r \<longleftrightarrow> or_status r = (if dead then alertDead else alertPending)
     \<and> or_available_at r = databaseTime c + microseconds (max w 0) \<and> or_last_error r = truncateAlertError t"

definition pg_fated :: "call \<Rightarrow> AlertOutboxEvent \<Rightarrow> alert_fate \<Rightarrow> db \<Rightarrow> bool" where
  "pg_fated c e f d \<longleftrightarrow> (\<exists>r \<in> set (db_outbox d). or_id r = ev_ID e \<and> row_fate c f r)"

lemma writeAlert_None:
  assumes "writeAlert x i tok f d = (None, d')"
  shows "(\<exists>r \<in> set (db_outbox d). ownsAlert i tok r) \<and> d' = d\<lparr>db_outbox := update_rows (ownsAlert i tok) f (db_outbox d)\<rparr>"
  using assms by (auto simp: writeAlert_def err_of_def settle_def failed_def split: if_splits pg_outcome.splits)

lemma writeAlert_fate:
  assumes w: "writeAlert x (ev_ID e) tok f d = (None, d')" and f: "\<And>r. or_id (f r) = or_id r \<and> row_fate c fate (f r)"
  shows "pg_fated c e fate d'"
proof -
  from writeAlert_None [OF w] obtain r where r: "r \<in> set (db_outbox d)" "ownsAlert (ev_ID e) tok r"
    and d': "d' = d\<lparr>db_outbox := update_rows (ownsAlert (ev_ID e) tok) f (db_outbox d)\<rparr>" by blast
  then have "f r \<in> set (db_outbox d')" by (simp add: set_update_rows)
  moreover have "or_id (f r) = ev_ID e" using f r by (simp add: ownsAlert_def)
  ultimately show ?thesis unfolding pg_fated_def using f by blast
qed

lemma writeAlert_others:
  assumes w: "writeAlert x i tok f d = (res, d')" and other: "ev_ID e \<noteq> i" and fate: "pg_fated c e fate d"
  shows "pg_fated c e fate d'"
proof -
  from fate obtain r where r: "r \<in> set (db_outbox d)" "or_id r = ev_ID e" "row_fate c fate r" by (auto simp: pg_fated_def)
  have "d' = d \<or> d' = d\<lparr>db_outbox := update_rows (ownsAlert i tok) f (db_outbox d)\<rparr>"
    using w by (auto simp: writeAlert_def err_of_def settle_def failed_def split: if_splits pg_outcome.splits)
  with r other have "r \<in> set (db_outbox d')" by (auto simp: set_update_rows ownsAlert_def)
  with r show ?thesis by (auto simp: pg_fated_def)
qed

text \<open>A claim: at most \<open>limit\<close> events, each of another row, each with one attempt more.\<close>

lemma map_eq_claimed: "map or_id (update_rows P (claimAlertRow now u tok) rows) = map or_id rows"
  by (rule map_update_rows) (simp add: claimAlertRow_def)

lemma map_eq_exhausted: "map or_id (update_rows P (exhaustAlert now) rows) = map or_id rows"
  by (rule map_update_rows) (simp add: exhaustAlert_def)

lemma claimAlertIDs_rows:
  assumes "distinct (map or_id rows)" "r \<in> set rows" "or_id r \<in> set (claimAlertIDs now mx locked n rows)"
  shows "claimableAlert now mx r \<and> or_id r \<notin> locked"
proof -
  from assms(3) obtain x where x: "x \<in> set rows" "claimableAlert now mx x" "or_id x = or_id r" "or_id x \<notin> locked"
    by (auto simp: claimAlertIDs_def dest!: in_set_takeD)
  with assms(1,2) have "x = r" by (auto simp: distinct_map inj_on_def)
  with x show ?thesis by simp
qed

lemma length_filter_ids:
  assumes "distinct (map key rows)"
  shows "length (filter (\<lambda>r. key r \<in> set ids) rows) \<le> length ids"
proof -
  let ?keys = "map key (filter (\<lambda>r. key r \<in> set ids) rows)"
  have "distinct ?keys" using assms by (rule distinct_map_filter)
  then have "length ?keys = card (set ?keys)" by (simp only: distinct_card)
  also have "\<dots> \<le> card (set ids)" by (rule card_mono) auto
  also have "\<dots> \<le> length ids" by (rule card_length)
  finally show ?thesis by simp
qed

lemma claimAlertRows_events:
  assumes dist: "distinct (map or_id (db_outbox d))"
    and run: "claimAlertRows now u tok (claimAlertIDs now mx locked n (db_outbox d)) d = (events, d')"
  shows "distinct (map ev_ID events)" "length events \<le> nat n"
    "\<And>e. e \<in> set events \<Longrightarrow> ev_AttemptCount e \<le> mx \<and> ev_LeaseToken e = tok"
proof -
  let ?ids = "claimAlertIDs now mx locked n (db_outbox d)"
  let ?rows = "update_rows (\<lambda>r. or_id r \<in> set ?ids) (claimAlertRow now u tok) (db_outbox d)"
  have ev: "events = map scanAlert (filter (\<lambda>r. or_id r \<in> set ?ids) ?rows)"
    using run by (auto simp: claimAlertRows_def Let_def)
  have ids: "distinct (map or_id ?rows)" using dist by (simp add: map_eq_claimed)
  have "map ev_ID events = map or_id (filter (\<lambda>r. or_id r \<in> set ?ids) ?rows)" by (simp add: ev scanAlert_def)
  then show "distinct (map ev_ID events)" using ids by (simp add: distinct_map_filter)
  have "length ?ids \<le> nat n" by (simp add: claimAlertIDs_def)
  with length_filter_ids [OF ids, of ?ids] show "length events \<le> nat n" by (simp add: ev)
  fix e assume "e \<in> set events"
  then obtain r where r: "r \<in> set ?rows" "or_id r \<in> set ?ids" "e = scanAlert r" by (auto simp: ev)
  then obtain r0 where r0: "r0 \<in> set (db_outbox d)" "r = (if or_id r0 \<in> set ?ids then claimAlertRow now u tok r0 else r0)"
    by (auto elim: update_rowsE)
  then have "or_id r0 \<in> set ?ids" using r(2) by (auto split: if_splits)
  with claimAlertIDs_rows [OF dist r0(1)] have "or_attempt_count r0 < mx" by (simp add: claimableAlert_def)
  with r0 r(3) \<open>or_id r0 \<in> set ?ids\<close> show "ev_AttemptCount e \<le> mx \<and> ev_LeaseToken e = tok"
    by (simp add: claimAlertRow_def scanAlert_def)
qed

lemma pg_ClaimAlerts_events:
  assumes ok: "db_ok d" and run: "pg_ClaimAlerts X locked c n lt mx d = (Inr events, d')"
  shows "distinct (map ev_ID events)" "length events \<le> nat n"
    "\<And>e. e \<in> set events \<Longrightarrow> 0 < mx \<Longrightarrow> ev_AttemptCount e \<le> mx"
proof -
  have "distinct (map ev_ID events) \<and> length events \<le> nat n \<and> (\<forall>e \<in> set events. 0 < mx \<longrightarrow> ev_AttemptCount e \<le> mx)"
  proof (cases "n \<le> 0")
    case False
    let ?mx = "if mx \<le> 0 then defaultAlertMaxAttempts else mx"
    let ?now = "databaseTime c"
    define d0 where "d0 = d\<lparr>db_outbox := update_rows (exhaustedAlert ?now ?mx) (exhaustAlert ?now) (db_outbox d)\<rparr>"
    have "distinct (map or_id (db_outbox d0))"
      using db_okD(12) [OF ok] by (simp add: d0_def map_eq_exhausted)
    moreover obtain u tok where "claimAlertRows ?now u tok (claimAlertIDs ?now ?mx locked n (db_outbox d0)) d0 = (events, d')"
      using run False unfolding d0_def
      by (auto simp: pg_ClaimAlerts_def Let_def perform_Inr elim!: transaction_cases)
    ultimately show ?thesis using claimAlertRows_events [of d0 ?now u tok ?mx locked n events d'] by (auto split: if_splits)
  qed (use run in \<open>simp add: pg_ClaimAlerts_def\<close>)
  then show "distinct (map ev_ID events)" "length events \<le> nat n"
    "\<And>e. e \<in> set events \<Longrightarrow> 0 < mx \<Longrightarrow> ev_AttemptCount e \<le> mx" by blast+
qed

interpretation pg_outbox: alert_outbox "PostgresAlertOutbox E" db_ok pg_fated for E
proof (unfold_locales, goal_cases)
  case (1 s c n lt mx r s')
  with pg_ClaimAlerts_ok [of s] show ?case by (auto simp: PostgresAlertOutbox_def) (metis snd_conv)
next
  case (2 s c n lt mx events s')
  with pg_ClaimAlerts_events(1) show ?case by (simp add: PostgresAlertOutbox_def)
next
  case (3 s c i tok res s')
  with pg_MarkAlertDelivered_ok [of s] show ?case by (auto simp: PostgresAlertOutbox_def) (metis snd_conv)
next
  case (4 s c e s')
  then show ?case
    by (auto simp: PostgresAlertOutbox_def pg_MarkAlertDelivered_def deliverRow_def elim!: writeAlert_fate)
next
  case (5 s c i tok res s' e c' f)
  then show ?case by (auto simp: PostgresAlertOutbox_def pg_MarkAlertDelivered_def elim: writeAlert_others)
next
  case (6 s c i tok t d dead res s')
  with pg_MarkAlertFailed_ok [of s] show ?case by (auto simp: PostgresAlertOutbox_def) (metis snd_conv)
next
  case (7 s c e t d dead s')
  then show ?case
    by (auto simp: PostgresAlertOutbox_def pg_MarkAlertFailed_def failAlertRow_def elim!: writeAlert_fate)
next
  case (8 s c i tok t d dead res s' e c' f)
  then show ?case by (auto simp: PostgresAlertOutbox_def pg_MarkAlertFailed_def elim: writeAlert_others)
qed

section \<open>Retention\<close>

text \<open>A batch of at most \<open>n\<close> rows: only rows that satisfy \<open>P\<close> go, \<open>k\<close> of them, and none is left
  when the batch was not full.\<close>

definition batch_removes :: "('r \<Rightarrow> bool) \<Rightarrow> nat \<Rightarrow> int \<Rightarrow> 'r list \<Rightarrow> 'r list \<Rightarrow> bool" where
  "batch_removes P k n rows rows' \<longleftrightarrow>
     rows' = filter (\<lambda>r. r \<in> set rows') rows \<and> (\<forall>r \<in> set rows - set rows'. P r)
     \<and> length rows = length rows' + k \<and> int k \<le> n \<and> (int k < n \<longrightarrow> (\<forall>r \<in> set rows'. \<not> P r))"

lemma expiredIDs_card:
  assumes dist: "distinct (map key rows)" and n: "0 < n" and ids_def: "ids = expiredIDs P age key locked n rows"
  shows "length rows = length (deleteIDs key ids rows) + card ids" "int (card ids) \<le> n"
    "int (card ids) < n \<Longrightarrow> r \<in> set rows \<Longrightarrow> P r \<Longrightarrow> key r \<notin> locked \<Longrightarrow> key r \<in> ids"
proof -
  let ?old = "sort_key (\<lambda>r. (age r, key r)) (filter (\<lambda>r. P r \<and> key r \<notin> locked) rows)"
  have d: "distinct (map key (take (nat n) ?old))"
  proof -
    have "distinct (map key (filter (\<lambda>r. P r \<and> key r \<notin> locked) rows))" using dist by (rule distinct_map_filter)
    then have "distinct (map key ?old)" by (simp add: distinct_map)
    then show ?thesis by (simp add: take_map [symmetric])
  qed
  have ids: "ids = set (map key (take (nat n) ?old))" by (simp add: ids_def expiredIDs_def)
  then have card: "card ids = length (take (nat n) ?old)" using distinct_card [OF d] by simp
  show "int (card ids) \<le> n" using n by (simp add: card)
  have "ids \<subseteq> key ` set rows" by (auto simp: ids dest!: in_set_takeD)
  then have "key ` set (filter (\<lambda>r. key r \<in> ids) rows) = ids" by auto
  moreover have "card (key ` set (filter (\<lambda>r. key r \<in> ids) rows)) = length (filter (\<lambda>r. key r \<in> ids) rows)"
    using distinct_card [OF distinct_map_filter [OF dist, of "\<lambda>r. key r \<in> ids"]] by (simp del: set_filter)
  ultimately show "length rows = length (deleteIDs key ids rows) + card ids"
    using sum_length_filter_compl [of "\<lambda>r. key r \<in> ids" rows] by (simp add: deleteIDs_def)
  assume small: "int (card ids) < n" and r: "r \<in> set rows" "P r" "key r \<notin> locked"
  from small have "take (nat n) ?old = ?old" by (auto simp: card)
  with r show "key r \<in> ids" by (simp add: ids)
qed

lemma batch_removes_expired:
  assumes dist: "distinct (map key rows)" and n: "0 < n" and ids: "ids = expiredIDs P age key locked n rows"
  shows "batch_removes (\<lambda>r. P r \<and> key r \<notin> locked) (card ids) n rows (deleteIDs key ids rows)"
  unfolding batch_removes_def
proof (intro conjI)
  note c = expiredIDs_card [OF dist n ids]
  show "length rows = length (deleteIDs key ids rows) + card ids" "int (card ids) \<le> n" by (rule c)+
  show "\<forall>r \<in> set rows - set (deleteIDs key ids rows). P r \<and> key r \<notin> locked"
  proof
    fix r assume "r \<in> set rows - set (deleteIDs key ids rows)"
    then have r: "r \<in> set rows" "key r \<in> ids" by (simp_all add: deleteIDs_def)
    from expiredIDs_sound [OF dist r(1)] r(2) show "P r \<and> key r \<notin> locked" unfolding ids by blast
  qed
  show "int (card ids) < n \<longrightarrow> (\<forall>r \<in> set (deleteIDs key ids rows). \<not> (P r \<and> key r \<notin> locked))"
    using c(3) by (auto simp: deleteIDs_def)
  show "deleteIDs key ids rows = filter (\<lambda>r. r \<in> set (deleteIDs key ids rows)) rows"
    unfolding deleteIDs_def by (rule filter_cong) simp_all
qed

text \<open>The four batches of a pass.\<close>

lemma deleteResultBatch_removes:
  assumes "deleteResultBatch locked n t d = (k, d1)" "0 < n" "distinct (map rr_id (db_results d))"
  shows "batch_removes (\<lambda>x. rr_recorded_at x < t \<and> rr_id x \<notin> locked) k n (db_results d) (db_results d1)
    \<and> db_monitors d1 = db_monitors d \<and> db_jobs d1 = db_jobs d \<and> db_incidents d1 = db_incidents d \<and> db_outbox d1 = db_outbox d"
  using assms(1) batch_removes_expired [OF assms(3,2) refl] by (auto simp: deleteResultBatch_def Let_def)

lemma deleteJobBatch_removes:
  assumes "deleteJobBatch locked n t d = (k, d1)" "0 < n" "distinct (map jr_id (db_jobs d))"
  shows "batch_removes (\<lambda>x. terminal_job_row t x \<and> jr_id x \<notin> locked) k n (db_jobs d) (db_jobs d1)
    \<and> db_monitors d1 = db_monitors d \<and> db_results d1 = db_results d \<and> db_incidents d1 = db_incidents d \<and> db_outbox d1 = db_outbox d"
  using assms(1) batch_removes_expired [OF assms(3,2) refl] by (auto simp: deleteJobBatch_def Let_def)

lemma deleteAlertBatch_removes:
  assumes "deleteAlertBatch locked n t d = (k, d1)" "0 < n" "distinct (map or_id (db_outbox d))"
  shows "batch_removes (\<lambda>x. settled_alert_row t x \<and> or_id x \<notin> locked) k n (db_outbox d) (db_outbox d1)
    \<and> db_monitors d1 = db_monitors d \<and> db_jobs d1 = db_jobs d \<and> db_results d1 = db_results d \<and> db_incidents d1 = db_incidents d"
  using assms(1) batch_removes_expired [OF assms(3,2) refl] by (auto simp: deleteAlertBatch_def Let_def)

lemma deleteIncidentBatch_removes:
  assumes "deleteIncidentBatch locked n t d = (k, d1)" "0 < n" "distinct (map ir_id (db_incidents d))"
  shows "batch_removes (\<lambda>x. resolved_incident_row t d1 x \<and> ir_id x \<notin> locked) k n (db_incidents d) (db_incidents d1)
    \<and> db_monitors d1 = db_monitors d \<and> db_jobs d1 = db_jobs d \<and> db_results d1 = db_results d \<and> db_outbox d1 = db_outbox d"
proof -
  have frame: "db_monitors d1 = db_monitors d \<and> db_jobs d1 = db_jobs d \<and> db_results d1 = db_results d \<and> db_outbox d1 = db_outbox d"
    using assms(1) by (auto simp: deleteIncidentBatch_def Let_def)
  then have "resolved_incident_row t d1 = resolved_incident_row t d"
    by (intro ext) (simp add: resolved_incident_row_def)
  with frame show ?thesis
    using assms(1) batch_removes_expired [OF assms(3,2) refl] by (auto simp: deleteIncidentBatch_def Let_def)
qed

end
