(* ===== verification/Pg_Properties.thy ===== *)
theory Pg_Properties
  imports Pg_Alerts
begin

text \<open>
  The properties of the PostgreSQL repository and of the components that run on it.
\<close>

section \<open>Schema and lifecycle\<close>

text \<open>
  C13. Whatever sequence of operations runs on the PostgreSQL repository, from the empty
  schema, and whichever statements and commits fail on the way, the tables stay well-formed:
  keys, monitor URLs and idempotency keys are unique, every row refers to a monitor or an
  incident that exists, a monitor has at most one unfinished job and one open incident, a
  monitor's intervals and status are in their ranges, and a job holds a nonempty lease token
  exactly while it is processing. No retry, lost commit or retention pass breaks this.\<close>
theorem pg_constraints_hold:
  assumes "pg_reachable policy d"
  shows "schema_ok d \<and> rows_ok d"
  using pg_reachable_db_ok [OF assms] by (simp add: db_ok_def)

theorem pg_constraints_hold_witness:
  "schema_ok pg_d4 \<and> rows_ok pg_d4 \<and> map jr_id (db_jobs pg_d4) = [pg_jid]"
  using pg_constraints_hold [OF pg_reachable_4] by (simp add: pg_d4_eq)



text \<open>
  C12. Fencing on PostgreSQL: once no job holds a lease token (its job completed, died,
  failed or was reclaimed after the lease expired), a lease with that token never writes
  again. After any later steps that do not draw the same token, recording a check, failing and
  giving up the job with that lease all return an error and leave the database as it is, also when
  statements fail.\<close>
theorem pg_lease_fencing:
  assumes "pg_reachable policy d" and "pg_run policy M d d'"
    and "token_free (lease_Token lease) d" and "lease_Token lease \<notin> M" and "lease_Token lease \<noteq> []"
  shows "(\<exists>e. pg_AddCheck X c record lease alerts d' = Some (Inl e, d'))
    \<and> (\<exists>e. pg_MarkJobFailed X c lease err delay d' = (Some e, d'))
    \<and> (\<exists>e. pg_MarkJobDead X c lease err d' = (Some e, d'))"
proof -
  have "token_free (lease_Token lease) d'"
    by (rule run_token_free [OF assms(2) pg_reachable_db_ok [OF assms(1)] assms(4,5,3)])
  then show ?thesis
    by (simp add: not_live_AddCheck not_live_MarkJobFailed not_live_MarkJobDead token_free_not_live)
qed

lemma pg_d5_eq: "pg_d5 = \<lparr>db_monitors = [pg_written], db_jobs = [completeRow 5000 pg_j4], db_results = [newResultRow pg_record 5000],
    db_incidents = [alertedRow 5000 pg_incident], db_outbox = [pg_alert]\<rparr>"
  by (simp add: pg_d5_def pg_d5_run alertedRow_def pg_incident_def newIncidentRow_def)

lemma pg_reachable_5: "pg_reachable demo_policy pg_d5"
  using pgr_step [OF pg_reachable_4 pgs_AddCheck [OF pg_d5_run]] by (simp add: pg_d5_def pg_d5_run)

theorem pg_lease_fencing_witness:
  "\<exists>e. pg_AddCheck all_ok (call_at 6000) pg_record pg_lease pg_alerts (snd (pg_RecoverQueuedJobs all_ok (call_at 5500) pg_d5))
     = Some (Inl e, snd (pg_RecoverQueuedJobs all_ok (call_at 5500) pg_d5))"
proof -
  have "pg_run demo_policy ({} \<union> {}) pg_d5 (snd (pg_RecoverQueuedJobs all_ok (call_at 5500) pg_d5))"
    by (rule run_step [OF run_nil pgs_Topology])
  moreover have "token_free (lease_Token pg_lease) pg_d5" by (simp add: token_free_def pg_d5_eq completeRow_def)
  moreover have "lease_Token pg_lease \<noteq> []" by (simp add: pg_lease_def)
  ultimately show ?thesis using pg_lease_fencing [OF pg_reachable_5] by simp
qed

section \<open>The worker\<close>

text \<open>
  The worker over PostgreSQL: while statements and commits fail arbitrarily (also a commit
  that takes effect and loses its answer) and other processes change the database before each
  call within its constraints, a handler that returns without an error has settled the
  delivery at most once. It acknowledged without a lease only if the job does not wait for
  this attempt, acknowledged with a lease only if the result is stored or the lease is no longer live,
  dead-lettered only when the lease is no longer live, and requeued only without a lease.\<close>
theorem pg_worker_settles_once:
  assumes "handleQueueDeliveryWithBackoff (PostgresMonitorRepository E net) policy quote cfg wid lt h d w
             = Some (None, w')"
    and "handling_ok db_ok h" and "db_ok (svc_store (wk_service w))"
    and "wk_settled w = []" and "wk_lease w = None"
  shows "wk_settled w' = [] \<and> wk_lease w' = None
    \<or> (\<exists>x. wk_settled w' = [x] \<and> settlement_ok pg_live pg_recorded pg_waiting (dl_Job d) x w')"
  using assms by (rule pg_leases.handler_settles)

text \<open>A second delivery of the job that is being processed is acknowledged.\<close>

definition pg_point :: "db point" where "pg_point = (\<lambda>d. d, call_at 4500)"

definition pg_handling :: "db handling" where
  "pg_handling = \<lparr>hd_get = pg_point, hd_mark = pg_point, hd_probe = demo_probe, hd_draw = demo_draw,
     hd_store = pg_point, hd_retries = [(pg_point, \<lambda>_. False)], hd_timer = (\<lambda>_. True), hd_ctx = None\<rparr>"

definition pg_delivery :: "InMemoryQueue QueueDelivery" where
  "pg_delivery = memoryDelivery True (NewInMemoryQueue 4 3)
     \<lparr>msg_JobID = pg_jid, msg_MonitorID = demo_mid, msg_Attempt = 1, msg_EnqueuedAt = 300\<rparr>"

definition pg_worker :: "(db, InMemoryQueue) worker" where
  "pg_worker = \<lparr>wk_service = \<lparr>svc_store = pg_d4, svc_metrics = newMetrics 1 ''v1'' ''abc'' ''today'' 1 True\<rparr>,
     wk_queue = NewInMemoryQueue 4 3, wk_backoff = \<lparr>failures = 0\<rparr>, wk_settled = [], wk_lease = None,
     wk_decided = 0\<rparr>"

definition pg_env_ok :: "call \<Rightarrow> pg_env" where "pg_env_ok c = \<lparr>pe_outcome = all_ok, pe_locked = {}\<rparr>"

lemma pg_second_calls:
  "pg_Get all_ok demo_mid pg_d4 = Inr (scanMonitor pg_mrow)"
  "pg_MarkJobProcessing all_ok (call_at 4500) demo_mid pg_jid 1 Minute pg_d4 = (Inl ErrJobAlreadyProcessing, pg_d4)"
proof -
  show "pg_Get all_ok demo_mid pg_d4 = Inr (scanMonitor pg_mrow)"
    by (simp add: pg_Get_def perform_def failed_def findMonitor_def pg_d4_eq empty_db_def)
  have "\<not> startable demo_mid pg_jid 1 pg_j4" by (simp add: startable_def unprocessed_def)
  then show "pg_MarkJobProcessing all_ok (call_at 4500) demo_mid pg_jid 1 Minute pg_d4 = (Inl ErrJobAlreadyProcessing, pg_d4)"
    by (simp add: pg_MarkJobProcessing_def Let_def pg_d4_eq empty_db_def failed_def checkJobStatus_def perform_def findJob_def)
qed

lemma pg_second_delivery:
  obtains w' where "handleQueueDeliveryWithBackoff (PostgresMonitorRepository pg_env_ok demo_policy) pg_alerts (\<lambda>s. s)
      demo_config 1 Minute pg_handling pg_delivery pg_worker = Some (None, w')" "wk_settled w' = [Acked]"
  by (rule that [of "snd (the (handleQueueDeliveryWithBackoff (PostgresMonitorRepository pg_env_ok demo_policy) pg_alerts (\<lambda>s. s)
      demo_config 1 Minute pg_handling pg_delivery pg_worker))"])
    (simp_all add: handleQueueDeliveryWithBackoff_def pg_handling_def pg_point_def pg_delivery_def pg_worker_def memoryDelivery_def
      interfere_def Service_Get_def MarkProcessing_def PostgresMonitorRepository_def pg_env_ok_def pg_second_calls Let_def
      callAck_def delivery_Ack_def resetBackoff_def)

theorem pg_worker_settles_once_witness:
  "\<exists>w'. handleQueueDeliveryWithBackoff (PostgresMonitorRepository pg_env_ok demo_policy) pg_alerts (\<lambda>s. s)
      demo_config 1 Minute pg_handling pg_delivery pg_worker = Some (None, w')
    \<and> wk_settled w' = [Acked] \<and> settlement_ok pg_live pg_recorded pg_waiting (dl_Job pg_delivery) Acked w'"
proof -
  obtain w' where run: "handleQueueDeliveryWithBackoff (PostgresMonitorRepository pg_env_ok demo_policy) pg_alerts (\<lambda>s. s)
      demo_config 1 Minute pg_handling pg_delivery pg_worker = Some (None, w')" and acked: "wk_settled w' = [Acked]"
    by (rule pg_second_delivery)
  have "handling_ok db_ok pg_handling" by (simp add: handling_ok_def point_ok_def pg_handling_def pg_point_def)
  moreover have "db_ok (svc_store (wk_service pg_worker))" "wk_settled pg_worker = []" "wk_lease pg_worker = None"
    by (simp_all add: pg_worker_def pg_d4_ok)
  ultimately show ?thesis using pg_worker_settles_once [OF run] run acked by auto
qed

section \<open>Recording a check\<close>

text \<open>
  C4. Recording a check on PostgreSQL is all or nothing: under any failure the database is
  unchanged and the call returns an error, or everything is written at once. The job, whose
  lease was live, is completed; the result is stored, the only one of its job; the
  monitor shows it and is rescheduled; a success leaves no open incident; a failure makes the count of the
  open incident one larger, and adds exactly one pending alert when the policy wants one
  (alerts enabled, threshold reached, cooldown over) and none for this count exists. A call that
  reports success has written; a call that has written reports success unless the answer of
  the commit was lost.\<close>
theorem pg_check_all_or_nothing:
  assumes "db_ok d" and "pg_AddCheck X c record lease policy d = Some (res, d')"
  shows "(d' = d \<and> (\<exists>e. res = Inl e))
    \<or> check_written c record lease policy d d' \<and> ((\<exists>m. res = Inr m) \<or> (\<exists>t. res = Inl (ErrOther t)))"
proof (cases "chk_JobID record = []")
  case False
  with assms(2) have run: "transaction (X 0) (X 10) (addCheckBody X c record lease policy) d = (res, d')"
    by (simp add: pg_AddCheck_def)
  then show ?thesis
    by (cases rule: transaction_cases) (auto dest: addCheckBody_written [OF assms(1) False])
qed (use assms(2) in \<open>auto simp: pg_AddCheck_def\<close>)

theorem pg_check_all_or_nothing_witness:
  "check_written (call_at 5000) pg_record pg_lease pg_alerts pg_d4 pg_d5 \<and> pg_d5 \<noteq> pg_d4
   \<and> map or_status (db_outbox pg_d5) = [alertPending]"
proof -
  have "check_written (call_at 5000) pg_record pg_lease pg_alerts pg_d4 pg_d5"
    using pg_check_all_or_nothing [OF pg_d4_ok pg_d5_run] by (simp add: pg_d5_def pg_d5_run)
  moreover have "pg_d5 \<noteq> pg_d4" by (simp add: pg_d5_eq pg_d4_eq empty_db_def)
  moreover have "map or_status (db_outbox pg_d5) = [alertPending]"
    by (simp add: pg_d5_eq pg_alert_def alertRow_def newOutboxRow_def)
  ultimately show ?thesis by blast
qed

section \<open>Alerts and retention\<close>


definition pg_dispatch :: call where "pg_dispatch = call_at 6000"

definition pg_event :: AlertOutboxEvent where
  "pg_event = scanAlert (claimAlertRow 6000 (timestamptz (6000 + Minute)) (newID ''lease'' demo_draw) pg_alert)"

definition pg_cfg :: Config where
  "pg_cfg = demo_config\<lparr>cfg_AlertDispatchBatchSize := 10, cfg_AlertLeaseTimeout := Minute, cfg_AlertMaxAttempts := 3\<rparr>"

lemma pg_alert_fields [simp]: "or_status pg_alert = alertPending" "or_attempt_count pg_alert = 0"
  "or_available_at pg_alert = 5000" "or_locked_until pg_alert = None"
  by (simp_all add: pg_alert_def alertRow_def newOutboxRow_def)

lemma pg_event_claimed:
  "pg_ClaimAlerts all_ok {} pg_dispatch 10 Minute 3 pg_d5 =
     (Inr [pg_event], pg_d5\<lparr>db_outbox := [claimAlertRow 6000 (timestamptz (6000 + Minute)) (newID ''lease'' demo_draw) pg_alert]\<rparr>)"
proof -
  have now: "databaseTime pg_dispatch = 6000" "c_draw pg_dispatch = demo_draw"
    by (simp_all add: pg_dispatch_def timestamptz_def)
  have out: "db_outbox pg_d5 = [pg_alert]" by (simp add: pg_d5_eq)
  have "\<not> exhaustedAlert 6000 3 pg_alert" by (simp add: exhaustedAlert_def)
  moreover have "claimAlertIDs 6000 3 {} 10 [pg_alert] = [or_id pg_alert]" by (simp add: claimAlertIDs_def claimableAlert_def)
  moreover have "or_id (claimAlertRow 6000 u tok pg_alert) = or_id pg_alert" for u tok by (simp add: claimAlertRow_def)
  moreover have "pg_d5\<lparr>db_outbox := [pg_alert]\<rparr> = pg_d5" by (simp add: pg_d5_eq)
  ultimately show ?thesis
    by (simp add: pg_ClaimAlerts_def Let_def transaction_def failed_def perform_def now out update_rows_def claimAlertRows_def
        settle_def pg_event_def)
qed



definition pg_retention :: RetentionPolicy where
  "pg_retention = \<lparr>rp_CheckResults = Second, rp_CheckJobs = Hour, rp_AlertOutbox = Hour, rp_ResolvedIncident = Hour, rp_BatchSize = 5\<rparr>"

lemma pg_expired: "DeleteExpiredData all_ok {} (call_at Minute) pg_retention pg_d5 =
    (Inr \<lparr>rres_CheckResults = 1, rres_CheckJobs = 0, rres_AlertOutbox = 0, rres_ResolvedIncidents = 0\<rparr>, pg_d5\<lparr>db_results := []\<rparr>)"
proof -
  have now: "timestamptz Minute = Minute" by (simp add: timestamptz_def)
  have rows: "jr_updated_at (completeRow 5000 pg_j4) = 5000" "ir_resolved_at (alertedRow 5000 pg_incident) = None"
    "rr_recorded_at (newResultRow pg_record 5000) = 5000"
    by (simp_all add: completeRow_def alertedRow_def pg_incident_def newIncidentRow_def newResultRow_def)
  let ?e = "pg_d5\<lparr>db_results := []\<rparr>"
  have "deleteResultBatch {} 5 (timestamptz (Minute - Second)) pg_d5 = (1, ?e)"
    by (simp add: deleteResultBatch_def expiredIDs_def deleteIDs_def pg_d5_eq rows timestamptz_def)
  moreover have "deleteJobBatch {} 5 (timestamptz (Minute - Hour)) ?e = (0, ?e)"
    by (simp add: deleteJobBatch_def expiredIDs_def deleteIDs_def pg_d5_eq rows timestamptz_def terminal_job_row_def)
  moreover have "deleteAlertBatch {} 5 (timestamptz (Minute - Hour)) ?e = (0, ?e)"
    by (simp add: deleteAlertBatch_def expiredIDs_def deleteIDs_def pg_d5_eq settled_alert_row_def)
  moreover have "deleteIncidentBatch {} 5 (timestamptz (Minute - Hour)) ?e = (0, ?e)"
    by (simp add: deleteIncidentBatch_def expiredIDs_def deleteIDs_def pg_d5_eq resolved_incident_row_def rows sql_lt_def)
  ultimately show ?thesis
    by (simp add: DeleteExpiredData_def pg_retention_def transaction_def failed_def perform_def now Let_def settle_def)
qed


end
