(* ===== verification/Api.thy ===== *)
theory Api
  imports Service "HOL-Library.Word"
begin

unbundle bit_operations_syntax

text \<open>
  The HTTP interface of \<open>api.go\<close>: authentication, decoding of requests, pagination, the
  handlers over the service, the mapping of errors to replies, and the table of routes. A
  request is given by what the handlers read of it; the JSON decoder is an argument, which
  returns a value and the rest of the stream.
\<close>

section \<open>Requests and replies\<close>

text \<open>The outcome of one \<open>Decode\<close> of a stream.\<close>

datatype 'a decoded = Decoded 'a string | DecodeEOF | DecodeFailed string

record json_decoder =
  jd_input :: "bool \<Rightarrow> string \<Rightarrow> MonitorInput decoded"
  jd_patch :: "bool \<Rightarrow> string \<Rightarrow> MonitorPatch decoded"
  jd_any :: "bool \<Rightarrow> string \<Rightarrow> unit decoded"

text \<open>\<open>req_Path\<close> is the path cut at its slashes and unescaped; \<open>req_Header\<close> and \<open>req_Query\<close> are
  \<open>Header.Get\<close> and \<open>URL.Query().Get\<close>; \<open>req_call\<close> is what the repository call of the handler
  meets.\<close>

record http_request =
  req_Method :: string
  req_Path :: "string list"
  req_Header :: "string \<Rightarrow> string"
  req_Query :: "string \<Rightarrow> string"
  req_Body :: "string option"
  req_Deadline :: "gotime option"
  req_call :: call

datatype payload =
    JMonitor Monitor
  | JMonitors "Monitor list" nat int int
  | JChecks "CheckRecord list" nat int int
  | JReceipt ManualCheckJobReceipt
  | JStats MonitorStats
  | JIncidents "Incident list" nat int int
  | JError string string
  | PlainText string
  | NoContent

record response =
  rs_status :: int
  rs_body :: payload

abbreviation (input) StatusOK :: int where "StatusOK \<equiv> 200"
abbreviation (input) StatusCreated :: int where "StatusCreated \<equiv> 201"
abbreviation (input) StatusAccepted :: int where "StatusAccepted \<equiv> 202"
abbreviation (input) StatusNoContent :: int where "StatusNoContent \<equiv> 204"
abbreviation (input) StatusBadRequest :: int where "StatusBadRequest \<equiv> 400"
abbreviation (input) StatusUnauthorized :: int where "StatusUnauthorized \<equiv> 401"
abbreviation (input) StatusNotFound :: int where "StatusNotFound \<equiv> 404"
abbreviation (input) StatusMethodNotAllowed :: int where "StatusMethodNotAllowed \<equiv> 405"
abbreviation (input) StatusConflict :: int where "StatusConflict \<equiv> 409"
abbreviation (input) StatusInternalServerError :: int where "StatusInternalServerError \<equiv> 500"
abbreviation (input) StatusServiceUnavailable :: int where "StatusServiceUnavailable \<equiv> 503"

text \<open>The content type, and \<open>http.Error\<close>, are fixed by the payload.\<close>

definition writeJSON :: "int \<Rightarrow> payload \<Rightarrow> response" where
  "writeJSON statusCode body = \<lparr>rs_status = statusCode, rs_body = body\<rparr>"

definition writeAPIError :: "int \<Rightarrow> string \<Rightarrow> string \<Rightarrow> response" where
  "writeAPIError statusCode code message = writeJSON statusCode (JError code message)"

section \<open>Authentication\<close>

text \<open>\<open>subtle.ConstantTimeCompare\<close>: the bytes are combined without a branch on their values.\<close>

definition byte_word :: "char \<Rightarrow> 8 word" where
  "byte_word c = of_nat (of_char c)"

fun compareBytes :: "8 word \<Rightarrow> string \<Rightarrow> string \<Rightarrow> 8 word" where
  "compareBytes v (x # xs) (y # ys) = compareBytes (v OR (byte_word x XOR byte_word y)) xs ys"
| "compareBytes v _ _ = v"

definition ConstantTimeCompare :: "string \<Rightarrow> string \<Rightarrow> bool" where
  "ConstantTimeCompare x y \<longleftrightarrow> length x = length y \<and> compareBytes 0 x y = 0"

text \<open>\<open>strings.EqualFold\<close> with a second argument that has neither \<open>k\<close> nor \<open>s\<close>, the two ASCII
  letters with a non-ASCII fold.\<close>

definition EqualFold :: "string \<Rightarrow> string \<Rightarrow> bool" where
  "EqualFold s t \<longleftrightarrow> map lower_byte s = map lower_byte t"

definition bearerToken :: "string \<Rightarrow> string" where
  "bearerToken raw =
     (let raw = TrimSpace raw in
      if raw = [] then []
      else (case Cut raw (CHR '' '') of
              None \<Rightarrow> []
            | Some (scheme, token) \<Rightarrow>
                if \<not> EqualFold scheme ''Bearer'' then [] else TrimSpace token))"

record APIHandler =
  api_apiKey :: string
  api_requestTimeout :: duration

definition NewAPIHandlerWithTimeout :: "string \<Rightarrow> duration \<Rightarrow> APIHandler" where
  "NewAPIHandlerWithTimeout apiKey requestTimeout =
     \<lparr>api_apiKey = apiKey,
      api_requestTimeout = (if requestTimeout \<le> 0 then 15 * Second else requestTimeout)\<rparr>"

fun anyCandidate :: "string \<Rightarrow> string list \<Rightarrow> bool" where
  "anyCandidate key [] = False"
| "anyCandidate key (candidate # rest) =
     (if candidate = [] \<or> length candidate \<noteq> length key then anyCandidate key rest
      else if ConstantTimeCompare candidate key then True
      else anyCandidate key rest)"

definition validAPIKey :: "APIHandler \<Rightarrow> http_request \<Rightarrow> bool" where
  "validAPIKey h r =
     anyCandidate (api_apiKey h)
       [TrimSpace (req_Header r ''X-API-Key''), bearerToken (req_Header r ''Authorization'')]"

section \<open>Decoding\<close>

definition maxBodyBytes :: nat where "maxBodyBytes = 2 ^ 20"

text \<open>The reader gives at most the limit and fails, instead of ending, when there is more; the
  flag says which. The decoder sees the bytes and the flag.\<close>

definition MaxBytesReader :: "string \<Rightarrow> nat \<Rightarrow> string \<times> bool" where
  "MaxBytesReader body limit = (take limit body, limit < length body)"

definition decodeJSON ::
  "(bool \<Rightarrow> string \<Rightarrow> 'a decoded) \<Rightarrow> (bool \<Rightarrow> string \<Rightarrow> unit decoded) \<Rightarrow> http_request \<Rightarrow> string + 'a" where
  "decodeJSON decode decode_any r =
     (case req_Body r of
        None \<Rightarrow> Inl ''request body is required''
      | Some body \<Rightarrow>
          (let (bytes, cut) = MaxBytesReader body maxBodyBytes in
           case decode cut bytes of
             DecodeEOF \<Rightarrow> Inl ''EOF''
           | DecodeFailed err \<Rightarrow> Inl err
           | Decoded target rest \<Rightarrow>
               (case decode_any cut rest of
                  DecodeEOF \<Rightarrow> Inr target
                | _ \<Rightarrow> Inl ''request body must contain one JSON document'')))"

abbreviation (input) defaultPageLimit :: int where "defaultPageLimit \<equiv> 50"
abbreviation (input) maxPageLimit :: int where "maxPageLimit \<equiv> 100"

definition parseNonNegativeInt :: "string \<Rightarrow> int \<Rightarrow> int option" where
  "parseNonNegativeInt raw defaultValue =
     (if TrimSpace raw = [] then Some defaultValue
      else (case Atoi raw of
              None \<Rightarrow> None
            | Some v \<Rightarrow> if v < 0 then None else Some v))"

definition pagination :: "http_request \<Rightarrow> (int \<times> int) option" where
  "pagination r =
     (case parseNonNegativeInt (req_Query r ''offset'') 0 of
        None \<Rightarrow> None
      | Some offset \<Rightarrow>
          (case parseNonNegativeInt (req_Query r ''limit'') defaultPageLimit of
             None \<Rightarrow> None
           | Some limit \<Rightarrow>
               if limit = 0 \<or> limit > maxPageLimit then None else Some (offset, limit)))"

section \<open>Errors\<close>

definition mapAPIError :: "go_error \<Rightarrow> int \<times> string \<times> string" where
  "mapAPIError err =
     (case err of
        ErrMonitorNotFound \<Rightarrow> (StatusNotFound, ''monitor_not_found'', ''monitor not found'')
      | ErrMonitorExists \<Rightarrow> (StatusConflict, ''monitor_exists'', ''monitor already exists'')
      | ErrInvalidMonitor _ \<Rightarrow> (StatusBadRequest, ''invalid_monitor'', ''monitor request is invalid'')
      | ErrStaleJob \<Rightarrow> (StatusConflict, ''stale_check_job'', ''check job is no longer active'')
      | ErrJobAlreadyProcessing \<Rightarrow>
          (StatusConflict, ''check_job_processing'', ''check job is already processing'')
      | ErrQueueFull \<Rightarrow> (StatusServiceUnavailable, ''queue_unavailable'', ''check queue is unavailable'')
      | ErrQueueConsumerClosed \<Rightarrow>
          (StatusServiceUnavailable, ''queue_unavailable'', ''check queue is unavailable'')
      | ContextCanceled \<Rightarrow>
          (StatusServiceUnavailable, ''service_unavailable'', ''service is temporarily unavailable'')
      | ContextDeadlineExceeded \<Rightarrow>
          (StatusServiceUnavailable, ''service_unavailable'', ''service is temporarily unavailable'')
      | _ \<Rightarrow> (StatusInternalServerError, ''internal_error'', ''internal server error''))"

text \<open>What \<open>logAPIError\<close> writes: an error from 500 on, a warning below.\<close>

datatype log_level = LevelWarn | LevelError

record log_entry =
  le_level :: log_level
  le_method :: string
  le_path :: "string list"
  le_status :: int
  le_code :: string

definition logAPIError :: "http_request \<Rightarrow> int \<Rightarrow> string \<Rightarrow> log_entry" where
  "logAPIError r statusCode code =
     \<lparr>le_level = (if statusCode \<ge> StatusInternalServerError then LevelError else LevelWarn),
      le_method = req_Method r, le_path = req_Path r, le_status = statusCode, le_code = code\<rparr>"

text \<open>A handler's result: the reply, the log entries and the service; \<open>None\<close> is a panic.\<close>

type_synonym 's reply = "(response \<times> log_entry list \<times> 's MonitorService) option"
type_synonym 's handler = "string \<Rightarrow> http_request \<Rightarrow> 's MonitorService \<Rightarrow> 's reply"

definition writeRequestError ::
  "http_request \<Rightarrow> int \<Rightarrow> string \<Rightarrow> string \<Rightarrow> 's MonitorService \<Rightarrow> 's reply" where
  "writeRequestError r statusCode code message st =
     Some (writeAPIError statusCode code message, [logAPIError r statusCode code], st)"

definition writeStoreError :: "http_request \<Rightarrow> go_error \<Rightarrow> 's MonitorService \<Rightarrow> 's reply" where
  "writeStoreError r err st =
     (case mapAPIError err of (statusCode, code, message) \<Rightarrow>
        Some (writeAPIError statusCode code message, [logAPIError r statusCode code], st))"

definition reply_ok :: "int \<Rightarrow> payload \<Rightarrow> 's MonitorService \<Rightarrow> 's reply" where
  "reply_ok statusCode body st = Some (writeJSON statusCode body, [], st)"

section \<open>Handlers\<close>

definition createMonitor :: "'s MonitorRepository \<Rightarrow> json_decoder \<Rightarrow> 's handler" where
  "createMonitor R json mid r st =
     (case decodeJSON (jd_input json) (jd_any json) r of
        Inl err \<Rightarrow> writeRequestError r StatusBadRequest ''invalid_json'' ''request body must be valid JSON'' st
      | Inr input \<Rightarrow>
          (case Service_Create R (req_call r) input st of
             (Inl err, st) \<Rightarrow> writeStoreError r err st
           | (Inr monitor, st) \<Rightarrow> reply_ok StatusCreated (JMonitor monitor) st))"

definition invalidPagination :: "http_request \<Rightarrow> 's MonitorService \<Rightarrow> 's reply" where
  "invalidPagination r st =
     writeRequestError r StatusBadRequest ''invalid_pagination'' ''pagination parameters are invalid'' st"

definition listMonitors :: "'s MonitorRepository \<Rightarrow> 's handler" where
  "listMonitors R mid r st =
     (case pagination r of
        None \<Rightarrow> invalidPagination r st
      | Some (offset, limit) \<Rightarrow>
          (case Service_List R (req_call r) offset limit st of
             Inl err \<Rightarrow> writeStoreError r err st
           | Inr (None, _) \<Rightarrow> None
           | Inr (Some items, n) \<Rightarrow> reply_ok StatusOK (JMonitors items n offset limit) st))"

definition getMonitor :: "'s MonitorRepository \<Rightarrow> 's handler" where
  "getMonitor R mid r st =
     (case Service_Get R (req_call r) mid st of
        Inl err \<Rightarrow> writeStoreError r err st
      | Inr monitor \<Rightarrow> reply_ok StatusOK (JMonitor monitor) st)"

definition updateMonitor :: "'s MonitorRepository \<Rightarrow> json_decoder \<Rightarrow> 's handler" where
  "updateMonitor R json mid r st =
     (case decodeJSON (jd_patch json) (jd_any json) r of
        Inl err \<Rightarrow> writeRequestError r StatusBadRequest ''invalid_json'' ''request body must be valid JSON'' st
      | Inr patch \<Rightarrow>
          (case Service_Update R (req_call r) mid patch st of
             (Inl err, st) \<Rightarrow> writeStoreError r err st
           | (Inr monitor, st) \<Rightarrow> reply_ok StatusOK (JMonitor monitor) st))"

definition deleteMonitor :: "'s MonitorRepository \<Rightarrow> 's handler" where
  "deleteMonitor R mid r st =
     (case Service_Delete R (req_call r) mid st of
        (Some err, st) \<Rightarrow> writeStoreError r err st
      | (None, st) \<Rightarrow> reply_ok StatusNoContent NoContent st)"

definition listChecks :: "'s MonitorRepository \<Rightarrow> 's handler" where
  "listChecks R mid r st =
     (case pagination r of
        None \<Rightarrow> invalidPagination r st
      | Some (offset, limit) \<Rightarrow>
          (case Service_ListChecks R (req_call r) mid offset limit st of
             Inl err \<Rightarrow> writeStoreError r err st
           | Inr (None, _) \<Rightarrow> None
           | Inr (Some items, n) \<Rightarrow> reply_ok StatusOK (JChecks items n offset limit) st))"

definition runManualCheck :: "'s MonitorRepository \<Rightarrow> 's handler" where
  "runManualCheck R mid r st =
     (case QueueManualCheck R (req_call r) mid st of
        (Inl err, st) \<Rightarrow> writeStoreError r err st
      | (Inr receipt, st) \<Rightarrow> reply_ok StatusAccepted (JReceipt receipt) st)"

definition getStats :: "'s MonitorRepository \<Rightarrow> 's handler" where
  "getStats R mid r st =
     (case Service_Stats R (req_call r) mid st of
        Inl err \<Rightarrow> writeStoreError r err st
      | Inr stats \<Rightarrow> reply_ok StatusOK (JStats stats) st)"

definition listIncidents :: "'s MonitorRepository \<Rightarrow> 's handler" where
  "listIncidents R mid r st =
     (case pagination r of
        None \<Rightarrow> invalidPagination r st
      | Some (offset, limit) \<Rightarrow>
          (case Service_ListIncidents R (req_call r) (TrimSpace (req_Query r ''status'')) offset limit st of
             Inl err \<Rightarrow> writeStoreError r err st
           | Inr (None, _) \<Rightarrow> None
           | Inr (Some items, n) \<Rightarrow> reply_ok StatusOK (JIncidents items n offset limit) st))"

section \<open>Routes\<close>

definition requireAPIKey :: "APIHandler \<Rightarrow> 's handler \<Rightarrow> 's handler" where
  "requireAPIKey h next =
     (if api_apiKey h = [] then next
      else (\<lambda>mid r st.
              if validAPIKey h r then next mid r st
              else Some (writeAPIError StatusUnauthorized ''unauthorized'' ''valid API key is required'', [], st)))"

text \<open>\<open>context.WithTimeout\<close>: the earlier of the two deadlines counts.\<close>

definition withRequestTimeout :: "APIHandler \<Rightarrow> 's handler \<Rightarrow> 's handler" where
  "withRequestTimeout h next mid r st =
     (let deadline = c_now (req_call r) + api_requestTimeout h in
      next mid (r\<lparr>req_Deadline := Some (case req_Deadline r of None \<Rightarrow> deadline | Some d \<Rightarrow> min d deadline)\<rparr>) st)"

datatype segment = Lit string | Wild

type_synonym 's route = "string \<times> segment list \<times> 's handler"

text \<open>Every pattern is registered behind the key and the timeout.\<close>

definition api_routes :: "'s MonitorRepository \<Rightarrow> json_decoder \<Rightarrow> 's route list" where
  "api_routes R json =
     (let monitors = [Lit ''api'', Lit ''v1'', Lit ''monitors'']
      in [(''POST'', monitors, createMonitor R json),
          (''GET'', monitors, listMonitors R),
          (''GET'', monitors @ [Wild], getMonitor R),
          (''PATCH'', monitors @ [Wild], updateMonitor R json),
          (''DELETE'', monitors @ [Wild], deleteMonitor R),
          (''GET'', monitors @ [Wild, Lit ''checks''], listChecks R),
          (''POST'', monitors @ [Wild, Lit ''check''], runManualCheck R),
          (''GET'', monitors @ [Wild, Lit ''stats''], getStats R),
          (''GET'', [Lit ''api'', Lit ''v1'', Lit ''incidents''], listIncidents R)])"

definition guarded :: "APIHandler \<Rightarrow> 's handler \<Rightarrow> 's handler" where
  "guarded h next = requireAPIKey h (withRequestTimeout h next)"

definition Register :: "APIHandler \<Rightarrow> 's MonitorRepository \<Rightarrow> json_decoder \<Rightarrow> 's route list" where
  "Register h R json = map (\<lambda>(meth, pattern, next). (meth, pattern, guarded h next)) (api_routes R json)"

text \<open>The dispatch of \<open>http.ServeMux\<close> over patterns of which no two match the same request: a
  wildcard takes one segment that is not empty, a \<open>GET\<close> pattern also serves \<open>HEAD\<close>, and a path
  known under another method only is 405.\<close>

fun matchPath :: "segment list \<Rightarrow> string list \<Rightarrow> string option" where
  "matchPath [] [] = Some []"
| "matchPath (Lit s # ps) (x # xs) = (if s = x then matchPath ps xs else None)"
| "matchPath (Wild # ps) (x # xs) = (if x = [] then None else map_option (\<lambda>_. x) (matchPath ps xs))"
| "matchPath _ _ = None"

definition matchMethod :: "string \<Rightarrow> string \<Rightarrow> bool" where
  "matchMethod pattern meth \<longleftrightarrow> pattern = meth \<or> pattern = ''GET'' \<and> meth = ''HEAD''"

fun dispatch :: "'s route list \<Rightarrow> http_request \<Rightarrow> ('s handler \<times> string) option" where
  "dispatch [] r = None"
| "dispatch ((meth, pattern, next) # routes) r =
     (case matchPath pattern (req_Path r) of
        Some mid \<Rightarrow> if matchMethod meth (req_Method r) then Some (next, mid) else dispatch routes r
      | None \<Rightarrow> dispatch routes r)"

definition known_path :: "'s route list \<Rightarrow> http_request \<Rightarrow> bool" where
  "known_path routes r = list_ex (\<lambda>(_, pattern, _). matchPath pattern (req_Path r) \<noteq> None) routes"

definition serveAPI :: "APIHandler \<Rightarrow> 's MonitorRepository \<Rightarrow> json_decoder \<Rightarrow> http_request \<Rightarrow> 's MonitorService \<Rightarrow> 's reply" where
  "serveAPI h R json r st =
     (let routes = Register h R json in
      case dispatch routes r of
        Some (next, mid) \<Rightarrow> next mid r st
      | None \<Rightarrow>
          Some (if known_path routes r
                then writeJSON StatusMethodNotAllowed (PlainText ''Method Not Allowed'')
                else writeJSON StatusNotFound (PlainText ''404 page not found''), [], st))"

section \<open>Facts on authentication\<close>

lemma byte_word_eq [simp]: "byte_word x = byte_word y \<longleftrightarrow> x = y"
proof
  assume "byte_word x = byte_word y"
  then have "unat (byte_word x) = unat (byte_word y)" by simp
  then have "(of_char x :: nat) = of_char y"
    by (simp add: byte_word_def unat_of_nat take_bit_eq_mod)
  then show "x = y" by simp
qed simp

lemma xor_zero_iff: "(v :: 8 word) XOR w = 0 \<longleftrightarrow> v = w"
  by (metis bit.xor_left_self bit.xor_self xor.right_neutral)

lemma compareBytes_zero:
  "length x = length y \<Longrightarrow> compareBytes v x y = 0 \<longleftrightarrow> v = 0 \<and> x = y"
  by (induction x y arbitrary: v rule: list_induct2) (auto simp: or_eq_0_iff xor_zero_iff)

lemma ConstantTimeCompare_iff [simp]: "ConstantTimeCompare x y \<longleftrightarrow> x = y"
  by (auto simp: ConstantTimeCompare_def compareBytes_zero)

lemma anyCandidate_iff: "anyCandidate key cs \<longleftrightarrow> key \<noteq> [] \<and> key \<in> set cs"
  by (induction cs) auto

text \<open>The two ways to present a key.\<close>

definition presents :: "string \<Rightarrow> http_request \<Rightarrow> bool" where
  "presents key r \<longleftrightarrow>
     TrimSpace (req_Header r ''X-API-Key'') = key
   \<or> (case Cut (TrimSpace (req_Header r ''Authorization'')) (CHR '' '') of
        None \<Rightarrow> False
      | Some (scheme, token) \<Rightarrow> map lower_byte scheme = ''bearer'' \<and> TrimSpace token = key)"

lemma lower_bearer: "map lower_byte ''Bearer'' = ''bearer''"
  by code_simp

lemma bearerToken_iff:
  "key \<noteq> [] \<Longrightarrow> bearerToken raw = key \<longleftrightarrow>
     (case Cut (TrimSpace raw) (CHR '' '') of
        None \<Rightarrow> False
      | Some (scheme, token) \<Rightarrow> map lower_byte scheme = ''bearer'' \<and> TrimSpace token = key)"
  by (auto simp: bearerToken_def Let_def EqualFold_def lower_bearer simp del: list.map split: option.split)

lemma validAPIKey_iff: "api_apiKey h \<noteq> [] \<Longrightarrow> validAPIKey h r \<longleftrightarrow> presents (api_apiKey h) r"
  using bearerToken_iff [of "api_apiKey h" "req_Header r ''Authorization''"]
  unfolding validAPIKey_def anyCandidate_iff presents_def by (metis empty_iff insert_iff list.set)

lemma dispatch_map:
  "dispatch (map (\<lambda>(meth, pattern, next). (meth, pattern, g next)) rs) r
   = map_option (apfst g) (dispatch rs r)"
  by (induction rs) (auto split: option.split)

lemma known_path_map:
  "known_path (map (\<lambda>(meth, pattern, next). (meth, pattern, g next)) rs) r = known_path rs r"
  by (simp add: known_path_def list_ex_iff case_prod_beta)

lemma dispatch_known: "dispatch rs r = Some x \<Longrightarrow> known_path rs r"
  by (induction rs) (auto simp: known_path_def split: option.splits if_splits)

end
