(* ===== verification/Api_Properties.thy ===== *)
theory Api_Properties
  imports Api
begin

text \<open>
  What the HTTP interface guarantees: requests without the key reach no handler, and over a
  quiet repository every request gets a reply, of which the refusals have no effect and show
  a fixed text only.

  \<open>quiet_repository\<close> is what the interface needs of a repository so that a refused request has
  no effect; the in-memory repository is an interpretation.
\<close>

section \<open>Refusals\<close>

text \<open>The replies to a refused request: status, code and message.\<close>

definition refusals :: "(int \<times> string \<times> string) list" where
  "refusals =
     [(400, ''invalid_json'', ''request body must be valid JSON''),
      (400, ''invalid_pagination'', ''pagination parameters are invalid''),
      (400, ''invalid_monitor'', ''monitor request is invalid''),
      (404, ''monitor_not_found'', ''monitor not found''),
      (409, ''monitor_exists'', ''monitor already exists'')]"

definition refused :: "http_request \<Rightarrow> response \<Rightarrow> log_entry list \<Rightarrow> bool" where
  "refused r resp lg \<longleftrightarrow>
     (\<exists>(status, code, message) \<in> set refusals.
        resp = writeAPIError status code message \<and> lg = [logAPIError r status code])"

definition caller_error :: "go_error \<Rightarrow> bool" where
  "caller_error err \<longleftrightarrow>
     err = ErrMonitorNotFound \<or> err = ErrMonitorExists \<or> (\<exists>m. err = ErrInvalidMonitor m)"

text \<open>A served or a refused request, from \<open>st\<close> to \<open>st'\<close>.\<close>

definition settled :: "http_request \<Rightarrow> 's MonitorService \<Rightarrow> 's reply \<Rightarrow> bool" where
  "settled r st reply \<longleftrightarrow>
     (\<exists>resp lg st'. reply = Some (resp, lg, st')
        \<and> (rs_status resp \<in> {200, 201, 202, 204} \<and> lg = [] \<or> refused r resp lg \<and> st' = st))"

lemma settled_reply_ok: "n \<in> {200, 201, 202, 204} \<Longrightarrow> settled r st (reply_ok n body st')"
  by (auto simp: settled_def reply_ok_def writeJSON_def)

lemma settled_request_error:
  "(status, code, message) \<in> set refusals \<Longrightarrow> settled r st (writeRequestError r status code message st)"
  unfolding settled_def refused_def writeRequestError_def
  by (intro exI conjI disjI2 bexI [of _ "(status, code, message)"]) simp_all

lemma settled_store_error: "caller_error err \<Longrightarrow> settled r st (writeStoreError r err st)"
  by (auto simp: caller_error_def settled_def refused_def writeStoreError_def mapAPIError_def refusals_def)

lemmas settled_intros = settled_reply_ok settled_store_error settled_request_error

lemma pagination_bounds:
  assumes "pagination r = Some (offset, limit)"
  shows "0 \<le> offset" "1 \<le> limit" "limit \<le> 100"
  using assms
  by (auto simp: pagination_def parseNonNegativeInt_def split: option.splits if_splits)

section \<open>Quiet repositories\<close>

text \<open>A failed write leaves the state as it was, only the client's errors occur, and a legal page
  exists; \<open>good\<close> says which calls and states are covered.\<close>

locale quiet_repository =
  fixes R :: "'s MonitorRepository" and good :: "call \<Rightarrow> 's \<Rightarrow> bool"
  assumes create_quiet:
      "good c s \<Longrightarrow> repo_Create R c input s = (Inl err, s') \<Longrightarrow> s' = s \<and> caller_error err"
    and update_quiet:
      "good c s \<Longrightarrow> repo_Update R c mid patch s = (Inl err, s') \<Longrightarrow> s' = s \<and> caller_error err"
    and delete_quiet:
      "good c s \<Longrightarrow> repo_Delete R c mid s = (Some err, s') \<Longrightarrow> s' = s \<and> caller_error err"
    and manual_quiet:
      "good c s \<Longrightarrow> repo_CreateManualJob R c mid s = (Inl err, s') \<Longrightarrow> s' = s \<and> caller_error err"
    and get_quiet: "good c s \<Longrightarrow> repo_Get R c mid s = Inl err \<Longrightarrow> caller_error err"
    and stats_quiet: "good c s \<Longrightarrow> repo_Stats R c mid s = Inl err \<Longrightarrow> caller_error err"
    and monitors_page:
      "good c s \<Longrightarrow> 0 \<le> offset \<Longrightarrow> 1 \<le> limit \<Longrightarrow> limit \<le> 100 \<Longrightarrow>
       \<exists>items n. repo_List R c offset limit s = Inr (Some items, n)"
    and checks_page:
      "good c s \<Longrightarrow> 0 \<le> offset \<Longrightarrow> 1 \<le> limit \<Longrightarrow> limit \<le> 100 \<Longrightarrow>
       (\<exists>err. repo_ListChecks R c mid offset limit s = Inl err \<and> caller_error err)
       \<or> (\<exists>items n. repo_ListChecks R c mid offset limit s = Inr (Some items, n))"
    and incidents_page:
      "good c s \<Longrightarrow> 0 \<le> offset \<Longrightarrow> 1 \<le> limit \<Longrightarrow> limit \<le> 100 \<Longrightarrow>
       \<exists>items n. repo_ListIncidents R c status offset limit s = Inr (Some items, n)"
begin

lemma same_service: "st\<lparr>svc_store := svc_store st\<rparr> = (st :: 's MonitorService)"
  by simp

lemma create_settled:
  assumes "good (req_call r) (svc_store st)"
  shows "settled r st (createMonitor R json mid r st)"
proof (cases "decodeJSON (jd_input json) (jd_any json) r")
  case (Inr input)
  then show ?thesis
    using create_quiet [OF assms, of input]
    by (auto simp: createMonitor_def Service_Create_def settled_intros same_service split: prod.split sum.split)
qed (simp add: createMonitor_def settled_request_error refusals_def)

lemma update_settled:
  assumes "good (req_call r) (svc_store st)"
  shows "settled r st (updateMonitor R json mid r st)"
proof (cases "decodeJSON (jd_patch json) (jd_any json) r")
  case (Inr patch)
  then show ?thesis
    using update_quiet [OF assms, of mid patch]
    by (auto simp: updateMonitor_def Service_Update_def settled_intros same_service split: prod.split sum.split)
qed (simp add: updateMonitor_def settled_request_error refusals_def)

lemma delete_settled:
  assumes "good (req_call r) (svc_store st)"
  shows "settled r st (deleteMonitor R mid r st)"
  using delete_quiet [OF assms, of mid]
  by (auto simp: deleteMonitor_def Service_Delete_def settled_intros same_service
      split: prod.split option.split)

lemma manual_settled:
  assumes "good (req_call r) (svc_store st)"
  shows "settled r st (runManualCheck R mid r st)"
  using manual_quiet [OF assms, of mid]
  by (auto simp: runManualCheck_def QueueManualCheck_def settled_intros same_service
      split: prod.split sum.split)

lemma get_settled:
  assumes "good (req_call r) (svc_store st)"
  shows "settled r st (getMonitor R mid r st)"
  using get_quiet [OF assms, of mid]
  by (auto simp: getMonitor_def Service_Get_def settled_intros split: sum.split)

lemma stats_settled:
  assumes "good (req_call r) (svc_store st)"
  shows "settled r st (getStats R mid r st)"
  using stats_quiet [OF assms, of mid]
  by (auto simp: getStats_def Service_Stats_def settled_intros split: sum.split)

lemma invalidPagination_settled: "settled r st (invalidPagination r st)"
  by (simp add: invalidPagination_def settled_request_error refusals_def)

lemma listMonitors_settled:
  assumes "good (req_call r) (svc_store st)"
  shows "settled r st (listMonitors R mid r st)"
proof (cases "pagination r")
  case (Some p)
  obtain offset limit where p: "p = (offset, limit)" by fastforce
  with Some obtain items n where "repo_List R (req_call r) offset limit (svc_store st) = Inr (Some items, n)"
    using monitors_page [OF assms] pagination_bounds by blast
  with Some p show ?thesis by (simp add: listMonitors_def Service_List_def settled_intros)
qed (simp add: listMonitors_def invalidPagination_settled)

lemma listChecks_settled:
  assumes "good (req_call r) (svc_store st)"
  shows "settled r st (listChecks R mid r st)"
proof (cases "pagination r")
  case (Some p)
  obtain offset limit where p: "p = (offset, limit)" by fastforce
  from Some p have "0 \<le> offset" "1 \<le> limit" "limit \<le> 100" using pagination_bounds by blast+
  from checks_page [OF assms this, of mid] Some p show ?thesis
    by (auto simp: listChecks_def Service_ListChecks_def settled_intros)
qed (simp add: listChecks_def invalidPagination_settled)

lemma listIncidents_settled:
  assumes "good (req_call r) (svc_store st)"
  shows "settled r st (listIncidents R mid r st)"
proof (cases "pagination r")
  case (Some p)
  obtain offset limit where p: "p = (offset, limit)" by fastforce
  with Some obtain items n where
    "repo_ListIncidents R (req_call r) (TrimSpace (req_Query r ''status'')) offset limit (svc_store st)
       = Inr (Some items, n)"
    using incidents_page [OF assms] pagination_bounds by blast
  with Some p show ?thesis by (simp add: listIncidents_def Service_ListIncidents_def settled_intros)
qed (simp add: listIncidents_def invalidPagination_settled)

lemmas handlers_settled = create_settled update_settled delete_settled manual_settled get_settled
  stats_settled listMonitors_settled listChecks_settled listIncidents_settled

lemma route_settled:
  assumes "dispatch (api_routes R json) r = Some (next, mid)" "good (req_call r) (svc_store st)"
  shows "settled r st (next mid r st)"
  using assms(1) handlers_settled [OF assms(2)]
  by (auto simp: api_routes_def Let_def split: option.splits if_splits)

end

lemma map_values_le: "length (map_values m ks) \<le> length ks"
  by (induction ks) (auto split: option.split)

text \<open>A call visits fewer than \<open>2 ^ 62\<close> keys of a map.\<close>

definition pages_fit :: "call \<Rightarrow> MonitorStore \<Rightarrow> bool" where
  "pages_fit c s \<longleftrightarrow> checks_ok s \<and> int (length (c_keys c)) < 2 ^ 62"

lemma go_page_fits:
  assumes "0 \<le> offset" "1 \<le> limit" "limit \<le> 100" "int (length xs) < 2 ^ 62"
  shows "\<exists>items. go_page xs offset limit = Some items"
  using go_page_defined [of offset limit xs] assms by simp

lemma go_page_values:
  assumes "pages_fit c s" "0 \<le> offset" "1 \<le> limit" "limit \<le> 100"
    and "length xs \<le> length (map_values m (c_keys c))"
  shows "\<exists>items. go_page xs offset limit = Some items"
  using assms map_values_le [of m "c_keys c"] by (intro go_page_fits) (simp_all add: pages_fit_def)

lemma validate_client_error: "validateMonitorInput env input policy = Some err \<Longrightarrow> caller_error err"
  by (auto simp: validateMonitorInput_def caller_error_def split: if_splits)

lemma Update_quiet:
  assumes "Update env mid patch now s = (Inl err, s')"
  shows "s' = s \<and> caller_error err"
proof
  show "s' = s"
    using assms by (cases rule: Update_cases [of env mid patch now s]) (auto simp: Update_success)
  show "caller_error err"
    using assms
    by (auto simp: Update_def Let_def caller_error_def dest!: validate_client_error
        split: option.splits if_splits prod.splits)
qed

interpretation mem_api: quiet_repository InMemoryMonitorRepository pages_fit
proof
  fix c s offset limit mid status
  assume fit: "pages_fit c s" and page: "0 \<le> (offset::int)" "1 \<le> (limit::int)" "limit \<le> 100"
  show "\<exists>items n. repo_List InMemoryMonitorRepository c offset limit s = Inr (Some items, n)"
    using go_page_values [OF fit page, of "sort_key monitor_created_key (map_values (byID s) (c_keys c))"
        "byID s"]
    by (simp add: InMemoryMonitorRepository_def List_monitors_def Let_def)
  have "\<exists>items n. ListIncidents (c_keys c) st offset limit s = (Some items, n)" for st
    by (simp add: ListIncidents_def Let_def) (rule go_page_values [OF fit page, of _ "incidents s"], simp)
  then show "\<exists>items n. repo_ListIncidents InMemoryMonitorRepository c status offset limit s = Inr (Some items, n)"
    using go_page_fits [OF page, of "[]"] by (auto simp: InMemoryMonitorRepository_def mem_ListIncidents_def)
  have recorded: "int (length (sort_key check_key (case checks s mid of None \<Rightarrow> [] | Some rs \<Rightarrow> rs))) < 2 ^ 62"
    using fit by (fastforce simp: pages_fit_def checks_ok_def maxChecksPerMonitor_def split: option.split)
  show "(\<exists>err. repo_ListChecks InMemoryMonitorRepository c mid offset limit s = Inl err \<and> caller_error err)
      \<or> (\<exists>items n. repo_ListChecks InMemoryMonitorRepository c mid offset limit s = Inr (Some items, n))"
    using go_page_fits [OF page recorded]
    by (auto simp: InMemoryMonitorRepository_def ListChecks_def caller_error_def Let_def split: option.split)
qed (auto simp: InMemoryMonitorRepository_def Create_def Delete_def CreateManualJob_def Get_def Stats_def
    Let_def caller_error_def Update_quiet validate_client_error
    split: option.splits if_splits prod.splits
    dest: validate_client_error Update_quiet)

section \<open>The served requests\<close>

lemma settled_deadline [simp]: "settled (r\<lparr>req_Deadline := d\<rparr>) st reply = settled r st reply"
  by (simp add: settled_def refused_def logAPIError_def)

lemma dispatch_Register:
  "dispatch (Register h R json) r = map_option (apfst (guarded h)) (dispatch (api_routes R json) r)"
  "known_path (Register h R json) r = known_path (api_routes R json) r"
  by (simp_all add: Register_def dispatch_map known_path_map)

lemma dispatch_deadline [simp]: "dispatch rs (r\<lparr>req_Deadline := d\<rparr>) = dispatch rs r"
  by (induction rs) (auto split: option.split)

definition unauthorized :: "'s MonitorService \<Rightarrow> 's reply" where
  "unauthorized st =
     Some (writeAPIError 401 ''unauthorized'' ''valid API key is required'', [], st)"

text \<open>The replies of the multiplexer to a request that no route takes.\<close>

definition no_route :: "'s MonitorService \<Rightarrow> 's reply \<Rightarrow> bool" where
  "no_route st reply \<longleftrightarrow>
     reply = Some (writeJSON 404 (PlainText ''404 page not found''), [], st)
   \<or> reply = Some (writeJSON 405 (PlainText ''Method Not Allowed''), [], st)"

lemma serveAPI_cases:
  obtains (none) "dispatch (api_routes R json) r = None" "no_route st (serveAPI h R json r st)"
  | (route) "next" mid where "dispatch (api_routes R json) r = Some (next, mid)"
      "serveAPI h R json r st = guarded h next mid r st"
proof (cases "dispatch (api_routes R json) r")
  case None
  then show thesis
    by (intro none) (simp_all add: serveAPI_def dispatch_Register no_route_def)
next
  case (Some x)
  then show thesis
    by (cases x) (auto intro!: route simp: serveAPI_def dispatch_Register)
qed

text \<open>
  C33. No request gets past a configured API key without it: the key is presented as
  \<open>X-API-Key\<close> or as a bearer token in any letter case, compared byte by byte; with it the
  request is served as if no key were configured, and without it every route answers 401 and
  neither reads nor changes the service.\<close>
theorem api_key_required:
  assumes "api_apiKey h \<noteq> []"
  shows "serveAPI h R json r st =
     (if presents (api_apiKey h) r then serveAPI (h\<lparr>api_apiKey := []\<rparr>) R json r st
      else if dispatch (api_routes R json) r = None then serveAPI (h\<lparr>api_apiKey := []\<rparr>) R json r st
      else unauthorized st)
   \<and> (dispatch (api_routes R json) r = None \<longrightarrow> no_route st (serveAPI h R json r st))"
proof (cases rule: serveAPI_cases [of R json r st h])
  case none
  then show ?thesis by (simp add: serveAPI_def dispatch_Register)
next
  case (route "next" mid)
  then show ?thesis
    using assms
    by (auto simp: serveAPI_def dispatch_Register guarded_def requireAPIKey_def validAPIKey_iff
        withRequestTimeout_def unauthorized_def)
qed


section \<open>Witnesses\<close>

definition demo_json :: json_decoder where
  "demo_json =
     \<lparr>jd_input = (\<lambda>cut body. if cut then DecodeFailed ''too large'' else Decoded demo_input []),
      jd_patch = (\<lambda>cut body. DecodeEOF), jd_any = (\<lambda>cut body. DecodeEOF)\<rparr>"

definition demo_request :: "(string \<Rightarrow> string) \<Rightarrow> http_request" where
  "demo_request header =
     \<lparr>req_Method = ''POST'', req_Path = [''api'', ''v1'', ''monitors''], req_Header = header,
      req_Query = (\<lambda>_. []), req_Body = Some ''{}'', req_Deadline = None, req_call = demo_call\<rparr>"

definition demo_api :: APIHandler where
  "demo_api = NewAPIHandlerWithTimeout ''secret'' 0"

definition demo_empty_service :: memory_service where
  "demo_empty_service = \<lparr>svc_store = NewMonitorStore demo_policy,
     svc_metrics = newMetrics 1 ''v1'' ''abc'' ''today'' 0 True\<rparr>"

lemma demo_routed: "dispatch (api_routes InMemoryMonitorRepository demo_json) (demo_request header) \<noteq> None"
  by (simp add: api_routes_def Let_def demo_request_def matchMethod_def)

lemma demo_presented:
  "presents ''secret'' (demo_request (\<lambda>k. if k = ''Authorization'' then ''bEARER secret'' else []))"
  by code_simp

theorem api_key_required_witness:
  "serveAPI demo_api InMemoryMonitorRepository demo_json (demo_request (\<lambda>_. ''Secret'')) demo_empty_service
     = unauthorized demo_empty_service
   \<and> serveAPI demo_api InMemoryMonitorRepository demo_json
       (demo_request (\<lambda>k. if k = ''Authorization'' then ''bEARER secret'' else [])) demo_empty_service
     = serveAPI (demo_api\<lparr>api_apiKey := []\<rparr>) InMemoryMonitorRepository demo_json
       (demo_request (\<lambda>k. if k = ''Authorization'' then ''bEARER secret'' else [])) demo_empty_service"
proof -
  have key: "api_apiKey demo_api = ''secret''" by (simp add: demo_api_def NewAPIHandlerWithTimeout_def)
  then have "api_apiKey demo_api \<noteq> []" by simp
  note serve = api_key_required [OF this, THEN conjunct1]
  have "\<not> presents ''secret'' (demo_request (\<lambda>_. ''Secret''))" by code_simp
  then show ?thesis by (simp add: serve key demo_presented demo_routed)
qed


end
