(* ===== verification/Observability.thy ===== *)
theory Observability
  imports Api_Properties "HOL-Library.AList" "HOL-Library.Multiset"
begin

text \<open>
  The HTTP server of \<open>observability.go\<close>, \<open>openapi.go\<close> and \<open>RunHTTPServer\<close>: which routes a process
  serves, the readiness probe over the dependencies of \<open>BuildReadinessDependencies\<close>, and the
  write timeout. The probes of the dependencies run concurrently: their results arrive in any
  order, which is the argument \<open>arrange\<close>.
\<close>

section \<open>Readiness\<close>

text \<open>A dependency with the result of its check; \<open>None\<close> is a nil check.\<close>

record ReadinessDependency =
  rd_Name :: string
  rd_Check :: "go_error option option"

definition dependencyResults :: "ctx_err \<Rightarrow> ReadinessDependency list \<Rightarrow> (string \<times> go_error option) list" where
  "dependencyResults ctx dependencies =
     concat (map (\<lambda>d. if rd_Name d = [] then []
                      else (case rd_Check d of
                              None \<Rightarrow> []
                            | Some err \<Rightarrow> [(rd_Name d, if ctx \<noteq> None then ctx else err)]))
                 dependencies)"

fun collectResults ::
  "(string \<times> go_error option) list \<Rightarrow> Metrics \<Rightarrow> (string \<times> go_error) list
   \<Rightarrow> (string \<times> go_error) list \<times> Metrics" where
  "collectResults [] m failed = (failed, m)"
| "collectResults ((name, err) # results) m failed =
     collectResults results (SetDependencyUp name (err = None) m)
       (case err of None \<Rightarrow> failed | Some e \<Rightarrow> AList.update name e failed)"

definition checkReadinessDependencies ::
  "ctx_err \<Rightarrow> ((string \<times> go_error option) list \<Rightarrow> (string \<times> go_error option) list)
   \<Rightarrow> ReadinessDependency list \<Rightarrow> Metrics \<Rightarrow> (string \<times> go_error) list \<times> Metrics" where
  "checkReadinessDependencies ctx arrange dependencies m =
     (if dependencies = [] then ([], m)
      else collectResults (arrange (dependencyResults ctx dependencies)) m [])"

text \<open>The pings are given by their results, \<open>None\<close> for a repository or queue that is nil.\<close>

definition BuildReadinessDependencies ::
  "Config \<Rightarrow> go_error option option \<Rightarrow> go_error option option \<Rightarrow> ReadinessDependency list" where
  "BuildReadinessDependencies cfg repoPing queuePing =
     (if cfg_StorageType cfg = ''postgres'' \<and> repoPing \<noteq> None
      then [\<lparr>rd_Name = ''postgres'', rd_Check = repoPing\<rparr>] else []) @
     (if cfg_QueueType cfg = ''rabbitmq'' \<and> queuePing \<noteq> None
         \<and> (roleEnabled (cfg_AppRole cfg) ''scheduler'' \<or> roleEnabled (cfg_AppRole cfg) ''worker'')
      then [\<lparr>rd_Name = ''rabbitmq'', rd_Check = queuePing\<rparr>] else [])"

section \<open>Timeouts\<close>

definition responseWriteTimeout :: "Config \<Rightarrow> duration" where
  "responseWriteTimeout cfg =
     (let requestTimeout = (if cfg_DatabaseOperationTimeout cfg \<le> 0 then 15 * Second
                            else cfg_DatabaseOperationTimeout cfg)
      in max (10 * Second) (wrap64 (requestTimeout + 5 * Second)))"

section \<open>The server\<close>

datatype 's server_reply =
    APIReply "'s reply"
  | OpenAPISpec
  | Pprof
  | Health gotime
  | NotReady "(string \<times> go_error) list"
  | Ready "string option"
  | MetricsPage Metrics
  | MuxReply int

record 's server =
  sv_cfg :: Config
  sv_api :: "APIHandler option"
  sv_repo :: "'s MonitorRepository"
  sv_json :: json_decoder
  sv_dependencies :: "ReadinessDependency list"

text \<open>\<open>RunHTTPServer\<close> registers the API only where the role has it.\<close>

definition RunHTTPServer ::
  "Config \<Rightarrow> APIHandler option \<Rightarrow> bool \<Rightarrow> 's MonitorRepository \<Rightarrow> json_decoder
   \<Rightarrow> ReadinessDependency list \<Rightarrow> 's server" where
  "RunHTTPServer cfg api enableAPI R json dependencies =
     \<lparr>sv_cfg = cfg, sv_api = (if enableAPI then api else None), sv_repo = R, sv_json = json,
      sv_dependencies = dependencies\<rparr>"

definition sv_routes :: "'s server \<Rightarrow> 's route list" where
  "sv_routes srv =
     (case sv_api srv of None \<Rightarrow> [] | Some h \<Rightarrow> Register h (sv_repo srv) (sv_json srv))"

definition readyz ::
  "ctx_err \<Rightarrow> ((string \<times> go_error option) list \<Rightarrow> (string \<times> go_error option) list) \<Rightarrow> 's server
   \<Rightarrow> 's MonitorService \<Rightarrow> 's server_reply \<times> 's MonitorService" where
  "readyz ctx arrange srv st =
     (let (failed, m) = checkReadinessDependencies ctx arrange (sv_dependencies srv) (svc_metrics st);
          st = st\<lparr>svc_metrics := m\<rparr>
      in if failed \<noteq> [] then (NotReady failed, st)
         else (Ready (if cfg_AppRole (sv_cfg srv) \<noteq> [] then Some (cfg_AppRole (sv_cfg srv)) else None), st))"

text \<open>The profiling handlers share the subtree \<open>/debug/pprof/\<close>, whose root without the slash is
  redirected.\<close>

definition pprof_path :: "string list \<Rightarrow> bool" where
  "pprof_path path \<longleftrightarrow> length path > 2 \<and> take 2 path = [''debug'', ''pprof'']"

definition fixed_path :: "'s server \<Rightarrow> http_request \<Rightarrow> bool" where
  "fixed_path srv r \<longleftrightarrow>
     req_Path r = [''api'', ''openapi.yaml'']
   \<or> cfg_EnablePprof (sv_cfg srv) \<and> (pprof_path (req_Path r) \<or> req_Path r = [''debug'', ''pprof''])"

text \<open>What serves a request: the routes of the API first, then the fixed patterns.\<close>

definition serveHTTP ::
  "((string \<times> go_error option) list \<Rightarrow> (string \<times> go_error option) list) \<Rightarrow> 's server \<Rightarrow> http_request
   \<Rightarrow> 's MonitorService \<Rightarrow> 's server_reply \<times> 's MonitorService" where
  "serveHTTP arrange srv r st =
     (case dispatch (sv_routes srv) r of
        Some (next, mid) \<Rightarrow>
          (let reply = next mid r st
           in (APIReply reply, case reply of None \<Rightarrow> st | Some (_, _, st') \<Rightarrow> st'))
      | None \<Rightarrow>
          if req_Path r = [''api'', ''openapi.yaml''] \<and> matchMethod ''GET'' (req_Method r) then (OpenAPISpec, st)
          else if cfg_EnablePprof (sv_cfg srv) \<and> pprof_path (req_Path r) \<and> matchMethod ''GET'' (req_Method r)
            then (Pprof, st)
          else if cfg_EnablePprof (sv_cfg srv) \<and> req_Path r = [''debug'', ''pprof'']
                  \<and> matchMethod ''GET'' (req_Method r) then (MuxReply 301, st)
          else if req_Path r = [''healthz''] then (Health (c_now (req_call r)), st)
          else if req_Path r = [''readyz''] then readyz (c_ctx (req_call r)) arrange srv st
          else if req_Path r = [''metrics''] then (MetricsPage (svc_metrics st), st)
          else (MuxReply (if known_path (sv_routes srv) r \<or> fixed_path srv r then 405 else 404), st))"

section \<open>Facts on readiness\<close>

definition failing :: "(string \<times> go_error option) list \<Rightarrow> (string \<times> go_error) list" where
  "failing results = concat (map (\<lambda>(name, err). case err of None \<Rightarrow> [] | Some e \<Rightarrow> [(name, e)]) results)"

lemma failing_Cons:
  "failing ((name, err) # rs) = (case err of None \<Rightarrow> failing rs | Some e \<Rightarrow> (name, e) # failing rs)"
  by (simp add: failing_def split: option.split)

lemma set_failing: "set (failing results) = {(name, e). (name, Some e) \<in> set results}"
  by (force simp: failing_def split: option.splits)

lemma collectResults_failed:
  "distinct (map fst results) \<Longrightarrow>
   map_of (fst (collectResults results m failed)) = map_of failed ++ map_of (failing results)"
proof (induction results m failed rule: collectResults.induct)
  case (2 name err results m failed)
  then have "map_of (failing results) name = None"
    by (force simp: map_of_eq_None_iff set_failing)
  with 2 show ?case
    by (auto simp: failing_def update_conv' map_add_def fun_eq_iff split: option.split)
qed (simp add: failing_def)

lemma collectResults_up:
  "distinct (map fst results) \<Longrightarrow>
   mx_dependencyUp (snd (collectResults results m failed)) =
     (mx_dependencyUp m) ++ map_of (map (\<lambda>(name, err). (name, err = None)) results)"
proof (induction results m failed rule: collectResults.induct)
  case (2 name err results m failed)
  then have "map_of (map (\<lambda>(name, err). (name, err = None)) results) name = None"
    by (force simp: map_of_eq_None_iff)
  with 2 show ?case by (auto simp: SetDependencyUp_def map_add_def fun_eq_iff split: option.split)
qed simp

lemma Build_names: "distinct (map rd_Name (BuildReadinessDependencies cfg repoPing queuePing))"
  by (auto simp: BuildReadinessDependencies_def)

lemma dependencyResults_names: "distinct (map rd_Name ds) \<Longrightarrow> distinct (map fst (dependencyResults ctx ds))"
proof (induction ds)
  case (Cons d ds)
  have "fst ` set (dependencyResults ctx ds) \<subseteq> rd_Name ` set ds"
    by (auto simp: dependencyResults_def split: if_splits option.splits)
  with Cons show ?case by (auto simp: dependencyResults_def split: option.split)
qed (simp add: dependencyResults_def)

lemma distinct_failing: "distinct (map fst rs) \<Longrightarrow> distinct (map fst (failing rs))"
proof (induction rs)
  case (Cons x rs)
  have "fst ` set (failing rs) \<subseteq> fst ` set rs" by (force simp: set_failing)
  with Cons show ?case by (cases x) (auto simp: failing_Cons split: option.split)
qed (simp add: failing_def)

text \<open>The arrival order of the results has no influence.\<close>

lemma checkReadinessDependencies_spec:
  assumes "distinct (map rd_Name deps)"
    and perm: "mset (arrange (dependencyResults ctx deps)) = mset (dependencyResults ctx deps)"
    and check: "checkReadinessDependencies ctx arrange deps m = (failed, m')"
  shows "map_of failed = map_of (failing (dependencyResults ctx deps))"
    and "(name, err) \<in> set (dependencyResults ctx deps) \<Longrightarrow> mx_dependencyUp m' name = Some (err = None)"
proof -
  let ?rs = "dependencyResults ctx deps" and ?as = "arrange (dependencyResults ctx deps)"
  have sets: "set ?as = set ?rs" using perm by (rule mset_eq_setD)
  have d: "distinct (map fst ?rs)" using assms(1) by (rule dependencyResults_names)
  then have da: "distinct (map fst ?as)" by (metis mset_map mset_eq_imp_distinct_iff perm)
  have "map_of (failing ?as) = map_of (failing ?rs)"
    using sets by (simp add: map_of_inject_set distinct_failing d da set_failing)
  then show "map_of failed = map_of (failing ?rs)"
    using collectResults_failed [OF da, of m "[]"] check
    by (cases "deps = []") (auto simp: checkReadinessDependencies_def dependencyResults_def failing_def)
  have run: "deps \<noteq> [] \<Longrightarrow> m' = snd (collectResults ?as m [])"
    using check by (simp add: checkReadinessDependencies_def)
  assume mem: "(name, err) \<in> set ?rs"
  then have "deps \<noteq> []" by (auto simp: dependencyResults_def)
  note m' = run [OF this]
  have "(name, err = None) \<in> set (map (\<lambda>(name, err). (name, err = None)) ?as)"
    using mem sets by force
  moreover have "distinct (map fst (map (\<lambda>(name, err). (name, err = None)) ?as))"
    using da by (simp add: o_def case_prod_beta)
  ultimately have "map_of (map (\<lambda>(name, err). (name, err = None)) ?as) name = Some (err = None)"
    by (simp only: map_of_is_SomeI)
  then show "mx_dependencyUp m' name = Some (err = None)"
    by (simp add: m' collectResults_up [OF da] map_add_Some_iff)
qed

section \<open>Properties\<close>


text \<open>
  C35. What a production process exposes: with a configuration that loads, no request reaches
  the profiling handlers, the API is served only in the roles that have it and only to
  requests that present the configured key of at least 24 bytes, every other request leaves
  the repository as it is, and a reply may be written for five seconds longer than a request
  may take.\<close>
theorem production_surface:
  assumes "LoadConfig env = Inr cfg" and "cfg_AppEnv cfg = ''production''"
    and "srv = RunHTTPServer cfg (Some (NewAPIHandlerWithTimeout (cfg_APIKey cfg) (cfg_DatabaseOperationTimeout cfg)))
                 (roleEnabled (cfg_AppRole cfg) ''api'') R json dependencies"
    and "serveHTTP arrange srv r st = (reply, st')"
  shows "reply \<noteq> Pprof
    \<and> (\<forall>x. reply = APIReply x \<longrightarrow> roleEnabled (cfg_AppRole cfg) ''api'' \<and> 24 \<le> length (cfg_APIKey cfg)
            \<and> (presents (cfg_APIKey cfg) r \<or> x = unauthorized st))
    \<and> (\<not> presents (cfg_APIKey cfg) r \<longrightarrow> svc_store st' = svc_store st)
    \<and> cfg_DatabaseOperationTimeout cfg + 5 * Second \<le> responseWriteTimeout cfg"
proof -
  note ok = LoadConfig_ok [OF assms(1)]
  have pprof: "\<not> cfg_EnablePprof cfg"
    and key: "roleEnabled (cfg_AppRole cfg) ''api'' \<Longrightarrow> 24 \<le> length (cfg_APIKey cfg)"
    using loaded_pprof [OF assms(1)] loaded_auth [OF assms(1)] assms(2) by simp_all
  have "Second \<le> cfg_DatabaseOperationTimeout cfg" "cfg_DatabaseOperationTimeout cfg \<le> 5 * Minute"
    using ok(1) by (simp_all add: config_ranges_def)
  then have timeout: "cfg_DatabaseOperationTimeout cfg + 5 * Second \<le> responseWriteTimeout cfg"
    by (simp add: responseWriteTimeout_def Let_def wrap64_id int64_range_def)
  show ?thesis
  proof (cases "dispatch (sv_routes srv) r")
    case None
    then have "reply \<noteq> Pprof" "svc_store st' = svc_store st" "\<forall>x. reply \<noteq> APIReply x"
      using assms(3,4) pprof
      by (auto simp: serveHTTP_def RunHTTPServer_def readyz_def Let_def split: if_splits prod.splits)
    with timeout show ?thesis by simp
  next
    case (Some hit)
    obtain f mid where hit: "hit = (f, mid)" by fastforce
    let ?h = "NewAPIHandlerWithTimeout (cfg_APIKey cfg) (cfg_DatabaseOperationTimeout cfg)"
    from Some have api: "roleEnabled (cfg_AppRole cfg) ''api''"
      by (auto simp: assms(3) sv_routes_def RunHTTPServer_def split: if_splits)
    with key have "api_apiKey ?h \<noteq> []" by (auto simp: NewAPIHandlerWithTimeout_def)
    then have "presents (cfg_APIKey cfg) r \<or> f mid r st = unauthorized st"
      using Some hit api validAPIKey_iff [of ?h r]
      by (auto simp: assms(3) sv_routes_def RunHTTPServer_def dispatch_Register guarded_def requireAPIKey_def
          unauthorized_def NewAPIHandlerWithTimeout_def)
    with Some hit assms(4) api key timeout show ?thesis
      by (auto simp: serveHTTP_def Let_def unauthorized_def)
  qed
qed

section \<open>Witnesses\<close>

text \<open>A production process whose broker is down.\<close>

definition demo_dependencies :: "Config \<Rightarrow> ReadinessDependency list" where
  "demo_dependencies cfg = BuildReadinessDependencies cfg (Some None) (Some (Some (ErrOther ''down'')))"

definition demo_server :: "Config \<Rightarrow> MonitorStore server" where
  "demo_server cfg =
     RunHTTPServer cfg (Some (NewAPIHandlerWithTimeout (cfg_APIKey cfg) (cfg_DatabaseOperationTimeout cfg)))
       (roleEnabled (cfg_AppRole cfg) ''api'') InMemoryMonitorRepository demo_json (demo_dependencies cfg)"


theorem production_surface_witness:
  "\<exists>cfg. LoadConfig demo_config_env = Inr cfg
     \<and> fst (serveHTTP rev (demo_server cfg) (demo_request (\<lambda>_. ''guess'')) demo_empty_service) \<noteq> Pprof
     \<and> 5 * Second \<le> responseWriteTimeout cfg - cfg_DatabaseOperationTimeout cfg"
proof -
  obtain cfg where cfg: "LoadConfig demo_config_env = Inr cfg" "cfg_AppEnv cfg = ''production''"
    by (rule demo_config_loads)
  obtain reply st' where
    run: "serveHTTP rev (demo_server cfg) (demo_request (\<lambda>_. ''guess'')) demo_empty_service = (reply, st')"
    by fastforce
  from production_surface [OF cfg refl run [unfolded demo_server_def]] cfg(1) run show ?thesis
    by (intro exI [of _ cfg]) simp
qed

end
