(* ===== verification/Links.thy ===== *)
theory Links
  imports Service
begin

text \<open>
  The seed URLs of \<open>links.go\<close>: loading, normalisation and validation, and what seeding the
  repository with them does. The file system and the JSON decoder are arguments.
\<close>

datatype link_error =
    LinkFileError string
  | URLFileEmpty
  | LinkJSONError string
  | LinkRequired
  | LinkRejected "URL option" net_error

record link_files =
  lf_ReadFile :: "string \<Rightarrow> string + string"
  lf_Unmarshal :: "string \<Rightarrow> string + string list"

section \<open>Operations\<close>

text \<open>The loop of \<open>normalizeLinks\<close> with its set of links seen so far.\<close>

fun collectLinks :: "string list \<Rightarrow> string set \<Rightarrow> string list" where
  "collectLinks [] seen = []"
| "collectLinks (link # links) seen =
     (let link = TrimSpace link in
      if link = [] then collectLinks links seen
      else if link \<in> seen then collectLinks links seen
      else link # collectLinks links (insert link seen))"

definition normalizeLinks :: "string list \<Rightarrow> link_error + string list" where
  "normalizeLinks links =
     (let normalized = collectLinks links {} in
      if normalized = [] then Inl LinkRequired else Inr (sort normalized))"

fun linkLines :: "string list \<Rightarrow> string list" where
  "linkLines [] = []"
| "linkLines (line # lines) =
     (let line = TrimSpace line in
      if line = [] \<or> HasPrefix line ''#'' then linkLines lines else line # linkLines lines)"

definition LoadLinks :: "link_files \<Rightarrow> string \<Rightarrow> string list \<Rightarrow> link_error + string list" where
  "LoadLinks files path fallback =
     (if TrimSpace path = [] then
        (if fallback = [] then Inr [] else normalizeLinks fallback)
      else (case lf_ReadFile files path of
              Inl err \<Rightarrow> Inl (LinkFileError err)
            | Inr content \<Rightarrow>
                (let trimmed = TrimSpace content in
                 if trimmed = [] then Inl URLFileEmpty
                 else if HasPrefix trimmed ''['' then
                   (case lf_Unmarshal files content of
                      Inl err \<Rightarrow> Inl (LinkJSONError err)
                    | Inr links \<Rightarrow> normalizeLinks links)
                 else normalizeLinks (linkLines (Split trimmed (CHR 0x0A))))))"

fun validateEach :: "parsers \<Rightarrow> NetworkPolicy \<Rightarrow> string list \<Rightarrow> link_error option" where
  "validateEach env policy [] = None"
| "validateEach env policy (link # links) =
     (case ValidateURL (ParseURL env) (ParseAddr env) policy link of
        Some err \<Rightarrow> Some (LinkRejected (redactedURLOrigin (ParseURL env link)) err)
      | None \<Rightarrow> validateEach env policy links)"

definition ValidateLinks :: "parsers \<Rightarrow> NetworkPolicy \<Rightarrow> string list \<Rightarrow> link_error option" where
  "ValidateLinks env policy links =
     (if links = [] then Some LinkRequired else validateEach env policy links)"

definition DefaultLinks :: "string list" where
  "DefaultLinks =
     [''https://4book.org'', ''https://a-level.com.ua'', ''https://abiturients.info'',
      ''https://antischool.online'', ''https://bazilik.media'', ''https://beetroot.academy'',
      ''https://besmart.edu.gethomestudy.com'', ''https://buki.com.ua'',
      ''https://cambridge.ua'', ''https://casers.org'', ''https://childcamp.com.ua'',
      ''https://choice31.com'', ''https://cursor.education'', ''https://dan-it.com.ua'',
      ''https://dnipro.it'', ''https://dnu.dp.ua'', ''https://donnu.edu.ua'',
      ''https://dou.ua'', ''https://edu.cbsystematics.com'', ''https://englisher.com.ua'',
      ''https://erudyt.net'', ''https://foxminded.ua'', ''https://gdz4you.com'',
      ''https://genius.space'', ''https://gioschool.com'', ''https://goit.global/ua'',
      ''https://grade.ua'', ''https://greenforest.com.ua'', ''https://greencountry.com.ua'',
      ''https://happymonday.ua'', ''https://iampm.club'', ''https://ilearn.org.ua'',
      ''https://impactorium.org'', ''https://info.edbo.gov.ua'', ''https://ithillel.ua'',
      ''https://itstep.org'', ''https://itvdn.com'', ''https://k-a-m-a.com'',
      ''https://khnu.km.ua'', ''https://kneu.edu.ua'', ''https://knutd.edu.ua'',
      ''https://kpi.ua'', ''https://kursi.ua'', ''https://l-a-b-a.com'',
      ''https://learning.ua'', ''https://lemon.school'', ''https://lms.e-school.net.ua'',
      ''https://lnu.edu.ua'', ''https://lpnu.edu.ua'', ''https://mainacademy.com'',
      ''https://man.gov.ua'', ''https://mate.academy'', ''https://miyklas.com.ua'',
      ''https://mon.gov.ua'', ''https://nau.edu.ua'', ''https://nmu.org.ua'',
      ''https://nmuofficial.com'', ''https://nubip.edu.ua'', ''https://nure.ua'',
      ''https://nus.org.ua'', ''https://onu.edu.ua'', ''https://onpu.edu.ua'',
      ''https://osvita.diia.gov.ua'', ''https://osvita.ua'', ''https://parta.com.ua'',
      ''https://pkk.com.ua'', ''https://prjctr.com'', ''https://prog.kiev.ua'',
      ''https://prometheus.org.ua'', ''https://robotdreams.cc'', ''https://rozum.com'',
      ''https://shkola.in.ua'', ''https://sigma.software/university'', ''https://skillup.ua'',
      ''https://skvot.io'', ''https://speak-up.com.ua'', ''https://studway.com.ua'',
      ''https://subject.com.ua'', ''https://sumdu.edu.ua'', ''https://superludi.com'',
      ''https://testportal.gov.ua'', ''https://tntu.edu.ua'', ''https://ua.mozaweb.com'',
      ''https://ucu.edu.ua'', ''https://urok-ua.com'', ''https://uzhnu.edu.ua'',
      ''https://video.novashkola.ua'', ''https://vseosvita.ua'', ''https://vumonline.ua'',
      ''https://web-academy.com.ua'', ''https://wisecow.com.ua'',
      ''https://www.britishcouncil.org.ua'', ''https://www.chnu.edu.ua'',
      ''https://www.ed-era.com'', ''https://www.education.ua'', ''https://www.englishdom.com'',
      ''https://www.k-a-m-a.com'', ''https://www.mathema.me'', ''https://www.nmu.org.ua'',
      ''https://www.study.ua'', ''https://www.ukma.edu.ua'', ''https://www.univ.kiev.ua'',
      ''https://www.univer.kharkov.ua'', ''https://yappi.com.ua'', ''https://zno.ua'',
      ''https://znu.edu.ua'', ''http://www.nbuv.gov.ua'']"

definition LoadSeedLinks :: "link_files \<Rightarrow> Config \<Rightarrow> link_error + string list" where
  "LoadSeedLinks files cfg =
     LoadLinks files (cfg_SeedURLsFile cfg) (if cfg_SeedDefaultLinks cfg then DefaultLinks else [])"

section \<open>Normalised links\<close>

lemma set_collectLinks: "set (collectLinks links seen) = TrimSpace ` set links - {[]} - seen"
  by (induction links seen rule: collectLinks.induct) (auto simp: Let_def)

lemma distinct_collectLinks: "distinct (collectLinks links seen)"
  by (induction links seen rule: collectLinks.induct) (auto simp: Let_def set_collectLinks)

lemma normalizeLinks_spec:
  "normalizeLinks links =
     (let texts = TrimSpace ` set links - {[]} in
      if texts = {} then Inl LinkRequired else Inr (sorted_list_of_set texts))"
proof -
  have texts: "set (collectLinks links {}) = TrimSpace ` set links - {[]}"
    by (simp add: set_collectLinks)
  then have "collectLinks links {} = [] \<longleftrightarrow> TrimSpace ` set links - {[]} = {}"
    by (metis set_empty)
  moreover have "sort (collectLinks links {}) = sorted_list_of_set (TrimSpace ` set links - {[]})"
    using distinct_collectLinks sorted_list_of_set_sort_remdups [of "collectLinks links {}"]
    by (simp add: texts [symmetric] distinct_remdups_id)
  ultimately show ?thesis by (simp add: normalizeLinks_def Let_def)
qed

lemma LoadLinks_normal:
  assumes "LoadLinks files path fallback = Inr links"
  shows "sorted links \<and> distinct links \<and> [] \<notin> set links"
  using assms
  by (auto simp: LoadLinks_def normalizeLinks_spec Let_def split: if_splits sum.splits)

lemma validateEach_None:
  "validateEach env policy links = None \<longleftrightarrow>
   (\<forall>link \<in> set links. ValidateURL (ParseURL env) (ParseAddr env) policy link = None)"
  by (induction links) (auto split: option.split)

section \<open>Seeding\<close>

definition seedInput :: "Config \<Rightarrow> string \<Rightarrow> MonitorInput" where
  "seedInput cfg link =
     \<lparr>in_URL = link, in_IntervalSeconds = go_div (cfg_CheckInterval cfg) Second,
      in_TimeoutSeconds = go_div (cfg_HTTPTimeout cfg) Second,
      in_ExpectedStatus = PreferredStatus (cfg_ExpectedStatus cfg), in_Enabled = None\<rparr>"

text \<open>The links a store takes as they are: the checks of \<open>Create\<close> beyond those of
  \<open>ValidateLinks\<close>.\<close>

definition storable :: "parsers \<Rightarrow> string \<Rightarrow> bool" where
  "storable env link \<longleftrightarrow> ParseRequestURI env link \<and> RuneCountInString link \<le> 8192"

lemma seedInput_valid:
  assumes "config_ranges cfg" "storable env link" "link \<noteq> []"
    and "ValidateURL (ParseURL env) (ParseAddr env) policy link = None"
  shows "validateMonitorInput env (seedInput cfg link) policy = None"
proof -
  have i: "30 * Second \<le> cfg_CheckInterval cfg" "cfg_CheckInterval cfg \<le> 24 * Hour"
    and t: "Second \<le> cfg_HTTPTimeout cfg" "cfg_HTTPTimeout cfg \<le> Minute"
    and p: "policy_ranges (cfg_ExpectedStatus cfg) \<noteq> []"
      "list_all wf_range (policy_ranges (cfg_ExpectedStatus cfg))"
    using assms(1) by (simp_all add: config_ranges_def)
  have "30 \<le> cfg_CheckInterval cfg div Second" "cfg_CheckInterval cfg div Second \<le> 86400"
    "1 \<le> cfg_HTTPTimeout cfg div Second" "cfg_HTTPTimeout cfg div Second \<le> 60"
    using i t by simp_all
  moreover have "100 \<le> PreferredStatus (cfg_ExpectedStatus cfg)" "PreferredStatus (cfg_ExpectedStatus cfg) \<le> 599"
    using p by (auto simp: PreferredStatus_def wf_range_def split: list.split)
  ultimately show ?thesis
    using assms(2-4) i t by (simp add: validateMonitorInput_None seedInput_def storable_def go_div_nonneg)
qed

lemma mem_repo_Create:
  "repo_Create InMemoryMonitorRepository c input s = Create (c_env c) (c_draw c) (c_now c) input s"
  by (simp add: InMemoryMonitorRepository_def)

lemma SeedRepository_step:
  "SeedRepository InMemoryMonitorRepository cfg ((c, link) # seeds) s =
     (case Create (c_env c) (c_draw c) (c_now c) (seedInput cfg link) s of
        (Inl err, s) \<Rightarrow>
          if err \<noteq> ErrMonitorExists then (Some err, s)
          else SeedRepository InMemoryMonitorRepository cfg seeds s
      | (Inr monitor, s) \<Rightarrow> SeedRepository InMemoryMonitorRepository cfg seeds s)"
  by (simp add: mem_repo_Create seedInput_def)

lemma Create_seed:
  assumes "validateMonitorInput env (seedInput cfg link) (store_policy s) = None"
  shows "byURL s link \<noteq> None \<Longrightarrow> Create env draw now (seedInput cfg link) s = (Inl ErrMonitorExists, s)"
    and "byURL s link = None \<Longrightarrow> \<exists>m s'. Create env draw now (seedInput cfg link) s = (Inr m, s')
           \<and> store_policy s' = store_policy s \<and> dom (byURL s') = insert link (dom (byURL s))"
  using assms by (auto simp: Create_def Let_def newMonitor_def seedInput_def)

lemma SeedRepository_stores:
  assumes "\<forall>(c, link) \<in> set seeds. c_env c = env
      \<and> validateMonitorInput env (seedInput cfg link) (store_policy s) = None"
  shows "\<exists>s'. SeedRepository InMemoryMonitorRepository cfg seeds s = (None, s')
    \<and> store_policy s' = store_policy s \<and> dom (byURL s') = dom (byURL s) \<union> snd ` set seeds"
  using assms
proof (induction seeds arbitrary: s)
  case (Cons seed seeds)
  obtain c link where seed: "seed = (c, link)" by fastforce
  with Cons.prems have c: "c_env c = env"
    and valid: "validateMonitorInput env (seedInput cfg link) (store_policy s) = None" by auto
  show ?case
  proof (cases "byURL s link")
    case None
    from Create_seed(2) [OF valid None, of "c_draw c" "c_now c"] obtain m s'
      where new: "Create env (c_draw c) (c_now c) (seedInput cfg link) s = (Inr m, s')"
        "store_policy s' = store_policy s" "dom (byURL s') = insert link (dom (byURL s))" by blast
    with Cons.prems Cons.IH [of s'] show ?thesis by (auto simp: SeedRepository_step seed c simp del: SeedRepository.simps(2))
  next
    case (Some x)
    then have "Create env (c_draw c) (c_now c) (seedInput cfg link) s = (Inl ErrMonitorExists, s)"
      using Create_seed(1) [OF valid] by simp
    with Some Cons.prems Cons.IH [of s] show ?thesis by (auto simp: SeedRepository_step seed c simp del: SeedRepository.simps(2))
  qed
qed simp

lemma SeedRepository_again:
  assumes "\<forall>(c, link) \<in> set seeds. c_env c = env \<and> byURL s link \<noteq> None
      \<and> validateMonitorInput env (seedInput cfg link) (store_policy s) = None"
  shows "SeedRepository InMemoryMonitorRepository cfg seeds s = (None, s)"
  using assms by (induction seeds) (auto simp: SeedRepository_step Create_seed(1) simp del: SeedRepository.simps(2))

section \<open>Properties\<close>

text \<open>
  C38. Seeding stores every loaded link. With a configuration that loads, the seed links are
  sorted, without repetition and not blank; once they pass \<open>ValidateLinks\<close>, and the URL parser
  and the length limit of the store accept them, seeding the in-memory repository succeeds,
  adds exactly those URLs, and seeding again changes nothing.\<close>
theorem seeding_stores_every_link:
  assumes "LoadConfig cenv = Inr cfg" and "LoadSeedLinks files cfg = Inr links"
    and "ValidateLinks env (store_policy s) links = None" and "list_all (storable env) links"
    and "map snd seeds = links" and "list_all (\<lambda>(c, _). c_env c = env) seeds"
  shows "\<exists>s'. SeedRepository InMemoryMonitorRepository cfg seeds s = (None, s')
    \<and> sorted links \<and> distinct links
    \<and> dom (byURL s') = dom (byURL s) \<union> set links
    \<and> SeedRepository InMemoryMonitorRepository cfg seeds s' = (None, s')"
proof -
  have links: "sorted links \<and> distinct links \<and> [] \<notin> set links"
    using assms(2) by (auto simp: LoadSeedLinks_def dest: LoadLinks_normal)
  have "ValidateURL (ParseURL env) (ParseAddr env) (store_policy s) link = None" if "link \<in> set links" for link
    using assms(3) that by (auto simp: ValidateLinks_def validateEach_None split: if_splits)
  with LoadConfig_ok(1) [OF assms(1)] links assms(4)
  have valid: "validateMonitorInput env (seedInput cfg link) (store_policy s) = None" if "link \<in> set links" for link
    using that by (intro seedInput_valid) (auto simp: list_all_iff)
  have mem: "link \<in> set links" if "(c, link) \<in> set seeds" for c link
    using that assms(5) by force
  have each: "\<forall>(c, link) \<in> set seeds. c_env c = env
      \<and> validateMonitorInput env (seedInput cfg link) (store_policy s) = None"
    using assms(6) valid mem by (auto simp: list_all_iff)
  from SeedRepository_stores [OF this] obtain s' where
    s': "SeedRepository InMemoryMonitorRepository cfg seeds s = (None, s')"
      "store_policy s' = store_policy s" "dom (byURL s') = dom (byURL s) \<union> set links"
    using assms(5) by (metis image_set)
  have "\<forall>(c, link) \<in> set seeds. c_env c = env \<and> byURL s' link \<noteq> None
      \<and> validateMonitorInput env (seedInput cfg link) (store_policy s') = None"
    using each mem s'(2,3) by fastforce
  with s' links show ?thesis by (intro exI [of _ s']) (simp add: SeedRepository_again)
qed

text \<open>A demonstration environment seeds a file of two links, a comment and a repetition.\<close>

definition demo_seed_env :: config_env where
  "demo_seed_env =
     \<lparr>LookupEnv = map_of [(''APP_ENV'', ''local''), (''AUTH_DISABLED'', ''true''),
                         (''URLS_FILE'', ''urls.txt''), (''STORAGE_TYPE'', ''memory''), (''QUEUE_TYPE'', ''memory'')],
      ParseDuration = (\<lambda>_. None), ParseConfigURL = (\<lambda>_. None), QueryGet = (\<lambda>_ _. [])\<rparr>"

definition demo_files :: link_files where
  "demo_files =
     \<lparr>lf_ReadFile = (\<lambda>path. Inr (''https://b.org'' @ [CHR 0x0A] @ ''# seeds'' @ [CHR 0x0A] @
         '' https://a.org '' @ [CHR 0x0A] @ ''https://b.org'' @ [CHR 0x0A])),
      lf_Unmarshal = (\<lambda>_. Inl ''unexpected'')\<rparr>"

definition demo_links :: "string list" where
  "demo_links = [''https://a.org'', ''https://b.org'']"

lemma demo_seed_loads:
  obtains cfg where "LoadConfig demo_seed_env = Inr cfg" "LoadSeedLinks demo_files cfg = Inr demo_links"
proof -
  have "case LoadConfig demo_seed_env of Inl _ \<Rightarrow> False
          | Inr cfg \<Rightarrow> LoadSeedLinks demo_files cfg = Inr demo_links"
    by code_simp
  then show ?thesis using that by (cases "LoadConfig demo_seed_env") auto
qed

theorem seeding_stores_every_link_witness:
  "\<exists>cfg s. SeedRepository InMemoryMonitorRepository cfg (map (Pair demo_call) demo_links)
       (NewMonitorStore demo_policy) = (None, s)
     \<and> dom (byURL s) = {''https://a.org'', ''https://b.org''}"
proof -
  obtain cfg where cfg: "LoadConfig demo_seed_env = Inr cfg" "LoadSeedLinks demo_files cfg = Inr demo_links"
    by (rule demo_seed_loads)
  have policy: "store_policy (NewMonitorStore demo_policy) = demo_policy" by (simp add: NewMonitorStore_def)
  have "ValidateLinks demo_env demo_policy demo_links = None" by code_simp
  moreover have "list_all (storable demo_env) demo_links" by code_simp
  moreover have "map snd (map (Pair demo_call) demo_links) = demo_links"
    "list_all (\<lambda>(c, _). c_env c = demo_env) (map (Pair demo_call) demo_links)"
    by (simp_all add: demo_links_def demo_call_def)
  ultimately obtain s where
    "SeedRepository InMemoryMonitorRepository cfg (map (Pair demo_call) demo_links)
       (NewMonitorStore demo_policy) = (None, s)"
    "dom (byURL s) = dom (byURL (NewMonitorStore demo_policy)) \<union> set demo_links"
    using seeding_stores_every_link [OF cfg, of demo_env "NewMonitorStore demo_policy"] policy by metis
  then show ?thesis by (auto simp: demo_links_def NewMonitorStore_def)
qed

end
