(* ===== verification/Migrations.thy ===== *)
theory Migrations
  imports Pg_Repository Config
begin

text \<open>
  The schema migrations of \<open>db.go\<close> and the choice of the repository at start-up. The schema is
  any value \<open>'d\<close> that the scripts change (\<open>exec\<close>, PostgreSQL running one script) and the table
  \<open>schema_migrations\<close> of applied versions, \<open>None\<close> while it does not exist; the scripts do not
  write that table. \<open>X k\<close> is the outcome of the \<open>k\<close>-th statement. The embedded directory is an
  argument.
\<close>

section \<open>State and names\<close>

record 'd schema =
  sch_tables :: 'd
  sch_versions :: "string list option"

record embedded =
  em_ReadDir :: "string + (string \<times> bool) list"
  em_ReadFile :: "string \<Rightarrow> string + string"

definition embeddedMigrationNames :: "embedded \<Rightarrow> go_error + string list" where
  "embeddedMigrationNames em =
     (case em_ReadDir em of
        Inl err \<Rightarrow> Inl (ErrOther err)
      | Inr entries \<Rightarrow>
          (let names = sort (map fst (filter (\<lambda>(name, isDir). \<not> isDir \<and> HasSuffix name ''.sql'') entries))
           in if names = [] then Inl (ErrOther ''no embedded database migrations found'') else Inr names))"

text \<open>\<open>filepath.Ext\<close>: the suffix from the last dot of the last path element.\<close>

definition Ext :: "string \<Rightarrow> string" where
  "Ext path =
     (let plain = (\<lambda>c. c \<noteq> CHR ''.'' \<and> c \<noteq> CHR ''/'')
      in case dropWhile plain (rev path) of
           [] \<Rightarrow> []
         | c # _ \<Rightarrow> if c = CHR ''.'' then c # rev (takeWhile plain (rev path)) else [])"

definition schema_version :: "string \<Rightarrow> string" where
  "schema_version name = TrimSuffix name (Ext name)"

section \<open>Migrating\<close>

text \<open>The table is created where it is missing.\<close>

definition recorded :: "'d schema \<Rightarrow> string list" where
  "recorded s = (case sch_versions s of None \<Rightarrow> [] | Some vs \<Rightarrow> vs)"

definition migrationApplied ::
  "(nat \<Rightarrow> pg_outcome) \<Rightarrow> nat \<Rightarrow> string \<Rightarrow> 'd schema \<Rightarrow> go_error + (bool \<times> 'd schema)" where
  "migrationApplied X k ver s =
     perform (X k) (recorded s) (\<lambda>vs.
       perform (X (k + 1)) (ver \<in> set vs) (\<lambda>applied.
         Inr (applied, s\<lparr>sch_versions := Some vs\<rparr>)))"

definition applyMigration ::
  "(string \<Rightarrow> 'd \<Rightarrow> string + 'd) \<Rightarrow> (nat \<Rightarrow> pg_outcome) \<Rightarrow> nat \<Rightarrow> string \<Rightarrow> string \<Rightarrow> 'd schema
   \<Rightarrow> go_error + 'd schema" where
  "applyMigration exec X k ver sql s =
     perform (X k) (exec sql (sch_tables s)) (\<lambda>r.
       case r of
         Inl err \<Rightarrow> Inl (ErrOther err)
       | Inr tables \<Rightarrow>
           perform (X (k + 1)) () (\<lambda>_.
             if ver \<in> set (recorded s) then Inl (ErrOther ''unique_violation'')
             else Inr (s\<lparr>sch_tables := tables, sch_versions := Some (recorded s @ [ver])\<rparr>)))"

definition wrapMigration :: "string \<Rightarrow> go_error \<Rightarrow> go_error" where
  "wrapMigration ver err =
     (case err of ErrOther t \<Rightarrow> ErrOther (''apply migration '' @ ver @ '': '' @ t) | _ \<Rightarrow> err)"

fun migrateLoop ::
  "(string \<Rightarrow> 'd \<Rightarrow> string + 'd) \<Rightarrow> embedded \<Rightarrow> (nat \<Rightarrow> pg_outcome) \<Rightarrow> nat \<Rightarrow> string list \<Rightarrow> 'd schema
   \<Rightarrow> go_error + 'd schema" where
  "migrateLoop exec em X k [] s = Inr s"
| "migrateLoop exec em X k (name # names) s =
     (case migrationApplied X k (schema_version name) s of
        Inl err \<Rightarrow> Inl err
      | Inr (applied, s) \<Rightarrow>
          if applied then migrateLoop exec em X (k + 4) names s
          else (case em_ReadFile em (''migrations/'' @ name) of
                  Inl err \<Rightarrow> Inl (ErrOther err)
                | Inr sql \<Rightarrow>
                    (case applyMigration exec X (k + 2) (schema_version name) sql s of
                       Inl err \<Rightarrow> Inl (wrapMigration (schema_version name) err)
                     | Inr s \<Rightarrow> migrateLoop exec em X (k + 4) names s)))"

text \<open>Statement 0 is \<open>Begin\<close>, 1 \<open>Commit\<close>, 2 the advisory lock.\<close>

definition RunMigrations ::
  "(string \<Rightarrow> 'd \<Rightarrow> string + 'd) \<Rightarrow> embedded \<Rightarrow> (nat \<Rightarrow> pg_outcome) \<Rightarrow> 'd schema
   \<Rightarrow> (go_error + unit) \<times> 'd schema" where
  "RunMigrations exec em X s =
     transaction (X 0) (X 1) (\<lambda>s.
       perform (X 2) () (\<lambda>_.
         case embeddedMigrationNames em of
           Inl err \<Rightarrow> Inl err
         | Inr names \<Rightarrow>
             (case migrateLoop exec em X 3 names s of Inl err \<Rightarrow> Inl err | Inr s \<Rightarrow> Inr ((), s)))) s"

datatype schema_error =
    MetadataMissing
  | MissingMigrations "string list"
  | SchemaError go_error

definition VerifyPostgresSchema :: "embedded \<Rightarrow> pg_outcome \<Rightarrow> 'd schema \<Rightarrow> schema_error option" where
  "VerifyPostgresSchema em x s =
     (case embeddedMigrationNames em of
        Inl err \<Rightarrow> Some (SchemaError err)
      | Inr names \<Rightarrow>
          (case failed x of
             Some err \<Rightarrow> Some (SchemaError err)
           | None \<Rightarrow>
               (case sch_versions s of
                  None \<Rightarrow> Some MetadataMissing
                | Some applied \<Rightarrow>
                    (let missing = filter (\<lambda>ver. ver \<notin> set applied) (map schema_version names)
                     in if missing \<noteq> [] then Some (MissingMigrations missing) else None))))"

section \<open>Opening the database\<close>

text \<open>\<open>ParseConfig\<close> fails with a parse error, whose text may show the password, or another one.\<close>

datatype parse_result = ParseConfigError string | ParseOther string | Parsed

definition OpenPostgresPool :: "(string \<Rightarrow> parse_result) \<Rightarrow> pg_outcome \<Rightarrow> pg_outcome \<Rightarrow> string \<Rightarrow> go_error option" where
  "OpenPostgresPool parse connect ping databaseURL =
     (case parse databaseURL of
        ParseConfigError _ \<Rightarrow> Some (ErrOther ''invalid PostgreSQL connection string'')
      | ParseOther err \<Rightarrow> Some (ErrOther err)
      | Parsed \<Rightarrow> (case failed connect of Some err \<Rightarrow> Some err | None \<Rightarrow> failed ping))"

text \<open>What the process meets at start-up.\<close>

record 'd startup =
  su_parse :: "string \<Rightarrow> parse_result"
  su_connect :: pg_outcome
  su_ping :: pg_outcome
  su_exec :: "string \<Rightarrow> 'd \<Rightarrow> string + 'd"
  su_embedded :: embedded
  su_statements :: "nat \<Rightarrow> pg_outcome"
  su_verify :: pg_outcome

datatype repository_kind = PostgresRepository | MemoryRepository

definition NewConfiguredRepository ::
  "'d startup \<Rightarrow> Config \<Rightarrow> 'd schema \<Rightarrow> (schema_error + repository_kind) \<times> 'd schema" where
  "NewConfiguredRepository su cfg s =
     (if cfg_StorageType cfg = ''postgres'' then
        (case OpenPostgresPool (su_parse su) (su_connect su) (su_ping su) (cfg_DatabaseURL cfg) of
           Some err \<Rightarrow> (Inl (SchemaError err), s)
         | None \<Rightarrow>
             (case (if cfg_RunMigrations cfg then RunMigrations (su_exec su) (su_embedded su) (su_statements su) s
                    else (Inr (), s)) of
                (Inl err, s) \<Rightarrow> (Inl (SchemaError err), s)
              | (Inr _, s) \<Rightarrow>
                  (case VerifyPostgresSchema (su_embedded su) (su_verify su) s of
                     Some err \<Rightarrow> (Inl err, s)
                   | None \<Rightarrow> (Inr PostgresRepository, s))))
      else (Inr MemoryRepository, s))"

section \<open>Specification\<close>

text \<open>Running the pending scripts in order, as a relation on the tables.\<close>

fun runScripts :: "(string \<Rightarrow> 'd \<Rightarrow> string + 'd) \<Rightarrow> embedded \<Rightarrow> string list \<Rightarrow> 'd \<Rightarrow> 'd option" where
  "runScripts exec em [] t = Some t"
| "runScripts exec em (name # names) t =
     (case em_ReadFile em (''migrations/'' @ name) of
        Inl _ \<Rightarrow> None
      | Inr sql \<Rightarrow> (case exec sql t of Inl _ \<Rightarrow> None | Inr t' \<Rightarrow> runScripts exec em names t'))"

definition pending :: "string list \<Rightarrow> 'd schema \<Rightarrow> string list" where
  "pending names s = filter (\<lambda>name. schema_version name \<notin> set (recorded s)) names"

definition migrated :: "(string \<Rightarrow> 'd \<Rightarrow> string + 'd) \<Rightarrow> embedded \<Rightarrow> string list \<Rightarrow> 'd schema \<Rightarrow> 'd schema \<Rightarrow> bool" where
  "migrated exec em names s s' \<longleftrightarrow>
     runScripts exec em (pending names s) (sch_tables s) = Some (sch_tables s')
   \<and> sch_versions s' = Some (recorded s @ map schema_version (pending names s))"


lemma recorded_Some [simp]: "sch_versions s = Some vs \<Longrightarrow> recorded s = vs"
  by (simp add: recorded_def)

lemma migrateLoop_runs:
  assumes "migrateLoop exec em X k names s = Inr s'" "distinct (map schema_version names)"
  shows "runScripts exec em (pending names s) (sch_tables s) = Some (sch_tables s')
    \<and> recorded s' = recorded s @ map schema_version (pending names s)
    \<and> (names \<noteq> [] \<longrightarrow> sch_versions s' \<noteq> None)"
  using assms
proof (induction exec em X k names s rule: migrateLoop.induct)
  case (2 exec em X k name names s)
  obtain applied s1 where check: "migrationApplied X k (schema_version name) s = Inr (applied, s1)"
    using 2(3) by (auto split: sum.splits)
  then have s1: "applied = (schema_version name \<in> set (recorded s))" "s1 = s\<lparr>sch_versions := Some (recorded s)\<rparr>"
    by (auto simp: migrationApplied_def perform_Inr)
  show ?case
  proof (cases applied)
    case True
    with 2 check s1 show ?thesis by (cases "names = []") (auto simp: pending_def)
  next
    case False
    obtain sql where sql: "em_ReadFile em (''migrations/'' @ name) = Inr sql"
      using 2(3) check False by (auto split: sum.splits)
    obtain s2 where apply2: "applyMigration exec X (k + 2) (schema_version name) sql s1 = Inr s2"
      and rest: "migrateLoop exec em X (k + 4) names s2 = Inr s'"
      using 2(3) check False sql by (auto split: sum.splits)
    from apply2 s1 have t: "exec sql (sch_tables s) = Inr (sch_tables s2)"
      and v: "sch_versions s2 = Some (recorded s @ [schema_version name])"
      by (auto simp: applyMigration_def perform_Inr split: sum.splits if_splits)
    have "schema_version x \<noteq> schema_version name" if "x \<in> set names" for x
      using 2(4) imageI [OF that, of schema_version] by auto
    with v have "pending names s2 = pending names s"
      by (auto simp: pending_def intro!: filter_cong)
    with 2(2) [OF check _ False sql apply2] 2(4) False rest s1(1) t v sql show ?thesis
      by (cases "names = []") (auto simp: pending_def)
  qed
qed (simp add: pending_def)

lemma pending_done: "recorded s' = recorded s @ map schema_version (pending names s) \<Longrightarrow> pending names s' = []"
  by (auto simp: pending_def filter_empty_conv)

lemma migrateLoop_again:
  assumes "sch_versions s = Some vs" "pending names s = []" "\<And>n. X n = PgOk"
  shows "migrateLoop exec em X k names s = Inr s"
  using assms(2)
proof (induction names arbitrary: k)
  case (Cons name names)
  then have "migrationApplied X k (schema_version name) s = Inr (True, s)"
    using assms(1,3)
    by (cases s) (auto simp: pending_def migrationApplied_def perform_def failed_def recorded_def split: if_splits)
  with Cons show ?case by (simp add: pending_def split: if_splits)
qed simp

section \<open>Names and versions\<close>

lemma Ext_sql: "HasSuffix name ''.sql'' \<Longrightarrow> Ext name = ''.sql''"
  by (auto simp: HasSuffix_iff Ext_def)

lemma schema_version_sql: "HasSuffix name ''.sql'' \<Longrightarrow> name = schema_version name @ ''.sql''"
  by (auto simp: schema_version_def Ext_sql TrimSuffix_def HasSuffix_iff)

text \<open>A directory does not list a name twice.\<close>

definition directory :: "embedded \<Rightarrow> bool" where
  "directory em \<longleftrightarrow> (case em_ReadDir em of Inl _ \<Rightarrow> True | Inr entries \<Rightarrow> distinct (map fst entries))"

lemma embedded_versions:
  assumes "directory em" "embeddedMigrationNames em = Inr names"
  shows "sorted names" "distinct (map schema_version names)" "names \<noteq> []"
proof -
  obtain entries where e: "em_ReadDir em = Inr entries"
    and n: "names = sort (map fst (filter (\<lambda>(name, isDir). \<not> isDir \<and> HasSuffix name ''.sql'') entries))"
    using assms(2) by (auto simp: embeddedMigrationNames_def Let_def split: sum.splits if_splits)
  show "names \<noteq> []" using assms(2) by (auto simp: embeddedMigrationNames_def Let_def split: sum.splits if_splits)
  show "sorted names" by (simp add: n)
  have d: "distinct names" using assms(1) e by (simp add: directory_def n distinct_map_filter)
  have "inj_on schema_version (set names)"
  proof (rule inj_onI)
    fix x y assume "x \<in> set names" "y \<in> set names" "schema_version x = schema_version y"
    then show "x = y" using schema_version_sql [of x] schema_version_sql [of y] by (auto simp: n)
  qed
  with d show "distinct (map schema_version names)" by (simp add: distinct_map)
qed

section \<open>Properties\<close>

lemma RunMigrations_cases:
  assumes "directory em" "RunMigrations exec em X s = (r, s')"
  obtains (unchanged) "s' = s" "r \<noteq> Inr ()"
  | (ran) names where "embeddedMigrationNames em = Inr names" "migrated exec em names s s'"
proof -
  from assms(2) [unfolded RunMigrations_def] show thesis
  proof (cases rule: transaction_cases)
    case (aborted e)
    then show thesis by (intro unchanged) auto
  next
    case (committed v)
    then obtain names where names: "embeddedMigrationNames em = Inr names"
      and run: "migrateLoop exec em X 3 names s = Inr s'"
      by (auto simp: perform_Inr split: sum.splits)
    note n = embedded_versions [OF assms(1) names]
    from migrateLoop_runs [OF run n(2)] n(3) have "migrated exec em names s s'"
      by (auto simp: migrated_def)
    with names show thesis by (rule ran)
  qed
qed

lemma migrated_verifies:
  assumes "embeddedMigrationNames em = Inr names" "migrated exec em names s s'"
  shows "VerifyPostgresSchema em PgOk s' = None"
    "RunMigrations exec em (\<lambda>_. PgOk) s' = (Inr (), s')"
proof -
  have v: "sch_versions s' = Some (recorded s @ map schema_version (pending names s))"
    using assms(2) by (simp add: migrated_def)
  then have "pending names s' = []" by (intro pending_done) simp
  then have "migrateLoop exec em (\<lambda>_. PgOk) 3 names s' = Inr s'" by (intro migrateLoop_again [OF v]) simp_all
  then show "RunMigrations exec em (\<lambda>_. PgOk) s' = (Inr (), s')"
    by (simp add: RunMigrations_def transaction_def perform_def failed_def settle_def assms(1))
  show "VerifyPostgresSchema em PgOk s' = None"
    using v by (auto simp: VerifyPostgresSchema_def failed_def assms(1) Let_def pending_def filter_empty_conv)
qed

text \<open>
  C37. Start-up leaves the schema either as it was or completely migrated, whichever statement
  or commit fails: then the scripts not yet recorded have run once each, in the order of
  their names, every one is recorded, the schema passes verification and migrating again
  changes nothing. A process gets a PostgreSQL repository only on a schema in which every
  embedded migration is recorded, and the in-memory one exactly when PostgreSQL is not
  configured.\<close>
theorem startup_migrates_atomically:
  assumes "directory (su_embedded su)" and "NewConfiguredRepository su cfg s = (r, s')"
  shows "(s' = s \<or> (\<exists>names. embeddedMigrationNames (su_embedded su) = Inr names
            \<and> migrated (su_exec su) (su_embedded su) names s s'
            \<and> VerifyPostgresSchema (su_embedded su) PgOk s' = None
            \<and> RunMigrations (su_exec su) (su_embedded su) (\<lambda>_. PgOk) s' = (Inr (), s')))
    \<and> (r = Inr PostgresRepository \<longrightarrow> (\<exists>names. embeddedMigrationNames (su_embedded su) = Inr names
            \<and> schema_version ` set names \<subseteq> set (recorded s')))
    \<and> (r = Inr MemoryRepository \<longleftrightarrow> cfg_StorageType cfg \<noteq> ''postgres'')"
    (is "?atomic \<and> ?verified \<and> ?memory")
proof (intro conjI)
  have "s' = s \<or> (\<exists>r. RunMigrations (su_exec su) (su_embedded su) (su_statements su) s = (r, s'))"
    using assms(2)
    by (auto simp: NewConfiguredRepository_def split: if_splits option.splits sum.splits prod.splits)
  then show ?atomic
    by (auto elim!: RunMigrations_cases [OF assms(1)] intro: migrated_verifies)
  show ?verified
  proof
    assume "r = Inr PostgresRepository"
    then have "VerifyPostgresSchema (su_embedded su) (su_verify su) s' = None"
      using assms(2)
      by (auto simp: NewConfiguredRepository_def split: if_splits option.splits sum.splits prod.splits)
    then show "\<exists>names. embeddedMigrationNames (su_embedded su) = Inr names
        \<and> schema_version ` set names \<subseteq> set (recorded s')"
      by (auto simp: VerifyPostgresSchema_def Let_def filter_empty_conv
          split: sum.splits option.splits if_splits)
  qed
  show ?memory
    using assms(2)
    by (auto simp: NewConfiguredRepository_def split: if_splits option.splits sum.splits prod.splits)
qed

text \<open>Two scripts, of which the first is recorded.\<close>

definition demo_embedded :: embedded where
  "demo_embedded =
     \<lparr>em_ReadDir = Inr [(''002_b.sql'', False), (''notes'', True), (''001_a.sql'', False)],
      em_ReadFile = (\<lambda>path. Inr path)\<rparr>"

definition demo_startup :: "string list startup" where
  "demo_startup =
     \<lparr>su_parse = (\<lambda>_. Parsed), su_connect = PgOk, su_ping = PgOk,
      su_exec = (\<lambda>sql t. Inr (t @ [sql])), su_embedded = demo_embedded,
      su_statements = (\<lambda>_. PgOk), su_verify = PgOk\<rparr>"

definition demo_schema :: "string list schema" where
  "demo_schema = \<lparr>sch_tables = [], sch_versions = Some [''001_a'']\<rparr>"

lemma demo_pg_config:
  obtains cfg where "LoadConfig demo_config_env = Inr cfg"
    "NewConfiguredRepository demo_startup cfg demo_schema =
       (Inr PostgresRepository, \<lparr>sch_tables = [''migrations/002_b.sql''], sch_versions = Some [''001_a'', ''002_b'']\<rparr>)"
proof -
  have "case LoadConfig demo_config_env of Inl _ \<Rightarrow> False | Inr cfg \<Rightarrow>
      cfg_StorageType cfg = ''postgres'' \<and> cfg_RunMigrations cfg"
    by code_simp
  then obtain cfg where "LoadConfig demo_config_env = Inr cfg" "cfg_StorageType cfg = ''postgres''"
    "cfg_RunMigrations cfg"
    by (cases "LoadConfig demo_config_env") auto
  moreover have "RunMigrations (su_exec demo_startup) (su_embedded demo_startup) (su_statements demo_startup) demo_schema
     = (Inr (), \<lparr>sch_tables = [''migrations/002_b.sql''], sch_versions = Some [''001_a'', ''002_b'']\<rparr>)"
    by code_simp
  moreover have "VerifyPostgresSchema demo_embedded PgOk
     \<lparr>sch_tables = [''migrations/002_b.sql''], sch_versions = Some [''001_a'', ''002_b'']\<rparr> = None"
    by code_simp
  ultimately show thesis
    using that by (simp add: NewConfiguredRepository_def demo_startup_def OpenPostgresPool_def failed_def)
qed

theorem startup_migrates_atomically_witness:
  "\<exists>cfg s'. NewConfiguredRepository demo_startup cfg demo_schema = (Inr PostgresRepository, s')
     \<and> RunMigrations (su_exec demo_startup) demo_embedded (\<lambda>_. PgOk) s' = (Inr (), s')"
proof -
  obtain cfg s' where run: "NewConfiguredRepository demo_startup cfg demo_schema = (Inr PostgresRepository, s')"
    and new: "s' \<noteq> demo_schema"
    by (rule demo_pg_config) (auto simp: demo_schema_def)
  have "directory (su_embedded demo_startup)" by code_simp
  from startup_migrates_atomically [OF this run] run new show ?thesis
    by (auto simp: demo_startup_def)
qed

end
