(* ===== verification/Rabbit.thy ===== *)
theory Rabbit
  imports Scheduler "HOL-Library.State_Monad"
begin

text \<open>
  The RabbitMQ queue of \<open>queue.go\<close>. The AMQP library, the broker, the clock, the contexts and
  the choices of \<open>select\<close> are the surroundings \<open>E\<close>: each call is answered by a function of all
  calls and answers so far, the trace. After each call the other goroutines of the process may
  change the fields of the queue (\<open>re_others\<close>). An operation is a program in the state monad
  whose state is the queue and the trace; a Go error is \<open>Inl\<close>.

  A loop takes the number of its turns that may run; when they are used up it stops with
  \<open>OutOfFuel\<close> and sets \<open>rq_stuck\<close>. An operation that \<open>runRabbitMQOperation\<close> gives up waiting for
  is run to its end before the caller goes on. The gate of \<open>acquireReconnect\<close> and the mutexes
  appear as the calls they delay only.
\<close>

section \<open>Errors\<close>

text \<open>\<open>AmqpError\<close> is a \<open>*amqp.Error\<close> with its code, \<open>AmqpClosed\<close> is \<open>amqp.ErrClosed\<close>.\<close>

datatype rabbit_error =
    AmqpError int
  | AmqpClosed
  | RabbitMQReturned
  | RabbitMQNack
  | RabbitMQReturnedNack
  | InvalidRabbitMQURL
  | GoError go_error
  | Wrapped string rabbit_error
  | Joined rabbit_error rabbit_error
  | OutOfFuel

fun is_returned :: "rabbit_error \<Rightarrow> bool" where
  "is_returned RabbitMQReturned = True"
| "is_returned RabbitMQReturnedNack = True"
| "is_returned (Wrapped _ e) = is_returned e"
| "is_returned (Joined e e') = (is_returned e \<or> is_returned e')"
| "is_returned _ = False"

fun amqp_code :: "rabbit_error \<Rightarrow> int option" where
  "amqp_code (AmqpError n) = Some n"
| "amqp_code AmqpClosed = Some 504"
| "amqp_code (Wrapped _ e) = amqp_code e"
| "amqp_code (Joined e e') = (case amqp_code e of None \<Rightarrow> amqp_code e' | Some n \<Rightarrow> Some n)"
| "amqp_code _ = None"

definition isRabbitMQNotFound :: "rabbit_error \<Rightarrow> bool" where
  "isRabbitMQNotFound err \<longleftrightarrow> amqp_code err = Some 404"

section \<open>State, calls and answers\<close>

text \<open>Connections and channels are numbers. A \<open>Select\<close> names the cases that are ready to be
  chosen from; a hand-over is the send of a delivery to the workers.\<close>

datatype selection =
    SelGate
  | SelTimer duration
  | SelOperation
  | SelConfirm
  | SelReturns
  | SelConsume nat
  | SelHandOver nat CheckJobMessage

datatype amqp_call =
    ContextErr
  | Now
  | Dial
  | IsConnClosed nat
  | IsChanClosed nat
  | CloseConn nat
  | CloseChan nat
  | OpenChannel nat
  | QueueDeclarePassive nat string
  | ExchangeDeclarePassive nat string
  | ExchangeDeclare nat string
  | QueueDeclare nat string
  | LockDeclare nat string
  | QueueBind nat string string string
  | ConfirmMode nat
  | Qos nat int
  | ConsumeQueue nat string
  | RunHandler
  | PublishMessage nat string CheckJobMessage string
  | AckDelivery nat
  | NackDelivery nat bool
  | Select selection

datatype choice =
    ChReady
  | ChContext go_error
  | ChDone
  | ChReturn
  | ChReturnsClosed
  | ChConfirm bool
  | ChConfirmsClosed
  | ChClosed "rabbit_error option"
  | ChCanceled "string option"
  | ChDelivery nat string
  | ChDeliveriesClosed
  | ChNothing

datatype answer =
    AnErr "rabbit_error option"
  | AnHandle "rabbit_error + nat"
  | AnFlag bool
  | AnContext "go_error option"
  | AnChoice choice
  | AnTime gotime

type_synonym trace = "(amqp_call \<times> answer) list"

text \<open>\<open>channel\<close> and the three notification channels of its session are set and cleared together;
  \<open>rq_handler\<close> says whether a handler for topology losses is set. The generations are counted
  without the wrap-around of 64 bits, which no process reaches.\<close>

record RabbitMQQueue =
  rq_conn :: "nat option"
  rq_channel :: "nat option"
  rq_closed :: bool
  rq_topologyLossGeneration :: nat
  rq_recoveredTopologyGeneration :: nat
  rq_handler :: bool
  rq_trace :: trace
  rq_stuck :: bool

record rabbit_config =
  rc_url :: string
  rc_queueName :: string
  rc_dlqName :: string
  rc_prefetch :: int
  rc_maxAttempts :: int
  rc_connectTimeout :: duration
  rc_publishTimeout :: duration
  rc_reconnectInitial :: duration
  rc_reconnectMax :: duration

record surroundings =
  re_err :: "trace \<Rightarrow> amqp_call \<Rightarrow> rabbit_error option"
  re_new :: "trace \<Rightarrow> amqp_call \<Rightarrow> rabbit_error + nat"
  re_flag :: "trace \<Rightarrow> amqp_call \<Rightarrow> bool"
  re_ctx :: "trace \<Rightarrow> go_error option"
  re_pick :: "trace \<Rightarrow> selection \<Rightarrow> choice"
  re_now :: "trace \<Rightarrow> gotime"
  re_draw :: "trace \<Rightarrow> int"
  re_others :: "trace \<Rightarrow> RabbitMQQueue \<Rightarrow> RabbitMQQueue"
  re_ParseURI :: "string \<Rightarrow> int option"
  re_Marshal :: "CheckJobMessage \<Rightarrow> string + string"
  re_Unmarshal :: "string \<Rightarrow> string + CheckJobMessage"

type_synonym 'a rq = "(RabbitMQQueue, 'a) state"
type_synonym 'a rqe = "(RabbitMQQueue, rabbit_error + 'a) state"

section \<open>Primitive steps\<close>

definition after :: "surroundings \<Rightarrow> amqp_call \<Rightarrow> answer \<Rightarrow> RabbitMQQueue \<Rightarrow> RabbitMQQueue" where
  "after E c a q =
     (let t = rq_trace q @ [(c, a)]
      in (re_others E t (q\<lparr>rq_trace := t\<rparr>))\<lparr>rq_trace := t, rq_stuck := rq_stuck q\<rparr>)"

definition callErr :: "surroundings \<Rightarrow> amqp_call \<Rightarrow> rabbit_error option rq" where
  "callErr E c = State (\<lambda>q. let a = re_err E (rq_trace q) c in (a, after E c (AnErr a) q))"

definition callNew :: "surroundings \<Rightarrow> amqp_call \<Rightarrow> nat rqe" where
  "callNew E c = State (\<lambda>q. let a = re_new E (rq_trace q) c in (a, after E c (AnHandle a) q))"

definition callFlag :: "surroundings \<Rightarrow> amqp_call \<Rightarrow> bool rq" where
  "callFlag E c = State (\<lambda>q. let a = re_flag E (rq_trace q) c in (a, after E c (AnFlag a) q))"

definition ctxErr :: "surroundings \<Rightarrow> go_error option rq" where
  "ctxErr E = State (\<lambda>q. let a = re_ctx E (rq_trace q) in (a, after E ContextErr (AnContext a) q))"

definition pick :: "surroundings \<Rightarrow> selection \<Rightarrow> choice rq" where
  "pick E sel = State (\<lambda>q. let a = re_pick E (rq_trace q) sel in (a, after E (Select sel) (AnChoice a) q))"

definition timeNow :: "surroundings \<Rightarrow> gotime rq" where
  "timeNow E = State (\<lambda>q. let a = re_now E (rq_trace q) in (a, after E Now (AnTime a) q))"

definition draw :: "surroundings \<Rightarrow> int rq" where
  "draw E = State (\<lambda>q. (re_draw E (rq_trace q), q))"

definition readQueue :: "RabbitMQQueue rq" where
  "readQueue = State (\<lambda>q. (q, q))"

definition modifyQueue :: "(RabbitMQQueue \<Rightarrow> RabbitMQQueue) \<Rightarrow> unit rq" where
  "modifyQueue f = State (\<lambda>q. ((), f q))"

definition succeed :: "'a \<Rightarrow> 'a rqe" where
  "succeed x = State_Monad.return (Inr x)"

definition throw :: "rabbit_error \<Rightarrow> 'a rqe" where
  "throw err = State_Monad.return (Inl err)"

definition outOfFuel :: "'a rqe" where
  "outOfFuel = State (\<lambda>q. (Inl OutOfFuel, q\<lparr>rq_stuck := True\<rparr>))"

text \<open>\<open>if err != nil { return err }\<close> between two calls, and around one call.\<close>

definition andThen :: "'a rqe \<Rightarrow> ('a \<Rightarrow> 'b rqe) \<Rightarrow> 'b rqe" where
  "andThen m f = do { r \<leftarrow> m; case r of Inl err \<Rightarrow> throw err | Inr x \<Rightarrow> f x }"

definition checked :: "surroundings \<Rightarrow> amqp_call \<Rightarrow> unit rqe" where
  "checked E c = do { err \<leftarrow> callErr E c; case err of None \<Rightarrow> succeed () | Some e \<Rightarrow> throw e }"

definition wrapErr :: "string \<Rightarrow> 'a rqe \<Rightarrow> 'a rqe" where
  "wrapErr context m =
     do { r \<leftarrow> m; case r of Inl err \<Rightarrow> throw (Wrapped context err) | Inr x \<Rightarrow> succeed x }"

text \<open>\<open>defer\<close>: \<open>m\<close>, then \<open>cleanup\<close>.\<close>

definition deferring :: "'b rq \<Rightarrow> 'a rqe \<Rightarrow> 'a rqe" where
  "deferring cleanup m = do { r \<leftarrow> m; _ \<leftarrow> cleanup; State_Monad.return r }"

definition canceled :: "'a rqe" where
  "canceled = throw (GoError ContextCanceled)"

definition consumerClosed :: rabbit_error where
  "consumerClosed = GoError ErrQueueConsumerClosed"

text \<open>The three cases the waiting operations share: ready, context done, queue closed.\<close>

definition awaiting :: "choice \<Rightarrow> 'a rqe \<Rightarrow> 'a rqe" where
  "awaiting ch ready =
     (case ch of ChReady \<Rightarrow> ready | ChContext err \<Rightarrow> throw (GoError err) | _ \<Rightarrow> canceled)"

section \<open>Connections\<close>

definition isClosed :: "bool rq" where
  "isClosed = State (\<lambda>q. (rq_closed q, q))"

definition connection :: "nat option rq" where
  "connection = State (\<lambda>q. (rq_conn q, q))"

definition publishSession :: "nat option rq" where
  "publishSession = State (\<lambda>q. (rq_channel q, q))"

definition isConnected :: "surroundings \<Rightarrow> bool rq" where
  "isConnected E =
     do { q \<leftarrow> readQueue;
          if rq_closed q then State_Monad.return False
          else (case rq_conn q of
                  None \<Rightarrow> State_Monad.return False
                | Some conn \<Rightarrow>
                    do { closed \<leftarrow> callFlag E (IsConnClosed conn);
                         if closed then State_Monad.return False
                         else (case rq_channel q of
                                 None \<Rightarrow> State_Monad.return False
                               | Some channel \<Rightarrow>
                                   do { closed \<leftarrow> callFlag E (IsChanClosed channel);
                                        State_Monad.return (\<not> closed) }) }) }"

definition closeConnection :: "surroundings \<Rightarrow> nat option \<Rightarrow> rabbit_error option rq" where
  "closeConnection E conn =
     (case conn of
        None \<Rightarrow> State_Monad.return None
      | Some conn \<Rightarrow>
          do { closed \<leftarrow> callFlag E (IsConnClosed conn);
               if closed then State_Monad.return None
               else do { err \<leftarrow> callErr E (CloseConn conn);
                         State_Monad.return (if err = Some AmqpClosed then None else err) } })"

definition dropSession :: "RabbitMQQueue \<Rightarrow> RabbitMQQueue" where
  "dropSession q = q\<lparr>rq_conn := None, rq_channel := None\<rparr>"

definition invalidateConnection :: "surroundings \<Rightarrow> nat \<Rightarrow> rabbit_error option rq" where
  "invalidateConnection E conn =
     do { q \<leftarrow> readQueue;
          if rq_conn q \<noteq> Some conn then closeConnection E (Some conn)
          else do { modifyQueue dropSession; closeConnection E (Some conn) } }"

definition invalidatePublishChannel :: "surroundings \<Rightarrow> nat \<Rightarrow> rabbit_error option rq" where
  "invalidatePublishChannel E channel =
     do { q \<leftarrow> readQueue;
          if rq_channel q \<noteq> Some channel then State_Monad.return None
          else do { modifyQueue dropSession; closeConnection E (rq_conn q) } }"

definition acquireReconnect :: "surroundings \<Rightarrow> unit rqe" where
  "acquireReconnect E = do { ch \<leftarrow> pick E SelGate; awaiting ch (succeed ()) }"

definition waitForReconnect :: "surroundings \<Rightarrow> duration \<Rightarrow> unit rqe" where
  "waitForReconnect E delay = do { ch \<leftarrow> pick E (SelTimer delay); awaiting ch (succeed ()) }"

definition runRabbitMQOperation :: "surroundings \<Rightarrow> nat \<Rightarrow> 'a rqe \<Rightarrow> 'a rqe" where
  "runRabbitMQOperation E conn operation =
     do { cx \<leftarrow> ctxErr E;
          case cx of
            Some err \<Rightarrow> throw (GoError err)
          | None \<Rightarrow>
              do { r \<leftarrow> operation;
                   ch \<leftarrow> pick E SelOperation;
                   case ch of
                     ChReady \<Rightarrow> State_Monad.return r
                   | ChContext err \<Rightarrow> do { _ \<leftarrow> invalidateConnection E conn; throw (GoError err) }
                   | _ \<Rightarrow> canceled } }"

definition dialRabbitMQ :: "surroundings \<Rightarrow> rabbit_config \<Rightarrow> nat rqe" where
  "dialRabbitMQ E cfg =
     (case re_ParseURI E (rc_url cfg) of
        None \<Rightarrow> throw InvalidRabbitMQURL
      | Some port \<Rightarrow> if port < 1 \<or> port > 65535 then throw InvalidRabbitMQURL else callNew E Dial)"

section \<open>Topology\<close>

definition deadLetterExchange :: string where
  "deadLetterExchange = ''site_checker.dlx''"

definition bindDeadLetterQueue :: "surroundings \<Rightarrow> rabbit_config \<Rightarrow> nat \<Rightarrow> unit rqe" where
  "bindDeadLetterQueue E cfg channel =
     checked E (QueueBind channel (rc_dlqName cfg) (rc_dlqName cfg) deadLetterExchange)"

definition declareDeadLetterTopology :: "surroundings \<Rightarrow> rabbit_config \<Rightarrow> nat \<Rightarrow> unit rqe" where
  "declareDeadLetterTopology E cfg channel =
     andThen (checked E (ExchangeDeclare channel deadLetterExchange)) (\<lambda>_.
     andThen (checked E (QueueDeclare channel (rc_dlqName cfg))) (\<lambda>_.
       bindDeadLetterQueue E cfg channel))"

definition declareTopology :: "surroundings \<Rightarrow> rabbit_config \<Rightarrow> nat \<Rightarrow> unit rqe" where
  "declareTopology E cfg channel =
     andThen (declareDeadLetterTopology E cfg channel) (\<lambda>_.
       checked E (QueueDeclare channel (rc_queueName cfg)))"

fun recoverDetectedTopologyLoss :: "surroundings \<Rightarrow> nat \<Rightarrow> unit rqe" where
  "recoverDetectedTopologyLoss E 0 = outOfFuel"
| "recoverDetectedTopologyLoss E (Suc n) =
     do { q \<leftarrow> readQueue;
          let generation = rq_topologyLossGeneration q;
          if generation \<le> rq_recoveredTopologyGeneration q then succeed ()
          else if \<not> rq_handler q then succeed ()
          else andThen (checked E RunHandler) (\<lambda>_.
            do { modifyQueue (\<lambda>q. if generation > rq_recoveredTopologyGeneration q
                                  then q\<lparr>rq_recoveredTopologyGeneration := generation\<rparr> else q);
                 recoverDetectedTopologyLoss E n }) }"

definition recordTopologyLoss :: "surroundings \<Rightarrow> nat \<Rightarrow> unit rqe" where
  "recordTopologyLoss E n =
     do { modifyQueue (\<lambda>q. q\<lparr>rq_topologyLossGeneration := rq_topologyLossGeneration q + 1\<rparr>);
          recoverDetectedTopologyLoss E n }"

definition SetTopologyLossHandler :: "surroundings \<Rightarrow> nat \<Rightarrow> bool \<Rightarrow> unit rqe" where
  "SetTopologyLossHandler E n handler =
     (if \<not> handler then throw (GoError (ErrOther ''rabbitmq topology loss handler must not be nil''))
      else do { modifyQueue (\<lambda>q. q\<lparr>rq_handler := True\<rparr>); recoverDetectedTopologyLoss E n })"

text \<open>The lock is a connection that holds an exclusive queue; 405 says another one holds it.\<close>

fun acquireTopologyRecoveryLock :: "surroundings \<Rightarrow> rabbit_config \<Rightarrow> nat \<Rightarrow> nat rqe" where
  "acquireTopologyRecoveryLock E cfg 0 = outOfFuel"
| "acquireTopologyRecoveryLock E cfg (Suc n) =
     andThen (dialRabbitMQ E cfg) (\<lambda>conn.
       do { r \<leftarrow> runRabbitMQOperation E conn
                   (andThen (callNew E (OpenChannel conn)) (\<lambda>channel.
                      checked E (LockDeclare channel (rc_queueName cfg @ ''.topology-recovery-lock''))));
            case r of
              Inr _ \<Rightarrow> succeed conn
            | Inl err \<Rightarrow>
                do { _ \<leftarrow> closeConnection E (Some conn);
                     if amqp_code err \<noteq> Some 405 then throw err
                     else andThen (waitForReconnect E (50 * Millisecond)) (\<lambda>_.
                       acquireTopologyRecoveryLock E cfg n) } })"

text \<open>The part of \<open>repairTopologyOnConnectionUnbounded\<close> after the second look found no queue.\<close>

definition restoreLostTopology :: "surroundings \<Rightarrow> rabbit_config \<Rightarrow> nat \<Rightarrow> nat \<Rightarrow> unit rqe" where
  "restoreLostTopology E cfg n conn =
     andThen (callNew E (OpenChannel conn)) (\<lambda>channel.
       deferring (callErr E (CloseChan channel))
         (do { q \<leftarrow> readQueue;
               let hasHandler = rq_handler q;
               andThen (if hasHandler
                        then wrapErr ''recover queued jobs before restoring rabbitmq topology''
                               (recordTopologyLoss E n)
                        else succeed ()) (\<lambda>_.
               andThen (declareTopology E cfg channel) (\<lambda>_.
                 if \<not> hasHandler then wrapErr ''record rabbitmq topology loss'' (recordTopologyLoss E n)
                 else succeed ())) }))"

text \<open>One look at the queue: declare what is missing beside it, or go on when it is gone.\<close>

definition lookThen :: "surroundings \<Rightarrow> rabbit_config \<Rightarrow> nat \<Rightarrow> unit rqe \<Rightarrow> unit rqe" where
  "lookThen E cfg conn gone =
     andThen (callNew E (OpenChannel conn)) (\<lambda>channel.
       do { err \<leftarrow> callErr E (QueueDeclarePassive channel (rc_queueName cfg));
            case err of
              None \<Rightarrow> deferring (callErr E (CloseChan channel)) (declareTopology E cfg channel)
            | Some e \<Rightarrow>
                do { _ \<leftarrow> callErr E (CloseChan channel);
                     if \<not> isRabbitMQNotFound e then throw e else gone } })"

definition repairTopologyOnConnectionUnbounded :: "surroundings \<Rightarrow> rabbit_config \<Rightarrow> nat \<Rightarrow> nat \<Rightarrow> unit rqe" where
  "repairTopologyOnConnectionUnbounded E cfg n conn =
     lookThen E cfg conn
       (andThen (acquireTopologyRecoveryLock E cfg n) (\<lambda>lock.
          deferring (closeConnection E (Some lock))
            (lookThen E cfg conn (restoreLostTopology E cfg n conn))))"

definition repairTopologyOnConnection :: "surroundings \<Rightarrow> rabbit_config \<Rightarrow> nat \<Rightarrow> nat \<Rightarrow> unit rqe" where
  "repairTopologyOnConnection E cfg n conn =
     runRabbitMQOperation E conn (repairTopologyOnConnectionUnbounded E cfg n conn)"

definition repairTopology :: "surroundings \<Rightarrow> rabbit_config \<Rightarrow> nat \<Rightarrow> unit rqe" where
  "repairTopology E cfg n =
     andThen (acquireReconnect E) (\<lambda>_.
       do { closed \<leftarrow> isClosed;
            if closed then canceled
            else do { conn \<leftarrow> connection;
                      case conn of
                        None \<Rightarrow> throw consumerClosed
                      | Some conn \<Rightarrow>
                          do { gone \<leftarrow> callFlag E (IsConnClosed conn);
                               if gone then throw consumerClosed
                               else do { r \<leftarrow> repairTopologyOnConnection E cfg n conn;
                                         case r of
                                           Inr _ \<Rightarrow> succeed ()
                                         | Inl err \<Rightarrow>
                                             do { gone \<leftarrow> callFlag E (IsConnClosed conn);
                                                  _ \<leftarrow> (if gone then invalidateConnection E conn
                                                       else State_Monad.return None);
                                                  throw err } } } } })"

section \<open>Connecting\<close>

definition openTopologyChannel :: "surroundings \<Rightarrow> rabbit_config \<Rightarrow> nat \<Rightarrow> nat \<Rightarrow> nat rqe" where
  "openTopologyChannel E cfg n conn =
     andThen (repairTopologyOnConnection E cfg n conn) (\<lambda>_.
       runRabbitMQOperation E conn (callNew E (OpenChannel conn)))"

text \<open>The new session replaces the old one unless the queue was closed meanwhile.\<close>

definition installSession :: "surroundings \<Rightarrow> nat \<Rightarrow> nat \<Rightarrow> unit rqe" where
  "installSession E conn channel =
     do { q \<leftarrow> readQueue;
          if rq_closed q then do { _ \<leftarrow> closeConnection E (Some conn); canceled }
          else do { modifyQueue (\<lambda>q. q\<lparr>rq_conn := Some conn, rq_channel := Some channel\<rparr>);
                    _ \<leftarrow> (if rq_conn q \<noteq> None \<and> rq_conn q \<noteq> Some conn then closeConnection E (rq_conn q)
                         else State_Monad.return None);
                    succeed () } }"

definition connectOnce :: "surroundings \<Rightarrow> rabbit_config \<Rightarrow> nat \<Rightarrow> unit rqe" where
  "connectOnce E cfg n =
     andThen (acquireReconnect E) (\<lambda>_.
       do { connected \<leftarrow> isConnected E;
            if connected then succeed ()
            else do { closed \<leftarrow> isClosed;
                      if closed then canceled
                      else andThen (dialRabbitMQ E cfg) (\<lambda>conn.
                        do { r \<leftarrow> openTopologyChannel E cfg n conn;
                             case r of
                               Inl err \<Rightarrow> do { _ \<leftarrow> closeConnection E (Some conn); throw err }
                             | Inr channel \<Rightarrow>
                                 do { err \<leftarrow> callErr E (ConfirmMode channel);
                                      case err of
                                        Some e \<Rightarrow> do { _ \<leftarrow> closeConnection E (Some conn); throw e }
                                      | None \<Rightarrow> installSession E conn channel } }) } })"

fun ensureConnected :: "surroundings \<Rightarrow> rabbit_config \<Rightarrow> nat \<Rightarrow> int \<Rightarrow> unit rqe" where
  "ensureConnected E cfg 0 attempt = outOfFuel"
| "ensureConnected E cfg (Suc n) attempt =
     do { cx \<leftarrow> ctxErr E;
          case cx of
            Some err \<Rightarrow> throw (GoError err)
          | None \<Rightarrow>
              do { connected \<leftarrow> isConnected E;
                   if connected then succeed ()
                   else do { closed \<leftarrow> isClosed;
                             if closed then canceled
                             else do { r \<leftarrow> connectOnce E cfg n;
                                       case r of
                                         Inr _ \<Rightarrow> succeed ()
                                       | Inl _ \<Rightarrow>
                                           do { cx \<leftarrow> ctxErr E;
                                                case cx of
                                                  Some err \<Rightarrow> throw (GoError err)
                                                | None \<Rightarrow>
                                                    do { r \<leftarrow> draw E;
                                                         andThen (waitForReconnect E (rabbitMQReconnectDelay r attempt
                                                             (rc_reconnectInitial cfg) (rc_reconnectMax cfg))) (\<lambda>_.
                                                           ensureConnected E cfg n (attempt + 1)) } } } } } }"

definition newRabbitMQQueue :: "surroundings \<Rightarrow> Config \<Rightarrow> bool \<Rightarrow> nat \<Rightarrow> rabbit_error + RabbitMQQueue \<times> rabbit_config" where
  "newRabbitMQQueue E cfg handler n =
     (let rc = \<lparr>rc_url = cfg_RabbitMQURL cfg, rc_queueName = cfg_QueueName cfg,
                rc_dlqName = cfg_DeadLetterQueueName cfg, rc_prefetch = cfg_QueuePrefetch cfg,
                rc_maxAttempts = cfg_MaxJobAttempts cfg,
                rc_connectTimeout = durationOrDefault (cfg_RabbitMQConnectTimeout cfg) (5 * Second),
                rc_publishTimeout = durationOrDefault (cfg_RabbitMQPublishTimeout cfg) (10 * Second),
                rc_reconnectInitial = durationOrDefault (cfg_RabbitMQReconnectInitial cfg) Second,
                rc_reconnectMax = durationOrDefault (cfg_RabbitMQReconnectMax cfg) (30 * Second)\<rparr>;
          q = \<lparr>rq_conn = None, rq_channel = None, rq_closed = False, rq_topologyLossGeneration = 0,
               rq_recoveredTopologyGeneration = 0, rq_handler = handler, rq_trace = [], rq_stuck = False\<rparr>
      in case run_state (connectOnce E rc n) q of
           (Inl err, _) \<Rightarrow> Inl err
         | (Inr _, q) \<Rightarrow> Inr (q, rc))"

definition NewRabbitMQQueueWithTopologyLossHandler ::
  "surroundings \<Rightarrow> Config \<Rightarrow> bool \<Rightarrow> nat \<Rightarrow> rabbit_error + RabbitMQQueue \<times> rabbit_config" where
  "NewRabbitMQQueueWithTopologyLossHandler E cfg handler n =
     (if \<not> handler then Inl (GoError (ErrOther ''rabbitmq topology loss handler must not be nil''))
      else newRabbitMQQueue E cfg True n)"

section \<open>Ping\<close>

text \<open>A part of the topology that is missing is repaired, with the error of the look joined to a
  failure of the repair.\<close>

definition repairAfter :: "surroundings \<Rightarrow> rabbit_config \<Rightarrow> nat \<Rightarrow> string \<Rightarrow> rabbit_error \<Rightarrow> unit rqe" where
  "repairAfter E cfg n what passiveErr =
     do { r \<leftarrow> repairTopology E cfg n;
          case r of Inl err \<Rightarrow> throw (Joined passiveErr (Wrapped what err)) | Inr _ \<Rightarrow> succeed () }"

definition pingConnection :: "surroundings \<Rightarrow> rabbit_config \<Rightarrow> nat \<Rightarrow> nat \<Rightarrow> unit rqe" where
  "pingConnection E cfg n conn =
     do { r \<leftarrow> callNew E (OpenChannel conn);
          case r of
            Inl err \<Rightarrow> do { _ \<leftarrow> invalidateConnection E conn; throw err }
          | Inr channel \<Rightarrow>
              deferring (callErr E (CloseChan channel))
                (do { err \<leftarrow> callErr E (QueueDeclarePassive channel (rc_queueName cfg));
                      case err of
                        Some e \<Rightarrow> repairAfter E cfg n ''repair rabbitmq topology'' e
                      | None \<Rightarrow>
                          do { err \<leftarrow> callErr E (ExchangeDeclarePassive channel deadLetterExchange);
                               case err of
                                 Some e \<Rightarrow> repairAfter E cfg n ''repair rabbitmq dead-letter exchange'' e
                               | None \<Rightarrow>
                                   do { err \<leftarrow> callErr E (QueueDeclarePassive channel (rc_dlqName cfg));
                                        case err of
                                          Some e \<Rightarrow> repairAfter E cfg n ''repair rabbitmq dead-letter queue'' e
                                        | None \<Rightarrow>
                                            andThen (wrapErr ''ensure rabbitmq dead-letter binding''
                                                       (bindDeadLetterQueue E cfg channel)) (\<lambda>_.
                                              recoverDetectedTopologyLoss E n) } } }) }"

definition rabbit_Ping :: "surroundings \<Rightarrow> rabbit_config \<Rightarrow> nat \<Rightarrow> unit rqe" where
  "rabbit_Ping E cfg n =
     do { cx \<leftarrow> ctxErr E;
          case cx of
            Some err \<Rightarrow> throw (GoError err)
          | None \<Rightarrow>
              andThen (ensureConnected E cfg n 1) (\<lambda>_.
                do { conn \<leftarrow> connection;
                     case conn of
                       None \<Rightarrow> throw consumerClosed
                     | Some conn \<Rightarrow> runRabbitMQOperation E conn (pingConnection E cfg n conn) }) }"

section \<open>Publishing\<close>

text \<open>The loop of \<open>waitForPublishConfirmation\<close>: whether the channel of returns is open, and
  whether the message came back.\<close>

fun waitForPublishConfirmation :: "surroundings \<Rightarrow> nat \<Rightarrow> bool \<Rightarrow> bool \<Rightarrow> unit rqe" where
  "waitForPublishConfirmation E 0 returns returned = outOfFuel"
| "waitForPublishConfirmation E (Suc n) returns returned =
     do { ch \<leftarrow> pick E SelConfirm;
          case ch of
            ChContext err \<Rightarrow> throw (GoError err)
          | ChReturn \<Rightarrow> waitForPublishConfirmation E n returns (returned \<or> returns)
          | ChReturnsClosed \<Rightarrow> waitForPublishConfirmation E n False returned
          | ChClosed (Some err) \<Rightarrow>
              throw (Wrapped ''rabbitmq publish channel closed before confirmation'' err)
          | ChClosed None \<Rightarrow> throw consumerClosed
          | ChConfirmsClosed \<Rightarrow> throw consumerClosed
          | ChConfirm ack \<Rightarrow>
              do { late \<leftarrow> (if \<not> returned \<and> returns then pick E SelReturns else State_Monad.return ChNothing);
                   let returned = (returned \<or> late = ChReturn);
                   if \<not> ack then throw (if returned then RabbitMQReturnedNack else RabbitMQNack)
                   else if returned then throw RabbitMQReturned
                   else succeed () }
          | _ \<Rightarrow> canceled }"

text \<open>The defaults of \<open>Publish\<close>; the clock, which the code reads up to twice, is read once.\<close>

definition publishJobDefaults :: "gotime \<Rightarrow> CheckJobMessage \<Rightarrow> CheckJobMessage" where
  "publishJobDefaults wall job =
     (let job = publishDefaults wall job
      in if IsZero (msg_EnqueuedAt job) then job\<lparr>msg_EnqueuedAt := wall\<rparr> else job)"

definition publishOnce :: "surroundings \<Rightarrow> rabbit_config \<Rightarrow> nat \<Rightarrow> CheckJobMessage \<Rightarrow> string \<Rightarrow> nat \<Rightarrow> unit rqe" where
  "publishOnce E cfg n job body channel =
     andThen (checked E (PublishMessage channel (rc_queueName cfg) job body)) (\<lambda>_.
       waitForPublishConfirmation E n True False)"

text \<open>\<open>None\<close>: the topology was restored and the message is sent again at once.\<close>

definition afterPublishError :: "surroundings \<Rightarrow> rabbit_config \<Rightarrow> nat \<Rightarrow> rabbit_error \<Rightarrow> rabbit_error option rq" where
  "afterPublishError E cfg n err =
     (if is_returned err
      then do { r \<leftarrow> repairTopology E cfg n;
                State_Monad.return
                  (case r of Inr _ \<Rightarrow> None
                   | Inl repairErr \<Rightarrow> Some (Joined err (Wrapped ''repair rabbitmq topology'' repairErr))) }
      else State_Monad.return (Some err))"

fun rabbitPublishLoop ::
  "surroundings \<Rightarrow> rabbit_config \<Rightarrow> nat \<Rightarrow> CheckJobMessage \<Rightarrow> string \<Rightarrow> bool \<Rightarrow> int \<Rightarrow> unit rqe" where
  "rabbitPublishLoop E cfg 0 job body topologyRepaired attempt = outOfFuel"
| "rabbitPublishLoop E cfg (Suc n) job body topologyRepaired attempt =
     andThen (ensureConnected E cfg n 1) (\<lambda>_.
     andThen (wrapErr ''recover queued jobs before publish'' (recoverDetectedTopologyLoss E n)) (\<lambda>_.
       do { session \<leftarrow> publishSession;
            case session of
              None \<Rightarrow> rabbitPublishLoop E cfg n job body topologyRepaired (attempt + 1)
            | Some channel \<Rightarrow>
                do { r \<leftarrow> publishOnce E cfg n job body channel;
                     case r of
                       Inr _ \<Rightarrow> succeed ()
                     | Inl err \<Rightarrow>
                         if is_returned err \<and> topologyRepaired then throw err
                         else do { again \<leftarrow> afterPublishError E cfg n err;
                                   case again of
                                     None \<Rightarrow> rabbitPublishLoop E cfg n job body True (attempt + 1)
                                   | Some _ \<Rightarrow>
                                       do { _ \<leftarrow> invalidatePublishChannel E channel;
                                            cx \<leftarrow> ctxErr E;
                                            case cx of
                                              Some e \<Rightarrow> throw (GoError e)
                                            | None \<Rightarrow>
                                                do { r \<leftarrow> draw E;
                                                     andThen (waitForReconnect E (rabbitMQReconnectDelay r attempt
                                                         (rc_reconnectInitial cfg) (rc_reconnectMax cfg))) (\<lambda>_.
                                                       rabbitPublishLoop E cfg n job body topologyRepaired (attempt + 1)) } } } } }))"

definition rabbit_Publish :: "surroundings \<Rightarrow> rabbit_config \<Rightarrow> nat \<Rightarrow> CheckJobMessage \<Rightarrow> unit rqe" where
  "rabbit_Publish E cfg n job =
     do { now \<leftarrow> timeNow E;
          let job = publishJobDefaults now job;
          case re_Marshal E job of
            Inl err \<Rightarrow> throw (GoError (ErrOther err))
          | Inr body \<Rightarrow> rabbitPublishLoop E cfg n job body False 1 }"

section \<open>Settling deliveries\<close>

definition rabbit_deadLetter :: "surroundings \<Rightarrow> rabbit_config \<Rightarrow> nat \<Rightarrow> nat \<Rightarrow> unit rqe" where
  "rabbit_deadLetter E cfg n tag =
     do { r \<leftarrow> rabbit_Ping E cfg n;
          case r of
            Inl err \<Rightarrow>
              do { nack \<leftarrow> callErr E (NackDelivery tag True);
                   let err = Wrapped ''ensure rabbitmq dead-letter topology'' err;
                   throw (case nack of None \<Rightarrow> err | Some e \<Rightarrow> Joined err e) }
          | Inr _ \<Rightarrow> checked E (NackDelivery tag False) }"

definition rabbit_Ack :: "surroundings \<Rightarrow> nat \<Rightarrow> unit rqe" where
  "rabbit_Ack E tag = checked E (AckDelivery tag)"

definition rabbit_Nack :: "surroundings \<Rightarrow> rabbit_config \<Rightarrow> nat \<Rightarrow> nat \<Rightarrow> CheckJobMessage \<Rightarrow> bool \<Rightarrow> unit rqe" where
  "rabbit_Nack E cfg n tag job requeue =
     (if requeue \<and> msg_Attempt job < rc_maxAttempts cfg
      then do { now \<leftarrow> timeNow E;
                r \<leftarrow> rabbit_Publish E cfg n (job\<lparr>msg_Attempt := wrap64 (msg_Attempt job + 1), msg_EnqueuedAt := now\<rparr>);
                case r of
                  Inl err \<Rightarrow>
                    do { nack \<leftarrow> callErr E (NackDelivery tag True);
                         throw (case nack of None \<Rightarrow> err | Some e \<Rightarrow> Joined err e) }
                | Inr _ \<Rightarrow> rabbit_Ack E tag }
      else rabbit_deadLetter E cfg n tag)"

definition rabbit_Requeue :: "surroundings \<Rightarrow> nat \<Rightarrow> unit rqe" where
  "rabbit_Requeue E tag = checked E (NackDelivery tag True)"

section \<open>Consuming\<close>

definition decodeJobMessage :: "surroundings \<Rightarrow> gotime \<Rightarrow> string \<Rightarrow> string + CheckJobMessage" where
  "decodeJobMessage E wall body =
     (case re_Unmarshal E body of
        Inl err \<Rightarrow> Inl err
      | Inr job \<Rightarrow>
          if msg_MonitorID job = [] then Inl ''monitor_id is required''
          else Inr (publishDefaults wall job))"

fun deliverLoop :: "surroundings \<Rightarrow> rabbit_config \<Rightarrow> nat \<Rightarrow> nat \<Rightarrow> unit rqe" where
  "deliverLoop E cfg 0 channel = outOfFuel"
| "deliverLoop E cfg (Suc n) channel =
     do { ch \<leftarrow> pick E (SelConsume channel);
          case ch of
            ChContext err \<Rightarrow> throw (GoError err)
          | ChClosed (Some err) \<Rightarrow> throw (Wrapped ''rabbitmq consumer channel closed'' err)
          | ChClosed None \<Rightarrow> throw consumerClosed
          | ChCanceled None \<Rightarrow> throw consumerClosed
          | ChCanceled (Some consumerTag) \<Rightarrow>
              andThen (wrapErr ''recover topology after rabbitmq consumer was canceled'' (repairTopology E cfg n)) (\<lambda>_.
                throw (GoError (ErrOther ''rabbitmq consumer was canceled'')))
          | ChDeliveriesClosed \<Rightarrow> throw consumerClosed
          | ChDelivery tag body \<Rightarrow>
              do { now \<leftarrow> timeNow E;
                   case decodeJobMessage E now body of
                     Inl _ \<Rightarrow> do { _ \<leftarrow> rabbit_deadLetter E cfg n tag; deliverLoop E cfg n channel }
                   | Inr job \<Rightarrow>
                       do { ho \<leftarrow> pick E (SelHandOver tag job);
                            case ho of
                              ChReady \<Rightarrow> deliverLoop E cfg n channel
                            | ChContext err \<Rightarrow> do { _ \<leftarrow> callErr E (NackDelivery tag True); throw (GoError err) }
                            | _ \<Rightarrow> do { _ \<leftarrow> callErr E (NackDelivery tag True); canceled } } }
          | _ \<Rightarrow> canceled }"

definition consumeSession :: "surroundings \<Rightarrow> rabbit_config \<Rightarrow> nat \<Rightarrow> unit rqe" where
  "consumeSession E cfg n =
     andThen (ensureConnected E cfg n 1) (\<lambda>_.
       do { conn \<leftarrow> connection;
            case conn of
              None \<Rightarrow> throw consumerClosed
            | Some conn \<Rightarrow>
                do { r \<leftarrow> openTopologyChannel E cfg n conn;
                     case r of
                       Inl err \<Rightarrow>
                         do { gone \<leftarrow> callFlag E (IsConnClosed conn);
                              _ \<leftarrow> (if gone then invalidateConnection E conn else State_Monad.return None);
                              throw err }
                     | Inr channel \<Rightarrow>
                         deferring
                           (do { cx \<leftarrow> ctxErr E;
                                 closed \<leftarrow> isClosed;
                                 if cx \<noteq> None \<or> closed then invalidateConnection E conn
                                 else callErr E (CloseChan channel) })
                           (andThen (checked E (Qos channel (rc_prefetch cfg))) (\<lambda>_.
                            andThen (checked E (ConsumeQueue channel (rc_queueName cfg))) (\<lambda>_.
                              deliverLoop E cfg n channel))) } })"

text \<open>The goroutine of \<open>Consume\<close>; it ends when the context is done or the queue is closed.\<close>

fun consumeLoop :: "surroundings \<Rightarrow> rabbit_config \<Rightarrow> nat \<Rightarrow> int \<Rightarrow> unit rqe" where
  "consumeLoop E cfg 0 attempt = outOfFuel"
| "consumeLoop E cfg (Suc n) attempt =
     do { startedAt \<leftarrow> timeNow E;
          _ \<leftarrow> consumeSession E cfg n;
          cx \<leftarrow> ctxErr E;
          closed \<leftarrow> isClosed;
          if cx \<noteq> None \<or> closed then succeed ()
          else do { now \<leftarrow> timeNow E;
                    let attempt = (if now - startedAt \<ge> rc_reconnectMax cfg then 1 else attempt);
                    r \<leftarrow> draw E;
                    w \<leftarrow> waitForReconnect E (rabbitMQReconnectDelay r attempt
                           (rc_reconnectInitial cfg) (rc_reconnectMax cfg));
                    case w of Inl _ \<Rightarrow> succeed () | Inr _ \<Rightarrow> consumeLoop E cfg n (attempt + 1) } }"

definition rabbit_Consume :: "surroundings \<Rightarrow> rabbit_config \<Rightarrow> nat \<Rightarrow> unit rqe" where
  "rabbit_Consume E cfg n =
     do { closed \<leftarrow> isClosed; if closed then canceled else consumeLoop E cfg n 1 }"

section \<open>Close\<close>

definition rabbit_Close :: "surroundings \<Rightarrow> rabbit_error option rq" where
  "rabbit_Close E =
     do { q \<leftarrow> readQueue;
          if rq_closed q then State_Monad.return None
          else do { modifyQueue (\<lambda>q. dropSession (q\<lparr>rq_closed := True\<rparr>));
                    case rq_conn q of
                      None \<Rightarrow> State_Monad.return None
                    | Some conn \<Rightarrow>
                        do { gone \<leftarrow> callFlag E (IsConnClosed conn);
                             if gone then State_Monad.return None else closeConnection E (Some conn) } } }"

section \<open>The connection with deadlines\<close>

text \<open>\<open>rabbitMQDeadlineConn\<close>: until the library clears the deadline the handshake deadline holds;
  afterwards each write has its own. The result of \<open>deadlineWrite\<close> is the write deadline that
  is set, if any.\<close>

record rabbitMQDeadlineConn =
  dc_writeTimeout :: duration
  dc_handshakeDeadline :: gotime
  dc_explicitDeadline :: gotime
  dc_established :: bool

definition dialDeadline :: "gotime \<Rightarrow> duration \<Rightarrow> gotime option \<Rightarrow> gotime" where
  "dialDeadline now connectTimeout ctxDeadline =
     (let deadline = now + connectTimeout
      in case ctxDeadline of
           None \<Rightarrow> deadline
         | Some d \<Rightarrow> if Before d deadline then d else deadline)"

definition SetDeadline :: "gotime \<Rightarrow> rabbitMQDeadlineConn \<Rightarrow> rabbitMQDeadlineConn" where
  "SetDeadline deadline c =
     (if IsZero deadline
      then c\<lparr>dc_established := True, dc_handshakeDeadline := zeroTime, dc_explicitDeadline := zeroTime\<rparr>
      else if \<not> dc_established c then c\<lparr>dc_handshakeDeadline := deadline\<rparr>
      else c\<lparr>dc_explicitDeadline := deadline\<rparr>)"

definition deadlineWrite :: "gotime \<Rightarrow> rabbitMQDeadlineConn \<Rightarrow> gotime option" where
  "deadlineWrite now c =
     (let deadline =
            (if dc_established c
             then (let deadline = now + dc_writeTimeout c
                   in if \<not> IsZero (dc_explicitDeadline c) \<and> Before (dc_explicitDeadline c) deadline
                      then dc_explicitDeadline c else deadline)
             else dc_handshakeDeadline c)
      in if \<not> IsZero deadline then Some deadline else None)"

end
