(* ===== verification/Rabbit_Logic.thy ===== *)
theory Rabbit_Logic
  imports Rabbit
begin

text \<open>
  A program logic for the operations on the RabbitMQ queue. \<open>keeps I m\<close>: the program preserves
  \<open>I\<close>. \<open>queue_invariant\<close> says what the calls, the changes of the session and the repair of the
  topology must preserve so that every operation does; \<open>plain_invariant\<close> is the special case of
  invariants that say nothing of the topology.
\<close>

section \<open>Rules\<close>

named_theorems keeps_intros \<open>preservation of an invariant by the constructs of the programs\<close>

definition keeps :: "(RabbitMQQueue \<Rightarrow> bool) \<Rightarrow> 'a rq \<Rightarrow> bool" where
  "keeps I m \<longleftrightarrow> (\<forall>q. I q \<longrightarrow> I (snd (run_state m q)))"

lemma keepsD: "keeps I m \<Longrightarrow> I q \<Longrightarrow> run_state m q = (x, q') \<Longrightarrow> I q'"
  by (metis keeps_def snd_conv)

lemma keeps_return [keeps_intros]: "keeps I (State_Monad.return x)" "keeps I (succeed y)" "keeps I (throw e)"
  "keeps I canceled"
  by (simp_all add: keeps_def succeed_def throw_def canceled_def)

lemma keeps_bind [keeps_intros]: "keeps I m \<Longrightarrow> (\<And>x. keeps I (f x)) \<Longrightarrow> keeps I (State_Monad.bind m f)"
  by (simp add: keeps_def case_prod_beta)

lemma keeps_reads [keeps_intros]:
  "keeps I readQueue" "keeps I isClosed" "keeps I connection" "keeps I publishSession" "keeps I (draw E)"
  by (simp_all add: keeps_def readQueue_def isClosed_def connection_def publishSession_def draw_def)

lemma keeps_if [keeps_intros]: "keeps I m \<Longrightarrow> keeps I m' \<Longrightarrow> keeps I (if b then m else m')"
  by simp

lemma keeps_Let [keeps_intros]: "(\<And>x. keeps I (f x)) \<Longrightarrow> keeps I (Let v f)"
  by (simp add: Let_def)

lemma keeps_case_option [keeps_intros]:
  "keeps I m \<Longrightarrow> (\<And>x. keeps I (f x)) \<Longrightarrow> keeps I (case v of None \<Rightarrow> m | Some x \<Rightarrow> f x)"
  by (simp split: option.split)

lemma keeps_case_sum [keeps_intros]:
  "(\<And>e. keeps I (f e)) \<Longrightarrow> (\<And>x. keeps I (g x)) \<Longrightarrow> keeps I (case v of Inl e \<Rightarrow> f e | Inr x \<Rightarrow> g x)"
  by (simp split: sum.split)

lemma keeps_andThen [keeps_intros]: "keeps I m \<Longrightarrow> (\<And>x. keeps I (f x)) \<Longrightarrow> keeps I (andThen m f)"
  unfolding andThen_def by (intro keeps_intros)

lemma keeps_wrapErr [keeps_intros]: "keeps I m \<Longrightarrow> keeps I (wrapErr t m)"
  unfolding wrapErr_def by (intro keeps_intros)

lemma keeps_deferring [keeps_intros]: "keeps I c \<Longrightarrow> keeps I m \<Longrightarrow> keeps I (deferring c m)"
  unfolding deferring_def by (intro keeps_intros)

lemma keeps_awaiting [keeps_intros]: "keeps I m \<Longrightarrow> keeps I (awaiting ch m)"
  unfolding awaiting_def by (auto split: choice.split intro: keeps_intros)

lemma checked_run:
  "run_state (checked E c) q =
     (let a = re_err E (rq_trace q) c
      in ((case a of None \<Rightarrow> Inr () | Some e \<Rightarrow> Inl e), after E c (AnErr a) q))"
  by (simp add: checked_def callErr_def succeed_def throw_def Let_def split: option.split)

section \<open>Invariants of the queue\<close>

text \<open>The calls that take, hand over or settle a delivery, and those that declare a queue.\<close>

fun delivery_call :: "amqp_call \<Rightarrow> bool" where
  "delivery_call (AckDelivery _) = True"
| "delivery_call (NackDelivery _ _) = True"
| "delivery_call (Select (SelConsume _)) = True"
| "delivery_call (Select (SelHandOver _ _)) = True"
| "delivery_call _ = False"

fun declares :: "amqp_call \<Rightarrow> bool" where
  "declares (QueueDeclare _ _) = True"
| "declares _ = False"

text \<open>The steps without a loop need two laws only.\<close>

locale call_invariant =
  fixes E :: surroundings and I :: "RabbitMQQueue \<Rightarrow> bool"
  assumes call: "I q \<Longrightarrow> \<not> delivery_call c \<Longrightarrow> \<not> declares c \<Longrightarrow> I (after E c a q)"
    and drop: "I q \<Longrightarrow> I (dropSession q)"
begin

lemma calls [keeps_intros]:
  "\<not> delivery_call c \<Longrightarrow> \<not> declares c \<Longrightarrow> keeps I (callErr E c)"
  "\<not> delivery_call c \<Longrightarrow> \<not> declares c \<Longrightarrow> keeps I (callNew E c)"
  "\<not> delivery_call c \<Longrightarrow> \<not> declares c \<Longrightarrow> keeps I (callFlag E c)"
  "keeps I (ctxErr E)" "\<not> delivery_call (Select sel) \<Longrightarrow> keeps I (pick E sel)" "keeps I (timeNow E)"
  by (simp_all add: keeps_def callErr_def callNew_def callFlag_def ctxErr_def pick_def timeNow_def Let_def call)

lemma checked_keeps [keeps_intros]: "\<not> delivery_call c \<Longrightarrow> \<not> declares c \<Longrightarrow> keeps I (checked E c)"
  unfolding checked_def by (intro keeps_intros)

lemma drop_keeps [keeps_intros]: "keeps I (modifyQueue dropSession)"
  by (simp add: keeps_def modifyQueue_def drop)

lemma closing_keeps [keeps_intros]: "keeps I (closeConnection E conn)"
  unfolding closeConnection_def by (intro keeps_intros) simp_all

lemma invalidating_keeps [keeps_intros]:
  "keeps I (invalidateConnection E c)" "keeps I (invalidatePublishChannel E ch)"
  unfolding invalidateConnection_def invalidatePublishChannel_def by (intro keeps_intros)+

lemma waiting_keeps [keeps_intros]: "keeps I (acquireReconnect E)" "keeps I (waitForReconnect E d)"
  unfolding acquireReconnect_def waitForReconnect_def by (intro keeps_intros, simp)+

lemma isConnected_keeps [keeps_intros]: "keeps I (isConnected E)"
  unfolding isConnected_def by (intro keeps_intros) simp_all

lemma operation_keeps [keeps_intros]: "keeps I m \<Longrightarrow> keeps I (runRabbitMQOperation E conn m)"
  unfolding runRabbitMQOperation_def
  by (intro keeps_intros) (auto split: choice.split intro: keeps_intros)

lemma dial_keeps [keeps_intros]: "keeps I (dialRabbitMQ E cfg')"
  unfolding dialRabbitMQ_def by (intro keeps_intros) simp_all

lemma bind_keeps [keeps_intros]: "keeps I (bindDeadLetterQueue E cfg' ch)"
  unfolding bindDeadLetterQueue_def by (intro keeps_intros) simp_all

end

locale queue_invariant = call_invariant E I for E :: surroundings and I :: "RabbitMQQueue \<Rightarrow> bool" +
  fixes cfg :: rabbit_config
  assumes install: "I q \<Longrightarrow> \<not> rq_closed q \<Longrightarrow> I (q\<lparr>rq_conn := Some conn, rq_channel := Some channel\<rparr>)"
    and stuck: "I q \<Longrightarrow> I (q\<lparr>rq_stuck := True\<rparr>)"
    and recovery: "keeps I (recoverDetectedTopologyLoss E n)"
    and restore: "keeps I (restoreLostTopology E cfg n conn)"
    and look: "keeps I gone \<Longrightarrow> keeps I (lookThen E cfg conn gone)"
begin

lemma outOfFuel_keeps [keeps_intros]: "keeps I outOfFuel"
  by (simp add: keeps_def outOfFuel_def stuck)

lemmas topology_keeps [keeps_intros] = recovery restore look

lemma lock_keeps [keeps_intros]: "keeps I (acquireTopologyRecoveryLock E cfg' n)"
proof (induction n)
  case (Suc n)
  show ?case unfolding acquireTopologyRecoveryLock.simps by (intro keeps_intros Suc) simp_all
qed (simp add: keeps_intros)

lemma repair_keeps [keeps_intros]:
  "keeps I (repairTopologyOnConnection E cfg n conn)" "keeps I (repairTopology E cfg n)"
  unfolding repairTopology_def repairTopologyOnConnection_def repairTopologyOnConnectionUnbounded_def
  by (intro keeps_intros; simp)+

lemma open_keeps [keeps_intros]: "keeps I (openTopologyChannel E cfg n conn)"
  unfolding openTopologyChannel_def by (intro keeps_intros) simp_all

lemma install_keeps [keeps_intros]: "keeps I (installSession E conn channel)"
proof -
  have rest: "keeps I (do { _ \<leftarrow> (if old \<noteq> None \<and> old \<noteq> Some conn then closeConnection E old
                         else State_Monad.return None);
                    succeed () })" for old
    by (intro keeps_intros)
  have no: "keeps I (do { _ \<leftarrow> closeConnection E (Some conn); canceled } :: unit rqe)" by (intro keeps_intros)
  show ?thesis
    using rest no install
    by (auto simp: keeps_def installSession_def readQueue_def modifyQueue_def)
qed

lemma connectOnce_keeps [keeps_intros]: "keeps I (connectOnce E cfg n)"
  unfolding connectOnce_def by (intro keeps_intros) simp_all

lemma ensureConnected_keeps [keeps_intros]: "keeps I (ensureConnected E cfg n attempt)"
proof (induction n arbitrary: attempt)
  case (Suc n)
  show ?case unfolding ensureConnected.simps by (intro keeps_intros Suc)
qed (simp add: keeps_intros)

lemma Ping_keeps [keeps_intros]: "keeps I (rabbit_Ping E cfg n)"
  unfolding rabbit_Ping_def pingConnection_def repairAfter_def by (intro keeps_intros) simp_all

lemma confirmation_keeps [keeps_intros]: "keeps I (waitForPublishConfirmation E n returns returned)"
proof (induction n arbitrary: returns returned)
  case (Suc n)
  show ?case
    unfolding waitForPublishConfirmation.simps
    by (intro keeps_intros) (auto split: choice.split option.split intro!: keeps_intros Suc)
qed (simp add: keeps_intros)

lemma publishLoop_keeps [keeps_intros]: "keeps I (rabbitPublishLoop E cfg n job body repaired attempt)"
proof (induction n arbitrary: repaired attempt)
  case (Suc n)
  show ?case
    unfolding rabbitPublishLoop.simps publishOnce_def afterPublishError_def
    by (intro keeps_intros Suc) simp_all
qed (simp add: keeps_intros)

lemma Publish_keeps [keeps_intros]: "keeps I (rabbit_Publish E cfg n job)"
  unfolding rabbit_Publish_def by (intro keeps_intros)

end

text \<open>Invariants that the settlement of a delivery keeps too.\<close>

locale settling_invariant = queue_invariant +
  assumes settle: "I q \<Longrightarrow> delivery_call c \<Longrightarrow> I (after E c a q)"
begin

lemma settle_keeps [keeps_intros]: "delivery_call c \<Longrightarrow> keeps I (callErr E c)" "delivery_call c \<Longrightarrow> keeps I (checked E c)"
  "delivery_call (Select sel) \<Longrightarrow> keeps I (pick E sel)"
proof -
  show "keeps I (pick E sel)" if "delivery_call (Select sel)"
    using that by (simp add: keeps_def pick_def Let_def settle)
  show err: "keeps I (callErr E c)" if "delivery_call c" for c
    using that by (simp add: keeps_def callErr_def Let_def settle)
  show "keeps I (checked E c)" if "delivery_call c"
    unfolding checked_def by (intro keeps_intros err that)
qed

lemma deadLetter_keeps [keeps_intros]: "keeps I (rabbit_deadLetter E cfg n tag)"
  unfolding rabbit_deadLetter_def by (intro keeps_intros settle_keeps) simp_all

lemma Nack_keeps [keeps_intros]: "keeps I (rabbit_Nack E cfg n tag job requeue)"
  unfolding rabbit_Nack_def rabbit_Ack_def by (intro keeps_intros settle_keeps) simp_all

lemma Ack_keeps [keeps_intros]: "keeps I (rabbit_Ack E tag)" "keeps I (rabbit_Requeue E tag)"
  unfolding rabbit_Ack_def rabbit_Requeue_def by (intro settle_keeps, simp)+

lemma deliverLoop_keeps [keeps_intros]: "keeps I (deliverLoop E cfg n channel)"
proof (induction n)
  case (Suc n)
  have nack: "keeps I (callErr E (NackDelivery tag True))" for tag by (rule settle_keeps) simp
  show ?case
    unfolding deliverLoop.simps
    by (intro keeps_intros settle_keeps(3)) (auto split: choice.split option.split intro!: keeps_intros nack Suc settle_keeps(3))
qed (simp add: keeps_intros)

lemma session_keeps [keeps_intros]: "keeps I (consumeSession E cfg n)"
  unfolding consumeSession_def by (intro keeps_intros) simp_all

lemma consumeLoop_keeps [keeps_intros]: "keeps I (consumeLoop E cfg n attempt)"
proof (induction n arbitrary: attempt)
  case (Suc n)
  show ?case unfolding consumeLoop.simps by (intro keeps_intros Suc)
qed (simp add: keeps_intros)

lemma Consume_keeps [keeps_intros]: "keeps I (rabbit_Consume E cfg n)"
  unfolding rabbit_Consume_def by (intro keeps_intros)

end

text \<open>Invariants that all calls but the settlements keep, and that say nothing of the
  generations.\<close>

locale plain_invariant =
  fixes E :: surroundings and cfg :: rabbit_config and I :: "RabbitMQQueue \<Rightarrow> bool"
  assumes plain_call: "I q \<Longrightarrow> \<not> delivery_call c \<Longrightarrow> I (after E c a q)"
    and plain_drop: "I q \<Longrightarrow> I (dropSession q)"
    and plain_install: "I q \<Longrightarrow> \<not> rq_closed q \<Longrightarrow> I (q\<lparr>rq_conn := Some conn, rq_channel := Some channel\<rparr>)"
    and plain_stuck: "I q \<Longrightarrow> I (q\<lparr>rq_stuck := True\<rparr>)"
    and plain_loss: "I q \<Longrightarrow> I (q\<lparr>rq_topologyLossGeneration := k\<rparr>)"
    and plain_recovered: "I q \<Longrightarrow> I (q\<lparr>rq_recoveredTopologyGeneration := k\<rparr>)"
begin

lemma plain_calls:
  "\<not> delivery_call c \<Longrightarrow> keeps I (callErr E c)" "\<not> delivery_call c \<Longrightarrow> keeps I (callNew E c)"
  "\<not> delivery_call c \<Longrightarrow> keeps I (checked E c)"
proof -
  show err: "keeps I (callErr E c)" if "\<not> delivery_call c" for c
    using that by (simp add: keeps_def callErr_def Let_def plain_call)
  show "keeps I (callNew E c)" if "\<not> delivery_call c"
    using that by (simp add: keeps_def callNew_def Let_def plain_call)
  show "keeps I (checked E c)" if "\<not> delivery_call c"
    unfolding checked_def by (intro keeps_intros err that)
qed

lemma plain_recovery: "keeps I (recoverDetectedTopologyLoss E n)"
proof (induction n)
  case (Suc n)
  show ?case
    unfolding recoverDetectedTopologyLoss.simps
    by (intro keeps_intros plain_calls Suc) (simp_all add: keeps_def modifyQueue_def plain_recovered)
qed (simp add: keeps_def outOfFuel_def plain_stuck)

lemma plain_record: "keeps I (recordTopologyLoss E n)"
  unfolding recordTopologyLoss_def
  by (intro keeps_intros plain_recovery) (simp add: keeps_def modifyQueue_def plain_loss)

lemma plain_declare: "keeps I (declareTopology E cfg channel)"
  unfolding declareTopology_def declareDeadLetterTopology_def bindDeadLetterQueue_def
  by (intro keeps_intros plain_calls) simp_all

lemma plain_restore: "keeps I (restoreLostTopology E cfg n conn)"
  unfolding restoreLostTopology_def
  by (intro keeps_intros plain_calls plain_record plain_declare) simp_all

lemma plain_look: "keeps I gone \<Longrightarrow> keeps I (lookThen E cfg conn gone)"
  unfolding lookThen_def by (intro keeps_intros plain_calls plain_declare) simp_all

end

sublocale plain_invariant \<subseteq> queue_invariant E I cfg
  by unfold_locales
    (simp_all add: plain_call plain_drop plain_install plain_stuck plain_recovery plain_restore plain_look)

section \<open>Instances\<close>

lemma after_simps [simp]:
  "rq_trace (after E c a q) = rq_trace q @ [(c, a)]" "rq_stuck (after E c a q) = rq_stuck q"
  by (simp_all add: after_def Let_def)

lemma dropSession_simps [simp]:
  "rq_trace (dropSession q) = rq_trace q" "rq_closed (dropSession q) = rq_closed q"
  by (simp_all add: dropSession_def)

text \<open>The trace grows, by calls that concern no delivery.\<close>

definition extends_quietly :: "trace \<Rightarrow> RabbitMQQueue \<Rightarrow> bool" where
  "extends_quietly t q \<longleftrightarrow> (\<exists>w. rq_trace q = t @ w \<and> list_all (\<lambda>(c, _). \<not> delivery_call c) w)"

interpretation quiet: plain_invariant E cfg "extends_quietly t" for E cfg t
  by unfold_locales (force simp: extends_quietly_def)+

text \<open>The trace grows, whatever an operation does: no call is forgotten.\<close>

definition grows :: "trace \<Rightarrow> RabbitMQQueue \<Rightarrow> bool" where
  "grows t q \<longleftrightarrow> (\<exists>w. rq_trace q = t @ w)"

interpretation growing: plain_invariant E cfg "grows t" for E cfg t
  by unfold_locales (auto simp: grows_def)

interpretation growing: settling_invariant E "grows t" cfg for E cfg t
  by unfold_locales (auto simp: grows_def)

lemmas trace_grows = growing.Publish_keeps growing.Nack_keeps growing.Consume_keeps

lemma keeps_grows:
  "(\<And>t. keeps (grows t) m) \<Longrightarrow> \<exists>w. rq_trace (snd (run_state m q)) = rq_trace q @ w"
  unfolding keeps_def grows_def by (metis append_Nil2)

end
