(* ===== verification/Rabbit_Publish.thy ===== *)
theory Rabbit_Publish
  imports Rabbit_Logic
begin

text \<open>
  What a published message and a settled delivery mean on the broker: \<open>Publish\<close> returns nil only
  for a message the broker confirmed and did not send back, and a delivery that is put back
  for another attempt is acknowledged only after that.
\<close>

section \<open>Confirmed messages\<close>

text \<open>\<open>accepted returns w\<close>: the events after a send end with a positive confirmation, and no
  return was read before it, nor in the last look at an open channel of returns.\<close>

fun accepted :: "bool \<Rightarrow> trace \<Rightarrow> bool" where
  "accepted returns ((Select SelConfirm, AnChoice ch) # w) =
     (case ch of
        ChReturn \<Rightarrow> \<not> returns \<and> accepted returns w
      | ChReturnsClosed \<Rightarrow> accepted False w
      | ChConfirm ack \<Rightarrow> ack \<and>
          (if returns then (case w of [(Select SelReturns, AnChoice late)] \<Rightarrow> late \<noteq> ChReturn | _ \<Rightarrow> False)
           else w = [])
      | _ \<Rightarrow> False)"
| "accepted returns _ = False"

text \<open>From \<open>t\<close> to \<open>t'\<close> a message was sent to the queue and accepted, as the last thing done.\<close>

definition published :: "string \<Rightarrow> CheckJobMessage \<Rightarrow> string \<Rightarrow> trace \<Rightarrow> trace \<Rightarrow> bool" where
  "published queueName job body t t' \<longleftrightarrow>
     (\<exists>u channel w. t' = t @ u @ (PublishMessage channel queueName job body, AnErr None) # w \<and> accepted True w)"

lemma andThen_Inr:
  assumes "run_state (andThen m f) q = (Inr x, q')"
  obtains y q1 where "run_state m q = (Inr y, q1)" "run_state (f y) q1 = (Inr x, q')"
  using assms by (auto simp: andThen_def throw_def split: prod.splits sum.splits)

lemma returned_fails: "fst (run_state (waitForPublishConfirmation E n returns True) q) \<noteq> Inr ()"
proof (induction n arbitrary: returns q)
  case (Suc n)
  then show ?case
    by (auto simp: pick_def throw_def canceled_def Let_def split: choice.split option.split)
qed (simp add: outOfFuel_def)

lemma confirmation_accepted:
  "run_state (waitForPublishConfirmation E n returns False) q = (Inr (), q') \<Longrightarrow>
   \<exists>w. rq_trace q' = rq_trace q @ w \<and> accepted returns w"
proof (induction n arbitrary: returns q)
  case (Suc n)
  define ch where "ch = re_pick E (rq_trace q) SelConfirm"
  define q1 where "q1 = after E (Select SelConfirm) (AnChoice ch) q"
  have t1: "rq_trace q1 = rq_trace q @ [(Select SelConfirm, AnChoice ch)]" by (simp add: q1_def)
  note run = Suc.prems [unfolded waitForPublishConfirmation.simps pick_def Let_def run_state_bind state.sel
      prod.case ch_def [symmetric] q1_def [symmetric]]
  show ?case
  proof (cases ch)
    case ChReturn
    with run returned_fails [of E n True q1] have "\<not> returns" by (cases returns) auto
    with ChReturn run Suc.IH [of False q1] t1 show ?thesis by auto
  next
    case ChReturnsClosed
    with run Suc.IH [of False q1] t1 show ?thesis by auto
  next
    case (ChConfirm ack)
    with run t1 show ?thesis
      by (cases returns) (auto simp: pick_def throw_def succeed_def Let_def split: if_splits)
  qed (use run in \<open>auto simp: throw_def canceled_def split: option.splits\<close>)
qed (simp add: outOfFuel_def)

section \<open>Publishing\<close>

text \<open>\<open>ends t Q m\<close>: from a state whose trace extends \<open>t\<close>, the program extends the trace quietly and
  a result without error satisfies \<open>Q\<close>.\<close>

definition ends :: "trace \<Rightarrow> ('a \<Rightarrow> RabbitMQQueue \<Rightarrow> bool) \<Rightarrow> 'a rqe \<Rightarrow> bool" where
  "ends t Q m \<longleftrightarrow> (\<forall>q r q'. extends_quietly t q \<longrightarrow> run_state m q = (r, q') \<longrightarrow>
     extends_quietly t q' \<and> (\<forall>x. r = Inr x \<longrightarrow> Q x q'))"

named_theorems ends_intros \<open>rules for the results of programs\<close>

lemma ends_throw [ends_intros]: "ends t Q (throw e)" "ends t Q canceled"
  by (simp_all add: ends_def throw_def canceled_def)

lemma ends_outOfFuel [ends_intros]: "ends t Q outOfFuel"
  by (auto simp: ends_def outOfFuel_def extends_quietly_def)

lemma ends_bind [ends_intros]:
  assumes "keeps (extends_quietly t) m" "\<And>x. ends t Q (f x)"
  shows "ends t Q (State_Monad.bind m f)"
  unfolding ends_def
proof (intro allI impI)
  fix q r q' assume q: "extends_quietly t q" and run: "run_state (State_Monad.bind m f) q = (r, q')"
  obtain x q1 where "run_state m q = (x, q1)" by fastforce
  with q run assms show "extends_quietly t q' \<and> (\<forall>x. r = Inr x \<longrightarrow> Q x q')"
    by (auto simp: ends_def dest: keepsD)
qed

lemma ends_andThen [ends_intros]:
  "keeps (extends_quietly t) m \<Longrightarrow> (\<And>x. ends t Q (f x)) \<Longrightarrow> ends t Q (andThen m f)"
  unfolding andThen_def by (auto intro!: ends_intros split: sum.split)

text \<open>The result of \<open>m\<close> is passed on, its errors are handled.\<close>

lemma ends_handle:
  assumes "ends t Q m" "\<And>e. ends t Q (g e)" "\<And>x q. Q x q \<Longrightarrow> Q () q"
  shows "ends t Q (do { r \<leftarrow> m; case r of Inl e \<Rightarrow> g e | Inr _ \<Rightarrow> succeed () })"
  unfolding ends_def
proof (intro allI impI)
  fix q r q' assume q: "extends_quietly t q"
    and run: "run_state (do { r \<leftarrow> m; case r of Inl e \<Rightarrow> g e | Inr _ \<Rightarrow> succeed () }) q = (r, q')"
  obtain x q1 where m: "run_state m q = (x, q1)" by fastforce
  with q assms(1) have "extends_quietly t q1" "\<forall>y. x = Inr y \<longrightarrow> Q y q1" by (auto simp: ends_def)
  with m run assms(2,3) show "extends_quietly t q' \<and> (\<forall>x. r = Inr x \<longrightarrow> Q x q')"
    by (cases x) (auto simp: ends_def succeed_def)
qed

lemma extends_self: "extends_quietly (rq_trace q) q"
  by (simp add: extends_quietly_def)

lemma extends_append: "extends_quietly t q \<Longrightarrow> \<exists>u. rq_trace q = t @ u"
  by (auto simp: extends_quietly_def)

lemma publishOnce_ends:
  "ends t (\<lambda>_ q. published (rc_queueName cfg) job body t (rq_trace q)) (publishOnce E cfg n job body channel)"
  unfolding ends_def
proof (intro allI impI conjI)
  fix q r q' x
  assume q: "extends_quietly t q" and run: "run_state (publishOnce E cfg n job body channel) q = (r, q')"
  have "keeps (extends_quietly t) (publishOnce E cfg n job body channel)"
    unfolding publishOnce_def by (intro keeps_andThen quiet.confirmation_keeps quiet.checked_keeps) simp_all
  from keepsD [OF this q run] show "extends_quietly t q'" .
  assume "r = Inr x"
  with run have run': "run_state (publishOnce E cfg n job body channel) q = (Inr (), q')" by simp
  let ?c = "PublishMessage channel (rc_queueName cfg) job body"
  from run' obtain q1 where q1: "run_state (checked E ?c) q = (Inr (), q1)"
    and wait: "run_state (waitForPublishConfirmation E n True False) q1 = (Inr (), q')"
    unfolding publishOnce_def by (rule andThen_Inr) auto
  from q1 have t1: "rq_trace q1 = rq_trace q @ [(?c, AnErr None)]"
    by (auto simp: checked_run Let_def split: option.splits)
  from confirmation_accepted [OF wait] obtain w where w: "rq_trace q' = rq_trace q1 @ w" "accepted True w" by blast
  obtain u where "rq_trace q = t @ u" using extends_append [OF q] by blast
  with t1 w have "rq_trace q' = t @ u @ (?c, AnErr None) # w" by simp
  with w(2) show "published (rc_queueName cfg) job body t (rq_trace q')" unfolding published_def by blast
qed

lemma publishLoop_ends:
  "ends t (\<lambda>_ q. published (rc_queueName cfg) job body t (rq_trace q))
     (rabbitPublishLoop E cfg n job body repaired attempt)"
proof (induction n arbitrary: repaired attempt)
  case (Suc n)
  have error: "keeps (extends_quietly t) (afterPublishError E cfg n err)" for err
    unfolding afterPublishError_def by (intro keeps_intros quiet.repair_keeps)
  show ?case
    unfolding rabbitPublishLoop.simps
  proof (rule ends_andThen [OF quiet.ensureConnected_keeps], rule ends_andThen [OF keeps_wrapErr [OF quiet.recovery]],
      rule ends_bind [OF keeps_reads(4)], split option.split, intro conjI allI impI, goal_cases)
    case (2 _ _ _ channel)
    show ?case
      by (rule ends_handle [OF publishOnce_ends])
        (auto split: option.split intro!: Suc ends_intros keeps_reads error quiet.invalidating_keeps quiet.calls
          quiet.waiting_keeps)
  qed (rule Suc)
qed (simp add: ends_intros)

lemma Publish_published:
  assumes "run_state (rabbit_Publish E cfg n job) q = (Inr (), q')"
  shows "\<exists>now body. re_Marshal E (publishJobDefaults now job) = Inr body
    \<and> published (rc_queueName cfg) (publishJobDefaults now job) body (rq_trace q) (rq_trace q')"
proof -
  define now where "now = re_now E (rq_trace q)"
  define q1 where "q1 = after E Now (AnTime now) q"
  from assms obtain body where body: "re_Marshal E (publishJobDefaults now job) = Inr body"
    and run: "run_state (rabbitPublishLoop E cfg n (publishJobDefaults now job) body False 1) q1 = (Inr (), q')"
    by (auto simp: rabbit_Publish_def timeNow_def Let_def now_def q1_def throw_def split: sum.splits)
  have "extends_quietly (rq_trace q) q1" by (simp add: q1_def extends_quietly_def)
  with publishLoop_ends run
  have "published (rc_queueName cfg) (publishJobDefaults now job) body (rq_trace q) (rq_trace q')"
    unfolding ends_def by blast
  with body show ?thesis by blast
qed

end
