(* ===== verification/Rabbit_Deliveries.thy ===== *)
theory Rabbit_Deliveries
  imports Rabbit_Publish
begin

text \<open>
  What becomes of the deliveries of RabbitMQ: the consumer hands every message it takes to a
  worker or settles it before it takes the next one, and a worker's negative acknowledgement
  loses no message.
\<close>

section \<open>The consumer\<close>

text \<open>\<open>balanced held w\<close>: along \<open>w\<close> at most one delivery is held at a time, it leaves by a
  hand-over to a worker or by a negative acknowledgement of itself, and none is held at the
  end; nothing is acknowledged.\<close>

definition hold :: "nat option \<Rightarrow> amqp_call \<times> answer \<Rightarrow> nat option option" where
  "hold held e =
     (case e of (c, a) \<Rightarrow>
        case c of
          Select (SelConsume _) \<Rightarrow>
            (case a of AnChoice (ChDelivery tag _) \<Rightarrow> if held = None then Some (Some tag) else None
             | _ \<Rightarrow> Some held)
        | Select (SelHandOver tag _) \<Rightarrow>
            (if a = AnChoice ChReady then (if held = Some tag then Some None else None) else Some held)
        | NackDelivery tag _ \<Rightarrow> if held = Some tag then Some None else None
        | AckDelivery _ \<Rightarrow> None
        | _ \<Rightarrow> Some held)"

fun balanced :: "nat option \<Rightarrow> trace \<Rightarrow> bool" where
  "balanced held [] = (held = None)"
| "balanced held (e # w) = (case hold held e of None \<Rightarrow> False | Some h \<Rightarrow> balanced h w)"

lemma hold_quiet: "\<not> delivery_call c \<Longrightarrow> hold held (c, a) = Some held"
  by (cases c) (auto simp: hold_def split: selection.split)

lemma balanced_quiet: "list_all (\<lambda>(c, _). \<not> delivery_call c) w \<Longrightarrow> balanced held (w @ w') = balanced held w'"
  by (induction w) (auto simp: hold_quiet)

lemma balanced_append: "balanced held w \<Longrightarrow> balanced None w' \<Longrightarrow> balanced held (w @ w')"
  by (induction held w rule: balanced.induct) (auto split: option.splits)

text \<open>\<open>yields held m\<close>: started with \<open>held\<close>, the events of the program are balanced.\<close>

definition yields :: "nat option \<Rightarrow> 'a rq \<Rightarrow> bool" where
  "yields held m \<longleftrightarrow> (\<forall>q. \<exists>w. rq_trace (snd (run_state m q)) = rq_trace q @ w \<and> balanced held w)"

definition quiet_program :: "'a rq \<Rightarrow> bool" where
  "quiet_program m \<longleftrightarrow> (\<forall>t. keeps (extends_quietly t) m)"

lemma quiet_run:
  assumes "quiet_program m"
  obtains w where "rq_trace (snd (run_state m q)) = rq_trace q @ w" "list_all (\<lambda>(c, _). \<not> delivery_call c) w"
proof -
  have "keeps (extends_quietly (rq_trace q)) m" using assms by (simp add: quiet_program_def)
  then have "extends_quietly (rq_trace q) (snd (run_state m q))" using extends_self [of q] by (simp add: keeps_def)
  with that show thesis by (auto simp: extends_quietly_def)
qed

lemma yields_quiet: "quiet_program m \<Longrightarrow> yields None m"
  unfolding yields_def by (metis append_Nil2 balanced.simps(1) balanced_quiet quiet_run)

lemma yields_quiet_bind:
  assumes "quiet_program m" "\<And>x. yields held (f x)"
  shows "yields held (State_Monad.bind m f)"
  unfolding yields_def
proof
  fix q
  obtain w where w: "rq_trace (snd (run_state m q)) = rq_trace q @ w" "list_all (\<lambda>(c, _). \<not> delivery_call c) w"
    using assms(1) by (rule quiet_run)
  obtain w' where "rq_trace (snd (run_state (State_Monad.bind m f) q)) = rq_trace (snd (run_state m q)) @ w'" "balanced held w'"
    using assms(2) by (auto simp: yields_def case_prod_beta)
  with w show "\<exists>w. rq_trace (snd (run_state (State_Monad.bind m f) q)) = rq_trace q @ w \<and> balanced held w"
    by (auto simp: balanced_quiet)
qed

lemma yields_bind:
  assumes "yields held m" "\<And>x. yields None (f x)"
  shows "yields held (State_Monad.bind m f)"
  unfolding yields_def
proof
  fix q
  obtain w where w: "rq_trace (snd (run_state m q)) = rq_trace q @ w" "balanced held w"
    using assms(1) by (auto simp: yields_def)
  obtain w' where "rq_trace (snd (run_state (State_Monad.bind m f) q)) = rq_trace (snd (run_state m q)) @ w'" "balanced None w'"
    using assms(2) by (auto simp: yields_def case_prod_beta)
  with w show "\<exists>w. rq_trace (snd (run_state (State_Monad.bind m f) q)) = rq_trace q @ w \<and> balanced held w"
    by (auto intro!: balanced_append)
qed

lemma yields_return: "yields None (State_Monad.return x)" "yields None (throw e)" "yields None (succeed y)"
  "yields None canceled"
  by (simp_all add: yields_def throw_def succeed_def canceled_def)

lemma yields_outOfFuel: "yields None outOfFuel"
  by (simp add: yields_def outOfFuel_def)

text \<open>The three ways a delivery is taken and let go.\<close>

lemma yields_consume:
  assumes "\<And>ch. yields (case ch of ChDelivery tag _ \<Rightarrow> Some tag | _ \<Rightarrow> None) (f ch)"
  shows "yields None (State_Monad.bind (pick E (SelConsume channel)) f)"
  unfolding yields_def
proof
  fix q :: RabbitMQQueue
  let ?ch = "re_pick E (rq_trace q) (SelConsume channel)"
  obtain w where w: "rq_trace (snd (run_state (f ?ch) (after E (Select (SelConsume channel)) (AnChoice ?ch) q)))
      = rq_trace q @ (Select (SelConsume channel), AnChoice ?ch) # w"
    "balanced (case ?ch of ChDelivery tag _ \<Rightarrow> Some tag | _ \<Rightarrow> None) w"
    using assms [of ?ch] unfolding yields_def
    by (auto dest!: spec [of _ "after E (Select (SelConsume channel)) (AnChoice ?ch) q"])
  then show "\<exists>w. rq_trace (snd (run_state (State_Monad.bind (pick E (SelConsume channel)) f) q)) = rq_trace q @ w
      \<and> balanced None w"
    by (intro exI [of _ "(Select (SelConsume channel), AnChoice ?ch) # w"])
      (auto simp: pick_def Let_def hold_def split: choice.splits)
qed

lemma yields_handOver:
  assumes "yields None (f ChReady)" "\<And>ho. ho \<noteq> ChReady \<Longrightarrow> yields (Some tag) (f ho)"
  shows "yields (Some tag) (State_Monad.bind (pick E (SelHandOver tag job)) f)"
  unfolding yields_def
proof
  fix q :: RabbitMQQueue
  let ?ho = "re_pick E (rq_trace q) (SelHandOver tag job)"
  obtain w where w: "rq_trace (snd (run_state (f ?ho) (after E (Select (SelHandOver tag job)) (AnChoice ?ho) q)))
      = rq_trace q @ (Select (SelHandOver tag job), AnChoice ?ho) # w"
    "balanced (if ?ho = ChReady then None else Some tag) w"
    using assms(1) assms(2) [of ?ho] unfolding yields_def
    by (cases "?ho = ChReady") (auto dest!: spec [of _ "after E (Select (SelHandOver tag job)) (AnChoice ?ho) q"])
  then show "\<exists>w. rq_trace (snd (run_state (State_Monad.bind (pick E (SelHandOver tag job)) f) q)) = rq_trace q @ w
      \<and> balanced (Some tag) w"
    by (intro exI [of _ "(Select (SelHandOver tag job), AnChoice ?ho) # w"])
      (auto simp: pick_def Let_def hold_def split: if_splits)
qed

lemma yields_nack: "yields (Some tag) (callErr E (NackDelivery tag requeue))"
  "yields (Some tag) (checked E (NackDelivery tag requeue))"
  by (simp_all add: yields_def callErr_def checked_run Let_def hold_def)

section \<open>Quiet operations\<close>

lemma quiet_programs:
  "quiet_program (rabbit_Ping E cfg n)" "quiet_program (rabbit_Publish E cfg n job)"
  "quiet_program (ensureConnected E cfg n attempt)" "quiet_program (openTopologyChannel E cfg n conn)"
  "quiet_program (invalidateConnection E conn)" "quiet_program (callErr E (CloseChan channel))"
  "quiet_program (ctxErr E)" "quiet_program (timeNow E)" "quiet_program (waitForReconnect E d)"
  "quiet_program isClosed" "quiet_program connection" "quiet_program (draw E)"
  "quiet_program (callFlag E (IsConnClosed conn))" "quiet_program (checked E (Qos channel k))"
  "quiet_program (checked E (ConsumeQueue channel queueName))" "quiet_program (State_Monad.return x)"
  "quiet_program (wrapErr text (repairTopology E cfg n))"
  unfolding quiet_program_def
  by (intro allI quiet.Ping_keeps quiet.Publish_keeps quiet.ensureConnected_keeps quiet.open_keeps
      quiet.invalidating_keeps quiet.calls quiet.waiting_keeps keeps_reads quiet.checked_keeps keeps_return
      keeps_wrapErr quiet.repair_keeps; simp)+

lemma yields_andThen:
  "quiet_program m \<Longrightarrow> (\<And>x. yields None (f x)) \<Longrightarrow> yields None (andThen m f)"
  unfolding andThen_def by (rule yields_quiet_bind) (auto split: sum.split intro: yields_return)

lemma yields_deadLetter: "yields (Some tag) (rabbit_deadLetter E cfg n tag)"
  unfolding rabbit_deadLetter_def
  by (rule yields_quiet_bind [OF quiet_programs(1)])
    (auto split: sum.split intro!: yields_bind yields_nack yields_return simp: Let_def)

lemma yields_deliverLoop: "yields None (deliverLoop E cfg n channel)"
proof (induction n)
  case (Suc n)
  have taken: "yields (Some tag) (do { now \<leftarrow> timeNow E;
                   case decodeJobMessage E now body of
                     Inl _ \<Rightarrow> do { _ \<leftarrow> rabbit_deadLetter E cfg n tag; deliverLoop E cfg n channel }
                   | Inr job \<Rightarrow>
                       do { ho \<leftarrow> pick E (SelHandOver tag job);
                            case ho of
                              ChReady \<Rightarrow> deliverLoop E cfg n channel
                            | ChContext err \<Rightarrow> do { _ \<leftarrow> callErr E (NackDelivery tag True); throw (GoError err) }
                            | _ \<Rightarrow> do { _ \<leftarrow> callErr E (NackDelivery tag True); canceled } } })" for tag body
    by (rule yields_quiet_bind [OF quiet_programs(8)])
      (auto split: sum.split choice.split
        intro!: yields_bind [OF yields_deadLetter] yields_bind [OF yields_nack(1)] yields_handOver yields_return Suc)
  show ?case
    unfolding deliverLoop.simps
    by (rule yields_consume)
      (auto split: choice.split option.split
        intro!: taken yields_return yields_andThen quiet_programs(17))
qed (simp add: yields_outOfFuel)

lemma yields_deferring: "yields None m \<Longrightarrow> quiet_program c \<Longrightarrow> yields None (deferring c m)"
  unfolding deferring_def by (rule yields_bind, assumption) (rule yields_quiet_bind, assumption, rule yields_return)

lemma quiet_bind: "quiet_program m \<Longrightarrow> (\<And>x. quiet_program (f x)) \<Longrightarrow> quiet_program (State_Monad.bind m f)"
  unfolding quiet_program_def by (auto intro: keeps_intros)

lemma yields_consumeSession: "yields None (consumeSession E cfg n)"
proof -
  have cleanup: "quiet_program (do { cx \<leftarrow> ctxErr E;
        closed \<leftarrow> isClosed;
        if (\<exists>err. cx = Some err) \<or> closed then invalidateConnection E conn else callErr E (CloseChan channel) })" for conn channel
    by (intro quiet_bind quiet_programs) (simp add: quiet_programs)
  show ?thesis
    unfolding consumeSession_def
    by (intro yields_andThen quiet_programs yields_quiet_bind)
      (auto split: option.split sum.split
        intro!: yields_return yields_quiet_bind quiet_programs yields_deferring yields_andThen yields_deliverLoop cleanup)
qed

lemma yields_consumeLoop: "yields None (consumeLoop E cfg n attempt)"
proof (induction n arbitrary: attempt)
  case (Suc n)
  have again: "yields None (do { now \<leftarrow> timeNow E;
                    let attempt = (if now - startedAt \<ge> rc_reconnectMax cfg then 1 else attempt);
                    r \<leftarrow> draw E;
                    w \<leftarrow> waitForReconnect E (rabbitMQReconnectDelay r attempt
                           (rc_reconnectInitial cfg) (rc_reconnectMax cfg));
                    case w of Inl _ \<Rightarrow> succeed () | Inr _ \<Rightarrow> consumeLoop E cfg n (attempt + 1) })" for startedAt attempt
    unfolding Let_def
    by (intro yields_quiet_bind quiet_programs) (auto split: sum.split intro: yields_return Suc)
  show ?case
    unfolding consumeLoop.simps
    by (intro yields_quiet_bind [OF quiet_programs(8)] yields_bind [OF yields_consumeSession]
          yields_quiet_bind [OF quiet_programs(7)] yields_quiet_bind [OF quiet_programs(10)])
      (simp add: yields_return again)
qed (simp add: yields_outOfFuel)

lemma yields_Consume: "yields None (rabbit_Consume E cfg n)"
  unfolding rabbit_Consume_def
  by (intro yields_quiet_bind quiet_programs) (simp add: yields_return yields_consumeLoop)

section \<open>Negative acknowledgements\<close>

lemma published_earlier: "published queueName job body (t @ u) t' \<Longrightarrow> published queueName job body t t'"
  unfolding published_def by (metis append.assoc)

text \<open>The message for the next attempt.\<close>

definition next_attempt :: "CheckJobMessage \<Rightarrow> CheckJobMessage \<Rightarrow> bool" where
  "next_attempt job job' \<longleftrightarrow>
     msg_MonitorID job' = msg_MonitorID job \<and> (msg_JobID job \<noteq> [] \<longrightarrow> msg_JobID job' = msg_JobID job)
   \<and> (0 \<le> msg_Attempt job \<and> msg_Attempt job < 2 ^ 63 - 1 \<longrightarrow> msg_Attempt job' = msg_Attempt job + 1)"

lemma next_attempt_defaults:
  "next_attempt job (publishJobDefaults now (job\<lparr>msg_Attempt := wrap64 (msg_Attempt job + 1), msg_EnqueuedAt := t\<rparr>))"
  by (auto simp: next_attempt_def publishJobDefaults_def publishDefaults_def Let_def wrap64_id int64_range_def)

lemma deadLetter_settles:
  assumes "run_state (rabbit_deadLetter E cfg n tag) q = (r, q')"
  shows "\<exists>w requeue a. rq_trace q' = rq_trace q @ w @ [(NackDelivery tag requeue, a)]
    \<and> list_all (\<lambda>(c, _). \<not> delivery_call c) w
    \<and> (requeue \<or> fst (run_state (rabbit_Ping E cfg n) q) = Inr ())"
proof -
  obtain p q1 where ping: "run_state (rabbit_Ping E cfg n) q = (p, q1)" by fastforce
  obtain w where w: "rq_trace q1 = rq_trace q @ w" "list_all (\<lambda>(c, _). \<not> delivery_call c) w"
    using quiet_run [OF quiet_programs(1), of E cfg n q] ping by auto
  show ?thesis
  proof (cases p)
    case (Inl e)
    with assms ping w show ?thesis
      by (intro exI [of _ w]) (auto simp: rabbit_deadLetter_def callErr_def throw_def Let_def)
  next
    case (Inr u)
    with assms ping w show ?thesis
      by (intro exI [of _ w]) (auto simp: rabbit_deadLetter_def checked_run Let_def)
  qed
qed

text \<open>A negative acknowledgement makes one settling call, the last one: it returns the message to
  the queue, acknowledges it after its successor was accepted, or dead-letters it when no
  attempt is left and the dead-letter topology is in place.\<close>

definition kept :: "surroundings \<Rightarrow> rabbit_config \<Rightarrow> nat \<Rightarrow> nat \<Rightarrow> CheckJobMessage \<Rightarrow> bool \<Rightarrow> RabbitMQQueue \<Rightarrow> trace \<Rightarrow> amqp_call \<Rightarrow> bool" where
  "kept E cfg n tag job requeue q w c \<longleftrightarrow>
     c = NackDelivery tag True
   \<or> c = AckDelivery tag \<and> requeue \<and> msg_Attempt job < rc_maxAttempts cfg
     \<and> (\<exists>job' body. next_attempt job job' \<and> published (rc_queueName cfg) job' body (rq_trace q) (rq_trace q @ w))
   \<or> c = NackDelivery tag False \<and> \<not> (requeue \<and> msg_Attempt job < rc_maxAttempts cfg)
     \<and> fst (run_state (rabbit_Ping E cfg n) q) = Inr ()"

lemma Nack_keeps_message:
  assumes "run_state (rabbit_Nack E cfg n tag job requeue) q = (r, q')"
  shows "\<exists>w c a. rq_trace q' = rq_trace q @ w @ [(c, a)] \<and> list_all (\<lambda>(c, _). \<not> delivery_call c) w
    \<and> kept E cfg n tag job requeue q w c"
proof (cases "requeue \<and> msg_Attempt job < rc_maxAttempts cfg")
  case False
  with assms have "run_state (rabbit_deadLetter E cfg n tag) q = (r, q')" by (simp only: rabbit_Nack_def if_False)
  from deadLetter_settles [OF this] False show ?thesis unfolding kept_def by (metis (full_types))
next
  case True
  define now where "now = re_now E (rq_trace q)"
  define q1 where "q1 = after E Now (AnTime now) q"
  define next' where "next' = job\<lparr>msg_Attempt := wrap64 (msg_Attempt job + 1), msg_EnqueuedAt := now\<rparr>"
  have t1: "rq_trace q1 = rq_trace q @ [(Now, AnTime now)]" by (simp add: q1_def)
  obtain p q2 where pub: "run_state (rabbit_Publish E cfg n next') q1 = (p, q2)" by fastforce
  obtain w where w: "rq_trace q2 = rq_trace q1 @ w" "list_all (\<lambda>(c, _). \<not> delivery_call c) w"
    using quiet_run [OF quiet_programs(2), of E cfg n next' q1] pub by auto
  have run: "run_state (case p of
        Inl err \<Rightarrow> do { nack \<leftarrow> callErr E (NackDelivery tag True);
                      throw (case nack of None \<Rightarrow> err | Some e \<Rightarrow> Joined err e) }
      | Inr _ \<Rightarrow> rabbit_Ack E tag) q2 = (r, q')"
    using assms True pub by (simp add: rabbit_Nack_def timeNow_def Let_def now_def q1_def next'_def)
  show ?thesis
  proof (cases p)
    case (Inl err)
    with run t1 w show ?thesis
      by (intro exI [of _ "(Now, AnTime now) # w"]) (auto simp: callErr_def throw_def Let_def kept_def)
  next
    case (Inr u)
    with pub have "run_state (rabbit_Publish E cfg n next') q1 = (Inr (), q2)" by simp
    from Publish_published [OF this] obtain now' body where
      "published (rc_queueName cfg) (publishJobDefaults now' next') body (rq_trace q1) (rq_trace q2)" by blast
    then have "published (rc_queueName cfg) (publishJobDefaults now' next') body (rq_trace q)
        (rq_trace q @ (Now, AnTime now) # w)"
      by (simp add: t1 w published_earlier)
    moreover have "next_attempt job (publishJobDefaults now' next')"
      unfolding next'_def by (rule next_attempt_defaults)
    ultimately have "kept E cfg n tag job requeue q ((Now, AnTime now) # w) (AckDelivery tag)"
      using True unfolding kept_def by blast
    with Inr run t1 w show ?thesis
      by (intro exI [of _ "(Now, AnTime now) # w"]) (auto simp: rabbit_Ack_def checked_run Let_def)
  qed
qed

end
