(* ===== verification/Rabbit_Topology.thy ===== *)
theory Rabbit_Topology
  imports Rabbit_Logic
begin

text \<open>
  The order of recovery: once the queue was found missing it is declared again only after the
  handler for topology losses, which puts the jobs whose messages are gone back into the
  schedule, has succeeded.
\<close>

section \<open>Losing and restoring the queue\<close>

definition lose :: "string \<Rightarrow> bool \<Rightarrow> amqp_call \<times> answer \<Rightarrow> bool" where
  "lose queueName lost e =
     (case e of
        (QueueDeclarePassive _ name, AnErr err) \<Rightarrow>
          (if name \<noteq> queueName then lost
           else (case err of None \<Rightarrow> False | Some e \<Rightarrow> isRabbitMQNotFound e \<or> lost))
      | (RunHandler, AnErr None) \<Rightarrow> False
      | _ \<Rightarrow> lost)"

definition lost :: "string \<Rightarrow> trace \<Rightarrow> bool" where
  "lost queueName t = foldl (lose queueName) False t"

text \<open>No event of the trace declares the queue while it is known to be lost.\<close>

definition redeclares :: "string \<Rightarrow> amqp_call \<Rightarrow> bool" where
  "redeclares queueName c \<longleftrightarrow> (case c of QueueDeclare _ name \<Rightarrow> name = queueName | _ \<Rightarrow> False)"

fun restored_safely :: "string \<Rightarrow> bool \<Rightarrow> trace \<Rightarrow> bool" where
  "restored_safely queueName b [] = True"
| "restored_safely queueName b (e # t) =
     (\<not> (b \<and> redeclares queueName (fst e)) \<and> restored_safely queueName (lose queueName b e) t)"

lemma restored_safely_snoc:
  "restored_safely queueName b (t @ [e]) \<longleftrightarrow> restored_safely queueName b t
   \<and> \<not> (foldl (lose queueName) b t \<and> redeclares queueName (fst e))"
  by (induction t arbitrary: b) auto

lemma redeclares_declares: "redeclares queueName c \<Longrightarrow> declares c"
  by (cases c) (simp_all add: redeclares_def)

lemma lost_snoc: "lost queueName (t @ [e]) = lose queueName (lost queueName t) e"
  by (simp add: lost_def)

text \<open>The other goroutines never unset the handler nor lower the generation of losses, and keep the
  recovered generation below it.\<close>

definition steady :: "surroundings \<Rightarrow> bool" where
  "steady E \<longleftrightarrow> (\<forall>t q. (rq_handler q \<longrightarrow> rq_handler (re_others E t q))
     \<and> rq_topologyLossGeneration q \<le> rq_topologyLossGeneration (re_others E t q)
     \<and> (rq_recoveredTopologyGeneration q \<le> rq_topologyLossGeneration q \<longrightarrow>
          rq_recoveredTopologyGeneration (re_others E t q) \<le> rq_topologyLossGeneration (re_others E t q)))"

definition topology_safe :: "rabbit_config \<Rightarrow> RabbitMQQueue \<Rightarrow> bool" where
  "topology_safe cfg q \<longleftrightarrow>
     rq_handler q \<and> rq_recoveredTopologyGeneration q \<le> rq_topologyLossGeneration q
   \<and> restored_safely (rc_queueName cfg) False (rq_trace q)"

text \<open>The queue is not known to be lost.\<close>

definition topology_present :: "rabbit_config \<Rightarrow> RabbitMQQueue \<Rightarrow> bool" where
  "topology_present cfg q \<longleftrightarrow> topology_safe cfg q \<and> \<not> lost (rc_queueName cfg) (rq_trace q)"

lemma after_generations:
  assumes "steady E"
  shows "rq_handler q \<Longrightarrow> rq_handler (after E c a q)"
    "rq_topologyLossGeneration q \<le> rq_topologyLossGeneration (after E c a q)"
    "rq_recoveredTopologyGeneration q \<le> rq_topologyLossGeneration q \<Longrightarrow>
     rq_recoveredTopologyGeneration (after E c a q) \<le> rq_topologyLossGeneration (after E c a q)"
proof -
  let ?t = "rq_trace q @ [(c, a)]"
  have "(rq_handler q \<longrightarrow> rq_handler (re_others E ?t (q\<lparr>rq_trace := ?t\<rparr>)))
     \<and> rq_topologyLossGeneration q \<le> rq_topologyLossGeneration (re_others E ?t (q\<lparr>rq_trace := ?t\<rparr>))
     \<and> (rq_recoveredTopologyGeneration q \<le> rq_topologyLossGeneration q \<longrightarrow>
          rq_recoveredTopologyGeneration (re_others E ?t (q\<lparr>rq_trace := ?t\<rparr>))
          \<le> rq_topologyLossGeneration (re_others E ?t (q\<lparr>rq_trace := ?t\<rparr>)))"
    using assms by (auto simp: steady_def dest!: spec [of _ ?t] spec [of _ "q\<lparr>rq_trace := ?t\<rparr>"])
  then show "rq_handler q \<Longrightarrow> rq_handler (after E c a q)"
    "rq_topologyLossGeneration q \<le> rq_topologyLossGeneration (after E c a q)"
    "rq_recoveredTopologyGeneration q \<le> rq_topologyLossGeneration q \<Longrightarrow>
     rq_recoveredTopologyGeneration (after E c a q) \<le> rq_topologyLossGeneration (after E c a q)"
    by (simp_all add: after_def Let_def)
qed

lemma safe_after:
  assumes "steady E" "topology_safe cfg q"
    and "declares c \<Longrightarrow> \<not> lost (rc_queueName cfg) (rq_trace q)"
  shows "topology_safe cfg (after E c a q)"
  using assms after_generations [OF assms(1), of q c a]
  by (auto simp: topology_safe_def restored_safely_snoc lost_def dest: redeclares_declares)

lemma present_after:
  assumes "steady E" "topology_present cfg q" "\<And>ch name. c \<noteq> QueueDeclarePassive ch name"
  shows "topology_present cfg (after E c a q)"
  using assms safe_after [OF assms(1), of cfg q c a]
  by (cases c) (auto simp: topology_present_def lost_snoc lose_def split: answer.splits option.splits)

section \<open>The repair\<close>

lemma present_checked:
  "steady E \<Longrightarrow> (\<And>ch name. c \<noteq> QueueDeclarePassive ch name) \<Longrightarrow> keeps (topology_present cfg) (checked E c)"
  unfolding checked_def
  by (intro keeps_intros) (simp add: keeps_def callErr_def Let_def present_after)

lemma declare_present: "steady E \<Longrightarrow> keeps (topology_present cfg) (declareTopology E cfg' channel)"
  unfolding declareTopology_def declareDeadLetterTopology_def bindDeadLetterQueue_def
  by (intro keeps_intros present_checked) simp_all

text \<open>After a successful recovery the queue is not known to be lost any more.\<close>

definition recovering :: "rabbit_config \<Rightarrow> RabbitMQQueue \<Rightarrow> bool" where
  "recovering cfg q \<longleftrightarrow> topology_safe cfg q
     \<and> (lost (rc_queueName cfg) (rq_trace q) \<longrightarrow> rq_recoveredTopologyGeneration q < rq_topologyLossGeneration q)"

definition recovered_to :: "rabbit_config \<Rightarrow> rabbit_error + unit \<Rightarrow> RabbitMQQueue \<Rightarrow> bool" where
  "recovered_to cfg r q \<longleftrightarrow> topology_safe cfg q \<and> (r = Inr () \<longrightarrow> topology_present cfg q)"

lemma recovery_restores:
  assumes "steady E"
  shows "topology_safe cfg q \<Longrightarrow> run_state (recoverDetectedTopologyLoss E n) q = (r, q') \<Longrightarrow>
    topology_safe cfg q' \<and> (recovering cfg q \<longrightarrow> recovered_to cfg r q')"
proof (induction n arbitrary: q)
  case 0
  then show ?case by (auto simp: outOfFuel_def recovered_to_def topology_safe_def)
next
  case (Suc n)
  show ?case
  proof (cases "rq_topologyLossGeneration q \<le> rq_recoveredTopologyGeneration q")
    case True
    with Suc.prems show ?thesis
      by (auto simp: readQueue_def succeed_def recovering_def recovered_to_def topology_present_def Let_def)
  next
    case False
    define a where "a = re_err E (rq_trace q) RunHandler"
    define q1 where "q1 = after E RunHandler (AnErr a) q"
    have safe1: "topology_safe cfg q1" unfolding q1_def by (rule safe_after [OF assms Suc.prems(1)]) simp
    have le: "rq_topologyLossGeneration q \<le> rq_topologyLossGeneration q1"
      unfolding q1_def by (rule after_generations(2) [OF assms])
    have handler: "rq_handler q" using Suc.prems(1) by (simp add: topology_safe_def)
    show ?thesis
    proof (cases a)
      case (Some e)
      with Suc.prems False handler safe1 show ?thesis
        by (auto simp: readQueue_def andThen_def checked_def callErr_def throw_def Let_def a_def q1_def recovered_to_def)
    next
      case None
      let ?q2 = "if rq_topologyLossGeneration q > rq_recoveredTopologyGeneration q1
                 then q1\<lparr>rq_recoveredTopologyGeneration := rq_topologyLossGeneration q\<rparr> else q1"
      have "\<not> lost (rc_queueName cfg) (rq_trace q1)"
        by (simp add: q1_def lost_snoc lose_def None)
      with safe1 le have q2: "topology_safe cfg ?q2" "recovering cfg ?q2"
        by (auto simp: recovering_def topology_safe_def)
      moreover have "run_state (recoverDetectedTopologyLoss E n) ?q2 = (r, q')"
        using Suc.prems(2) False handler None
        by (simp add: readQueue_def andThen_def checked_def callErr_def succeed_def modifyQueue_def Let_def
            a_def [symmetric] q1_def cong: if_cong)
      ultimately show ?thesis using Suc.IH by blast
    qed
  qed
qed

lemma recovery_safe: "steady E \<Longrightarrow> keeps (topology_safe cfg) (recoverDetectedTopologyLoss E n)"
  using recovery_restores unfolding keeps_def by (metis prod.collapse)

lemma record_restores:
  assumes "steady E" "topology_safe cfg q" "run_state (recordTopologyLoss E n) q = (r, q')"
  shows "recovered_to cfg r q'"
proof -
  let ?q1 = "q\<lparr>rq_topologyLossGeneration := rq_topologyLossGeneration q + 1\<rparr>"
  have "topology_safe cfg ?q1" "recovering cfg ?q1"
    using assms(2) by (simp_all add: recovering_def topology_safe_def)
  moreover have "run_state (recoverDetectedTopologyLoss E n) ?q1 = (r, q')"
    using assms(3) by (simp add: recordTopologyLoss_def modifyQueue_def)
  ultimately show ?thesis using recovery_restores [OF assms(1)] by blast
qed

lemma safe_calls:
  assumes "steady E" "\<not> declares c"
  shows "keeps (topology_safe cfg) (callErr E c)" "keeps (topology_safe cfg) (callNew E c)"
  using assms by (auto simp: keeps_def callErr_def callNew_def Let_def intro: safe_after)

lemma present_safe: "keeps (topology_present cfg) m \<Longrightarrow> topology_present cfg q \<Longrightarrow> run_state m q = (x, q') \<Longrightarrow> topology_safe cfg q'"
  by (auto dest: keepsD simp: topology_present_def)

lemma restore_steps:
  assumes "steady E"
  shows "keeps (topology_safe cfg) (do { q \<leftarrow> readQueue;
          let hasHandler = rq_handler q;
          andThen (if hasHandler
                   then wrapErr ''recover queued jobs before restoring rabbitmq topology'' (recordTopologyLoss E n)
                   else succeed ()) (\<lambda>_.
          andThen (declareTopology E cfg channel) (\<lambda>_.
            if \<not> hasHandler then wrapErr ''record rabbitmq topology loss'' (recordTopologyLoss E n)
            else succeed ())) })"
    (is "keeps _ ?program")
  unfolding keeps_def
proof (intro allI impI)
  fix q assume q: "topology_safe cfg q"
  then have handler: "rq_handler q" by (simp add: topology_safe_def)
  obtain x q1 where rec: "run_state (recordTopologyLoss E n) q = (x, q1)" by fastforce
  have q1: "recovered_to cfg x q1" using record_restores [OF assms q rec] .
  show "topology_safe cfg (snd (run_state ?program q))"
  proof (cases x)
    case (Inl e)
    with handler rec q1 show ?thesis
      by (simp add: readQueue_def andThen_def wrapErr_def throw_def recovered_to_def)
  next
    case (Inr u)
    obtain y q2 where decl: "run_state (declareTopology E cfg channel) q1 = (y, q2)" by fastforce
    with q1 Inr have "topology_safe cfg q2"
      using present_safe [OF declare_present [OF assms] _ decl] by (simp add: recovered_to_def)
    with handler rec Inr decl show ?thesis
      by (cases y) (simp_all add: readQueue_def andThen_def wrapErr_def throw_def succeed_def)
  qed
qed

lemma restore_safe: "steady E \<Longrightarrow> keeps (topology_safe cfg) (restoreLostTopology E cfg n conn)"
  unfolding restoreLostTopology_def
  by (intro keeps_andThen keeps_deferring safe_calls restore_steps) simp_all

lemma callErr_bind:
  "run_state (State_Monad.bind (callErr E c) f) q =
   (let a = re_err E (rq_trace q) c in run_state (f a) (after E c (AnErr a) q))"
  by (simp add: callErr_def Let_def)

lemma look_safe:
  assumes "steady E" "keeps (topology_safe cfg) gone"
  shows "keeps (topology_safe cfg) (lookThen E cfg conn gone)"
proof -
  let ?look = "\<lambda>channel. QueueDeclarePassive channel (rc_queueName cfg)"
  have "keeps (topology_safe cfg) (do { err \<leftarrow> callErr E (?look channel);
            case err of
              None \<Rightarrow> deferring (callErr E (CloseChan channel)) (declareTopology E cfg channel)
            | Some e \<Rightarrow>
                do { _ \<leftarrow> callErr E (CloseChan channel);
                     if \<not> isRabbitMQNotFound e then throw e else gone } })" for channel
    unfolding keeps_def
  proof (intro allI impI, goal_cases)
    case (1 q)
    let ?a = "re_err E (rq_trace q) (?look channel)"
    let ?q1 = "after E (?look channel) (AnErr ?a) q"
    have safe1: "topology_safe cfg ?q1" by (rule safe_after [OF assms(1) 1]) simp
    show ?case
    proof (cases ?a)
      case None
      then have "topology_present cfg ?q1" using safe1 by (simp add: topology_present_def lost_snoc lose_def)
      then have "topology_safe cfg (snd (run_state (declareTopology E cfg channel) ?q1))"
        using present_safe [OF declare_present [OF assms(1)]] by (metis prod.collapse)
      moreover have "keeps (topology_safe cfg) (callErr E (CloseChan channel))"
        by (rule safe_calls [OF assms(1)]) simp
      ultimately show ?thesis
        using None by (simp add: deferring_def callErr_def Let_def keeps_def case_prod_beta)
    next
      case (Some e)
      have "keeps (topology_safe cfg) (do { _ \<leftarrow> callErr E (CloseChan channel);
                     if \<not> isRabbitMQNotFound e then throw e else gone })"
        by (intro keeps_intros assms(2) safe_calls [OF assms(1)]) simp
      with safe1 Some show ?thesis by (subst callErr_bind) (simp add: keeps_def)
    qed
  qed
  then show ?thesis
    unfolding lookThen_def by (intro keeps_andThen safe_calls [OF assms(1)]) simp_all
qed

lemma settles_declares: "delivery_call c \<Longrightarrow> \<not> declares c"
  by (cases c) simp_all

lemma topology_invariant:
  assumes "steady E"
  shows "settling_invariant E (topology_safe cfg) cfg"
proof
  show "topology_safe cfg (after E c a q)" if "topology_safe cfg q" "\<not> delivery_call c" "\<not> declares c" for q c a
    using that by (intro safe_after [OF assms]) simp_all
  show "topology_safe cfg (after E c a q)" if "topology_safe cfg q" "delivery_call c" for q c a
    using that by (intro safe_after [OF assms]) (simp_all add: settles_declares)
qed (simp_all add: topology_safe_def dropSession_def recovery_safe [OF assms] restore_safe [OF assms]
    look_safe [OF assms])

end
