(* ===== verification/Rabbit_Progress.thy ===== *)
theory Rabbit_Progress
  imports Rabbit_Logic
begin

text \<open>
  The loops of the RabbitMQ queue end once the context is done, whatever the broker answers:
  with more turns than calls can be made before that, no loop uses all of them.
\<close>

section \<open>A context that ends\<close>

text \<open>From the \<open>L\<close>-th call on the context reports an error and dialling, which gets that context,
  fails; the topology-loss handler fails too or no other goroutine records a further loss;
  and the two \<open>select\<close> statements find no further returned message and no further delivery.\<close>

definition expires :: "surroundings \<Rightarrow> nat \<Rightarrow> bool" where
  "expires E L \<longleftrightarrow> (\<forall>t. L \<le> length t \<longrightarrow>
       re_ctx E t \<noteq> None \<and> isl (re_new E t Dial)
     \<and> (re_err E t RunHandler \<noteq> None
        \<or> (\<forall>e q. rq_topologyLossGeneration (re_others E (t @ [e]) q) \<le> rq_topologyLossGeneration q))
     \<and> re_pick E t SelConfirm \<notin> {ChReturn, ChReturnsClosed}
     \<and> (\<forall>channel tag body. re_pick E t (SelConsume channel) \<noteq> ChDelivery tag body))"

lemma expiresD:
  assumes "expires E L" "L \<le> length t"
  shows "re_ctx E t \<noteq> None" "isl (re_new E t Dial)"
    "re_err E t RunHandler = None \<Longrightarrow> rq_topologyLossGeneration (re_others E (t @ [e]) q) \<le> rq_topologyLossGeneration q"
    "re_pick E t SelConfirm \<noteq> ChReturn" "re_pick E t SelConfirm \<noteq> ChReturnsClosed"
    "re_pick E t (SelConsume channel) \<noteq> ChDelivery tag body"
  using assms unfolding expires_def by blast+

text \<open>The turns that \<open>d\<close> nested loops need when \<open>k\<close> calls were made already.\<close>

definition enough :: "nat \<Rightarrow> nat \<Rightarrow> nat \<Rightarrow> nat \<Rightarrow> bool" where
  "enough L d n k \<longleftrightarrow> d < n \<and> L + d < k + n"

lemma enough_next: "enough L d (Suc n) k \<Longrightarrow> k < L \<Longrightarrow> enough L d n (Suc k)"
  and enough_inner: "enough L (Suc d) (Suc n) k \<Longrightarrow> enough L d n k"
  and enough_later: "enough L d n k \<Longrightarrow> enough L d n (Suc k)"
  by (auto simp: enough_def)

text \<open>No loop has used all its turns, and at least \<open>k\<close> calls were made.\<close>

definition live :: "nat \<Rightarrow> RabbitMQQueue \<Rightarrow> bool" where
  "live k q \<longleftrightarrow> \<not> rq_stuck q \<and> k \<le> length (rq_trace q)"

lemma live_after: "live k q \<Longrightarrow> live (Suc k) (after E c a q)"
  by (simp add: live_def)

lemma live_less: "live (Suc k) q \<Longrightarrow> live k q"
  by (simp add: live_def)

interpretation live: call_invariant E "live k" for E k
  by unfold_locales (simp_all add: live_def dropSession_def)

lemma live_calls:
  "keeps (live k) (callErr E c)" "keeps (live k) (callNew E c)" "keeps (live k) (checked E c)" "keeps (live k) (pick E sel)"
  "keeps (live k) (callFlag E c)" "keeps (live k) (ctxErr E)" "keeps (live k) (timeNow E)"
proof -
  show err: "keeps (live k) (callErr E c)" for c
    by (simp add: keeps_def callErr_def Let_def live_less [OF live_after])
  show "keeps (live k) (callNew E c)" "keeps (live k) (pick E sel)" "keeps (live k) (callFlag E c)"
    "keeps (live k) (ctxErr E)" "keeps (live k) (timeNow E)"
    by (simp_all add: keeps_def callNew_def pick_def callFlag_def ctxErr_def timeNow_def Let_def live_less [OF live_after])
  show "keeps (live k) (checked E c)" unfolding checked_def by (intro keeps_intros err)
qed

lemma live_modify: "(\<And>q. rq_stuck (f q) = rq_stuck q) \<Longrightarrow> (\<And>q. rq_trace (f q) = rq_trace q) \<Longrightarrow> keeps (live k) (modifyQueue f)"
  by (simp add: keeps_def modifyQueue_def live_def)

lemmas live_intros = keeps_intros live_calls live.waiting_keeps live.closing_keeps live.invalidating_keeps
  live.isConnected_keeps live.operation_keeps live.dial_keeps live.bind_keeps

section \<open>Steps that take time\<close>

text \<open>A result that satisfies \<open>go\<close> is given only before the context ended, and after a call.\<close>

definition advances :: "nat \<Rightarrow> nat \<Rightarrow> ('a \<Rightarrow> bool) \<Rightarrow> 'a rq \<Rightarrow> bool" where
  "advances L k go m \<longleftrightarrow> (\<forall>q x q'. live k q \<longrightarrow> run_state m q = (x, q') \<longrightarrow>
     live k q' \<and> (go x \<longrightarrow> k < L \<and> live (Suc k) q'))"

lemma advances_bind:
  assumes "advances L k go m"
    and "\<And>x. go x \<Longrightarrow> k < L \<Longrightarrow> keeps (live (Suc k)) (f x)"
    and "\<And>x. \<not> go x \<Longrightarrow> keeps (live k) (f x)"
  shows "keeps (live k) (State_Monad.bind m f)"
  unfolding keeps_def
proof (intro allI impI)
  fix q assume q: "live k q"
  obtain x q' where run: "run_state m q = (x, q')" by fastforce
  with q assms(1) have q': "live k q'" "go x \<longrightarrow> k < L \<and> live (Suc k) q'" by (auto simp: advances_def)
  then have "live k (snd (run_state (f x) q'))"
    using assms(2,3) by (cases "go x") (auto simp: keeps_def live_less)
  with run show "live k (snd (run_state (State_Monad.bind m f) q))" by simp
qed

abbreviation isr :: "'a + 'b \<Rightarrow> bool" where
  "isr x \<equiv> \<not> isl x"

lemma advances_andThen:
  assumes "advances L k isr m" "\<And>x. k < L \<Longrightarrow> keeps (live (Suc k)) (f x)"
  shows "keeps (live k) (andThen m f)"
  unfolding andThen_def
  by (rule advances_bind [OF assms(1)]) (auto split: sum.splits intro!: assms(2) keeps_intros)

text \<open>The four calls that the end of the context stops.\<close>

lemma call_advances:
  assumes "\<And>q x. run_state m q = (a q, after E c (b q) q)" "\<And>q. L \<le> length (rq_trace q) \<Longrightarrow> \<not> go (a q)"
  shows "advances L k go m"
  using assms by (auto simp: advances_def live_def) (meson le_trans not_le)

lemma ctx_advances: "expires E L \<Longrightarrow> advances L k (\<lambda>cx. cx = None) (ctxErr E)"
  by (rule call_advances [of _ "\<lambda>q. re_ctx E (rq_trace q)" E ContextErr "\<lambda>q. AnContext (re_ctx E (rq_trace q))"])
    (auto simp: ctxErr_def Let_def expiresD(1))

lemma dial_advances: "expires E L \<Longrightarrow> advances L k isr (dialRabbitMQ E cfg)"
proof -
  assume "expires E L"
  then have "advances L k isr (callNew E Dial)"
    by (intro call_advances [of _ "\<lambda>q. re_new E (rq_trace q) Dial" E Dial "\<lambda>q. AnHandle (re_new E (rq_trace q) Dial)"])
      (auto simp: callNew_def Let_def expiresD(2))
  then show ?thesis
    by (auto simp: dialRabbitMQ_def advances_def throw_def split: option.splits if_splits)
qed

lemma confirm_advances: "expires E L \<Longrightarrow> advances L k (\<lambda>ch. ch = ChReturn \<or> ch = ChReturnsClosed) (pick E SelConfirm)"
  by (rule call_advances [of _ "\<lambda>q. re_pick E (rq_trace q) SelConfirm" E "Select SelConfirm"
        "\<lambda>q. AnChoice (re_pick E (rq_trace q) SelConfirm)"])
    (auto simp: pick_def Let_def expiresD(4,5))

lemma consume_advances: "expires E L \<Longrightarrow> advances L k (\<lambda>ch. \<exists>tag body. ch = ChDelivery tag body) (pick E (SelConsume channel))"
  by (rule call_advances [of _ "\<lambda>q. re_pick E (rq_trace q) (SelConsume channel)" E "Select (SelConsume channel)"
        "\<lambda>q. AnChoice (re_pick E (rq_trace q) (SelConsume channel))"])
    (auto simp: pick_def Let_def expiresD(6))

section \<open>The loops\<close>

lemma recovery_idle:
  "rq_topologyLossGeneration q \<le> rq_recoveredTopologyGeneration q \<Longrightarrow> 0 < n \<Longrightarrow>
   run_state (recoverDetectedTopologyLoss E n) q = (Inr (), q)"
  by (cases n) (simp_all add: readQueue_def succeed_def Let_def)

lemma recovery_live: "expires E L \<Longrightarrow> enough L 1 n k \<Longrightarrow> keeps (live k) (recoverDetectedTopologyLoss E n)"
proof (induction n arbitrary: k)
  case (Suc n)
  show ?case unfolding keeps_def
  proof (intro allI impI)
    fix q assume q: "live k q"
    let ?g = "rq_topologyLossGeneration q"
    let ?a = "re_err E (rq_trace q) RunHandler"
    let ?q1 = "after E RunHandler (AnErr ?a) q"
    let ?q2 = "if ?g > rq_recoveredTopologyGeneration ?q1 then ?q1\<lparr>rq_recoveredTopologyGeneration := ?g\<rparr> else ?q1"
    have q2: "live (Suc k) ?q2" using q by (auto simp: live_def)
    have q1: "live k ?q1" using q by (simp add: live_def)
    have "live k (snd (run_state (recoverDetectedTopologyLoss E n) ?q2))" if "?a = None"
    proof (cases "L \<le> length (rq_trace q)")
      case True
      have "rq_topologyLossGeneration ?q1 \<le> ?g"
        using expiresD(3) [OF Suc.prems(1) True that, of "(RunHandler, AnErr ?a)"
            "q\<lparr>rq_trace := rq_trace q @ [(RunHandler, AnErr ?a)]\<rparr>"]
        by (simp add: after_def Let_def)
      then have "rq_topologyLossGeneration ?q2 \<le> rq_recoveredTopologyGeneration ?q2" by auto
      moreover have "0 < n" using Suc.prems(2) by (simp add: enough_def)
      ultimately show ?thesis using recovery_idle q2 live_less by (metis snd_conv)
    next
      case False
      with q have "k < L" by (simp add: live_def)
      with Suc.IH [OF Suc.prems(1) enough_next [OF Suc.prems(2)]] q2 show ?thesis
        unfolding keeps_def by (blast dest: live_less)
    qed
    then show "live k (snd (run_state (recoverDetectedTopologyLoss E (Suc n)) q))"
      using q q1
      by (cases ?a) (auto simp: readQueue_def succeed_def andThen_def checked_run throw_def modifyQueue_def Let_def)
  qed
qed (simp add: enough_def)

lemma record_live: "expires E L \<Longrightarrow> enough L 1 n k \<Longrightarrow> keeps (live k) (recordTopologyLoss E n)"
  unfolding recordTopologyLoss_def by (intro keeps_bind live_modify recovery_live) simp_all

lemma lock_live: "expires E L \<Longrightarrow> enough L 1 n k \<Longrightarrow> keeps (live k) (acquireTopologyRecoveryLock E cfg n)"
proof (induction n arbitrary: k)
  case (Suc n)
  show ?case unfolding acquireTopologyRecoveryLock.simps
    by (rule advances_andThen [OF dial_advances [OF Suc.prems(1)]])
      (intro live_intros Suc.IH [OF Suc.prems(1) enough_next [OF Suc.prems(2)]])
qed (simp add: enough_def)

lemma restore_live:
  "expires E L \<Longrightarrow> enough L 1 n k \<Longrightarrow> keeps (live k) (restoreLostTopology E cfg n conn)"
  unfolding restoreLostTopology_def declareTopology_def declareDeadLetterTopology_def
  by (intro live_intros record_live)

lemma look_live: "keeps (live k) gone \<Longrightarrow> keeps (live k) (lookThen E cfg conn gone)"
  unfolding lookThen_def declareTopology_def declareDeadLetterTopology_def by (intro live_intros)

lemma repair_live:
  assumes "expires E L" "enough L 1 n k"
  shows "keeps (live k) (repairTopologyOnConnection E cfg n conn)" "keeps (live k) (repairTopology E cfg n)"
  unfolding repairTopology_def repairTopologyOnConnection_def repairTopologyOnConnectionUnbounded_def
  by (intro live_intros look_live lock_live [OF assms] restore_live [OF assms])+

lemma open_live:
  "expires E L \<Longrightarrow> enough L 1 n k \<Longrightarrow> keeps (live k) (openTopologyChannel E cfg n conn)"
  unfolding openTopologyChannel_def by (intro live_intros repair_live)

lemma install_live: "keeps (live k) (installSession E conn channel)"
  unfolding installSession_def by (intro live_intros live_modify) simp_all

lemma connectOnce_live:
  "expires E L \<Longrightarrow> enough L 1 n k \<Longrightarrow> keeps (live k) (connectOnce E cfg n)"
  unfolding connectOnce_def by (intro live_intros open_live install_live)

text \<open>\<open>ensureConnected\<close> succeeds only while the context is not done.\<close>

lemma advances_ctx:
  assumes "expires E L" "k < L \<Longrightarrow> keeps (live (Suc k)) m"
  shows "advances L k isr (do { cx \<leftarrow> ctxErr E; case cx of Some err \<Rightarrow> throw (GoError err) | None \<Rightarrow> m })"
  unfolding advances_def
proof (intro allI impI)
  fix q x q'
  assume q: "live k q" and run: "run_state (do { cx \<leftarrow> ctxErr E; case cx of Some err \<Rightarrow> throw (GoError err) | None \<Rightarrow> m }) q = (x, q')"
  obtain cx q1 where q1: "run_state (ctxErr E) q = (cx, q1)" by fastforce
  with q ctx_advances [OF assms(1), of k] have "live k q1" "cx = None \<longrightarrow> k < L \<and> live (Suc k) q1"
    by (auto simp: advances_def)
  with q1 run assms(2) show "live k q' \<and> (isr x \<longrightarrow> k < L \<and> live (Suc k) q')"
    by (cases cx) (auto simp: throw_def dest: keepsD live_less)
qed

lemma advances_keeps: "advances L k go m \<Longrightarrow> keeps (live k) m"
  unfolding advances_def keeps_def by (metis prod.collapse)

lemma ensure_advances:
  "expires E L \<Longrightarrow> enough L 1 n k \<Longrightarrow> advances L k isr (ensureConnected E cfg n attempt)"
proof (induction n arbitrary: k attempt)
  case (Suc n)
  have rest: "keeps (live (Suc k)) (ensureConnected E cfg n attempt)" if "k < L" for attempt
    using Suc.IH Suc.prems(1) enough_next [OF Suc.prems(2) that] by (blast intro: advances_keeps)
  show ?case unfolding ensureConnected.simps
    by (intro advances_ctx Suc.prems(1) live_intros rest
        connectOnce_live [OF Suc.prems(1) enough_next [OF Suc.prems(2)]])
qed (simp add: enough_def)

lemma ping_live:
  assumes "expires E L" "enough L 1 n k"
  shows "keeps (live k) (rabbit_Ping E cfg n)"
proof -
  note ensure = advances_keeps [OF ensure_advances [OF assms]]
  show ?thesis
    unfolding rabbit_Ping_def pingConnection_def repairAfter_def
    by (intro live_intros ensure repair_live [OF assms] recovery_live [OF assms])
qed

lemma confirmation_live:
  "expires E L \<Longrightarrow> enough L 1 n k \<Longrightarrow> keeps (live k) (waitForPublishConfirmation E n returns returned)"
proof (induction n arbitrary: k returns returned)
  case (Suc n)
  have again: "keeps (live (Suc k)) (waitForPublishConfirmation E n returns returned)" if "k < L" for returns returned
    using Suc.IH Suc.prems(1) enough_next [OF Suc.prems(2) that] by blast
  show ?case unfolding waitForPublishConfirmation.simps
    by (rule advances_bind [OF confirm_advances [OF Suc.prems(1)]])
      (auto split: choice.split option.split intro!: again live_intros)
qed (simp add: enough_def)

lemma publishLoop_live:
  "expires E L \<Longrightarrow> enough L 2 n k \<Longrightarrow> keeps (live k) (rabbitPublishLoop E cfg n job body repaired attempt)"
proof (induction n arbitrary: k repaired attempt)
  case (Suc n)
  have now: "enough L 1 n k" using enough_inner [of L 1 n k] Suc.prems(2) by (simp add: numeral_2_eq_2)
  note later = enough_later [OF now]
  have again: "keeps (live (Suc k)) (rabbitPublishLoop E cfg n job body repaired attempt)" if "k < L" for repaired attempt
    using Suc.IH Suc.prems(1) enough_next [OF Suc.prems(2) that] by blast
  show ?case unfolding rabbitPublishLoop.simps publishOnce_def afterPublishError_def
    by (rule advances_andThen [OF ensure_advances [OF Suc.prems(1) now]])
      (intro live_intros again confirmation_live [OF Suc.prems(1) later] recovery_live [OF Suc.prems(1) later]
        repair_live [OF Suc.prems(1) later])
qed (simp add: enough_def)

lemma publish_live:
  "expires E L \<Longrightarrow> enough L 2 n k \<Longrightarrow> keeps (live k) (rabbit_Publish E cfg n job)"
  unfolding rabbit_Publish_def by (intro live_intros publishLoop_live)

lemma deadLetter_live:
  "expires E L \<Longrightarrow> enough L 1 n k \<Longrightarrow> keeps (live k) (rabbit_deadLetter E cfg n tag)"
  unfolding rabbit_deadLetter_def by (intro live_intros ping_live)

lemma nack_live:
  assumes "expires E L" "enough L 2 n k"
  shows "keeps (live k) (rabbit_Nack E cfg n tag job requeue)"
proof -
  have now: "enough L 1 n k" using assms(2) by (simp add: enough_def)
  show ?thesis unfolding rabbit_Nack_def rabbit_Ack_def
    by (intro live_intros publish_live [OF assms] deadLetter_live [OF assms(1) now])
qed

lemma deliverLoop_live:
  "expires E L \<Longrightarrow> enough L 2 n k \<Longrightarrow> keeps (live k) (deliverLoop E cfg n channel)"
proof (induction n arbitrary: k)
  case (Suc n)
  have now: "enough L 1 n k" using enough_inner [of L 1 n k] Suc.prems(2) by (simp add: numeral_2_eq_2)
  note later = enough_later [OF now]
  have again: "keeps (live (Suc k)) (deliverLoop E cfg n channel)" if "k < L"
    using Suc.IH Suc.prems(1) enough_next [OF Suc.prems(2) that] by blast
  show ?case unfolding deliverLoop.simps
    by (rule advances_bind [OF consume_advances [OF Suc.prems(1)]])
      (auto split: choice.split option.split sum.split
        intro!: again live_intros deadLetter_live [OF Suc.prems(1) later] repair_live [OF Suc.prems(1) now])
qed (simp add: enough_def)

lemma session_live:
  assumes "expires E L" "enough L 2 n k"
  shows "keeps (live k) (consumeSession E cfg n)"
proof -
  have now: "enough L 1 n k" using assms(2) by (simp add: enough_def)
  note ensure = advances_keeps [OF ensure_advances [OF assms(1) now]]
  show ?thesis unfolding consumeSession_def
    by (intro live_intros ensure open_live [OF assms(1) now] deliverLoop_live [OF assms])
qed

lemma consumeLoop_live:
  "expires E L \<Longrightarrow> enough L 3 n k \<Longrightarrow> keeps (live k) (consumeLoop E cfg n attempt)"
proof (induction n arbitrary: k attempt)
  case (Suc n)
  have now: "enough L 2 n k" using enough_inner [of L 2 n k] Suc.prems(2) by (simp add: numeral_eq_Suc)
  have again: "keeps (live (Suc k)) (consumeLoop E cfg n attempt)" if "k < L" for attempt
    using Suc.IH Suc.prems(1) enough_next [OF Suc.prems(2) that] by blast
  show ?case unfolding consumeLoop.simps
    by (intro keeps_bind [OF live_calls(7)] keeps_bind [OF session_live [OF Suc.prems(1) now]]
        advances_bind [OF ctx_advances [OF Suc.prems(1)]])
      (intro live_intros again, assumption, rule keeps_bind [OF keeps_reads(2)], simp add: keeps_return)
qed (simp add: enough_def)

lemma consume_live:
  "expires E L \<Longrightarrow> enough L 3 n k \<Longrightarrow> keeps (live k) (rabbit_Consume E cfg n)"
  unfolding rabbit_Consume_def by (intro live_intros consumeLoop_live)

end
