(* ===== verification/Rabbit_Properties.thy ===== *)
theory Rabbit_Properties
  imports Rabbit_Deliveries Rabbit_Topology Rabbit_Progress
begin

text \<open>
  The properties of the RabbitMQ queue: what a successful \<open>Publish\<close> means, that no delivery is
  lost, the order of a topology recovery, and that the operations end with their context.
\<close>

section \<open>The good case\<close>

text \<open>A session that works: the context is not done, the connection and its channel are open, the
  broker takes a message and confirms it without sending it back, and the other goroutines
  leave the queue alone.\<close>

definition healthy :: "surroundings \<Rightarrow> trace \<Rightarrow> bool" where
  "healthy E t \<longleftrightarrow>
     re_ctx E t = None \<and> (\<forall>c. \<not> re_flag E t c) \<and> (\<forall>q. re_others E t q = q)
   \<and> (\<forall>channel queueName job body. re_err E t (PublishMessage channel queueName job body) = None)
   \<and> re_pick E t SelConfirm = ChConfirm True \<and> re_pick E t SelReturns \<noteq> ChReturn"

lemma healthyD:
  assumes "healthy E t"
  shows "re_ctx E t = None" "\<not> re_flag E t c" "re_others E t q = q"
    "re_err E t (PublishMessage channel queueName job body) = None"
    "re_pick E t SelConfirm = ChConfirm True" "re_pick E t SelReturns \<noteq> ChReturn"
  using assms by (simp_all add: healthy_def)

lemma publish_succeeds:
  assumes E: "\<And>t. length t < length (rq_trace q) + 9 \<Longrightarrow> healthy E t"
    and q: "\<not> rq_closed q" "rq_conn q = Some conn" "rq_channel q = Some channel"
      "rq_topologyLossGeneration q \<le> rq_recoveredTopologyGeneration q"
    and job: "re_Marshal E (publishJobDefaults (re_now E (rq_trace q)) job) = Inr body"
  shows "fst (run_state (rabbit_Publish E cfg (Suc (Suc n)) job) q) = Inr ()"
proof -
  have after: "after E c a q' = q'\<lparr>rq_trace := rq_trace q' @ [(c, a)]\<rparr>"
    if "length (rq_trace q') < length (rq_trace q) + 8" for c a q'
    using E that by (simp add: after_def Let_def healthyD)
  show ?thesis
    using q job
    by (simp add: rabbit_Publish_def timeNow_def Let_def after ctxErr_def andThen_def isConnected_def readQueue_def
        callFlag_def succeed_def wrapErr_def publishSession_def publishOnce_def checked_run pick_def healthyD E)
qed

section \<open>A broker for the examples\<close>

text \<open>A broker that lost its queue: the passive declarations before the \<open>k\<close>-th call find none. All
  else succeeds until the context ends at the 60th call.\<close>

definition broker :: "nat \<Rightarrow> surroundings" where
  "broker k =
     \<lparr>re_err = (\<lambda>t c. case c of
        QueueDeclarePassive _ _ \<Rightarrow> if length t < k then Some (AmqpError 404) else None
      | _ \<Rightarrow> None),
      re_new = (\<lambda>t c. if length t < 60 then Inr (length t) else Inl AmqpClosed),
      re_flag = (\<lambda>t c. False),
      re_ctx = (\<lambda>t. if length t < 60 then None else Some ContextCanceled),
      re_pick = (\<lambda>t sel. case sel of
        SelConfirm \<Rightarrow> ChConfirm True
      | SelReturns \<Rightarrow> ChNothing
      | SelConsume _ \<Rightarrow> ChContext ContextCanceled
      | _ \<Rightarrow> ChReady),
      re_now = (\<lambda>t. 1000), re_draw = (\<lambda>t. 0), re_others = (\<lambda>t q. q),
      re_ParseURI = (\<lambda>url. Some 5672), re_Marshal = (\<lambda>job. Inr (msg_JobID job)),
      re_Unmarshal = (\<lambda>body. Inl ''no json'')\<rparr>"

definition demo_rabbit_config :: rabbit_config where
  "demo_rabbit_config =
     \<lparr>rc_url = ''amqp://b'', rc_queueName = ''q'', rc_dlqName = ''d'', rc_prefetch = 1, rc_maxAttempts = 3,
      rc_connectTimeout = 5, rc_publishTimeout = 10, rc_reconnectInitial = 1, rc_reconnectMax = 30\<rparr>"

definition demo_rabbit :: RabbitMQQueue where
  "demo_rabbit =
     \<lparr>rq_conn = Some 1, rq_channel = Some 2, rq_closed = False, rq_topologyLossGeneration = 0,
      rq_recoveredTopologyGeneration = 0, rq_handler = True, rq_trace = [], rq_stuck = False\<rparr>"

definition demo_job :: CheckJobMessage where
  "demo_job = \<lparr>msg_JobID = ''j'', msg_MonitorID = ''m'', msg_Attempt = 1, msg_EnqueuedAt = 5\<rparr>"

lemma broker_simps [simp]:
  "re_others (broker k) = (\<lambda>t q. q)" "re_Marshal (broker k) job = Inr (msg_JobID job)"
  by (simp_all add: broker_def)

lemma broker_healthy: "length t < 60 \<Longrightarrow> healthy (broker k) t"
  by (simp add: healthy_def broker_def)

lemma broker_steady: "steady (broker k)"
  by (simp add: steady_def)

lemma broker_expires: "expires (broker k) 60"
  by (auto simp: expires_def broker_def)

lemma demo_publishes:
  "fst (run_state (rabbit_Publish (broker 0) demo_rabbit_config 3 job) demo_rabbit) = Inr ()"
proof -
  have three: "3 = Suc (Suc 1)" by simp
  show ?thesis unfolding three
    by (rule publish_succeeds [where conn = 1 and channel = 2]) (auto simp: demo_rabbit_def broker_healthy)
qed

section \<open>Properties\<close>

text \<open>
  C6. When \<open>Publish\<close> of the RabbitMQ queue returns nil, the last thing it did was to send the
  message, with its defaults filled in and encoded, to the configured queue and to read a
  positive confirmation of it from the broker, with no return of that message read before it,
  nor in the look at the returns after it; no delivery was touched. This holds whatever the
  broker and the other goroutines do, through reconnections and repairs of the topology.\<close>

theorem rabbit_publish_confirmed:
  assumes "run_state (rabbit_Publish E cfg n job) q = (Inr (), q')"
  shows "\<exists>now body. re_Marshal E (publishJobDefaults now job) = Inr body
    \<and> published (rc_queueName cfg) (publishJobDefaults now job) body (rq_trace q) (rq_trace q')
    \<and> extends_quietly (rq_trace q) q'"
  using Publish_published [OF assms] keepsD [OF quiet.Publish_keeps extends_self assms] by blast

theorem rabbit_publish_confirmed_witness:
  "\<exists>now body q'. re_Marshal (broker 0) (publishJobDefaults now demo_job) = Inr body
    \<and> published ''q'' (publishJobDefaults now demo_job) body [] (rq_trace q')
    \<and> extends_quietly [] q'"
proof -
  obtain q' where "run_state (rabbit_Publish (broker 0) demo_rabbit_config 3 demo_job) demo_rabbit = (Inr (), q')"
    using demo_publishes [of demo_job] by (metis prod.collapse)
  from rabbit_publish_confirmed [OF this] show ?thesis
    by (auto simp: demo_rabbit_config_def demo_rabbit_def)
qed

text \<open>
  C7. RabbitMQ deliveries are not lost, whatever the broker answers. The consumer holds at most
  one message at a time, and each message it takes is handed to a worker or negatively
  acknowledged before it takes another or returns; it acknowledges none. A worker's \<open>Nack\<close>
  makes exactly one settling call, its last call: the message goes back to the queue, or it is
  acknowledged after its successor with the next attempt number was published and
  confirmed, or, only when no attempt is left or no requeue was asked for, it is dead-lettered
  after a check that the dead-letter topology is in place.\<close>

theorem rabbit_loses_no_delivery:
  "(\<exists>w. rq_trace (snd (run_state (rabbit_Consume E cfg n) q)) = rq_trace q @ w \<and> balanced None w)
   \<and> (\<exists>w c a. rq_trace (snd (run_state (rabbit_Nack E cfg n tag job requeue) q)) = rq_trace q @ w @ [(c, a)]
        \<and> list_all (\<lambda>(c, _). \<not> delivery_call c) w \<and> kept E cfg n tag job requeue q w c)"
proof
  show "\<exists>w. rq_trace (snd (run_state (rabbit_Consume E cfg n) q)) = rq_trace q @ w \<and> balanced None w"
    using yields_Consume [of E cfg n] unfolding yields_def by (rule spec)
  show "\<exists>w c a. rq_trace (snd (run_state (rabbit_Nack E cfg n tag job requeue) q)) = rq_trace q @ w @ [(c, a)]
      \<and> list_all (\<lambda>(c, _). \<not> delivery_call c) w \<and> kept E cfg n tag job requeue q w c"
    by (rule Nack_keeps_message [OF prod.collapse [symmetric]])
qed

text \<open>
  C8. The order of recovery after RabbitMQ lost its queue. Once a passive declaration reported the
  queue missing, no operation declares it again before another look found it present or the
  handler that puts the jobs with lost messages back into the schedule has succeeded, so that
  no restart of the queue strands a job. It holds for publishing, pinging, settling and
  consuming, with other goroutines that may record and recover losses meanwhile.\<close>

theorem rabbit_restores_topology_after_recovery:
  assumes "steady E" "topology_safe cfg q"
  shows "topology_safe cfg (snd (run_state (rabbit_Publish E cfg n job) q))
   \<and> topology_safe cfg (snd (run_state (rabbit_Ping E cfg n) q))
   \<and> topology_safe cfg (snd (run_state (rabbit_Nack E cfg n tag job requeue) q))
   \<and> topology_safe cfg (snd (run_state (rabbit_Consume E cfg n) q))"
proof -
  note keep = topology_invariant [OF assms(1), of cfg]
  note queue = settling_invariant.axioms(1) [OF keep]
  have "topology_safe cfg (snd (run_state (rabbit_Publish E cfg n job) q))"
    using queue_invariant.Publish_keeps [OF queue] assms(2) by (simp add: keeps_def)
  moreover have "topology_safe cfg (snd (run_state (rabbit_Ping E cfg n) q))"
    using queue_invariant.Ping_keeps [OF queue] assms(2) by (simp add: keeps_def)
  moreover have "topology_safe cfg (snd (run_state (rabbit_Nack E cfg n tag job requeue) q))"
    using settling_invariant.Nack_keeps [OF keep] assms(2) by (simp add: keeps_def)
  moreover have "topology_safe cfg (snd (run_state (rabbit_Consume E cfg n) q))"
    using settling_invariant.Consume_keeps [OF keep] assms(2) by (simp add: keeps_def)
  ultimately show ?thesis by blast
qed

theorem rabbit_restores_topology_after_recovery_witness:
  "topology_safe demo_rabbit_config (snd (run_state (rabbit_Publish (broker 14) demo_rabbit_config 9 demo_job) demo_rabbit))
   \<and> topology_safe demo_rabbit_config (snd (run_state (rabbit_Ping (broker 14) demo_rabbit_config 9) demo_rabbit))"
  using rabbit_restores_topology_after_recovery [OF broker_steady, of demo_rabbit_config demo_rabbit 14 9 demo_job]
  by (simp add: topology_safe_def demo_rabbit_def)



section \<open>Write deadlines\<close>

text \<open>Once the connection is established each write has a deadline, at most the write timeout away;
  during the handshake the deadline of the dialler holds, at most the connect timeout away.\<close>

lemma write_deadline_bounded:
  assumes "dc_established c" "\<not> IsZero (now + dc_writeTimeout c)"
  shows "\<exists>d. deadlineWrite now c = Some d \<and> d \<le> now + dc_writeTimeout c"
  using assms by (auto simp: deadlineWrite_def Let_def Before_def)

lemma handshake_deadline_bounded:
  "dialDeadline now connectTimeout ctxDeadline \<le> now + connectTimeout"
  "ctxDeadline = Some d \<Longrightarrow> dialDeadline now connectTimeout ctxDeadline \<le> d"
  by (auto simp: dialDeadline_def Let_def Before_def split: option.split)

end
