(* ===== verification/Production.thy ===== *)
theory Production
  imports Rabbit_Properties Pg_Properties
begin

text \<open>
  The production composition: the scheduler and the worker over the RabbitMQ queue, the latter
  with the PostgreSQL repository. A job is marked as queued only for a message the broker
  confirmed, and a message leaves the broker only for a reason the database gives.
\<close>

section \<open>The RabbitMQ queue as a job queue\<close>

text \<open>Callers only look whether an error came back, or log it.\<close>

definition rabbitCall :: "unit rqe \<Rightarrow> RabbitMQQueue \<Rightarrow> RabbitMQQueue \<times> go_error option" where
  "rabbitCall m q =
     (case run_state m q of
        (Inl (GoError err), q) \<Rightarrow> (q, Some err)
      | (Inl _, q) \<Rightarrow> (q, Some (ErrOther ''rabbitmq''))
      | (Inr _, q) \<Rightarrow> (q, None))"

definition rabbitJobQueue :: "surroundings \<Rightarrow> rabbit_config \<Rightarrow> nat \<Rightarrow> RabbitMQQueue JobQueue" where
  "rabbitJobQueue E cfg n =
     \<lparr>jq_Ping = (\<lambda>c. rabbitCall (rabbit_Ping E cfg n)),
      jq_Publish = (\<lambda>c job. rabbitCall (rabbit_Publish E cfg n job))\<rparr>"

definition rabbitDelivery ::
  "surroundings \<Rightarrow> rabbit_config \<Rightarrow> nat \<Rightarrow> nat \<Rightarrow> CheckJobMessage \<Rightarrow> RabbitMQQueue QueueDelivery" where
  "rabbitDelivery E cfg n tag job =
     \<lparr>dl_Job = job, dl_Retryable = (msg_Attempt job < rc_maxAttempts cfg),
      dl_Ack = (\<lambda>ctx. rabbitCall (rabbit_Ack E tag)),
      dl_Nack = (\<lambda>ctx requeue. rabbitCall (rabbit_Nack E cfg n tag job requeue)),
      dl_Requeue = Some (\<lambda>ctx. rabbitCall (rabbit_Requeue E tag))\<rparr>"

lemma rabbitCall_queue: "fst (rabbitCall m q) = snd (run_state m q)"
  by (auto simp: rabbitCall_def split: prod.split sum.split rabbit_error.split)

lemma rabbitCall_nil: "snd (rabbitCall m q) = None \<Longrightarrow> run_state m q = (Inr (), fst (rabbitCall m q))"
  by (auto simp: rabbitCall_def split: prod.splits sum.splits rabbit_error.splits)

section \<open>The scheduler\<close>

text \<open>A message for \<open>job\<close>, with the attempt the job needs next, was confirmed between two traces.\<close>

definition confirmed :: "rabbit_config \<Rightarrow> CheckJobMessage \<Rightarrow> trace \<Rightarrow> trace \<Rightarrow> bool" where
  "confirmed cfg message t t' \<longleftrightarrow>
     (\<exists>now body t1 rest. t' = t1 @ rest
        \<and> published (rc_queueName cfg) (publishJobDefaults now message) body t t1)"

lemma confirmed_extend: "confirmed cfg message (t @ u) t' \<Longrightarrow> confirmed cfg message t t'"
  unfolding confirmed_def by (blast intro: published_earlier)

lemma confirmed_more: "confirmed cfg message t t' \<Longrightarrow> confirmed cfg message t (t' @ u)"
  unfolding confirmed_def by (metis append.assoc)

lemma Publish_extends: "\<exists>u. rq_trace (snd (run_state (rabbit_Publish E cfg n job) q)) = rq_trace q @ u"
  by (rule keeps_grows) (rule trace_grows)

lemma publishJob_rabbit:
  assumes "publishJob R (rabbitJobQueue E cfg n) c job sc = (err, sc')"
  shows "\<exists>u. rq_trace (sc_queue sc') = rq_trace (sc_queue sc) @ u"
    and "err = None \<Longrightarrow> confirmed cfg (jobMessage c job) (rq_trace (sc_queue sc)) (rq_trace (sc_queue sc'))"
proof -
  let ?p = "rabbitCall (rabbit_Publish E cfg n (jobMessage c job)) (sc_queue sc)"
  have q: "sc_queue sc' = fst ?p" and err: "err = snd ?p"
    using assms by (auto simp: publishJob_def rabbitJobQueue_def Let_def split: prod.splits option.splits)
  show "\<exists>u. rq_trace (sc_queue sc') = rq_trace (sc_queue sc) @ u"
    using Publish_extends by (simp add: q rabbitCall_queue)
  assume "err = None"
  with err q have "run_state (rabbit_Publish E cfg n (jobMessage c job)) (sc_queue sc) = (Inr (), sc_queue sc')"
    using rabbitCall_nil by metis
  from Publish_published [OF this] show "confirmed cfg (jobMessage c job) (rq_trace (sc_queue sc)) (rq_trace (sc_queue sc'))"
    unfolding confirmed_def by (metis append_Nil2)
qed

lemma publishLoop_rabbit:
  assumes "publishLoop R (rabbitJobQueue E cfg n) calls k jobs sc = (out, sc')"
  shows "(\<exists>u. rq_trace (sc_queue sc') = rq_trace (sc_queue sc) @ u)
    \<and> (\<forall>i < length out. snd (out ! i) = None \<longrightarrow>
         confirmed cfg (jobMessage (calls (k + i)) (fst (out ! i))) (rq_trace (sc_queue sc)) (rq_trace (sc_queue sc')))"
  using assms
proof (induction jobs arbitrary: k sc out)
  case (Cons job jobs)
  obtain err sc1 where p: "publishJob R (rabbitJobQueue E cfg n) (calls k) job sc = (err, sc1)" by fastforce
  obtain out1 where l: "publishLoop R (rabbitJobQueue E cfg n) calls (Suc k) jobs sc1 = (out1, sc')"
    and out: "out = (job, err) # out1"
    using Cons.prems p by (auto simp: split: prod.splits)
  note pj = publishJob_rabbit [OF p] and ih = Cons.IH [OF l]
  from pj(1) obtain u where u: "rq_trace (sc_queue sc1) = rq_trace (sc_queue sc) @ u" by blast
  from ih obtain v where v: "rq_trace (sc_queue sc') = rq_trace (sc_queue sc1) @ v" by blast
  have "confirmed cfg (jobMessage (calls (k + i)) (fst (out ! i))) (rq_trace (sc_queue sc)) (rq_trace (sc_queue sc'))"
    if i: "i < length out" "snd (out ! i) = None" for i
  proof (cases i)
    case 0
    with i out pj(2) have "confirmed cfg (jobMessage (calls k) job) (rq_trace (sc_queue sc)) (rq_trace (sc_queue sc1))"
      by simp
    with 0 out v show ?thesis by (simp add: confirmed_more)
  next
    case (Suc j)
    with i out ih have
      "confirmed cfg (jobMessage (calls (Suc k + j)) (fst (out1 ! j))) (rq_trace (sc_queue sc1)) (rq_trace (sc_queue sc'))"
      by auto
    with Suc out u show ?thesis by (simp add: confirmed_extend)
  qed
  with u v show ?case by auto
qed simp


definition rabbit_scheduler :: "(MonitorStore, RabbitMQQueue) scheduler" where
  "rabbit_scheduler = \<lparr>sc_service = sc_service demo_scheduler, sc_queue = demo_rabbit\<rparr>"

lemma rabbit_round:
  "\<exists>sc'. enqueueDueMonitorJobs InMemoryMonitorRepository (rabbitJobQueue (broker 0) demo_rabbit_config 3)
      (call_at 200) (\<lambda>_. call_at 300) 10 1000 3 rabbit_scheduler = ([(demo_j2, None)], sc')"
proof -
  have "repo_ClaimDueJobs InMemoryMonitorRepository (call_at 200) 10 1000 3 demo_s1 = (Inr [demo_j2], demo_s2)"
    by (simp add: InMemoryMonitorRepository_def call_at_def demo_call_def demo_claimed demo_s2_eq)
  moreover have "\<exists>q. rabbitCall (rabbit_Publish (broker 0) demo_rabbit_config 3 job) demo_rabbit = (q, None)" for job
    using demo_publishes [of job] by (auto simp: rabbitCall_def split: prod.splits)
  then obtain q where "rabbitCall (rabbit_Publish (broker 0) demo_rabbit_config 3 (jobMessage (call_at 300) demo_j2)) demo_rabbit = (q, None)"
    by blast
  ultimately show ?thesis
    by (simp add: enqueueDueMonitorJobs_def Service_ClaimDueJobs_def rabbit_scheduler_def demo_scheduler_def publishJob_def
        rabbitJobQueue_def Let_def)
qed


section \<open>The worker\<close>

text \<open>\<open>acts d ctx w w'\<close>: the queue was changed by at most one call on the delivery, which is noted.\<close>

definition acts :: "'q QueueDelivery \<Rightarrow> ctx_err \<Rightarrow> ('s, 'q) worker \<Rightarrow> ('s, 'q) worker \<Rightarrow> bool" where
  "acts d ctx w w' \<longleftrightarrow>
     wk_settled w' = wk_settled w \<and> wk_queue w' = wk_queue w
   \<or> wk_settled w' = wk_settled w @ [Acked] \<and> wk_queue w' = fst (dl_Ack d ctx (wk_queue w))
   \<or> wk_settled w' = wk_settled w @ [Nacked False] \<and> wk_queue w' = fst (dl_Nack d ctx False (wk_queue w))
   \<or> wk_settled w' = wk_settled w @ [Requeued] \<and> wk_queue w' = fst (the (dl_Requeue d) ctx (wk_queue w))"

lemma calls_act:
  "acts d ctx w (snd (callAck ctx d w))" "acts d ctx w (snd (callNack ctx False d w))"
  "dl_Requeue d \<noteq> None \<Longrightarrow> acts d ctx w (snd (callRequeue ctx d w))"
  by (auto simp: acts_def callAck_def callNack_def callRequeue_def split: prod.splits)

lemma resetBackoff_frame [simp]:
  "wk_settled (resetBackoff w) = wk_settled w" "wk_queue (resetBackoff w) = wk_queue w"
  by (simp_all add: resetBackoff_def)

lemma requeue_acts:
  assumes "dl_Requeue d \<noteq> None" "requeueInfrastructureFailure h d cause wid op w = (err, w')"
  shows "acts d (hd_ctx h) w w'"
proof -
  obtain delay b where n: "NextDelay (msg_JobID (dl_Job d)) wid (wk_backoff w) = (delay, b)" by fastforce
  obtain e w1 where c: "callRequeue (hd_ctx h) d (w\<lparr>wk_backoff := b\<rparr>) = (e, w1)" by fastforce
  have "acts d (hd_ctx h) w w1"
    using calls_act(3) [OF assms(1), of "hd_ctx h" "w\<lparr>wk_backoff := b\<rparr>"] c by (simp add: acts_def)
  moreover have "acts d (hd_ctx h) w (w\<lparr>wk_backoff := b\<rparr>)" by (simp add: acts_def)
  ultimately show ?thesis
    using assms(2) by (auto simp: requeueInfrastructureFailure_def n c Let_def acts_def split: if_splits option.splits)
qed

lemma storeFailure_acts:
  assumes "handleStoreFailure R h d lease w = Some (err, w')"
  shows "acts d (hd_ctx h) w w'"
proof -
  have base: "acts d (hd_ctx h) w w1" if "acts d (hd_ctx h) (w\<lparr>wk_service := st, wk_decided := t\<rparr>) w1" for st t w1
    using that by (simp add: acts_def)
  have same: "acts d (hd_ctx h) w (w\<lparr>wk_service := st, wk_decided := t\<rparr>)" for st t by (simp add: acts_def)
  have ack: "acts d (hd_ctx h) w w1" if "callAck (hd_ctx h) d (w\<lparr>wk_service := st, wk_decided := t\<rparr>) = (e, w1)" for st t e w1
    using base calls_act(1) that by (metis snd_conv)
  have nack: "acts d (hd_ctx h) w w1" if "callNack (hd_ctx h) False d (w\<lparr>wk_service := st, wk_decided := t\<rparr>) = (e, w1)" for st t e w1
    using base calls_act(2) that by (metis snd_conv)
  show ?thesis
    using assms unfolding handleStoreFailure_def Let_def
    by (auto simp: ackInactiveJob_def same split: option.splits prod.splits if_splits dest: ack nack
        intro!: base [OF calls_act(1)])
qed

lemma leased_acts:
  assumes "handleLeasedJob R policy quote cfg h d monitor lease w = Some (err, w')"
  shows "acts d (hd_ctx h) w w'"
proof -
  have base: "acts d (hd_ctx h) w w1" if "acts d (hd_ctx h) (w\<lparr>wk_service := st\<rparr>) w1" for st w1
    using that by (simp add: acts_def)
  have ack: "acts d (hd_ctx h) w (snd (callAck (hd_ctx h) d (w\<lparr>wk_service := st, wk_decided := t\<rparr>)))" for st t
    using calls_act(1) [of d "hd_ctx h" "w\<lparr>wk_service := st, wk_decided := t\<rparr>"] by (simp add: acts_def)
  show ?thesis
    using assms unfolding handleLeasedJob_def Let_def
    by (auto simp: ack split: option.splits prod.splits dest!: storeFailure_acts intro: base)
qed

lemma handler_acts:
  assumes "dl_Requeue d \<noteq> None"
    and "handleQueueDeliveryWithBackoff R policy quote cfg wid lt h d w = Some (err, w')"
  shows "acts d (hd_ctx h) w w'"
proof -
  have base: "acts d (hd_ctx h) w w1" if "acts d (hd_ctx h) w2 w1" "wk_settled w2 = wk_settled w" "wk_queue w2 = wk_queue w" for w1 w2
    using that by (simp add: acts_def)
  have ack: "acts d (hd_ctx h) w (snd (callAck (hd_ctx h) d (resetBackoff (w\<lparr>wk_service := st\<rparr>))))" for st
    using calls_act(1) by (rule base) simp_all
  show ?thesis
    using assms(2) unfolding handleQueueDeliveryWithBackoff_def Let_def
    by (auto simp: ack split: option.splits prod.splits sum.splits if_splits
        dest!: leased_acts requeue_acts [OF assms(1)] intro: base)
qed

text \<open>Each of the three calls on a RabbitMQ delivery settles it, with its last call.\<close>

lemma rabbit_Ack_trace:
  "\<exists>a. rq_trace (snd (run_state (rabbit_Ack E tag) q)) = rq_trace q @ [(AckDelivery tag, a)]"
  "\<exists>a. rq_trace (snd (run_state (rabbit_Requeue E tag) q)) = rq_trace q @ [(NackDelivery tag True, a)]"
  by (simp_all add: rabbit_Ack_def rabbit_Requeue_def checked_run Let_def)

lemma rabbit_Nack_trace:
  "\<exists>u requeue a. rq_trace (snd (run_state (rabbit_Nack E cfg n tag job False) q))
     = rq_trace q @ u @ [(NackDelivery tag requeue, a)] \<and> list_all (\<lambda>(c, _). \<not> delivery_call c) u"
  using deadLetter_settles [OF prod.collapse [symmetric], of E cfg n tag q] by (auto simp: rabbit_Nack_def)

text \<open>
  C10. The worker with PostgreSQL and RabbitMQ: statements and commits may fail in any way, other
  processes may change the database before each call, and the broker may answer anything. A
  handler that returns without an error made no call on the broker at all, or its last call
  was the only one that settles a delivery, and it settled its own: the message went back
  to the queue; or it was acknowledged, and then the database has the result, or the lease of
  the job is no longer live, or the job does not wait for this attempt; or it was dead-lettered, and
  then the lease is no longer live.\<close>

theorem production_worker_settles:
  assumes "handleQueueDeliveryWithBackoff (PostgresMonitorRepository D net) policy quote wcfg wid lt h
             (rabbitDelivery E cfg n tag job) w = Some (None, w')"
    and "handling_ok db_ok h" and "db_ok (svc_store (wk_service w))"
    and "wk_settled w = []" and "wk_lease w = None"
  shows "wk_queue w' = wk_queue w
    \<or> (\<exists>u c a. rq_trace (wk_queue w') = rq_trace (wk_queue w) @ u @ [(c, a)]
         \<and> list_all (\<lambda>(c, _). \<not> delivery_call c) u
         \<and> (c = NackDelivery tag True
           \<or> c = AckDelivery tag \<and> settlement_ok pg_live pg_recorded pg_waiting job Acked w'
           \<or> c = NackDelivery tag False \<and> settlement_ok pg_live pg_recorded pg_waiting job (Nacked False) w'))"
proof -
  let ?d = "rabbitDelivery E cfg n tag job"
  have acts: "acts ?d (hd_ctx h) w w'" by (rule handler_acts [OF _ assms(1)]) (simp add: rabbitDelivery_def)
  have ok: "settlement_ok pg_live pg_recorded pg_waiting job x w'" if "wk_settled w' = [x]" for x
    using pg_leases.handler_settles [OF assms] that by (auto simp: rabbitDelivery_def)
  note calls = rabbitDelivery_def rabbitCall_queue assms(4)
  from acts consider
      "wk_queue w' = wk_queue w"
    | "wk_settled w' = [Acked]" "wk_queue w' = snd (run_state (rabbit_Ack E tag) (wk_queue w))"
    | "wk_settled w' = [Nacked False]" "wk_queue w' = snd (run_state (rabbit_Nack E cfg n tag job False) (wk_queue w))"
    | "wk_queue w' = snd (run_state (rabbit_Requeue E tag) (wk_queue w))"
    unfolding acts_def by (auto simp: calls)
  then show ?thesis
  proof cases
    case 2
    obtain a where "rq_trace (wk_queue w') = rq_trace (wk_queue w) @ [] @ [(AckDelivery tag, a)]"
      using rabbit_Ack_trace(1) 2(2) by fastforce
    with ok [OF 2(1)] show ?thesis
      by (intro disjI2 exI [of _ "[]"] exI [of _ "AckDelivery tag"] exI [of _ a]) simp
  next
    case 3
    obtain u requeue a where "rq_trace (wk_queue w') = rq_trace (wk_queue w) @ u @ [(NackDelivery tag requeue, a)]"
      "list_all (\<lambda>(c, _). \<not> delivery_call c) u"
      using rabbit_Nack_trace 3(2) by fastforce
    then show ?thesis using ok [OF 3(1)] by (cases requeue) blast+
  next
    case 4
    obtain a where "rq_trace (wk_queue w') = rq_trace (wk_queue w) @ [] @ [(NackDelivery tag True, a)]"
      using rabbit_Ack_trace(2) 4 by fastforce
    then show ?thesis
      by (intro disjI2 exI [of _ "[]"] exI [of _ "NackDelivery tag True"] exI [of _ a]) simp
  qed simp
qed

text \<open>A second delivery of the job that is being processed.\<close>

definition second_delivery :: "RabbitMQQueue QueueDelivery" where
  "second_delivery = rabbitDelivery (broker 0) demo_rabbit_config 3 7 (dl_Job pg_delivery)"

definition rabbit_worker :: "(db, RabbitMQQueue) worker" where
  "rabbit_worker = \<lparr>wk_service = wk_service pg_worker, wk_queue = demo_rabbit, wk_backoff = \<lparr>failures = 0\<rparr>,
     wk_settled = [], wk_lease = None, wk_decided = 0\<rparr>"

lemma rabbit_second_delivery:
  obtains w' where "handleQueueDeliveryWithBackoff (PostgresMonitorRepository pg_env_ok demo_policy) pg_alerts (\<lambda>s. s)
      demo_config 1 Minute pg_handling second_delivery rabbit_worker = Some (None, w')"
    "wk_queue w' = snd (run_state (rabbit_Ack (broker 0) 7) demo_rabbit)"
  by (rule that [of "snd (the (handleQueueDeliveryWithBackoff (PostgresMonitorRepository pg_env_ok demo_policy) pg_alerts (\<lambda>s. s)
      demo_config 1 Minute pg_handling second_delivery rabbit_worker))"])
    (simp_all add: handleQueueDeliveryWithBackoff_def pg_handling_def pg_point_def second_delivery_def rabbit_worker_def
      pg_delivery_def pg_worker_def memoryDelivery_def rabbitDelivery_def interfere_def Service_Get_def MarkProcessing_def
      PostgresMonitorRepository_def pg_env_ok_def pg_second_calls Let_def callAck_def case_prod_beta resetBackoff_def
      rabbitCall_queue)

theorem production_worker_settles_witness:
  "\<exists>w' u a. handleQueueDeliveryWithBackoff (PostgresMonitorRepository pg_env_ok demo_policy) pg_alerts (\<lambda>s. s)
      demo_config 1 Minute pg_handling second_delivery rabbit_worker = Some (None, w')
    \<and> rq_trace (wk_queue w') = u @ [(AckDelivery 7, a)]
    \<and> settlement_ok pg_live pg_recorded pg_waiting (dl_Job pg_delivery) Acked w'"
proof -
  let ?run = "handleQueueDeliveryWithBackoff (PostgresMonitorRepository pg_env_ok demo_policy) pg_alerts (\<lambda>s. s)
      demo_config 1 Minute pg_handling second_delivery rabbit_worker"
  obtain w' where run: "?run = Some (None, w')" and q: "wk_queue w' = snd (run_state (rabbit_Ack (broker 0) 7) demo_rabbit)"
    by (rule rabbit_second_delivery)
  have "handling_ok db_ok pg_handling" by (simp add: handling_ok_def point_ok_def pg_handling_def pg_point_def)
  moreover have "db_ok (svc_store (wk_service rabbit_worker))" "wk_settled rabbit_worker = []" "wk_lease rabbit_worker = None"
    by (simp_all add: rabbit_worker_def pg_worker_def pg_d4_ok)
  ultimately have "wk_queue w' = demo_rabbit
    \<or> (\<exists>u c a. rq_trace (wk_queue w') = rq_trace demo_rabbit @ u @ [(c, a)] \<and> list_all (\<lambda>(c, _). \<not> delivery_call c) u
         \<and> (c = NackDelivery 7 True
           \<or> c = AckDelivery 7 \<and> settlement_ok pg_live pg_recorded pg_waiting (dl_Job pg_delivery) Acked w'
           \<or> c = NackDelivery 7 False \<and> settlement_ok pg_live pg_recorded pg_waiting (dl_Job pg_delivery) (Nacked False) w'))"
    using production_worker_settles [OF run [unfolded second_delivery_def]] by (simp add: rabbit_worker_def)
  moreover obtain a where "rq_trace (wk_queue w') = rq_trace demo_rabbit @ [(AckDelivery 7, a)]"
    using rabbit_Ack_trace(1) q by metis
  ultimately show ?thesis using run by (auto simp: demo_rabbit_def)
qed

end
