(* ===== verification/Http_Clients.thy ===== *)
theory Http_Clients
  imports Alert
begin

text \<open>
  The HTTP clients of the program: their construction in \<open>security.go\<close> and \<open>alert.go\<close>, what they
  do with redirects, and the worker of \<open>checker.go\<close> that reads jobs from a channel. Of the
  transport the fields that depend on the program are kept; its dialler and its choice of a
  proxy are those of the policy (\<open>DialContext\<close>, \<open>Proxy\<close>).
\<close>

section \<open>Clients\<close>

record http_transport =
  tr_policy :: NetworkPolicy
  tr_MaxIdleConnsPerHost :: int
  tr_MaxResponseHeaderBytes :: int

text \<open>What follows a redirect: the policy, nobody (\<open>http.ErrUseLastResponse\<close>), or the default of the
  library.\<close>

datatype redirect_rule = PolicyRedirects NetworkPolicy | UseLastResponse | DefaultRedirects

record http_client =
  hc_transport :: "http_transport option"
  hc_redirects :: redirect_rule
  hc_Timeout :: duration

definition NewSecureTransport :: "Config \<Rightarrow> NetworkPolicy \<Rightarrow> http_transport" where
  "NewSecureTransport cfg policy =
     \<lparr>tr_policy = policy, tr_MaxIdleConnsPerHost = wrap64 (cfg_WorkerCount cfg + 2),
      tr_MaxResponseHeaderBytes = cfg_MaxHeaderBytes cfg\<rparr>"

definition NewCheckHTTPClient :: "Config \<Rightarrow> NetworkPolicy \<Rightarrow> http_client" where
  "NewCheckHTTPClient cfg policy =
     \<lparr>hc_transport = Some (NewSecureTransport cfg policy), hc_redirects = PolicyRedirects policy, hc_Timeout = 0\<rparr>"

definition DefaultClient :: http_client where
  "DefaultClient = \<lparr>hc_transport = None, hc_redirects = DefaultRedirects, hc_Timeout = 0\<rparr>"

definition NewAlertSender :: "string \<Rightarrow> string \<Rightarrow> http_client option \<Rightarrow> AlertSender \<times> http_client" where
  "NewAlertSender webhookURL userAgent client =
     (let client = (case client of None \<Rightarrow> DefaultClient | Some c \<Rightarrow> c)
      in (\<lparr>as_webhookURL = webhookURL, as_userAgent = userAgent\<rparr>, client\<lparr>hc_redirects := UseLastResponse\<rparr>))"

text \<open>The requests a client makes after its first one, when the server answers with the given
  redirect targets in turn.\<close>

definition redirectedRequests :: "(string \<Rightarrow> addr option) \<Rightarrow> http_client \<Rightarrow> request list \<Rightarrow> request list option" where
  "redirectedRequests PA client targets =
     (case hc_redirects client of
        PolicyRedirects policy \<Rightarrow> Some (fst (followRedirects PA policy 1 targets))
      | UseLastResponse \<Rightarrow> Some []
      | DefaultRedirects \<Rightarrow> None)"

text \<open>The body of an alert, with its idempotency key, is sent to the configured webhook only, and a
  check only ever asks URLs that the policy admits.\<close>

theorem clients_confined:
  "redirectedRequests PA (snd (NewAlertSender url agent client)) targets = Some []"
  "redirectedRequests PA (NewCheckHTTPClient cfg policy) targets = Some rs \<Longrightarrow> r \<in> set rs \<Longrightarrow>
     req_Referer r = None \<and> ValidateParsedURL PA policy (req_URL r) = None"
  "hc_transport (snd (NewAlertSender url agent (Some c))) = hc_transport c"
proof -
  show "redirectedRequests PA (snd (NewAlertSender url agent client)) targets = Some []"
    "hc_transport (snd (NewAlertSender url agent (Some c))) = hc_transport c"
    by (simp_all add: redirectedRequests_def NewAlertSender_def Let_def)
  assume "redirectedRequests PA (NewCheckHTTPClient cfg policy) targets = Some rs" "r \<in> set rs"
  moreover obtain err where "followRedirects PA policy 1 targets = (fst (followRedirects PA policy 1 targets), err)"
    by (metis prod.collapse)
  ultimately show "req_Referer r = None \<and> ValidateParsedURL PA policy (req_URL r) = None"
    using followRedirects_ok by (auto simp: redirectedRequests_def NewCheckHTTPClient_def)
qed

section \<open>The channel worker\<close>

text \<open>\<open>RunWorker\<close> of \<open>checker.go\<close> along the jobs it receives; with each the probe it makes and whether the
  result could be sent before the context was done.\<close>

fun RunWorker :: "Config \<Rightarrow> (CheckJob_task \<times> probe \<times> bool) list \<Rightarrow> CheckResult list" where
  "RunWorker cfg [] = []"
| "RunWorker cfg ((job, w, sent) # jobs) =
     (let result = Check cfg w job
      in if sent then result # RunWorker cfg jobs else [])"

text \<open>The results are those of the jobs, in their order, up to the first that could not be sent.\<close>

lemma RunWorker_results:
  "RunWorker cfg jobs = map (\<lambda>(job, w, _). Check cfg w job) (takeWhile (\<lambda>(_, _, sent). sent) jobs)"
  by (induction cfg jobs rule: RunWorker.induct) (simp_all add: Let_def)

end
