(* ===== verification/App.thy ===== *)
theory App
  imports Production Observability Links Migrations Http_Clients
begin

text \<open>
  The application of \<open>app.go\<close> and the parts of \<open>runtime.go\<close> and \<open>retention.go\<close> that run it: the
  start-up with its early returns and deferred closings, the goroutines that a role starts, and
  the shutdown as a step relation over their interleavings.
\<close>

section \<open>Errors, queues and stores\<close>

datatype app_error =
    InvalidConfiguration "config_error list"
  | InvalidWebhook net_error
  | SeedError string link_error
  | RepositoryError schema_error
  | QueueError rabbit_error
  | Failure go_error
  | AppText string
  | In string app_error

datatype configured_queue = MemoryQueue InMemoryQueue | RabbitQueue RabbitMQQueue rabbit_config

definition NewConfiguredQueueWithTopologyLossHandler ::
  "surroundings \<Rightarrow> nat \<Rightarrow> Config \<Rightarrow> bool \<Rightarrow> rabbit_error + configured_queue" where
  "NewConfiguredQueueWithTopologyLossHandler E n cfg handler =
     (if cfg_QueueType cfg = ''rabbitmq''
      then (case NewRabbitMQQueueWithTopologyLossHandler E cfg handler n of
              Inl err \<Rightarrow> Inl err
            | Inr (q, rc) \<Rightarrow> Inr (RabbitQueue q rc))
      else Inr (MemoryQueue (NewInMemoryQueue (nat (cfg_QueueBufferSize cfg)) (cfg_MaxJobAttempts cfg))))"

text \<open>The store of the configured repository; the other interfaces it may implement, for retention
  and for the alert outbox, are those of PostgreSQL only.\<close>

datatype app_store = MemStore MonitorStore | PgStore "db schema"

definition seedStore ::
  "(call \<Rightarrow> pg_env) \<Rightarrow> NetworkPolicy \<Rightarrow> Config \<Rightarrow> (call \<times> string) list \<Rightarrow> app_store \<Rightarrow> go_error option \<times> app_store" where
  "seedStore D policy cfg seeds st =
     (case st of
        MemStore s \<Rightarrow>
          (case SeedRepository InMemoryMonitorRepository cfg seeds s of (err, s) \<Rightarrow> (err, MemStore s))
      | PgStore sch \<Rightarrow>
          (case SeedRepository (PostgresMonitorRepository D policy) cfg seeds (sch_tables sch) of
             (err, d) \<Rightarrow> (err, PgStore (sch\<lparr>sch_tables := d\<rparr>))))"

text \<open>The metrics of the new service, whose gauge of monitors is set from the store.\<close>

definition countStore :: "(call \<Rightarrow> pg_env) \<Rightarrow> NetworkPolicy \<Rightarrow> call \<Rightarrow> Metrics \<Rightarrow> app_store \<Rightarrow> Metrics" where
  "countStore D policy c m st =
     (case st of
        MemStore s \<Rightarrow>
          svc_metrics (updateTotalLinks InMemoryMonitorRepository c \<lparr>svc_store = s, svc_metrics = m\<rparr>)
      | PgStore sch \<Rightarrow>
          svc_metrics (updateTotalLinks (PostgresMonitorRepository D policy) c
                         \<lparr>svc_store = sch_tables sch, svc_metrics = m\<rparr>))"

definition isPostgres :: "app_store \<Rightarrow> bool" where
  "isPostgres st = (case st of PgStore _ \<Rightarrow> True | MemStore _ \<Rightarrow> False)"

section \<open>Start-up\<close>

datatype component = HTTPServer | QueueScheduler | QueueWorkers | AlertDispatcher | Retention

text \<open>The surroundings of the process at start-up: the environment, the parsers, the files, the
  database and the broker, and whether the listener can be opened.\<close>

record app_env =
  ae_env :: config_env
  ae_parsers :: parsers
  ae_files :: link_files
  ae_startup :: "db startup"
  ae_pg :: "call \<Rightarrow> pg_env"
  ae_call :: "string \<Rightarrow> call"
  ae_count :: call
  ae_version :: string
  ae_commit :: string
  ae_buildDate :: string
  ae_rabbit :: surroundings
  ae_Listen :: "string \<Rightarrow> go_error option"

record application =
  ap_cfg :: Config
  ap_store :: app_store
  ap_metrics :: Metrics
  ap_queue :: "configured_queue option"
  ap_alerts :: AlertPolicy
  ap_api :: APIHandler
  ap_checkClient :: http_client
  ap_alertSender :: "(AlertSender \<times> http_client) option"
  ap_components :: "component list"

text \<open>The resources a start-up opens and closes, in order.\<close>

datatype resource_event = OpenedRepository | ClosedRepository | OpenedQueue | ClosedQueue

type_synonym 'a starting = "(app_error + 'a) \<times> resource_event list"

definition failStart :: "app_error \<Rightarrow> 'a starting" where
  "failStart err = (Inl err, [])"

text \<open>\<open>defer\<close> around the rest of a start-up: on an error the resource is closed.\<close>

definition holding :: "resource_event \<Rightarrow> resource_event \<Rightarrow> 'a starting \<Rightarrow> 'a starting" where
  "holding acquired released rest =
     (case rest of (r, evs) \<Rightarrow> (r, acquired # evs @ (if isl r then [released] else [])))"

text \<open>The seed links, which only a scheduler loads.\<close>

definition startSeeds :: "app_env \<Rightarrow> NetworkPolicy \<Rightarrow> Config \<Rightarrow> app_error + string list" where
  "startSeeds A policy cfg =
     (if \<not> roleEnabled (cfg_AppRole cfg) ''scheduler'' then Inr []
      else (case LoadSeedLinks (ae_files A) cfg of
              Inl err \<Rightarrow> Inl (SeedError ''load seed links'' err)
            | Inr links \<Rightarrow>
                if links = [] then Inr []
                else (case ValidateLinks (ae_parsers A) policy links of
                        Some err \<Rightarrow> Inl (SeedError ''invalid seed link configuration'' err)
                      | None \<Rightarrow> Inr links)))"

text \<open>The goroutines, in the order they are started.\<close>

definition startedComponents :: "Config \<Rightarrow> component list" where
  "startedComponents cfg =
     (if cfg_HealthAddr cfg \<noteq> [] then [HTTPServer] else []) @
     (if roleEnabled (cfg_AppRole cfg) ''scheduler'' then [QueueScheduler] else []) @
     (if roleEnabled (cfg_AppRole cfg) ''worker'' then [QueueWorkers] else []) @
     (if roleEnabled (cfg_AppRole cfg) ''alert-dispatcher'' \<and> cfg_AlertWebhookURL cfg \<noteq> [] then [AlertDispatcher] else []) @
     (if cfg_RetentionEnabled cfg then [Retention] else [])"

definition startQueue :: "app_env \<Rightarrow> nat \<Rightarrow> Config \<Rightarrow> app_error + configured_queue option" where
  "startQueue A n cfg =
     (if roleEnabled (cfg_AppRole cfg) ''scheduler'' \<or> roleEnabled (cfg_AppRole cfg) ''worker''
      then (case NewConfiguredQueueWithTopologyLossHandler (ae_rabbit A) n cfg True of
              Inl err \<Rightarrow> Inl (QueueError err)
            | Inr q \<Rightarrow> Inr (Some q))
      else Inr None)"

text \<open>The service, the clients and the API over the store.\<close>

definition newApplication ::
  "app_env \<Rightarrow> NetworkPolicy \<Rightarrow> Config \<Rightarrow> app_store \<Rightarrow> configured_queue option \<Rightarrow> application" where
  "newApplication A policy cfg st queue =
     \<lparr>ap_cfg = cfg, ap_store = st,
      ap_metrics = countStore (ae_pg A) policy (ae_count A)
        (NewMetricsForRole (c_wall (ae_count A)) (ae_version A) (ae_commit A)
           (ae_buildDate A) 0 (cfg_AppRole cfg)) st,
      ap_queue = queue,
      ap_alerts = \<lparr>ap_Enabled = cfg_AlertWebhookURL cfg \<noteq> [],
                   ap_FailureThreshold = cfg_AlertFailureThreshold cfg,
                   ap_Cooldown = cfg_AlertCooldown cfg\<rparr>,
      ap_api = NewAPIHandlerWithTimeout (cfg_APIKey cfg) (cfg_DatabaseOperationTimeout cfg),
      ap_checkClient = NewCheckHTTPClient cfg policy,
      ap_alertSender =
        (if roleEnabled (cfg_AppRole cfg) ''alert-dispatcher'' \<and> cfg_AlertWebhookURL cfg \<noteq> []
         then Some (NewAlertSender (cfg_AlertWebhookURL cfg) (cfg_UserAgent cfg)
                (Some \<lparr>hc_transport = Some (NewSecureTransport cfg policy),
                       hc_redirects = DefaultRedirects,
                       hc_Timeout = cfg_AlertDeliveryTimeout cfg\<rparr>))
         else None),
      ap_components = startedComponents cfg\<rparr>"

text \<open>What is left once the repository is open.\<close>

definition startServices ::
  "app_env \<Rightarrow> nat \<Rightarrow> NetworkPolicy \<Rightarrow> Config \<Rightarrow> string list \<Rightarrow> app_store \<Rightarrow> application starting" where
  "startServices A n policy cfg seedLinks st =
     (case (if seedLinks \<noteq> [] then seedStore (ae_pg A) policy cfg (map (\<lambda>l. (ae_call A l, l)) seedLinks) st
            else (None, st)) of
        (Some err, _) \<Rightarrow> failStart (In ''seed monitors'' (Failure err))
      | (None, st) \<Rightarrow>
          if cfg_RetentionEnabled cfg \<and> \<not> isPostgres st
          then failStart (AppText ''configured repository does not support data retention'')
          else if roleEnabled (cfg_AppRole cfg) ''alert-dispatcher'' \<and> cfg_AlertWebhookURL cfg \<noteq> [] \<and> \<not> isPostgres st
          then failStart (AppText ''configured repository does not support persisted alert delivery'')
          else (case startQueue A n cfg of
                  Inl err \<Rightarrow> failStart (In ''initialize queue'' err)
                | Inr queue \<Rightarrow>
                    (let listening =
                           (if cfg_HealthAddr cfg = [] then None else ae_Listen A (cfg_HealthAddr cfg));
                         rest = (case listening of
                                   Some err \<Rightarrow>
                                     failStart (In ''start HTTP server''
                                       (In (''listen on '' @ cfg_HealthAddr cfg) (Failure err)))
                                 | None \<Rightarrow> (Inr (newApplication A policy cfg st queue), []))
                     in if queue = None then rest else holding OpenedQueue ClosedQueue rest)))"

definition startApplication :: "app_env \<Rightarrow> nat \<Rightarrow> db schema \<Rightarrow> application starting" where
  "startApplication A n sch =
     (case LoadConfig (ae_env A) of
        Inl errs \<Rightarrow> failStart (InvalidConfiguration errs)
      | Inr cfg \<Rightarrow>
          (let policy = NewNetworkPolicy cfg;
               webhook = (if cfg_AlertWebhookURL cfg = [] then None
                          else ValidateURL (ParseURL (ae_parsers A)) (ParseAddr (ae_parsers A)) policy
                                 (cfg_AlertWebhookURL cfg))
           in case webhook of
                Some err \<Rightarrow> failStart (InvalidWebhook err)
              | None \<Rightarrow>
                  (case startSeeds A policy cfg of
                     Inl err \<Rightarrow> failStart err
                   | Inr seedLinks \<Rightarrow>
                       (case NewConfiguredRepository (ae_startup A) cfg sch of
                          (Inl err, _) \<Rightarrow> failStart (In ''initialize repository'' (RepositoryError err))
                        | (Inr kind, sch) \<Rightarrow>
                            holding OpenedRepository ClosedRepository
                              (startServices A n policy cfg seedLinks
                                 (if kind = PostgresRepository then PgStore sch
                                  else MemStore (NewMonitorStore policy)))))))"

section \<open>The goroutines\<close>

text \<open>\<open>RunRetention\<close> along its ticks: each brings the outcomes of a pass and says whether the context is
  done after it.\<close>

definition retentionPolicy :: "Config \<Rightarrow> RetentionPolicy" where
  "retentionPolicy cfg =
     \<lparr>rp_CheckResults = cfg_CheckResultsRetention cfg, rp_CheckJobs = cfg_CheckJobsRetention cfg,
      rp_AlertOutbox = cfg_AlertOutboxRetention cfg, rp_ResolvedIncident = cfg_ResolvedIncidentRetention cfg,
      rp_BatchSize = cfg_RetentionBatchSize cfg\<rparr>"

record retention_tick =
  rt_outcomes :: "nat \<Rightarrow> pg_outcome"
  rt_locked :: "string set"
  rt_call :: call
  rt_done :: bool

fun RunRetention :: "Config \<Rightarrow> retention_tick list \<Rightarrow> db \<Rightarrow> (go_error + RetentionResult) list \<times> db" where
  "RunRetention cfg [] d = ([], d)"
| "RunRetention cfg (k # ticks) d =
     (case DeleteExpiredData (rt_outcomes k) (rt_locked k) (rt_call k) (retentionPolicy cfg) d of
        (result, d) \<Rightarrow>
          if rt_done k then ([result], d)
          else (case RunRetention cfg ticks d of (results, d) \<Rightarrow> (result # results, d)))"

text \<open>\<open>RunQueueWorkers\<close>: the event its \<open>select\<close> takes first. A worker reports the error of its loop.\<close>

datatype workers_event =
    WorkersContext
  | ConsumerError "go_error option"
  | WorkerError worker_error
  | WorkersDone

definition RunQueueWorkers :: "go_error option \<Rightarrow> workers_event \<Rightarrow> bool \<Rightarrow> app_error option" where
  "RunQueueWorkers consumeErr ev ctxDone =
     (case consumeErr of
        Some err \<Rightarrow> Some (Failure err)
      | None \<Rightarrow>
          (case ev of
             WorkersContext \<Rightarrow> None
           | ConsumerError err \<Rightarrow>
               Some (In ''queue consumer stopped''
                       (Failure (case err of None \<Rightarrow> ErrQueueConsumerClosed | Some e \<Rightarrow> e)))
           | WorkerError (operation, err) \<Rightarrow> Some (In ''queue worker failed'' (In operation (Failure err)))
           | WorkersDone \<Rightarrow>
               if \<not> ctxDone then Some (AppText ''all queue workers stopped unexpectedly'') else None))"

definition runWorkerComponent :: "app_error option \<Rightarrow> bool \<Rightarrow> app_error option" where
  "runWorkerComponent err ctxDone =
     (case err of
        None \<Rightarrow> None
      | Some e \<Rightarrow> if ctxDone then None else Some (In ''queue workers stopped'' e))"

text \<open>What \<open>RunHTTPServer\<close> sends on \<open>done\<close>: \<open>ServerClosed\<close> is \<open>http.ErrServerClosed\<close>.\<close>

datatype serve_outcome = ServerClosed | ServeReturned "go_error option"

definition serveResult :: "serve_outcome \<Rightarrow> app_error option" where
  "serveResult o' =
     (case o' of
        ServerClosed \<Rightarrow> None
      | ServeReturned err \<Rightarrow>
          Some (In ''serve HTTP''
                  (case err of None \<Rightarrow> AppText ''HTTP server stopped without an error'' | Some e \<Rightarrow> Failure e)))"

section \<open>The running process\<close>

text \<open>A goroutine runs, reports an error in the two steps of \<open>reportFatal\<close> after its look at the
  context (the send, then the cancel), and ends with \<open>wg.Done\<close>. The main goroutine waits, cancels,
  closes the queue, joins and returns. \<open>pr_reported\<close> are the errors sent so far.\<close>

datatype comp_state = Running | Reporting app_error | Canceling | Ended

datatype main_state =
    Waiting
  | Stopping "app_error option"
  | Closing "app_error option"
  | Joining "app_error option"
  | Returned "app_error option"

record process =
  pr_signal :: bool
  pr_cancel :: bool
  pr_fatal :: "app_error option"
  pr_comps :: "component \<Rightarrow> comp_state option"
  pr_main :: main_state
  pr_queueOpen :: bool
  pr_repoOpen :: bool
  pr_reported :: "app_error set"

definition ctxDone :: "process \<Rightarrow> bool" where
  "ctxDone p \<longleftrightarrow> pr_signal p \<or> pr_cancel p"

definition launch :: "application \<Rightarrow> process" where
  "launch app =
     \<lparr>pr_signal = False, pr_cancel = False, pr_fatal = None,
      pr_comps = (\<lambda>c. if c \<in> set (ap_components app) then Some Running else None),
      pr_main = Waiting, pr_queueOpen = (ap_queue app \<noteq> None), pr_repoOpen = True, pr_reported = {}\<rparr>"

definition setComp :: "component \<Rightarrow> comp_state \<Rightarrow> process \<Rightarrow> process" where
  "setComp c s p = p\<lparr>pr_comps := (pr_comps p)(c \<mapsto> s)\<rparr>"

text \<open>The end of a goroutine with its error: the first lines of \<open>reportFatal\<close>.\<close>

definition endComp :: "component \<Rightarrow> app_error option \<Rightarrow> process \<Rightarrow> process" where
  "endComp c err p =
     (case err of
        None \<Rightarrow> setComp c Ended p
      | Some e \<Rightarrow> if ctxDone p then setComp c Ended p else setComp c (Reporting e) p)"

definition allEnded :: "process \<Rightarrow> bool" where
  "allEnded p \<longleftrightarrow> (\<forall>c \<in> {HTTPServer, QueueScheduler, QueueWorkers, AlertDispatcher, Retention}.
     case pr_comps p c of None \<Rightarrow> True | Some s \<Rightarrow> s = Ended)"

inductive app_step :: "process \<Rightarrow> process \<Rightarrow> bool" where
  signal: "\<not> pr_signal p \<Longrightarrow> app_step p (p\<lparr>pr_signal := True\<rparr>)"
| loop_ends: "pr_comps p c = Some Running \<Longrightarrow> c \<in> {QueueScheduler, AlertDispatcher, Retention} \<Longrightarrow> ctxDone p \<Longrightarrow>
    app_step p (setComp c Ended p)"
| http_ends: "pr_comps p HTTPServer = Some Running \<Longrightarrow> (out = ServerClosed \<longrightarrow> ctxDone p) \<Longrightarrow>
    app_step p (endComp HTTPServer (serveResult out) p)"
| workers_end: "pr_comps p QueueWorkers = Some Running \<Longrightarrow> (ev = WorkersContext \<longrightarrow> ctxDone p) \<Longrightarrow>
    app_step p (endComp QueueWorkers (runWorkerComponent (RunQueueWorkers cerr ev (ctxDone p)) (ctxDone p)) p)"
| send: "pr_comps p c = Some (Reporting e) \<Longrightarrow>
    app_step p ((setComp c Canceling p)\<lparr>pr_fatal := (case pr_fatal p of None \<Rightarrow> Some e | Some e' \<Rightarrow> Some e'),
                  pr_reported := insert e (pr_reported p)\<rparr>)"
| cancel: "pr_comps p c = Some Canceling \<Longrightarrow> app_step p ((setComp c Ended p)\<lparr>pr_cancel := True\<rparr>)"
| main_signal: "pr_main p = Waiting \<Longrightarrow> pr_signal p \<Longrightarrow> app_step p (p\<lparr>pr_main := Stopping None\<rparr>)"
| main_fatal: "pr_main p = Waiting \<Longrightarrow> pr_fatal p = Some e \<Longrightarrow>
    app_step p (p\<lparr>pr_main := Stopping (Some e), pr_fatal := None\<rparr>)"
| main_cancel: "pr_main p = Stopping r \<Longrightarrow> app_step p (p\<lparr>pr_main := Closing r, pr_cancel := True\<rparr>)"
| main_close: "pr_main p = Closing r \<Longrightarrow> app_step p (p\<lparr>pr_main := Joining r, pr_queueOpen := False\<rparr>)"
| main_join: "pr_main p = Joining r \<Longrightarrow> allEnded p \<Longrightarrow>
    app_step p (p\<lparr>pr_main := Returned r, pr_repoOpen := False\<rparr>)"

text \<open>The exit code of \<open>main.go\<close>.\<close>

definition exitCode :: "app_error option \<Rightarrow> int" where
  "exitCode err = (if err = None then 0 else 1)"

end
