(* ===== verification/App_Properties.thy ===== *)
theory App_Properties
  imports App
begin

text \<open>
  The life of the process: a start-up that fails closes what it opened, a start-up that succeeds
  starts what the role asks for, and a shutdown, once begun, always completes.
\<close>

section \<open>Start-up\<close>

text \<open>Resources are closed in the reverse order of their opening; \<open>open_after\<close> are those left open.\<close>

fun open_after :: "resource_event list \<Rightarrow> resource_event list \<Rightarrow> resource_event list option" where
  "open_after stack [] = Some stack"
| "open_after stack (OpenedRepository # evs) = open_after (OpenedRepository # stack) evs"
| "open_after stack (OpenedQueue # evs) = open_after (OpenedQueue # stack) evs"
| "open_after (OpenedRepository # stack) (ClosedRepository # evs) = open_after stack evs"
| "open_after (OpenedQueue # stack) (ClosedQueue # evs) = open_after stack evs"
| "open_after _ (_ # _) = None"

lemma newApplication_simps [simp]:
  "ap_cfg (newApplication A policy cfg st queue) = cfg" "ap_store (newApplication A policy cfg st queue) = st"
  "ap_queue (newApplication A policy cfg st queue) = queue"
  "ap_components (newApplication A policy cfg st queue) = startedComponents cfg"
  by (simp_all add: newApplication_def)

lemma startServices_events:
  assumes "startServices A n policy cfg seeds st = (r, evs)"
  shows "(\<exists>err. r = Inl err) \<and> (evs = [] \<or> evs = [OpenedQueue, ClosedQueue])
    \<or> (\<exists>app. r = Inr app \<and> ap_cfg app = cfg \<and> ap_components app = startedComponents cfg
        \<and> evs = (if ap_queue app = None then [] else [OpenedQueue])
        \<and> (ap_queue app = None \<longleftrightarrow> \<not> roleEnabled (cfg_AppRole cfg) ''scheduler'' \<and> \<not> roleEnabled (cfg_AppRole cfg) ''worker'')
        \<and> (Retention \<in> set (ap_components app) \<or> AlertDispatcher \<in> set (ap_components app) \<longrightarrow> isPostgres (ap_store app)))"
proof -
  obtain e st' where seed: "(if seeds \<noteq> [] then seedStore (ae_pg A) policy cfg (map (\<lambda>l. (ae_call A l, l)) seeds) st
      else (None, st)) = (e, st')" by fastforce
  note run = assms [unfolded startServices_def seed prod.case]
  show ?thesis
  proof (cases e)
    case (Some err)
    with run show ?thesis by (auto simp: failStart_def)
  next
    case None
    note run = run [unfolded None option.case]
    consider "cfg_RetentionEnabled cfg \<and> \<not> isPostgres st'
        \<or> roleEnabled (cfg_AppRole cfg) ''alert-dispatcher'' \<and> cfg_AlertWebhookURL cfg \<noteq> [] \<and> \<not> isPostgres st'"
      | (services) "\<not> (cfg_RetentionEnabled cfg \<and> \<not> isPostgres st')"
        "\<not> (roleEnabled (cfg_AppRole cfg) ''alert-dispatcher'' \<and> cfg_AlertWebhookURL cfg \<noteq> [] \<and> \<not> isPostgres st')"
      by blast
    then show ?thesis
    proof cases
      case 1
      with run show ?thesis by (auto simp: failStart_def split: if_splits)
    next
      case services
      then have pg: "Retention \<in> set (startedComponents cfg) \<or> AlertDispatcher \<in> set (startedComponents cfg) \<Longrightarrow> isPostgres st'"
        by (auto simp: startedComponents_def split: if_splits)
      note run = run [unfolded if_not_P [OF services(1)] if_not_P [OF services(2)]]
      show ?thesis
      proof (cases "startQueue A n cfg")
        case (Inl err)
        with run show ?thesis by (auto simp: failStart_def)
      next
        case (Inr queue)
        then have "queue = None \<longleftrightarrow> \<not> roleEnabled (cfg_AppRole cfg) ''scheduler'' \<and> \<not> roleEnabled (cfg_AppRole cfg) ''worker''"
          by (auto simp: startQueue_def split: if_splits sum.splits)
        with run Inr pg show ?thesis
          by (auto simp: Let_def failStart_def holding_def split: option.splits if_splits)
      qed
    qed
  qed
qed


section \<open>Shutdown\<close>

text \<open>A weight that every step lowers.\<close>

fun comp_weight :: "comp_state option \<Rightarrow> nat" where
  "comp_weight (Some Running) = 3"
| "comp_weight (Some (Reporting _)) = 2"
| "comp_weight (Some Canceling) = 1"
| "comp_weight _ = 0"

fun main_weight :: "main_state \<Rightarrow> nat" where
  "main_weight Waiting = 4"
| "main_weight (Stopping _) = 3"
| "main_weight (Closing _) = 2"
| "main_weight (Joining _) = 1"
| "main_weight (Returned _) = 0"

definition weight :: "process \<Rightarrow> nat" where
  "weight p = (if pr_signal p then 0 else 1) + main_weight (pr_main p)
     + (\<Sum>c \<in> {HTTPServer, QueueScheduler, QueueWorkers, AlertDispatcher, Retention}. comp_weight (pr_comps p c))"

lemma component_cases:
  "c \<in> {HTTPServer, QueueScheduler, QueueWorkers, AlertDispatcher, Retention}"
  by (cases c) simp_all

lemma setComp_weight:
  "weight (setComp c s p) + comp_weight (pr_comps p c) = weight p + comp_weight (Some s)"
proof -
  let ?C = "{HTTPServer, QueueScheduler, QueueWorkers, AlertDispatcher, Retention}"
  have "(\<Sum>c' \<in> ?C. comp_weight (((pr_comps p)(c \<mapsto> s)) c')) + comp_weight (pr_comps p c)
      = (\<Sum>c' \<in> ?C. comp_weight (pr_comps p c')) + comp_weight (Some s)"
    using sum.remove [of ?C c "\<lambda>c'. comp_weight (((pr_comps p)(c \<mapsto> s)) c')"]
      sum.remove [of ?C c "\<lambda>c'. comp_weight (pr_comps p c')"]
      sum.cong [of "?C - {c}" "?C - {c}" "\<lambda>c'. comp_weight (((pr_comps p)(c \<mapsto> s)) c')" "\<lambda>c'. comp_weight (pr_comps p c')"]
      component_cases [of c]
    by simp
  then show ?thesis by (simp add: weight_def setComp_def)
qed

lemma weight_updates [simp]:
  "weight (p\<lparr>pr_fatal := f\<rparr>) = weight p" "weight (p\<lparr>pr_reported := r\<rparr>) = weight p" "weight (p\<lparr>pr_cancel := b\<rparr>) = weight p"
  "weight (p\<lparr>pr_queueOpen := b\<rparr>) = weight p" "weight (p\<lparr>pr_repoOpen := b\<rparr>) = weight p"
  by (simp_all add: weight_def)

lemma setComp_lowers: "comp_weight (Some s) < comp_weight (pr_comps p c) \<Longrightarrow> weight (setComp c s p) < weight p"
  using setComp_weight [of c s p] by simp

lemma endComp_lowers: "pr_comps p c = Some Running \<Longrightarrow> weight (endComp c err p) < weight p"
  by (auto simp: endComp_def split: option.split intro!: setComp_lowers)

lemma main_lowers: "main_weight m < main_weight (pr_main p) \<Longrightarrow> weight (p\<lparr>pr_main := m\<rparr>) < weight p"
  by (simp add: weight_def)

lemma app_step_lowers: "app_step p p' \<Longrightarrow> weight p' < weight p"
proof (induction rule: app_step.induct)
  case (signal p)
  then show ?case by (simp add: weight_def)
qed (auto intro!: setComp_lowers endComp_lowers main_lowers)

text \<open>Why the main goroutine stops, and what holds in its states.\<close>

definition fatal_error :: "app_error \<Rightarrow> bool" where
  "fatal_error e \<longleftrightarrow> (\<exists>x. e = In ''serve HTTP'' x \<or> e = In ''queue workers stopped'' x)"

definition reason :: "app_error option \<Rightarrow> process \<Rightarrow> bool" where
  "reason r p \<longleftrightarrow> (case r of None \<Rightarrow> pr_signal p | Some e \<Rightarrow> e \<in> pr_reported p)"

definition main_ok :: "process \<Rightarrow> bool" where
  "main_ok p \<longleftrightarrow>
     (case pr_main p of
        Waiting \<Rightarrow> True
      | Stopping r \<Rightarrow> reason r p
      | Closing r \<Rightarrow> reason r p \<and> pr_cancel p
      | Joining r \<Rightarrow> reason r p \<and> pr_cancel p \<and> \<not> pr_queueOpen p
      | Returned r \<Rightarrow> reason r p \<and> pr_cancel p \<and> \<not> pr_queueOpen p \<and> \<not> pr_repoOpen p \<and> allEnded p)"

text \<open>Errors are reported before the context is cancelled, so a cancelled context that the main
  goroutine has not noticed comes with an error it can receive.\<close>

definition comps_ok :: "process \<Rightarrow> bool" where
  "comps_ok p \<longleftrightarrow> (\<forall>c.
     (pr_comps p c = Some Ended \<longrightarrow> ctxDone p)
   \<and> (pr_comps p c = Some Canceling \<and> pr_main p = Waiting \<longrightarrow> pr_fatal p \<noteq> None)
   \<and> (\<forall>e. pr_comps p c = Some (Reporting e) \<longrightarrow> fatal_error e))"

definition fatal_ok :: "process \<Rightarrow> bool" where
  "fatal_ok p \<longleftrightarrow> (pr_cancel p \<and> pr_main p = Waiting \<longrightarrow> pr_fatal p \<noteq> None)
   \<and> (\<forall>e. pr_fatal p = Some e \<longrightarrow> e \<in> pr_reported p) \<and> (\<forall>e \<in> pr_reported p. fatal_error e)"

lemma allEnded_iff: "allEnded p \<longleftrightarrow> (\<forall>c s. pr_comps p c = Some s \<longrightarrow> s = Ended)"
proof
  assume ended: "allEnded p"
  show "\<forall>c s. pr_comps p c = Some s \<longrightarrow> s = Ended"
  proof (intro allI impI)
    fix c s assume "pr_comps p c = Some s"
    moreover have "case pr_comps p c of None \<Rightarrow> True | Some s \<Rightarrow> s = Ended"
      using ended component_cases [of c] unfolding allEnded_def by (rule bspec)
    ultimately show "s = Ended" by simp
  qed
qed (auto simp: allEnded_def split: option.split)

lemma setComp_simps [simp]:
  "pr_signal (setComp c s p) = pr_signal p" "pr_cancel (setComp c s p) = pr_cancel p"
  "pr_fatal (setComp c s p) = pr_fatal p" "pr_main (setComp c s p) = pr_main p"
  "pr_queueOpen (setComp c s p) = pr_queueOpen p" "pr_repoOpen (setComp c s p) = pr_repoOpen p"
  "pr_reported (setComp c s p) = pr_reported p" "pr_comps (setComp c s p) = (pr_comps p)(c \<mapsto> s)"
  by (simp_all add: setComp_def)

lemma outcomes:
  "serveResult out = None \<Longrightarrow> out = ServerClosed"
  "serveResult out = Some e \<Longrightarrow> fatal_error e"
  "runWorkerComponent (RunQueueWorkers cerr ev d) d = None \<Longrightarrow> d \<or> ev = WorkersContext"
  "runWorkerComponent r d = Some e \<Longrightarrow> fatal_error e"
  by (auto simp: serveResult_def runWorkerComponent_def RunQueueWorkers_def fatal_error_def
      split: serve_outcome.splits option.splits workers_event.splits if_splits)

definition app_inv :: "process \<Rightarrow> bool" where
  "app_inv p \<longleftrightarrow> main_ok p \<and> comps_ok p \<and> fatal_ok p"

lemma setComp_inv:
  assumes "app_inv p" "pr_comps p c = Some s0" "s0 \<noteq> Ended"
    and "s = Ended \<and> ctxDone p \<or> (\<exists>e. s = Reporting e \<and> fatal_error e)"
  shows "app_inv (setComp c s p)"
proof -
  have "\<not> allEnded p" using assms(2,3) by (auto simp: allEnded_iff)
  with assms(1) have "main_ok (setComp c s p)"
    by (auto simp: app_inv_def main_ok_def reason_def split: main_state.splits option.splits)
  moreover have "comps_ok (setComp c s p)"
    using assms(1,4) by (auto simp: app_inv_def comps_ok_def ctxDone_def)
  moreover have "fatal_ok (setComp c s p)" using assms(1) by (simp add: app_inv_def fatal_ok_def)
  ultimately show ?thesis by (simp add: app_inv_def)
qed

lemma endComp_inv:
  assumes "app_inv p" "pr_comps p c = Some Running"
    and "err = None \<Longrightarrow> ctxDone p" "\<And>e. err = Some e \<Longrightarrow> fatal_error e"
  shows "app_inv (endComp c err p)"
  using assms by (auto simp: endComp_def split: option.split intro!: setComp_inv)

lemma app_step_inv: "app_step p p' \<Longrightarrow> app_inv p \<Longrightarrow> app_inv p'"
proof (induction rule: app_step.induct)
  case (http_ends p out)
  then show ?case by (intro endComp_inv) (auto dest: outcomes)
next
  case (workers_end p ev cerr)
  then show ?case by (intro endComp_inv) (auto dest: outcomes)
next
  case (loop_ends p c)
  then show ?case by (intro setComp_inv) auto
next
  case (send p c e)
  then have "\<not> allEnded p" by (auto simp: allEnded_iff)
  with send show ?case
    by (auto simp: app_inv_def main_ok_def comps_ok_def fatal_ok_def reason_def ctxDone_def
        split: main_state.splits option.splits)
next
  case (cancel p c)
  then have "\<not> allEnded p" by (auto simp: allEnded_iff)
  with cancel show ?case
    by (auto simp: app_inv_def main_ok_def comps_ok_def fatal_ok_def reason_def ctxDone_def
        split: main_state.splits option.splits)
qed (auto simp: app_inv_def main_ok_def comps_ok_def fatal_ok_def reason_def ctxDone_def allEnded_def
    split: main_state.splits option.splits)

lemma launch_inv: "app_inv (launch app)"
  by (auto simp: app_inv_def main_ok_def comps_ok_def fatal_ok_def launch_def split: if_splits)

lemma launch_weight: "weight (launch app) \<le> 20"
proof -
  have "comp_weight (pr_comps (launch app) c) \<le> 3" for c by (simp add: launch_def)
  then have "(\<Sum>c \<in> {HTTPServer, QueueScheduler, QueueWorkers, AlertDispatcher, Retention}. comp_weight (pr_comps (launch app) c)) \<le> 15"
    using sum_mono [of "{HTTPServer, QueueScheduler, QueueWorkers, AlertDispatcher, Retention}"
        "\<lambda>c. comp_weight (pr_comps (launch app) c)" "\<lambda>_. 3"] by simp
  then show ?thesis by (simp add: weight_def launch_def)
qed

lemma runs_inv: "app_step\<^sup>*\<^sup>* p p' \<Longrightarrow> app_inv p \<Longrightarrow> app_inv p' \<and> weight p' \<le> weight p"
  by (induction rule: rtranclp_induct) (auto dest: app_step_inv app_step_lowers)

lemma runs_length: "(app_step ^^ n) p p' \<Longrightarrow> n + weight p' \<le> weight p"
proof (induction n arbitrary: p')
  case (Suc n)
  then obtain p1 where "(app_step ^^ n) p p1" "app_step p1 p'" by auto
  with Suc.IH [of p1] app_step_lowers [of p1 p'] show ?case by simp
qed simp

text \<open>The process was asked to stop, or is about to ask itself.\<close>

definition stopping :: "process \<Rightarrow> bool" where
  "stopping p \<longleftrightarrow> ctxDone p \<or> pr_fatal p \<noteq> None \<or> pr_main p \<noteq> Waiting \<or> (\<exists>c e. pr_comps p c = Some (Reporting e))"

text \<open>A step of a goroutine, not a further signal.\<close>

definition advances_own :: "process \<Rightarrow> bool" where
  "advances_own p \<longleftrightarrow> (\<exists>p'. app_step p p' \<and> pr_signal p' = pr_signal p)"

lemma advances_ownI: "app_step p p' \<Longrightarrow> pr_signal p' = pr_signal p \<Longrightarrow> advances_own p"
  unfolding advances_own_def by blast

lemma comp_advances:
  assumes "pr_comps p c = Some s" "s \<noteq> Ended" "ctxDone p \<or> s \<noteq> Running"
  shows "advances_own p"
proof (cases s)
  case Running
  with assms have c: "pr_comps p c = Some Running" and ctx: "ctxDone p" by auto
  show ?thesis
  proof (cases c)
    case HTTPServer
    with c ctx show ?thesis
      by (intro advances_ownI [OF app_step.http_ends [of p ServerClosed]]) (simp_all add: endComp_def serveResult_def)
  next
    case QueueWorkers
    with c ctx show ?thesis
      by (intro advances_ownI [OF app_step.workers_end [of p WorkersContext None]])
        (simp_all add: endComp_def runWorkerComponent_def RunQueueWorkers_def)
  qed (auto intro!: advances_ownI [OF app_step.loop_ends [OF c _ ctx]])
next
  case (Reporting e)
  with assms show ?thesis by (intro advances_ownI [OF app_step.send [of p c e]]) auto
next
  case Canceling
  with assms show ?thesis by (intro advances_ownI [OF app_step.cancel [of p c]]) auto
qed (use assms in simp)

lemma main_advances:
  assumes "app_inv p" "ctxDone p \<or> pr_fatal p \<noteq> None \<or> pr_main p \<noteq> Waiting" "\<And>r. pr_main p \<noteq> Returned r"
  shows "advances_own p"
proof (cases "pr_main p")
  case Waiting
  show ?thesis
  proof (cases "pr_signal p")
    case True
    with Waiting show ?thesis by (intro advances_ownI [OF app_step.main_signal [of p]]) auto
  next
    case False
    with Waiting assms(1,2) obtain e where "pr_fatal p = Some e"
      by (auto simp: app_inv_def fatal_ok_def ctxDone_def)
    with Waiting show ?thesis by (intro advances_ownI [OF app_step.main_fatal [of p e]]) auto
  qed
next
  case (Stopping r)
  then show ?thesis by (intro advances_ownI [OF app_step.main_cancel [of p r]]) auto
next
  case (Closing r)
  then show ?thesis by (intro advances_ownI [OF app_step.main_close [of p r]]) auto
next
  case (Joining r)
  show ?thesis
  proof (cases "allEnded p")
    case True
    with Joining show ?thesis by (intro advances_ownI [OF app_step.main_join [of p r]]) auto
  next
    case False
    then obtain c s where "pr_comps p c = Some s" "s \<noteq> Ended" by (auto simp: allEnded_iff)
    moreover have "ctxDone p" using assms(1) Joining by (simp add: app_inv_def main_ok_def ctxDone_def)
    ultimately show ?thesis by (intro comp_advances) auto
  qed
qed (use assms(3) in simp)

lemma stopping_advances:
  "app_inv p \<Longrightarrow> stopping p \<Longrightarrow> (\<And>r. pr_main p \<noteq> Returned r) \<Longrightarrow> advances_own p"
  using main_advances [of p] comp_advances unfolding stopping_def by blast

text \<open>
  C39. The shutdown of the process, over all interleavings of its goroutines, the signal and the
  reports of fatal errors. When the application returns, every goroutine it started has ended,
  its context is cancelled and the queue and the repository are closed; it returns nil only
  after a signal, and otherwise an error that the HTTP server or the workers reported. Once the process
  is stopping it is never stuck before it returns: a goroutine can always take a step, even
  when no signal comes. And no run takes more than twenty steps of this kind, so a shutdown that has
  begun completes.\<close>

theorem application_shuts_down:
  assumes "app_step\<^sup>*\<^sup>* (launch app) p"
  shows "(\<forall>r. pr_main p = Returned r \<longrightarrow>
        allEnded p \<and> pr_cancel p \<and> \<not> pr_queueOpen p \<and> \<not> pr_repoOpen p
        \<and> (case r of None \<Rightarrow> pr_signal p | Some e \<Rightarrow> fatal_error e \<and> e \<in> pr_reported p))
    \<and> (stopping p \<and> (\<forall>r. pr_main p \<noteq> Returned r) \<longrightarrow> advances_own p)
    \<and> (\<forall>n p'. (app_step ^^ n) p p' \<longrightarrow> n \<le> 20)"
proof -
  have inv: "app_inv p" and w: "weight p \<le> 20"
    using runs_inv [OF assms launch_inv] launch_weight [of app] by auto
  have "allEnded p \<and> pr_cancel p \<and> \<not> pr_queueOpen p \<and> \<not> pr_repoOpen p
        \<and> (case r of None \<Rightarrow> pr_signal p | Some e \<Rightarrow> fatal_error e \<and> e \<in> pr_reported p)"
    if "pr_main p = Returned r" for r
    using inv that by (auto simp: app_inv_def main_ok_def fatal_ok_def reason_def split: option.split)
  moreover have "n \<le> 20" if "(app_step ^^ n) p p'" for n p'
    using runs_length [OF that] w by simp
  ultimately show ?thesis using stopping_advances [OF inv] by blast
qed

text \<open>The consumer of a worker process stops and the process ends with its error.\<close>

definition demo_app :: application where
  "demo_app =
     \<lparr>ap_cfg = demo_config, ap_store = MemStore (NewMonitorStore demo_policy), ap_metrics = newMetrics 1 ''v1'' ''abc'' ''today'' 0 False,
      ap_queue = Some (MemoryQueue (NewInMemoryQueue 4 3)),
      ap_alerts = \<lparr>ap_Enabled = False, ap_FailureThreshold = 3, ap_Cooldown = 0\<rparr>,
      ap_api = NewAPIHandlerWithTimeout [] 0, ap_checkClient = NewCheckHTTPClient demo_config demo_policy,
      ap_alertSender = None, ap_components = [QueueWorkers]\<rparr>"

definition demo_failure :: app_error where
  "demo_failure = In ''queue workers stopped'' (In ''queue consumer stopped'' (Failure ErrQueueConsumerClosed))"

definition demo_failing :: process where
  "demo_failing = (launch demo_app)\<lparr>pr_comps := [QueueWorkers \<mapsto> Reporting demo_failure]\<rparr>"

lemma demo_launch:
  "launch demo_app =
     \<lparr>pr_signal = False, pr_cancel = False, pr_fatal = None, pr_comps = [QueueWorkers \<mapsto> Running],
      pr_main = Waiting, pr_queueOpen = True, pr_repoOpen = True, pr_reported = {}\<rparr>"
  by (auto simp: launch_def demo_app_def)

lemma demo_run:
  "app_step\<^sup>*\<^sup>* (launch demo_app) (demo_failing\<lparr>pr_comps := [QueueWorkers \<mapsto> Ended], pr_reported := {demo_failure}, pr_cancel := True,
     pr_main := Returned (Some demo_failure), pr_queueOpen := False, pr_repoOpen := False\<rparr>)"
proof -
  let ?p2 = "demo_failing\<lparr>pr_comps := [QueueWorkers \<mapsto> Canceling], pr_fatal := Some demo_failure, pr_reported := {demo_failure}\<rparr>"
  let ?p3 = "?p2\<lparr>pr_comps := [QueueWorkers \<mapsto> Ended], pr_cancel := True\<rparr>"
  let ?p4 = "?p3\<lparr>pr_main := Stopping (Some demo_failure), pr_fatal := None\<rparr>"
  let ?p5 = "?p4\<lparr>pr_main := Closing (Some demo_failure)\<rparr>"
  let ?p6 = "?p5\<lparr>pr_main := Joining (Some demo_failure), pr_queueOpen := False\<rparr>"
  let ?p7 = "?p6\<lparr>pr_main := Returned (Some demo_failure), pr_repoOpen := False\<rparr>"
  have "app_step (launch demo_app) demo_failing"
    using app_step.workers_end [of "launch demo_app" "ConsumerError None" None]
    by (simp add: demo_launch demo_failing_def endComp_def setComp_def ctxDone_def runWorkerComponent_def
        RunQueueWorkers_def demo_failure_def)
  moreover have "app_step demo_failing ?p2"
    using app_step.send [of demo_failing QueueWorkers demo_failure] by (simp add: demo_failing_def demo_launch setComp_def)
  moreover have "app_step ?p2 ?p3"
    using app_step.cancel [of ?p2 QueueWorkers] by (simp add: setComp_def demo_failing_def demo_launch)
  moreover have "app_step ?p3 ?p4"
    using app_step.main_fatal [of ?p3 demo_failure] by (simp add: demo_failing_def demo_launch)
  moreover have "app_step ?p4 ?p5"
    using app_step.main_cancel [of ?p4 "Some demo_failure"] by (simp add: demo_failing_def demo_launch)
  moreover have "app_step ?p5 ?p6"
    using app_step.main_close [of ?p5 "Some demo_failure"] by (simp add: demo_failing_def demo_launch)
  moreover have "app_step ?p6 ?p7"
    using app_step.main_join [of ?p6 "Some demo_failure"] by (simp add: allEnded_def demo_failing_def demo_launch)
  ultimately have "app_step\<^sup>*\<^sup>* (launch demo_app) ?p7" by (meson converse_rtranclp_into_rtranclp rtranclp.rtrancl_refl)
  then show ?thesis by (simp add: demo_failing_def demo_launch)
qed

theorem application_shuts_down_witness:
  "\<exists>p. app_step\<^sup>*\<^sup>* (launch demo_app) p \<and> pr_main p = Returned (Some demo_failure)
    \<and> allEnded p \<and> \<not> pr_queueOpen p \<and> demo_failure \<in> pr_reported p \<and> exitCode (Some demo_failure) = 1"
  using application_shuts_down [OF demo_run] demo_run by (intro exI [of _ "demo_failing\<lparr>pr_comps := [QueueWorkers \<mapsto> Ended],
     pr_reported := {demo_failure}, pr_cancel := True, pr_main := Returned (Some demo_failure), pr_queueOpen := False,
     pr_repoOpen := False\<rparr>"]) (simp add: exitCode_def)

section \<open>The retention loop\<close>

lemma RunRetention_ok: "db_ok d \<Longrightarrow> db_ok (snd (RunRetention cfg ticks d))"
proof (induction ticks arbitrary: d)
  case (Cons k ticks)
  obtain r d1 where pass: "DeleteExpiredData (rt_outcomes k) (rt_locked k) (rt_call k) (retentionPolicy cfg) d = (r, d1)"
    by fastforce
  then have "db_ok d1" using DeleteExpiredData_ok [OF Cons.prems] by (metis snd_conv)
  with Cons.IH [of d1] show ?case by (auto simp: pass split: prod.split)
qed simp

end
