(* ===== verification/Spec2Isabelle.thy ===== *)
theory Spec2Isabelle
  imports Store_Properties Store_Effects Store_Queries Status_Policy Config Checker Scheduler Pg_Properties
    Observability Links Migrations Rabbit_Properties Production App_Properties
begin

text \<open>
  The site checker is a Go service that checks web sites. An HTTP API manages monitors (a URL, an
  interval, an expected status); a scheduler claims the monitors that are due and publishes one
  message per job to a queue; workers take the messages, probe the site and record the result; a
  failing monitor opens an incident, whose alerts a dispatcher delivers to a webhook from an
  outbox; retention removes old rows. The state is in memory or in PostgreSQL, the queue is in
  memory or RabbitMQ, and a process plays one of the roles \<open>api\<close>, \<open>scheduler\<close>, \<open>worker\<close> and
  \<open>alert-dispatcher\<close>, or all of them. The sources are the Go files of \<open>src/internal/sitechecker\<close>.

  \<^bold>\<open>Interaction.\<close> The handlers of \<open>api.go\<close>, the scheduler and the workers of \<open>runtime.go\<close> call the
  service of \<open>service.go\<close>, which calls a \<open>MonitorRepository\<close> and counts in the metrics. Scheduler
  and workers also call the queue. They run as goroutines and as several processes, so what
  keeps them apart are the publication claims and the processing leases the repository issues,
  both protected by random tokens. \<open>app.go\<close> builds all parts, starts the goroutines and stops them.

  \<^bold>\<open>Theories and sources.\<close>
    \<^item> \<open>Go_Prelude\<close>, \<open>Go_Strings\<close>: what the code uses of Go and its standard library: instants, 64-bit
      wrap-around, slices with their bounds check, errors, byte strings and decimal conversion.
    \<^item> \<open>Net_Addr\<close>, \<open>Network_Policy\<close>, \<open>Http_Clients\<close>: \<open>security.go\<close> and the clients of \<open>alert.go\<close>. Addresses are 32-bit
      and 128-bit words; the URL parser, the resolver and the dialer are arguments.
    \<^item> \<open>Status_Policy\<close>, \<open>Backoff\<close>, \<open>Domain\<close>: \<open>status_policy.go\<close>, the retry delays of \<open>alert.go\<close>, \<open>queue.go\<close> and
      \<open>runtime.go\<close>, and the data of \<open>monitor.go\<close>.
    \<^item> \<open>Config\<close>: \<open>config.go\<close>, in the state monad over the slice of errors it collects.
    \<^item> \<open>Bounded_Log\<close>, \<open>Monitor_Store\<close>: the in-memory repository of \<open>monitor.go\<close>, every operation on the record
      \<open>MonitorStore\<close>. \<open>Store_Logs\<close>, \<open>Store_Invariant\<close>, \<open>Store_Jobs\<close> and \<open>Store_Preserves\<close> prove the
      representation invariant \<open>store_inv\<close>; \<open>Store_Claim\<close>, \<open>Job_Lifecycle\<close>, \<open>Lease_Fencing\<close>,
      \<open>Store_Effects\<close> and \<open>Store_Queries\<close> the behaviour; \<open>Scenario\<close> is a concrete run.
    \<^item> \<open>Repository\<close>, \<open>Service\<close>, \<open>Metrics\<close>: \<open>repository.go\<close> as a record of operations, \<open>service.go\<close>, \<open>metrics.go\<close>.
    \<^item> \<open>Memory_Queue\<close>, \<open>Scheduler\<close>, \<open>Worker\<close>, \<open>Worker_Store\<close>, \<open>Checker\<close>, \<open>Alert\<close>: the in-memory queue of \<open>queue.go\<close>, the
      scheduler and the queue worker of \<open>runtime.go\<close>, \<open>checker.go\<close> and \<open>alert.go\<close>.
    \<^item> \<open>Pg_Tables\<close>, \<open>Pg_Repository\<close>: the tables of the migrations and the operations of
      \<open>postgres_repository.go\<close> and \<open>postgres_retention.go\<close>; the other \<open>Pg_\<close> theories prove their
      constraints, the refinement of the life cycle, the fencing, the effects of a check, and the
      contracts of the worker and of the dispatcher. \<open>Migrations\<close>: \<open>db.go\<close>.
    \<^item> \<open>Rabbit\<close>: the RabbitMQ queue of \<open>queue.go\<close>. \<open>Rabbit_Logic\<close> is a program logic for it; \<open>Rabbit_Publish\<close>,
      \<open>Rabbit_Deliveries\<close>, \<open>Rabbit_Topology\<close>, \<open>Rabbit_Progress\<close> and \<open>Rabbit_Properties\<close> use it.
    \<^item> \<open>Production\<close>: scheduler and worker over RabbitMQ and PostgreSQL together.
    \<^item> \<open>Api\<close>, \<open>Api_Properties\<close>, \<open>Observability\<close>, \<open>Links\<close>: \<open>api.go\<close>, \<open>observability.go\<close> with \<open>openapi.go\<close>, \<open>links.go\<close>.
    \<^item> \<open>App\<close>, \<open>App_Properties\<close>: \<open>app.go\<close>, the role-dependent start-up of \<open>runtime.go\<close>, and \<open>retention.go\<close>.

  \<^bold>\<open>State and operations.\<close> A struct is a record, an operation that holds its mutex throughout is
  one function on that record, and a Go error is a value. Clock readings, random draws, the
  order in which a map is visited, the choice of a \<open>select\<close> and the answers of libraries are
  arguments, so the theorems hold for all of them. Where goroutines interleave inside an
  operation the model says so: the in-memory queue has a step relation at the grain of its
  critical sections (\<open>queue_step\<close>), the worker's handler lets other goroutines change the
  repository before each of its calls (\<open>point\<close>), RabbitMQ operations let them change the queue
  after each call to the library (\<open>re_others\<close>), and the process is a step relation over its
  goroutines (\<open>app_step\<close>). The random tokens and identifiers are assumed fresh where a theorem
  says so, never distinct without a hypothesis.

  PostgreSQL is a record of tables, a transaction is one step, and each statement and each commit
  succeeds, fails, or takes effect and loses its answer, as an oracle \<open>X\<close> decides; the rows that
  \<open>SKIP LOCKED\<close> passes over are an arbitrary set. The broker and the AMQP library answer
  each call by a function of all calls and answers so far. JSON codecs, the file system, the
  HTTP exchange and the effect of a migration script are arguments.

  \<^bold>\<open>What is proved.\<close>
    \<^item> The store: \<open>store_inv\<close> holds in every reachable state; a job moves only along its life
      cycle; a lease whose job left \<open>processing\<close> changes nothing ever again; a claim hands out
      publishable jobs and skips no due monitor; what a recorded check and a topology recovery do.
    \<^item> PostgreSQL: the constraints of the schema hold and a check is recorded completely or not at
      all, whatever statements fail; the tables refine the same life cycle and the same fencing.
    \<^item> The queues: the in-memory queue never holds a job twice; a RabbitMQ publication that returns
      nil was confirmed and not returned; no delivery is lost or settled twice; after a loss of the
      topology the queue is declared only once the jobs were recovered; every operation ends once
      its context does.
    \<^item> Scheduler, worker, dispatcher and retention, over the contracts of their repositories: a
      claim is marked or released, a delivery is settled once and for a stated reason, a batch of
      alerts is settled event by event, a retention pass removes only what is old.
    \<^item> The edges: an address is allowed exactly when it is public, and only allowed addresses are
      dialled; delays are capped exponentials; the configuration is within its bounds; the API
      answers every request and none without the key; readiness is exact; migrations are atomic;
      a start-up that fails closes what it opened; a shutdown completes.

  \<^bold>\<open>Interfaces.\<close> What a client needs of a provider is a locale, its lemmas are proved there once, and
  the locale is interpreted on the model of the provider: \<open>lease_repository\<close> (the worker) on the
  in-memory store as \<open>mem_leases\<close> and on PostgreSQL as \<open>pg_leases\<close>; \<open>publication_repository\<close> (the
  scheduler) on the store as \<open>mem_claims\<close>; \<open>alert_outbox\<close> (the dispatcher) on PostgreSQL as
  \<open>pg_outbox\<close>; \<open>quiet_repository\<close> (the API) on the in-memory repository as \<open>mem_api\<close>; \<open>retention\<close>
  on the two logs of the store as \<open>jobs_log\<close> and \<open>incidents_log\<close>; and the invariants of RabbitMQ
  operations, \<open>call_invariant\<close>, \<open>queue_invariant\<close>, \<open>settling_invariant\<close> and \<open>plain_invariant\<close>, as
  \<open>live\<close>, \<open>quiet\<close> and \<open>growing\<close>, and by \<open>topology_invariant\<close> for steady surroundings.

  \<^bold>\<open>Bounds and fuel.\<close> The loops of the RabbitMQ operations may run as long as the broker keeps
  failing. They take a number of turns and set \<open>rq_stuck\<close> when it is used up; safety holds for
  any number, and it is a theorem that \<open>rq_stuck\<close> is not set when the number of turns is more
  than \<open>L + 3\<close>, where the context is done from the \<open>L\<close>-th call on: each turn makes a call, and three
  loops are nested.
  No run of the process takes more than twenty of the steps of \<open>app_step\<close>, since each goroutine,
  the signal and the closings happen once. All other loops end by a
  measure or are structural.

  \<^bold>\<open>Simplifications.\<close> Instants and durations are integers of nanoseconds, with the 64-bit
  wrap-around written out where the code adds or doubles; \<open>integer\<close> columns are unbounded and
  \<open>timestamptz\<close> keeps microseconds, as the database does; the sum of durations in the metrics is exact instead of
  \<open>float64\<close>; an operation of the broker that its caller gave up waiting for runs to its end
  before the caller goes on.

  \<^bold>\<open>Not modelled.\<close> The logger and the signal handler \<open>Main\<close> installs, the listener and the serving
  loop of \<open>RunHTTPServer\<close>, the \<open>pprof\<close> handlers and the bytes of the OpenAPI document: they are I/O
  or data of the standard library. PostgreSQL, its driver, the AMQP library and the HTTP client
  are arguments of the model, not parts of it.
\<close>

end
